(* ===== verification/Prelude.thy ===== *)
theory Prelude
  imports Complex_Main "HOL-Library.Sublist"
begin

text \<open>
  Shared layer of the development: the relational tables the Postgres store consists of,
  the JavaScript numbers and strings the sources compute with, and the generic lemmas the
  component theories reuse.

  A table is the list of its rows in insertion order. \<open>find\<close> is Kysely's
  \<open>executeTakeFirst\<close>, \<open>filter\<close> is \<open>execute\<close>, \<open>update_where\<close> is \<open>UPDATE .. SET .. WHERE\<close>,
  \<open>insert_do_nothing\<close> and \<open>insert_do_update\<close> are \<open>INSERT .. ON CONFLICT\<close>.
\<close>

named_theorems table_simps \<open>rewriting of table operations\<close>
named_theorems frame_simps \<open>columns and tables an operation leaves unchanged\<close>

section \<open>Tables\<close>

definition update_where :: "('r \<Rightarrow> bool) \<Rightarrow> ('r \<Rightarrow> 'r) \<Rightarrow> 'r list \<Rightarrow> 'r list" where
  "update_where P f t = map (\<lambda>r. if P r then f r else r) t"

definition count_where :: "('r \<Rightarrow> bool) \<Rightarrow> 'r list \<Rightarrow> nat" where
  "count_where P t = length (filter P t)"

definition sum_where :: "('r \<Rightarrow> bool) \<Rightarrow> ('r \<Rightarrow> int) \<Rightarrow> 'r list \<Rightarrow> int" where
  "sum_where P v t = sum_list (map v (filter P t))"

definition delete_where :: "('r \<Rightarrow> bool) \<Rightarrow> 'r list \<Rightarrow> 'r list" where
  "delete_where P t = filter (\<lambda>r. \<not> P r) t"

definition insert_do_nothing :: "('r \<Rightarrow> bool) \<Rightarrow> 'r \<Rightarrow> 'r list \<Rightarrow> 'r list" where
  "insert_do_nothing conflict r t = (if list_ex conflict t then t else t @ [r])"

definition insert_do_update ::
    "('r \<Rightarrow> bool) \<Rightarrow> ('r \<Rightarrow> 'r) \<Rightarrow> 'r \<Rightarrow> 'r list \<Rightarrow> 'r list" where
  "insert_do_update conflict f r t =
     (if list_ex conflict t then update_where conflict f t else t @ [r])"

lemma update_where_Nil [simp]: "update_where P f [] = []"
  by (simp add: update_where_def)

lemma update_where_Cons [simp]:
  "update_where P f (r # t) = (if P r then f r else r) # update_where P f t"
  by (simp add: update_where_def)

lemma update_where_append [simp]:
  "update_where P f (t @ u) = update_where P f t @ update_where P f u"
  by (simp add: update_where_def)

lemma length_update_where [simp]: "length (update_where P f t) = length t"
  by (simp add: update_where_def)

lemma in_set_update_where:
  "r \<in> set (update_where P f t) \<longleftrightarrow> (\<exists>q\<in>set t. r = (if P q then f q else q))"
  by (auto simp: update_where_def)

lemma update_where_id: "(\<And>r. r \<in> set t \<Longrightarrow> P r \<Longrightarrow> f r = r) \<Longrightarrow> update_where P f t = t"
  by (induction t) auto

lemma update_where_none: "(\<And>r. r \<in> set t \<Longrightarrow> \<not> P r) \<Longrightarrow> update_where P f t = t"
  by (induction t) auto

lemma map_update_where:
  "(\<And>r. P r \<Longrightarrow> k (f r) = k r) \<Longrightarrow> map k (update_where P f t) = map k t"
  by (induction t) auto

lemma update_where_twice:
  "(\<And>r. P r \<Longrightarrow> P (f r)) \<Longrightarrow> (\<And>r. P r \<Longrightarrow> f (f r) = f r) \<Longrightarrow>
     update_where P f (update_where P f t) = update_where P f t"
  by (induction t) auto

text \<open>A lookup by a condition the update does not disturb finds the updated row.\<close>

lemma find_update_where:
  "(\<And>r. Q (if P r then f r else r) = Q r) \<Longrightarrow>
     find Q (update_where P f t) = map_option (\<lambda>r. if P r then f r else r) (find Q t)"
  by (induction t) auto

lemma list_ex_update_where:
  "(\<And>r. Q (if P r then f r else r) = Q r) \<Longrightarrow> list_ex Q (update_where P f t) = list_ex Q t"
  by (induction t) auto

lemma find_append: "find P (t @ u) = (case find P t of None \<Rightarrow> find P u | Some r \<Rightarrow> Some r)"
  by (induction t) auto

lemma find_None: "find P t = None \<longleftrightarrow> (\<forall>r\<in>set t. \<not> P r)"
  by (induction t) auto

lemma find_SomeD: "find P t = Some r \<Longrightarrow> P r \<and> r \<in> set t"
  by (induction t) (auto split: if_splits)

lemma find_NoneD: "find P t = None \<Longrightarrow> r \<in> set t \<Longrightarrow> \<not> P r"
  by (auto simp: find_None)

lemma find_unique:
  assumes "distinct (map k t)" and "r \<in> set t" and "k r = x"
  shows "find (\<lambda>q. k q = x) t = Some r"
  using assms by (induction t) (auto simp: image_iff)

lemma count_where_Nil [simp]: "count_where P [] = 0"
  by (simp add: count_where_def)

lemma count_where_Cons [simp]:
  "count_where P (r # t) = (if P r then Suc (count_where P t) else count_where P t)"
  by (simp add: count_where_def)

lemma count_where_append [simp]: "count_where P (t @ u) = count_where P t + count_where P u"
  by (simp add: count_where_def)

lemma count_where_0: "count_where P t = 0 \<longleftrightarrow> (\<forall>r\<in>set t. \<not> P r)"
  by (induction t) auto

lemma sum_where_Nil [simp]: "sum_where P v [] = 0"
  by (simp add: sum_where_def)

lemma sum_where_Cons [simp]:
  "sum_where P v (r # t) = (if P r then v r + sum_where P v t else sum_where P v t)"
  by (simp add: sum_where_def)

lemma sum_where_append [simp]: "sum_where P v (t @ u) = sum_where P v t + sum_where P v u"
  by (simp add: sum_where_def)

lemma sum_where_nonneg: "(\<And>r. r \<in> set t \<Longrightarrow> P r \<Longrightarrow> 0 \<le> v r) \<Longrightarrow> 0 \<le> sum_where P v t"
  by (induction t) auto

lemma sum_where_none: "(\<And>r. r \<in> set t \<Longrightarrow> \<not> P r) \<Longrightarrow> sum_where P v t = 0"
  by (induction t) auto

lemma sum_where_cong:
  "(\<And>r. r \<in> set t \<Longrightarrow> P r = Q r) \<Longrightarrow> (\<And>r. r \<in> set t \<Longrightarrow> Q r \<Longrightarrow> v r = w r) \<Longrightarrow>
     sum_where P v t = sum_where Q w t"
  by (induction t) auto

lemma sum_where_update_frame:
  "(\<And>r. P (if Q r then f r else r) = P r) \<Longrightarrow> (\<And>r. v (if Q r then f r else r) = v r) \<Longrightarrow>
     sum_where P v (update_where Q f t) = sum_where P v t"
  by (induction t) auto

lemmas table_defs = update_where_def count_where_def sum_where_def delete_where_def
  insert_do_nothing_def insert_do_update_def

lemma insert_do_nothing_in:
  "r' \<in> set (insert_do_nothing c r t) \<longleftrightarrow> r' \<in> set t \<or> (r' = r \<and> \<not> list_ex c t)"
  by (auto simp: insert_do_nothing_def)

lemma insert_do_nothing_idem:
  "c r \<Longrightarrow> insert_do_nothing c r' (insert_do_nothing c r t) = insert_do_nothing c r t"
  by (auto simp: insert_do_nothing_def)

lemma distinct_insert_do_nothing:
  assumes "distinct (map k t)" and "\<And>q. q \<in> set t \<Longrightarrow> k q = k r \<Longrightarrow> c q"
  shows "distinct (map k (insert_do_nothing c r t))"
  using assms by (force simp: insert_do_nothing_def list_ex_iff)

lemma distinct_insert_do_update:
  assumes "distinct (map k t)" and "\<And>q. q \<in> set t \<Longrightarrow> k q = k r \<Longrightarrow> c q"
    and "\<And>q. k (f q) = k q"
  shows "distinct (map k (insert_do_update c f r t))"
  using assms by (force simp: insert_do_update_def list_ex_iff map_update_where)

section \<open>JavaScript numbers\<close>

text \<open>
  \<open>Number(..)\<close> yields a finite value, an infinity or NaN. Cent amounts, counts and
  timestamps are finite integers far below \<open>2^53\<close>, where double arithmetic is exact; they are
  \<open>int\<close>. Values that come from the environment or a request are \<open>jsnum\<close> until
  \<open>Number.isFinite\<close> has been tested.
\<close>

datatype jsnum = NaN | Infinity bool | Fin rat

definition is_finite :: "jsnum \<Rightarrow> bool" where
  "is_finite x = (case x of Fin _ \<Rightarrow> True | _ \<Rightarrow> False)"

text \<open>\<open>Number.isFinite(raw) ? Math.max(lo, Math.min(hi, Math.floor(raw))) : fallback\<close>\<close>

definition clamp_floor :: "int \<Rightarrow> int \<Rightarrow> int \<Rightarrow> jsnum \<Rightarrow> int" where
  "clamp_floor lo hi fallback raw =
     (case raw of Fin q \<Rightarrow> max lo (min hi \<lfloor>q\<rfloor>) | _ \<Rightarrow> fallback)"

lemma clamp_floor_bounds:
  "lo \<le> hi \<Longrightarrow> lo \<le> fb \<Longrightarrow> fb \<le> hi \<Longrightarrow> lo \<le> clamp_floor lo hi fb x \<and> clamp_floor lo hi fb x \<le> hi"
  by (auto simp: clamp_floor_def split: jsnum.splits)

text \<open>\<open>INTEGER\<close> columns hold 32-bit signed values; Postgres aborts the statement otherwise.\<close>

definition int4 :: "int \<Rightarrow> bool" where
  "int4 n \<longleftrightarrow> - 2147483648 \<le> n \<and> n \<le> 2147483647"

section \<open>JavaScript strings (ASCII)\<close>

definition lower_char :: "char \<Rightarrow> char" where
  "lower_char c = (let n = of_char c :: nat in if 65 \<le> n \<and> n \<le> 90 then char_of (n + 32) else c)"

definition toLowerCase :: "string \<Rightarrow> string" where
  "toLowerCase = map lower_char"

definition is_space :: "char \<Rightarrow> bool" where
  "is_space c \<longleftrightarrow> (of_char c :: nat) \<in> {9, 10, 11, 12, 13, 32}"

definition trim :: "string \<Rightarrow> string" where
  "trim s = rev (dropWhile is_space (rev (dropWhile is_space s)))"

abbreviation startsWith :: "string \<Rightarrow> string \<Rightarrow> bool" where
  "startsWith s p \<equiv> prefix p s"

abbreviation endsWith :: "string \<Rightarrow> string \<Rightarrow> bool" where
  "endsWith s p \<equiv> suffix p s"

fun str_includes :: "string \<Rightarrow> string \<Rightarrow> bool" where
  "str_includes [] p = (p = [])"
| "str_includes (c # s) p = (take (length p) (c # s) = p \<or> str_includes s p)"

fun split_on :: "char \<Rightarrow> string \<Rightarrow> string list" where
  "split_on d [] = [[]]"
| "split_on d (c # s) =
     (if c = d then [] # split_on d s
      else (case split_on d s of [] \<Rightarrow> [[c]] | w # ws \<Rightarrow> (c # w) # ws))"

lemma split_on_not_Nil [simp]: "split_on d s \<noteq> []"
  by (induction s) (auto split: list.splits)

lemma str_includes_iff: "str_includes s p \<longleftrightarrow> sublist p s"
proof (induction s)
  case (Cons c s)
  have "take (length p) (c # s) = p \<longleftrightarrow> prefix p (c # s)"
    by (metis append_eq_conv_conj prefix_def take_is_prefix)
  with Cons show ?case by (simp add: sublist_Cons_right)
qed simp

section \<open>Numerals\<close>

fun show_nat :: "nat \<Rightarrow> string" where
  "show_nat n = (if n < 10 then [char_of (48 + n)] else show_nat (n div 10) @ [char_of (48 + n mod 10)])"

definition show_int :: "int \<Rightarrow> string" where
  "show_int i = (if i < 0 then CHR ''-'' # show_nat (nat (- i)) else show_nat (nat i))"

declare show_nat.simps [simp del]

section \<open>HTTP results\<close>

text \<open>A handler answers with a value (status 200) or with a status code and an error code.\<close>

datatype 'a response = Ok 'a | Reject nat string

definition truthy :: "string option \<Rightarrow> bool" where
  "truthy x = (case x of None \<Rightarrow> False | Some s \<Rightarrow> s \<noteq> [])"

lemma truthy_simps [simp]: "truthy None = False" "truthy (Some s) = (s \<noteq> [])"
  by (simp_all add: truthy_def)

text \<open>\<open>String(x ?? '')\<close> and \<open>x.replace(/\/$/, '')\<close>\<close>

definition or_blank :: "string option \<Rightarrow> string" where
  "or_blank x = (case x of None \<Rightarrow> [] | Some v \<Rightarrow> v)"

definition strip_slash :: "string \<Rightarrow> string" where
  "strip_slash x = (if endsWith x ''/'' then butlast x else x)"

section \<open>Paging\<close>

text \<open>\<open>page = max(1, page ?? 1)\<close>, \<open>limit = max(1, min(200, limit ?? 50))\<close>, then
  \<open>OFFSET (page - 1) * limit LIMIT limit\<close>, with the total of the unpaged query.\<close>

definition page_no :: "nat option \<Rightarrow> nat" where
  "page_no p = max 1 (case p of None \<Rightarrow> 1 | Some n \<Rightarrow> n)"

definition page_limit :: "nat \<Rightarrow> nat \<Rightarrow> nat option \<Rightarrow> nat" where
  "page_limit cap dflt l = max 1 (min cap (case l of None \<Rightarrow> dflt | Some n \<Rightarrow> n))"

definition paginate :: "nat option \<Rightarrow> nat option \<Rightarrow> 'r list \<Rightarrow> 'r list \<times> nat" where
  "paginate p l rows =
     (let lim = page_limit 200 50 l
      in (take lim (drop ((page_no p - 1) * lim) rows), length rows))"

lemma page_limit_le: "page_limit 200 dflt l \<le> 200"
  by (auto simp: page_limit_def)

lemma paginate_length: "length (fst (paginate p l rows)) \<le> 200"
  using page_limit_le [of 50 l] by (simp add: paginate_def Let_def)

lemma paginate_subset: "set (fst (paginate p l rows)) \<subseteq> set rows"
  by (auto simp: paginate_def Let_def dest!: in_set_takeD in_set_dropD)

text \<open>\<open>ORDER BY k DESC\<close>: a stable sort by the negated key.\<close>

definition order_desc :: "('r \<Rightarrow> int) \<Rightarrow> 'r list \<Rightarrow> 'r list" where
  "order_desc k = sort_key (\<lambda>r. - k r)"

lemma set_order_desc [simp]: "set (order_desc k t) = set t"
  by (simp add: order_desc_def)

lemma length_order_desc [simp]: "length (order_desc k t) = length t"
  by (simp add: order_desc_def)

end
