(* ===== verification/Schema.thy ===== *)
theory Schema
  imports Prelude
begin

text \<open>
  The data of the system: the status enumerations of \<open>src/src/types.ts\<close>, one record per
  Postgres table of \<open>src/src/db/types.ts\<close> that the modelled code reads or writes (columns in
  their order, with a prefix per table since HOL field names are global), and the store: the
  record of all tables, which every operation takes and returns. The columns that no modelled
  operation reads (\<open>payload_json\<close> of webhook events, \<open>metadata\<close> of the audit log) are left out.

  Timestamps are milliseconds; a nullable column is an \<open>option\<close>; ids, keys and addresses
  are strings. \<open>JSONB\<close> columns that the modelled code only carries around keep the type
  \<open>json\<close>; the validated task descriptor is a record.
\<close>

section \<open>JSON\<close>

datatype json = JNull | JBool bool | JNum jsnum | JStr string
  | JArr "json list" | JObj "(string \<times> json) list"

section \<open>Enumerations\<close>

datatype worker_status = WorkerActive | WorkerRateLimited | WorkerBanned

datatype job_status = JobOpen | JobClaimed | JobSubmitted | JobVerifying | JobDone
  | JobExpired | JobCancelled

datatype verdict = Pass | Fail | Inconclusive

datatype submission_status = SubSubmitted | SubValidated | SubQueued | SubVerifying
  | SubAccepted | SubFailed | SubInconclusive | SubDuplicate | SubBlocked

datatype bounty_status = BountyDraft | BountyPublished | BountyPaused | BountyClosed

datatype sub_payout_status = PayNone | PayPending | PayPaid | PayFailed | PayReversed

datatype verification_status = VerQueued | VerInProgress | VerFinished

datatype payout_status = PayoutPending | PayoutPaid | PayoutFailed | PayoutRefunded

datatype dispute_status = DisputeOpen | DisputeResolved | DisputeCancelled

datatype outbox_status = ObPending | ObProcessing | ObSent | ObDeadletter

datatype reservation_status = ResActive | ResReleased

datatype transfer_status = TrCreated | TrBroadcast | TrConfirmed | TrFailed

datatype artifact_status = ArtPresigned | ArtUploaded | ArtScanned | ArtAccepted
  | ArtBlocked | ArtScanFailed | ArtDeleted

datatype bucket_kind = Staging | Clean | Quarantine

section \<open>The validated task descriptor (\<open>schemas.ts\<close>)\<close>

record task_descriptor =
  td_type :: string
  td_capability_tags :: "string list"
  td_input_spec :: json
  td_output_spec :: json
  td_freshness_sla_sec :: "int option"
  td_site_profile :: "json option"

section \<open>Table rows\<close>

record workers_row =
  wk_id :: string
  wk_display_name :: "string option"
  wk_status :: worker_status
  wk_key_prefix :: string
  wk_key_hash :: string
  wk_capabilities :: "(string \<times> json) list"
  wk_rate_limited_until :: "int option"
  wk_payout_chain :: "string option"
  wk_payout_address :: "string option"
  wk_payout_address_verified_at :: "int option"
  wk_payout_address_proof :: "json option"
  wk_created_at :: int
  wk_last_seen_at :: "int option"

record orgs_row =
  org_id :: string
  org_name :: string
  org_platform_fee_bps :: int
  org_platform_fee_wallet_address :: "string option"
  org_cors_allow_origins :: "string list"
  org_daily_spend_limit_cents :: "int option"
  org_monthly_spend_limit_cents :: "int option"
  org_max_published_bounties :: "int option"
  org_max_open_jobs :: "int option"
  org_created_at :: int

record bounties_row =
  b_id :: string
  b_org_id :: string
  b_title :: string
  b_description :: string
  b_status :: bounty_status
  b_allowed_origins :: "string list"
  b_journey :: json
  b_payout_cents :: int
  b_coverage_payout_cents :: int
  b_required_proofs :: int
  b_fingerprint_classes :: "string list"
  b_tags :: "string list"
  b_dispute_window_sec :: int
  b_priority :: int
  b_task_descriptor :: "task_descriptor option"
  b_created_at :: int
  b_published_at :: "int option"

record jobs_row =
  j_id :: string
  j_bounty_id :: string
  j_fingerprint_class :: string
  j_status :: job_status
  j_lease_worker_id :: "string option"
  j_lease_expires_at :: "int option"
  j_lease_nonce :: "string option"
  j_current_submission_id :: "string option"
  j_final_verdict :: "verdict option"
  j_final_reason :: "string option"
  j_final_quality_score :: "rat option"
  j_done_at :: "int option"
  j_task_descriptor :: "task_descriptor option"
  j_created_at :: int

record submissions_row =
  s_id :: string
  s_job_id :: string
  s_worker_id :: string
  s_idempotency_key :: "string option"
  s_request_hash :: "string option"
  s_manifest :: json
  s_artifact_index :: json
  s_status :: submission_status
  s_dedupe_key :: "string option"
  s_final_verdict :: "verdict option"
  s_final_reason :: "string option"
  s_final_quality_score :: "rat option"
  s_payout_status :: "sub_payout_status option"
  s_created_at :: int

record verifications_row =
  v_id :: string
  v_submission_id :: string
  v_attempt_no :: int
  v_status :: verification_status
  v_claim_token :: "string option"
  v_claimed_by :: "string option"
  v_claim_expires_at :: "int option"
  v_verdict :: "verdict option"
  v_reason :: "string option"
  v_scorecard :: "json option"
  v_evidence :: "json option"
  v_created_at :: int

record payouts_row =
  p_id :: string
  p_submission_id :: string
  p_worker_id :: string
  p_amount_cents :: int
  p_status :: payout_status
  p_provider :: "string option"
  p_provider_ref :: "string option"
  p_net_amount_cents :: "int option"
  p_platform_fee_cents :: "int option"
  p_platform_fee_bps :: "int option"
  p_platform_fee_wallet_address :: "string option"
  p_proofwork_fee_cents :: "int option"
  p_proofwork_fee_bps :: "int option"
  p_proofwork_fee_wallet_address :: "string option"
  p_payout_chain :: "string option"
  p_hold_until :: "int option"
  p_blocked_reason :: "string option"
  p_created_at :: int
  p_updated_at :: int

record reputation_row =
  rep_worker_id :: string
  rep_alpha :: int
  rep_beta :: int
  rep_updated_at :: int

record accepted_dedupe_row =
  ad_bounty_id :: string
  ad_dedupe_key :: string
  ad_accepted_at :: int

record billing_accounts_row =
  ba_id :: string
  ba_org_id :: string
  ba_balance_cents :: int
  ba_currency :: string
  ba_created_at :: int
  ba_updated_at :: int

datatype event_type = BountyBudgetReserve | BountyBudgetRelease | DisputeRefund
  | StripeTopup | AdminTopup

record billing_events_row =
  be_id :: string
  be_account_id :: string
  be_event_type :: event_type
  be_amount_cents :: int
  be_metadata :: json
  be_created_at :: int

record reservations_row =
  br_id :: string
  br_account_id :: string
  br_bounty_id :: string
  br_amount_cents :: int
  br_status :: reservation_status
  br_created_at :: int
  br_released_at :: "int option"

datatype intent_status = IntentCreated | IntentPending | IntentSucceeded

record payment_intents_row =
  pi_id :: string
  pi_account_id :: string
  pi_provider :: string
  pi_provider_ref :: "string option"
  pi_amount_cents :: int
  pi_status :: intent_status
  pi_created_at :: int
  pi_updated_at :: int

record stripe_customers_row =
  cu_id :: string
  cu_org_id :: string
  cu_stripe_customer_id :: string
  cu_created_at :: int

datatype webhook_status = WhReceived | WhIgnored | WhFailed | WhProcessed

record stripe_events_row =
  se_id :: string
  se_event_type :: string
  se_received_at :: int
  se_processed_at :: "int option"
  se_status :: webhook_status
  se_last_error :: "string option"

record artifacts_row =
  a_id :: string
  a_submission_id :: "string option"
  a_job_id :: "string option"
  a_worker_id :: "string option"
  a_kind :: string
  a_label :: "string option"
  a_sha256 :: "string option"
  a_storage_key :: "string option"
  a_final_url :: "string option"
  a_content_type :: "string option"
  a_size_bytes :: "int option"
  a_status :: artifact_status
  a_bucket_kind :: "bucket_kind option"
  a_scan_engine :: "string option"
  a_scan_started_at :: "int option"
  a_scan_finished_at :: "int option"
  a_scan_reason :: "string option"
  a_quarantine_key :: "string option"
  a_created_at :: int
  a_expires_at :: "int option"
  a_deleted_at :: "int option"

datatype outbox_payload =
    PlVerification string string int  \<comment> \<open>\<open>verificationId\<close>, \<open>submissionId\<close>, \<open>attemptNo\<close>\<close>
  | PlPayout string "string option" string  \<comment> \<open>\<open>payoutId\<close>, \<open>submissionId\<close>, \<open>workerId\<close>\<close>
  | PlPayoutConfirm string
  | PlDispute string
  | PlArtifactScan string
  | PlArtifactDelete string "string option"  \<comment> \<open>\<open>artifactId\<close>, \<open>retentionJobId\<close>\<close>

record outbox_row =
  ob_id :: string
  ob_topic :: string
  ob_idempotency_key :: "string option"
  ob_payload :: outbox_payload
  ob_status :: outbox_status
  ob_attempts :: nat
  ob_available_at :: int
  ob_locked_at :: "int option"
  ob_locked_by :: "string option"
  ob_last_error :: "string option"
  ob_created_at :: int
  ob_sent_at :: "int option"

record disputes_row =
  d_id :: string
  d_org_id :: string
  d_bounty_id :: string
  d_submission_id :: "string option"
  d_payout_id :: "string option"
  d_status :: dispute_status
  d_reason :: "string option"
  d_resolution :: "string option"
  d_resolution_notes :: "string option"
  d_created_at :: int
  d_resolved_at :: "int option"
  d_resolver_actor_type :: "string option"
  d_resolver_actor_id :: "string option"

record transfers_row =
  pt_id :: string
  pt_payout_id :: string
  pt_kind :: string
  pt_chain_id :: int
  pt_from_address :: string
  pt_to_address :: string
  pt_token :: string
  pt_amount_base_units :: int
  pt_tx_hash :: "string option"
  pt_tx_nonce :: "int option"
  pt_status :: transfer_status
  pt_broadcast_at :: "int option"
  pt_confirmed_at :: "int option"
  pt_failure_reason :: "string option"
  pt_created_at :: int

record nonces_row =
  cn_chain_id :: int
  cn_from_address :: string
  cn_next_nonce :: int
  cn_updated_at :: int

record audit_row =
  al_id :: string
  al_actor_type :: string
  al_actor_id :: "string option"
  al_action :: string
  al_target_type :: "string option"
  al_target_id :: "string option"
  al_created_at :: int

record buckets_row =
  rl_key :: string
  rl_tokens :: rat
  rl_updated_at :: int

record origins_row =
  or_id :: string
  or_org_id :: string
  or_origin :: string
  or_status :: string
  or_method :: string
  or_token :: string
  or_verified_at :: "int option"
  or_failure_reason :: "string option"
  or_created_at :: int

record blocked_domains_row =
  bd_id :: string
  bd_domain :: string
  bd_reason :: "string option"
  bd_created_at :: int

record retention_jobs_row =
  rj_id :: string
  rj_artifact_id :: string
  rj_status :: string
  rj_run_at :: int
  rj_attempts :: int
  rj_locked_at :: "int option"
  rj_locked_by :: "string option"
  rj_last_error :: "string option"
  rj_created_at :: int
  rj_finished_at :: "int option"

record apps_row =
  ap_id :: string
  ap_owner_org_id :: string
  ap_slug :: string
  ap_task_type :: string
  ap_name :: string
  ap_description :: "string option"
  ap_dashboard_url :: "string option"
  ap_public :: bool
  ap_status :: string
  ap_default_descriptor :: json
  ap_public_allowed_origins :: "string list"
  ap_ui_schema :: json
  ap_created_at :: int
  ap_updated_at :: int

record supported_origins_row =
  ao_app_id :: string
  ao_origin :: string
  ao_notes :: "string option"
  ao_created_at :: int

record origin_requests_row =
  aq_id :: string
  aq_org_id :: string
  aq_app_id :: string
  aq_origin :: string
  aq_status :: string
  aq_message :: "string option"
  aq_reviewed_by :: "string option"
  aq_review_notes :: "string option"
  aq_created_at :: int
  aq_reviewed_at :: "int option"

record org_users_row =
  ou_id :: string
  ou_org_id :: string
  ou_email :: string
  ou_password_hash :: string
  ou_role :: string
  ou_created_at :: int

record api_keys_row =
  ak_id :: string
  ak_org_id :: string
  ak_name :: string
  ak_key_prefix :: string
  ak_key_hash :: string
  ak_revoked_at :: "int option"
  ak_last_used_at :: "int option"
  ak_created_at :: int

record sessions_row =
  ses_id :: string
  ses_user_id :: string
  ses_org_id :: string
  ses_role :: string
  ses_csrf_secret :: string
  ses_created_at :: int
  ses_expires_at :: int
  ses_revoked_at :: "int option"

record retention_policies_row =
  rp_id :: string
  rp_org_id :: "string option"
  rp_name :: string
  rp_applies_to :: string
  rp_max_age_days :: "int option"
  rp_created_at :: int

record alarms_row =
  an_id :: string
  an_environment :: string
  an_topic_arn :: string
  an_sns_message_id :: "string option"
  an_alarm_name :: "string option"
  an_old_state_value :: "string option"
  an_new_state_value :: "string option"
  an_state_reason :: "string option"
  an_state_change_time :: "int option"
  an_raw :: json
  an_received_at :: int

record templates_row =
  mt_origin :: string
  mt_enabled :: bool
  mt_search_url_template :: "string option"
  mt_wait_selector :: "string option"
  mt_selectors_json :: json
  mt_created_at :: int
  mt_updated_at :: int

record github_sources_row =
  gs_id :: string
  gs_cursor_json :: json
  gs_status :: string
  gs_last_success_at :: "int option"
  gs_last_error_at :: "int option"
  gs_last_error :: "string option"
  gs_created_at :: int
  gs_updated_at :: int

text \<open>\<open>sources_json\<close> and \<open>topics_json\<close> hold arrays of strings.\<close>

record github_events_row =
  ge_event_id :: string
  ge_sources_json :: "string list"
  ge_event_type :: string
  ge_event_created_at :: "int option"
  ge_repo_full_name :: "string option"
  ge_actor_login :: "string option"
  ge_payload_json :: json
  ge_ingested_at :: int

record github_repos_row =
  gr_repo_id :: int
  gr_full_name :: string
  gr_html_url :: string
  gr_description :: "string option"
  gr_language :: "string option"
  gr_topics_json :: "string list"
  gr_license_spdx :: "string option"
  gr_license_key :: "string option"
  gr_stargazers_count :: int
  gr_forks_count :: int
  gr_archived :: bool
  gr_pushed_at :: "int option"
  gr_updated_at :: "int option"
  gr_fetched_at :: int
  gr_first_seen_at :: int
  gr_last_seen_at :: int

record similarity_queries_row =
  sq_id :: string
  sq_tool :: "string option"
  sq_org_id :: "string option"
  sq_actor_type :: "string option"
  sq_actor_id :: "string option"
  sq_query_text :: string
  sq_context_json :: json
  sq_policy_version :: "string option"
  sq_latency_ms :: "int option"
  sq_created_at :: int

record similarity_results_row =
  sr_id :: string
  sr_query_id :: string
  sr_rank :: nat
  sr_item_kind :: string
  sr_item_key :: string
  sr_score :: rat
  sr_explanation :: "string option"
  sr_data_json :: json
  sr_created_at :: int

record manifests_row =
  pm_id :: string
  pm_kind :: string
  pm_ref_id :: string
  pm_manifest_json :: json
  pm_created_at :: int
  pm_updated_at :: int

section \<open>The store\<close>

record db =
  workers :: "workers_row list"
  orgs :: "orgs_row list"
  bounties :: "bounties_row list"
  jobs :: "jobs_row list"
  submissions :: "submissions_row list"
  verifications :: "verifications_row list"
  payouts :: "payouts_row list"
  reputation :: "reputation_row list"
  accepted_dedupe :: "accepted_dedupe_row list"
  billing_accounts :: "billing_accounts_row list"
  billing_events :: "billing_events_row list"
  reservations :: "reservations_row list"
  payment_intents :: "payment_intents_row list"
  stripe_webhook_events :: "stripe_events_row list"
  stripe_customers :: "stripe_customers_row list"
  artifacts :: "artifacts_row list"
  outbox_events :: "outbox_row list"
  disputes :: "disputes_row list"
  payout_transfers :: "transfers_row list"
  crypto_nonces :: "nonces_row list"
  audit_log :: "audit_row list"
  rate_limit_buckets :: "buckets_row list"
  origins :: "origins_row list"
  blocked_domains :: "blocked_domains_row list"
  retention_jobs :: "retention_jobs_row list"
  apps :: "apps_row list"
  app_supported_origins :: "supported_origins_row list"
  app_origin_requests :: "origin_requests_row list"
  org_users :: "org_users_row list"
  org_api_keys :: "api_keys_row list"
  sessions :: "sessions_row list"
  retention_policies :: "retention_policies_row list"
  alarm_notifications :: "alarms_row list"
  marketplace_origin_templates :: "templates_row list"
  github_sources :: "github_sources_row list"
  github_events_raw :: "github_events_row list"
  github_repos :: "github_repos_row list"
  intel_similarity_queries :: "similarity_queries_row list"
  intel_similarity_results :: "similarity_results_row list"
  intel_provenance_manifests :: "manifests_row list"

definition empty_db :: db where
  "empty_db = \<lparr> workers = [], orgs = [], bounties = [], jobs = [], submissions = [],
     verifications = [], payouts = [], reputation = [], accepted_dedupe = [],
     billing_accounts = [], billing_events = [], reservations = [], payment_intents = [],
     stripe_webhook_events = [], stripe_customers = [],
     artifacts = [], outbox_events = [], disputes = [],
     payout_transfers = [], crypto_nonces = [], audit_log = [], rate_limit_buckets = [],
     origins = [], blocked_domains = [], retention_jobs = [],
     apps = [], app_supported_origins = [], app_origin_requests = [],
     org_users = [], org_api_keys = [], sessions = [], retention_policies = [], alarm_notifications = [],
     marketplace_origin_templates = [], github_sources = [], github_events_raw = [], github_repos = [],
     intel_similarity_queries = [], intel_similarity_results = [], intel_provenance_manifests = [] \<rparr>"

section \<open>Errors thrown by the store\<close>

datatype err =
    BountyNotFound | DailySpendLimitExceeded | MonthlySpendLimitExceeded | InsufficientFunds
  | MaxOpenJobsExceeded | MissingTarget | TargetNotFound | Forbidden | PayoutAlreadyPaid
  | PayoutMissing | DisputeWindowDisabled | DisputeWindowExpired | DisputeAlreadyOpen
  | NotFound | NotOpen | NoResult | IntegerOutOfRange
  | InvalidGross | InvalidFeeBps | InvalidPlatformFeeBps | InvalidProofworkFeeBps
  | FeeBpsSumExceeds | FeeExceedsGross | InvalidCents | InvalidMaxProofworkFeeBps
  | ProofworkFeeBpsExceedsMax
  | MissingPayoutId | PayoutNotFound | PlatformFeeWalletMissing | FeeWalletNotConfigured
  | PaymentProviderFailed | RpcFailed | PayoutTransfersMissing | TxHashMissing
  | TxReceiptPending | TxNotEnoughConfirmations | MissingDisputeId
  | MissingArtifactId | UnknownTopic | BadPayload | OtherError string

text \<open>The messages the errors carry; handlers and HTTP routes dispatch on them.\<close>

fun err_message :: "err \<Rightarrow> string" where
  "err_message BountyNotFound = ''Bounty not found''"
| "err_message DailySpendLimitExceeded = ''daily_spend_limit_exceeded''"
| "err_message MonthlySpendLimitExceeded = ''monthly_spend_limit_exceeded''"
| "err_message InsufficientFunds = ''insufficient_funds''"
| "err_message MaxOpenJobsExceeded = ''max_open_jobs_exceeded''"
| "err_message MissingTarget = ''missing_target''"
| "err_message TargetNotFound = ''target_not_found''"
| "err_message Forbidden = ''forbidden''"
| "err_message PayoutAlreadyPaid = ''payout_already_paid''"
| "err_message PayoutMissing = ''payout_missing''"
| "err_message DisputeWindowDisabled = ''dispute_window_disabled''"
| "err_message DisputeWindowExpired = ''dispute_window_expired''"
| "err_message DisputeAlreadyOpen = ''dispute_already_open''"
| "err_message NotFound = ''not_found''"
| "err_message NotOpen = ''not_open''"
| "err_message NoResult = ''no result''"
| "err_message IntegerOutOfRange = ''integer out of range''"
| "err_message InvalidGross = ''invalid_gross''"
| "err_message InvalidFeeBps = ''invalid_fee_bps''"
| "err_message InvalidPlatformFeeBps = ''invalid_platform_fee_bps''"
| "err_message InvalidProofworkFeeBps = ''invalid_proofwork_fee_bps''"
| "err_message FeeBpsSumExceeds = ''fee_bps_sum_exceeds_100pct''"
| "err_message FeeExceedsGross = ''fee_exceeds_gross''"
| "err_message InvalidCents = ''invalid_cents''"
| "err_message InvalidMaxProofworkFeeBps = ''invalid_max_proofwork_fee_bps''"
| "err_message ProofworkFeeBpsExceedsMax = ''proofwork_fee_bps_exceeds_max''"
| "err_message MissingPayoutId = ''missing_payoutId''"
| "err_message PayoutNotFound = ''payout_not_found''"
| "err_message PlatformFeeWalletMissing = ''platform_fee_wallet_missing''"
| "err_message FeeWalletNotConfigured = ''PROOFWORK_FEE_WALLET_BASE not configured''"
| "err_message PaymentProviderFailed = ''payment_provider_failed''"
| "err_message RpcFailed = ''rpc_call_failed''"
| "err_message PayoutTransfersMissing = ''payout_transfers_missing''"
| "err_message TxHashMissing = ''tx_hash_missing''"
| "err_message TxReceiptPending = ''tx_receipt_pending''"
| "err_message TxNotEnoughConfirmations = ''tx_not_enough_confirmations''"
| "err_message MissingDisputeId = ''missing_disputeId''"
| "err_message MissingArtifactId = ''missing_artifactId''"
| "err_message UnknownTopic = ''unknown_topic''"
| "err_message BadPayload = ''bad_payload''"
| "err_message (OtherError m) = m"

end
