(* ===== verification/Fees.thy ===== *)
theory Fees
  imports Schema
begin

text \<open>
  \<open>src/src/payments/crypto/baseUsdc.ts\<close>: the fee split in cents, the conversion to USDC base
  units, the ABI encoding of the splitter call, and the JSON-RPC client with its retries.
  Cents are integers; basis points are rationals, since \<open>PROOFWORK_FEE_BPS\<close> may be fractional.
\<close>

section \<open>Fee split\<close>

definition bps_ok :: "rat \<Rightarrow> bool" where
  "bps_ok b \<longleftrightarrow> 0 \<le> b \<and> b \<le> 10000"

definition computeFeeSplitCents :: "int \<Rightarrow> rat \<Rightarrow> err + int \<times> int" where
  "computeFeeSplitCents grossCents feeBps =
     (if grossCents < 0 then Inl InvalidGross
      else if \<not> bps_ok feeBps then Inl InvalidFeeBps
      else let feeCents = \<lfloor>of_int grossCents * feeBps / 10000\<rfloor>
           in Inr (feeCents, grossCents - feeCents))"

record payout_split =
  platformFeeCents :: int
  proofworkFeeCents :: int
  netCents :: int

definition computePayoutSplitCents :: "int \<Rightarrow> rat \<Rightarrow> rat \<Rightarrow> err + payout_split" where
  "computePayoutSplitCents grossCents platformBps proofworkBps =
     (if grossCents < 0 then Inl InvalidGross
      else if \<not> bps_ok platformBps then Inl InvalidPlatformFeeBps
      else if \<not> bps_ok proofworkBps then Inl InvalidProofworkFeeBps
      else if platformBps + proofworkBps > 10000 then Inl FeeBpsSumExceeds
      else
        let platformFee = \<lfloor>of_int grossCents * platformBps / 10000\<rfloor>;
            workerGross = grossCents - platformFee
        in if workerGross < 0 then Inl FeeExceedsGross
           else
             let proofworkFee = \<lfloor>of_int workerGross * proofworkBps / 10000\<rfloor>;
                 net = workerGross - proofworkFee
             in if net < 0 then Inl FeeExceedsGross
                else Inr \<lparr> platformFeeCents = platformFee, proofworkFeeCents = proofworkFee,
                           netCents = net \<rparr>)"

definition centsToUsdcBaseUnits :: "int \<Rightarrow> err + nat" where
  "centsToUsdcBaseUnits cents = (if cents < 0 then Inl InvalidCents else Inr (nat cents * 10000))"

text \<open>\<open>PROOFWORK_FEE_BPS ?? PLATFORM_FEE_BPS ?? 100\<close>, capped by
  \<open>MAX_PROOFWORK_FEE_BPS ?? MAX_PLATFORM_FEE_BPS ?? 10000\<close>; the arguments are \<open>Number(..)\<close> of
  the first variable that is set.\<close>

definition proofworkFeeBps :: "jsnum option \<Rightarrow> jsnum option \<Rightarrow> err + rat" where
  "proofworkFeeBps fee_env max_env =
     (case (case fee_env of None \<Rightarrow> Fin 100 | Some x \<Rightarrow> x) of
        Fin bps \<Rightarrow>
          if \<not> bps_ok bps then Inl InvalidProofworkFeeBps
          else (case (case max_env of None \<Rightarrow> Fin 10000 | Some x \<Rightarrow> x) of
                  Fin m \<Rightarrow> if \<not> bps_ok m then Inl InvalidMaxProofworkFeeBps
                           else if bps > m then Inl ProofworkFeeBpsExceedsMax
                           else Inr bps
                | _ \<Rightarrow> Inl InvalidMaxProofworkFeeBps)
      | _ \<Rightarrow> Inl InvalidProofworkFeeBps)"

lemma floor_bps_bounds:
  assumes "0 \<le> g" and "bps_ok b"
  shows "0 \<le> \<lfloor>of_int g * b / 10000\<rfloor>" and "\<lfloor>of_int g * b / 10000\<rfloor> \<le> g"
proof -
  have "of_int g * b \<le> of_int g * 10000" and "0 \<le> of_int g * b"
    using assms by (auto simp: bps_ok_def mult_left_mono)
  then have "0 \<le> of_int g * b / 10000" and "of_int g * b / 10000 \<le> of_int g"
    by (simp_all add: field_simps)
  then show "0 \<le> \<lfloor>of_int g * b / 10000\<rfloor>" and "\<lfloor>of_int g * b / 10000\<rfloor> \<le> g"
    by (simp_all add: floor_le_iff le_floor_iff)
qed

lemma floor_bps_mono:
  "0 \<le> g \<Longrightarrow> b \<le> c \<Longrightarrow> \<lfloor>of_int g * b / 10000\<rfloor> \<le> \<lfloor>of_int g * c / (10000::rat)\<rfloor>"
  by (intro floor_mono divide_right_mono mult_left_mono) simp_all

lemma computePayoutSplitCents_iff:
  "(\<exists>sp. computePayoutSplitCents g pl pw = Inr sp) \<longleftrightarrow>
     0 \<le> g \<and> bps_ok pl \<and> bps_ok pw \<and> pl + pw \<le> 10000"
proof (cases "0 \<le> g \<and> bps_ok pl \<and> bps_ok pw \<and> pl + pw \<le> 10000")
  case True
  then have a: "\<lfloor>of_int g * pl / 10000\<rfloor> \<le> g"
    using floor_bps_bounds(2) by blast
  then have "\<lfloor>of_int (g - \<lfloor>of_int g * pl / 10000\<rfloor>) * pw / 10000\<rfloor> \<le> g - \<lfloor>of_int g * pl / 10000\<rfloor>"
    using True floor_bps_bounds(2) [of "g - \<lfloor>of_int g * pl / 10000\<rfloor>" pw] by simp
  with True a show ?thesis
    by (simp add: computePayoutSplitCents_def Let_def not_less)
next
  case False
  then show ?thesis by (auto simp: computePayoutSplitCents_def)
qed

lemma computePayoutSplitCents_Inr:
  assumes "computePayoutSplitCents g pl pw = Inr sp"
  shows "platformFeeCents sp = \<lfloor>of_int g * pl / 10000\<rfloor>"
    and "proofworkFeeCents sp = \<lfloor>of_int (g - platformFeeCents sp) * pw / 10000\<rfloor>"
    and "netCents sp = g - platformFeeCents sp - proofworkFeeCents sp"
    and "0 \<le> g" and "bps_ok pl" and "bps_ok pw"
  using assms by (auto simp: computePayoutSplitCents_def Let_def split: if_splits)

lemma computePayoutSplitCents_sum:
  "computePayoutSplitCents g pl pw = Inr sp \<Longrightarrow>
     platformFeeCents sp + proofworkFeeCents sp + netCents sp = g"
  by (simp add: computePayoutSplitCents_Inr(3))

lemma computePayoutSplitCents_nonneg:
  assumes "computePayoutSplitCents g pl pw = Inr sp"
  shows "0 \<le> platformFeeCents sp" and "0 \<le> proofworkFeeCents sp" and "0 \<le> netCents sp"
proof -
  note sp = computePayoutSplitCents_Inr [OF assms]
  show "0 \<le> platformFeeCents sp" using sp floor_bps_bounds(1) by simp
  have w: "0 \<le> g - platformFeeCents sp" using sp floor_bps_bounds(2) [of g pl] by simp
  show "0 \<le> proofworkFeeCents sp" unfolding sp(2) by (rule floor_bps_bounds(1) [OF w sp(6)])
  have "proofworkFeeCents sp \<le> g - platformFeeCents sp"
    unfolding sp(2) by (rule floor_bps_bounds(2) [OF w sp(6)])
  then show "0 \<le> netCents sp" using sp(3) by simp
qed

text \<open>C28. The payout split never creates or loses a cent: for every gross amount and every pair
  of fee rates that the function accepts, platform fee, Proofwork fee and the worker's net are
  non-negative and add up to the gross, the platform fee is taken from the gross, and the
  Proofwork fee only from what is left after it; it accepts exactly the non-negative amounts
  with rates between 0 and 100% that sum to at most 100%.\<close>

theorem payout_split_conserves:
  "case computePayoutSplitCents g pl pw of
     Inl _ \<Rightarrow> g < 0 \<or> \<not> bps_ok pl \<or> \<not> bps_ok pw \<or> pl + pw > 10000
   | Inr sp \<Rightarrow>
       platformFeeCents sp + proofworkFeeCents sp + netCents sp = g \<and>
       0 \<le> platformFeeCents sp \<and> 0 \<le> proofworkFeeCents sp \<and> 0 \<le> netCents sp \<and>
       platformFeeCents sp = \<lfloor>of_int g * pl / 10000\<rfloor> \<and>
       proofworkFeeCents sp = \<lfloor>of_int (g - platformFeeCents sp) * pw / 10000\<rfloor> \<and>
       bps_ok pl \<and> bps_ok pw \<and> pl + pw \<le> 10000"
proof (cases "computePayoutSplitCents g pl pw")
  case (Inl e)
  then have "\<not> (\<exists>sp. computePayoutSplitCents g pl pw = Inr sp)" by simp
  with Inl show ?thesis unfolding computePayoutSplitCents_iff by auto
next
  case (Inr sp)
  then have "pl + pw \<le> 10000" using computePayoutSplitCents_iff by blast
  with Inr show ?thesis
    using computePayoutSplitCents_Inr [OF Inr] computePayoutSplitCents_nonneg [OF Inr] by simp
qed

theorem payout_split_conserves_witness:
  "computePayoutSplitCents 999 250 100 =
     Inr \<lparr> platformFeeCents = 24, proofworkFeeCents = 9, netCents = 966 \<rparr> \<and>
   (24::int) + 9 + 966 = 999"
proof -
  have "\<lfloor>999 / 40 :: rat\<rfloor> = 24" "\<lfloor>97500 / 10000 :: rat\<rfloor> = 9" by (simp_all add: floor_eq_iff)
  then have "computePayoutSplitCents 999 250 100 =
     Inr \<lparr> platformFeeCents = 24, proofworkFeeCents = 9, netCents = 966 \<rparr>"
    by (simp add: computePayoutSplitCents_def bps_ok_def Let_def)
  with payout_split_conserves [of 999 250 100] show ?thesis by simp
qed

section \<open>ABI encoding of the splitter call\<close>

definition hex_digit :: "nat \<Rightarrow> char" where
  "hex_digit n = (if n < 10 then char_of (48 + n) else char_of (87 + n))"

definition hex_value :: "char \<Rightarrow> nat" where
  "hex_value c = (let n = of_char c :: nat in if n < 58 then n - 48 else n - 87)"

text \<open>\<open>v.toString(16)\<close>\<close>

fun to_hex :: "nat \<Rightarrow> string" where
  "to_hex n = (if n < 16 then [hex_digit n] else to_hex (n div 16) @ [hex_digit (n mod 16)])"

declare to_hex.simps [simp del]

definition of_hex :: "string \<Rightarrow> nat" where
  "of_hex s = foldl (\<lambda>a c. 16 * a + hex_value c) 0 s"

text \<open>\<open>padStart(64, '0')\<close> pads on the left and never truncates.\<close>

definition pad32 :: "string \<Rightarrow> string" where
  "pad32 h = replicate (64 - length h) CHR ''0'' @ h"

definition u256 :: "nat \<Rightarrow> string" where
  "u256 v = pad32 (to_hex v)"

definition addr :: "string \<Rightarrow> string" where
  "addr a = (let l = toLowerCase a in pad32 (if startsWith l ''0x'' then drop 2 l else l))"

record splitter_call =
  sc_token :: string
  sc_worker :: string
  sc_platform :: string
  sc_proofwork :: string
  sc_net :: nat
  sc_platform_fee :: nat
  sc_proofwork_fee :: nat

text \<open>The selector is the first four bytes of a Keccak hash computed by \<open>ethers\<close>: a parameter.\<close>

definition encodePayoutSplitterCall ::
    "string \<Rightarrow> string \<Rightarrow> string \<Rightarrow> string \<Rightarrow> nat \<Rightarrow> nat \<Rightarrow> string" where
  "encodePayoutSplitterCall selector token worker platform net fee =
     selector @ addr token @ addr worker @ addr platform @ u256 net @ u256 fee"

definition encodePayoutSplitterCallV2 :: "string \<Rightarrow> splitter_call \<Rightarrow> string" where
  "encodePayoutSplitterCallV2 selector c =
     selector @ addr (sc_token c) @ addr (sc_worker c) @ addr (sc_platform c)
       @ addr (sc_proofwork c) @ u256 (sc_net c) @ u256 (sc_platform_fee c)
       @ u256 (sc_proofwork_fee c)"

definition encodeErc20ApproveCall :: "string \<Rightarrow> string \<Rightarrow> nat \<Rightarrow> string" where
  "encodeErc20ApproveCall selector spender amount = selector @ addr spender @ u256 amount"

text \<open>The contract reads its arguments as consecutive 64-digit words after the selector.\<close>

definition abi_word :: "nat \<Rightarrow> nat \<Rightarrow> string \<Rightarrow> string" where
  "abi_word sel_len i s = take 64 (drop (sel_len + 64 * i) s)"

lemma hex_value_digit: "n < 16 \<Longrightarrow> hex_value (hex_digit n) = n"
  by (auto simp: hex_value_def hex_digit_def Let_def)

lemma of_hex_append: "of_hex (s @ [c]) = 16 * of_hex s + hex_value c"
  by (simp add: of_hex_def)

lemma of_hex_to_hex: "of_hex (to_hex n) = n"
proof (induction n rule: to_hex.induct)
  case (1 n)
  show ?case
  proof (cases "n < 16")
    case True
    then show ?thesis by (subst to_hex.simps) (simp add: of_hex_def hex_value_digit)
  next
    case False
    with "1.IH" show ?thesis
      by (subst to_hex.simps) (simp add: of_hex_append hex_value_digit)
  qed
qed

lemma length_to_hex: "n < 16 ^ Suc k \<Longrightarrow> length (to_hex n) \<le> Suc k"
proof (induction k arbitrary: n)
  case 0
  then show ?case by (subst to_hex.simps) simp
next
  case (Suc k)
  have "n div 16 < 16 ^ Suc k"
    using Suc.prems by (simp add: less_mult_imp_div_less mult.commute)
  from Suc.IH [OF this] show ?case by (subst to_hex.simps) simp
qed

lemma of_hex_zeros: "of_hex (replicate k CHR ''0'' @ s) = of_hex s"
proof (induction k)
  case (Suc k)
  then show ?case by (simp add: of_hex_def hex_value_def)
qed simp

lemma length_pad32: "length h \<le> 64 \<Longrightarrow> length (pad32 h) = 64"
  by (simp add: pad32_def)

lemma of_hex_u256: "of_hex (u256 v) = v"
  by (simp add: u256_def pad32_def of_hex_zeros of_hex_to_hex)

lemma length_u256: "v < 16 ^ 64 \<Longrightarrow> length (u256 v) = 64"
  unfolding u256_def by (rule length_pad32) (use length_to_hex [of v 63] in simp)

text \<open>An address as \<open>ethers.getAddress\<close> returns it: \<open>0x\<close> and forty hex digits.\<close>

definition is_address :: "string \<Rightarrow> bool" where
  "is_address a \<longleftrightarrow> startsWith a ''0x'' \<and> length a = 42"

lemma length_addr: "is_address a \<Longrightarrow> length (addr a) = 64"
  by (auto simp: addr_def is_address_def Let_def toLowerCase_def pad32_def prefix_def
      lower_char_def)

text \<open>C34. The calldata that the payout runner broadcasts decodes to the amounts it was built
  from: with well-formed addresses and amounts below 2^256, the fifth, sixth and seventh words
  after the selector are the net amount, the platform fee and the Proofwork fee, and the second
  word is the worker's address, zero-padded.\<close>

theorem splitter_calldata_decodes:
  fixes sel :: string
  assumes "is_address (sc_token c)" "is_address (sc_worker c)" "is_address (sc_platform c)"
    "is_address (sc_proofwork c)"
    and "sc_net c < 16 ^ 64" "sc_platform_fee c < 16 ^ 64" "sc_proofwork_fee c < 16 ^ 64"
  defines "w i \<equiv> abi_word (length sel) i (encodePayoutSplitterCallV2 sel c)"
  shows "of_hex (w 4) = sc_net c \<and> of_hex (w 5) = sc_platform_fee c \<and>
         of_hex (w 6) = sc_proofwork_fee c \<and> w 1 = addr (sc_worker c) \<and>
         length (encodePayoutSplitterCallV2 sel c) = length sel + 7 * 64"
  using assms by (simp add: abi_word_def encodePayoutSplitterCallV2_def length_addr length_u256
      of_hex_u256)

definition example_call :: splitter_call where
  "example_call = \<lparr> sc_token = ''0x'' @ replicate 40 CHR ''a'', sc_worker = ''0x'' @ replicate 40 CHR ''b'',
     sc_platform = ''0x'' @ replicate 40 CHR ''0'', sc_proofwork = ''0x'' @ replicate 40 CHR ''c'',
     sc_net = 14850000, sc_platform_fee = 0, sc_proofwork_fee = 150000 \<rparr>"

lemma example_call_ok:
  "is_address (sc_token example_call)" "is_address (sc_worker example_call)"
  "is_address (sc_platform example_call)" "is_address (sc_proofwork example_call)"
  "sc_net example_call < 16 ^ 64" "sc_platform_fee example_call < 16 ^ 64"
  "sc_proofwork_fee example_call < 16 ^ 64"
  by (simp_all add: example_call_def is_address_def)

theorem splitter_calldata_decodes_witness:
  "of_hex (abi_word (length ''0x12345678'') 4
     (encodePayoutSplitterCallV2 ''0x12345678'' example_call)) = sc_net example_call"
  using splitter_calldata_decodes [OF example_call_ok, of "''0x12345678''"] by blast

section \<open>JSON-RPC client\<close>

text \<open>\<open>BASE_RPC_URLS\<close> (separated by commas or white space) followed by \<open>BASE_RPC_URL\<close>,
  without blanks and without repetitions, in order.\<close>

fun split_urls :: "string \<Rightarrow> string list" where
  "split_urls [] = [[]]"
| "split_urls (c # s) =
     (if c = CHR '','' \<or> is_space c then [] # split_urls s
      else (case split_urls s of [] \<Rightarrow> [[c]] | w # ws \<Rightarrow> (c # w) # ws))"

fun uniq_urls :: "string list \<Rightarrow> string list \<Rightarrow> string list" where
  "uniq_urls seen [] = []"
| "uniq_urls seen (u # us) =
     (if u \<in> set seen then uniq_urls seen us else u # uniq_urls (u # seen) us)"

definition rpcUrls :: "string option \<Rightarrow> string option \<Rightarrow> err + string list" where
  "rpcUrls urls_env url_env =
     (let raw = trim (case urls_env of None \<Rightarrow> [] | Some s \<Rightarrow> s);
          primary = trim (case url_env of None \<Rightarrow> [] | Some s \<Rightarrow> s);
          parts = (if raw = [] then [] else filter (\<lambda>w. w \<noteq> []) (map trim (split_urls raw)));
          urls = filter (\<lambda>w. w \<noteq> []) (map trim (parts @ [primary]));
          uniq = uniq_urls [] urls
      in if uniq = [] then Inl (OtherError ''BASE_RPC_URL not configured'') else Inr uniq)"

record rpc_error =
  re_name :: string
  re_message :: string

definition retryable_markers :: "string list" where
  "retryable_markers = [''rpc_http_error:429'', ''rpc_http_error:5'', ''rate limit'',
     ''over rate limit'', ''rpc_error:-32016'', ''fetch failed'', ''econnreset'', ''etimedout'',
     ''enotfound'', ''eai_again'']"

definition isRetryableRpcError :: "rpc_error \<Rightarrow> bool" where
  "isRetryableRpcError e \<longleftrightarrow>
     re_name e = ''AbortError'' \<or>
     list_ex (str_includes (toLowerCase (re_message e))) retryable_markers"

record rpc_config =
  rc_max_retries :: nat
  rc_base_delay_ms :: nat
  rc_max_delay_ms :: nat
  rc_jitter_max :: nat

text \<open>The environment is clamped before use; a value that is not a finite number falls back.\<close>

definition rpc_config_of_env ::
    "jsnum option \<Rightarrow> jsnum option \<Rightarrow> jsnum option \<Rightarrow> jsnum option \<Rightarrow> rpc_config" where
  "rpc_config_of_env retries base mx jitter =
     (let num = (\<lambda>d x. case x of None \<Rightarrow> Fin d | Some v \<Rightarrow> v)
      in \<lparr> rc_max_retries = nat (clamp_floor 0 10 2 (num 2 retries)),
           rc_base_delay_ms = nat (clamp_floor 0 60000 250 (num 250 base)),
           rc_max_delay_ms = nat (clamp_floor 0 120000 8000 (num 8000 mx)),
           rc_jitter_max = nat (clamp_floor 0 1000 100 (num 100 jitter)) \<rparr>)"

text \<open>The wait before the next attempt: capped exponential backoff plus
  \<open>floor(random * jitterMax)\<close>, where \<open>random\<close> in [0, 1) is the draw for this attempt.\<close>

definition retry_delay :: "rpc_config \<Rightarrow> rat \<Rightarrow> nat \<Rightarrow> nat" where
  "retry_delay cfg random attempt =
     min (rc_max_delay_ms cfg) (rc_base_delay_ms cfg * 2 ^ attempt)
       + (if rc_jitter_max cfg = 0 then 0 else nat \<lfloor>random * of_nat (rc_jitter_max cfg)\<rfloor>)"

text \<open>
  The two loops of \<open>rpcCall\<close>. \<open>call u k\<close> is the outcome of attempt \<open>k\<close> at url \<open>u\<close>
  (transport, HTTP status and JSON-RPC error already folded into an error or a result). The
  result carries the attempts made and the delays waited.
\<close>

function rpc_attempts ::
    "rpc_config \<Rightarrow> (nat \<Rightarrow> rat) \<Rightarrow> (nat \<Rightarrow> rpc_error + 'a) \<Rightarrow> nat \<Rightarrow> (rpc_error + 'a) \<times> nat list" where
  "rpc_attempts cfg rnd call attempt =
     (case call attempt of
        Inr x \<Rightarrow> (Inr x, [])
      | Inl e \<Rightarrow>
          if attempt \<ge> rc_max_retries cfg \<or> \<not> isRetryableRpcError e then (Inl e, [])
          else let r = rpc_attempts cfg rnd call (Suc attempt)
               in (fst r, retry_delay cfg (rnd attempt) attempt # snd r))"
  by pat_completeness auto
termination
  by (relation "measure (\<lambda>(cfg, rnd, call, attempt). rc_max_retries cfg - attempt)") auto

declare rpc_attempts.simps [simp del]

fun rpcCall ::
    "rpc_config \<Rightarrow> (string \<Rightarrow> nat \<Rightarrow> rat) \<Rightarrow> (string \<Rightarrow> nat \<Rightarrow> rpc_error + 'a) \<Rightarrow> string list \<Rightarrow>
     rpc_error option \<Rightarrow> rpc_error option + 'a" where
  "rpcCall cfg rnd call [] lastErr = Inl lastErr"
| "rpcCall cfg rnd call (u # us) lastErr =
     (case fst (rpc_attempts cfg (rnd u) (call u) 0) of
        Inr x \<Rightarrow> Inr x
      | Inl e \<Rightarrow> rpcCall cfg rnd call us (Some e))"

lemma uniq_urls_distinct: "distinct (uniq_urls seen us) \<and> set (uniq_urls seen us) = set us - set seen"
  by (induction seen us rule: uniq_urls.induct) auto

lemma rpc_attempts_bounded:
  "attempt \<le> rc_max_retries cfg \<Longrightarrow>
     length (snd (rpc_attempts cfg rnd call attempt)) \<le> rc_max_retries cfg - attempt"
proof (induction cfg rnd call attempt rule: rpc_attempts.induct)
  case (1 cfg rnd call attempt)
  show ?case
  proof (cases "call attempt")
    case (Inl e)
    show ?thesis
    proof (cases "attempt \<ge> rc_max_retries cfg \<or> \<not> isRetryableRpcError e")
      case False
      with "1.IH" [OF Inl] have
        "length (snd (rpc_attempts cfg rnd call (Suc attempt))) \<le> rc_max_retries cfg - Suc attempt"
        by simp
      with False Inl show ?thesis
        by (simp add: rpc_attempts.simps [of cfg rnd call attempt] Let_def) arith
    qed (simp add: rpc_attempts.simps [of cfg rnd call attempt] Inl)
  qed (simp add: rpc_attempts.simps [of cfg rnd call attempt])
qed

lemma rpc_attempts_result:
  assumes "fst (rpc_attempts cfg rnd call attempt) = Inr x"
  shows "\<exists>k\<ge>attempt. k \<le> max attempt (rc_max_retries cfg) \<and> call k = Inr x \<and>
           (\<forall>i. attempt \<le> i \<and> i < k \<longrightarrow> (\<exists>e. call i = Inl e \<and> isRetryableRpcError e))"
  using assms
proof (induction cfg rnd call attempt rule: rpc_attempts.induct)
  case (1 cfg rnd call attempt)
  show ?case
  proof (cases "call attempt")
    case (Inr y)
    with "1.prems" show ?thesis
      by (intro exI [of _ attempt]) (auto simp: rpc_attempts.simps [of cfg rnd call attempt])
  next
    case (Inl e)
    with "1.prems" have c: "\<not> (attempt \<ge> rc_max_retries cfg \<or> \<not> isRetryableRpcError e)"
      and r: "fst (rpc_attempts cfg rnd call (Suc attempt)) = Inr x"
      by (auto simp: rpc_attempts.simps [of cfg rnd call attempt] Let_def split: if_splits)
    from "1.IH" [OF Inl c r] obtain k where k: "Suc attempt \<le> k"
      "k \<le> max (Suc attempt) (rc_max_retries cfg)" "call k = Inr x"
      "\<forall>i. Suc attempt \<le> i \<and> i < k \<longrightarrow> (\<exists>e. call i = Inl e \<and> isRetryableRpcError e)" by blast
    have "\<exists>e. call i = Inl e \<and> isRetryableRpcError e" if "attempt \<le> i" "i < k" for i
      using that k(4) Inl c by (cases "i = attempt") auto
    with k c show ?thesis by (intro exI [of _ k]) auto
  qed
qed

lemma rpc_attempts_complete:
  assumes "k \<le> rc_max_retries cfg" and "call k = Inr x" and "attempt \<le> k"
    and "\<forall>i. attempt \<le> i \<and> i < k \<longrightarrow> (\<exists>e. call i = Inl e \<and> isRetryableRpcError e)"
  shows "fst (rpc_attempts cfg rnd call attempt) = Inr x"
  using assms(3,4)
proof (induction "k - attempt" arbitrary: attempt)
  case 0
  with assms(2) show ?case by (simp add: rpc_attempts.simps [of cfg rnd call attempt])
next
  case (Suc n)
  then have lt: "attempt < k" by simp
  from Suc have "fst (rpc_attempts cfg rnd call (Suc attempt)) = Inr x" by simp
  moreover from Suc.prems(2) lt obtain e
    where "call attempt = Inl e" "isRetryableRpcError e" by blast
  ultimately show ?case using lt assms(1)
    by (simp add: rpc_attempts.simps [of cfg rnd call attempt] Let_def)
qed

text \<open>A url succeeds when an attempt within the retry limit does and all before it failed with
  retryable errors.\<close>

definition url_succeeds :: "nat \<Rightarrow> (nat \<Rightarrow> rpc_error + 'a) \<Rightarrow> bool" where
  "url_succeeds max_retries call \<longleftrightarrow>
     (\<exists>k\<le>max_retries. (\<exists>x. call k = Inr x) \<and>
        (\<forall>i<k. \<exists>e. call i = Inl e \<and> isRetryableRpcError e))"

lemma rpc_attempts_iff:
  "(\<exists>x. fst (rpc_attempts cfg rnd call 0) = Inr x) \<longleftrightarrow> url_succeeds (rc_max_retries cfg) call"
proof
  assume "\<exists>x. fst (rpc_attempts cfg rnd call 0) = Inr x"
  then obtain x where "fst (rpc_attempts cfg rnd call 0) = Inr x" ..
  from rpc_attempts_result [OF this] show "url_succeeds (rc_max_retries cfg) call"
    by (auto simp: url_succeeds_def)
next
  assume "url_succeeds (rc_max_retries cfg) call"
  then obtain k x where "k \<le> rc_max_retries cfg" "call k = Inr x"
    "\<forall>i. 0 \<le> i \<and> i < k \<longrightarrow> (\<exists>e. call i = Inl e \<and> isRetryableRpcError e)"
    by (auto simp: url_succeeds_def)
  from rpc_attempts_complete [OF this(1,2) _ this(3)]
  show "\<exists>x. fst (rpc_attempts cfg rnd call 0) = Inr x" by blast
qed

text \<open>The JSON-RPC client succeeds exactly when it should: \<open>rpcCall\<close> returns a result if and
  only if at some configured url an attempt within the retry limit succeeds and every earlier
  attempt at that url failed with a retryable error; a non-retryable error only moves on to the
  next url.\<close>

theorem rpcCall_succeeds_iff:
  "(\<exists>x. rpcCall cfg rnd call urls lastErr = Inr x) =
     (\<exists>u\<in>set urls. url_succeeds (rc_max_retries cfg) (call u))"
proof (induction urls arbitrary: lastErr)
  case (Cons u us)
  then show ?case
    using rpc_attempts_iff [of cfg "rnd u" "call u"] by (auto split: sum.splits)
qed simp

end
