(* ===== verification/Outbox.thy ===== *)
theory Outbox
  imports Schema
begin

text \<open>
  The transactional outbox: \<open>enqueueOutbox\<close> of \<open>src/src/store.ts\<close> and the queue of
  \<open>src/workers/outbox-lib.ts\<close> (claiming with stale-lock release, acknowledgement, retry with
  backoff, dead letters, the processing loop), and the admin requeue of \<open>server.ts\<close>.
  A worker's batch is a list of events; a handler is any function from an event, the time and
  the store to the error it throws (if any) and the store it leaves behind.
\<close>

section \<open>Enqueueing\<close>

definition outbox_key :: "string \<Rightarrow> string \<Rightarrow> outbox_row \<Rightarrow> bool" where
  "outbox_key topic key r \<longleftrightarrow> ob_topic r = topic \<and> ob_idempotency_key r = Some key"

definition new_outbox_row ::
    "string \<Rightarrow> string \<Rightarrow> string option \<Rightarrow> outbox_payload \<Rightarrow> int \<Rightarrow> int \<Rightarrow> outbox_row" where
  "new_outbox_row rid topic key payload available now =
     \<lparr> ob_id = rid, ob_topic = topic, ob_idempotency_key = key, ob_payload = payload,
       ob_status = ObPending, ob_attempts = 0, ob_available_at = available, ob_locked_at = None,
       ob_locked_by = None, ob_last_error = None, ob_created_at = now, ob_sent_at = None \<rparr>"

text \<open>With a (non-empty) idempotency key the insert is \<open>ON CONFLICT (topic, idempotency_key) DO
  NOTHING\<close>.\<close>

definition enqueueOutbox ::
    "string \<Rightarrow> int \<Rightarrow> string \<Rightarrow> outbox_payload \<Rightarrow> int option \<Rightarrow> string option \<Rightarrow> db \<Rightarrow> db" where
  "enqueueOutbox rid now topic payload availableAt key s =
     (let row = new_outbox_row rid topic key payload
                  (case availableAt of None \<Rightarrow> now | Some t \<Rightarrow> t) now
      in case key of
           Some (c # k) \<Rightarrow>
             s\<lparr>outbox_events := insert_do_nothing (outbox_key topic (c # k)) row (outbox_events s)\<rparr>
         | _ \<Rightarrow> s\<lparr>outbox_events := outbox_events s @ [row]\<rparr>)"

definition listOutbox :: "string option \<Rightarrow> db \<Rightarrow> outbox_row list" where
  "listOutbox topic s =
     sort_key ob_created_at
       (filter (\<lambda>r. ob_status r = ObPending \<and> (case topic of None \<Rightarrow> True | Some t \<Rightarrow> ob_topic r = t))
          (outbox_events s))"

section \<open>Claiming\<close>

record outbox_event =
  ev_id :: string
  ev_topic :: string
  ev_payload :: outbox_payload
  ev_attempts :: nat

definition stale_lock :: "int \<Rightarrow> int \<Rightarrow> outbox_row \<Rightarrow> bool" where
  "stale_lock timeout_sec now r \<longleftrightarrow>
     ob_status r = ObProcessing \<and>
     (case ob_locked_at r of None \<Rightarrow> False | Some t \<Rightarrow> t < now - 1000 * timeout_sec)"

definition release_stale :: "int \<Rightarrow> int \<Rightarrow> outbox_row list \<Rightarrow> outbox_row list" where
  "release_stale timeout_sec now =
     update_where (stale_lock timeout_sec now)
       (\<lambda>r. r\<lparr>ob_status := ObPending, ob_locked_at := None, ob_locked_by := None\<rparr>)"

definition claimable_event :: "int \<Rightarrow> string list \<Rightarrow> outbox_row \<Rightarrow> bool" where
  "claimable_event now topics r \<longleftrightarrow>
     ob_status r = ObPending \<and> ob_available_at r \<le> now \<and> ob_topic r \<in> set topics"

definition lock_row :: "int \<Rightarrow> string \<Rightarrow> outbox_row \<Rightarrow> outbox_row" where
  "lock_row now workerId r =
     r\<lparr>ob_status := ObProcessing, ob_locked_at := Some now, ob_locked_by := Some workerId,
       ob_attempts := Suc (ob_attempts r)\<rparr>"

text \<open>\<open>skip\<close> are the rows that concurrent transactions hold locked (\<open>FOR UPDATE SKIP LOCKED\<close>).
  The returned attempt count is the incremented one.\<close>

definition claimOutboxBatch ::
    "int \<Rightarrow> int \<Rightarrow> string list \<Rightarrow> string list \<Rightarrow> string \<Rightarrow> nat \<Rightarrow> db \<Rightarrow> outbox_event list \<times> db" where
  "claimOutboxBatch timeout_sec now skip topics workerId limit s =
     (let t = release_stale timeout_sec now (outbox_events s);
          rows = take limit (sort_key ob_created_at
                   (filter (\<lambda>r. claimable_event now topics r \<and> ob_id r \<notin> set skip) t));
          ids = map ob_id rows
      in (map (\<lambda>r. \<lparr> ev_id = ob_id r, ev_topic = ob_topic r, ev_payload = ob_payload r,
                     ev_attempts = Suc (ob_attempts r) \<rparr>) rows,
          s\<lparr>outbox_events := update_where (\<lambda>r. ob_id r \<in> set ids) (lock_row now workerId) t\<rparr>))"

section \<open>Acknowledgement, retry, dead letters\<close>

definition update_outbox :: "(outbox_row \<Rightarrow> bool) \<Rightarrow> (outbox_row \<Rightarrow> outbox_row) \<Rightarrow> db \<Rightarrow> db" where
  "update_outbox P f s = s\<lparr>outbox_events := update_where P f (outbox_events s)\<rparr>"

definition markOutboxSent :: "int \<Rightarrow> string \<Rightarrow> db \<Rightarrow> db" where
  "markOutboxSent now eid =
     update_outbox (\<lambda>r. ob_id r = eid)
       (\<lambda>r. r\<lparr>ob_status := ObSent, ob_sent_at := Some now, ob_locked_at := None, ob_locked_by := None\<rparr>)"

text \<open>The store's own \<open>markOutboxSent\<close> leaves the lock columns alone.\<close>

definition store_markOutboxSent :: "int \<Rightarrow> string \<Rightarrow> db \<Rightarrow> db" where
  "store_markOutboxSent now eid =
     update_outbox (\<lambda>r. ob_id r = eid) (\<lambda>r. r\<lparr>ob_status := ObSent, ob_sent_at := Some now\<rparr>)"

definition rescheduleOutbox :: "int \<Rightarrow> string \<Rightarrow> string \<Rightarrow> int \<Rightarrow> db \<Rightarrow> db" where
  "rescheduleOutbox now eid message delaySec =
     update_outbox (\<lambda>r. ob_id r = eid)
       (\<lambda>r. r\<lparr>ob_status := ObPending, ob_last_error := Some (take 5000 message),
              ob_available_at := now + 1000 * delaySec, ob_locked_at := None, ob_locked_by := None\<rparr>)"

definition markOutboxDead :: "string \<Rightarrow> string \<Rightarrow> db \<Rightarrow> db" where
  "markOutboxDead eid message =
     update_outbox (\<lambda>r. ob_id r = eid)
       (\<lambda>r. r\<lparr>ob_status := ObDeadletter, ob_last_error := Some (take 5000 message),
              ob_locked_at := None, ob_locked_by := None\<rparr>)"

text \<open>\<open>Math.min(60, 2 ** Math.min(10, Math.max(0, attemptNo - 1)))\<close>\<close>

definition backoffSeconds :: "int \<Rightarrow> int" where
  "backoffSeconds attemptNo = min 60 (2 ^ nat (min 10 (max 0 (attemptNo - 1))))"

definition maxAttemptsForTopic :: "jsnum \<Rightarrow> jsnum \<Rightarrow> string \<Rightarrow> int" where
  "maxAttemptsForTopic default_env scan_env topic =
     (if topic = ''artifact.scan.requested'' then clamp_floor 10 1000 100 scan_env
      else clamp_floor 1 1000 10 default_env)"

section \<open>The processing loop\<close>

type_synonym handler = "outbox_event \<Rightarrow> int \<Rightarrow> db \<Rightarrow> err option \<times> db"

definition process_event ::
    "jsnum \<Rightarrow> jsnum \<Rightarrow> handler \<Rightarrow> int \<Rightarrow> outbox_event \<Rightarrow> db \<Rightarrow> db" where
  "process_event default_env scan_env handler now evt s =
     (case handler evt now s of
        (None, s') \<Rightarrow> markOutboxSent now (ev_id evt) s'
      | (Some e, s') \<Rightarrow>
          let attemptNo = int (ev_attempts evt) in
          if attemptNo \<ge> maxAttemptsForTopic default_env scan_env (ev_topic evt)
          then markOutboxDead (ev_id evt) (err_message e) s'
          else rescheduleOutbox now (ev_id evt) (err_message e) (backoffSeconds attemptNo) s')"

text \<open>One turn of \<open>runOutboxLoop\<close>: claim at the first instant, then handle the events in order,
  each at its own instant. An empty batch only sleeps.\<close>

fun process_batch ::
    "jsnum \<Rightarrow> jsnum \<Rightarrow> handler \<Rightarrow> int list \<Rightarrow> outbox_event list \<Rightarrow> db \<Rightarrow> db" where
  "process_batch d sc h (now # clock) (e # es) s =
     process_batch d sc h clock es (process_event d sc h now e s)"
| "process_batch d sc h clock es s = s"

definition runOutboxTurn ::
    "jsnum \<Rightarrow> jsnum \<Rightarrow> int \<Rightarrow> handler \<Rightarrow> string list \<Rightarrow> string \<Rightarrow> nat \<Rightarrow> string list \<Rightarrow>
     int \<Rightarrow> int list \<Rightarrow> db \<Rightarrow> db" where
  "runOutboxTurn d sc timeout h topics workerId limit skip now clock s =
     (let (batch, s') = claimOutboxBatch timeout now skip topics workerId limit s
      in process_batch d sc h clock batch s')"

text \<open>\<open>POST /api/admin/outbox/:id/requeue\<close>; \<open>None\<close> is the 404.\<close>

definition admin_requeue :: "int \<Rightarrow> string \<Rightarrow> db \<Rightarrow> db option" where
  "admin_requeue now eid s =
     (if list_ex (\<lambda>r. ob_id r = eid) (outbox_events s)
      then Some (update_outbox (\<lambda>r. ob_id r = eid)
             (\<lambda>r. r\<lparr>ob_status := ObPending, ob_available_at := now, ob_locked_at := None,
                    ob_locked_by := None, ob_last_error := None\<rparr>) s)
      else None)"

section \<open>Frame and key lemmas\<close>

lemmas outbox_ops = enqueueOutbox_def markOutboxSent_def store_markOutboxSent_def
  rescheduleOutbox_def markOutboxDead_def update_outbox_def

text \<open>Outbox operations change no other table.\<close>

lemma outbox_frame:
  "\<exists>t. enqueueOutbox rid now topic pl av key s = s\<lparr>outbox_events := t\<rparr>"
  "\<exists>t. markOutboxSent now eid s = s\<lparr>outbox_events := t\<rparr>"
  "\<exists>t. rescheduleOutbox now eid m d s = s\<lparr>outbox_events := t\<rparr>"
  "\<exists>t. markOutboxDead eid m s = s\<lparr>outbox_events := t\<rparr>"
  "\<exists>t. snd (claimOutboxBatch timeout now skip topics w l s) = s\<lparr>outbox_events := t\<rparr>"
  by (auto simp: outbox_ops Let_def claimOutboxBatch_def split: option.splits list.splits)

lemma admin_requeue_frame: "admin_requeue now eid s = Some s' \<Longrightarrow> \<exists>t. s' = s\<lparr>outbox_events := t\<rparr>"
  by (auto simp: admin_requeue_def update_outbox_def split: if_splits)

lemma enqueueOutbox_idem:
  "enqueueOutbox rid' now' topic pl' av' (Some (c # k))
     (enqueueOutbox rid now topic pl av (Some (c # k)) s) =
   enqueueOutbox rid now topic pl av (Some (c # k)) s"
  by (simp add: enqueueOutbox_def Let_def insert_do_nothing_idem outbox_key_def new_outbox_row_def)

text \<open>At most one event per topic and idempotency key: the unique index.\<close>

definition outbox_unique :: "outbox_row list \<Rightarrow> bool" where
  "outbox_unique t \<longleftrightarrow>
     distinct (map (\<lambda>r. (ob_topic r, ob_idempotency_key r)) (filter (\<lambda>r. ob_idempotency_key r \<noteq> None) t))"

lemma filter_update_where:
  "(\<And>r. Q (if P r then f r else r) = Q r) \<Longrightarrow>
     filter Q (update_where P f t) = update_where P f (filter Q t)"
  by (induction t) auto

lemma outbox_unique_update:
  assumes "\<And>r. ob_topic (f r) = ob_topic r"
    and "\<And>r. ob_idempotency_key (f r) = ob_idempotency_key r"
  shows "outbox_unique (update_where P f t) = outbox_unique t"
  using assms by (simp add: outbox_unique_def filter_update_where map_update_where)

lemma outbox_unique_enqueue:
  assumes "outbox_unique (outbox_events s)" and "key \<noteq> Some []"
  shows "outbox_unique (outbox_events (enqueueOutbox rid now topic pl av key s))"
  using assms
  by (force simp: enqueueOutbox_def Let_def outbox_unique_def insert_do_nothing_def outbox_key_def
      new_outbox_row_def list_ex_iff split: option.splits list.splits)

section \<open>Claims are exclusive\<close>

lemma set_take_sort: "r \<in> set (take n (sort_key k t)) \<Longrightarrow> r \<in> set t"
  using in_set_takeD [of r n "sort_key k t"] by simp

lemma release_stale_ids [simp]: "map ob_id (release_stale timeout now t) = map ob_id t"
  by (simp add: release_stale_def map_update_where)

lemma claimed_row:
  assumes "claimOutboxBatch timeout now skip topics w l s = (evs, s')"
    and "e \<in> set evs"
  obtains r where "r \<in> set (release_stale timeout now (outbox_events s))"
    and "claimable_event now topics r" and "ob_id r \<notin> set skip" and "ob_id r = ev_id e"
    and "ev_attempts e = Suc (ob_attempts r)"
proof -
  from assms obtain r where
    r: "r \<in> set (take l (sort_key ob_created_at
          (filter (\<lambda>r. claimable_event now topics r \<and> ob_id r \<notin> set skip)
             (release_stale timeout now (outbox_events s)))))"
    and e: "e = \<lparr> ev_id = ob_id r, ev_topic = ob_topic r, ev_payload = ob_payload r,
                  ev_attempts = Suc (ob_attempts r) \<rparr>"
    by (auto simp: claimOutboxBatch_def Let_def)
  from set_take_sort [OF r] e show thesis by (intro that) auto
qed

text \<open>After a claim every returned event is locked by the claimer.\<close>

lemma claimed_locked:
  assumes "claimOutboxBatch timeout now skip topics w l s = (evs, s')"
    and "r' \<in> set (outbox_events s')" and "ob_id r' \<in> ev_id ` set evs"
  shows "ob_status r' = ObProcessing \<and> ob_locked_at r' = Some now \<and> ob_locked_by r' = Some w"
proof -
  from assms(1) have
    "outbox_events s' = update_where (\<lambda>r. ob_id r \<in> ev_id ` set evs) (lock_row now w)
       (release_stale timeout now (outbox_events s))"
    by (auto simp: claimOutboxBatch_def Let_def image_image)
  with assms(2) obtain q where
    "r' = (if ob_id q \<in> ev_id ` set evs then lock_row now w q else q)"
    by (auto simp: in_set_update_where)
  with assms(3) show ?thesis by (auto simp: lock_row_def split: if_splits)
qed

lemma not_stale_kept:
  assumes "r \<in> set (release_stale timeout now t)" and "claimable_event now topics r"
  shows "\<exists>q\<in>set t. ob_id q = ob_id r \<and> (ob_status q = ObPending \<or> stale_lock timeout now q)"
  using assms by (auto simp: release_stale_def in_set_update_where claimable_event_def split: if_splits)

text \<open>C29. Delivery is exclusive: two consecutive claims, by any workers, return disjoint sets of
  events unless the second happens more than the lock timeout after the first.\<close>

theorem claims_disjoint:
  assumes "distinct (map ob_id (outbox_events s))"
    and "claimOutboxBatch timeout t1 skip1 topics1 w1 l1 s = (evs1, s1)"
    and "claimOutboxBatch timeout t2 skip2 topics2 w2 l2 s1 = (evs2, s2)"
    and "t2 \<le> t1 + 1000 * timeout"
  shows "ev_id ` set evs1 \<inter> ev_id ` set evs2 = {}"
proof (rule ccontr)
  assume "ev_id ` set evs1 \<inter> ev_id ` set evs2 \<noteq> {}"
  then obtain e1 e2 where e: "e1 \<in> set evs1" "e2 \<in> set evs2" "ev_id e1 = ev_id e2" by auto
  from claimed_row [OF assms(3) e(2)] obtain r
    where r: "r \<in> set (release_stale timeout t2 (outbox_events s1))" "claimable_event t2 topics2 r"
      "ob_id r = ev_id e2" by metis
  from not_stale_kept [OF r(1,2)] obtain q where q: "q \<in> set (outbox_events s1)"
    "ob_id q = ev_id e1" "ob_status q = ObPending \<or> stale_lock timeout t2 q"
    using r(3) e(3) by metis
  from claimed_locked [OF assms(2) q(1)] q(2) e(1)
  have "ob_status q = ObProcessing" "ob_locked_at q = Some t1" by auto
  with q(3) assms(4) show False by (simp add: stale_lock_def)
qed

definition example_event :: outbox_row where
  "example_event = new_outbox_row ''e1'' ''payout.requested'' (Some ''payout:p1'')
     (PlPayout ''p1'' (Some ''s1'') ''w1'') 0 0"

theorem claims_disjoint_witness:
  "\<exists>evs1 s1 evs2 s2.
     claimOutboxBatch 600 5 [] [''payout.requested''] ''a'' 25 (empty_db\<lparr>outbox_events := [example_event]\<rparr>) = (evs1, s1) \<and>
     claimOutboxBatch 600 6 [] [''payout.requested''] ''b'' 25 s1 = (evs2, s2) \<and>
     evs1 \<noteq> [] \<and> ev_id ` set evs1 \<inter> ev_id ` set evs2 = {}"
proof -
  let ?s = "empty_db\<lparr>outbox_events := [example_event]\<rparr>"
  obtain evs1 s1 where 1: "claimOutboxBatch 600 5 [] [''payout.requested''] ''a'' 25 ?s = (evs1, s1)"
    by fastforce
  obtain evs2 s2 where 2: "claimOutboxBatch 600 6 [] [''payout.requested''] ''b'' 25 s1 = (evs2, s2)"
    by fastforce
  have "evs1 \<noteq> []"
    using 1 by (auto simp: claimOutboxBatch_def Let_def example_event_def new_outbox_row_def
        release_stale_def stale_lock_def claimable_event_def)
  moreover have "ev_id ` set evs1 \<inter> ev_id ` set evs2 = {}"
    by (rule claims_disjoint [OF _ 1 2]) simp_all
  ultimately show ?thesis using 1 2 by blast
qed

section \<open>Retries are bounded\<close>

lemma backoff_bounds: "1 \<le> backoffSeconds n \<and> backoffSeconds n \<le> 60"
  by (simp add: backoffSeconds_def)

lemma backoff_mono: "m \<le> n \<Longrightarrow> backoffSeconds m \<le> backoffSeconds n"
  unfolding backoffSeconds_def
  by (intro min.mono power_increasing nat_mono order_refl max.mono diff_right_mono) simp_all

lemma max_attempts_bounds: "1 \<le> maxAttemptsForTopic d sc topic \<and> maxAttemptsForTopic d sc topic \<le> 1000"
  using clamp_floor_bounds [of 10 1000 100 sc] clamp_floor_bounds [of 1 1000 10 d]
  by (auto simp: maxAttemptsForTopic_def)

text \<open>A failing handler is retried with a growing delay of 1 to 60 seconds and never beyond
  the attempt limit of its topic (itself between 1 and 1000): when the handler throws, the event
  becomes a dead letter if this was the last allowed attempt and is otherwise pending again, not
  available before the backoff has passed; when it returns, the event is acknowledged.\<close>

theorem process_event_outcome:
  fixes d sc :: jsnum
  assumes "handler evt now s = (res, s')" and "find (\<lambda>r. ob_id r = ev_id evt) (outbox_events s') = Some r"
  defines "limit \<equiv> maxAttemptsForTopic d sc (ev_topic evt)"
  shows "\<exists>r'. find (\<lambda>r. ob_id r = ev_id evt) (outbox_events (process_event d sc handler now evt s)) = Some r' \<and>
           1 \<le> limit \<and> limit \<le> 1000 \<and>
           ob_status r' = (if res = None then ObSent
                           else if limit \<le> int (ev_attempts evt) then ObDeadletter else ObPending) \<and>
           ob_locked_by r' = None \<and>
           (ob_status r' = ObPending \<longrightarrow>
              now + 1000 \<le> ob_available_at r' \<and> ob_available_at r' \<le> now + 60000)"
proof -
  have "1 \<le> limit \<and> limit \<le> 1000" unfolding limit_def by (rule max_attempts_bounds)
  then show ?thesis
    using assms(1,2) find_SomeD [OF assms(2)] backoff_bounds [of "int (ev_attempts evt)"]
    by (cases res) (auto simp: process_event_def outbox_ops find_update_where Let_def limit_def)
qed

theorem process_event_outcome_witness:
  "\<exists>r'. find (\<lambda>r. ob_id r = ''e1'')
          (outbox_events (process_event (Fin 10) (Fin 100) (\<lambda>e n s. (Some RpcFailed, s)) 5
             \<lparr> ev_id = ''e1'', ev_topic = ''payout.requested'', ev_payload = PlPayoutConfirm ''p1'', ev_attempts = 10 \<rparr>
             (empty_db\<lparr>outbox_events := [example_event]\<rparr>))) = Some r' \<and> ob_status r' = ObDeadletter"
proof -
  let ?s = "empty_db\<lparr>outbox_events := [example_event]\<rparr>"
  let ?e = "\<lparr> ev_id = ''e1'', ev_topic = ''payout.requested'', ev_payload = PlPayoutConfirm ''p1'', ev_attempts = 10 \<rparr>"
  have "find (\<lambda>r. ob_id r = ev_id ?e) (outbox_events ?s) = Some example_event"
    by (simp add: example_event_def new_outbox_row_def)
  from process_event_outcome [of "\<lambda>e n s. (Some RpcFailed, s)" ?e 5 ?s "Some RpcFailed" ?s, OF refl this, of "Fin 10" "Fin 100"]
  show ?thesis by (auto simp: maxAttemptsForTopic_def clamp_floor_def)
qed

section \<open>The interface between the loop and its handlers\<close>

text \<open>
  What the loop needs from a handler to keep an invariant of the store: the handler keeps it
  (whether it returns or throws), and the invariant does not read the outbox table, which the
  loop itself writes.
\<close>

locale outbox_consumer =
  fixes handle :: handler
    and inv :: "db \<Rightarrow> bool"
  assumes handle_inv: "inv s \<Longrightarrow> inv (snd (handle evt now s))"
    and inv_outbox: "inv (s\<lparr>outbox_events := t\<rparr>) = inv s"
begin

lemma process_event_inv: "inv s \<Longrightarrow> inv (process_event d sc handle now evt s)"
  using handle_inv [of s evt now]
  by (auto simp: process_event_def outbox_ops inv_outbox Let_def split: prod.splits option.splits)

lemma process_batch_inv: "inv s \<Longrightarrow> inv (process_batch d sc handle clock es s)"
proof (induction es arbitrary: clock s)
  case (Cons e es)
  then show ?case using process_event_inv by (cases clock) simp_all
qed (cases clock; simp)

lemma turn_inv: "inv s \<Longrightarrow> inv (runOutboxTurn d sc timeout handle topics w l skip now clock s)"
  using outbox_frame(5) [of timeout now skip topics w l s]
  by (auto simp: runOutboxTurn_def Let_def inv_outbox split: prod.splits intro!: process_batch_inv)

end

end
