(* ===== verification/Billing.thy ===== *)
theory Billing
  imports Outbox
begin

text \<open>
  The billing ledger: accounts, entries and their only writers, the admin top-up, the Stripe
  checkout and webhook of \<open>src/src/server.ts\<close>, and the signature check of
  \<open>src/src/payments/stripe.ts\<close>. \<open>gen i\<close> is the i-th id the operation draws with \<open>nanoid\<close>,
  \<open>now\<close> its clock. The locale \<open>ledger_state\<close> states what the code that moves money relies
  on; it is interpreted for the two ledger invariants.
\<close>

section \<open>Accounts and entries\<close>

definition acct_id :: "string \<Rightarrow> string" where
  "acct_id org = ''acct_'' @ org"

definition new_account :: "string \<Rightarrow> int \<Rightarrow> billing_accounts_row" where
  "new_account org now = \<lparr> ba_id = acct_id org, ba_org_id = org, ba_balance_cents = 0,
     ba_currency = ''usd'', ba_created_at = now, ba_updated_at = now \<rparr>"

definition account_of :: "string \<Rightarrow> db \<Rightarrow> billing_accounts_row option" where
  "account_of org s = find (\<lambda>a. ba_org_id a = org) (billing_accounts s)"

text \<open>\<open>INSERT .. ON CONFLICT (org_id) DO NOTHING\<close>\<close>

definition ensureAccount :: "string \<Rightarrow> int \<Rightarrow> db \<Rightarrow> db" where
  "ensureAccount org now s =
     s\<lparr>billing_accounts :=
         insert_do_nothing (\<lambda>a. ba_org_id a = org) (new_account org now) (billing_accounts s)\<rparr>"

text \<open>The account lookup of \<open>publishBounty\<close> and \<open>resolveDisputeAdmin\<close>: select, else insert and
  return the row.\<close>

definition getOrCreateAccount :: "string \<Rightarrow> int \<Rightarrow> db \<Rightarrow> billing_accounts_row \<times> db" where
  "getOrCreateAccount org now s =
     (case account_of org s of
        Some a \<Rightarrow> (a, s)
      | None \<Rightarrow> (new_account org now, s\<lparr>billing_accounts := billing_accounts s @ [new_account org now]\<rparr>))"

definition new_event ::
    "string \<Rightarrow> string \<Rightarrow> event_type \<Rightarrow> int \<Rightarrow> json \<Rightarrow> int \<Rightarrow> billing_events_row" where
  "new_event eid aid ty amount meta now =
     \<lparr> be_id = eid, be_account_id = aid, be_event_type = ty, be_amount_cents = amount,
       be_metadata = meta, be_created_at = now \<rparr>"

text \<open>\<open>SET balance_cents = balance_cents + amount\<close> on an \<open>INTEGER\<close> column, then the entry; the
  entry's account must exist (foreign key).\<close>

definition change_balance :: "string \<Rightarrow> int \<Rightarrow> int \<Rightarrow> db \<Rightarrow> err + db" where
  "change_balance aid amount now s =
     (if list_ex (\<lambda>a. ba_id a = aid \<and> \<not> int4 (ba_balance_cents a + amount)) (billing_accounts s)
      then Inl IntegerOutOfRange
      else Inr (s\<lparr>billing_accounts := update_where (\<lambda>a. ba_id a = aid)
                   (\<lambda>a. a\<lparr>ba_balance_cents := ba_balance_cents a + amount, ba_updated_at := now\<rparr>)
                   (billing_accounts s)\<rparr>))"

definition add_event :: "billing_events_row \<Rightarrow> db \<Rightarrow> err + db" where
  "add_event e s =
     (if \<not> list_ex (\<lambda>a. ba_id a = be_account_id e) (billing_accounts s)
      then Inl (OtherError ''billing_events_account_id_fkey'')
      else Inr (s\<lparr>billing_events := billing_events s @ [e]\<rparr>))"

text \<open>The pair of statements every credit consists of.\<close>

definition post_entry :: "billing_events_row \<Rightarrow> int \<Rightarrow> db \<Rightarrow> err + db" where
  "post_entry e now s =
     (case change_balance (be_account_id e) (be_amount_cents e) now s of
        Inl x \<Rightarrow> Inl x
      | Inr s1 \<Rightarrow> add_event e s1)"

text \<open>The debit of \<open>publishBounty\<close>: \<open>.. WHERE id = aid AND balance_cents >= amount\<close>, which fails
  with \<open>insufficient_funds\<close> when no row qualifies.\<close>

definition debit_entry :: "string \<Rightarrow> string \<Rightarrow> int \<Rightarrow> json \<Rightarrow> int \<Rightarrow> db \<Rightarrow> err + db" where
  "debit_entry eid aid amount meta now s =
     (let enough = \<lambda>a. ba_id a = aid \<and> ba_balance_cents a \<ge> amount
      in if \<not> list_ex enough (billing_accounts s) then Inl InsufficientFunds
         else add_event (new_event eid aid BountyBudgetReserve (- amount) meta now)
                (s\<lparr>billing_accounts := update_where enough
                     (\<lambda>a. a\<lparr>ba_balance_cents := ba_balance_cents a - amount, ba_updated_at := now\<rparr>)
                     (billing_accounts s)\<rparr>))"

definition ledger_sum :: "string \<Rightarrow> billing_events_row list \<Rightarrow> int" where
  "ledger_sum aid evs = sum_where (\<lambda>e. be_account_id e = aid) be_amount_cents evs"

section \<open>Audit trail\<close>

definition writeAuditEvent ::
    "string \<Rightarrow> int \<Rightarrow> string \<Rightarrow> string option \<Rightarrow> string \<Rightarrow> string \<Rightarrow> string \<Rightarrow> db \<Rightarrow> db" where
  "writeAuditEvent rid now actorType actorId action targetType targetId s =
     s\<lparr>audit_log := audit_log s @
         [\<lparr> al_id = rid, al_actor_type = actorType, al_actor_id = actorId, al_action = action,
            al_target_type = Some targetType, al_target_id = Some targetId, al_created_at = now \<rparr>]\<rparr>"

section \<open>Admin top-up\<close>

text \<open>\<open>POST /api/admin/billing/orgs/:orgId/topup\<close>: three statements without a transaction, so a
  failing update leaves the created account behind. A fractional amount is refused by the
  \<open>INTEGER\<close> column.\<close>

definition int_of_num :: "jsnum \<Rightarrow> int option" where
  "int_of_num x = (case x of Fin q \<Rightarrow> if q = of_int \<lfloor>q\<rfloor> then Some \<lfloor>q\<rfloor> else None | _ \<Rightarrow> None)"

definition admin_topup ::
    "(nat \<Rightarrow> string) \<Rightarrow> int \<Rightarrow> string \<Rightarrow> jsnum \<Rightarrow> db \<Rightarrow> unit response \<times> db" where
  "admin_topup gen now org amount s =
     (if (case amount of Fin q \<Rightarrow> q \<le> 0 | _ \<Rightarrow> True) then (Reject 400 ''invalid'', s)
      else
        let s1 = ensureAccount org now s
        in case account_of org s1 of
             None \<Rightarrow> (Reject 404 ''not_found'', s1)
           | Some acct \<Rightarrow>
               (case int_of_num amount of
                  None \<Rightarrow> (Reject 500 ''internal'', s1)
                | Some n \<Rightarrow>
                    (case post_entry (new_event (gen 0) (ba_id acct) AdminTopup n
                             (JObj [(''orgId'', JStr org)]) now) now s1 of
                       Inl _ \<Rightarrow> (Reject 500 ''internal'', s1)
                     | Inr s2 \<Rightarrow>
                         (Ok (), writeAuditEvent (gen 1) now ''admin_token'' None ''billing.topup''
                                   ''billing_account'' (ba_id acct) s2))))"

section \<open>Stripe\<close>

record stripe_session =
  ss_id :: string
  ss_payment_status :: string
  ss_org_id :: "string option"
  ss_account_id :: "string option"
  ss_intent_id :: "string option"
  ss_amount_total :: jsnum
  ss_currency :: "string option"

record stripe_event =
  ev_stripe_id :: string
  ev_type :: string
  ev_object :: "stripe_session option"

text \<open>
  \<open>verifyStripeWebhookSignature\<close>: the header's timestamp must be positive and within the
  tolerance, and one of its \<open>v1\<close> signatures must equal the HMAC of \<open>timestamp.body\<close>. \<open>hmac\<close>,
  \<open>num\<close> (\<open>Number(..)\<close>), \<open>str\<close> (number to string) and \<open>parse\<close> (\<open>JSON.parse\<close>) are the
  runtime's.
\<close>

definition verifyStripeWebhookSignature ::
    "(string \<Rightarrow> string \<Rightarrow> string) \<Rightarrow> (string \<Rightarrow> jsnum) \<Rightarrow> (rat \<Rightarrow> string) \<Rightarrow>
     (string \<Rightarrow> (string option \<times> string option \<times> stripe_session option) option) \<Rightarrow>
     int \<Rightarrow> string \<Rightarrow> string option \<Rightarrow> string \<Rightarrow> rat \<Rightarrow> err + stripe_event" where
  "verifyStripeWebhookSignature hmac num str parse now rawBody header secret tolerance =
     (let parts = map trim (split_on CHR '','' (case header of None \<Rightarrow> [] | Some h \<Rightarrow> h));
          v1Parts = filter (\<lambda>p. startsWith p ''v1='') parts
      in case find (\<lambda>p. startsWith p ''t='') parts of
           None \<Rightarrow> Inl (OtherError ''stripe_signature_missing'')
         | Some tPart \<Rightarrow>
             if v1Parts = [] then Inl (OtherError ''stripe_signature_missing'')
             else (case num (drop 2 tPart) of
                 Fin timestamp \<Rightarrow>
                   if timestamp \<le> 0 then Inl (OtherError ''stripe_signature_bad_timestamp'')
                   else if \<bar>of_int (now div 1000) - timestamp\<bar> > tolerance
                   then Inl (OtherError ''stripe_signature_timestamp_out_of_tolerance'')
                   else
                     let digest = hmac secret (str timestamp @ ''.'' @ rawBody)
                     in if \<not> list_ex (\<lambda>p. drop 3 p = digest) v1Parts
                        then Inl (OtherError ''stripe_signature_mismatch'')
                        else (case parse rawBody of
                            None \<Rightarrow> Inl (OtherError ''SyntaxError'')
                          | Some (eid, ty, obj) \<Rightarrow>
                              if \<not> truthy eid \<or> \<not> truthy ty
                              then Inl (OtherError ''stripe_event_invalid'')
                              else Inr \<lparr> ev_stripe_id = the eid, ev_type = the ty, ev_object = obj \<rparr>)
               | _ \<Rightarrow> Inl (OtherError ''stripe_signature_bad_timestamp'')))"

definition set_webhook_status ::
    "string \<Rightarrow> webhook_status \<Rightarrow> string option \<Rightarrow> int \<Rightarrow> db \<Rightarrow> db" where
  "set_webhook_status eid st lasterr now s =
     s\<lparr>stripe_webhook_events := update_where (\<lambda>e. se_id e = eid)
         (\<lambda>e. e\<lparr>se_status := st, se_processed_at := Some now,
                se_last_error := (case lasterr of None \<Rightarrow> se_last_error e | Some m \<Rightarrow> Some m)\<rparr>)
         (stripe_webhook_events s)\<rparr>"

definition session_incomplete :: "stripe_session \<Rightarrow> bool" where
  "session_incomplete sess \<longleftrightarrow>
     \<not> truthy (ss_org_id sess) \<or> \<not> truthy (ss_account_id sess) \<or> \<not> truthy (ss_intent_id sess) \<or>
     (case ss_amount_total sess of Fin q \<Rightarrow> q \<le> 0 | _ \<Rightarrow> True) \<or>
     toLowerCase (case ss_currency sess of None \<Rightarrow> ''usd'' | Some c \<Rightarrow> c) \<noteq> ''usd''"

text \<open>The credit, under a deterministic entry id that guards against applying it twice.\<close>

definition stripe_credit :: "stripe_event \<Rightarrow> stripe_session \<Rightarrow> int \<Rightarrow> db \<Rightarrow> err + db" where
  "stripe_credit evt sess now s =
     (let eid = ''stripe_evt_'' @ ev_stripe_id evt
      in if list_ex (\<lambda>e. be_id e = eid) (billing_events s) then Inr s
         else case int_of_num (ss_amount_total sess) of
                None \<Rightarrow> Inl (OtherError ''invalid input syntax for type integer'')
              | Some n \<Rightarrow>
                  post_entry (new_event eid (the (ss_account_id sess)) StripeTopup n
                    (JObj [(''orgId'', JStr (the (ss_org_id sess))),
                           (''stripeEventId'', JStr (ev_stripe_id evt)),
                           (''stripeSessionId'', JStr (ss_id sess))]) now) now s)"

text \<open>The transaction of the webhook; \<open>Inl\<close> rolls it back.\<close>

definition stripe_process :: "stripe_event \<Rightarrow> int \<Rightarrow> db \<Rightarrow> err + db" where
  "stripe_process evt now s =
     (let status = (\<lambda>st l. set_webhook_status (ev_stripe_id evt) st l now)
      in if ev_type evt = ''checkout.session.completed'' then
        (case ev_object evt of
           None \<Rightarrow> Inr (status WhIgnored None s)
         | Some sess \<Rightarrow>
             if ss_payment_status sess \<noteq> ''paid'' then Inr (status WhIgnored None s)
             else if session_incomplete sess
             then Inr (status WhFailed (Some ''missing_required_metadata_or_amount'') s)
             else (case stripe_credit evt sess now s of
                 Inl e \<Rightarrow> Inl e
               | Inr s1 \<Rightarrow>
                   Inr (status WhProcessed None
                     (s1\<lparr>payment_intents := update_where (\<lambda>p. pi_id p = the (ss_intent_id sess))
                          (\<lambda>p. p\<lparr>pi_status := IntentSucceeded, pi_provider_ref := Some (ss_id sess),
                                 pi_updated_at := now\<rparr>) (payment_intents s1)\<rparr>))))
      else Inr (status WhIgnored None s))"

text \<open>\<open>POST /api/webhooks/stripe\<close> once the signature is verified. The event row is committed
  before the processing transaction starts.\<close>

definition stripeWebhook :: "stripe_event \<Rightarrow> int \<Rightarrow> db \<Rightarrow> unit response \<times> db" where
  "stripeWebhook evt now s =
     (if list_ex (\<lambda>e. se_id e = ev_stripe_id evt) (stripe_webhook_events s) then (Ok (), s)
      else
        let s1 = s\<lparr>stripe_webhook_events := stripe_webhook_events s @
                   [\<lparr> se_id = ev_stripe_id evt, se_event_type = ev_type evt, se_received_at = now,
                      se_processed_at = None, se_status = WhReceived, se_last_error = None \<rparr>]\<rparr>
        in case stripe_process evt now s1 of
             Inr s2 \<Rightarrow> (Ok (), s2)
           | Inl e \<Rightarrow>
               (Reject 500 ''internal'',
                set_webhook_status (ev_stripe_id evt) WhFailed (Some (take 5000 (err_message e))) now s1))"

definition stripeWebhookRoute ::
    "(err + stripe_event) \<Rightarrow> int \<Rightarrow> db \<Rightarrow> unit response \<times> db" where
  "stripeWebhookRoute verified now s =
     (case verified of Inl _ \<Rightarrow> (Reject 400 ''invalid'', s) | Inr evt \<Rightarrow> stripeWebhook evt now s)"

text \<open>
  \<open>POST /api/billing/topups/checkout\<close>. \<open>createCustomer k\<close> is Stripe's answer to the k-th
  customer creation, \<open>createSession c a i\<close> its answer for customer \<open>c\<close>, account \<open>a\<close> and intent
  \<open>i\<close>; both may fail, which ends the request where it stands. An unknown stored customer is
  recreated and the session retried once.
\<close>

definition save_customer :: "string \<Rightarrow> int \<Rightarrow> string \<Rightarrow> string \<Rightarrow> db \<Rightarrow> db" where
  "save_customer rid now org cust s =
     s\<lparr>stripe_customers := insert_do_update (\<lambda>c. cu_org_id c = org)
         (\<lambda>c. c\<lparr>cu_stripe_customer_id := cust\<rparr>)
         \<lparr> cu_id = rid, cu_org_id = org, cu_stripe_customer_id = cust, cu_created_at = now \<rparr>
         (stripe_customers s)\<rparr>"

definition checkout_customer ::
    "(nat \<Rightarrow> string) \<Rightarrow> int \<Rightarrow> string \<Rightarrow> (nat \<Rightarrow> err + string) \<Rightarrow> db \<Rightarrow> err + string \<times> db" where
  "checkout_customer gen now org createCustomer s =
     (case find (\<lambda>c. cu_org_id c = org) (stripe_customers s) of
        Some c \<Rightarrow> Inr (cu_stripe_customer_id c, s)
      | None \<Rightarrow>
          (case createCustomer 0 of
             Inl e \<Rightarrow> Inl e
           | Inr cust \<Rightarrow> Inr (cust, save_customer (gen 0) now org cust s)))"

definition checkout_session ::
    "(nat \<Rightarrow> string) \<Rightarrow> int \<Rightarrow> string \<Rightarrow> (nat \<Rightarrow> err + string) \<Rightarrow>
     (string \<Rightarrow> err + string) \<Rightarrow> string \<Rightarrow> db \<Rightarrow> (err + string) \<times> db" where
  "checkout_session gen now org createCustomer createSession cust s =
     (case createSession cust of
        Inr sid \<Rightarrow> (Inr sid, s)
      | Inl e \<Rightarrow>
          if str_includes (err_message e) ''No such customer'' then
            (case createCustomer 1 of
               Inl e' \<Rightarrow> (Inl e', s)
             | Inr cust' \<Rightarrow> (createSession cust', save_customer (gen 2) now org cust' s))
          else (Inl e, s))"

definition new_intent :: "string \<Rightarrow> string \<Rightarrow> int \<Rightarrow> int \<Rightarrow> payment_intents_row" where
  "new_intent rid aid n now =
     \<lparr> pi_id = rid, pi_account_id = aid, pi_provider = ''stripe'', pi_provider_ref = None,
       pi_amount_cents = n, pi_status = IntentCreated, pi_created_at = now, pi_updated_at = now \<rparr>"

definition topup_checkout ::
    "(nat \<Rightarrow> string) \<Rightarrow> int \<Rightarrow> string \<Rightarrow> string option \<Rightarrow> jsnum \<Rightarrow> (nat \<Rightarrow> err + string) \<Rightarrow>
     (string \<Rightarrow> string \<Rightarrow> string \<Rightarrow> err + string) \<Rightarrow> db \<Rightarrow> (string \<times> string) response \<times> db" where
  "topup_checkout gen now org apiKey amount createCustomer createSession s =
     (if (case amount of Fin q \<Rightarrow> q \<le> 0 | _ \<Rightarrow> True) then (Reject 400 ''invalid'', s)
      else
        let s1 = ensureAccount org now s
        in case account_of org s1 of
             None \<Rightarrow> (Reject 500 ''internal'', s1)
           | Some acct \<Rightarrow>
               (case checkout_customer gen now org createCustomer s1 of
                  Inl _ \<Rightarrow> (Reject 500 ''internal'', s1)
                | Inr (cust, s2) \<Rightarrow>
                    (case int_of_num amount of
                       None \<Rightarrow> (Reject 500 ''internal'', s2)
                     | Some n \<Rightarrow>
                         if \<not> int4 n then (Reject 500 ''internal'', s2)
                         else
                           let s3 = s2\<lparr>payment_intents := payment_intents s2 @
                                 [new_intent (gen 1) (ba_id acct) n now]\<rparr>
                           in case checkout_session gen now org createCustomer
                                     (\<lambda>c. createSession c (ba_id acct) (gen 1)) cust s3 of
                                (Inl _, s4) \<Rightarrow> (Reject 500 ''internal'', s4)
                              | (Inr sid, s4) \<Rightarrow>
                                  (Ok (sid, gen 1),
                                   writeAuditEvent (gen 3) now ''buyer_api_key'' apiKey
                                     ''billing.topup.checkout'' ''payment_intent'' (gen 1)
                                     (s4\<lparr>payment_intents := update_where (\<lambda>p. pi_id p = gen 1)
                                       (\<lambda>p. p\<lparr>pi_provider_ref := Some sid, pi_status := IntentPending,
                                              pi_updated_at := now\<rparr>) (payment_intents s4)\<rparr>)))))"

text \<open>\<open>GET /api/billing/account\<close> and \<open>GET /api/billing/events\<close>\<close>

definition get_account :: "int \<Rightarrow> string \<Rightarrow> db \<Rightarrow> billing_accounts_row option \<times> db" where
  "get_account now org s = (let s1 = ensureAccount org now s in (account_of org s1, s1))"

definition get_events :: "string \<Rightarrow> db \<Rightarrow> billing_events_row list" where
  "get_events org s =
     take 100 (order_desc be_created_at
       (filter (\<lambda>e. list_ex (\<lambda>a. ba_id a = be_account_id e \<and> ba_org_id a = org) (billing_accounts s))
          (billing_events s)))"

section \<open>Invariants of the ledger\<close>

text \<open>An organisation has at most one account, whose id is derived from the organisation's; and
  every balance is its opening balance plus the sum of its entries. \<open>seed\<close> gives the opening
  balances (the demo organisation is created with one).\<close>

definition accounts_ok :: "billing_accounts_row list \<Rightarrow> bool" where
  "accounts_ok t \<longleftrightarrow>
     distinct (map ba_org_id t) \<and> (\<forall>a\<in>set t. ba_id a = acct_id (ba_org_id a))"

definition balanced ::
    "(string \<Rightarrow> int) \<Rightarrow> billing_accounts_row list \<Rightarrow> billing_events_row list \<Rightarrow> bool" where
  "balanced seed t es \<longleftrightarrow>
     (\<forall>a\<in>set t. ba_balance_cents a = seed (ba_id a) + ledger_sum (ba_id a) es) \<and>
     (\<forall>e\<in>set es. be_account_id e \<in> ba_id ` set t) \<and>
     (\<forall>i. seed i \<noteq> 0 \<longrightarrow> i \<in> ba_id ` set t)"

definition ledger_ok :: "(string \<Rightarrow> int) \<Rightarrow> db \<Rightarrow> bool" where
  "ledger_ok seed s \<longleftrightarrow>
     accounts_ok (billing_accounts s) \<and> balanced seed (billing_accounts s) (billing_events s)"

definition funds_ok :: "db \<Rightarrow> bool" where
  "funds_ok s \<longleftrightarrow> (\<forall>a\<in>set (billing_accounts s). 0 \<le> ba_balance_cents a)"

text \<open>Operations that leave both ledger tables alone.\<close>

definition same_ledger :: "db \<Rightarrow> db \<Rightarrow> bool" where
  "same_ledger s s' \<longleftrightarrow>
     billing_accounts s' = billing_accounts s \<and> billing_events s' = billing_events s"

lemma same_ledger_refl [simp]: "same_ledger s s"
  by (simp add: same_ledger_def)

lemma same_ledger_trans: "same_ledger s t \<Longrightarrow> same_ledger t u \<Longrightarrow> same_ledger s u"
  by (simp add: same_ledger_def)

lemma checkout_customer_frame:
  "checkout_customer gen now org cc s = Inr (c, s') \<Longrightarrow> same_ledger s s'"
  by (auto simp: checkout_customer_def save_customer_def same_ledger_def
      split: option.split_asm sum.split_asm)

lemma checkout_session_frame:
  "checkout_session gen now org cc cs c s = (r, s') \<Longrightarrow> same_ledger s s'"
  by (auto simp: checkout_session_def save_customer_def same_ledger_def
      split: sum.split_asm if_split_asm)

lemma topup_checkout_frame:
  assumes "topup_checkout gen now org k amount cc cs s = (r, s')"
  shows "s' = s \<or> same_ledger (ensureAccount org now s) s'"
proof -
  note d = checkout_customer_frame [unfolded same_ledger_def] checkout_session_frame [unfolded same_ledger_def]
  from assms show ?thesis
    by (auto simp: topup_checkout_def Let_def same_ledger_def writeAuditEvent_def dest!: d
        split: jsnum.split_asm if_split_asm option.split_asm sum.split_asm prod.split_asm)
qed

text \<open>What moving money relies on: a property of the ledger tables that account creation, a
  credit and a guarded debit keep.\<close>

locale ledger_state =
  fixes I :: "db \<Rightarrow> bool"
  assumes I_frame: "I s \<Longrightarrow> same_ledger s s' \<Longrightarrow> I s'"
    and I_account: "I s \<Longrightarrow> I (snd (getOrCreateAccount org now s))"
    and I_post: "I s \<Longrightarrow> 0 \<le> be_amount_cents e \<Longrightarrow> post_entry e now s = Inr s' \<Longrightarrow> I s'"
    and I_debit: "I s \<Longrightarrow> 0 \<le> n \<Longrightarrow> debit_entry eid aid n meta now s = Inr s' \<Longrightarrow> I s'"
begin

lemma I_ensure: "I s \<Longrightarrow> I (ensureAccount org now s)"
proof -
  assume "I s"
  moreover have "ensureAccount org now s = snd (getOrCreateAccount org now s) \<or> ensureAccount org now s = s"
    by (auto simp: ensureAccount_def getOrCreateAccount_def account_of_def insert_do_nothing_def
        find_None list_ex_iff split: option.splits)
  ultimately show ?thesis using I_account by metis
qed

lemma I_audit: "I s \<Longrightarrow> I (writeAuditEvent rid now t a act tt tid s)"
  by (erule I_frame) (simp add: writeAuditEvent_def same_ledger_def)

lemma I_webhook_status: "I s \<Longrightarrow> I (set_webhook_status eid st l now s)"
  by (erule I_frame) (simp add: set_webhook_status_def same_ledger_def)

lemma I_post_num:
  "post_entry e now s = Inr s' \<Longrightarrow> int_of_num (Fin q) = Some (be_amount_cents e) \<Longrightarrow>
     \<not> q \<le> 0 \<Longrightarrow> I s \<Longrightarrow> I s'"
  by (rule I_post) (auto simp: int_of_num_def split: if_splits)

lemma admin_topup_I:
  assumes "I s" shows "I (snd (admin_topup gen now org amount s))"
  using assms I_ensure [OF assms, of org now]
  by (cases amount)
     (auto simp: admin_topup_def Let_def is_finite_def new_event_def
       intro!: I_audit intro: I_post_num split: option.splits sum.splits)

lemma stripe_credit_I:
  assumes "I s" and "stripe_credit evt sess now s = Inr s'" and "\<not> session_incomplete sess"
  shows "I s'"
proof (cases "ss_amount_total sess")
  case (Fin q)
  with assms(3) have "\<not> q \<le> 0" by (simp add: session_incomplete_def)
  with assms Fin show ?thesis
    by (auto simp: stripe_credit_def Let_def new_event_def intro: I_post_num
        split: if_split_asm option.split_asm)
qed (use assms in \<open>auto simp: session_incomplete_def\<close>)

lemma stripe_process_I:
  assumes "I s" and "stripe_process evt now s = Inr s'" shows "I s'"
proof -
  have pay: "I (set_webhook_status eid st l now (s1\<lparr>payment_intents := t\<rparr>))" if "I s1" for eid st l s1 t
    using I_webhook_status [OF I_frame [OF that]] by (simp add: same_ledger_def)
  from assms show ?thesis
    by (auto simp: stripe_process_def Let_def intro!: I_webhook_status pay dest: stripe_credit_I [OF assms(1)]
        split: if_split_asm option.split_asm sum.split_asm)
qed

lemma stripeWebhook_I: "I s \<Longrightarrow> I (snd (stripeWebhook evt now s))"
proof -
  assume "I s"
  then have "I (s\<lparr>stripe_webhook_events := t\<rparr>)" for t by (rule I_frame) (simp add: same_ledger_def)
  with \<open>I s\<close> show ?thesis
    by (auto simp: stripeWebhook_def Let_def intro: I_webhook_status stripe_process_I split: sum.splits)
qed

lemma stripeWebhookRoute_I: "I s \<Longrightarrow> I (snd (stripeWebhookRoute v now s))"
  by (auto simp: stripeWebhookRoute_def stripeWebhook_I split: sum.splits)

lemma topup_checkout_I: "I s \<Longrightarrow> I (snd (topup_checkout gen now org k amount cc cs s))"
  using topup_checkout_frame [OF prod.collapse [symmetric]] I_frame I_ensure by metis

end

section \<open>The two ledger invariants\<close>

lemma acct_id_inj [simp]: "acct_id a = acct_id b \<longleftrightarrow> a = b"
  by (simp add: acct_id_def)

lemma ledger_sum_append [simp]: "ledger_sum aid (es @ fs) = ledger_sum aid es + ledger_sum aid fs"
  by (simp add: ledger_sum_def)

lemma ledger_sum_single [simp]:
  "ledger_sum aid [e] = (if be_account_id e = aid then be_amount_cents e else 0)"
  by (simp add: ledger_sum_def)

lemma ledger_sum_foreign: "(\<And>e. e \<in> set es \<Longrightarrow> be_account_id e \<noteq> aid) \<Longrightarrow> ledger_sum aid es = 0"
  unfolding ledger_sum_def by (rule sum_where_none)

lemma accounts_ok_unique:
  "accounts_ok t \<Longrightarrow> a \<in> set t \<Longrightarrow> b \<in> set t \<Longrightarrow> ba_id a = ba_id b \<Longrightarrow> a = b"
  by (auto simp: accounts_ok_def distinct_map dest: inj_onD)

lemma accounts_ok_update:
  "(\<And>a. ba_id (f a) = ba_id a) \<Longrightarrow> (\<And>a. ba_org_id (f a) = ba_org_id a) \<Longrightarrow>
     accounts_ok (update_where P f t) = accounts_ok t"
proof -
  assume f: "\<And>a. ba_id (f a) = ba_id a" "\<And>a. ba_org_id (f a) = ba_org_id a"
  then have "(\<forall>a\<in>set (update_where P f t). ba_id a = acct_id (ba_org_id a)) =
             (\<forall>a\<in>set t. ba_id a = acct_id (ba_org_id a))"
    by (induction t) auto
  with f show ?thesis by (simp add: accounts_ok_def map_update_where)
qed

lemma accounts_ok_append:
  "accounts_ok t \<Longrightarrow> (\<And>a. a \<in> set t \<Longrightarrow> ba_org_id a \<noteq> org) \<Longrightarrow> accounts_ok (t @ [new_account org now])"
  by (auto simp: accounts_ok_def new_account_def)

text \<open>An entry and the matching change of its account keep the balance equation, whichever
  condition selects the account.\<close>

lemma balanced_entry:
  assumes t: "accounts_ok t" and bal: "balanced seed t es"
    and a0: "a0 \<in> set t" "ba_id a0 = be_account_id e" "P a0"
    and sel: "\<And>a. P a \<Longrightarrow> ba_id a = be_account_id e"
    and f: "\<And>a. ba_id (f a) = ba_id a"
      "\<And>a. ba_balance_cents (f a) = ba_balance_cents a + be_amount_cents e"
  shows "balanced seed (update_where P f t) (es @ [e])"
proof -
  have ids: "ba_id ` set (update_where P f t) = ba_id ` set t"
    using f(1) by (metis list.set_map map_update_where)
  have "ba_balance_cents a = seed (ba_id a) + ledger_sum (ba_id a) (es @ [e])"
    if "a \<in> set (update_where P f t)" for a
  proof -
    from that obtain q where q: "q \<in> set t" "a = (if P q then f q else q)"
      by (auto simp: in_set_update_where)
    then have b: "ba_balance_cents q = seed (ba_id q) + ledger_sum (ba_id q) es"
      using bal by (simp add: balanced_def)
    show ?thesis
    proof (cases "ba_id q = be_account_id e")
      case True
      then have "q = a0" using accounts_ok_unique [OF t q(1) a0(1)] a0(2) by simp
      with q a0 b f show ?thesis by simp
    next
      case False
      with sel q have "a = q" by auto
      with b False show ?thesis by simp
    qed
  qed
  moreover have "be_account_id e \<in> ba_id ` set t" using a0 by (metis image_eqI)
  ultimately show ?thesis using bal by (simp add: balanced_def ids)
qed

lemma balanced_new_account:
  assumes "balanced seed t es" and "acct_id org \<notin> ba_id ` set t"
  shows "balanced seed (t @ [new_account org now]) es"
proof -
  from assms have "ledger_sum (acct_id org) es = 0" "seed (acct_id org) = 0"
    unfolding balanced_def by (metis ledger_sum_foreign, metis)
  with assms show ?thesis by (auto simp: balanced_def new_account_def)
qed

lemma post_entry_Inr:
  assumes "post_entry e now s = Inr s'"
  obtains a0 where "a0 \<in> set (billing_accounts s)" and "ba_id a0 = be_account_id e"
    and "s' = s\<lparr>billing_accounts := update_where (\<lambda>a. ba_id a = be_account_id e)
                 (\<lambda>a. a\<lparr>ba_balance_cents := ba_balance_cents a + be_amount_cents e,
                        ba_updated_at := now\<rparr>) (billing_accounts s),
               billing_events := billing_events s @ [e]\<rparr>"
proof -
  let ?t = "update_where (\<lambda>a. ba_id a = be_account_id e)
                 (\<lambda>a. a\<lparr>ba_balance_cents := ba_balance_cents a + be_amount_cents e,
                        ba_updated_at := now\<rparr>) (billing_accounts s)"
  from assms obtain a where "a \<in> set ?t" "ba_id a = be_account_id e"
    and s': "s' = s\<lparr>billing_accounts := ?t, billing_events := billing_events s @ [e]\<rparr>"
    by (auto simp: post_entry_def change_balance_def add_event_def list_ex_iff split: if_split_asm)
  moreover from this(1) obtain a0 where "a0 \<in> set (billing_accounts s)" "ba_id a = ba_id a0"
    by (auto simp: in_set_update_where)
  ultimately have "a0 \<in> set (billing_accounts s)" "ba_id a0 = be_account_id e" by simp_all
  then show thesis using s' by (rule that)
qed

lemma debit_entry_Inr:
  assumes "debit_entry eid aid n meta now s = Inr s'"
  obtains a0 where "a0 \<in> set (billing_accounts s)" and "ba_id a0 = aid" and "n \<le> ba_balance_cents a0"
    and "s' = s\<lparr>billing_accounts := update_where (\<lambda>a. ba_id a = aid \<and> n \<le> ba_balance_cents a)
                 (\<lambda>a. a\<lparr>ba_balance_cents := ba_balance_cents a - n, ba_updated_at := now\<rparr>)
                 (billing_accounts s),
               billing_events := billing_events s @ [new_event eid aid BountyBudgetReserve (- n) meta now]\<rparr>"
proof -
  from assms obtain a0 where "a0 \<in> set (billing_accounts s)" "ba_id a0 = aid" "n \<le> ba_balance_cents a0"
    by (auto simp: debit_entry_def Let_def list_ex_iff split: if_split_asm)
  then show thesis
    by (rule that) (use assms in \<open>auto simp: debit_entry_def Let_def add_event_def new_event_def
        split: if_split_asm\<close>)
qed

interpretation ledger: ledger_state "ledger_ok seed" for seed
proof
  fix s s' :: db
  assume "ledger_ok seed s" "same_ledger s s'"
  then show "ledger_ok seed s'" by (simp add: ledger_ok_def same_ledger_def)
next
  fix s org now
  assume ok: "ledger_ok seed s"
  show "ledger_ok seed (snd (getOrCreateAccount org now s))"
  proof (cases "account_of org s")
    case None
    then have "\<And>a. a \<in> set (billing_accounts s) \<Longrightarrow> ba_org_id a \<noteq> org"
      by (auto simp: account_of_def find_None)
    moreover from this ok have "acct_id org \<notin> ba_id ` set (billing_accounts s)"
      unfolding ledger_ok_def accounts_ok_def by (metis acct_id_inj image_iff)
    ultimately show ?thesis using ok None
      by (simp add: getOrCreateAccount_def ledger_ok_def accounts_ok_append balanced_new_account)
  qed (use ok in \<open>simp add: getOrCreateAccount_def\<close>)
next
  fix s s' e now
  assume ok: "ledger_ok seed s" and p: "post_entry e now s = Inr s'"
  from p show "ledger_ok seed s'"
  proof (rule post_entry_Inr)
    fix a0
    assume a0: "a0 \<in> set (billing_accounts s)" "ba_id a0 = be_account_id e"
      and s': "s' = s\<lparr>billing_accounts := update_where (\<lambda>a. ba_id a = be_account_id e)
                 (\<lambda>a. a\<lparr>ba_balance_cents := ba_balance_cents a + be_amount_cents e,
                        ba_updated_at := now\<rparr>) (billing_accounts s),
               billing_events := billing_events s @ [e]\<rparr>"
    from ok show ?thesis
      unfolding ledger_ok_def s' using a0
      by (auto simp: accounts_ok_update intro!: balanced_entry)
  qed
next
  fix s s' eid aid n meta now
  assume ok: "ledger_ok seed s" and d: "debit_entry eid aid n meta now s = Inr s'"
  let ?e = "new_event eid aid BountyBudgetReserve (- n) meta now"
  from d show "ledger_ok seed s'"
  proof (rule debit_entry_Inr)
    fix a0
    assume a0: "a0 \<in> set (billing_accounts s)" "ba_id a0 = aid" "n \<le> ba_balance_cents a0"
      and s': "s' = s\<lparr>billing_accounts := update_where (\<lambda>a. ba_id a = aid \<and> n \<le> ba_balance_cents a)
                 (\<lambda>a. a\<lparr>ba_balance_cents := ba_balance_cents a - n, ba_updated_at := now\<rparr>)
                 (billing_accounts s),
               billing_events := billing_events s @ [?e]\<rparr>"
    have e: "be_account_id ?e = aid" "be_amount_cents ?e = - n" by (simp_all add: new_event_def)
    from ok show ?thesis
      unfolding ledger_ok_def s' using a0 e
      by (auto simp: accounts_ok_update intro!: balanced_entry)
  qed
qed

interpretation funds: ledger_state funds_ok
proof
  fix s s' :: db
  assume "funds_ok s" "same_ledger s s'"
  then show "funds_ok s'" by (simp add: funds_ok_def same_ledger_def)
next
  fix s org now
  assume "funds_ok s"
  then show "funds_ok (snd (getOrCreateAccount org now s))"
    by (auto simp: getOrCreateAccount_def funds_ok_def new_account_def split: option.splits)
next
  fix s s' e now
  assume "funds_ok s" "0 \<le> be_amount_cents e" "post_entry e now s = Inr s'"
  then show "funds_ok s'"
    by (auto simp: funds_ok_def post_entry_def change_balance_def add_event_def in_set_update_where
        split: if_splits)
next
  fix s s' eid aid n meta now
  assume "funds_ok s" "0 \<le> n" "debit_entry eid aid n meta now s = Inr s'"
  then show "funds_ok s'"
    by (auto simp: funds_ok_def debit_entry_def Let_def add_event_def in_set_update_where
        split: if_splits)
qed

section \<open>Stripe deliveries\<close>

lemma webhook_recorded:
  "list_ex (\<lambda>e. se_id e = ev_stripe_id evt) (stripe_webhook_events (snd (stripeWebhook evt now s)))"
proof -
  have kept: "list_ex (\<lambda>e. se_id e = i) (stripe_webhook_events (set_webhook_status eid st l now s')) =
              list_ex (\<lambda>e. se_id e = i) (stripe_webhook_events s')" for i eid st l s'
    by (simp add: set_webhook_status_def list_ex_update_where)
  have credit: "stripe_webhook_events s2 = stripe_webhook_events s1"
    if "stripe_credit evt sess now s1 = Inr s2" for sess s1 s2
    using that by (auto simp: stripe_credit_def Let_def elim!: post_entry_Inr
        split: if_split_asm option.split_asm)
  have "list_ex (\<lambda>e. se_id e = ev_stripe_id evt) (stripe_webhook_events s2)"
    if "stripe_process evt now s1 = Inr s2" "list_ex (\<lambda>e. se_id e = ev_stripe_id evt) (stripe_webhook_events s1)"
    for s1 s2
    using that by (auto simp: stripe_process_def Let_def kept dest: credit
        split: if_split_asm option.split_asm sum.split_asm)
  then show ?thesis
    by (auto simp: stripeWebhook_def Let_def kept split: sum.splits)
qed

lemma webhook_redelivery:
  "stripeWebhook evt t2 (snd (stripeWebhook evt t1 s)) = (Ok (), snd (stripeWebhook evt t1 s))"
  using webhook_recorded [of evt t1 s] by (simp add: stripeWebhook_def)

text \<open>C25. A paid Stripe checkout is credited exactly once: on a first delivery whose session is
  complete, names an existing account and keeps the balance in range, the webhook adds one entry
  of the paid amount and raises the account's balance by it; every later delivery of the same
  event answers success and leaves the whole store as it is.\<close>

theorem stripe_topup_exactly_once:
  fixes t1 t2 :: int
  assumes "\<not> list_ex (\<lambda>e. se_id e = ev_stripe_id evt) (stripe_webhook_events s)"
    and "\<not> list_ex (\<lambda>e. be_id e = ''stripe_evt_'' @ ev_stripe_id evt) (billing_events s)"
    and "ev_type evt = ''checkout.session.completed''" and "ev_object evt = Some sess"
    and "ss_payment_status sess = ''paid''" and "\<not> session_incomplete sess"
    and "int_of_num (ss_amount_total sess) = Some n"
    and "distinct (map ba_id (billing_accounts s))" and "a \<in> set (billing_accounts s)"
    and "ss_account_id sess = Some (ba_id a)" and "int4 (ba_balance_cents a + n)"
  defines "s1 \<equiv> snd (stripeWebhook evt t1 s)"
  shows "fst (stripeWebhook evt t1 s) = Ok () \<and>
         ledger_sum (ba_id a) (billing_events s1) = ledger_sum (ba_id a) (billing_events s) + n \<and>
         map_option ba_balance_cents (find (\<lambda>b. ba_id b = ba_id a) (billing_accounts s1))
           = Some (ba_balance_cents a + n) \<and>
         stripeWebhook evt t2 s1 = (Ok (), s1)"
proof -
  have same: "b = a" if "b \<in> set (billing_accounts s)" "ba_id b = ba_id a" for b
    using that assms(8,9) by (auto simp: distinct_map dest: inj_onD)
  let ?s0 = "s\<lparr>stripe_webhook_events := stripe_webhook_events s @
                   [\<lparr> se_id = ev_stripe_id evt, se_event_type = ev_type evt, se_received_at = t1,
                      se_processed_at = None, se_status = WhReceived, se_last_error = None \<rparr>]\<rparr>"
  let ?upd = "update_where (\<lambda>b. ba_id b = ba_id a)
     (\<lambda>b. b\<lparr>ba_balance_cents := ba_balance_cents b + n, ba_updated_at := t1\<rparr>) (billing_accounts s)"
  have range: "\<not> list_ex (\<lambda>b. ba_id b = ba_id a \<and> \<not> int4 (ba_balance_cents b + n)) (billing_accounts s)"
    using same assms(11) by (auto simp: list_ex_iff)
  have "list_ex (\<lambda>b. ba_id b = ba_id a) ?upd"
    using assms(9) by (subst list_ex_update_where) (auto simp: list_ex_iff)
  then obtain meta where credit: "stripe_credit evt sess t1 ?s0 = Inr (?s0\<lparr>billing_accounts := ?upd,
      billing_events := billing_events s @
        [new_event (''stripe_evt_'' @ ev_stripe_id evt) (ba_id a) StripeTopup n meta t1]\<rparr>)"
    using assms(2,7,10) range
    by (simp add: stripe_credit_def Let_def post_entry_def change_balance_def add_event_def new_event_def)
  have find: "find (\<lambda>b. ba_id b = ba_id a) ?upd =
      Some (a\<lparr>ba_balance_cents := ba_balance_cents a + n, ba_updated_at := t1\<rparr>)"
    using find_unique [OF assms(8,9) refl] by (simp add: find_update_where)
  from assms(1,3-6) credit have "fst (stripeWebhook evt t1 s) = Ok ()"
    "billing_events s1 = billing_events s @
        [new_event (''stripe_evt_'' @ ev_stripe_id evt) (ba_id a) StripeTopup n meta t1]"
    "billing_accounts s1 = ?upd"
    by (simp_all add: s1_def stripeWebhook_def stripe_process_def Let_def set_webhook_status_def)
  then show ?thesis
    using find webhook_redelivery [of evt t2 t1 s] by (simp add: s1_def new_event_def)
qed

definition example_account :: billing_accounts_row where
  "example_account = (new_account ''o1'' 0)\<lparr>ba_balance_cents := 700\<rparr>"

definition example_stripe_event :: stripe_event where
  "example_stripe_event = \<lparr> ev_stripe_id = ''evt_1'', ev_type = ''checkout.session.completed'',
     ev_object = Some \<lparr> ss_id = ''cs_1'', ss_payment_status = ''paid'', ss_org_id = Some ''o1'',
       ss_account_id = Some ''acct_o1'', ss_intent_id = Some ''pi1'', ss_amount_total = Fin 500,
       ss_currency = Some ''usd'' \<rparr> \<rparr>"

lemma example_session_ok:
  "\<not> session_incomplete (the (ev_object example_stripe_event))"
  by (simp add: session_incomplete_def example_stripe_event_def toLowerCase_def lower_char_def Let_def)

theorem stripe_topup_exactly_once_witness:
  "fst (stripeWebhook example_stripe_event 5 (empty_db\<lparr>billing_accounts := [example_account]\<rparr>)) = Ok () \<and>
   ledger_sum ''acct_o1'' (billing_events
     (snd (stripeWebhook example_stripe_event 5 (empty_db\<lparr>billing_accounts := [example_account]\<rparr>)))) = 500"
proof -
  have int: "int_of_num (Fin 500) = Some 500" by (simp add: int_of_num_def)
  show ?thesis
    using stripe_topup_exactly_once [of example_stripe_event "empty_db\<lparr>billing_accounts := [example_account]\<rparr>"
        "the (ev_object example_stripe_event)" 500 example_account 5] example_session_ok int
    by (simp add: example_stripe_event_def example_account_def new_account_def acct_id_def empty_db_def
        int4_def ledger_sum_def)
qed

lemma stripe_process_failed_frame:
  "fst (stripeWebhook evt now s) = Reject c m \<Longrightarrow> same_ledger s (snd (stripeWebhook evt now s))"
  by (auto simp: stripeWebhook_def Let_def same_ledger_def set_webhook_status_def
      split: if_split_asm sum.split_asm)

text \<open>A top-up whose processing failed is never credited: when the first delivery of an event
  ends in the error the route answers with 500 to make Stripe deliver it again, the ledger is
  unchanged, and every redelivery finds the recorded event, answers success and changes
  nothing.\<close>

theorem stripe_failed_topup_not_retried:
  fixes t1 t2 :: int
  assumes "fst (stripeWebhook evt t1 s) = Reject 500 ''internal''"
  defines "s1 \<equiv> snd (stripeWebhook evt t1 s)"
  shows "same_ledger s s1 \<and> stripeWebhook evt t2 s1 = (Ok (), s1)"
  using stripe_process_failed_frame [OF assms(1)] webhook_redelivery [of evt t2 t1 s]
  by (simp add: s1_def)

text \<open>The account that the session names does not exist: the foreign key of the entry fails.\<close>

theorem stripe_failed_topup_not_retried_witness:
  "let s1 = snd (stripeWebhook example_stripe_event 5 empty_db)
   in same_ledger empty_db s1 \<and> stripeWebhook example_stripe_event 6 s1 = (Ok (), s1)"
proof -
  have "fst (stripeWebhook example_stripe_event 5 empty_db) = Reject 500 ''internal''"
    using example_session_ok
    by (simp add: stripeWebhook_def stripe_process_def stripe_credit_def Let_def post_entry_def
        change_balance_def add_event_def new_event_def example_stripe_event_def int_of_num_def empty_db_def)
  from stripe_failed_topup_not_retried [OF this, of 6] show ?thesis by (simp add: Let_def)
qed

end
