(* ===== verification/Origins.thy ===== *)
theory Origins
  imports Schema
begin

text \<open>
  Origin verification (\<open>src/src/buyer.ts\<close>) and the blocked-domain policy
  (\<open>src/src/security/blockedDomains.ts\<close>). The WHATWG URL parser, \<open>net.isIP\<close>, DNS and HTTP are
  the runtime's and the network's: \<open>parse_url\<close>, \<open>isIP\<close> and the records \<open>net\<close> are parameters.
  The last section relates the IPv4 test to CIDR blocks and the SQL pattern to subdomains.
\<close>

section \<open>Origins as strings\<close>

record url =
  u_protocol :: string
  u_username :: string
  u_password :: string
  u_hostname :: string
  u_origin :: string
  u_pathname :: string
  u_href :: string

type_synonym url_parser = "string \<Rightarrow> url option"

definition normalizeOrigin :: "url_parser \<Rightarrow> bool \<Rightarrow> string \<Rightarrow> err + string" where
  "normalizeOrigin parse_url production input =
     (case parse_url input of
        None \<Rightarrow> Inl (OtherError ''Invalid URL'')
      | Some u \<Rightarrow>
          if u_username u \<noteq> [] \<or> u_password u \<noteq> [] then Inl (OtherError ''invalid_origin'')
          else if u_protocol u \<notin> {''http:'', ''https:''} then Inl (OtherError ''invalid_origin'')
          else if production \<and> u_protocol u \<noteq> ''https:'' then Inl (OtherError ''https_required'')
          else Inr (u_origin u))"

section \<open>Blocked domains\<close>

text \<open>SQL \<open>LIKE\<close>: the pattern first, with \<open>%\<close>, \<open>_\<close> and the escape character backslash.\<close>

fun sql_like :: "string \<Rightarrow> string \<Rightarrow> bool" where
  "sql_like [] s = (s = [])"
| "sql_like (p # ps) s =
     (if p = CHR ''%'' then list_ex (sql_like ps) (suffixes s)
      else if p = CHR ''_'' then (case s of [] \<Rightarrow> False | _ # t \<Rightarrow> sql_like ps t)
      else if p = CHR 0x5C then
        (case ps of [] \<Rightarrow> False
         | q # qs \<Rightarrow> (case s of [] \<Rightarrow> False | c # t \<Rightarrow> c = q \<and> sql_like qs t))
      else (case s of [] \<Rightarrow> False | c # t \<Rightarrow> c = p \<and> sql_like ps t))"

definition normalizeBlockedDomainInput :: "url_parser \<Rightarrow> string \<Rightarrow> err + string" where
  "normalizeBlockedDomainInput parse_url input =
     (let s = toLowerCase (trim input)
      in if s = [] then Inl (OtherError ''invalid_blocked_domain'')
         else (case parse_url (if str_includes s ''://'' then s else ''https://'' @ s) of
             None \<Rightarrow> Inl (OtherError ''invalid_blocked_domain'')
           | Some u \<Rightarrow>
               let h = toLowerCase (u_hostname u);
                   h = (if startsWith h ''*.'' then drop 2 h else h);
                   h = (if startsWith h ''.'' then drop 1 h else h);
                   h = (if endsWith h ''.'' then butlast h else h)
               in if h = [] \<or> length h > 200 then Inl (OtherError ''invalid_blocked_domain'')
                  else Inr h))"

definition isHostnameBlocked :: "string \<Rightarrow> db \<Rightarrow> bool" where
  "isHostnameBlocked hostname s =
     (let host = toLowerCase (trim hostname)
      in if host = [] then False
         else list_ex (\<lambda>r. host = bd_domain r \<or> sql_like (''%.'' @ bd_domain r) host)
                (blocked_domains s))"

text \<open>An unparsable url passes: the caller validates it.\<close>

definition assertUrlNotBlocked :: "url_parser \<Rightarrow> string \<Rightarrow> db \<Rightarrow> err + unit" where
  "assertUrlNotBlocked parse_url inputUrl s =
     (case parse_url inputUrl of
        None \<Rightarrow> Inr ()
      | Some u \<Rightarrow>
          let host = toLowerCase (u_hostname u)
          in if isHostnameBlocked host s then Inl (OtherError (''blocked_domain:'' @ host)) else Inr ())"

section \<open>Private and special addresses\<close>

text \<open>\<open>Number\<close> of an address part. The parts come from \<open>net.isIP\<close> or from the pattern
  \<open>\d+\<close>, so they are decimal; an empty part is 0.\<close>

definition decimal :: "string \<Rightarrow> nat" where
  "decimal s = foldl (\<lambda>a c. 10 * a + (of_char c - 48)) 0 s"

definition is_digit :: "char \<Rightarrow> bool" where
  "is_digit c \<longleftrightarrow> 48 \<le> (of_char c :: nat) \<and> (of_char c :: nat) \<le> 57"

definition part_number :: "string \<Rightarrow> jsnum" where
  "part_number s = (if list_all is_digit s then Fin (of_nat (decimal s)) else NaN)"

definition octet :: "jsnum \<Rightarrow> bool" where
  "octet x = (case x of Fin q \<Rightarrow> 0 \<le> q \<and> q \<le> 255 | _ \<Rightarrow> False)"

definition special_prefix :: "rat \<Rightarrow> rat \<Rightarrow> bool" where
  "special_prefix a b \<longleftrightarrow>
     a = 0 \<or> a = 10 \<or> a = 127 \<or> (a = 169 \<and> b = 254) \<or> (a = 172 \<and> b \<ge> 16 \<and> b \<le> 31) \<or>
     (a = 192 \<and> b = 168) \<or> (a = 192 \<and> b = 0) \<or> (a = 192 \<and> b = 88) \<or>
     (a = 198 \<and> (b = 18 \<or> b = 19)) \<or> (a = 192 \<and> b = 2) \<or> (a = 198 \<and> b = 51) \<or>
     (a = 203 \<and> b = 0) \<or> a \<ge> 224"

definition isPrivateOrSpecialIpv4 :: "string \<Rightarrow> bool" where
  "isPrivateOrSpecialIpv4 ip =
     (case map part_number (split_on CHR ''.'' ip) of
        [Fin a, Fin b, Fin c, Fin d] \<Rightarrow>
          if \<not> (octet (Fin a) \<and> octet (Fin b) \<and> octet (Fin c) \<and> octet (Fin d)) then True
          else special_prefix a b
      | _ \<Rightarrow> True)"

text \<open>The pattern \<open>^::ffff:(\d+\.\d+\.\d+\.\d+)$\<close>\<close>

definition mapped_ipv4 :: "string \<Rightarrow> string option" where
  "mapped_ipv4 s =
     (if startsWith s ''::ffff:'' then
        let r = drop 7 s; parts = split_on CHR ''.'' r
        in if length parts = 4 \<and> list_all (\<lambda>p. p \<noteq> [] \<and> list_all is_digit p) parts
           then Some r else None
      else None)"

definition isPrivateOrSpecialIpv6 :: "string \<Rightarrow> bool" where
  "isPrivateOrSpecialIpv6 ip =
     (let l = toLowerCase ip
      in if l = ''::'' \<or> l = ''::1'' then True
         else if startsWith l ''fc'' \<or> startsWith l ''fd'' then True
         else if startsWith l ''fe8'' \<or> startsWith l ''fe9'' \<or> startsWith l ''fea''
              \<or> startsWith l ''feb'' then True
         else (case mapped_ipv4 l of Some v4 \<Rightarrow> isPrivateOrSpecialIpv4 v4 | None \<Rightarrow> False))"

definition isPrivateOrSpecialIp :: "(string \<Rightarrow> nat) \<Rightarrow> string \<Rightarrow> bool" where
  "isPrivateOrSpecialIp isIP ip =
     (if isIP ip = 4 then isPrivateOrSpecialIpv4 ip
      else if isIP ip = 6 then isPrivateOrSpecialIpv6 ip
      else True)"

section \<open>Proving control of an origin\<close>

record net_error =
  ne_name :: string
  ne_message :: string

record http_response =
  hr_ok :: bool
  hr_status :: string
  hr_content_length :: "jsnum option"
  hr_chunks :: "string list"
  hr_verify_header :: "string option"  \<comment> \<open>the first of the three accepted header names\<close>

record net =
  nt_allow_private :: bool
  nt_isIP :: "string \<Rightarrow> nat"
  nt_lookup :: "string \<Rightarrow> net_error + string list"
  nt_txt :: "string \<Rightarrow> net_error + string list list"
  nt_get :: "string \<Rightarrow> net_error + http_response"
  nt_head :: "string \<Rightarrow> net_error + http_response"
  nt_max_bytes :: nat

abbreviation throw :: "string \<Rightarrow> net_error + 'a" where
  "throw m \<equiv> Inl \<lparr> ne_name = ''Error'', ne_message = m \<rparr>"

definition assertOriginHostIsPublic :: "url_parser \<Rightarrow> net \<Rightarrow> string \<Rightarrow> net_error + unit" where
  "assertOriginHostIsPublic parse_url n origin =
     (if nt_allow_private n then Inr ()
      else case parse_url origin of
          None \<Rightarrow> throw ''Invalid URL''
        | Some u \<Rightarrow>
            let host = u_hostname u; lower = toLowerCase host
            in if host = [] then throw ''invalid_origin_host''
               else if lower = ''localhost'' \<or> endsWith lower ''.localhost''
               then throw ''origin_host_private''
               else if nt_isIP n host \<noteq> 0 then
                 (if isPrivateOrSpecialIp (nt_isIP n) host then throw ''origin_host_private''
                  else Inr ())
               else (case nt_lookup n host of
                   Inl e \<Rightarrow> Inl e
                 | Inr [] \<Rightarrow> throw ''origin_host_dns_failed''
                 | Inr recs \<Rightarrow>
                     if list_ex (\<lambda>a. a \<noteq> [] \<and> isPrivateOrSpecialIp (nt_isIP n) a) recs
                     then throw ''origin_host_private'' else Inr ()))"

fun read_chunks :: "nat \<Rightarrow> nat \<Rightarrow> string list \<Rightarrow> net_error + string" where
  "read_chunks limit acc [] = Inr []"
| "read_chunks limit acc (c # cs) =
     (if acc + length c > limit then throw ''origin_verify_body_too_large''
      else case read_chunks limit (acc + length c) cs of
             Inl e \<Rightarrow> Inl e | Inr rest \<Rightarrow> Inr (c @ rest))"

definition readBodyLimited :: "nat \<Rightarrow> http_response \<Rightarrow> net_error + string" where
  "readBodyLimited limit resp =
     (if (case hr_content_length resp of Some (Fin q) \<Rightarrow> q > of_nat limit | _ \<Rightarrow> False)
      then throw ''origin_verify_body_too_large''
      else read_chunks limit 0 (hr_chunks resp))"

text \<open>\<open>Inr ()\<close> is \<open>{ ok: true }\<close>, \<open>Inl reason\<close> is \<open>{ ok: false, reason }\<close>.\<close>

definition fetch_proof :: "url \<Rightarrow> net \<Rightarrow> string \<Rightarrow> string \<Rightarrow> string \<Rightarrow> net_error + string option" where
  "fetch_proof u n origin method token =
     (if method = ''dns_txt'' then
        (case nt_txt n (''_proofwork.'' @ u_hostname u) of
           Inl e \<Rightarrow> Inl e
         | Inr txt \<Rightarrow> Inr (if list_ex (\<lambda>r. str_includes (concat r) token) txt then None
                           else Some ''dns_txt_missing_token''))
      else if method = ''http_file'' then
        (case nt_get n (origin @ ''/.well-known/proofwork-verify.txt'') of
           Inl e \<Rightarrow> Inl e
         | Inr resp \<Rightarrow>
             if \<not> hr_ok resp then Inr (Some (''http_file_bad_status:'' @ hr_status resp))
             else (case readBodyLimited (nt_max_bytes n) resp of
                 Inl e \<Rightarrow> Inl e
               | Inr text \<Rightarrow> Inr (if str_includes text token then None
                                  else Some ''http_file_missing_token'')))
      else if method = ''header'' then
        (case nt_head n (origin @ ''/'') of
           Inl e \<Rightarrow> Inl e
         | Inr resp \<Rightarrow>
             if \<not> hr_ok resp then Inr (Some (''header_bad_status:'' @ hr_status resp))
             else (case hr_verify_header resp of
                 None \<Rightarrow> Inr (Some ''header_missing'')
               | Some h \<Rightarrow>
                   if h = [] then Inr (Some ''header_missing'')
                   else Inr (if str_includes h token then None else Some ''header_missing_token'')))
      else Inr (Some ''unknown_method''))"

definition verifyOriginProof ::
    "url_parser \<Rightarrow> net \<Rightarrow> string \<Rightarrow> string \<Rightarrow> string \<Rightarrow> string + unit" where
  "verifyOriginProof parse_url n origin method token =
     (if origin = [] \<or> token = [] then Inl ''invalid_origin_or_token''
      else case parse_url origin of
          None \<Rightarrow> Inl ''invalid_origin''
        | Some u \<Rightarrow>
            if u_protocol u \<notin> {''http:'', ''https:''} then Inl ''invalid_origin_protocol''
            else if u_username u \<noteq> [] \<or> u_password u \<noteq> [] then Inl ''invalid_origin_credentials''
            else
              let res = (case assertOriginHostIsPublic parse_url n origin of
                           Inl e \<Rightarrow> Inl e
                         | Inr _ \<Rightarrow> fetch_proof u n (u_origin u) method token)
              in case res of
                   Inl e \<Rightarrow> Inl (if str_includes (ne_name e) ''Abort'' then ''origin_verify_timeout''
                                 else ne_message e)
                 | Inr (Some reason) \<Rightarrow> Inl reason
                 | Inr None \<Rightarrow> Inr ())"

section \<open>Origin records\<close>

definition listOrigins :: "string \<Rightarrow> db \<Rightarrow> origins_row list" where
  "listOrigins org s = order_desc or_created_at (filter (\<lambda>r. or_org_id r = org) (origins s))"

text \<open>An organisation has at most one record per origin (unique index), a revoked one included.\<close>

definition addOrigin ::
    "url_parser \<Rightarrow> bool \<Rightarrow> (nat \<Rightarrow> string) \<Rightarrow> int \<Rightarrow> string \<Rightarrow> string \<Rightarrow> string \<Rightarrow> db \<Rightarrow>
     err + origins_row \<times> db" where
  "addOrigin parse_url production gen now org origin method s =
     (case normalizeOrigin parse_url production origin of
        Inl e \<Rightarrow> Inl e
      | Inr o' \<Rightarrow>
          (case assertUrlNotBlocked parse_url o' s of
             Inl e \<Rightarrow> Inl e
           | Inr _ \<Rightarrow>
               let row = \<lparr> or_id = gen 0, or_org_id = org, or_origin = o', or_status = ''pending'',
                     or_method = method, or_token = ''pw_verify_'' @ gen 1, or_verified_at = None,
                     or_failure_reason = None, or_created_at = now \<rparr>
               in if list_ex (\<lambda>r. or_org_id r = org \<and> or_origin r = o') (origins s)
                  then Inl (OtherError ''origins_org_origin_uidx'')
                  else Inr (row, s\<lparr>origins := origins s @ [row]\<rparr>)))"

definition update_origin :: "string \<Rightarrow> (origins_row \<Rightarrow> origins_row) \<Rightarrow> db \<Rightarrow> db" where
  "update_origin oid f s = s\<lparr>origins := update_where (\<lambda>r. or_id r = oid) f (origins s)\<rparr>"

definition origin_by_id :: "string \<Rightarrow> db \<Rightarrow> origins_row option" where
  "origin_by_id oid s = find (\<lambda>r. or_id r = oid) (origins s)"

definition checkOrigin :: "url_parser \<Rightarrow> net \<Rightarrow> int \<Rightarrow> string \<Rightarrow> db \<Rightarrow> origins_row option \<times> db" where
  "checkOrigin parse_url n now oid s =
     (case origin_by_id oid s of
        None \<Rightarrow> (None, s)
      | Some row \<Rightarrow>
          if or_status row = ''pending'' then
            let s' =
              (if or_method row \<notin> {''http_file'', ''dns_txt'', ''header''}
               then update_origin oid (\<lambda>r. r\<lparr>or_status := ''pending'',
                      or_failure_reason := Some ''invalid verification method''\<rparr>) s
               else case verifyOriginProof parse_url n (or_origin row) (or_method row) (or_token row) of
                   Inr _ \<Rightarrow> update_origin oid (\<lambda>r. r\<lparr>or_status := ''verified'',
                             or_verified_at := Some now, or_failure_reason := None\<rparr>) s
                 | Inl reason \<Rightarrow> update_origin oid (\<lambda>r. r\<lparr>or_status := ''pending'',
                             or_failure_reason := Some reason\<rparr>) s)
            in (origin_by_id oid s', s')
          else (Some row, s))"

definition revokeOrigin :: "string \<Rightarrow> db \<Rightarrow> origins_row option \<times> db" where
  "revokeOrigin oid s =
     (let s' = update_origin oid (\<lambda>r. r\<lparr>or_status := ''revoked''\<rparr>) s in (origin_by_id oid s', s'))"

definition originAllowed :: "url_parser \<Rightarrow> bool \<Rightarrow> string \<Rightarrow> string \<Rightarrow> db \<Rightarrow> bool" where
  "originAllowed parse_url production org candidate s =
     (case normalizeOrigin parse_url production candidate of
        Inl _ \<Rightarrow> False
      | Inr o' \<Rightarrow>
          list_ex (\<lambda>r. or_org_id r = org \<and> or_status r = ''verified'' \<and> or_origin r = o') (origins s))"

section \<open>Blocked domains cover their subdomains\<close>

text \<open>A domain without pattern characters.\<close>

definition plain :: "string \<Rightarrow> bool" where
  "plain d \<longleftrightarrow> list_all (\<lambda>c. c \<noteq> CHR ''%'' \<and> c \<noteq> CHR ''_'' \<and> c \<noteq> CHR 0x5C) d"

lemma sql_like_plain: "plain p \<Longrightarrow> sql_like p s = (s = p)"
  by (induction p arbitrary: s) (auto simp: plain_def split: list.splits)

lemma sql_like_suffix: "plain d \<Longrightarrow> sql_like (''%.'' @ d) s = endsWith s (''.'' @ d)"
proof -
  assume d: "plain d"
  then have p: "plain (''.'' @ d)" by (simp add: plain_def)
  have "sql_like (''%.'' @ d) s = list_ex (sql_like (''.'' @ d)) (suffixes s)" by simp
  also have "\<dots> = endsWith s (''.'' @ d)"
    using sql_like_plain [OF p] by (auto simp: list_ex_iff)
  finally show ?thesis .
qed

text \<open>A blocked domain blocks exactly itself and its subdomains: when no entry contains a
  pattern character, a host name (trimmed, in lower case, not empty) is blocked if and only if it
  equals an entry or ends with a dot followed by an entry; in particular a host that merely ends
  with the same letters is not.\<close>

theorem blocked_iff_subdomain:
  assumes "\<forall>r\<in>set (blocked_domains s). plain (bd_domain r)"
  defines "host h \<equiv> toLowerCase (trim h)"
  shows "isHostnameBlocked h s \<longleftrightarrow>
           host h \<noteq> [] \<and>
           (\<exists>r\<in>set (blocked_domains s). host h = bd_domain r \<or> endsWith (host h) (''.'' @ bd_domain r))"
  using assms sql_like_suffix by (auto simp: isHostnameBlocked_def Let_def list_ex_iff)

definition example_blocked :: db where
  "example_blocked = empty_db\<lparr>blocked_domains :=
     [\<lparr> bd_id = ''b1'', bd_domain = ''bad.com'', bd_reason = None, bd_created_at = 0 \<rparr>]\<rparr>"

theorem blocked_iff_subdomain_witness:
  "isHostnameBlocked ''x.bad.com'' example_blocked \<and> \<not> isHostnameBlocked ''notbad.com'' example_blocked"
proof -
  have d: "\<forall>r\<in>set (blocked_domains example_blocked). plain (bd_domain r)"
    by (simp add: example_blocked_def plain_def)
  have h: "toLowerCase (trim ''x.bad.com'') = ''x.bad.com''" "toLowerCase (trim ''notbad.com'') = ''notbad.com''"
    by (simp_all add: toLowerCase_def trim_def is_space_def lower_char_def Let_def)
  show ?thesis
    using blocked_iff_subdomain [OF d, of "''x.bad.com''"] blocked_iff_subdomain [OF d, of "''notbad.com''"]
    by (simp add: h example_blocked_def suffix_def append_eq_Cons_conv)
qed

section \<open>The IPv4 test as address blocks\<close>

definition ipv4 :: "nat \<Rightarrow> nat \<Rightarrow> nat \<Rightarrow> nat \<Rightarrow> nat" where
  "ipv4 a b c d = ((a * 256 + b) * 256 + c) * 256 + d"

definition in_block :: "nat \<Rightarrow> nat \<times> nat \<Rightarrow> bool" where
  "in_block x blk \<longleftrightarrow> x div 2 ^ (32 - snd blk) = fst blk div 2 ^ (32 - snd blk)"

definition rejected_blocks :: "(nat \<times> nat) list" where
  "rejected_blocks =
     [(ipv4 0 0 0 0, 8), (ipv4 10 0 0 0, 8), (ipv4 127 0 0 0, 8), (ipv4 169 254 0 0, 16),
      (ipv4 172 16 0 0, 12), (ipv4 192 168 0 0, 16), (ipv4 192 0 0 0, 16), (ipv4 192 88 0 0, 16),
      (ipv4 198 18 0 0, 15), (ipv4 192 2 0 0, 16), (ipv4 198 51 0 0, 16), (ipv4 203 0 0 0, 16),
      (ipv4 224 0 0 0, 3)]"

text \<open>The special-purpose blocks that the comments name, with their registered lengths.\<close>

definition special_blocks :: "(nat \<times> nat) list" where
  "special_blocks =
     [(ipv4 10 0 0 0, 8), (ipv4 172 16 0 0, 12), (ipv4 192 168 0 0, 16), (ipv4 127 0 0 0, 8),
      (ipv4 169 254 0 0, 16), (ipv4 224 0 0 0, 4), (ipv4 240 0 0 0, 4), (ipv4 0 0 0 0, 8),
      (ipv4 192 0 2 0, 24), (ipv4 198 51 100 0, 24), (ipv4 203 0 113 0, 24),
      (ipv4 192 88 99 0, 24), (ipv4 198 18 0 0, 15)]"

lemma ipv4_div:
  assumes "b < 256" "c < 256" "d < 256"
  shows "ipv4 a b c d div 16777216 = a" "ipv4 a b c d div 65536 = a * 256 + b"
    "ipv4 a b c d div 256 = (a * 256 + b) * 256 + c"
    "ipv4 a b c d div 1048576 = a * 16 + b div 16" "ipv4 a b c d div 131072 = a * 128 + b div 2"
    "ipv4 a b c d div 536870912 = a div 32" "ipv4 a b c d div 268435456 = a div 16"
proof -
  have q: "(x * 256 + r) div 256 = x" if "r < 256" for x r :: nat using that by simp
  have 8: "ipv4 a b c d div 256 = (a * 256 + b) * 256 + c"
    unfolding ipv4_def by (rule q [OF assms(3)])
  then have "ipv4 a b c d div 256 div 256 = a * 256 + b" by (simp only: q [OF assms(2)])
  then have 16: "ipv4 a b c d div 65536 = a * 256 + b" by (simp add: div_mult2_eq [symmetric])
  have f: "(a * 256 + b) div 256 = a" by (rule q [OF assms(1)])
  have g: "(a * 256 + b) div 16 = a * 16 + b div 16" "(a * 256 + b) div 2 = a * 128 + b div 2"
    by presburger+
  have h: "(a * 256 + b) div 8192 = a div 32" "(a * 256 + b) div 4096 = a div 16"
    using f div_mult2_eq [of "a * 256 + b" 256 32] div_mult2_eq [of "a * 256 + b" 256 16] by simp_all
  have k: "x div 16777216 = x div 65536 div 256" "x div 1048576 = x div 65536 div 16"
    "x div 131072 = x div 65536 div 2" "x div 536870912 = x div 65536 div 8192"
    "x div 268435456 = x div 65536 div 4096" for x :: nat
    by (simp_all add: div_mult2_eq [symmetric])
  show "ipv4 a b c d div 16777216 = a" "ipv4 a b c d div 65536 = a * 256 + b"
    "ipv4 a b c d div 256 = (a * 256 + b) * 256 + c"
    "ipv4 a b c d div 1048576 = a * 16 + b div 16" "ipv4 a b c d div 131072 = a * 128 + b div 2"
    "ipv4 a b c d div 536870912 = a div 32" "ipv4 a b c d div 268435456 = a div 16"
    unfolding k 16 by (simp_all only: f g h 8)
qed

lemma special_prefix_nat:
  "special_prefix (of_nat a) (of_nat b) \<longleftrightarrow>
     a = 0 \<or> a = 10 \<or> a = 127 \<or> (a = 169 \<and> b = 254) \<or> (a = 172 \<and> 16 \<le> b \<and> b \<le> 31) \<or>
     (a = 192 \<and> b = 168) \<or> (a = 192 \<and> b = 0) \<or> (a = 192 \<and> b = 88) \<or>
     (a = 198 \<and> (b = 18 \<or> b = 19)) \<or> (a = 192 \<and> b = 2) \<or> (a = 198 \<and> b = 51) \<or>
     (a = 203 \<and> b = 0) \<or> 224 \<le> a"
proof -
  have "(of_nat n = (numeral k :: rat)) = (n = numeral k)" "(numeral k \<le> (of_nat n :: rat)) = (numeral k \<le> n)"
    "((of_nat n :: rat) \<le> numeral k) = (n \<le> numeral k)" for n k
    by (metis of_nat_eq_iff of_nat_numeral, metis of_nat_le_iff of_nat_numeral,
        metis of_nat_le_iff of_nat_numeral)
  then show ?thesis by (simp add: special_prefix_def)
qed

text \<open>Membership in a block is a condition on the first octets.\<close>

lemma digits_eq:
  fixes a b m n k :: nat
  shows "b < k \<Longrightarrow> n < k \<Longrightarrow> a * k + b = m * k + n \<longleftrightarrow> a = m \<and> b = n"
proof
  assume "b < k" "n < k" "a * k + b = m * k + n"
  then have "(a * k + b) div k = (m * k + n) div k" "(a * k + b) mod k = (m * k + n) mod k" by simp_all
  with \<open>b < k\<close> \<open>n < k\<close> show "a = m \<and> b = n" by simp
qed simp

lemma div_octet: "b < 256 \<Longrightarrow> b div 16 < 16" "b < 256 \<Longrightarrow> b div 2 < (128 :: nat)"
  by presburger+

lemma in_block_prefix:
  assumes "b < 256" "c < 256" "d < 256" "n < 256"
  shows "in_block (ipv4 a b c d) (ipv4 m n 0 0, 8) \<longleftrightarrow> a = m"
    and "in_block (ipv4 a b c d) (ipv4 m n 0 0, 16) \<longleftrightarrow> a = m \<and> b = n"
    and "in_block (ipv4 a b c d) (ipv4 m n 0 0, 12) \<longleftrightarrow> a = m \<and> b div 16 = n div 16"
    and "in_block (ipv4 a b c d) (ipv4 m n 0 0, 15) \<longleftrightarrow> a = m \<and> b div 2 = n div 2"
    and "in_block (ipv4 a b c d) (ipv4 m n 0 0, 3) \<longleftrightarrow> a div 32 = m div 32"
    and "in_block (ipv4 a b c d) (ipv4 m n 0 0, 4) \<longleftrightarrow> a div 16 = m div 16"
proof -
  note r = ipv4_div [OF assms(1-3)] ipv4_div [OF assms(4), of 0 0]
  show "in_block (ipv4 a b c d) (ipv4 m n 0 0, 8) \<longleftrightarrow> a = m"
    and "in_block (ipv4 a b c d) (ipv4 m n 0 0, 16) \<longleftrightarrow> a = m \<and> b = n"
    and "in_block (ipv4 a b c d) (ipv4 m n 0 0, 12) \<longleftrightarrow> a = m \<and> b div 16 = n div 16"
    and "in_block (ipv4 a b c d) (ipv4 m n 0 0, 15) \<longleftrightarrow> a = m \<and> b div 2 = n div 2"
    and "in_block (ipv4 a b c d) (ipv4 m n 0 0, 3) \<longleftrightarrow> a div 32 = m div 32"
    and "in_block (ipv4 a b c d) (ipv4 m n 0 0, 4) \<longleftrightarrow> a div 16 = m div 16"
    using assms by (simp_all add: in_block_def r digits_eq div_octet)
qed

lemma in_block_24:
  assumes "b < 256" "c < 256" "d < 256" "n < 256" "k < 256"
  shows "in_block (ipv4 a b c d) (ipv4 m n k 0, 24) \<longleftrightarrow> (a = m \<and> b = n) \<and> c = k"
proof -
  have "in_block (ipv4 a b c d) (ipv4 m n k 0, 24) \<longleftrightarrow> (a * 256 + b) * 256 + c = (m * 256 + n) * 256 + k"
    using ipv4_div(3) [OF assms(1-3), of a] ipv4_div(3) [OF assms(4,5), of 0 m] by (simp add: in_block_def)
  then show ?thesis using assms by (simp only: digits_eq)
qed

lemma rejected_prefix:
  assumes "a < 256" "b < 256" "c < 256" "d < 256"
  shows "list_ex (in_block (ipv4 a b c d)) rejected_blocks \<longleftrightarrow>
     a = 0 \<or> a = 10 \<or> a = 127 \<or> (a = 169 \<and> b = 254) \<or> (a = 172 \<and> b div 16 = 1) \<or>
     (a = 192 \<and> b = 168) \<or> (a = 192 \<and> b = 0) \<or> (a = 192 \<and> b = 88) \<or>
     (a = 198 \<and> b div 2 = 9) \<or> (a = 192 \<and> b = 2) \<or> (a = 198 \<and> b = 51) \<or>
     (a = 203 \<and> b = 0) \<or> a div 32 = 7"
  by (simp add: rejected_blocks_def in_block_prefix [OF assms(2-4)])

lemma div_eq_iff_range: "0 < k \<Longrightarrow> (b :: nat) div k = q \<longleftrightarrow> q * k \<le> b \<and> b < q * k + k"
  by (metis add.commute div_nat_eqI div_times_less_eq_dividend dividend_less_div_times mult.commute
      mult_Suc_right)

lemma special_prefix_blocks:
  assumes "a < 256" "b < 256" "c < 256" "d < 256"
  shows "special_prefix (of_nat a) (of_nat b) \<longleftrightarrow> list_ex (in_block (ipv4 a b c d)) rejected_blocks"
proof -
  have e: "b div 16 = 1 \<longleftrightarrow> 16 \<le> b \<and> b \<le> 31" using div_eq_iff_range [of 16 b 1] by auto
  have "b div 2 = 9 \<longleftrightarrow> b = 18 \<or> b = 19" using div_eq_iff_range [of 2 b 9] by auto
  note e = e this
  have f: "a div 32 = 7 \<longleftrightarrow> 224 \<le> a" using div_eq_iff_range [of 32 a 7] assms(1) by auto
  show ?thesis by (simp only: special_prefix_nat rejected_prefix [OF assms] e f)
qed

lemma special_blocks_rejected:
  assumes "a < 256" "b < 256" "c < 256" "d < 256" "list_ex (in_block (ipv4 a b c d)) special_blocks"
  shows "list_ex (in_block (ipv4 a b c d)) rejected_blocks"
proof -
  have 1: "a div 16 = 14 \<Longrightarrow> a div 32 = 7" "a div 16 = 15 \<Longrightarrow> a div 32 = 7"
    using div_mult2_eq [of a 16 2] by simp_all
  have "a = 10 \<or> (a = 172 \<and> b div 16 = 1) \<or> (a = 192 \<and> b = 168) \<or> a = 127 \<or>
     (a = 169 \<and> b = 254) \<or> a div 16 = 14 \<or> a div 16 = 15 \<or> a = 0 \<or> (a = 192 \<and> b = 0) \<or>
     (a = 198 \<and> b = 51) \<or> (a = 203 \<and> b = 0) \<or> (a = 192 \<and> b = 88) \<or> (a = 198 \<and> b div 2 = 9)"
    using assms(5) by (auto simp: special_blocks_def in_block_prefix [OF assms(2-4)]
        in_block_24 [OF assms(2-4)])
  moreover have "list_ex (in_block (ipv4 a b c d)) rejected_blocks \<longleftrightarrow>
     a = 0 \<or> a = 10 \<or> a = 127 \<or> (a = 169 \<and> b = 254) \<or> (a = 172 \<and> b div 16 = 1) \<or>
     (a = 192 \<and> b = 168) \<or> (a = 192 \<and> b = 0) \<or> (a = 192 \<and> b = 88) \<or>
     (a = 198 \<and> b div 2 = 9) \<or> (a = 192 \<and> b = 2) \<or> (a = 198 \<and> b = 51) \<or>
     (a = 203 \<and> b = 0) \<or> a div 32 = 7"
    by (rule rejected_prefix [OF assms(1-4)])
  ultimately show ?thesis using 1 by blast
qed

text \<open>The IPv4 guard of the origin verifier rejects whole address blocks: a text whose parts
  are four numbers is rejected if and only if one of them is no octet or the address lies in one
  of the listed blocks; and every special-purpose block that the comments name is inside them.\<close>

theorem ipv4_guard_blocks:
  assumes "map part_number (split_on CHR ''.'' ip) = map Fin (map of_nat [a, b, c, d])"
  shows "(isPrivateOrSpecialIpv4 ip \<longleftrightarrow>
            (a < 256 \<and> b < 256 \<and> c < 256 \<and> d < 256 \<longrightarrow>
               list_ex (in_block (ipv4 a b c d)) rejected_blocks)) \<and>
         (list_ex (in_block (ipv4 a b c d)) special_blocks \<longrightarrow> isPrivateOrSpecialIpv4 ip)"
proof -
  have oct: "octet (Fin (of_nat n)) = (n < 256)" for n
    by (simp add: octet_def) (metis less_Suc_eq_le of_nat_le_iff of_nat_numeral eval_nat_numeral(3)
        numeral_eq_Suc pred_numeral_simps(2,3) BitM.simps)
  have "isPrivateOrSpecialIpv4 ip \<longleftrightarrow>
            (a < 256 \<and> b < 256 \<and> c < 256 \<and> d < 256 \<longrightarrow>
               list_ex (in_block (ipv4 a b c d)) rejected_blocks)"
    using assms special_prefix_blocks [of a b c d] by (auto simp: isPrivateOrSpecialIpv4_def oct)
  then show ?thesis using special_blocks_rejected by blast
qed

text \<open>An address of a special-purpose block, and a routable address that the guard lets pass.\<close>

theorem ipv4_guard_blocks_witness:
  "isPrivateOrSpecialIpv4 ''192.168.1.9'' \<and> \<not> isPrivateOrSpecialIpv4 ''93.184.216.34''"
proof -
  have 1: "map part_number (split_on CHR ''.'' ''192.168.1.9'') = map Fin (map of_nat [192, 168, 1, 9])"
    and 2: "map part_number (split_on CHR ''.'' ''93.184.216.34'') = map Fin (map of_nat [93, 184, 216, 34])"
    by (simp_all add: part_number_def is_digit_def decimal_def)
  have "list_ex (in_block (ipv4 192 168 1 9)) special_blocks"
    by (simp add: special_blocks_def in_block_def ipv4_def)
  moreover have "\<not> list_ex (in_block (ipv4 93 184 216 34)) rejected_blocks"
    by (simp add: rejected_blocks_def in_block_def ipv4_def)
  ultimately show ?thesis
    using ipv4_guard_blocks [OF 1, THEN conjunct2] ipv4_guard_blocks [OF 2, THEN conjunct1] by simp
qed

section \<open>Verification requires the token\<close>

text \<open>What a successful check has observed: the token inside a TXT record, the proof file or the
  proof header of the origin's own host.\<close>

definition token_seen :: "net \<Rightarrow> url \<Rightarrow> string \<Rightarrow> string \<Rightarrow> bool" where
  "token_seen n u method token \<longleftrightarrow>
     (method = ''dns_txt'' \<and>
        (\<exists>txt. nt_txt n (''_proofwork.'' @ u_hostname u) = Inr txt \<and> (\<exists>r\<in>set txt. sublist token (concat r)))) \<or>
     (method = ''http_file'' \<and>
        (\<exists>resp body. nt_get n (u_origin u @ ''/.well-known/proofwork-verify.txt'') = Inr resp \<and> hr_ok resp \<and>
           readBodyLimited (nt_max_bytes n) resp = Inr body \<and> length body \<le> nt_max_bytes n \<and>
           sublist token body)) \<or>
     (method = ''header'' \<and>
        (\<exists>resp h. nt_head n (u_origin u @ ''/'') = Inr resp \<and> hr_ok resp \<and>
           hr_verify_header resp = Some h \<and> sublist token h))"

text \<open>No address the host stands for is private, unless the configuration allows it.\<close>

definition host_public :: "net \<Rightarrow> url \<Rightarrow> bool" where
  "host_public n u \<longleftrightarrow>
     nt_allow_private n \<or>
     (toLowerCase (u_hostname u) \<noteq> ''localhost'' \<and>
      (if nt_isIP n (u_hostname u) \<noteq> 0 then \<not> isPrivateOrSpecialIp (nt_isIP n) (u_hostname u)
       else \<exists>recs. nt_lookup n (u_hostname u) = Inr recs \<and> recs \<noteq> [] \<and>
              (\<forall>a\<in>set recs. a \<noteq> [] \<longrightarrow> \<not> isPrivateOrSpecialIp (nt_isIP n) a)))"

lemma read_chunks_bound: "read_chunks m acc cs = Inr body \<Longrightarrow> acc \<le> m \<Longrightarrow> acc + length body \<le> m"
  by (induction m acc cs arbitrary: body rule: read_chunks.induct) (auto split: if_splits sum.splits)

lemma readBodyLimited_bound: "readBodyLimited m resp = Inr body \<Longrightarrow> length body \<le> m"
  using read_chunks_bound [of m 0 "hr_chunks resp" body]
  by (auto simp: readBodyLimited_def split: if_split_asm)

lemma assert_public:
  assumes "assertOriginHostIsPublic parse_url n origin = Inr x" and "parse_url origin = Some u"
  shows "host_public n u"
  using assms
  by (auto simp: assertOriginHostIsPublic_def host_public_def Let_def list_ex_iff
      split: if_split_asm sum.split_asm list.split_asm)

lemma fetch_proof_seen:
  assumes "fetch_proof u n (u_origin u) method token = Inr None"
  shows "token_seen n u method token"
  using assms
  by (auto simp: fetch_proof_def token_seen_def str_includes_iff list_ex_iff
      dest: readBodyLimited_bound split: if_split_asm sum.split_asm option.split_asm)

lemma verifyOriginProof_sound:
  assumes "verifyOriginProof parse_url n origin method token = Inr x"
  shows "\<exists>u. parse_url origin = Some u \<and> host_public n u \<and> token_seen n u method token \<and> token \<noteq> []"
  using assms
  by (auto simp: verifyOriginProof_def Let_def dest: assert_public fetch_proof_seen
      split: if_split_asm option.split_asm sum.split_asm)

lemma origin_by_id_update:
  "(\<And>r. or_id (f r) = or_id r) \<Longrightarrow> origin_by_id i (update_origin i f s) = map_option f (origin_by_id i s)"
  unfolding origin_by_id_def update_origin_def
  by (simp add: find_update_where) (auto simp: map_option_case dest: find_SomeD split: option.splits)

text \<open>C31. An origin becomes verified only by proof of control: when the check changes the status of
  an origin to verified, the origin was pending, its host (and, for a name, every address it
  resolves to) was not private, and the record's own token was found in the TXT record, in the
  size-limited proof file, or in the proof header of that host.\<close>

theorem origin_verified_only_with_proof:
  assumes "origin_by_id oid s = Some r0" and "or_status r0 \<noteq> ''verified''"
    and "checkOrigin parse_url n now oid s = (Some r, s')" and "or_status r = ''verified''"
  shows "or_status r0 = ''pending'' \<and>
         (\<exists>u. parse_url (or_origin r0) = Some u \<and> host_public n u \<and>
              token_seen n u (or_method r0) (or_token r0) \<and> or_token r0 \<noteq> [])"
proof (cases "or_status r0 = ''pending'' \<and> or_method r0 \<in> {''http_file'', ''dns_txt'', ''header''} \<and>
              (\<exists>x. verifyOriginProof parse_url n (or_origin r0) (or_method r0) (or_token r0) = Inr x)")
  case True
  then show ?thesis using verifyOriginProof_sound by blast
next
  case False
  with assms show ?thesis
    by (auto simp: checkOrigin_def Let_def origin_by_id_update split: if_split_asm sum.split_asm)
qed

definition example_net :: net where
  "example_net = \<lparr> nt_allow_private = False, nt_isIP = (\<lambda>h. if h = ''93.184.216.34'' then 4 else 0),
     nt_lookup = (\<lambda>h. Inr [''93.184.216.34'']), nt_txt = (\<lambda>h. Inr [[''pw_verify_t'']]),
     nt_get = (\<lambda>u. throw ''fetch failed''), nt_head = (\<lambda>u. throw ''fetch failed''), nt_max_bytes = 8192 \<rparr>"

definition example_origin :: origins_row where
  "example_origin = \<lparr> or_id = ''o1'', or_org_id = ''org'', or_origin = ''https://a.b'',
     or_status = ''pending'', or_method = ''dns_txt'', or_token = ''pw_verify_t'',
     or_verified_at = None, or_failure_reason = None, or_created_at = 0 \<rparr>"

definition example_url :: url where
  "example_url = \<lparr> u_protocol = ''https:'', u_username = [], u_password = [], u_hostname = ''a.b'',
     u_origin = ''https://a.b'', u_pathname = ''/'', u_href = ''https://a.b/'' \<rparr>"

lemma example_ip_public: "\<not> isPrivateOrSpecialIpv4 ''93.184.216.34''"
  by (simp add: isPrivateOrSpecialIpv4_def part_number_def is_digit_def decimal_def octet_def special_prefix_def)

theorem origin_verified_only_with_proof_witness:
  "token_seen example_net example_url ''dns_txt'' ''pw_verify_t'' \<and> host_public example_net example_url"
proof -
  let ?s = "empty_db\<lparr>origins := [example_origin]\<rparr>"
  let ?p = "\<lambda>x. Some example_url"
  have v: "verifyOriginProof ?p example_net ''https://a.b'' ''dns_txt'' ''pw_verify_t'' = Inr ()"
    using example_ip_public
    by (simp add: verifyOriginProof_def assertOriginHostIsPublic_def fetch_proof_def example_net_def
        example_url_def Let_def isPrivateOrSpecialIp_def toLowerCase_def lower_char_def suffix_def
        append_eq_Cons_conv)
  have "origin_by_id ''o1'' ?s = Some example_origin"
    by (simp add: origin_by_id_def example_origin_def)
  moreover from this have "\<exists>r s'. checkOrigin ?p example_net 5 ''o1'' ?s = (Some r, s') \<and> or_status r = ''verified''"
    using v by (simp add: checkOrigin_def Let_def example_origin_def)
      (simp add: update_origin_def origin_by_id_def)
  ultimately obtain r s' where "origin_by_id ''o1'' ?s = Some example_origin"
    "checkOrigin ?p example_net 5 ''o1'' ?s = (Some r, s')" "or_status r = ''verified''" by blast
  from origin_verified_only_with_proof [OF this(1) _ this(2,3)]
  show ?thesis by (auto simp: example_origin_def)
qed

end
