(* ===== verification/Objects.thy ===== *)
theory Objects
  imports Schema
begin

text \<open>
  The application objects of \<open>src/src/types.ts\<close>, their conversion from rows and the store
  accessors that read and write them (\<open>src/src/store.ts\<close>). An absent property
  (\<open>undefined\<close>) is \<open>None\<close>, like the SQL null it is stored as. \<open>updateJob\<close> and its siblings
  write back a whole object by id, whatever the row has become meanwhile.
\<close>

section \<open>Objects\<close>

record worker_obj =
  wo_id :: string
  wo_displayName :: "string option"
  wo_status :: worker_status
  wo_capabilities :: "(string \<times> json) list"
  wo_rateLimitedUntil :: "int option"

record bounty_obj =
  bo_id :: string
  bo_orgId :: string
  bo_title :: string
  bo_description :: string
  bo_status :: bounty_status
  bo_allowedOrigins :: "string list"
  bo_journey :: json
  bo_payoutCents :: int
  bo_coveragePayoutCents :: int
  bo_requiredProofs :: int
  bo_fingerprintClassesRequired :: "string list"
  bo_priority :: int
  bo_disputeWindowSec :: int
  bo_tags :: "string list"
  bo_taskDescriptor :: "task_descriptor option"

record job_obj =
  jo_id :: string
  jo_bountyId :: string
  jo_fingerprintClass :: string
  jo_status :: job_status
  jo_leaseWorkerId :: "string option"
  jo_leaseExpiresAt :: "int option"
  jo_leaseNonce :: "string option"
  jo_currentSubmissionId :: "string option"
  jo_finalVerdict :: "verdict option"
  jo_finalReason :: "string option"
  jo_finalQualityScore :: "rat option"
  jo_doneAt :: "int option"
  jo_createdAt :: int
  jo_taskDescriptor :: "task_descriptor option"

record submission_obj =
  so_id :: string
  so_jobId :: string
  so_workerId :: string
  so_idempotencyKey :: "string option"
  so_requestHash :: "string option"
  so_manifest :: json
  so_artifactIndex :: json
  so_status :: submission_status
  so_dedupeKey :: "string option"
  so_finalVerdict :: "verdict option"
  so_finalReason :: "string option"
  so_finalQualityScore :: "rat option"
  so_payoutStatus :: "sub_payout_status option"
  so_createdAt :: int

record verification_obj =
  vo_id :: string
  vo_submissionId :: string
  vo_attemptNo :: int
  vo_status :: verification_status
  vo_claimToken :: "string option"
  vo_claimedBy :: "string option"
  vo_claimExpiresAt :: "int option"
  vo_verdict :: "verdict option"
  vo_reason :: "string option"
  vo_scorecard :: "json option"
  vo_evidence :: "json option"

section \<open>Rows to objects\<close>

definition workerFromRow :: "workers_row \<Rightarrow> worker_obj" where
  "workerFromRow row =
     \<lparr> wo_id = wk_id row,
       wo_displayName = wk_display_name row,
       wo_status = wk_status row,
       wo_capabilities = wk_capabilities row,
       wo_rateLimitedUntil = wk_rate_limited_until row \<rparr>"

definition bountyFromRow :: "bounties_row \<Rightarrow> bounty_obj" where
  "bountyFromRow row =
     \<lparr> bo_id = b_id row,
       bo_orgId = b_org_id row,
       bo_title = b_title row,
       bo_description = b_description row,
       bo_status = b_status row,
       bo_allowedOrigins = b_allowed_origins row,
       bo_journey = b_journey row,
       bo_payoutCents = b_payout_cents row,
       bo_coveragePayoutCents = b_coverage_payout_cents row,
       bo_requiredProofs = b_required_proofs row,
       bo_fingerprintClassesRequired = b_fingerprint_classes row,
       bo_priority = b_priority row,
       bo_disputeWindowSec = b_dispute_window_sec row,
       bo_tags = b_tags row,
       bo_taskDescriptor = b_task_descriptor row \<rparr>"

definition jobFromRow :: "jobs_row \<Rightarrow> job_obj" where
  "jobFromRow row =
     \<lparr> jo_id = j_id row,
       jo_bountyId = j_bounty_id row,
       jo_fingerprintClass = j_fingerprint_class row,
       jo_status = j_status row,
       jo_leaseWorkerId = j_lease_worker_id row,
       jo_leaseExpiresAt = j_lease_expires_at row,
       jo_leaseNonce = j_lease_nonce row,
       jo_currentSubmissionId = j_current_submission_id row,
       jo_finalVerdict = j_final_verdict row,
       jo_finalReason = j_final_reason row,
       jo_finalQualityScore = j_final_quality_score row,
       jo_doneAt = j_done_at row,
       jo_createdAt = j_created_at row,
       jo_taskDescriptor = j_task_descriptor row \<rparr>"

definition submissionFromRow :: "submissions_row \<Rightarrow> submission_obj" where
  "submissionFromRow row =
     \<lparr> so_id = s_id row,
       so_jobId = s_job_id row,
       so_workerId = s_worker_id row,
       so_idempotencyKey = s_idempotency_key row,
       so_requestHash = s_request_hash row,
       so_manifest = s_manifest row,
       so_artifactIndex = s_artifact_index row,
       so_status = s_status row,
       so_dedupeKey = s_dedupe_key row,
       so_finalVerdict = s_final_verdict row,
       so_finalReason = s_final_reason row,
       so_finalQualityScore = s_final_quality_score row,
       so_payoutStatus = s_payout_status row,
       so_createdAt = s_created_at row \<rparr>"

definition verificationFromRow :: "verifications_row \<Rightarrow> verification_obj" where
  "verificationFromRow row =
     \<lparr> vo_id = v_id row,
       vo_submissionId = v_submission_id row,
       vo_attemptNo = v_attempt_no row,
       vo_status = v_status row,
       vo_claimToken = v_claim_token row,
       vo_claimedBy = v_claimed_by row,
       vo_claimExpiresAt = v_claim_expires_at row,
       vo_verdict = v_verdict row,
       vo_reason = v_reason row,
       vo_scorecard = v_scorecard row,
       vo_evidence = v_evidence row \<rparr>"

section \<open>Accessors\<close>

definition getJob :: "string \<Rightarrow> db \<Rightarrow> job_obj option" where
  "getJob jid s = map_option jobFromRow (find (\<lambda>r. j_id r = jid) (jobs s))"

definition getBounty :: "string \<Rightarrow> db \<Rightarrow> bounty_obj option" where
  "getBounty bid s = map_option bountyFromRow (find (\<lambda>r. b_id r = bid) (bounties s))"

definition getSubmission :: "string \<Rightarrow> db \<Rightarrow> submission_obj option" where
  "getSubmission sid s = map_option submissionFromRow (find (\<lambda>r. s_id r = sid) (submissions s))"

definition getVerification :: "string \<Rightarrow> db \<Rightarrow> verification_obj option" where
  "getVerification vid s = map_option verificationFromRow (find (\<lambda>r. v_id r = vid) (verifications s))"

definition findSubmissionByIdempotency ::
    "string \<Rightarrow> string \<Rightarrow> string \<Rightarrow> db \<Rightarrow> submission_obj option" where
  "findSubmissionByIdempotency jid wid key s =
     map_option submissionFromRow
       (find (\<lambda>r. s_job_id r = jid \<and> s_worker_id r = wid \<and> s_idempotency_key r = Some key) (submissions s))"

definition findVerificationBySubmission :: "string \<Rightarrow> int \<Rightarrow> db \<Rightarrow> verification_obj option" where
  "findVerificationBySubmission sid attempt s =
     map_option verificationFromRow
       (find (\<lambda>r. v_submission_id r = sid \<and> v_attempt_no r = attempt) (verifications s))"

definition listQueuedVerifications :: "db \<Rightarrow> verification_obj list" where
  "listQueuedVerifications s =
     map verificationFromRow
       (sort_key v_created_at (filter (\<lambda>r. v_status r = VerQueued) (verifications s)))"

definition listBountiesByOrg ::
    "string \<Rightarrow> nat option \<Rightarrow> nat option \<Rightarrow> bounty_status option \<Rightarrow> string option \<Rightarrow> db \<Rightarrow>
     bounty_obj list \<times> nat" where
  "listBountiesByOrg org page limit status taskType s =
     (let rows = filter (\<lambda>r. b_org_id r = org \<and>
                   (case status of None \<Rightarrow> True | Some st \<Rightarrow> b_status r = st) \<and>
                   (truthy taskType \<longrightarrow> map_option td_type (b_task_descriptor r) = taskType)) (bounties s);
          (shown, n) = paginate page limit (order_desc b_created_at rows)
      in (map bountyFromRow shown, n))"

definition listJobsByBounty ::
    "string \<Rightarrow> nat option \<Rightarrow> nat option \<Rightarrow> job_status option \<Rightarrow> db \<Rightarrow> job_obj list \<times> nat" where
  "listJobsByBounty bid page limit status s =
     (let rows = filter (\<lambda>r. j_bounty_id r = bid \<and>
                   (case status of None \<Rightarrow> True | Some st \<Rightarrow> j_status r = st)) (jobs s);
          (shown, n) = paginate page limit (order_desc j_created_at rows)
      in (map jobFromRow shown, n))"

definition addSubmission :: "submission_obj \<Rightarrow> db \<Rightarrow> db" where
  "addSubmission sub s = s\<lparr>submissions := submissions s @
     [\<lparr> s_id = so_id sub, s_job_id = so_jobId sub,
        s_worker_id = so_workerId sub, s_idempotency_key = so_idempotencyKey sub,
        s_request_hash = so_requestHash sub, s_manifest = so_manifest sub,
        s_artifact_index = so_artifactIndex sub, s_status = so_status sub,
        s_dedupe_key = so_dedupeKey sub, s_final_verdict = so_finalVerdict sub,
        s_final_reason = so_finalReason sub, s_final_quality_score = so_finalQualityScore sub,
        s_payout_status = so_payoutStatus sub, s_created_at = so_createdAt sub \<rparr>]\<rparr>"

definition addVerification :: "int \<Rightarrow> verification_obj \<Rightarrow> db \<Rightarrow> db" where
  "addVerification now v s = s\<lparr>verifications := verifications s @
     [\<lparr> v_id = vo_id v,
        v_submission_id = vo_submissionId v,
        v_attempt_no = vo_attemptNo v,
        v_status = vo_status v,
        v_claim_token = vo_claimToken v,
        v_claimed_by = vo_claimedBy v,
        v_claim_expires_at = vo_claimExpiresAt v,
        v_verdict = vo_verdict v,
        v_reason = vo_reason v,
        v_scorecard = vo_scorecard v,
        v_evidence = vo_evidence v,
        v_created_at = now \<rparr>]\<rparr>"

definition updateJob :: "job_obj \<Rightarrow> db \<Rightarrow> db" where
  "updateJob job s = s\<lparr>jobs := update_where (\<lambda>r. j_id r = jo_id job)
     (\<lambda>r. r\<lparr> j_status := jo_status job,
            j_lease_worker_id := jo_leaseWorkerId job,
            j_lease_expires_at := jo_leaseExpiresAt job,
            j_lease_nonce := jo_leaseNonce job,
            j_current_submission_id := jo_currentSubmissionId job,
            j_final_verdict := jo_finalVerdict job,
            j_final_reason := jo_finalReason job,
            j_final_quality_score := jo_finalQualityScore job,
            j_done_at := jo_doneAt job \<rparr>) (jobs s)\<rparr>"

definition updateSubmission :: "submission_obj \<Rightarrow> db \<Rightarrow> db" where
  "updateSubmission sub s = s\<lparr>submissions := update_where (\<lambda>r. s_id r = so_id sub)
     (\<lambda>r. r\<lparr> s_manifest := so_manifest sub,
            s_artifact_index := so_artifactIndex sub,
            s_status := so_status sub,
            s_dedupe_key := so_dedupeKey sub,
            s_final_verdict := so_finalVerdict sub,
            s_final_reason := so_finalReason sub,
            s_final_quality_score := so_finalQualityScore sub,
            s_payout_status := so_payoutStatus sub \<rparr>) (submissions s)\<rparr>"

definition updateVerification :: "verification_obj \<Rightarrow> db \<Rightarrow> db" where
  "updateVerification v s = s\<lparr>verifications := update_where (\<lambda>r. v_id r = vo_id v)
     (\<lambda>r. r\<lparr> v_status := vo_status v,
            v_claim_token := vo_claimToken v,
            v_claimed_by := vo_claimedBy v,
            v_claim_expires_at := vo_claimExpiresAt v,
            v_verdict := vo_verdict v,
            v_reason := vo_reason v,
            v_scorecard := vo_scorecard v,
            v_evidence := vo_evidence v \<rparr>) (verifications s)\<rparr>"

definition banWorker :: "string \<Rightarrow> db \<Rightarrow> worker_obj option \<times> db" where
  "banWorker wid s =
     (let t = update_where (\<lambda>r. wk_id r = wid) (\<lambda>r. r\<lparr>wk_status := WorkerBanned\<rparr>) (workers s)
      in (map_option workerFromRow (find (\<lambda>r. wk_id r = wid) t), s\<lparr>workers := t\<rparr>))"

definition rateLimitWorker :: "int \<Rightarrow> string \<Rightarrow> int \<Rightarrow> db \<Rightarrow> worker_obj option \<times> db" where
  "rateLimitWorker now wid durationMs s =
     (let t = update_where (\<lambda>r. wk_id r = wid)
                (\<lambda>r. r\<lparr>wk_rate_limited_until := Some (now + durationMs)\<rparr>) (workers s)
      in (map_option workerFromRow (find (\<lambda>r. wk_id r = wid) t), s\<lparr>workers := t\<rparr>))"

definition touchWorkerLastSeen :: "string \<Rightarrow> int \<Rightarrow> db \<Rightarrow> db" where
  "touchWorkerLastSeen wid now s = s\<lparr>workers := update_where (\<lambda>r. wk_id r = wid)
     (\<lambda>r. r\<lparr>wk_last_seen_at := Some now\<rparr>) (workers s)\<rparr>"

text \<open>\<open>hmac\<close> and \<open>sha\<close> are the hash functions of the runtime, with the server's pepper applied.\<close>

definition getWorkerByToken ::
    "(string \<Rightarrow> string) \<Rightarrow> (string \<Rightarrow> string) \<Rightarrow> string option \<Rightarrow> db \<Rightarrow> worker_obj option" where
  "getWorkerByToken hmac sha token s =
     (case token of
        None \<Rightarrow> None
      | Some t \<Rightarrow>
          if t = [] then None
          else map_option workerFromRow
            (find (\<lambda>r. wk_key_prefix r = take 12 t \<and> wk_key_hash r \<in> {hmac t, sha t}) (workers s)))"

definition createWorker ::
    "(string \<Rightarrow> string) \<Rightarrow> (nat \<Rightarrow> string) \<Rightarrow> int \<Rightarrow> string option \<Rightarrow> (string \<times> json) list \<Rightarrow> db \<Rightarrow>
     (worker_obj \<times> string) \<times> db" where
  "createWorker hmac gen now displayName capabilities s =
     (let token = ''pw_wk_'' @ gen 1;
          row = \<lparr> wk_id = gen 0, wk_display_name = displayName, wk_status = WorkerActive,
                  wk_key_prefix = take 12 token, wk_key_hash = hmac token,
                  wk_capabilities = capabilities, wk_rate_limited_until = None,
                  wk_payout_chain = None, wk_payout_address = None,
                  wk_payout_address_verified_at = None, wk_payout_address_proof = None, wk_created_at = now, wk_last_seen_at = Some now \<rparr>
      in ((workerFromRow row, token), s\<lparr>workers := workers s @ [row]\<rparr>))"

section \<open>Reading back what was written\<close>

lemmas object_convs = workerFromRow_def bountyFromRow_def jobFromRow_def submissionFromRow_def
  verificationFromRow_def

lemma getJob_id: "getJob jid s = Some job \<Longrightarrow> jo_id job = jid"
  by (auto simp: getJob_def jobFromRow_def dest: find_SomeD)

lemma find_update_other:
  "(\<And>r. P r \<Longrightarrow> \<not> Q r \<and> \<not> Q (f r)) \<Longrightarrow> find Q (update_where P f t) = find Q t"
  by (induction t) auto

lemma getJob_updateJob_other: "jid \<noteq> jo_id job \<Longrightarrow> getJob jid (updateJob job s) = getJob jid s"
  by (simp add: getJob_def updateJob_def find_update_other)

text \<open>What \<open>updateJob\<close> writes, \<open>getJob\<close> reads: after an existing job was read and an object
  with the same identity (id, bounty, fingerprint class, descriptor and creation time) written
  back, reading it yields exactly that object, and every other job reads as before.\<close>

theorem job_write_read:
  assumes "getJob (jo_id job) s = Some old"
    and "jo_bountyId job = jo_bountyId old" and "jo_fingerprintClass job = jo_fingerprintClass old"
    and "jo_taskDescriptor job = jo_taskDescriptor old" and "jo_createdAt job = jo_createdAt old"
  shows "getJob (jo_id job) (updateJob job s) = Some job \<and>
         (\<forall>jid. jid \<noteq> jo_id job \<longrightarrow> getJob jid (updateJob job s) = getJob jid s)"
proof -
  from assms(1) obtain r where r: "find (\<lambda>r. j_id r = jo_id job) (jobs s) = Some r" "old = jobFromRow r"
    by (auto simp: getJob_def)
  then have "j_id r = jo_id job" by (auto dest: find_SomeD)
  with r assms(2-) have "getJob (jo_id job) (updateJob job s) = Some job"
    by (simp add: getJob_def updateJob_def find_update_where jobFromRow_def)
  then show ?thesis using getJob_updateJob_other by blast
qed

definition example_job :: jobs_row where
  "example_job = \<lparr> j_id = ''j1'', j_bounty_id = ''b1'', j_fingerprint_class = ''desktop_us'', j_status = JobOpen,
     j_lease_worker_id = None, j_lease_expires_at = None, j_lease_nonce = None,
     j_current_submission_id = None, j_final_verdict = None, j_final_reason = None,
     j_final_quality_score = None, j_done_at = None, j_task_descriptor = None, j_created_at = 0 \<rparr>"

theorem job_write_read_witness:
  "getJob ''j1'' (updateJob ((jobFromRow example_job)\<lparr>jo_status := JobVerifying\<rparr>)
      (empty_db\<lparr>jobs := [example_job]\<rparr>)) = Some ((jobFromRow example_job)\<lparr>jo_status := JobVerifying\<rparr>)"
proof -
  have "getJob ''j1'' (empty_db\<lparr>jobs := [example_job]\<rparr>) = Some (jobFromRow example_job)"
    by (simp add: getJob_def example_job_def)
  with job_write_read [of "(jobFromRow example_job)\<lparr>jo_status := JobVerifying\<rparr>" "empty_db\<lparr>jobs := [example_job]\<rparr>"
      "jobFromRow example_job"]
  show ?thesis by (simp add: jobFromRow_def example_job_def)
qed

end
