(* ===== verification/Apps.thy ===== *)
theory Apps
  imports Objects Origins "HOL-Library.List_Lexorder" "HOL-Library.Char_ord"
begin

text \<open>
  The app registry of \<open>src/src/store.ts\<close>: apps, the origins they support, the requests of
  organisations to add one and their review, and the blocked-domain administration. Strings are
  ordered by their character codes (\<open>Array.prototype.sort\<close>), which is the library's
  lexicographic order on character lists.
\<close>

section \<open>Apps\<close>

record app_obj =
  aj_id :: string
  aj_ownerOrgId :: string
  aj_slug :: string
  aj_taskType :: string
  aj_name :: string
  aj_description :: "string option"
  aj_dashboardUrl :: "string option"
  aj_public :: bool
  aj_status :: string
  aj_defaultDescriptor :: json
  aj_publicAllowedOrigins :: "string list"
  aj_uiSchema :: json
  aj_createdAt :: int
  aj_updatedAt :: int

definition appFromRow :: "apps_row \<Rightarrow> app_obj" where
  "appFromRow row =
     \<lparr> aj_id = ap_id row, aj_ownerOrgId = ap_owner_org_id row, aj_slug = ap_slug row,
       aj_taskType = ap_task_type row, aj_name = ap_name row, aj_description = ap_description row,
       aj_dashboardUrl = ap_dashboard_url row, aj_public = ap_public row,
       aj_status = (if ap_status row = ''disabled'' then ''disabled'' else ''active''),
       aj_defaultDescriptor = ap_default_descriptor row,
       aj_publicAllowedOrigins = ap_public_allowed_origins row, aj_uiSchema = ap_ui_schema row,
       aj_createdAt = ap_created_at row, aj_updatedAt = ap_updated_at row \<rparr>"

text \<open>\<open>SELECT origin .. WHERE app_id = .. ORDER BY origin\<close>\<close>

definition supported_of :: "string \<Rightarrow> db \<Rightarrow> string list" where
  "supported_of app s =
     sort (map ao_origin (filter (\<lambda>r. ao_app_id r = app) (app_supported_origins s)))"

definition listSupportedOriginsForApp :: "string \<Rightarrow> db \<Rightarrow> string list" where
  "listSupportedOriginsForApp app s = filter (\<lambda>x. x \<noteq> []) (supported_of app s)"

text \<open>\<open>Array.from(new Set([..])).filter(Boolean).sort()\<close>: without repetitions or blanks.\<close>

definition merged_origins :: "string list \<Rightarrow> string list \<Rightarrow> string list" where
  "merged_origins a b = sort (filter (\<lambda>x. x \<noteq> []) (remdups (a @ b)))"

text \<open>The public listing trims the entries first.\<close>

definition mergeOrigins :: "string list \<Rightarrow> string list \<Rightarrow> string list" where
  "mergeOrigins a b = sort (remdups (filter (\<lambda>x. x \<noteq> []) (map trim (a @ b))))"

definition with_supported :: "db \<Rightarrow> app_obj \<Rightarrow> app_obj" where
  "with_supported s app =
     app\<lparr>aj_publicAllowedOrigins :=
           merged_origins (aj_publicAllowedOrigins app) (supported_of (aj_id app) s)\<rparr>"

definition app_listed :: "apps_row \<Rightarrow> bool" where
  "app_listed r \<longleftrightarrow> ap_public r \<and> ap_status r = ''active''"

definition listPublicApps :: "nat option \<Rightarrow> nat option \<Rightarrow> db \<Rightarrow> app_obj list \<times> nat" where
  "listPublicApps page limit s =
     (let (rows, n) = paginate page limit (order_desc ap_created_at (filter app_listed (apps s)))
      in (map (\<lambda>r. let app = appFromRow r
                   in app\<lparr>aj_publicAllowedOrigins :=
                        mergeOrigins (aj_publicAllowedOrigins app) (supported_of (aj_id app) s)\<rparr>) rows, n))"

definition getPublicAppBySlug :: "string \<Rightarrow> db \<Rightarrow> app_obj option" where
  "getPublicAppBySlug slug s =
     map_option (\<lambda>r. with_supported s (appFromRow r))
       (find (\<lambda>r. ap_slug r = slug \<and> app_listed r) (apps s))"

definition getAppByTaskType :: "string \<Rightarrow> db \<Rightarrow> app_obj option" where
  "getAppByTaskType taskType s =
     map_option (\<lambda>r. with_supported s (appFromRow r)) (find (\<lambda>r. ap_task_type r = taskType) (apps s))"

definition listAppsByOrg :: "string \<Rightarrow> nat option \<Rightarrow> nat option \<Rightarrow> db \<Rightarrow> app_obj list \<times> nat" where
  "listAppsByOrg org page limit s =
     (let (rows, n) = paginate page limit
            (order_desc ap_created_at (filter (\<lambda>r. ap_owner_org_id r = org) (apps s)))
      in (map (\<lambda>r. with_supported s (appFromRow r)) rows, n))"

definition listAllAppsAdmin ::
    "nat option \<Rightarrow> nat option \<Rightarrow> string option \<Rightarrow> string option \<Rightarrow> db \<Rightarrow> app_obj list \<times> nat" where
  "listAllAppsAdmin page limit status owner s =
     (let (rows, n) = paginate page limit (order_desc ap_created_at
            (filter (\<lambda>r. (truthy status \<longrightarrow> Some (ap_status r) = status) \<and>
                         (truthy owner \<longrightarrow> Some (ap_owner_org_id r) = owner)) (apps s)))
      in (map (\<lambda>r. with_supported s (appFromRow r)) rows, n))"

record app_input =
  ai_slug :: string
  ai_taskType :: string
  ai_name :: string
  ai_description :: "string option"
  ai_dashboardUrl :: "string option"
  ai_public :: "bool option"
  ai_defaultDescriptor :: "json option"
  ai_uiSchema :: "json option"

text \<open>The slug and the task type are unique.\<close>

definition createOrgApp ::
    "(nat \<Rightarrow> string) \<Rightarrow> int \<Rightarrow> string \<Rightarrow> app_input \<Rightarrow> db \<Rightarrow> err + app_obj \<times> db" where
  "createOrgApp gen now org inp s =
     (if list_ex (\<lambda>r. ap_slug r = ai_slug inp) (apps s) then Inl (OtherError ''apps_slug_uidx'')
      else if list_ex (\<lambda>r. ap_task_type r = ai_taskType inp) (apps s)
      then Inl (OtherError ''apps_task_type_uidx'')
      else
        let row = \<lparr> ap_id = gen 0, ap_owner_org_id = org, ap_slug = ai_slug inp,
              ap_task_type = ai_taskType inp, ap_name = ai_name inp,
              ap_description = ai_description inp, ap_dashboard_url = ai_dashboardUrl inp,
              ap_public = (case ai_public inp of None \<Rightarrow> True | Some b \<Rightarrow> b), ap_status = ''active'',
              ap_default_descriptor = (case ai_defaultDescriptor inp of None \<Rightarrow> JObj [] | Some d \<Rightarrow> d),
              ap_public_allowed_origins = [],
              ap_ui_schema = (case ai_uiSchema inp of None \<Rightarrow> JObj [] | Some d \<Rightarrow> d),
              ap_created_at = now, ap_updated_at = now \<rparr>
        in Inr (appFromRow row, s\<lparr>apps := apps s @ [row]\<rparr>))"

record app_patch =
  ax_slug :: "string option"
  ax_taskType :: "string option"
  ax_name :: "string option"
  ax_description :: "string option option"
  ax_dashboardUrl :: "string option option"
  ax_public :: "bool option"
  ax_status :: "string option"
  ax_defaultDescriptor :: "json option"
  ax_uiSchema :: "json option"

definition patched :: "'a option \<Rightarrow> 'a \<Rightarrow> 'a" where
  "patched p old = (case p of None \<Rightarrow> old | Some x \<Rightarrow> x)"

definition apply_app_patch :: "int \<Rightarrow> app_patch \<Rightarrow> apps_row \<Rightarrow> apps_row" where
  "apply_app_patch now p r =
     r\<lparr> ap_slug := patched (ax_slug p) (ap_slug r),
        ap_task_type := patched (ax_taskType p) (ap_task_type r),
        ap_name := patched (ax_name p) (ap_name r),
        ap_description := patched (ax_description p) (ap_description r),
        ap_dashboard_url := patched (ax_dashboardUrl p) (ap_dashboard_url r),
        ap_public := patched (ax_public p) (ap_public r),
        ap_status := patched (ax_status p) (ap_status r),
        ap_default_descriptor := patched (ax_defaultDescriptor p) (ap_default_descriptor r),
        ap_ui_schema := patched (ax_uiSchema p) (ap_ui_schema r), ap_updated_at := now \<rparr>"

text \<open>A patch that takes another app's slug or task type violates the unique indexes.\<close>

definition updateOrgApp ::
    "int \<Rightarrow> string \<Rightarrow> string \<Rightarrow> app_patch \<Rightarrow> db \<Rightarrow> err + app_obj option \<times> db" where
  "updateOrgApp now org app p s =
     (let mine = \<lambda>r. ap_id r = app \<and> ap_owner_org_id r = org;
          clash = \<lambda>col x. list_ex mine (apps s) \<and>
                    (case x of None \<Rightarrow> False
                     | Some v \<Rightarrow> list_ex (\<lambda>r. col r = v \<and> ap_id r \<noteq> app) (apps s));
          t = update_where mine (apply_app_patch now p) (apps s)
      in if clash ap_slug (ax_slug p) then Inl (OtherError ''apps_slug_uidx'')
         else if clash ap_task_type (ax_taskType p) then Inl (OtherError ''apps_task_type_uidx'')
         else Inr (map_option appFromRow (find mine t), s\<lparr>apps := t\<rparr>))"

definition adminSetAppStatus :: "int \<Rightarrow> string \<Rightarrow> string \<Rightarrow> db \<Rightarrow> app_obj option \<times> db" where
  "adminSetAppStatus now app status s =
     (let t = update_where (\<lambda>r. ap_id r = app) (\<lambda>r. r\<lparr>ap_status := status, ap_updated_at := now\<rparr>) (apps s)
      in (map_option appFromRow (find (\<lambda>r. ap_id r = app) t), s\<lparr>apps := t\<rparr>))"

section \<open>Supported origins and requests\<close>

definition support_origin :: "string \<Rightarrow> string \<Rightarrow> string option \<Rightarrow> int \<Rightarrow> db \<Rightarrow> db" where
  "support_origin app orig notes now s =
     s\<lparr>app_supported_origins := insert_do_nothing (\<lambda>r. ao_app_id r = app \<and> ao_origin r = orig)
         \<lparr> ao_app_id = app, ao_origin = orig, ao_notes = notes, ao_created_at = now \<rparr>
         (app_supported_origins s)\<rparr>"

definition addSupportedOriginForApp ::
    "url_parser \<Rightarrow> bool \<Rightarrow> int \<Rightarrow> string \<Rightarrow> string \<Rightarrow> string option \<Rightarrow> db \<Rightarrow> err + string \<times> db" where
  "addSupportedOriginForApp parse_url production now app orig notes s =
     (case normalizeOrigin parse_url production orig of
        Inl e \<Rightarrow> Inl e
      | Inr n \<Rightarrow> Inr (n, support_origin app n notes now s))"

definition createAppOriginRequest ::
    "url_parser \<Rightarrow> bool \<Rightarrow> (nat \<Rightarrow> string) \<Rightarrow> int \<Rightarrow> string \<Rightarrow> string \<Rightarrow> string \<Rightarrow> string option \<Rightarrow> db \<Rightarrow>
     err + origin_requests_row option \<times> db" where
  "createAppOriginRequest parse_url production gen now org app orig msg s =
     (case normalizeOrigin parse_url production orig of
        Inl e \<Rightarrow> Inl e
      | Inr n \<Rightarrow>
          let same = \<lambda>r. aq_org_id r = org \<and> aq_app_id r = app \<and> aq_origin r = n;
              row = \<lparr> aq_id = gen 0, aq_org_id = org, aq_app_id = app, aq_origin = n,
                      aq_status = ''pending'', aq_message = msg, aq_reviewed_by = None,
                      aq_review_notes = None, aq_created_at = now, aq_reviewed_at = None \<rparr>;
              t = insert_do_update same
                    (\<lambda>r. r\<lparr>aq_status := ''pending'', aq_message := msg, aq_reviewed_by := None,
                           aq_review_notes := None, aq_created_at := now, aq_reviewed_at := None\<rparr>)
                    row (app_origin_requests s)
          in Inr (find same t, s\<lparr>app_origin_requests := t\<rparr>))"

definition listAppOriginRequestsByOrg ::
    "string \<Rightarrow> string option \<Rightarrow> string option \<Rightarrow> nat option \<Rightarrow> db \<Rightarrow> origin_requests_row list" where
  "listAppOriginRequestsByOrg org app status limit s =
     take (page_limit 200 50 limit) (order_desc aq_created_at
       (filter (\<lambda>r. aq_org_id r = org \<and> (truthy app \<longrightarrow> Some (aq_app_id r) = app) \<and>
                    (truthy status \<longrightarrow> Some (aq_status r) = status)) (app_origin_requests s)))"

definition listAppOriginRequestsAdmin ::
    "string option \<Rightarrow> string option \<Rightarrow> nat option \<Rightarrow> db \<Rightarrow> origin_requests_row list" where
  "listAppOriginRequestsAdmin status app limit s =
     take (page_limit 500 200 limit) (order_desc aq_created_at
       (filter (\<lambda>r. (truthy status \<longrightarrow> Some (aq_status r) = status) \<and>
                    (truthy app \<longrightarrow> Some (aq_app_id r) = app)) (app_origin_requests s)))"

text \<open>A transaction; the state of the request is not tested, so a review can be repeated.\<close>

definition reviewAppOriginRequestAdmin ::
    "int \<Rightarrow> string \<Rightarrow> bool \<Rightarrow> string option \<Rightarrow> string option \<Rightarrow> db \<Rightarrow> err + origin_requests_row \<times> db" where
  "reviewAppOriginRequestAdmin now rid approve by notes s =
     (case find (\<lambda>r. aq_id r = rid) (app_origin_requests s) of
        None \<Rightarrow> Inl NotFound
      | Some existing \<Rightarrow>
          let upd = (\<lambda>r. r\<lparr>aq_status := (if approve then ''approved'' else ''rejected''),
                       aq_reviewed_by := by, aq_review_notes := notes, aq_reviewed_at := Some now\<rparr>);
              s1 = s\<lparr>app_origin_requests :=
                       update_where (\<lambda>r. aq_id r = rid) upd (app_origin_requests s)\<rparr>;
              row = upd existing
          in Inr (row, if approve
                  then support_origin (aq_app_id row) (aq_origin row)
                         (Some (''approved_from_request:'' @ rid)) now s1
                  else s1))"

section \<open>Origins anyone may use\<close>

text \<open>The public origins of a task type: those of its app, when the system organisation owns it,
  normalised; entries that do not normalise are skipped.\<close>

fun oks :: "(err + 'a) list \<Rightarrow> 'a list" where
  "oks [] = []"
| "oks (Inr x # xs) = x # oks xs"
| "oks (Inl e # xs) = oks xs"

definition systemPublicOrigins :: "url_parser \<Rightarrow> bool \<Rightarrow> string \<Rightarrow> db \<Rightarrow> string list" where
  "systemPublicOrigins parse_url production taskType s =
     (if taskType = [] then []
      else case getAppByTaskType taskType s of
          None \<Rightarrow> []
        | Some app \<Rightarrow>
            if aj_ownerOrgId app \<noteq> ''org_system'' then []
            else oks (map (normalizeOrigin parse_url production) (aj_publicAllowedOrigins app)))"

section \<open>Blocked-domain administration\<close>

definition listBlockedDomainsAdmin :: "nat option \<Rightarrow> nat option \<Rightarrow> db \<Rightarrow> blocked_domains_row list \<times> nat" where
  "listBlockedDomainsAdmin page limit s = paginate page limit (order_desc bd_created_at (blocked_domains s))"

definition upsertBlockedDomainAdmin ::
    "url_parser \<Rightarrow> (nat \<Rightarrow> string) \<Rightarrow> int \<Rightarrow> string \<Rightarrow> string option \<Rightarrow> db \<Rightarrow>
     err + blocked_domains_row option \<times> db" where
  "upsertBlockedDomainAdmin parse_url gen now inp reason s =
     (case normalizeBlockedDomainInput parse_url inp of
        Inl e \<Rightarrow> Inl e
      | Inr domain \<Rightarrow>
          let same = \<lambda>r. toLowerCase (bd_domain r) = toLowerCase domain;
              t = insert_do_update same (\<lambda>r. r\<lparr>bd_reason := reason\<rparr>)
                    \<lparr> bd_id = gen 0, bd_domain = domain, bd_reason = reason, bd_created_at = now \<rparr>
                    (blocked_domains s)
          in Inr (find same t, s\<lparr>blocked_domains := t\<rparr>))"

definition deleteBlockedDomainAdmin :: "string \<Rightarrow> db \<Rightarrow> bool \<times> db" where
  "deleteBlockedDomainAdmin bid s =
     (list_ex (\<lambda>r. bd_id r = bid) (blocked_domains s),
      s\<lparr>blocked_domains := delete_where (\<lambda>r. bd_id r = bid) (blocked_domains s)\<rparr>)"

section \<open>Facts on the registry\<close>

lemma merged_origins_set: "set (merged_origins a b) = (set a \<union> set b) - {[]}"
  by (auto simp: merged_origins_def)

lemma merged_origins_sorted: "sorted (merged_origins a b) \<and> distinct (merged_origins a b)"
  by (simp add: merged_origins_def)

lemma mergeOrigins_eq:
  assumes "\<And>x. x \<in> set (a @ b) \<Longrightarrow> trim x = x"
  shows "mergeOrigins a b = merged_origins a b"
proof -
  have "map trim (a @ b) = a @ b" using assms by (simp add: map_idI)
  then show ?thesis unfolding mergeOrigins_def merged_origins_def by (simp only: remdups_filter)
qed

lemma supported_of_iff:
  "x \<in> set (supported_of app s) \<longleftrightarrow>
     list_ex (\<lambda>r. ao_app_id r = app \<and> ao_origin r = x) (app_supported_origins s)"
  by (auto simp: supported_of_def list_ex_iff)

lemma list_ex_insert_do_nothing: "c r \<Longrightarrow> list_ex c (insert_do_nothing c r t)"
  by (simp add: insert_do_nothing_def)

text \<open>Approval reaches the app: after a request is approved, the app that it names allows its
  origin in every view of the app by task type, as long as the app exists and the origin is not
  empty; reviewing touches no other app's origins.\<close>

theorem approved_origin_allowed:
  assumes "find (\<lambda>r. aq_id r = rid) (app_origin_requests s) = Some req" and "aq_origin req \<noteq> []"
    and "find (\<lambda>r. ap_task_type r = ty) (apps s) = Some app" and "ap_id app = aq_app_id req"
    and "reviewAppOriginRequestAdmin now rid True by notes s = Inr (row, s')"
  shows "(\<exists>a. getAppByTaskType ty s' = Some a \<and> aq_origin req \<in> set (aj_publicAllowedOrigins a)) \<and>
         (\<forall>other. other \<noteq> aq_app_id req \<longrightarrow> supported_of other s' = supported_of other s)"
proof -
  have s': "app_supported_origins s' = insert_do_nothing
       (\<lambda>r. ao_app_id r = aq_app_id req \<and> ao_origin r = aq_origin req)
       \<lparr> ao_app_id = aq_app_id req, ao_origin = aq_origin req,
         ao_notes = Some (''approved_from_request:'' @ rid), ao_created_at = now \<rparr>
       (app_supported_origins s)" and ap: "apps s' = apps s"
    using assms(1,5) by (auto simp: reviewAppOriginRequestAdmin_def Let_def support_origin_def)
  have "aq_origin req \<in> set (supported_of (aq_app_id req) s')"
    unfolding supported_of_iff s' by (rule list_ex_insert_do_nothing) simp
  then have "\<exists>a. getAppByTaskType ty s' = Some a \<and> aq_origin req \<in> set (aj_publicAllowedOrigins a)"
    using assms(2-4) by (simp add: getAppByTaskType_def ap with_supported_def merged_origins_set appFromRow_def)
  moreover have "supported_of other s' = supported_of other s" if "other \<noteq> aq_app_id req" for other
    using that by (auto simp: supported_of_def s' insert_do_nothing_def)
  ultimately show ?thesis by blast
qed

definition example_app :: apps_row where
  "example_app = \<lparr> ap_id = ''a1'', ap_owner_org_id = ''org_system'', ap_slug = ''deals'',
     ap_task_type = ''deals'', ap_name = ''Deals'', ap_description = None, ap_dashboard_url = None,
     ap_public = True, ap_status = ''active'', ap_default_descriptor = JObj [],
     ap_public_allowed_origins = [], ap_ui_schema = JObj [], ap_created_at = 0, ap_updated_at = 0 \<rparr>"

definition example_request :: origin_requests_row where
  "example_request = \<lparr> aq_id = ''q1'', aq_org_id = ''o1'', aq_app_id = ''a1'',
     aq_origin = ''https://a.b'', aq_status = ''pending'', aq_message = None, aq_reviewed_by = None,
     aq_review_notes = None, aq_created_at = 0, aq_reviewed_at = None \<rparr>"

theorem approved_origin_allowed_witness:
  "\<exists>row s' a. reviewAppOriginRequestAdmin 5 ''q1'' True None None
      (empty_db\<lparr>apps := [example_app], app_origin_requests := [example_request]\<rparr>) = Inr (row, s') \<and>
      getAppByTaskType ''deals'' s' = Some a \<and> ''https://a.b'' \<in> set (aj_publicAllowedOrigins a)"
proof -
  let ?s = "empty_db\<lparr>apps := [example_app], app_origin_requests := [example_request]\<rparr>"
  have 1: "find (\<lambda>r. aq_id r = ''q1'') (app_origin_requests ?s) = Some example_request"
    and 2: "find (\<lambda>r. ap_task_type r = ''deals'') (apps ?s) = Some example_app"
    by (simp_all add: example_request_def example_app_def)
  then obtain row s' where 3: "reviewAppOriginRequestAdmin 5 ''q1'' True None None ?s = Inr (row, s')"
    by (simp add: reviewAppOriginRequestAdmin_def Let_def)
  from approved_origin_allowed [OF 1 _ 2 _ 3]
  have "\<exists>a. getAppByTaskType ''deals'' s' = Some a \<and> aq_origin example_request \<in> set (aj_publicAllowedOrigins a)"
    by (simp add: example_request_def example_app_def)
  with 3 show ?thesis by (auto simp: example_request_def)
qed

end
