(* ===== verification/Bounties.thy ===== *)
theory Bounties
  imports Billing Apps
begin

text \<open>
  Bounties: creation, publication with budget reservation, spend limits and job generation, and
  status changes with the release of unspent budget (\<open>createBounty\<close>, \<open>publishBounty\<close>,
  \<open>setBountyStatus\<close> of \<open>src/src/store.ts\<close>), and the buyer's publish, pause and close routes of
  \<open>src/src/server.ts\<close>. A transaction is a function to \<open>err + ..\<close>: \<open>Inl\<close> rolls back.
\<close>

section \<open>Joins\<close>

definition bounty_row :: "string \<Rightarrow> db \<Rightarrow> bounties_row option" where
  "bounty_row bid s = find (\<lambda>r. b_id r = bid) (bounties s)"

definition job_row :: "string \<Rightarrow> db \<Rightarrow> jobs_row option" where
  "job_row jid s = find (\<lambda>r. j_id r = jid) (jobs s)"

definition sub_row :: "string \<Rightarrow> db \<Rightarrow> submissions_row option" where
  "sub_row sid s = find (\<lambda>r. s_id r = sid) (submissions s)"

definition org_row :: "string \<Rightarrow> db \<Rightarrow> orgs_row option" where
  "org_row oid s = find (\<lambda>r. org_id r = oid) (orgs s)"

definition payout_row :: "string \<Rightarrow> db \<Rightarrow> payouts_row option" where
  "payout_row pid s = find (\<lambda>r. p_id r = pid) (payouts s)"

definition dispute_row :: "string \<Rightarrow> db \<Rightarrow> disputes_row option" where
  "dispute_row did s = find (\<lambda>r. d_id r = did) (disputes s)"

lemmas row_lookups = bounty_row_def job_row_def sub_row_def org_row_def payout_row_def dispute_row_def

text \<open>\<open>submissions JOIN jobs JOIN bounties\<close> along the foreign keys.\<close>

definition sub_job :: "string \<Rightarrow> db \<Rightarrow> jobs_row option" where
  "sub_job sid s = Option.bind (sub_row sid s) (\<lambda>x. job_row (s_job_id x) s)"

definition sub_bounty :: "string \<Rightarrow> db \<Rightarrow> bounties_row option" where
  "sub_bounty sid s = Option.bind (sub_job sid s) (\<lambda>j. bounty_row (j_bounty_id j) s)"

definition sub_org :: "string \<Rightarrow> db \<Rightarrow> orgs_row option" where
  "sub_org sid s = Option.bind (sub_bounty sid s) (\<lambda>b. org_row (b_org_id b) s)"

section \<open>Creation\<close>

definition defaultDisputeWindowSec :: "bool \<Rightarrow> jsnum option \<Rightarrow> int" where
  "defaultDisputeWindowSec production env =
     (let fallback = (if production then 86400 else 0)
      in case env of None \<Rightarrow> fallback | Some raw \<Rightarrow> clamp_floor 0 (30 * 86400) fallback raw)"

record bounty_input =
  bi_orgId :: string
  bi_title :: string
  bi_description :: string
  bi_allowedOrigins :: "string list"
  bi_journey :: "json option"
  bi_payoutCents :: "int option"
  bi_coveragePayoutCents :: "int option"
  bi_requiredProofs :: "int option"
  bi_fingerprintClasses :: "string list option"
  bi_priority :: "int option"
  bi_disputeWindowSec :: "int option"
  bi_tags :: "string list option"
  bi_taskDescriptor :: "task_descriptor option"

fun sequence_errs :: "(err + 'a) list \<Rightarrow> err + 'a list" where
  "sequence_errs [] = Inr []"
| "sequence_errs (Inl e # xs) = Inl e"
| "sequence_errs (Inr x # xs) = (case sequence_errs xs of Inl e \<Rightarrow> Inl e | Inr ys \<Rightarrow> Inr (x # ys))"

definition default_journey :: "string list \<Rightarrow> json" where
  "default_journey allowed =
     (let start = (case allowed of [] \<Rightarrow> ''about:blank'' | x # _ \<Rightarrow> x)
      in JObj [(''startUrl'', JStr start), (''milestones'', JArr []),
               (''successCondition'', JObj [(''type'', JStr ''url_matches''), (''value'', JStr start)])])"

definition createBounty ::
    "url_parser \<Rightarrow> bool \<Rightarrow> jsnum option \<Rightarrow> (nat \<Rightarrow> string) \<Rightarrow> int \<Rightarrow> bounty_input \<Rightarrow> db \<Rightarrow>
     err + bounty_obj \<times> db" where
  "createBounty parse_url production window_env gen now inp s =
     (case sequence_errs (map (normalizeOrigin parse_url production) (bi_allowedOrigins inp)) of
        Inl e \<Rightarrow> Inl e
      | Inr allowed \<Rightarrow>
          (case sequence_errs (map (\<lambda>o'. assertUrlNotBlocked parse_url o' s) allowed) of
             Inl e \<Rightarrow> Inl e
           | Inr _ \<Rightarrow>
               let row = \<lparr> b_id = gen 0, b_org_id = bi_orgId inp, b_title = bi_title inp,
                     b_description = bi_description inp, b_status = BountyDraft,
                     b_allowed_origins = allowed,
                     b_journey = patched (bi_journey inp) (default_journey allowed),
                     b_payout_cents = patched (bi_payoutCents inp) 1000,
                     b_coverage_payout_cents = patched (bi_coveragePayoutCents inp) 0,
                     b_required_proofs = patched (bi_requiredProofs inp) 3,
                     b_fingerprint_classes = patched (bi_fingerprintClasses inp) [''desktop_us''],
                     b_tags = patched (bi_tags inp) [],
                     b_dispute_window_sec =
                       patched (bi_disputeWindowSec inp) (defaultDisputeWindowSec production window_env),
                     b_priority = patched (bi_priority inp) 0,
                     b_task_descriptor = bi_taskDescriptor inp, b_created_at = now,
                     b_published_at = None \<rparr>
               in Inr (bountyFromRow row, s\<lparr>bounties := bounties s @ [row]\<rparr>)))"

section \<open>Spend limits\<close>

text \<open>\<open>Date.UTC(y, m, d)\<close> and \<open>Date.UTC(y, m, 1)\<close> of an instant; the day of the month by the
  proleptic Gregorian calendar, counted from 1 March of year 0.\<close>

definition day_ms :: int where
  "day_ms = 86400000"

definition dayStart :: "int \<Rightarrow> int" where
  "dayStart now = now div day_ms * day_ms"

definition day_of_month :: "int \<Rightarrow> int" where
  "day_of_month days =
     (let z = days + 719468;
          doe = z mod 146097;
          yoe = (doe - doe div 1460 + doe div 36524 - doe div 146096) div 365;
          doy = doe - (365 * yoe + yoe div 4 - yoe div 100);
          mp = (5 * doy + 2) div 153
      in doy - (153 * mp + 2) div 5 + 1)"

definition monthStart :: "int \<Rightarrow> int" where
  "monthStart now = (let days = now div day_ms in (days - (day_of_month days - 1)) * day_ms)"

definition spend_event :: "event_type \<Rightarrow> bool" where
  "spend_event ty \<longleftrightarrow> ty = BountyBudgetReserve \<or> ty = BountyBudgetRelease \<or> ty = DisputeRefund"

text \<open>What the account has spent, net of releases and refunds, since an instant.\<close>

definition spent_since :: "string \<Rightarrow> int \<Rightarrow> db \<Rightarrow> int" where
  "spent_since aid from_ts s =
     max 0 (- sum_where (\<lambda>e. be_account_id e = aid \<and> spend_event (be_event_type e) \<and> be_created_at e \<ge> from_ts)
               be_amount_cents (billing_events s))"

definition exceeds :: "int option \<Rightarrow> int \<Rightarrow> bool" where
  "exceeds bound amount = (case bound of None \<Rightarrow> False | Some l \<Rightarrow> amount > l)"

section \<open>Publication\<close>

definition reserveCents :: "bounties_row \<Rightarrow> int" where
  "reserveCents b = max 0 (b_payout_cents b * max 1 (int (length (b_fingerprint_classes b))))"

definition reservation_of :: "string \<Rightarrow> db \<Rightarrow> reservations_row option" where
  "reservation_of bid s = find (\<lambda>r. br_bounty_id r = bid) (reservations s)"

definition org_limit :: "(orgs_row \<Rightarrow> int option) \<Rightarrow> string \<Rightarrow> db \<Rightarrow> int option" where
  "org_limit col org s = Option.bind (org_row org s) col"

text \<open>Budget is reserved once per bounty: limits, guarded debit, ledger entry, reservation.\<close>

definition reserveBudget :: "(nat \<Rightarrow> string) \<Rightarrow> int \<Rightarrow> bounties_row \<Rightarrow> string \<Rightarrow> db \<Rightarrow> err + db" where
  "reserveBudget gen now b aid s =
     (let n = reserveCents b; org = b_org_id b
      in if reservation_of (b_id b) s \<noteq> None \<or> n = 0 then Inr s
         else if exceeds (org_limit org_daily_spend_limit_cents org s) (spent_since aid (dayStart now) s + n)
         then Inl DailySpendLimitExceeded
         else if exceeds (org_limit org_monthly_spend_limit_cents org s) (spent_since aid (monthStart now) s + n)
         then Inl MonthlySpendLimitExceeded
         else (case debit_entry (gen 0) aid n (JObj [(''bountyId'', JStr (b_id b))]) now s of
             Inl e \<Rightarrow> Inl e
           | Inr s1 \<Rightarrow>
               Inr (s1\<lparr>reservations := reservations s1 @
                 [\<lparr> br_id = gen 1, br_account_id = aid, br_bounty_id = b_id b, br_amount_cents = n,
                    br_status = ResActive, br_created_at = now, br_released_at = None \<rparr>]\<rparr>)))"

definition live_status :: "job_status \<Rightarrow> bool" where
  "live_status st \<longleftrightarrow> st \<in> {JobOpen, JobClaimed, JobSubmitted, JobVerifying}"

definition org_open_jobs :: "string \<Rightarrow> db \<Rightarrow> nat" where
  "org_open_jobs org s =
     count_where (\<lambda>j. live_status (j_status j) \<and>
        (case bounty_row (j_bounty_id j) s of None \<Rightarrow> False | Some b \<Rightarrow> b_org_id b = org)) (jobs s)"

definition new_job :: "string \<Rightarrow> int \<Rightarrow> bounties_row \<Rightarrow> string \<Rightarrow> jobs_row" where
  "new_job jid now b fp =
     \<lparr> j_id = jid, j_bounty_id = b_id b, j_fingerprint_class = fp, j_status = JobOpen,
       j_lease_worker_id = None, j_lease_expires_at = None, j_lease_nonce = None,
       j_current_submission_id = None, j_final_verdict = None, j_final_reason = None,
       j_final_quality_score = None, j_done_at = None, j_task_descriptor = b_task_descriptor b,
       j_created_at = now \<rparr>"

text \<open>One job per fingerprint class, unless the bounty has jobs already.\<close>

definition generateJobs :: "(nat \<Rightarrow> string) \<Rightarrow> int \<Rightarrow> bounties_row \<Rightarrow> db \<Rightarrow> err + db" where
  "generateJobs gen now b s =
     (let fps = b_fingerprint_classes b; org = b_org_id b
      in if list_ex (\<lambda>j. j_bounty_id j = b_id b) (jobs s) \<or> fps = [] then Inr s
         else if exceeds (org_limit org_max_open_jobs org s) (int (org_open_jobs org s) + int (length fps))
         then Inl MaxOpenJobsExceeded
         else Inr (s\<lparr>jobs := jobs s @ map (\<lambda>(i, fp). new_job (gen (2 + i)) now b fp) (enumerate 0 fps)\<rparr>))"

definition set_bounty :: "string \<Rightarrow> (bounties_row \<Rightarrow> bounties_row) \<Rightarrow> db \<Rightarrow> db" where
  "set_bounty bid f s = s\<lparr>bounties := update_where (\<lambda>r. b_id r = bid) f (bounties s)\<rparr>"

definition publishBounty :: "(nat \<Rightarrow> string) \<Rightarrow> int \<Rightarrow> string \<Rightarrow> db \<Rightarrow> err + bounty_obj \<times> db" where
  "publishBounty gen now bid s =
     (case bounty_row bid s of
        None \<Rightarrow> Inl BountyNotFound
      | Some existing \<Rightarrow>
          let (account, s1) = getOrCreateAccount (b_org_id existing) now s
          in case reserveBudget gen now existing (ba_id account) s1 of
               Inl e \<Rightarrow> Inl e
             | Inr s2 \<Rightarrow>
                 let publish = (\<lambda>r. r\<lparr>b_status := BountyPublished, b_published_at := Some now\<rparr>);
                     s3 = set_bounty bid publish s2
                 in case generateJobs gen now (publish existing) s3 of
                      Inl e \<Rightarrow> Inl e
                    | Inr s4 \<Rightarrow> Inr (bountyFromRow (publish existing), s4))"

section \<open>Status changes and release of budget\<close>

text \<open>Every payout of the bounty, whatever its status, counts as committed.\<close>

definition committedCents :: "string \<Rightarrow> db \<Rightarrow> int" where
  "committedCents bid s =
     sum_where (\<lambda>p. (case sub_job (p_submission_id p) s of None \<Rightarrow> False | Some j \<Rightarrow> j_bounty_id j = bid) \<and>
                    p_status p \<in> {PayoutPaid, PayoutPending, PayoutFailed, PayoutRefunded})
       p_amount_cents (payouts s)"

definition remainingCents :: "string \<Rightarrow> reservations_row \<Rightarrow> db \<Rightarrow> int" where
  "remainingCents bid res s = max 0 (br_amount_cents res - committedCents bid s)"

definition release_entry :: "string \<Rightarrow> int \<Rightarrow> string \<Rightarrow> reservations_row \<Rightarrow> db \<Rightarrow> billing_events_row" where
  "release_entry eid now bid res s =
     new_event eid (br_account_id res) BountyBudgetRelease (remainingCents bid res s)
       (JObj [(''bountyId'', JStr bid), (''committed'', JNum (Fin (of_int (committedCents bid s)))),
              (''reserved'', JNum (Fin (of_int (br_amount_cents res))))]) now"

definition releaseBudget :: "(nat \<Rightarrow> string) \<Rightarrow> int \<Rightarrow> string \<Rightarrow> reservations_row \<Rightarrow> db \<Rightarrow> err + db" where
  "releaseBudget gen now bid res s =
     (case (if remainingCents bid res s > 0 then post_entry (release_entry (gen 0) now bid res s) now s
            else Inr s) of
        Inl e \<Rightarrow> Inl e
      | Inr s1 \<Rightarrow>
          Inr (s1\<lparr>reservations := update_where (\<lambda>r. br_id r = br_id res)
                 (\<lambda>r. r\<lparr>br_status := ResReleased, br_released_at := Some now\<rparr>) (reservations s1)\<rparr>))"

definition setBountyStatus ::
    "(nat \<Rightarrow> string) \<Rightarrow> int \<Rightarrow> string \<Rightarrow> bounty_status \<Rightarrow> db \<Rightarrow> err + bounty_obj option \<times> db" where
  "setBountyStatus gen now bid status s =
     (case bounty_row bid s of
        None \<Rightarrow> Inr (None, s)
      | Some row \<Rightarrow>
          let s1 = set_bounty bid (\<lambda>r. r\<lparr>b_status := status\<rparr>) s;
              result = Some (bountyFromRow (row\<lparr>b_status := status\<rparr>))
          in if status \<noteq> BountyClosed then Inr (result, s1)
             else (case reservation_of bid s1 of
                 None \<Rightarrow> Inr (result, s1)
               | Some res \<Rightarrow>
                   if br_status res = ResReleased then Inr (result, s1)
                   else (case releaseBudget gen now bid res s1 of
                       Inl e \<Rightarrow> Inl e
                     | Inr s2 \<Rightarrow> Inr (result, s2))))"

section \<open>Buyer routes\<close>

text \<open>\<open>authenticateBuyer\<close> has put the organisation and the API key id into the request.\<close>

definition origins_verified :: "url_parser \<Rightarrow> bool \<Rightarrow> bounty_obj \<Rightarrow> db \<Rightarrow> bool" where
  "origins_verified parse_url production b s =
     (let ty = (case bo_taskDescriptor b of None \<Rightarrow> [] | Some td \<Rightarrow> td_type td);
          public = systemPublicOrigins parse_url production ty s
      in list_all (\<lambda>o'. o' \<in> set public \<or> originAllowed parse_url production (bo_orgId b) o' s)
           (bo_allowedOrigins b))"

definition publish_error :: "err \<Rightarrow> 'a response" where
  "publish_error e =
     (if e \<in> {InsufficientFunds, DailySpendLimitExceeded, MonthlySpendLimitExceeded, MaxOpenJobsExceeded}
      then Reject 409 (err_message e) else Reject 500 ''internal'')"

definition route_publish ::
    "url_parser \<Rightarrow> bool \<Rightarrow> (nat \<Rightarrow> string) \<Rightarrow> int \<Rightarrow> string \<Rightarrow> string option \<Rightarrow> string \<Rightarrow> db \<Rightarrow>
     bounty_obj option response \<times> db" where
  "route_publish parse_url production gen now org apiKey bid s =
     (case getBounty bid s of
        None \<Rightarrow> (Reject 404 ''not_found'', s)
      | Some b \<Rightarrow>
          if bo_orgId b \<noteq> org then (Reject 403 ''forbidden'', s)
          else if bo_status b \<noteq> BountyDraft \<and> bo_status b \<noteq> BountyPaused then (Reject 409 ''bad_state'', s)
          else if \<not> origins_verified parse_url production b s then (Reject 400 ''origin_not_verified'', s)
          else (case sequence_errs (map (\<lambda>o'. assertUrlNotBlocked parse_url o' s) (bo_allowedOrigins b)) of
              Inl e \<Rightarrow> (Reject 403 ''blocked_domain'', s)
            | Inr _ \<Rightarrow>
                (case publishBounty gen now bid s of
                   Inl e \<Rightarrow> (publish_error e, s)
                 | Inr (_, s1) \<Rightarrow>
                     let s2 = writeAuditEvent (gen (2 + length (bo_fingerprintClassesRequired b))) now
                                ''buyer_api_key'' apiKey ''bounty.publish'' ''bounty'' bid s1
                     in (Ok (getBounty bid s2), s2))))"

definition route_set_status ::
    "(nat \<Rightarrow> string) \<Rightarrow> int \<Rightarrow> string \<Rightarrow> string option \<Rightarrow> bounty_status \<Rightarrow> string \<Rightarrow> string \<Rightarrow> db \<Rightarrow>
     bounty_obj option response \<times> db" where
  "route_set_status gen now org apiKey status action bid s =
     (case getBounty bid s of
        None \<Rightarrow> (Reject 404 ''not_found'', s)
      | Some b \<Rightarrow>
          if bo_orgId b \<noteq> org then (Reject 403 ''forbidden'', s)
          else (case setBountyStatus gen now bid status s of
              Inl e \<Rightarrow> (Reject 500 ''internal'', s)
            | Inr (res, s1) \<Rightarrow>
                (Ok res, writeAuditEvent (gen 1) now ''buyer_api_key'' apiKey action ''bounty'' bid s1)))"

definition route_pause where
  "route_pause gen now org apiKey = route_set_status gen now org apiKey BountyPaused ''bounty.pause''"

definition route_close where
  "route_close gen now org apiKey = route_set_status gen now org apiKey BountyClosed ''bounty.close''"

section \<open>Frames and the ledger\<close>

lemma set_bounty_frame: "same_ledger s (set_bounty bid f s)"
  by (simp add: set_bounty_def same_ledger_def)

lemma generateJobs_cases:
  assumes "generateJobs gen now b s = Inr s'"
  shows "s' = s \<or> s' = s\<lparr>jobs := jobs s @ map (\<lambda>(i, fp). new_job (gen (2 + i)) now b fp)
           (enumerate 0 (b_fingerprint_classes b))\<rparr>"
  using assms by (auto simp: generateJobs_def Let_def split: if_split_asm)

lemma generateJobs_frame: "generateJobs gen now b s = Inr s' \<Longrightarrow> same_ledger s s'"
  using generateJobs_cases by (fastforce simp: same_ledger_def)

lemma reserveBudget_cases:
  assumes "reserveBudget gen now b aid s = Inr s'"
  shows "(s' = s \<and> (reservation_of (b_id b) s \<noteq> None \<or> reserveCents b = 0)) \<or>
    (reservation_of (b_id b) s = None \<and> reserveCents b \<noteq> 0 \<and>
     \<not> exceeds (org_limit org_daily_spend_limit_cents (b_org_id b) s) (spent_since aid (dayStart now) s + reserveCents b) \<and>
     \<not> exceeds (org_limit org_monthly_spend_limit_cents (b_org_id b) s) (spent_since aid (monthStart now) s + reserveCents b) \<and>
     (\<exists>s1. debit_entry (gen 0) aid (reserveCents b) (JObj [(''bountyId'', JStr (b_id b))]) now s = Inr s1 \<and>
       s' = s1\<lparr>reservations := reservations s1 @
                 [\<lparr> br_id = gen 1, br_account_id = aid, br_bounty_id = b_id b,
                    br_amount_cents = reserveCents b, br_status = ResActive, br_created_at = now,
                    br_released_at = None \<rparr>]\<rparr>))"
  using assms by (auto simp: reserveBudget_def Let_def split: if_split_asm sum.split_asm)

lemma reserveCents_nonneg: "0 \<le> reserveCents b"
  by (simp add: reserveCents_def)

context ledger_state
begin

lemma reserveBudget_I: "I s \<Longrightarrow> reserveBudget gen now b aid s = Inr s' \<Longrightarrow> I s'"
proof (drule reserveBudget_cases, elim disjE conjE exE)
  fix s1
  assume "I s" "debit_entry (gen 0) aid (reserveCents b) (JObj [(''bountyId'', JStr (b_id b))]) now s = Inr s1"
  then have "I s1" using I_debit reserveCents_nonneg by blast
  moreover assume "s' = s1\<lparr>reservations := reservations s1 @
                 [\<lparr> br_id = gen 1, br_account_id = aid, br_bounty_id = b_id b,
                    br_amount_cents = reserveCents b, br_status = ResActive, br_created_at = now,
                    br_released_at = None \<rparr>]\<rparr>"
  ultimately show "I s'" by (auto intro: I_frame simp: same_ledger_def)
qed auto

lemma publishBounty_I:
  assumes "I s" and "publishBounty gen now bid s = Inr (b, s')" shows "I s'"
proof -
  from assms(2) obtain existing account s1 s2 s3 f
    where "getOrCreateAccount (b_org_id existing) now s = (account, s1)"
      and "reserveBudget gen now existing (ba_id account) s1 = Inr s2"
      and "generateJobs gen now (f existing) (set_bounty bid f s2) = Inr s'"
    by (auto simp: publishBounty_def Let_def split: option.split_asm prod.split_asm sum.split_asm)
  moreover from this(1) have "I s1" using I_account [OF assms(1)] by (metis snd_conv)
  ultimately show ?thesis
    using reserveBudget_I generateJobs_frame set_bounty_frame I_frame by metis
qed

lemma releaseBudget_I:
  assumes "I s" and "releaseBudget gen now bid res s = Inr s'" shows "I s'"
proof -
  from assms(2) obtain s1 where
    "(if remainingCents bid res s > 0 then post_entry (release_entry (gen 0) now bid res s) now s else Inr s) = Inr s1"
    and s': "same_ledger s1 s'"
    by (auto simp: releaseBudget_def same_ledger_def split: sum.split_asm)
  from this(1) have "I s1"
    using assms(1) I_post [OF assms(1), of "release_entry (gen 0) now bid res s" now s1]
    by (auto simp: release_entry_def new_event_def split: if_split_asm)
  then show ?thesis using s' by (rule I_frame)
qed

lemma setBountyStatus_I:
  assumes "I s" and "setBountyStatus gen now bid st s = Inr (r, s')" shows "I s'"
proof -
  have "I (set_bounty bid f s)" for f by (rule I_frame [OF assms(1) set_bounty_frame])
  with assms show ?thesis
    by (auto simp: setBountyStatus_def Let_def dest: releaseBudget_I [rotated]
        split: option.split_asm if_split_asm sum.split_asm)
qed

lemma route_publish_I: "I s \<Longrightarrow> I (snd (route_publish pu pr gen now org k bid s))"
  by (auto simp: route_publish_def Let_def intro!: I_audit intro: publishBounty_I
      split: option.split sum.split prod.split)

lemma route_set_status_I: "I s \<Longrightarrow> I (snd (route_set_status gen now org k st act bid s))"
  by (auto simp: route_set_status_def intro!: I_audit intro: setBountyStatus_I
      split: option.split sum.split prod.split)

end

section \<open>What publication does\<close>

lemma find_id: "bounty_row bid s = Some b \<Longrightarrow> b_id b = bid"
  by (auto simp: bounty_row_def dest: find_SomeD)

lemma bounty_row_set:
  "(\<And>r. b_id (f r) = b_id r) \<Longrightarrow>
     bounty_row bid (set_bounty bid f s) = map_option f (bounty_row bid s)"
  unfolding bounty_row_def set_bounty_def
  by (simp add: find_update_where) (auto simp: map_option_case dest: find_SomeD split: option.splits)

lemma getOrCreateAccount_cases:
  assumes "getOrCreateAccount org now s = (a, s')"
  shows "account_of org s' = Some a \<and> billing_events s' = billing_events s \<and>
         (s' = s \<or> s' = s\<lparr>billing_accounts := billing_accounts s @ [new_account org now]\<rparr>)"
  using assms
  by (auto simp: getOrCreateAccount_def account_of_def find_append new_account_def split: option.split_asm)

lemma publishBounty_elim:
  assumes "publishBounty gen now bid s = Inr (b', s')"
  obtains b acct s1 s2 where "bounty_row bid s = Some b"
    and "getOrCreateAccount (b_org_id b) now s = (acct, s1)"
    and "reserveBudget gen now b (ba_id acct) s1 = Inr s2"
    and "generateJobs gen now (b\<lparr>b_status := BountyPublished, b_published_at := Some now\<rparr>)
           (set_bounty bid (\<lambda>r. r\<lparr>b_status := BountyPublished, b_published_at := Some now\<rparr>) s2) = Inr s'"
    and "b' = bountyFromRow (b\<lparr>b_status := BountyPublished, b_published_at := Some now\<rparr>)"
  using assms
  by (auto simp: publishBounty_def Let_def split: option.split_asm prod.split_asm sum.split_asm)

text \<open>Everything but the jobs is settled before the jobs are generated.\<close>

lemma publishBounty_tables:
  assumes "publishBounty gen now bid s = Inr (b', s')"
  obtains b acct s1 s2 where "bounty_row bid s = Some b"
    and "getOrCreateAccount (b_org_id b) now s = (acct, s1)"
    and "reserveBudget gen now b (ba_id acct) s1 = Inr s2"
    and "billing_events s' = billing_events s2" and "billing_accounts s' = billing_accounts s2"
    and "reservations s' = reservations s2" and "bo_status b' = BountyPublished"
proof (rule publishBounty_elim [OF assms], rule that)
  fix b acct s1 s2
  assume "generateJobs gen now (b\<lparr>b_status := BountyPublished, b_published_at := Some now\<rparr>)
           (set_bounty bid (\<lambda>r. r\<lparr>b_status := BountyPublished, b_published_at := Some now\<rparr>) s2) = Inr s'"
  from generateJobs_cases [OF this]
  show "billing_events s' = billing_events s2" "billing_accounts s' = billing_accounts s2"
    "reservations s' = reservations s2"
    by (auto simp: set_bounty_def)
qed (simp_all add: bountyFromRow_def)


lemma account_of_iff: "account_of org s \<noteq> None \<longleftrightarrow> org \<in> set (map ba_org_id (billing_accounts s))"
  by (auto simp: account_of_def find_None)

lemma reserveBudget_frame:
  assumes "reserveBudget gen now b aid s = Inr s'"
  shows "map ba_org_id (billing_accounts s') = map ba_org_id (billing_accounts s) \<and>
         bounties s' = bounties s \<and> jobs s' = jobs s \<and>
         (reservation_of (b_id b) s' \<noteq> None \<or> reserveCents b = 0)"
  using reserveBudget_cases [OF assms]
proof (elim disjE conjE exE)
  fix s1
  assume d: "debit_entry (gen 0) aid (reserveCents b) (JObj [(''bountyId'', JStr (b_id b))]) now s = Inr s1"
    and s': "s' = s1\<lparr>reservations := reservations s1 @
                 [\<lparr> br_id = gen 1, br_account_id = aid, br_bounty_id = b_id b,
                    br_amount_cents = reserveCents b, br_status = ResActive, br_created_at = now,
                    br_released_at = None \<rparr>]\<rparr>"
  from d show ?thesis
    by (rule debit_entry_Inr) (simp add: s' map_update_where reservation_of_def find_None)
qed simp_all

lemma generateJobs_done:
  assumes "generateJobs gen now b s = Inr s'"
  shows "list_ex (\<lambda>j. j_bounty_id j = b_id b) (jobs s') \<or> b_fingerprint_classes b = []"
proof (cases "b_fingerprint_classes b")
  case (Cons fp fps)
  with assms show ?thesis
    by (auto simp: generateJobs_def Let_def new_job_def enumerate_simps split: if_split_asm)
qed simp

text \<open>Publishing again is free: after a successful publication every further publication of the
  same bounty succeeds without touching ledger, reservations or jobs.\<close>

theorem publish_again_free:
  assumes "publishBounty gen now bid s = Inr (b', s')"
  shows "\<exists>b'' s''. publishBounty gen2 now2 bid s' = Inr (b'', s'') \<and> same_ledger s' s'' \<and>
           reservations s'' = reservations s' \<and> jobs s'' = jobs s'"
proof (rule publishBounty_elim [OF assms])
  fix b acct s1 s2
  let ?f = "\<lambda>now r. r\<lparr>b_status := BountyPublished, b_published_at := Some now\<rparr>"
  assume b: "bounty_row bid s = Some b" and a: "getOrCreateAccount (b_org_id b) now s = (acct, s1)"
    and r: "reserveBudget gen now b (ba_id acct) s1 = Inr s2"
    and j: "generateJobs gen now (?f now b) (set_bounty bid (?f now) s2) = Inr s'"
  have i: "b_id b = bid" by (rule find_id [OF b])
  note g = getOrCreateAccount_cases [OF a]
  note f = reserveBudget_frame [OF r]
  have k: "bounties s' = bounties (set_bounty bid (?f now) s2)" "billing_accounts s' = billing_accounts s2"
    "reservations s' = reservations s2"
    using generateJobs_cases [OF j] by (auto simp: set_bounty_def)
  have "bounty_row bid s' = bounty_row bid (set_bounty bid (?f now) s2)" by (simp add: bounty_row_def k)
  also have "\<dots> = Some (?f now b)" using b f g by (auto simp: bounty_row_set) (auto simp: bounty_row_def)
  finally have s'1: "bounty_row bid s' = Some (?f now b)" .
  have "account_of (b_org_id b) s1 \<noteq> None" using g by simp
  then have s'2: "account_of (b_org_id b) s' \<noteq> None" unfolding account_of_iff k using f by simp
  have s'3: "reservation_of bid s' \<noteq> None \<or> reserveCents b = 0" using f by (simp add: reservation_of_def k i)
  have s'4: "list_ex (\<lambda>q. j_bounty_id q = bid) (jobs s') \<or> b_fingerprint_classes b = []"
    using generateJobs_done [OF j] by (simp add: i)
  note s' = s'1 s'2 s'3 s'4
  then obtain acct2 where "getOrCreateAccount (b_org_id b) now2 s' = (acct2, s')"
    by (auto simp: getOrCreateAccount_def)
  then show ?thesis
    using s' by (auto simp: publishBounty_def reserveBudget_def generateJobs_def Let_def i reserveCents_def
        set_bounty_def same_ledger_def)
qed

definition example_bounty :: bounties_row where
  "example_bounty = \<lparr> b_id = ''b1'', b_org_id = ''o1'', b_title = ''t'', b_description = ''d'',
     b_status = BountyDraft, b_allowed_origins = [], b_journey = JNull, b_payout_cents = 100,
     b_coverage_payout_cents = 0, b_required_proofs = 1,
     b_fingerprint_classes = [''desktop_us'', ''mobile_eu''], b_tags = [], b_dispute_window_sec = 0,
     b_priority = 0, b_task_descriptor = None, b_created_at = 0, b_published_at = None \<rparr>"

definition example_org :: orgs_row where
  "example_org = \<lparr> org_id = ''o1'', org_name = ''o'', org_platform_fee_bps = 0,
     org_platform_fee_wallet_address = None, org_cors_allow_origins = [],
     org_daily_spend_limit_cents = Some 1000, org_monthly_spend_limit_cents = None,
     org_max_published_bounties = None, org_max_open_jobs = None, org_created_at = 0 \<rparr>"

definition example_store :: db where
  "example_store = empty_db\<lparr>bounties := [example_bounty], orgs := [example_org],
     billing_accounts := [example_account]\<rparr>"

definition example_gen :: "nat \<Rightarrow> string" where
  "example_gen i = replicate i CHR ''x''"

lemmas example_eval = example_store_def example_bounty_def example_org_def example_account_def
  new_account_def acct_id_def bounty_row_def getOrCreateAccount_def account_of_def

lemma example_published:
  "\<exists>b' s'. publishBounty example_gen 5 ''b1'' example_store = Inr (b', s')"
  by (simp add: publishBounty_def example_eval reserveBudget_def reserveCents_def reservation_of_def
      org_limit_def org_row_def exceeds_def spent_since_def debit_entry_def add_event_def new_event_def
      generateJobs_def set_bounty_def Let_def empty_db_def)


theorem publish_again_free_witness:
  "\<exists>b' s' b'' s''. publishBounty example_gen 5 ''b1'' example_store = Inr (b', s') \<and>
     publishBounty example_gen 9 ''b1'' s' = Inr (b'', s'') \<and> same_ledger s' s'' \<and> jobs s'' = jobs s'"
proof -
  obtain b' s' where p: "publishBounty example_gen 5 ''b1'' example_store = Inr (b', s')"
    using example_published by blast
  from publish_again_free [OF p, of example_gen 9] p show ?thesis by blast
qed

section \<open>Spend limits\<close>

lemma dayStart_le: "dayStart now \<le> now"
  unfolding dayStart_def day_ms_def by (simp add: div_times_less_eq_dividend)

lemma day_of_month_pos: "1 \<le> day_of_month days"
proof -
  have "(153 * ((5 * y + 2) div 153) + 2) div 5 \<le> y" for y :: int
  proof -
    have "153 * ((5 * y + 2) div 153) \<le> 5 * y + 2"
      using mult_div_mod_eq [of 153 "5 * y + 2"] pos_mod_sign [of 153 "5 * y + 2"] by simp
    then have "(153 * ((5 * y + 2) div 153) + 2) div 5 \<le> (5 * y + 4) div 5" by (intro zdiv_mono1) simp_all
    then show ?thesis by simp
  qed
  then have "1 \<le> y - (153 * ((5 * y + 2) div 153) + 2) div 5 + 1" for y :: int
    by (simp only: le_add_same_cancel2 diff_ge_0_iff_ge)
  then show ?thesis unfolding day_of_month_def Let_def .
qed

text \<open>The epoch, 1 March 1970, 29 February 2000, 29 February 2024, 31 December 2100.\<close>

lemma day_of_month_examples:
  "day_of_month 0 = 1" "day_of_month 59 = 1" "day_of_month 11016 = 29" "day_of_month 19782 = 29"
  "day_of_month 47846 = 31"
  by code_simp+

lemma monthStart_le: "monthStart now \<le> now"
proof -
  have "monthStart now \<le> dayStart now"
    using day_of_month_pos [of "now div day_ms"]
    by (simp add: monthStart_def dayStart_def Let_def day_ms_def)
  then show ?thesis using dayStart_le [of now] by simp
qed

lemma spent_after_debit:
  assumes "debit_entry eid aid n meta now s = Inr s'" and "from_ts \<le> now" and "0 \<le> n"
  shows "spent_since aid from_ts s' \<le> spent_since aid from_ts s + n"
  using assms(1)
  by (rule debit_entry_Inr) (use assms(2,3) in \<open>simp add: spent_since_def new_event_def spend_event_def\<close>)

text \<open>C30. Spend limits hold after publication: when publishing debits the account, the amount spent
  since the start of the UTC day (and of the month), this reservation included and releases and
  refunds deducted, does not exceed the organisation's daily (monthly) limit.\<close>

theorem publish_within_limits:
  assumes "publishBounty gen now bid s = Inr (b', s')" and "bounty_row bid s = Some b"
    and "reservation_of bid s = None" and "reserveCents b \<noteq> 0"
  defines "aid \<equiv> ba_id (fst (getOrCreateAccount (b_org_id b) now s))"
  shows "\<not> exceeds (org_limit org_daily_spend_limit_cents (b_org_id b) s) (spent_since aid (dayStart now) s') \<and>
         \<not> exceeds (org_limit org_monthly_spend_limit_cents (b_org_id b) s) (spent_since aid (monthStart now) s')"
proof (rule publishBounty_tables [OF assms(1)])
  fix b0 acct s1 s2
  assume b0: "bounty_row bid s = Some b0" and a: "getOrCreateAccount (b_org_id b0) now s = (acct, s1)"
    and r: "reserveBudget gen now b0 (ba_id acct) s1 = Inr s2"
    and t: "billing_events s' = billing_events s2"
  have b: "b0 = b" and i: "b_id b = bid" using b0 assms(2) find_id by auto
  have aid: "aid = ba_id acct" using a b by (simp add: aid_def)
  have res: "reservation_of bid s1 = None" and org: "org_limit c x s1 = org_limit c x s" for c x
    using getOrCreateAccount_cases [OF a] assms(3) by (auto simp: reservation_of_def org_limit_def org_row_def)
  have spent: "spent_since x f s' = spent_since x f s2" for x f by (simp add: spent_since_def t)
  from reserveBudget_cases [OF r] obtain s3
    where lim: "\<not> exceeds (org_limit org_daily_spend_limit_cents (b_org_id b) s) (spent_since aid (dayStart now) s1 + reserveCents b)"
      "\<not> exceeds (org_limit org_monthly_spend_limit_cents (b_org_id b) s) (spent_since aid (monthStart now) s1 + reserveCents b)"
      and d: "debit_entry (gen 0) aid (reserveCents b) (JObj [(''bountyId'', JStr bid)]) now s1 = Inr s3"
      and ev: "billing_events s2 = billing_events s3"
    unfolding b i using res assms(4) aid org by auto
  have "spent_since aid f s2 \<le> spent_since aid f s1 + reserveCents b" if "f \<le> now" for f
    using spent_after_debit [OF d that reserveCents_nonneg] by (simp add: spent_since_def ev)
  from lim this [OF dayStart_le] this [OF monthStart_le] show ?thesis
    by (auto simp: exceeds_def spent split: option.splits)
qed

theorem publish_within_limits_witness:
  "\<exists>b' s'. publishBounty example_gen 5 ''b1'' example_store = Inr (b', s') \<and>
     \<not> exceeds (Some 1000) (spent_since ''acct_o1'' (dayStart 5) s')"
proof -
  obtain b' s' where p: "publishBounty example_gen 5 ''b1'' example_store = Inr (b', s')"
    using example_published by blast
  have b: "bounty_row ''b1'' example_store = Some example_bounty"
    by (simp add: example_eval)
  have "reservation_of ''b1'' example_store = None" "reserveCents example_bounty \<noteq> 0"
    "ba_id (fst (getOrCreateAccount (b_org_id example_bounty) 5 example_store)) = ''acct_o1''"
    "org_limit org_daily_spend_limit_cents (b_org_id example_bounty) example_store = Some 1000"
    by (simp_all add: example_eval reservation_of_def reserveCents_def empty_db_def org_limit_def org_row_def)
  with publish_within_limits [OF p b] p show ?thesis by auto
qed

section \<open>Closing a bounty\<close>

lemma releaseBudget_elim:
  assumes "releaseBudget gen now bid res s = Inr s'"
  obtains s1 where "same_ledger s1 s'" and "reservations s' = update_where (\<lambda>r. br_id r = br_id res)
       (\<lambda>r. r\<lparr>br_status := ResReleased, br_released_at := Some now\<rparr>) (reservations s)"
    and "bounties s' = bounties s" and "jobs s' = jobs s"
    and "(remainingCents bid res s = 0 \<and> s1 = s) \<or>
         (0 < remainingCents bid res s \<and> post_entry (release_entry (gen 0) now bid res s) now s = Inr s1)"
proof -
  from assms obtain s1 where
    1: "(if remainingCents bid res s > 0 then post_entry (release_entry (gen 0) now bid res s) now s else Inr s) = Inr s1"
    and s': "s' = s1\<lparr>reservations := update_where (\<lambda>r. br_id r = br_id res)
       (\<lambda>r. r\<lparr>br_status := ResReleased, br_released_at := Some now\<rparr>) (reservations s1)\<rparr>"
    by (auto simp: releaseBudget_def split: sum.split_asm)
  have "0 \<le> remainingCents bid res s" by (simp add: remainingCents_def)
  with 1 have 2: "(remainingCents bid res s = 0 \<and> s1 = s) \<or>
         (0 < remainingCents bid res s \<and> post_entry (release_entry (gen 0) now bid res s) now s = Inr s1)"
    by (auto split: if_split_asm)
  then have "reservations s1 = reservations s \<and> bounties s1 = bounties s \<and> jobs s1 = jobs s"
    by (auto elim: post_entry_Inr)
  with s' show thesis by (intro that [OF _ _ _ _ 2]) (simp_all add: same_ledger_def)
qed

lemma reservation_of_id: "reservation_of bid s = Some res \<Longrightarrow> br_bounty_id res = bid"
  by (auto simp: reservation_of_def dest: find_SomeD)

lemma set_bounty_other [simp]:
  "reservation_of bid (set_bounty b f s) = reservation_of bid s"
  "reservations (set_bounty b f s) = reservations s"
  "billing_events (set_bounty b f s) = billing_events s"
  "billing_accounts (set_bounty b f s) = billing_accounts s"
  "jobs (set_bounty b f s) = jobs s"
  by (simp_all add: set_bounty_def reservation_of_def)

lemma committed_set_bounty [simp]: "committedCents bid (set_bounty b f s) = committedCents bid s"
  by (simp add: committedCents_def set_bounty_def sub_job_def sub_row_def job_row_def)

lemma remaining_set_bounty [simp]: "remainingCents bid r (set_bounty b f s) = remainingCents bid r s"
  by (simp add: remainingCents_def)

lemma close_elim:
  assumes "setBountyStatus gen now bid BountyClosed s = Inr (r, s')"
    and "bounty_row bid s = Some b" and "reservation_of bid s = Some res" and "br_status res = ResActive"
  shows "releaseBudget gen now bid res (set_bounty bid (\<lambda>r. r\<lparr>b_status := BountyClosed\<rparr>) s) = Inr s'"
  using assms by (auto simp: setBountyStatus_def Let_def split: sum.split_asm)

lemma released_of:
  assumes "reservation_of bid s = Some res"
    and "reservations s' = update_where (\<lambda>r. br_id r = br_id res)
       (\<lambda>r. r\<lparr>br_status := ResReleased, br_released_at := Some now\<rparr>) (reservations s)"
  shows "reservation_of bid s' = Some (res\<lparr>br_status := ResReleased, br_released_at := Some now\<rparr>)"
  using assms by (simp add: reservation_of_def find_update_where)

lemma setBountyStatus_released:
  assumes "setBountyStatus gen now bid st s = Inr (r, s')"
    and "reservation_of bid s = Some res" and "br_status res = ResReleased"
  shows "same_ledger s s' \<and> reservations s' = reservations s"
  using assms
  by (auto simp: setBountyStatus_def Let_def same_ledger_def split: option.split_asm if_split_asm)

text \<open>Closing a bounty returns the unspent part of its budget, and only once: closing with an
  active reservation credits the account with the reserved amount minus every payout of the
  bounty's jobs (never a negative amount), marks the reservation released, and whatever status is
  set afterwards leaves the ledger alone.\<close>

theorem close_releases_remaining:
  assumes "setBountyStatus gen now bid BountyClosed s = Inr (r, s')" and "bounty_row bid s = Some b"
    and "reservation_of bid s = Some res" and "br_status res = ResActive"
  shows "ledger_sum (br_account_id res) (billing_events s') =
           ledger_sum (br_account_id res) (billing_events s)
             + max 0 (br_amount_cents res - committedCents bid s) \<and>
         map_option br_status (reservation_of bid s') = Some ResReleased \<and>
         (\<forall>gen2 now2 st r2 s2. setBountyStatus gen2 now2 bid st s' = Inr (r2, s2) \<longrightarrow>
            same_ledger s' s2 \<and> reservations s2 = reservations s')"
proof (rule releaseBudget_elim [OF close_elim [OF assms]])
  fix s1
  let ?s0 = "set_bounty bid (\<lambda>r. r\<lparr>b_status := BountyClosed\<rparr>) s"
  assume l: "same_ledger s1 s'" and u: "reservations s' = update_where (\<lambda>r. br_id r = br_id res)
       (\<lambda>r. r\<lparr>br_status := ResReleased, br_released_at := Some now\<rparr>) (reservations ?s0)"
    and p: "(remainingCents bid res ?s0 = 0 \<and> s1 = ?s0) \<or>
         (0 < remainingCents bid res ?s0 \<and> post_entry (release_entry (gen 0) now bid res ?s0) now ?s0 = Inr s1)"
  have rel: "reservation_of bid s' = Some (res\<lparr>br_status := ResReleased, br_released_at := Some now\<rparr>)"
    using released_of [OF assms(3)] u by simp
  from p have "ledger_sum (br_account_id res) (billing_events s1) =
      ledger_sum (br_account_id res) (billing_events s) + remainingCents bid res s"
    by (auto elim!: post_entry_Inr simp: release_entry_def new_event_def)
  then show ?thesis
    using l rel setBountyStatus_released [OF _ rel]
    by (auto simp: same_ledger_def remainingCents_def)
qed

definition example_reserved :: "reservation_status \<Rightarrow> db" where
  "example_reserved st = example_store\<lparr>reservations := [\<lparr> br_id = ''r1'', br_account_id = ''acct_o1'',
     br_bounty_id = ''b1'', br_amount_cents = 200, br_status = st, br_created_at = 0,
     br_released_at = None \<rparr>]\<rparr>"

lemma example_closed:
  "\<exists>r s'. setBountyStatus example_gen 6 ''b1'' BountyClosed (example_reserved ResActive) = Inr (r, s')"
  by (simp add: example_reserved_def example_eval reservation_of_def
      add_event_def new_event_def set_bounty_def setBountyStatus_def releaseBudget_def remainingCents_def
      committedCents_def release_entry_def post_entry_def change_balance_def int4_def Let_def empty_db_def)

theorem close_releases_remaining_witness:
  "\<exists>r s'. setBountyStatus example_gen 6 ''b1'' BountyClosed (example_reserved ResActive) = Inr (r, s') \<and>
     ledger_sum ''acct_o1'' (billing_events s') = 200"
proof -
  obtain r s' where c: "setBountyStatus example_gen 6 ''b1'' BountyClosed (example_reserved ResActive) = Inr (r, s')"
    using example_closed by blast
  have b: "bounty_row ''b1'' (example_reserved ResActive) = Some example_bounty"
    and res: "reservation_of ''b1'' (example_reserved ResActive) = Some \<lparr> br_id = ''r1'',
      br_account_id = ''acct_o1'', br_bounty_id = ''b1'', br_amount_cents = 200, br_status = ResActive,
      br_created_at = 0, br_released_at = None \<rparr>"
    by (simp_all add: example_reserved_def example_eval reservation_of_def)
  have "committedCents ''b1'' (example_reserved ResActive) = 0"
    "ledger_sum ''acct_o1'' (billing_events (example_reserved ResActive)) = 0"
    by (simp_all add: committedCents_def ledger_sum_def example_reserved_def example_store_def empty_db_def)
  with close_releases_remaining [OF c b res] c show ?thesis by auto
qed

text \<open>C36. A closed bounty can be reopened without funding: pausing a bounty whose budget was
  released on closing and publishing it again publishes it with the reservation still released,
  and the account is not charged.\<close>

theorem reopen_after_close_unfunded:
  assumes "reservation_of bid s = Some res" and "br_status res = ResReleased"
    and "setBountyStatus gen1 t1 bid BountyPaused s = Inr (r1, s1)"
    and "publishBounty gen2 t2 bid s1 = Inr (b, s2)"
  shows "bo_status b = BountyPublished \<and> billing_events s2 = billing_events s \<and>
         map_option br_status (reservation_of bid s2) = Some ResReleased"
proof -
  have 1: "same_ledger s s1" "reservations s1 = reservations s"
    using setBountyStatus_released [OF assms(3,1,2)] by auto
  then have res: "reservation_of bid s1 = Some res" using assms(1) by (simp add: reservation_of_def)
  obtain b1 where b1: "bounty_row bid s1 = Some b1" using publishBounty_elim [OF assms(4)] by metis
  from assms(4) have st: "bo_status b = BountyPublished" by (rule publishBounty_tables)
  have "billing_events s2 = billing_events s1" "reservations s2 = reservations s1"
    by (rule publishBounty_tables [OF assms(4)];
        use b1 res find_id [OF b1] in \<open>auto dest!: getOrCreateAccount_cases reserveBudget_cases
          simp: reservation_of_def dest: find_id\<close>)+
  with 1 res assms(2) st show ?thesis by (simp add: same_ledger_def reservation_of_def)
qed

theorem reopen_after_close_unfunded_witness:
  "\<exists>r1 s1 b s2. setBountyStatus example_gen 6 ''b1'' BountyPaused (example_reserved ResReleased) = Inr (r1, s1) \<and>
     publishBounty example_gen 7 ''b1'' s1 = Inr (b, s2) \<and> bo_status b = BountyPublished \<and>
     length (jobs s2) = 2 \<and> billing_events s2 = []"
proof -
  have res: "reservation_of ''b1'' (example_reserved ResReleased) = Some \<lparr> br_id = ''r1'',
      br_account_id = ''acct_o1'', br_bounty_id = ''b1'', br_amount_cents = 200, br_status = ResReleased,
      br_created_at = 0, br_released_at = None \<rparr>"
    by (simp add: example_reserved_def reservation_of_def)
  have "\<exists>r1 s1 b s2. setBountyStatus example_gen 6 ''b1'' BountyPaused (example_reserved ResReleased) = Inr (r1, s1) \<and>
     publishBounty example_gen 7 ''b1'' s1 = Inr (b, s2) \<and> length (jobs s2) = 2"
    by (simp add: example_reserved_def example_eval reservation_of_def set_bounty_def setBountyStatus_def
        publishBounty_def reserveBudget_def generateJobs_def org_limit_def org_row_def exceeds_def Let_def
        empty_db_def)
  then obtain r1 s1 b s2 where
    1: "setBountyStatus example_gen 6 ''b1'' BountyPaused (example_reserved ResReleased) = Inr (r1, s1)"
    and 2: "publishBounty example_gen 7 ''b1'' s1 = Inr (b, s2)" "length (jobs s2) = 2" by blast
  from reopen_after_close_unfunded [OF res _ 1 2(1)] 1 2
  have "bo_status b = BountyPublished" "billing_events s2 = billing_events (example_reserved ResReleased)"
    by simp_all
  with 1 2 show ?thesis by (auto simp: example_reserved_def example_store_def empty_db_def)
qed

end
