(* ===== verification/Payouts.thy ===== *)
theory Payouts
  imports Bounties Fees
begin

text \<open>
  Payouts: creation with the fee split and the dispute hold (\<open>addPayout\<close>), status changes and
  listings of \<open>src/src/store.ts\<close>; execution and confirmation by the payout runner
  (\<open>src/workers/handlers.ts\<close>, \<open>src/src/payments/provider.ts\<close>); retry, forced status and the
  worker's payout address of \<open>src/src/server.ts\<close>. The handlers return what they sent to the
  outside world besides the error they throw and the store they leave.
\<close>

section \<open>Creation\<close>

text \<open>The configuration and the outside world: fee settings, payment provider, signer and chain.
  \<open>pe_http\<close> is the provider's answer (\<open>provider\<close>, \<open>providerRef\<close>, \<open>status\<close>), \<open>pe_broadcast\<close> the
  result of signing and sending a transaction, \<open>pe_receipt\<close> the status and block of a receipt.\<close>

record pay_env =
  pe_provider :: string
  pe_fee_bps :: "err + rat"
  pe_fee_wallet :: "string option"
  pe_http_url :: "string option"
  pe_http :: "string \<Rightarrow> int \<Rightarrow> string \<Rightarrow> err + (string option \<times> string option \<times> string)"
  pe_signer_config :: "err + unit"
  pe_signer :: "err + string"
  pe_chain_id :: int
  pe_usdc :: string
  pe_selector :: string
  pe_gas :: "err + unit"
  pe_pending_nonce :: "err + int"
  pe_broadcast :: "int \<Rightarrow> string \<Rightarrow> err + string"
  pe_receipt :: "string \<Rightarrow> err + (string \<times> int) option"
  pe_latest_block :: "err + int"
  pe_confirmations :: int

definition rat_int :: "rat \<Rightarrow> err + int" where
  "rat_int q = (if q = of_int \<lfloor>q\<rfloor> then Inr \<lfloor>q\<rfloor> else Inl (OtherError ''invalid input syntax for type integer''))"

definition org_fee :: "string \<Rightarrow> db \<Rightarrow> int \<times> string option" where
  "org_fee sid s =
     (case sub_org sid s of
        None \<Rightarrow> (0, None)
      | Some o' \<Rightarrow> (org_platform_fee_bps o', org_platform_fee_wallet_address o'))"

definition hold_of :: "string \<Rightarrow> int \<Rightarrow> db \<Rightarrow> int option" where
  "hold_of sid now s =
     (let w = (case sub_bounty sid s of Some b \<Rightarrow> if sub_org sid s = None then 0 else b_dispute_window_sec b
                                      | None \<Rightarrow> 0)
      in if w > 0 then Some (now + 1000 * w) else None)"

definition set_split ::
    "payout_split \<Rightarrow> int \<Rightarrow> string option \<Rightarrow> int \<Rightarrow> string option \<Rightarrow> int \<Rightarrow> payouts_row \<Rightarrow> payouts_row" where
  "set_split sp bps wallet pwBps pwWallet now p =
     p\<lparr> p_net_amount_cents := Some (netCents sp), p_platform_fee_cents := Some (platformFeeCents sp),
        p_platform_fee_bps := Some bps, p_platform_fee_wallet_address := wallet,
        p_proofwork_fee_cents := Some (proofworkFeeCents sp), p_proofwork_fee_bps := Some pwBps,
        p_proofwork_fee_wallet_address := pwWallet, p_updated_at := now \<rparr>"

definition new_payout :: "string \<Rightarrow> string \<Rightarrow> string \<Rightarrow> int \<Rightarrow> int \<Rightarrow> payouts_row" where
  "new_payout pid sid wid amount now =
     \<lparr> p_id = pid, p_submission_id = sid, p_worker_id = wid, p_amount_cents = amount,
       p_status = PayoutPending, p_provider = None, p_provider_ref = None, p_net_amount_cents = None,
       p_platform_fee_cents = None, p_platform_fee_bps = None, p_platform_fee_wallet_address = None,
       p_proofwork_fee_cents = None, p_proofwork_fee_bps = None,
       p_proofwork_fee_wallet_address = None, p_payout_chain = None, p_hold_until = None,
       p_blocked_reason = None, p_created_at = now, p_updated_at = now \<rparr>"

text \<open>A second payout for the same submission refreshes the split and the hold of the first.\<close>

definition addPayout ::
    "pay_env \<Rightarrow> string \<Rightarrow> int \<Rightarrow> string \<Rightarrow> string \<Rightarrow> int \<Rightarrow> db \<Rightarrow> err + payouts_row option \<times> db" where
  "addPayout env pid now sid wid amount s =
     (let (bps, wallet) = org_fee sid s; hold = hold_of sid now s
      in case pe_fee_bps env of
           Inl e \<Rightarrow> Inl e
         | Inr pw \<Rightarrow>
             (case computePayoutSplitCents amount (of_int bps) pw of
                Inl e \<Rightarrow> Inl e
              | Inr sp \<Rightarrow>
                  (case rat_int pw of
                     Inl e \<Rightarrow> Inl e
                   | Inr pwBps \<Rightarrow>
                       let fill = (\<lambda>p. (set_split sp bps wallet pwBps (pe_fee_wallet env) now p)
                                         \<lparr>p_hold_until := hold\<rparr>);
                           t = insert_do_update (\<lambda>p. p_submission_id p = sid) fill
                                 (fill (new_payout pid sid wid amount now)) (payouts s)
                       in Inr (find (\<lambda>p. p_submission_id p = sid) t, s\<lparr>payouts := t\<rparr>))))"

definition update_payout :: "string \<Rightarrow> (payouts_row \<Rightarrow> payouts_row) \<Rightarrow> db \<Rightarrow> db" where
  "update_payout pid f s = s\<lparr>payouts := update_where (\<lambda>p. p_id p = pid) f (payouts s)\<rparr>"

definition getPayout :: "string \<Rightarrow> db \<Rightarrow> payouts_row option" where
  "getPayout pid s = payout_row pid s"

text \<open>\<open>meta\<close>: \<open>None\<close> leaves a column alone, \<open>Some None\<close> clears it.\<close>

definition markPayoutStatus ::
    "int \<Rightarrow> string \<Rightarrow> payout_status \<Rightarrow> string option option \<Rightarrow> string option option \<Rightarrow> db \<Rightarrow> db" where
  "markPayoutStatus now pid st provider ref =
     update_payout pid (\<lambda>p. p\<lparr>p_status := st, p_updated_at := now,
        p_provider := patched provider (p_provider p), p_provider_ref := patched ref (p_provider_ref p)\<rparr>)"

section \<open>Scheduling of execution\<close>

definition payout_topic :: string where
  "payout_topic = ''payout.requested''"

definition payout_event :: "string \<Rightarrow> outbox_row \<Rightarrow> bool" where
  "payout_event pid = outbox_key payout_topic (''payout:'' @ pid)"

definition nextAttemptAt :: "int option \<Rightarrow> int \<Rightarrow> int" where
  "nextAttemptAt hold now = (case hold of None \<Rightarrow> now | Some h \<Rightarrow> if h > now then h else now)"

text \<open>The event of a payout is reset, or inserted when there is none; \<open>attempts\<close> and \<open>sent\<close> say
  whether the reset clears the attempt counter and the sent time.\<close>

definition requeuePayout ::
    "string \<Rightarrow> int \<Rightarrow> string \<Rightarrow> outbox_payload \<Rightarrow> int \<Rightarrow> bool \<Rightarrow> bool \<Rightarrow> db \<Rightarrow> db" where
  "requeuePayout rid now pid payload nextAt attempts sent s =
     s\<lparr>outbox_events := insert_do_update (payout_event pid)
         (\<lambda>r. r\<lparr>ob_status := ObPending, ob_available_at := nextAt, ob_locked_at := None,
                ob_locked_by := None, ob_last_error := None,
                ob_attempts := (if attempts then 0 else ob_attempts r),
                ob_sent_at := (if sent then None else ob_sent_at r)\<rparr>)
         (new_outbox_row rid payout_topic (Some (''payout:'' @ pid)) payload nextAt now)
         (outbox_events s)\<rparr>"

text \<open>The event is marked sent so that it does not fire.\<close>

definition suppressPayout :: "int \<Rightarrow> string \<Rightarrow> db \<Rightarrow> db" where
  "suppressPayout now pid =
     update_outbox (payout_event pid)
       (\<lambda>r. r\<lparr>ob_status := ObSent, ob_sent_at := Some now, ob_locked_at := None, ob_locked_by := None,
              ob_last_error := None\<rparr>)"

section \<open>Execution\<close>

datatype pay_effect =
    ProviderCall string int string  \<comment> \<open>payout, net cents, worker\<close>
  | Broadcast int string  \<comment> \<open>nonce, calldata\<close>

type_synonym pay_result = "(err option \<times> pay_effect list) \<times> db"

definition zero_address :: string where
  "zero_address = ''0x'' @ replicate 40 CHR ''0''"

definition is_crypto :: "string \<Rightarrow> bool" where
  "is_crypto provider \<longleftrightarrow> provider \<in> {''crypto_base_usdc'', ''crypto_evm_local''}"

text \<open>The reasons for which a payout is not executed now.\<close>

definition payout_parked :: "int \<Rightarrow> payouts_row \<Rightarrow> bool" where
  "payout_parked now p \<longleftrightarrow>
     p_status p = PayoutPaid \<or> truthy (p_blocked_reason p) \<or>
     (case p_hold_until p of None \<Rightarrow> False | Some h \<Rightarrow> h > now)"

text \<open>\<open>MockProvider\<close> and \<open>HttpProvider\<close>; the boolean says whether the status is \<open>paid\<close>.\<close>

definition createProviderPayout ::
    "pay_env \<Rightarrow> string \<Rightarrow> int \<Rightarrow> string \<Rightarrow> err + string \<times> string \<times> bool" where
  "createProviderPayout env pid cents wid =
     (if pe_provider env = ''mock'' then Inr (''mock'', ''mock_'' @ pid, True)
      else case pe_http env pid cents wid of
          Inl e \<Rightarrow> Inl e
        | Inr (prov, ref, st) \<Rightarrow>
            if \<not> truthy prov \<or> \<not> truthy ref \<or> st \<notin> {''paid'', ''failed''}
            then Inl (OtherError ''payment_provider_invalid_response'')
            else Inr (the prov, the ref, st = ''paid''))"

definition getPaymentProvider :: "pay_env \<Rightarrow> err + unit" where
  "getPaymentProvider env =
     (if pe_provider env = ''mock'' then Inr ()
      else if pe_provider env = ''http'' then
        (if truthy (pe_http_url env) then Inr ()
         else Inl (OtherError ''PAYMENTS_PROVIDER_URL is required when PAYMENTS_PROVIDER=http''))
      else Inl (OtherError ''Unsupported PAYMENTS_PROVIDER''))"

definition payByProvider ::
    "pay_env \<Rightarrow> int \<Rightarrow> payouts_row \<Rightarrow> payout_split \<Rightarrow> int \<Rightarrow> string option \<Rightarrow> rat \<Rightarrow> db \<Rightarrow> pay_result" where
  "payByProvider env now p sp bps wallet pw s =
     (case getPaymentProvider env of
        Inl e \<Rightarrow> ((Some e, []), s)
      | Inr _ \<Rightarrow>
          (case rat_int pw of
             Inl e \<Rightarrow> ((Some e, []), s)
           | Inr pwBps \<Rightarrow>
               let s1 = update_payout (p_id p)
                          (set_split sp bps wallet pwBps (pe_fee_wallet env) now) s;
                   call = ProviderCall (p_id p) (netCents sp) (p_worker_id p)
               in case createProviderPayout env (p_id p) (netCents sp) (p_worker_id p) of
                    Inl e \<Rightarrow> ((Some e, [call]), s1)
                  | Inr (prov, ref, paid) \<Rightarrow>
                      ((None, [call]),
                       markPayoutStatus now (p_id p) (if paid then PayoutPaid else PayoutFailed)
                         (Some (Some prov)) (Some (Some ref)) s1)))"

definition upsert_transfer ::
    "string \<Rightarrow> int \<Rightarrow> string \<Rightarrow> string \<Rightarrow> int \<Rightarrow> string \<Rightarrow> string \<Rightarrow> int \<Rightarrow> string \<Rightarrow> int \<Rightarrow> db \<Rightarrow> db" where
  "upsert_transfer rid now pid kind chain from_addr to_addr units txHash nonce s =
     s\<lparr>payout_transfers := insert_do_update (\<lambda>t. pt_payout_id t = pid \<and> pt_kind t = kind)
         (\<lambda>t. t\<lparr>pt_tx_hash := Some txHash, pt_tx_nonce := Some nonce, pt_status := TrBroadcast,
                pt_broadcast_at := Some now\<rparr>)
         \<lparr> pt_id = rid, pt_payout_id = pid, pt_kind = kind, pt_chain_id = chain,
           pt_from_address = from_addr, pt_to_address = to_addr, pt_token = ''usdc'',
           pt_amount_base_units = units, pt_tx_hash = Some txHash, pt_tx_nonce = Some nonce,
           pt_status = TrBroadcast, pt_broadcast_at = Some now, pt_confirmed_at = None,
           pt_failure_reason = None, pt_created_at = now \<rparr> (payout_transfers s)\<rparr>"

definition choose_nonce :: "int option \<Rightarrow> int \<Rightarrow> int" where
  "choose_nonce stored chainPending =
     (case stored of
        None \<Rightarrow> chainPending
      | Some n \<Rightarrow> if n > chainPending then chainPending else if n < chainPending then chainPending else n)"

definition stored_nonce :: "int \<Rightarrow> string \<Rightarrow> db \<Rightarrow> int option" where
  "stored_nonce chain from_addr s =
     map_option cn_next_nonce
       (find (\<lambda>r. cn_chain_id r = chain \<and> cn_from_address r = from_addr) (crypto_nonces s))"

definition save_nonce :: "int \<Rightarrow> int \<Rightarrow> string \<Rightarrow> int \<Rightarrow> db \<Rightarrow> db" where
  "save_nonce now chain from_addr next_n s =
     s\<lparr>crypto_nonces := insert_do_update (\<lambda>r. cn_chain_id r = chain \<and> cn_from_address r = from_addr)
         (\<lambda>r. r\<lparr>cn_next_nonce := next_n, cn_updated_at := now\<rparr>)
         \<lparr> cn_chain_id = chain, cn_from_address = from_addr, cn_next_nonce = next_n,
           cn_updated_at = now \<rparr> (crypto_nonces s)\<rparr>"

text \<open>What the transaction stores once the payment has been broadcast.\<close>

definition record_broadcast ::
    "pay_env \<Rightarrow> (nat \<Rightarrow> string) \<Rightarrow> int \<Rightarrow> payouts_row \<Rightarrow> payout_split \<Rightarrow> int \<Rightarrow> string option \<Rightarrow> int \<Rightarrow>
     string \<Rightarrow> string \<Rightarrow> string \<Rightarrow> int \<Rightarrow> string \<Rightarrow> db \<Rightarrow> db" where
  "record_broadcast env gen now p sp bps wallet pwBps pwWallet workerAddr from_addr nonce txHash s =
     (let pid = p_id p; chain = pe_chain_id env;
          leg = (\<lambda>rid kind to_addr cents.
                   upsert_transfer rid now pid kind chain from_addr to_addr (cents * 10000) txHash nonce);
          s1 = save_nonce now chain from_addr (nonce + 1) s;
          s2 = update_payout pid
                 (\<lambda>q. (set_split sp bps wallet pwBps (Some pwWallet) now q)
                    \<lparr>p_provider := Some (pe_provider env), p_provider_ref := Some txHash,
                     p_payout_chain := Some ''base''\<rparr>) s1;
          s3 = leg (gen 0) ''net'' workerAddr (netCents sp) s2;
          s4 = (if platformFeeCents sp > 0
                then leg (gen 1) ''platform_fee'' (the wallet) (platformFeeCents sp) s3 else s3);
          s5 = (if proofworkFeeCents sp > 0
                then leg (gen 2) ''proofwork_fee'' pwWallet (proofworkFeeCents sp) s4 else s4)
      in enqueueOutbox (gen 3) now ''payout.confirm.requested'' (PlPayoutConfirm pid)
           (Some (now + 30000)) (Some (''payout_confirm:'' @ pid)) s5)"

definition splitter_call_of ::
    "pay_env \<Rightarrow> payout_split \<Rightarrow> string option \<Rightarrow> string \<Rightarrow> string \<Rightarrow> splitter_call" where
  "splitter_call_of env sp wallet pwWallet workerAddr =
     \<lparr> sc_token = pe_usdc env, sc_worker = workerAddr,
       sc_platform = (if platformFeeCents sp > 0 then the wallet else zero_address),
       sc_proofwork = pwWallet, sc_net = nat (netCents sp) * 10000,
       sc_platform_fee = nat (platformFeeCents sp) * 10000,
       sc_proofwork_fee = nat (proofworkFeeCents sp) * 10000 \<rparr>"

definition worker_address :: "string \<Rightarrow> db \<Rightarrow> string option" where
  "worker_address wid s =
     (case find (\<lambda>w. wk_id w = wid) (workers s) of
        None \<Rightarrow> None
      | Some w \<Rightarrow>
          if truthy (wk_payout_address w) \<and> wk_payout_chain w = Some ''base''
             \<and> wk_payout_address_verified_at w \<noteq> None
          then wk_payout_address w else None)"

text \<open>The transaction: nonce, broadcast, records. An error after the broadcast rolls the store
  back, not the broadcast.\<close>

definition broadcastPayout ::
    "pay_env \<Rightarrow> (nat \<Rightarrow> string) \<Rightarrow> int \<Rightarrow> payouts_row \<Rightarrow> payout_split \<Rightarrow> int \<Rightarrow> string option \<Rightarrow> rat \<Rightarrow>
     string \<Rightarrow> string \<Rightarrow> string \<Rightarrow> string \<Rightarrow> db \<Rightarrow> pay_result" where
  "broadcastPayout env gen now p sp bps wallet pw pwWallet workerAddr from_addr data s =
     (case pe_gas env of
        Inl e \<Rightarrow> ((Some e, []), s)
      | Inr _ \<Rightarrow>
          (case pe_pending_nonce env of
             Inl e \<Rightarrow> ((Some e, []), s)
           | Inr pending \<Rightarrow>
               let nonce = choose_nonce (stored_nonce (pe_chain_id env) from_addr s) pending
               in case pe_broadcast env nonce data of
                    Inl e \<Rightarrow> ((Some e, []), s)
                  | Inr txHash \<Rightarrow>
                      (case rat_int pw of
                         Inl e \<Rightarrow> ((Some e, [Broadcast nonce data]), s)
                       | Inr pwBps \<Rightarrow>
                           ((None, [Broadcast nonce data]),
                            record_broadcast env gen now p sp bps wallet pwBps pwWallet workerAddr
                              from_addr nonce txHash s))))"

definition payOnChain ::
    "pay_env \<Rightarrow> (nat \<Rightarrow> string) \<Rightarrow> int \<Rightarrow> payouts_row \<Rightarrow> payout_split \<Rightarrow> int \<Rightarrow> string option \<Rightarrow> rat \<Rightarrow> db \<Rightarrow>
     pay_result" where
  "payOnChain env gen now p sp bps wallet pw s =
     (if \<not> truthy (pe_fee_wallet env) then ((Some FeeWalletNotConfigured, []), s)
      else case pe_signer_config env of
          Inl e \<Rightarrow> ((Some e, []), s)
        | Inr _ \<Rightarrow>
            (case worker_address (p_worker_id p) s of
               None \<Rightarrow>
                 ((None, []),
                  s\<lparr>payouts := update_where (\<lambda>q. p_id q = p_id p \<and> p_status q = PayoutPending)
                      (\<lambda>q. q\<lparr>p_blocked_reason := Some ''worker_payout_address_missing'', p_updated_at := now\<rparr>)
                      (payouts s)\<rparr>)
             | Some workerAddr \<Rightarrow>
                 let pwWallet = the (pe_fee_wallet env);
                     data = encodePayoutSplitterCallV2 (pe_selector env)
                              (splitter_call_of env sp wallet pwWallet workerAddr)
                 in (case pe_signer env of
                       Inl e \<Rightarrow> ((Some e, []), s)
                     | Inr from_addr \<Rightarrow> broadcastPayout env gen now p sp bps wallet pw pwWallet workerAddr from_addr data s)))"

definition handlePayoutRequested :: "pay_env \<Rightarrow> (nat \<Rightarrow> string) \<Rightarrow> int \<Rightarrow> string \<Rightarrow> db \<Rightarrow> pay_result" where
  "handlePayoutRequested env gen now pid s =
     (if pid = [] then ((Some MissingPayoutId, []), s)
      else case getPayout pid s of
          None \<Rightarrow> ((Some PayoutNotFound, []), s)
        | Some p \<Rightarrow>
            if payout_parked now p then ((None, []), s)
            else
              let (bps, wallet) = org_fee (p_submission_id p) s
              in if bps < 0 \<or> bps > 10000 then ((Some InvalidPlatformFeeBps, []), s)
                 else if bps > 0 \<and> \<not> truthy wallet then ((Some PlatformFeeWalletMissing, []), s)
                 else (case pe_fee_bps env of
                     Inl e \<Rightarrow> ((Some e, []), s)
                   | Inr pw \<Rightarrow>
                       (case computePayoutSplitCents (p_amount_cents p) (of_int bps) pw of
                          Inl e \<Rightarrow> ((Some e, []), s)
                        | Inr sp \<Rightarrow>
                            if is_crypto (pe_provider env)
                            then payOnChain env gen now p sp bps wallet pw s
                            else payByProvider env now p sp bps wallet pw s)))"

section \<open>Confirmation\<close>

definition handlePayoutConfirmRequested :: "pay_env \<Rightarrow> int \<Rightarrow> string \<Rightarrow> db \<Rightarrow> err option \<times> db" where
  "handlePayoutConfirmRequested env now pid s =
     (if pid = [] then (Some MissingPayoutId, s)
      else case getPayout pid s of
          None \<Rightarrow> (Some PayoutNotFound, s)
        | Some p \<Rightarrow>
            if p_status p = PayoutPaid \<or> p_status p = PayoutFailed then (None, s)
            else
              let provider = (case p_provider p of None \<Rightarrow> ''crypto_base_usdc'' | Some x \<Rightarrow> x);
                  transfers = filter (\<lambda>t. pt_payout_id t = pid) (payout_transfers s);
                  set_legs = (\<lambda>f. s\<lparr>payout_transfers :=
                                update_where (\<lambda>t. pt_payout_id t = pid) f (payout_transfers s)\<rparr>);
                  finish = (\<lambda>st ref. markPayoutStatus now pid st (Some (Some provider)) (Some ref))
              in case transfers of
                   [] \<Rightarrow> (Some PayoutTransfersMissing, s)
                 | t # _ \<Rightarrow>
                     if list_all (\<lambda>t. pt_status t = TrConfirmed) transfers
                     then (None, finish PayoutPaid (pt_tx_hash t) s)
                     else (case pt_tx_hash t of
                         None \<Rightarrow> (Some TxHashMissing, s)
                       | Some txHash \<Rightarrow>
                           if txHash = [] then (Some TxHashMissing, s)
                           else (case pe_receipt env txHash of
                               Inl e \<Rightarrow> (Some e, s)
                             | Inr None \<Rightarrow> (Some TxReceiptPending, s)
                             | Inr (Some (st, block)) \<Rightarrow>
                                 if st = ''0x0'' then
                                   (None, finish PayoutFailed (Some txHash)
                                     (set_legs (\<lambda>t. t\<lparr>pt_status := TrFailed,
                                        pt_failure_reason := Some ''tx_reverted'', pt_confirmed_at := Some now\<rparr>)))
                                 else (case pe_latest_block env of
                                     Inl e \<Rightarrow> (Some e, s)
                                   | Inr latest \<Rightarrow>
                                       let conf = (if latest \<ge> block then latest - block + 1 else 0)
                                       in if conf < pe_confirmations env
                                          then (Some TxNotEnoughConfirmations, s)
                                          else (None, finish PayoutPaid (Some txHash)
                                            (set_legs (\<lambda>t. t\<lparr>pt_status := TrConfirmed,
                                               pt_confirmed_at := Some now\<rparr>)))))))"

section \<open>Admin and worker routes\<close>

definition admin_payout_retry ::
    "(nat \<Rightarrow> string) \<Rightarrow> int \<Rightarrow> string \<Rightarrow> db \<Rightarrow> unit response \<times> db" where
  "admin_payout_retry gen now pid s =
     (case getPayout pid s of
        None \<Rightarrow> (Reject 404 ''not_found'', s)
      | Some p \<Rightarrow>
          if p_status p = PayoutPaid \<or> p_status p = PayoutRefunded \<or> truthy (p_blocked_reason p)
          then (Reject 409 ''conflict'', s)
          else
            let s1 = markPayoutStatus now pid PayoutPending (Some None) (Some None) s;
                s2 = requeuePayout (gen 0) now pid
                       (PlPayout pid (Some (p_submission_id p)) (p_worker_id p))
                       (nextAttemptAt (p_hold_until p) now) True True s1
            in (Ok (), writeAuditEvent (gen 1) now ''admin_token'' None ''payout.retry'' ''payout'' pid s2))"

definition set_sub_payout_status :: "string \<Rightarrow> sub_payout_status \<Rightarrow> db \<Rightarrow> db" where
  "set_sub_payout_status sid st s =
     s\<lparr>submissions := update_where (\<lambda>r. s_id r = sid) (\<lambda>r. r\<lparr>s_payout_status := Some st\<rparr>) (submissions s)\<rparr>"

definition admin_payout_mark ::
    "(nat \<Rightarrow> string) \<Rightarrow> int \<Rightarrow> string \<Rightarrow> payout_status \<Rightarrow> string option \<Rightarrow> string option \<Rightarrow> string \<Rightarrow> db \<Rightarrow>
     unit response \<times> db" where
  "admin_payout_mark gen now pid st provider ref reason s =
     (case getPayout pid s of
        None \<Rightarrow> (Reject 404 ''not_found'', s)
      | Some p \<Rightarrow>
          if st = PayoutPending \<or> trim reason = [] then (Reject 400 ''invalid'', s)
          else
            let prov = (case provider of None \<Rightarrow> ''manual'' | Some x \<Rightarrow> x);
                s1 = markPayoutStatus now pid st (Some (Some prov)) (Some ref) s;
                s2 = suppressPayout now pid s1;
                s3 = set_sub_payout_status (p_submission_id p)
                       (if st = PayoutPaid then PayPaid else if st = PayoutFailed then PayFailed
                        else PayReversed) s2
            in (Ok (), writeAuditEvent (gen 0) now ''admin_token'' None ''payout.mark_status'' ''payout'' pid s3))"

text \<open>\<open>POST /api/worker/payout-address\<close>. \<open>getAddress\<close> (checksum normalisation) and the signature
  recovery are the wallet library's. The payouts that waited for the address are released and
  scheduled, in the order the update returns them.\<close>

definition waiting_for_address :: "string \<Rightarrow> payouts_row \<Rightarrow> bool" where
  "waiting_for_address wid p \<longleftrightarrow>
     p_worker_id p = wid \<and> p_status p = PayoutPending \<and>
     p_blocked_reason p = Some ''worker_payout_address_missing''"

fun requeue_all :: "(nat \<Rightarrow> string) \<Rightarrow> nat \<Rightarrow> int \<Rightarrow> string \<Rightarrow> payouts_row list \<Rightarrow> db \<Rightarrow> db" where
  "requeue_all gen i now wid [] s = s"
| "requeue_all gen i now wid (p # ps) s =
     requeue_all gen (Suc i) now wid ps
       (requeuePayout (gen i) now (p_id p) (PlPayout (p_id p) None wid)
          (nextAttemptAt (p_hold_until p) now) True True s)"

definition worker_set_payout_address ::
    "(string \<Rightarrow> string option) \<Rightarrow> (string \<Rightarrow> string \<Rightarrow> string option) \<Rightarrow> (nat \<Rightarrow> string) \<Rightarrow> int \<Rightarrow> string \<Rightarrow>
     string \<Rightarrow> string \<Rightarrow> string \<Rightarrow> db \<Rightarrow> nat response \<times> db" where
  "worker_set_payout_address getAddress recover gen now wid chain address signature s =
     (if chain \<noteq> ''base'' then (Reject 400 ''invalid'', s)
      else case getAddress address of
          None \<Rightarrow> (Reject 400 ''invalid'', s)
        | Some normalized \<Rightarrow>
            let msg = ''Proofwork payout address verification'' @ [CHR 0x0A] @ ''workerId='' @ wid @
                      [CHR 0x0A] @ ''chain='' @ chain @ [CHR 0x0A] @ ''address='' @ normalized
            in (case Option.bind (recover msg signature) getAddress of
                  None \<Rightarrow> (Reject 400 ''invalid'', s)
                | Some recovered \<Rightarrow>
                    if toLowerCase recovered \<noteq> toLowerCase normalized then (Reject 400 ''invalid'', s)
                    else
                      let s1 = s\<lparr>workers := update_where (\<lambda>w. wk_id w = wid)
                            (\<lambda>w. w\<lparr>wk_payout_chain := Some chain, wk_payout_address := Some normalized,
                                   wk_payout_address_verified_at := Some now,
                                   wk_payout_address_proof := Some (JObj [(''message'', JStr msg),
                                     (''signature'', JStr signature), (''recovered'', JStr recovered)])\<rparr>)
                            (workers s)\<rparr>;
                          s2 = writeAuditEvent (gen 0) now ''worker'' (Some wid) ''worker.payout_address.set''
                                 ''worker'' wid s1;
                          waiting = filter (waiting_for_address wid) (payouts s2);
                          s3 = s2\<lparr>payouts := update_where (waiting_for_address wid)
                                 (\<lambda>p. p\<lparr>p_blocked_reason := None, p_updated_at := now\<rparr>) (payouts s2)\<rparr>;
                          s4 = requeue_all gen 2 now wid waiting s3;
                          s5 = (if waiting = [] then s4
                                else writeAuditEvent (gen 1) now ''worker'' (Some wid)
                                       ''payout.unblock_on_payout_address_set'' ''worker'' wid s4)
                      in (Ok (length waiting), s5)))"

section \<open>Listings\<close>

definition listPayouts :: "db \<Rightarrow> payouts_row list" where
  "listPayouts s = order_desc p_created_at (payouts s)"

record payout_view =
  pv_payout :: payouts_row
  pv_orgId :: string
  pv_bountyId :: string
  pv_bountyTitle :: string
  pv_jobId :: string
  pv_workerDisplayName :: "string option"
  pv_taskType :: "string option"

text \<open>The joined row; payouts whose submission, job or bounty is missing drop out of the join.\<close>

definition payout_view_of :: "db \<Rightarrow> payouts_row \<Rightarrow> payout_view option" where
  "payout_view_of s p =
     (case sub_job (p_submission_id p) s of
        None \<Rightarrow> None
      | Some j \<Rightarrow>
          (case bounty_row (j_bounty_id j) s of
             None \<Rightarrow> None
           | Some b \<Rightarrow>
               Some \<lparr> pv_payout = p, pv_orgId = b_org_id b, pv_bountyId = b_id b,
                      pv_bountyTitle = b_title b, pv_jobId = j_id j,
                      pv_workerDisplayName = Option.bind (find (\<lambda>w. wk_id w = p_worker_id p) (workers s))
                                               wk_display_name,
                      pv_taskType = map_option td_type (j_task_descriptor j) \<rparr>))"

definition payout_views :: "db \<Rightarrow> (payout_view \<Rightarrow> bool) \<Rightarrow> payout_view list" where
  "payout_views s Q =
     order_desc (\<lambda>v. p_created_at (pv_payout v)) (filter Q (List.map_filter (payout_view_of s) (payouts s)))"

definition listPayoutsByOrg ::
    "string \<Rightarrow> nat option \<Rightarrow> nat option \<Rightarrow> payout_status option \<Rightarrow> string option \<Rightarrow> db \<Rightarrow>
     payout_view list \<times> nat" where
  "listPayoutsByOrg org page limit status taskType s =
     paginate page limit (payout_views s (\<lambda>v. pv_orgId v = org \<and>
       (case status of None \<Rightarrow> True | Some st \<Rightarrow> p_status (pv_payout v) = st) \<and>
       (truthy taskType \<longrightarrow> pv_taskType v = taskType)))"

definition listPayoutsByWorker ::
    "string \<Rightarrow> nat option \<Rightarrow> nat option \<Rightarrow> payout_status option \<Rightarrow> db \<Rightarrow> payout_view list \<times> nat" where
  "listPayoutsByWorker wid page limit status s =
     paginate page limit (map (\<lambda>v. v\<lparr>pv_workerDisplayName := None\<rparr>)
       (payout_views s (\<lambda>v. p_worker_id (pv_payout v) = wid \<and>
       (case status of None \<Rightarrow> True | Some st \<Rightarrow> p_status (pv_payout v) = st))))"

definition listPayoutsAdmin ::
    "nat option \<Rightarrow> nat option \<Rightarrow> payout_status option \<Rightarrow> string option \<Rightarrow> db \<Rightarrow> payout_view list \<times> nat" where
  "listPayoutsAdmin page limit status org s =
     paginate page limit (payout_views s (\<lambda>v. (truthy org \<longrightarrow> Some (pv_orgId v) = org) \<and>
       (case status of None \<Rightarrow> True | Some st \<Rightarrow> p_status (pv_payout v) = st)))"

record earnings =
  ea_paidCount :: nat
  ea_grossPaidCents :: int
  ea_netPaidCents :: int
  ea_platformFeeCents :: int
  ea_proofworkFeeCents :: int

definition zero_if_null :: "int option \<Rightarrow> int" where
  "zero_if_null x = (case x of None \<Rightarrow> 0 | Some n \<Rightarrow> n)"

definition earnings_of :: "payouts_row list \<Rightarrow> earnings" where
  "earnings_of ps =
     (let paid = (\<lambda>p. p_status p = PayoutPaid)
      in \<lparr> ea_paidCount = count_where paid ps, ea_grossPaidCents = sum_where paid p_amount_cents ps,
           ea_netPaidCents = sum_where paid (\<lambda>p. zero_if_null (p_net_amount_cents p)) ps,
           ea_platformFeeCents = sum_where paid (\<lambda>p. zero_if_null (p_platform_fee_cents p)) ps,
           ea_proofworkFeeCents = sum_where paid (\<lambda>p. zero_if_null (p_proofwork_fee_cents p)) ps \<rparr>)"

text \<open>The totals, the counts of pending, failed and refunded payouts, and the totals per task type
  with the highest gross first.\<close>

definition getOrgEarningsSummary ::
    "string \<Rightarrow> db \<Rightarrow> earnings \<times> (nat \<times> nat \<times> nat) \<times> (string option \<times> earnings) list" where
  "getOrgEarningsSummary org s =
     (let views = filter (\<lambda>v. pv_orgId v = org) (List.map_filter (payout_view_of s) (payouts s));
          ps = map pv_payout views;
          count = (\<lambda>st. count_where (\<lambda>p. p_status p = st) ps);
          per = map (\<lambda>ty. (ty, earnings_of (map pv_payout (filter (\<lambda>v. pv_taskType v = ty) views))))
                  (remdups (map pv_taskType views))
      in (earnings_of ps, (count PayoutPending, count PayoutFailed, count PayoutRefunded),
          order_desc (\<lambda>x. ea_grossPaidCents (snd x)) per))"

section \<open>Frames\<close>

lemma enqueueOutbox_tables:
  "\<exists>t. enqueueOutbox rid now topic pl av k s = s\<lparr>outbox_events := t\<rparr>"
  by (rule outbox_frame)

lemma update_payout_frame [simp]:
    "workers (update_payout p f s) = workers s"
    "orgs (update_payout p f s) = orgs s"
    "bounties (update_payout p f s) = bounties s"
    "jobs (update_payout p f s) = jobs s"
    "submissions (update_payout p f s) = submissions s"
    "verifications (update_payout p f s) = verifications s"
    "billing_accounts (update_payout p f s) = billing_accounts s"
    "billing_events (update_payout p f s) = billing_events s"
    "reservations (update_payout p f s) = reservations s"
    "disputes (update_payout p f s) = disputes s"
    "outbox_events (update_payout p f s) = outbox_events s"
    "payout_transfers (update_payout p f s) = payout_transfers s"
    "crypto_nonces (update_payout p f s) = crypto_nonces s"
    "accepted_dedupe (update_payout p f s) = accepted_dedupe s"
    "dispute_row did (update_payout p f s) = dispute_row did s"
    "bounty_row bid (update_payout p f s) = bounty_row bid s"
    "job_row jid (update_payout p f s) = job_row jid s"
    "sub_row sid (update_payout p f s) = sub_row sid s"
    "org_row oid (update_payout p f s) = org_row oid s"
    "sub_job x (update_payout p f s) = sub_job x s"
    "sub_bounty x (update_payout p f s) = sub_bounty x s"
    "sub_org x (update_payout p f s) = sub_org x s"
    "same_ledger s0 (update_payout p f s) = same_ledger s0 s"
  by (simp_all add: update_payout_def row_lookups sub_job_def sub_bounty_def sub_org_def same_ledger_def)

lemma update_outbox_frame [simp]:
    "workers (update_outbox P f s) = workers s"
    "orgs (update_outbox P f s) = orgs s"
    "bounties (update_outbox P f s) = bounties s"
    "jobs (update_outbox P f s) = jobs s"
    "submissions (update_outbox P f s) = submissions s"
    "verifications (update_outbox P f s) = verifications s"
    "payouts (update_outbox P f s) = payouts s"
    "billing_accounts (update_outbox P f s) = billing_accounts s"
    "billing_events (update_outbox P f s) = billing_events s"
    "reservations (update_outbox P f s) = reservations s"
    "disputes (update_outbox P f s) = disputes s"
    "payout_transfers (update_outbox P f s) = payout_transfers s"
    "crypto_nonces (update_outbox P f s) = crypto_nonces s"
    "accepted_dedupe (update_outbox P f s) = accepted_dedupe s"
    "payout_row pid (update_outbox P f s) = payout_row pid s"
    "dispute_row did (update_outbox P f s) = dispute_row did s"
    "bounty_row bid (update_outbox P f s) = bounty_row bid s"
    "job_row jid (update_outbox P f s) = job_row jid s"
    "sub_row sid (update_outbox P f s) = sub_row sid s"
    "org_row oid (update_outbox P f s) = org_row oid s"
    "sub_job x (update_outbox P f s) = sub_job x s"
    "sub_bounty x (update_outbox P f s) = sub_bounty x s"
    "sub_org x (update_outbox P f s) = sub_org x s"
    "same_ledger s0 (update_outbox P f s) = same_ledger s0 s"
  by (simp_all add: update_outbox_def row_lookups sub_job_def sub_bounty_def sub_org_def same_ledger_def)

lemma suppressPayout_frame [simp]:
    "workers (suppressPayout now p s) = workers s"
    "orgs (suppressPayout now p s) = orgs s"
    "bounties (suppressPayout now p s) = bounties s"
    "jobs (suppressPayout now p s) = jobs s"
    "submissions (suppressPayout now p s) = submissions s"
    "verifications (suppressPayout now p s) = verifications s"
    "payouts (suppressPayout now p s) = payouts s"
    "billing_accounts (suppressPayout now p s) = billing_accounts s"
    "billing_events (suppressPayout now p s) = billing_events s"
    "reservations (suppressPayout now p s) = reservations s"
    "disputes (suppressPayout now p s) = disputes s"
    "payout_transfers (suppressPayout now p s) = payout_transfers s"
    "crypto_nonces (suppressPayout now p s) = crypto_nonces s"
    "accepted_dedupe (suppressPayout now p s) = accepted_dedupe s"
    "payout_row pid (suppressPayout now p s) = payout_row pid s"
    "dispute_row did (suppressPayout now p s) = dispute_row did s"
    "bounty_row bid (suppressPayout now p s) = bounty_row bid s"
    "job_row jid (suppressPayout now p s) = job_row jid s"
    "sub_row sid (suppressPayout now p s) = sub_row sid s"
    "org_row oid (suppressPayout now p s) = org_row oid s"
    "sub_job x (suppressPayout now p s) = sub_job x s"
    "sub_bounty x (suppressPayout now p s) = sub_bounty x s"
    "sub_org x (suppressPayout now p s) = sub_org x s"
    "same_ledger s0 (suppressPayout now p s) = same_ledger s0 s"
  by (simp_all add: suppressPayout_def update_outbox_def row_lookups sub_job_def sub_bounty_def sub_org_def same_ledger_def)

lemma requeuePayout_frame [simp]:
    "workers (requeuePayout rid now p pl av a b s) = workers s"
    "orgs (requeuePayout rid now p pl av a b s) = orgs s"
    "bounties (requeuePayout rid now p pl av a b s) = bounties s"
    "jobs (requeuePayout rid now p pl av a b s) = jobs s"
    "submissions (requeuePayout rid now p pl av a b s) = submissions s"
    "verifications (requeuePayout rid now p pl av a b s) = verifications s"
    "payouts (requeuePayout rid now p pl av a b s) = payouts s"
    "billing_accounts (requeuePayout rid now p pl av a b s) = billing_accounts s"
    "billing_events (requeuePayout rid now p pl av a b s) = billing_events s"
    "reservations (requeuePayout rid now p pl av a b s) = reservations s"
    "disputes (requeuePayout rid now p pl av a b s) = disputes s"
    "payout_transfers (requeuePayout rid now p pl av a b s) = payout_transfers s"
    "crypto_nonces (requeuePayout rid now p pl av a b s) = crypto_nonces s"
    "accepted_dedupe (requeuePayout rid now p pl av a b s) = accepted_dedupe s"
    "payout_row pid (requeuePayout rid now p pl av a b s) = payout_row pid s"
    "dispute_row did (requeuePayout rid now p pl av a b s) = dispute_row did s"
    "bounty_row bid (requeuePayout rid now p pl av a b s) = bounty_row bid s"
    "job_row jid (requeuePayout rid now p pl av a b s) = job_row jid s"
    "sub_row sid (requeuePayout rid now p pl av a b s) = sub_row sid s"
    "org_row oid (requeuePayout rid now p pl av a b s) = org_row oid s"
    "sub_job x (requeuePayout rid now p pl av a b s) = sub_job x s"
    "sub_bounty x (requeuePayout rid now p pl av a b s) = sub_bounty x s"
    "sub_org x (requeuePayout rid now p pl av a b s) = sub_org x s"
    "same_ledger s0 (requeuePayout rid now p pl av a b s) = same_ledger s0 s"
  by (simp_all add: requeuePayout_def row_lookups sub_job_def sub_bounty_def sub_org_def same_ledger_def)

lemma enqueueOutbox_frame [simp]:
    "workers (enqueueOutbox rid now topic pl av k s) = workers s"
    "orgs (enqueueOutbox rid now topic pl av k s) = orgs s"
    "bounties (enqueueOutbox rid now topic pl av k s) = bounties s"
    "jobs (enqueueOutbox rid now topic pl av k s) = jobs s"
    "submissions (enqueueOutbox rid now topic pl av k s) = submissions s"
    "verifications (enqueueOutbox rid now topic pl av k s) = verifications s"
    "payouts (enqueueOutbox rid now topic pl av k s) = payouts s"
    "billing_accounts (enqueueOutbox rid now topic pl av k s) = billing_accounts s"
    "billing_events (enqueueOutbox rid now topic pl av k s) = billing_events s"
    "reservations (enqueueOutbox rid now topic pl av k s) = reservations s"
    "disputes (enqueueOutbox rid now topic pl av k s) = disputes s"
    "payout_transfers (enqueueOutbox rid now topic pl av k s) = payout_transfers s"
    "crypto_nonces (enqueueOutbox rid now topic pl av k s) = crypto_nonces s"
    "accepted_dedupe (enqueueOutbox rid now topic pl av k s) = accepted_dedupe s"
    "payout_row pid (enqueueOutbox rid now topic pl av k s) = payout_row pid s"
    "dispute_row did (enqueueOutbox rid now topic pl av k s) = dispute_row did s"
    "bounty_row bid (enqueueOutbox rid now topic pl av k s) = bounty_row bid s"
    "job_row jid (enqueueOutbox rid now topic pl av k s) = job_row jid s"
    "sub_row sid (enqueueOutbox rid now topic pl av k s) = sub_row sid s"
    "org_row oid (enqueueOutbox rid now topic pl av k s) = org_row oid s"
    "sub_job x (enqueueOutbox rid now topic pl av k s) = sub_job x s"
    "sub_bounty x (enqueueOutbox rid now topic pl av k s) = sub_bounty x s"
    "sub_org x (enqueueOutbox rid now topic pl av k s) = sub_org x s"
    "same_ledger s0 (enqueueOutbox rid now topic pl av k s) = same_ledger s0 s"
  by (use enqueueOutbox_tables [of rid now topic pl av k s] in \<open>auto simp: row_lookups sub_job_def sub_bounty_def sub_org_def same_ledger_def\<close>)

lemma writeAuditEvent_frame [simp]:
    "workers (writeAuditEvent rid now a b c d e s) = workers s"
    "orgs (writeAuditEvent rid now a b c d e s) = orgs s"
    "bounties (writeAuditEvent rid now a b c d e s) = bounties s"
    "jobs (writeAuditEvent rid now a b c d e s) = jobs s"
    "submissions (writeAuditEvent rid now a b c d e s) = submissions s"
    "verifications (writeAuditEvent rid now a b c d e s) = verifications s"
    "payouts (writeAuditEvent rid now a b c d e s) = payouts s"
    "billing_accounts (writeAuditEvent rid now a b c d e s) = billing_accounts s"
    "billing_events (writeAuditEvent rid now a b c d e s) = billing_events s"
    "reservations (writeAuditEvent rid now a b c d e s) = reservations s"
    "disputes (writeAuditEvent rid now a b c d e s) = disputes s"
    "outbox_events (writeAuditEvent rid now a b c d e s) = outbox_events s"
    "payout_transfers (writeAuditEvent rid now a b c d e s) = payout_transfers s"
    "crypto_nonces (writeAuditEvent rid now a b c d e s) = crypto_nonces s"
    "accepted_dedupe (writeAuditEvent rid now a b c d e s) = accepted_dedupe s"
    "payout_row pid (writeAuditEvent rid now a b c d e s) = payout_row pid s"
    "dispute_row did (writeAuditEvent rid now a b c d e s) = dispute_row did s"
    "bounty_row bid (writeAuditEvent rid now a b c d e s) = bounty_row bid s"
    "job_row jid (writeAuditEvent rid now a b c d e s) = job_row jid s"
    "sub_row sid (writeAuditEvent rid now a b c d e s) = sub_row sid s"
    "org_row oid (writeAuditEvent rid now a b c d e s) = org_row oid s"
    "sub_job x (writeAuditEvent rid now a b c d e s) = sub_job x s"
    "sub_bounty x (writeAuditEvent rid now a b c d e s) = sub_bounty x s"
    "sub_org x (writeAuditEvent rid now a b c d e s) = sub_org x s"
    "same_ledger s0 (writeAuditEvent rid now a b c d e s) = same_ledger s0 s"
  by (simp_all add: writeAuditEvent_def row_lookups sub_job_def sub_bounty_def sub_org_def same_ledger_def)

lemma sub_payout_status_frame [simp]:
    "workers (set_sub_payout_status x st s) = workers s"
    "orgs (set_sub_payout_status x st s) = orgs s"
    "bounties (set_sub_payout_status x st s) = bounties s"
    "jobs (set_sub_payout_status x st s) = jobs s"
    "verifications (set_sub_payout_status x st s) = verifications s"
    "payouts (set_sub_payout_status x st s) = payouts s"
    "billing_accounts (set_sub_payout_status x st s) = billing_accounts s"
    "billing_events (set_sub_payout_status x st s) = billing_events s"
    "reservations (set_sub_payout_status x st s) = reservations s"
    "disputes (set_sub_payout_status x st s) = disputes s"
    "outbox_events (set_sub_payout_status x st s) = outbox_events s"
    "payout_transfers (set_sub_payout_status x st s) = payout_transfers s"
    "crypto_nonces (set_sub_payout_status x st s) = crypto_nonces s"
    "accepted_dedupe (set_sub_payout_status x st s) = accepted_dedupe s"
    "payout_row pid (set_sub_payout_status x st s) = payout_row pid s"
    "dispute_row did (set_sub_payout_status x st s) = dispute_row did s"
    "bounty_row bid (set_sub_payout_status x st s) = bounty_row bid s"
    "job_row jid (set_sub_payout_status x st s) = job_row jid s"
    "org_row oid (set_sub_payout_status x st s) = org_row oid s"
    "same_ledger s0 (set_sub_payout_status x st s) = same_ledger s0 s"
  by (simp_all add: set_sub_payout_status_def row_lookups sub_job_def sub_bounty_def sub_org_def same_ledger_def)

lemma payout_row_update:
  assumes "\<And>q. p_id (f q) = p_id q"
  shows "payout_row pid' (update_payout pid f s) =
           (if pid' = pid then map_option f (payout_row pid s) else payout_row pid' s)"
proof (cases "pid' = pid")
  case True
  with assms show ?thesis
    unfolding payout_row_def update_payout_def
    by (simp add: find_update_where) (auto simp: map_option_case dest: find_SomeD split: option.splits)
next
  case False
  with assms show ?thesis
    by (simp add: payout_row_def update_payout_def find_update_other)
qed

lemma payout_row_id: "payout_row pid s = Some p \<Longrightarrow> p_id p = pid"
  by (auto simp: payout_row_def dest: find_SomeD)

lemma record_broadcast_frame:
  "same_ledger s0 (record_broadcast env gen now p sp bps w pw pww wa fa nonce tx s) = same_ledger s0 s"
  by (simp add: record_broadcast_def Let_def upsert_transfer_def save_nonce_def)
     (simp add: same_ledger_def)

lemma broadcastPayout_frame:
  "same_ledger s (snd (broadcastPayout env gen now p sp bps w pw pww wa fa data s))"
  by (auto simp: broadcastPayout_def Let_def record_broadcast_frame split: sum.split)

lemma payOnChain_frame: "same_ledger s (snd (payOnChain env gen now p sp bps w pw s))"
  by (auto simp: payOnChain_def Let_def broadcastPayout_frame split: sum.split option.split)
     (simp add: same_ledger_def)

lemma payByProvider_frame: "same_ledger s (snd (payByProvider env now p sp bps w pw s))"
  by (auto simp: payByProvider_def markPayoutStatus_def Let_def split: sum.split prod.split)

lemma handlePayoutRequested_frame: "same_ledger s (snd (handlePayoutRequested env gen now pid s))"
  by (auto simp: handlePayoutRequested_def Let_def payOnChain_frame payByProvider_frame
      split: sum.split prod.split option.split)

lemma handlePayoutConfirm_frame: "same_ledger s (snd (handlePayoutConfirmRequested env now pid s))"
proof -
  have "same_ledger s (update_payout p f (s\<lparr>payout_transfers := t\<rparr>))" for p f t
    by simp (simp add: same_ledger_def)
  then show ?thesis
    by (auto simp: handlePayoutConfirmRequested_def Let_def markPayoutStatus_def
        split: sum.split prod.split option.split list.split)
qed

lemma admin_payout_retry_frame: "same_ledger s (snd (admin_payout_retry gen now pid s))"
  by (auto simp: admin_payout_retry_def Let_def markPayoutStatus_def split: option.split)

lemma admin_payout_mark_frame: "same_ledger s (snd (admin_payout_mark gen now pid st pr ref reason s))"
  by (auto simp: admin_payout_mark_def Let_def markPayoutStatus_def split: option.split)

lemma requeue_all_frame: "same_ledger s0 (requeue_all gen i now wid ps s) = same_ledger s0 s"
  by (induction gen i now wid ps s rule: requeue_all.induct) simp_all

lemma worker_set_payout_address_frame:
  "same_ledger s (snd (worker_set_payout_address ga rc gen now wid ch ad sg s))"
  by (auto simp: worker_set_payout_address_def Let_def requeue_all_frame split: option.split)
     (simp_all add: same_ledger_def requeue_all_frame)

lemma addPayout_frame: "addPayout env pid now sid wid n s = Inr (p, s') \<Longrightarrow> same_ledger s s'"
  by (auto simp: addPayout_def Let_def same_ledger_def split: prod.split_asm sum.split_asm)

section \<open>When money leaves\<close>

lemma payByProvider_effects:
  assumes "payByProvider env now p sp bps w pw s = ((e, fx), s')"
  shows "fx = [] \<or> fx = [ProviderCall (p_id p) (netCents sp) (p_worker_id p)]"
  using assms by (auto simp: payByProvider_def Let_def split: sum.split_asm)

lemma payOnChain_effects:
  assumes "payOnChain env gen now p sp bps w pw s = ((e, fx), s')"
  shows "fx = [] \<or> (\<exists>nonce wa. worker_address (p_worker_id p) s = Some wa \<and>
           fx = [Broadcast nonce (encodePayoutSplitterCallV2 (pe_selector env)
                   (splitter_call_of env sp w (the (pe_fee_wallet env)) wa))])"
  using assms
  by (auto simp: payOnChain_def broadcastPayout_def Let_def split: if_split_asm sum.split_asm option.split_asm)

text \<open>The amounts one run of the handler may send for a payout.\<close>

definition pays_split :: "pay_env \<Rightarrow> payouts_row \<Rightarrow> payout_split \<Rightarrow> string option \<Rightarrow> pay_effect list \<Rightarrow> db \<Rightarrow> bool" where
  "pays_split env p sp wallet fx s \<longleftrightarrow>
     fx = [ProviderCall (p_id p) (netCents sp) (p_worker_id p)] \<or>
     (\<exists>nonce wa. worker_address (p_worker_id p) s = Some wa \<and>
        fx = [Broadcast nonce (encodePayoutSplitterCallV2 (pe_selector env)
                (splitter_call_of env sp wallet (the (pe_fee_wallet env)) wa))])"


definition mock_env :: pay_env where
  "mock_env = \<lparr> pe_provider = ''mock'', pe_fee_bps = Inr 0, pe_fee_wallet = None, pe_http_url = None,
     pe_http = (\<lambda>p c w. Inl PaymentProviderFailed), pe_signer_config = Inr (), pe_signer = Inr ''0xs'',
     pe_chain_id = 8453, pe_usdc = ''0xu'', pe_selector = ''0x12345678'', pe_gas = Inr (),
     pe_pending_nonce = Inr 0, pe_broadcast = (\<lambda>n d. Inr ''0xh''), pe_receipt = (\<lambda>h. Inr None),
     pe_latest_block = Inr 0, pe_confirmations = 5 \<rparr>"

definition example_payout :: payouts_row where
  "example_payout = new_payout ''p1'' ''s1'' ''w1'' 1000 0"

definition example_payout_store :: db where
  "example_payout_store = empty_db\<lparr>payouts := [example_payout]\<rparr>"

lemma example_org_fee: "org_fee x example_payout_store = (0, None)"
  by (simp add: org_fee_def sub_org_def sub_bounty_def sub_job_def sub_row_def example_payout_store_def empty_db_def)

lemma example_payout_found: "getPayout ''p1'' example_payout_store = Some example_payout"
  by (simp add: getPayout_def payout_row_def example_payout_store_def example_payout_def new_payout_def)

lemma example_payout_fields:
  "payout_parked 5 example_payout = False" "p_submission_id example_payout = ''s1''"
  "p_amount_cents example_payout = 1000" "p_id example_payout = ''p1''" "p_worker_id example_payout = ''w1''"
  by (simp_all add: payout_parked_def example_payout_def new_payout_def)

lemma example_mock_run:
  "\<exists>s'. handlePayoutRequested mock_env example_gen 5 ''p1'' example_payout_store =
     ((None, [ProviderCall ''p1'' 1000 ''w1'']), s')"
  apply (simp add: handlePayoutRequested_def example_org_fee example_payout_found example_payout_fields Let_def)
  apply (simp add: mock_env_def computePayoutSplitCents_def bps_ok_def is_crypto_def payByProvider_def
      getPaymentProvider_def rat_int_def createProviderPayout_def Let_def example_payout_fields)
  done




end
