(* ===== verification/Disputes.thy ===== *)
theory Disputes
  imports Payouts
begin

text \<open>
  Disputes (\<open>src/src/store.ts\<close>): opening, cancelling, resolving, and the automatic refund of
  \<open>src/workers/handlers.ts\<close>. Each operation is one transaction. The clock is read once per
  operation.
\<close>

section \<open>Opening\<close>

record dispute_ctx =
  dc_org :: string
  dc_bounty :: string
  dc_submission :: string
  dc_payout :: "payouts_row option"

text \<open>By payout: inner joins; by submission: the payout is joined on the left.\<close>

definition ctx_of_submission :: "string \<Rightarrow> payouts_row option \<Rightarrow> db \<Rightarrow> dispute_ctx option" where
  "ctx_of_submission sid p s =
     map_option (\<lambda>b. \<lparr> dc_org = b_org_id b, dc_bounty = b_id b, dc_submission = sid, dc_payout = p \<rparr>)
       (sub_bounty sid s)"

definition dispute_ctx_of :: "string option \<Rightarrow> string option \<Rightarrow> db \<Rightarrow> dispute_ctx option" where
  "dispute_ctx_of payoutId submissionId s =
     (if truthy payoutId then
        (case payout_row (the payoutId) s of
           None \<Rightarrow> None
         | Some p \<Rightarrow> ctx_of_submission (p_submission_id p) (Some p) s)
      else
        ctx_of_submission (the submissionId)
          (find (\<lambda>p. p_submission_id p = the submissionId) (payouts s)) s)"

definition open_dispute_on :: "string \<Rightarrow> disputes_row \<Rightarrow> bool" where
  "open_dispute_on pid d \<longleftrightarrow> d_payout_id d = Some pid \<and> d_status d = DisputeOpen"

type_synonym actor = "string \<times> string option"

definition new_dispute :: "string \<Rightarrow> int \<Rightarrow> dispute_ctx \<Rightarrow> string \<Rightarrow> string \<Rightarrow> disputes_row" where
  "new_dispute did now ctx pid reason =
     \<lparr> d_id = did, d_org_id = dc_org ctx, d_bounty_id = dc_bounty ctx,
       d_submission_id = Some (dc_submission ctx), d_payout_id = Some pid, d_status = DisputeOpen,
       d_reason = Some reason, d_resolution = None, d_resolution_notes = None, d_created_at = now,
       d_resolved_at = None, d_resolver_actor_type = None, d_resolver_actor_id = None \<rparr>"

definition createDispute ::
    "(nat \<Rightarrow> string) \<Rightarrow> int \<Rightarrow> string \<Rightarrow> string option \<Rightarrow> string option \<Rightarrow> string \<Rightarrow> actor \<Rightarrow> db \<Rightarrow>
     err + disputes_row \<times> db" where
  "createDispute gen now org payoutId submissionId reason actor s =
     (if \<not> truthy payoutId \<and> \<not> truthy submissionId then Inl MissingTarget
      else case dispute_ctx_of payoutId submissionId s of
          None \<Rightarrow> Inl TargetNotFound
        | Some ctx \<Rightarrow>
            if dc_org ctx \<noteq> org then Inl Forbidden
            else (case dc_payout ctx of
                None \<Rightarrow> Inl PayoutMissing
              | Some p \<Rightarrow>
                  if p_status p = PayoutPaid then Inl PayoutAlreadyPaid
                  else (case p_hold_until p of
                      None \<Rightarrow> Inl DisputeWindowDisabled
                    | Some hold \<Rightarrow>
                        if hold \<le> now then Inl DisputeWindowExpired
                        else if list_ex (open_dispute_on (p_id p)) (disputes s) then Inl DisputeAlreadyOpen
                        else
                          let pid = p_id p; did = gen 0;
                              row = new_dispute did now ctx pid reason;
                              s1 = s\<lparr>disputes := disputes s @ [row]\<rparr>;
                              s2 = update_payout pid (\<lambda>q. q\<lparr>p_blocked_reason := Some ''dispute_open'',
                                     p_updated_at := now\<rparr>) s1;
                              s3 = suppressPayout now pid s2;
                              s4 = enqueueOutbox (gen 1) now ''dispute.auto_refund.requested'' (PlDispute did)
                                     (Some hold) (Some (''dispute:auto_refund:'' @ did)) s3;
                              s5 = writeAuditEvent (gen 2) now (fst actor) (snd actor) ''dispute.open''
                                     ''dispute'' did s4
                          in Inr (row, s5))))"

section \<open>Cancelling\<close>

definition close_dispute ::
    "int \<Rightarrow> string \<Rightarrow> dispute_status \<Rightarrow> actor \<Rightarrow> string \<Rightarrow> string option \<Rightarrow> disputes_row \<Rightarrow> disputes_row" where
  "close_dispute now did st actor resolution notes d =
     d\<lparr>d_status := st, d_resolved_at := Some now, d_resolver_actor_type := Some (fst actor),
       d_resolver_actor_id := snd actor, d_resolution := Some resolution, d_resolution_notes := notes\<rparr>"

definition update_dispute :: "string \<Rightarrow> (disputes_row \<Rightarrow> disputes_row) \<Rightarrow> db \<Rightarrow> db" where
  "update_dispute did f s = s\<lparr>disputes := update_where (\<lambda>d. d_id d = did) f (disputes s)\<rparr>"

definition unblock_payout :: "int \<Rightarrow> string \<Rightarrow> db \<Rightarrow> db" where
  "unblock_payout now pid = update_payout pid (\<lambda>q. q\<lparr>p_blocked_reason := None, p_updated_at := now\<rparr>)"

definition cancelDispute ::
    "(nat \<Rightarrow> string) \<Rightarrow> int \<Rightarrow> string \<Rightarrow> string \<Rightarrow> actor \<Rightarrow> db \<Rightarrow> err + disputes_row \<times> db" where
  "cancelDispute gen now org did actor s =
     (case dispute_row did s of
        None \<Rightarrow> Inl NotFound
      | Some row \<Rightarrow>
          if d_org_id row \<noteq> org then Inl Forbidden
          else if d_status row \<noteq> DisputeOpen then Inl NotOpen
          else
            let close = close_dispute now did DisputeCancelled actor ''cancelled'' None;
                s1 = update_dispute did close s;
                requeued =
                  (if \<not> truthy (d_payout_id row) then Inr s1
                   else
                     let pid = the (d_payout_id row); s2 = unblock_payout now pid s1
                     in case payout_row pid s2 of
                          None \<Rightarrow> Inl NoResult
                        | Some p \<Rightarrow>
                            Inr (requeuePayout (gen 0) now pid
                              (PlPayout pid (Some (p_submission_id p)) (p_worker_id p))
                              (nextAttemptAt (p_hold_until p) now) False True s2))
            in case requeued of
                 Inl e \<Rightarrow> Inl e
               | Inr s3 \<Rightarrow>
                   Inr (close row, writeAuditEvent (gen 1) now (fst actor) (snd actor) ''dispute.cancel''
                          ''dispute'' did s3))"

section \<open>Resolution\<close>

definition refundCents :: "payouts_row \<Rightarrow> int" where
  "refundCents p = max 0 (p_amount_cents p - zero_if_null (p_proofwork_fee_cents p))"

definition refund_entry :: "string \<Rightarrow> int \<Rightarrow> string \<Rightarrow> string \<Rightarrow> payouts_row \<Rightarrow> billing_events_row" where
  "refund_entry eid now aid did p =
     new_event eid aid DisputeRefund (refundCents p)
       (JObj [(''disputeId'', JStr did), (''payoutId'', JStr (p_id p)),
              (''proofworkFeeCents'', JNum (Fin (of_int (zero_if_null (p_proofwork_fee_cents p)))))]) now"

definition refundDispute ::
    "(nat \<Rightarrow> string) \<Rightarrow> int \<Rightarrow> disputes_row \<Rightarrow> payouts_row \<Rightarrow> string option \<Rightarrow> actor \<Rightarrow> db \<Rightarrow>
     err + disputes_row \<times> db" where
  "refundDispute gen now d p notes actor s =
     (let (acct, s1) = getOrCreateAccount (d_org_id d) now s;
          credited = (if refundCents p > 0
                      then post_entry (refund_entry (gen 0) now (ba_id acct) (d_id d) p) now s1
                      else Inr s1)
      in case credited of
           Inl e \<Rightarrow> Inl e
         | Inr s2 \<Rightarrow>
             let s3 = update_payout (p_id p) (\<lambda>q. q\<lparr>p_status := PayoutRefunded,
                        p_blocked_reason := Some ''dispute_refund'', p_updated_at := now\<rparr>) s2;
                 s4 = (if truthy (d_submission_id d)
                       then set_sub_payout_status (the (d_submission_id d)) PayReversed s3 else s3);
                 s5 = suppressPayout now (p_id p) s4;
                 close = close_dispute now (d_id d) DisputeResolved actor ''refund'' notes;
                 s6 = update_dispute (d_id d) close s5
             in Inr (close d, writeAuditEvent (gen 1) now (fst actor) (snd actor)
                       ''dispute.resolve_refund'' ''dispute'' (d_id d) s6))"

definition upholdPayout ::
    "(nat \<Rightarrow> string) \<Rightarrow> int \<Rightarrow> disputes_row \<Rightarrow> payouts_row \<Rightarrow> string option \<Rightarrow> actor \<Rightarrow> db \<Rightarrow>
     disputes_row \<times> db" where
  "upholdPayout gen now d p notes actor s =
     (let s1 = unblock_payout now (p_id p) s;
          s2 = requeuePayout (gen 0) now (p_id p) (PlPayout (p_id p) (d_submission_id d) (p_worker_id p))
                 (nextAttemptAt (p_hold_until p) now) False False s1;
          close = close_dispute now (d_id d) DisputeResolved actor ''uphold'' notes;
          s3 = update_dispute (d_id d) close s2
      in (close d, writeAuditEvent (gen 1) now (fst actor) (snd actor) ''dispute.resolve_uphold''
            ''dispute'' (d_id d) s3))"

definition resolveDisputeAdmin ::
    "(nat \<Rightarrow> string) \<Rightarrow> int \<Rightarrow> string \<Rightarrow> bool \<Rightarrow> string option \<Rightarrow> actor \<Rightarrow> db \<Rightarrow> err + disputes_row \<times> db" where
  "resolveDisputeAdmin gen now did refund notes actor s =
     (case dispute_row did s of
        None \<Rightarrow> Inl NotFound
      | Some d \<Rightarrow>
          if d_status d \<noteq> DisputeOpen then Inl NotOpen
          else if \<not> truthy (d_payout_id d) then Inl PayoutMissing
          else (case payout_row (the (d_payout_id d)) s of
              None \<Rightarrow> Inl NoResult
            | Some p \<Rightarrow>
                if p_status p = PayoutPaid then Inl PayoutAlreadyPaid
                else if p_status p = PayoutRefunded then Inr (d, s)
                else if refund then refundDispute gen now d p notes actor s
                else Inr (upholdPayout gen now d p notes actor s)))"

text \<open>The automatic refund at the end of the hold treats a dispute that is gone, closed or already
  paid as done.\<close>

definition handleDisputeAutoRefundRequested ::
    "(nat \<Rightarrow> string) \<Rightarrow> int \<Rightarrow> string \<Rightarrow> db \<Rightarrow> err option \<times> db" where
  "handleDisputeAutoRefundRequested gen now did s =
     (if did = [] then (Some MissingDisputeId, s)
      else case resolveDisputeAdmin gen now did True (Some ''auto_refund'') (''system'', None) s of
          Inr (_, s') \<Rightarrow> (None, s')
        | Inl e \<Rightarrow> (if e \<in> {NotFound, NotOpen, PayoutMissing, PayoutAlreadyPaid} then None else Some e, s))"

definition admin_dispute_resolve ::
    "(nat \<Rightarrow> string) \<Rightarrow> int \<Rightarrow> string \<Rightarrow> bool \<Rightarrow> string option \<Rightarrow> db \<Rightarrow> disputes_row response \<times> db" where
  "admin_dispute_resolve gen now did refund notes s =
     (case resolveDisputeAdmin gen now did refund notes (''admin_token'', None) s of
        Inr (d, s') \<Rightarrow> (Ok d, s')
      | Inl e \<Rightarrow> (Reject (if e = NotFound then 404 else if e = NotOpen \<or> e = PayoutAlreadyPaid then 409
                          else 400) ''invalid'', s))"

definition listDisputesByOrg ::
    "string \<Rightarrow> nat option \<Rightarrow> nat option \<Rightarrow> dispute_status option \<Rightarrow> db \<Rightarrow> disputes_row list \<times> nat" where
  "listDisputesByOrg org page limit status s =
     paginate page limit (order_desc d_created_at
       (filter (\<lambda>d. d_org_id d = org \<and> (case status of None \<Rightarrow> True | Some st \<Rightarrow> d_status d = st)) (disputes s)))"

definition listDisputesAdmin ::
    "nat option \<Rightarrow> nat option \<Rightarrow> dispute_status option \<Rightarrow> db \<Rightarrow> disputes_row list \<times> nat" where
  "listDisputesAdmin page limit status s =
     paginate page limit (order_desc d_created_at
       (filter (\<lambda>d. case status of None \<Rightarrow> True | Some st \<Rightarrow> d_status d = st) (disputes s)))"

section \<open>The payout runner\<close>

definition payout_runner_handler :: "pay_env \<Rightarrow> (string \<Rightarrow> nat \<Rightarrow> string) \<Rightarrow> handler" where
  "payout_runner_handler env gen evt now s =
     (if ev_topic evt = ''payout.requested'' then
        (case ev_payload evt of
           PlPayout pid _ _ \<Rightarrow>
             (let r = handlePayoutRequested env (gen (ev_id evt)) now pid s in (fst (fst r), snd r))
         | _ \<Rightarrow> (Some MissingPayoutId, s))
      else if ev_topic evt = ''payout.confirm.requested'' then
        (case ev_payload evt of
           PlPayoutConfirm pid \<Rightarrow> handlePayoutConfirmRequested env now pid s
         | PlPayout pid _ _ \<Rightarrow> handlePayoutConfirmRequested env now pid s
         | _ \<Rightarrow> (Some MissingPayoutId, s))
      else if ev_topic evt = ''dispute.auto_refund.requested'' then
        (case ev_payload evt of
           PlDispute did \<Rightarrow> handleDisputeAutoRefundRequested (gen (ev_id evt)) now did s
         | _ \<Rightarrow> (Some MissingDisputeId, s))
      else (Some UnknownTopic, s))"

section \<open>Disputes and the ledger\<close>

lemma update_dispute_frame [simp]:
    "workers (update_dispute did f s) = workers s"
    "orgs (update_dispute did f s) = orgs s"
    "bounties (update_dispute did f s) = bounties s"
    "jobs (update_dispute did f s) = jobs s"
    "submissions (update_dispute did f s) = submissions s"
    "verifications (update_dispute did f s) = verifications s"
    "payouts (update_dispute did f s) = payouts s"
    "billing_accounts (update_dispute did f s) = billing_accounts s"
    "billing_events (update_dispute did f s) = billing_events s"
    "reservations (update_dispute did f s) = reservations s"
    "outbox_events (update_dispute did f s) = outbox_events s"
    "payout_transfers (update_dispute did f s) = payout_transfers s"
    "crypto_nonces (update_dispute did f s) = crypto_nonces s"
    "accepted_dedupe (update_dispute did f s) = accepted_dedupe s"
    "payout_row pid (update_dispute did f s) = payout_row pid s"
    "bounty_row bid (update_dispute did f s) = bounty_row bid s"
    "job_row jid (update_dispute did f s) = job_row jid s"
    "sub_row sid (update_dispute did f s) = sub_row sid s"
    "org_row oid (update_dispute did f s) = org_row oid s"
    "sub_job x (update_dispute did f s) = sub_job x s"
    "sub_bounty x (update_dispute did f s) = sub_bounty x s"
    "sub_org x (update_dispute did f s) = sub_org x s"
    "same_ledger s0 (update_dispute did f s) = same_ledger s0 s"
  by (simp_all add: update_dispute_def row_lookups sub_job_def sub_bounty_def sub_org_def same_ledger_def)

lemma insert_dispute_frame [simp]:
  "payout_row pid (s\<lparr>disputes := t\<rparr>) = payout_row pid s"
  "same_ledger s0 (s\<lparr>disputes := t\<rparr>) = same_ledger s0 s"
  by (simp_all add: payout_row_def same_ledger_def)

lemma dispute_row_update:
  assumes "\<And>d. d_id (f d) = d_id d"
  shows "dispute_row did (update_dispute did f s) = map_option f (dispute_row did s)"
  using assms unfolding dispute_row_def update_dispute_def
  by (simp add: find_update_where) (auto simp: map_option_case dest: find_SomeD split: option.splits)

lemma close_dispute_id [simp]: "d_id (close_dispute now did st actor r n d) = d_id d"
  by (simp add: close_dispute_def)

lemma createDispute_frame:
  "createDispute gen now org pid sid reason actor s = Inr (d, s') \<Longrightarrow> same_ledger s s'"
  by (auto simp: createDispute_def Let_def split: if_split_asm option.split_asm)

lemma cancelDispute_frame: "cancelDispute gen now org did actor s = Inr (d, s') \<Longrightarrow> same_ledger s s'"
  by (auto simp: cancelDispute_def unblock_payout_def Let_def
      split: if_split_asm option.split_asm sum.split_asm)

lemma upholdPayout_frame: "same_ledger s (snd (upholdPayout gen now d p notes actor s))"
  by (simp add: upholdPayout_def unblock_payout_def Let_def)

definition refund_rows ::
    "(nat \<Rightarrow> string) \<Rightarrow> int \<Rightarrow> disputes_row \<Rightarrow> payouts_row \<Rightarrow> string option \<Rightarrow> actor \<Rightarrow> db \<Rightarrow> db" where
  "refund_rows gen now d p notes actor s =
     (let s1 = update_payout (p_id p) (\<lambda>q. q\<lparr>p_status := PayoutRefunded,
                 p_blocked_reason := Some ''dispute_refund'', p_updated_at := now\<rparr>) s;
          s2 = (if truthy (d_submission_id d)
                then set_sub_payout_status (the (d_submission_id d)) PayReversed s1 else s1)
      in writeAuditEvent (gen 1) now (fst actor) (snd actor) ''dispute.resolve_refund'' ''dispute'' (d_id d)
           (update_dispute (d_id d) (close_dispute now (d_id d) DisputeResolved actor ''refund'' notes)
             (suppressPayout now (p_id p) s2)))"

definition refund_credit :: "(nat \<Rightarrow> string) \<Rightarrow> int \<Rightarrow> disputes_row \<Rightarrow> payouts_row \<Rightarrow> db \<Rightarrow> err + db" where
  "refund_credit gen now d p s =
     (if refundCents p > 0
      then post_entry (refund_entry (gen 0) now (ba_id (fst (getOrCreateAccount (d_org_id d) now s))) (d_id d) p)
             now (snd (getOrCreateAccount (d_org_id d) now s))
      else Inr (snd (getOrCreateAccount (d_org_id d) now s)))"

text \<open>A refund is the credit followed by the row updates.\<close>

lemma refundDispute_eq:
  "refundDispute gen now d p notes actor s =
     (case refund_credit gen now d p s of
        Inl e \<Rightarrow> Inl e
      | Inr s2 \<Rightarrow> Inr (close_dispute now (d_id d) DisputeResolved actor ''refund'' notes d,
                      refund_rows gen now d p notes actor s2))"
  by (simp add: refundDispute_def refund_credit_def refund_rows_def Let_def split: prod.split sum.split)

lemma refund_rows_frame [simp]:
  "same_ledger s0 (refund_rows gen now d p notes actor s) = same_ledger s0 s"
  "outbox_events (refund_rows gen now d p notes actor s) = outbox_events (suppressPayout now (p_id p) s)"
proof -
  show "same_ledger s0 (refund_rows gen now d p notes actor s) = same_ledger s0 s"
    by (simp add: refund_rows_def Let_def)
  show "outbox_events (refund_rows gen now d p notes actor s) = outbox_events (suppressPayout now (p_id p) s)"
    by (simp add: refund_rows_def suppressPayout_def update_outbox_def Let_def)
qed

context ledger_state
begin

lemma createDispute_I: "I s \<Longrightarrow> createDispute gen now org pid sid reason actor s = Inr (d, s') \<Longrightarrow> I s'"
  using createDispute_frame I_frame by blast

lemma cancelDispute_I: "I s \<Longrightarrow> cancelDispute gen now org did actor s = Inr (d, s') \<Longrightarrow> I s'"
  using cancelDispute_frame I_frame by blast

lemma refund_credit_I:
  assumes "I s" and "refund_credit gen now d p s = Inr s'" shows "I s'"
proof -
  have "0 \<le> be_amount_cents (refund_entry eid now aid did p)" for eid aid did
    by (simp add: refund_entry_def new_event_def refundCents_def)
  then show ?thesis
    using assms I_account [OF assms(1), of "d_org_id d" now]
    by (auto simp: refund_credit_def intro: I_post split: if_split_asm)
qed

lemma refundDispute_I:
  assumes "I s" and "refundDispute gen now d p notes actor s = Inr (r, s')" shows "I s'"
proof -
  from assms obtain s2 where "I s2" "s' = refund_rows gen now d p notes actor s2"
    by (auto simp: refundDispute_eq dest: refund_credit_I split: sum.split_asm)
  then show ?thesis by (auto intro: I_frame)
qed

lemma resolveDisputeAdmin_I:
  assumes "I s" and "resolveDisputeAdmin gen now did refund notes actor s = Inr (d, s')" shows "I s'"
proof -
  have "I (snd (upholdPayout gen now d p notes actor s))" for d p
    by (rule I_frame [OF assms(1) upholdPayout_frame])
  then have "upholdPayout gen now d p notes actor s = (e, s1) \<Longrightarrow> I s1" for d p e s1
    by (metis snd_conv)
  with assms show ?thesis
    by (auto simp: resolveDisputeAdmin_def intro: refundDispute_I
        split: if_split_asm option.split_asm)
qed

lemma autoRefund_I: "I s \<Longrightarrow> I (snd (handleDisputeAutoRefundRequested gen now did s))"
  by (auto simp: handleDisputeAutoRefundRequested_def intro: resolveDisputeAdmin_I split: sum.split)

lemma admin_dispute_resolve_I: "I s \<Longrightarrow> I (snd (admin_dispute_resolve gen now did refund notes s))"
  by (auto simp: admin_dispute_resolve_def intro: resolveDisputeAdmin_I split: sum.split)

lemma payout_runner_I: "I s \<Longrightarrow> I (snd (payout_runner_handler env gen evt now s))"
  by (auto simp: payout_runner_handler_def Let_def
      intro: autoRefund_I I_frame [OF _ handlePayoutRequested_frame] I_frame [OF _ handlePayoutConfirm_frame]
      split: outbox_payload.split)

lemma I_outbox: "I (s\<lparr>outbox_events := t\<rparr>) = I s"
proof
  assume "I (s\<lparr>outbox_events := t\<rparr>)" then show "I s" by (rule I_frame) (simp add: same_ledger_def)
next
  assume "I s" then show "I (s\<lparr>outbox_events := t\<rparr>)" by (rule I_frame) (simp add: same_ledger_def)
qed

end

text \<open>Both ledger invariants survive whatever the outbox loop makes the payout runner do.\<close>

interpretation runner_ledger: outbox_consumer "payout_runner_handler env gen" "ledger_ok seed"
  for env gen seed
  by unfold_locales (rule ledger.payout_runner_I ledger.I_outbox; assumption?)+

interpretation runner_funds: outbox_consumer "payout_runner_handler env gen" funds_ok
  for env gen
  by unfold_locales (rule funds.payout_runner_I funds.I_outbox; assumption?)+

section \<open>A dispute freezes the payout\<close>

lemma createDispute_cases:
  assumes "createDispute gen now org payoutId submissionId reason actor s = Inr (d, s')"
  obtains ctx p hold where "dispute_ctx_of payoutId submissionId s = Some ctx" and "dc_payout ctx = Some p"
    and "p_status p \<noteq> PayoutPaid" and "p_hold_until p = Some hold" and "now < hold"
    and "\<not> list_ex (open_dispute_on (p_id p)) (disputes s)"
    and "d = new_dispute (gen 0) now ctx (p_id p) reason"
    and "s' = writeAuditEvent (gen 2) now (fst actor) (snd actor) ''dispute.open'' ''dispute'' (gen 0)
               (enqueueOutbox (gen 1) now ''dispute.auto_refund.requested'' (PlDispute (gen 0))
                 (Some hold) (Some (''dispute:auto_refund:'' @ gen 0))
                 (suppressPayout now (p_id p)
                   (update_payout (p_id p) (\<lambda>q. q\<lparr>p_blocked_reason := Some ''dispute_open'',
                      p_updated_at := now\<rparr>) (s\<lparr>disputes := disputes s @ [d]\<rparr>))))"
  using assms by (auto simp: createDispute_def Let_def numeral_2_eq_2 split: if_split_asm option.split_asm)

lemma dispute_ctx_payout:
  assumes "dispute_ctx_of payoutId submissionId s = Some ctx" and "dc_payout ctx = Some p"
  shows "p \<in> set (payouts s)"
  using assms
  by (auto simp: dispute_ctx_of_def ctx_of_submission_def payout_row_def
      dest: find_SomeD split: if_split_asm option.split_asm)

lemma payout_row_in: "distinct (map p_id (payouts s)) \<Longrightarrow> p \<in> set (payouts s) \<Longrightarrow> payout_row (p_id p) s = Some p"
  unfolding payout_row_def by (rule find_unique) simp_all

lemma payout_blocked_parked:
  "payout_row pid s = Some p \<Longrightarrow> truthy (p_blocked_reason p) \<Longrightarrow>
     snd (fst (handlePayoutRequested env gen now pid s)) = [] \<and> snd (handlePayoutRequested env gen now pid s) = s"
  by (simp add: handlePayoutRequested_def getPayout_def payout_parked_def)

lemma enqueue_fresh:
  assumes "\<And>r. r \<in> set (outbox_events s) \<Longrightarrow> ob_idempotency_key r \<noteq> Some k" and "k \<noteq> []"
  shows "outbox_events (enqueueOutbox rid now topic pl av (Some k) s) = outbox_events s @
           [new_outbox_row rid topic (Some k) pl (case av of None \<Rightarrow> now | Some t \<Rightarrow> t) now]"
  using assms
  by (cases k) (auto simp: enqueueOutbox_def Let_def insert_do_nothing_def outbox_key_def list_ex_iff)

lemma suppressed_event:
  "r \<in> set (outbox_events (suppressPayout now pid s)) \<Longrightarrow> payout_event pid r \<Longrightarrow> ob_status r = ObSent"
  by (auto simp: suppressPayout_def update_outbox_def in_set_update_where)

lemma suppress_keys:
  "r \<in> set (outbox_events (suppressPayout now pid s)) \<Longrightarrow>
     \<exists>q\<in>set (outbox_events s). ob_idempotency_key r = ob_idempotency_key q"
  by (auto simp: suppressPayout_def update_outbox_def in_set_update_where)

text \<open>C23. An open dispute freezes the money: a dispute is accepted only while the payout is unpaid
  and its hold is running; afterwards the payout is blocked, its execution event will not fire, an
  automatic refund is scheduled for exactly the end of the hold, and whatever the payout runner
  does with the payout, under any configuration and at any time, sends nothing and changes
  nothing.\<close>

theorem dispute_freezes_payout:
  assumes "createDispute gen now org payoutId submissionId reason actor s = Inr (d, s')"
    and "distinct (map p_id (payouts s))"
    and "\<And>r. r \<in> set (outbox_events s) \<Longrightarrow> ob_idempotency_key r \<noteq> Some (''dispute:auto_refund:'' @ d_id d)"
  shows "\<exists>p hold. payout_row (p_id p) s = Some p \<and> p_hold_until p = Some hold \<and> now < hold \<and>
           p_status p \<noteq> PayoutPaid \<and> d_status d = DisputeOpen \<and> d_payout_id d = Some (p_id p) \<and>
           d \<in> set (disputes s') \<and>
           payout_row (p_id p) s' = Some (p\<lparr>p_blocked_reason := Some ''dispute_open'', p_updated_at := now\<rparr>) \<and>
           (\<forall>r\<in>set (outbox_events s'). payout_event (p_id p) r \<longrightarrow> ob_status r = ObSent) \<and>
           (\<exists>r\<in>set (outbox_events s'). ob_topic r = ''dispute.auto_refund.requested'' \<and>
              ob_payload r = PlDispute (d_id d) \<and> ob_status r = ObPending \<and> ob_available_at r = hold) \<and>
           (\<forall>env g t. snd (fst (handlePayoutRequested env g t (p_id p) s')) = [] \<and>
                      snd (handlePayoutRequested env g t (p_id p) s') = s')"
  using assms(1)
proof (rule createDispute_cases)
  fix ctx :: dispute_ctx and p :: payouts_row and hold
  let ?s1 = "update_payout (p_id p) (\<lambda>q. q\<lparr>p_blocked_reason := Some ''dispute_open'', p_updated_at := now\<rparr>)
               (s\<lparr>disputes := disputes s @ [d]\<rparr>)"
  assume ctx: "dispute_ctx_of payoutId submissionId s = Some ctx" "dc_payout ctx = Some p"
    and p: "p_status p \<noteq> PayoutPaid" "p_hold_until p = Some hold" "now < hold"
    and d: "d = new_dispute (gen 0) now ctx (p_id p) reason"
    and s': "s' = writeAuditEvent (gen 2) now (fst actor) (snd actor) ''dispute.open'' ''dispute'' (gen 0)
               (enqueueOutbox (gen 1) now ''dispute.auto_refund.requested'' (PlDispute (gen 0))
                 (Some hold) (Some (''dispute:auto_refund:'' @ gen 0)) (suppressPayout now (p_id p) ?s1))"
  have dd: "d_id d = gen 0" "d_status d = DisputeOpen" "d_payout_id d = Some (p_id p)"
    by (simp_all add: d new_dispute_def)
  have row: "payout_row (p_id p) s = Some p" using payout_row_in [OF assms(2) dispute_ctx_payout [OF ctx]] .
  then have blocked: "payout_row (p_id p) s' = Some (p\<lparr>p_blocked_reason := Some ''dispute_open'', p_updated_at := now\<rparr>)"
    by (simp add: s' payout_row_update)
  have fresh: "ob_idempotency_key r \<noteq> Some (''dispute:auto_refund:'' @ gen 0)"
    if "r \<in> set (outbox_events (suppressPayout now (p_id p) ?s1))" for r
    using suppress_keys [OF that] assms(3) dd(1) by fastforce
  have ev: "outbox_events s' = outbox_events (suppressPayout now (p_id p) ?s1) @
      [new_outbox_row (gen 1) ''dispute.auto_refund.requested'' (Some (''dispute:auto_refund:'' @ gen 0))
         (PlDispute (gen 0)) hold now]"
    unfolding s' using enqueue_fresh [OF fresh] by simp
  have "\<forall>r\<in>set (outbox_events s'). payout_event (p_id p) r \<longrightarrow> ob_status r = ObSent"
    by (auto simp: ev payout_event_def outbox_key_def payout_topic_def new_outbox_row_def
        intro: suppressed_event [unfolded payout_event_def outbox_key_def payout_topic_def])
  moreover have "d \<in> set (disputes s')" by (simp add: s')
  ultimately show ?thesis
    using row p dd blocked payout_blocked_parked [OF blocked]
    by (intro exI [of _ p] exI [of _ hold]) (auto simp: ev new_outbox_row_def)
qed

definition example_disputed :: payouts_row where
  "example_disputed = example_payout\<lparr>p_hold_until := Some 100\<rparr>"

definition example_submission :: submissions_row where
  "example_submission = \<lparr> s_id = ''s1'', s_job_id = ''j1'', s_worker_id = ''w1'', s_idempotency_key = None,
     s_request_hash = None, s_manifest = JNull, s_artifact_index = JNull, s_status = SubAccepted,
     s_dedupe_key = None, s_final_verdict = Some Pass, s_final_reason = None,
     s_final_quality_score = None, s_payout_status = Some PayPending, s_created_at = 0 \<rparr>"

definition example_dispute_store :: db where
  "example_dispute_store = example_store\<lparr>jobs := [example_job], submissions := [example_submission],
     payouts := [example_disputed]\<rparr>"

lemmas dispute_eval = example_dispute_store_def example_disputed_def example_payout_def new_payout_def
  example_submission_def example_job_def example_eval row_lookups sub_bounty_def sub_job_def empty_db_def

lemma example_ctx:
  "dispute_ctx_of (Some ''p1'') None example_dispute_store =
     Some \<lparr> dc_org = ''o1'', dc_bounty = ''b1'', dc_submission = ''s1'', dc_payout = Some example_disputed \<rparr>"
  by (simp add: dispute_ctx_of_def ctx_of_submission_def dispute_eval)

lemma example_dispute_opened:
  "\<exists>s'. createDispute example_gen 5 ''o1'' (Some ''p1'') None ''bad'' (''org'', None) example_dispute_store =
     Inr (new_dispute [] 5 \<lparr> dc_org = ''o1'', dc_bounty = ''b1'', dc_submission = ''s1'',
            dc_payout = Some example_disputed \<rparr> ''p1'' ''bad'', s')"
proof -
  have "disputes example_dispute_store = []" "p_id example_disputed = ''p1''"
    "p_status example_disputed = PayoutPending" "p_hold_until example_disputed = Some 100"
    by (simp_all add: dispute_eval)
  then show ?thesis by (simp add: createDispute_def example_ctx Let_def example_gen_def)
qed

theorem dispute_freezes_payout_witness:
  "\<exists>d s'. createDispute example_gen 5 ''o1'' (Some ''p1'') None ''bad'' (''org'', None) example_dispute_store = Inr (d, s') \<and>
     (\<exists>p :: payouts_row. d_payout_id d = Some (p_id p) \<and> p_hold_until p = Some 100 \<and>
        (\<forall>env g t. snd (handlePayoutRequested env g t (p_id p) s') = s'))"
proof -
  obtain d s' where c: "createDispute example_gen 5 ''o1'' (Some ''p1'') None ''bad'' (''org'', None)
      example_dispute_store = Inr (d, s')" and d: "d_id d = []"
    using example_dispute_opened by (auto simp: new_dispute_def)
  have "distinct (map p_id (payouts example_dispute_store))" "outbox_events example_dispute_store = []"
    by (simp_all add: dispute_eval)
  from dispute_freezes_payout [OF c this(1)] this(2) obtain p :: payouts_row and hold where
    p: "payout_row (p_id p) example_dispute_store = Some p" "p_hold_until p = Some hold"
      "d_payout_id d = Some (p_id p)" "\<forall>env g t. snd (handlePayoutRequested env g t (p_id p) s') = s'"
    by auto
  from p(1) have "p = example_disputed"
    by (auto simp: example_dispute_store_def example_store_def payout_row_def empty_db_def split: if_split_asm)
  then have "p_hold_until p = Some 100" by (simp add: example_disputed_def)
  with p c show ?thesis by blast
qed

section \<open>A refund happens once\<close>

lemma refund_credit_cases:
  assumes "refund_credit gen now d p s = Inr s'"
  shows "billing_events s' = billing_events s @ (if refundCents p > 0
           then [refund_entry (gen 0) now (ba_id (fst (getOrCreateAccount (d_org_id d) now s))) (d_id d) p] else []) \<and>
         payouts s' = payouts s \<and> disputes s' = disputes s \<and> outbox_events s' = outbox_events s"
proof -
  have acct: "billing_events (snd (getOrCreateAccount org now s)) = billing_events s"
    "payouts (snd (getOrCreateAccount org now s)) = payouts s"
    "disputes (snd (getOrCreateAccount org now s)) = disputes s"
    "outbox_events (snd (getOrCreateAccount org now s)) = outbox_events s" for org
    by (auto simp: getOrCreateAccount_def split: option.split)
  show ?thesis
    using assms by (auto simp: refund_credit_def acct elim!: post_entry_Inr split: if_split_asm)
qed

lemma refund_rows_lookup:
  "payout_row pid (refund_rows gen now d p notes actor s) =
     (if pid = p_id p then map_option (\<lambda>q. q\<lparr>p_status := PayoutRefunded,
        p_blocked_reason := Some ''dispute_refund'', p_updated_at := now\<rparr>) (payout_row pid s)
      else payout_row pid s)"
  "dispute_row (d_id d) (refund_rows gen now d p notes actor s) =
     map_option (close_dispute now (d_id d) DisputeResolved actor ''refund'' notes) (dispute_row (d_id d) s)"
  by (simp_all add: refund_rows_def Let_def payout_row_update dispute_row_update)

lemma dispute_row_id: "dispute_row did s = Some d \<Longrightarrow> d_id d = did"
  by (auto simp: dispute_row_def dest: find_SomeD)

lemma closed_dispute_rejects:
  assumes "dispute_row did s = Some d" and "d_status d \<noteq> DisputeOpen"
  shows "resolveDisputeAdmin gen now did refund notes actor s = Inl NotOpen"
    and "isl (cancelDispute gen now org did actor s)"
    and "did \<noteq> [] \<Longrightarrow> handleDisputeAutoRefundRequested gen now did s = (None, s)"
  using assms
  by (auto simp: resolveDisputeAdmin_def cancelDispute_def handleDisputeAutoRefundRequested_def split: if_split_asm)

text \<open>C22. A refund is paid out of the dispute exactly once: it appends one ledger entry that credits
  the organisation with the gross less Proofwork's fee, marks the payout refunded and blocked and
  keeps its execution event from firing; afterwards the dispute can be neither resolved again nor
  cancelled, the automatic refund finds nothing to do, and the payout runner sends nothing.\<close>

theorem refund_exactly_once:
  assumes "resolveDisputeAdmin gen now did True notes actor s = Inr (d', s')"
    and "dispute_row did s = Some d" and "d_payout_id d = Some pid" and "payout_row pid s = Some p"
    and "p_status p \<noteq> PayoutRefunded" and "0 < refundCents p"
  shows "(\<exists>e. billing_events s' = billing_events s @ [e] \<and>
            be_account_id e = ba_id (fst (getOrCreateAccount (d_org_id d) now s)) \<and>
            be_amount_cents e = p_amount_cents p - zero_if_null (p_proofwork_fee_cents p)) \<and>
         payout_row pid s' = Some (p\<lparr>p_status := PayoutRefunded,
            p_blocked_reason := Some ''dispute_refund'', p_updated_at := now\<rparr>) \<and>
         (\<forall>r\<in>set (outbox_events s'). payout_event pid r \<longrightarrow> ob_status r = ObSent) \<and>
         (\<forall>g t ref n a. resolveDisputeAdmin g t did ref n a s' = Inl NotOpen) \<and>
         (\<forall>g t org a. isl (cancelDispute g t org did a s')) \<and>
         (\<forall>g t. snd (handleDisputeAutoRefundRequested g t did s') = s') \<and>
         (\<forall>env g t. snd (fst (handlePayoutRequested env g t pid s')) = [] \<and>
            snd (handlePayoutRequested env g t pid s') = s')"
proof -
  have ids: "p_id p = pid" "d_id d = did" using assms by (auto dest: payout_row_id dispute_row_id)
  from assms obtain s2 where c: "refund_credit gen now d p s = Inr s2"
    and s': "s' = refund_rows gen now d p notes actor s2"
    by (auto simp: resolveDisputeAdmin_def refundDispute_eq split: if_split_asm sum.split_asm)
  note k = refund_credit_cases [OF c]
  have rows: "payout_row x s2 = payout_row x s" "dispute_row x s2 = dispute_row x s" for x
    using k by (simp_all add: payout_row_def dispute_row_def)
  have p': "payout_row pid s' = Some (p\<lparr>p_status := PayoutRefunded,
      p_blocked_reason := Some ''dispute_refund'', p_updated_at := now\<rparr>)"
    using assms(4) ids by (simp add: s' refund_rows_lookup rows)
  have "dispute_row (d_id d) s' =
      map_option (close_dispute now (d_id d) DisputeResolved actor ''refund'' notes) (dispute_row (d_id d) s)"
    by (simp add: s' refund_rows_lookup rows)
  then have d': "dispute_row did s' = Some (close_dispute now did DisputeResolved actor ''refund'' notes d)"
    using assms(2) ids by simp
  then have st: "d_status (close_dispute now did DisputeResolved actor ''refund'' notes d) \<noteq> DisputeOpen"
    by (simp add: close_dispute_def)
  have "billing_events s' = billing_events s2"
    by (simp add: s' refund_rows_def Let_def)
  then have "\<exists>e. billing_events s' = billing_events s @ [e] \<and>
            be_account_id e = ba_id (fst (getOrCreateAccount (d_org_id d) now s)) \<and>
            be_amount_cents e = p_amount_cents p - zero_if_null (p_proofwork_fee_cents p)"
    using k assms(6) by (simp add: refund_entry_def new_event_def refundCents_def)
  moreover have "\<forall>r\<in>set (outbox_events s'). payout_event pid r \<longrightarrow> ob_status r = ObSent"
    using ids by (auto simp: s' intro: suppressed_event)
  moreover have "snd (handleDisputeAutoRefundRequested g t did s') = s'" for g t
    using closed_dispute_rejects(3) [OF d' st, of g t]
    by (cases "did = []") (simp_all add: handleDisputeAutoRefundRequested_def)
  ultimately show ?thesis
    using p' closed_dispute_rejects(1,2) [OF d' st] payout_blocked_parked [OF p'] by auto
qed

definition example_open :: disputes_row where
  "example_open = new_dispute ''d1'' 5 \<lparr> dc_org = ''o1'', dc_bounty = ''b1'', dc_submission = ''s1'',
     dc_payout = Some example_disputed \<rparr> ''p1'' ''bad''"

definition example_refund_store :: db where
  "example_refund_store = example_dispute_store\<lparr>disputes := [example_open]\<rparr>"

lemma example_refundable:
  "dispute_row ''d1'' example_refund_store = Some example_open"
  "payout_row ''p1'' example_refund_store = Some example_disputed"
  "d_payout_id example_open = Some ''p1''" "d_status example_open = DisputeOpen" "d_org_id example_open = ''o1''"
  "p_status example_disputed = PayoutPending" "refundCents example_disputed = 1000"
  "p_amount_cents example_disputed = 1000" "p_proofwork_fee_cents example_disputed = None"
  by (simp_all add: example_refund_store_def example_open_def new_dispute_def dispute_eval refundCents_def
      zero_if_null_def)

lemma example_refund:
  "\<exists>d' s'. resolveDisputeAdmin example_gen 6 ''d1'' True None (''admin_token'', None) example_refund_store = Inr (d', s')"
proof -
  have "\<exists>s'. refund_credit example_gen 6 example_open example_disputed example_refund_store = Inr s'"
    unfolding refund_credit_def example_refundable
    by (simp add: example_refund_store_def example_dispute_store_def example_eval refund_entry_def new_event_def
        post_entry_def change_balance_def add_event_def int4_def example_refundable Let_def empty_db_def)
  then show ?thesis by (auto simp: resolveDisputeAdmin_def example_refundable refundDispute_eq)
qed

theorem refund_exactly_once_witness:
  "\<exists>d' s' e. resolveDisputeAdmin example_gen 6 ''d1'' True None (''admin_token'', None) example_refund_store = Inr (d', s') \<and>
     billing_events s' = billing_events example_refund_store @ [e] \<and> be_amount_cents e = 1000"
proof -
  obtain d' s' where r: "resolveDisputeAdmin example_gen 6 ''d1'' True None (''admin_token'', None)
      example_refund_store = Inr (d', s')" using example_refund by blast
  show ?thesis
    using refund_exactly_once [OF r example_refundable(1,3,2)] r
    by (simp add: example_refundable zero_if_null_def) blast
qed

section \<open>Open disputes are unique\<close>

definition one_open :: "db \<Rightarrow> bool" where
  "one_open s \<longleftrightarrow> (\<forall>pid. count_where (open_dispute_on pid) (disputes s) \<le> 1)"

lemma count_where_update_le:
  "(\<And>r. P r \<Longrightarrow> \<not> Q (f r)) \<Longrightarrow> count_where Q (update_where P f t) \<le> count_where Q t"
  by (induction t) auto

lemma one_open_close:
  assumes "one_open s" and "disputes s' = disputes (update_dispute did (close_dispute now did st actor r n) s)"
    and "st \<noteq> DisputeOpen"
  shows "one_open s'"
proof -
  have "count_where (open_dispute_on pid) (disputes s') \<le> count_where (open_dispute_on pid) (disputes s)" for pid
    unfolding assms(2) update_dispute_def using assms(3)
    by (simp, intro count_where_update_le) (simp add: open_dispute_on_def close_dispute_def)
  with assms(1) show ?thesis unfolding one_open_def using order_trans by blast
qed

lemma runner_disputes:
  "disputes (snd (handlePayoutRequested env gen now pid s)) = disputes s"
  "disputes (snd (handlePayoutConfirmRequested env now pid s)) = disputes s"
  by (auto simp: handlePayoutRequested_def payOnChain_def broadcastPayout_def record_broadcast_def
      payByProvider_def handlePayoutConfirmRequested_def markPayoutStatus_def upsert_transfer_def
      save_nonce_def Let_def split: sum.split prod.split option.split list.split)

lemma one_open_create:
  assumes "one_open s" and "createDispute gen now org payoutId submissionId reason actor s = Inr (d, s')"
  shows "one_open s'"
  using assms(2)
proof (rule createDispute_cases)
  fix ctx :: dispute_ctx and p :: payouts_row and hold
  assume "\<not> list_ex (open_dispute_on (p_id p)) (disputes s)" "d = new_dispute (gen 0) now ctx (p_id p) reason"
  then have "count_where (open_dispute_on pid) (disputes s @ [d]) \<le> max 1 (count_where (open_dispute_on pid) (disputes s))" for pid
    by (auto simp: new_dispute_def open_dispute_on_def list_ex_iff count_where_0)
  moreover assume "s' = writeAuditEvent (gen 2) now (fst actor) (snd actor) ''dispute.open'' ''dispute'' (gen 0)
               (enqueueOutbox (gen 1) now ''dispute.auto_refund.requested'' (PlDispute (gen 0))
                 (Some hold) (Some (''dispute:auto_refund:'' @ gen 0))
                 (suppressPayout now (p_id p)
                   (update_payout (p_id p) (\<lambda>q. q\<lparr>p_blocked_reason := Some ''dispute_open'',
                      p_updated_at := now\<rparr>) (s\<lparr>disputes := disputes s @ [d]\<rparr>))))"
  ultimately show "one_open s'" using assms(1) unfolding one_open_def
    by simp
qed

lemma one_open_cancel:
  assumes "one_open s" and "cancelDispute gen now org did actor s = Inr (d, s')"
  shows "one_open s'"
  using assms(2) one_open_close [OF assms(1), of s' did now DisputeCancelled actor]
  by (auto simp: cancelDispute_def unblock_payout_def Let_def split: if_split_asm option.split_asm sum.split_asm)

lemma one_open_resolve:
  assumes "one_open s" and "resolveDisputeAdmin gen now did refund notes actor s = Inr (d, s')"
  shows "one_open s'"
proof -
  have up: "upholdPayout gen now e p notes actor s = (d, s') \<Longrightarrow> d_id e = did \<Longrightarrow> one_open s'" for e p
    by (rule one_open_close [OF assms(1), of _ did now DisputeResolved actor "''uphold''" "notes"])
      (auto simp: upholdPayout_def unblock_payout_def Let_def update_dispute_def)
  have re: "refundDispute gen now e p notes actor s = Inr (d, s') \<Longrightarrow> one_open s'" for e p
  proof -
    assume "refundDispute gen now e p notes actor s = Inr (d, s')"
    then obtain s2 where 2: "refund_credit gen now e p s = Inr s2" "s' = refund_rows gen now e p notes actor s2"
      by (auto simp: refundDispute_eq split: sum.split_asm)
    show "one_open s'"
      by (rule one_open_close [OF assms(1), of _ "d_id e" now DisputeResolved actor "''refund''" "notes"])
        (use refund_credit_cases [OF 2(1)] in \<open>simp_all add: 2(2) refund_rows_def Let_def update_dispute_def\<close>)
  qed
  from assms show ?thesis
    by (auto simp: resolveDisputeAdmin_def dest: dispute_row_id intro: up re split: if_split_asm option.split_asm)
qed

text \<open>A payout has at most one open dispute: opening, cancelling, resolving and everything the
  payout runner does, the automatic refund included, keep this.\<close>

theorem at_most_one_open_dispute:
  assumes "one_open s"
  shows "(\<forall>gen now org pid sid reason actor d s'.
            createDispute gen now org pid sid reason actor s = Inr (d, s') \<longrightarrow> one_open s') \<and>
         (\<forall>gen now org did actor d s'. cancelDispute gen now org did actor s = Inr (d, s') \<longrightarrow> one_open s') \<and>
         (\<forall>gen now did refund notes actor d s'.
            resolveDisputeAdmin gen now did refund notes actor s = Inr (d, s') \<longrightarrow> one_open s') \<and>
         (\<forall>env gen evt now. one_open (snd (payout_runner_handler env gen evt now s)))"
proof -
  have "one_open s' = one_open s" if "disputes s' = disputes s" for s'
    using that by (simp add: one_open_def)
  then have "one_open (snd (payout_runner_handler env gen evt now s))" for env gen evt now
    using assms one_open_resolve [OF assms]
    by (auto simp: payout_runner_handler_def handleDisputeAutoRefundRequested_def Let_def runner_disputes
        split: outbox_payload.split sum.split)
  then show ?thesis
    by (intro conjI allI impI)
      (erule one_open_create [OF assms] one_open_cancel [OF assms] one_open_resolve [OF assms] | simp)+
qed

theorem at_most_one_open_dispute_witness:
  "\<exists>d s'. createDispute example_gen 5 ''o1'' (Some ''p1'') None ''bad'' (''org'', None) example_dispute_store = Inr (d, s') \<and>
     one_open s'"
proof -
  have "one_open example_dispute_store" by (simp add: one_open_def dispute_eval)
  from at_most_one_open_dispute [OF this] example_dispute_opened show ?thesis by metis
qed

section \<open>A refunded payout can be armed again\<close>

lemma update_where_ex:
  "list_ex P t \<Longrightarrow> (\<And>q. P q \<Longrightarrow> R (f q)) \<Longrightarrow> \<exists>r\<in>set (update_where P f t). R r"
  by (induction t) auto

lemma requeued_event:
  "\<exists>r\<in>set (outbox_events (requeuePayout rid now pid pl nextAt a b s)).
     payout_event pid r \<and> ob_status r = ObPending \<and> ob_available_at r = nextAt"
  by (cases "list_ex (payout_event pid) (outbox_events s)")
    (auto simp: requeuePayout_def insert_do_update_def payout_event_def outbox_key_def new_outbox_row_def
      intro!: update_where_ex)

text \<open>C35. A refunded payout is not protected: as long as its hold runs, the organisation can open
  another dispute on it (only \<open>paid\<close> payouts are refused) and cancel it, which unblocks the payout
  and queues its execution; once the hold is over the payout runner no longer parks it, so the
  worker is paid although the organisation has its refund, and no ledger entry takes it back.\<close>

theorem refunded_payout_rearmed:
  assumes "payout_row pid s = Some p" and "p_status p = PayoutRefunded" and "p_hold_until p = Some hold"
    and "now < hold" and "pid \<noteq> []" and "dispute_ctx_of (Some pid) None s = Some ctx"
    and "\<not> list_ex (open_dispute_on pid) (disputes s)" and "dispute_row (gen 0) s = None"
  shows "\<exists>d s1 d2 s2 p2.
           createDispute gen now (dc_org ctx) (Some pid) None reason actor s = Inr (d, s1) \<and>
           cancelDispute gen2 now2 (dc_org ctx) (d_id d) actor s1 = Inr (d2, s2) \<and>
           same_ledger s s2 \<and> payout_row pid s2 = Some p2 \<and> p_status p2 = PayoutRefunded \<and>
           (\<forall>t\<ge>hold. \<not> payout_parked t p2) \<and>
           (\<exists>r\<in>set (outbox_events s2). payout_event pid r \<and> ob_status r = ObPending)"
proof -
  have pid: "p_id p = pid" using assms(1) by (rule payout_row_id)
  have ctx: "dc_payout ctx = Some p"
    using assms by (auto simp: dispute_ctx_of_def ctx_of_submission_def)
  obtain s1 where c: "createDispute gen now (dc_org ctx) (Some pid) None reason actor s =
      Inr (new_dispute (gen 0) now ctx pid reason, s1)"
    using assms ctx pid by (simp add: createDispute_def Let_def)
  let ?d = "new_dispute (gen 0) now ctx pid reason"
  from c have rows: "payout_row pid s1 = Some (p\<lparr>p_blocked_reason := Some ''dispute_open'', p_updated_at := now\<rparr>)"
    "dispute_row (gen 0) s1 = Some ?d"
    by (rule createDispute_cases,
        use assms ctx pid in \<open>simp add: payout_row_update dispute_row_def find_append new_dispute_def\<close>)+
  have f: "d_id ?d = gen 0" "d_org_id ?d = dc_org ctx" "d_status ?d = DisputeOpen" "d_payout_id ?d = Some pid"
    by (simp_all add: new_dispute_def)
  obtain d2 s2 where k: "cancelDispute gen2 now2 (dc_org ctx) (gen 0) actor s1 = Inr (d2, s2)"
    using assms(5) by (simp add: cancelDispute_def rows f unblock_payout_def payout_row_update Let_def)
  let ?p2 = "p\<lparr>p_blocked_reason := None, p_updated_at := now2\<rparr>"
  have "payout_row pid s2 = Some ?p2"
    using k assms(5) by (auto simp: cancelDispute_def rows f unblock_payout_def payout_row_update Let_def)
  moreover have "p_status ?p2 = PayoutRefunded" "\<forall>t\<ge>hold. \<not> payout_parked t ?p2"
    using assms(2,3) by (simp_all add: payout_parked_def)
  moreover have "\<exists>r\<in>set (outbox_events s2). payout_event pid r \<and> ob_status r = ObPending"
    using k assms(5) requeued_event [where rid = "gen2 0" and now = now2 and pid = pid]
    by (auto simp: cancelDispute_def rows f unblock_payout_def payout_row_update Let_def) blast
  ultimately show ?thesis
    using c k f same_ledger_trans [OF createDispute_frame [OF c] cancelDispute_frame [OF k]]
    by (intro exI [of _ ?d] exI [of _ s1] exI [of _ d2] exI [of _ s2] exI [of _ ?p2]) simp
qed

theorem refunded_payout_rearmed_witness:
  "\<exists>d s1 d2 s2 p2.
     createDispute example_gen 5 ''o1'' (Some ''p1'') None ''again'' (''org'', None)
       (example_dispute_store\<lparr>payouts := [example_disputed\<lparr>p_status := PayoutRefunded\<rparr>]\<rparr>) = Inr (d, s1) \<and>
     cancelDispute example_gen 6 ''o1'' (d_id d) (''org'', None) s1 = Inr (d2, s2) \<and>
     payout_row ''p1'' s2 = Some p2 \<and> p_status p2 = PayoutRefunded \<and> \<not> payout_parked 100 p2"
proof -
  let ?p = "example_disputed\<lparr>p_status := PayoutRefunded\<rparr>"
  let ?s = "example_dispute_store\<lparr>payouts := [?p]\<rparr>"
  have a: "payout_row ''p1'' ?s = Some ?p" "p_status ?p = PayoutRefunded" "p_hold_until ?p = Some 100"
    "\<not> list_ex (open_dispute_on ''p1'') (disputes ?s)" "dispute_row (example_gen 0) ?s = None"
    by (simp_all add: dispute_eval)
  have c: "dispute_ctx_of (Some ''p1'') None ?s =
      Some \<lparr> dc_org = ''o1'', dc_bounty = ''b1'', dc_submission = ''s1'', dc_payout = Some ?p \<rparr>"
    by (simp add: dispute_ctx_of_def ctx_of_submission_def dispute_eval)
  show ?thesis
    using refunded_payout_rearmed [where gen = example_gen and now = 5 and reason = "''again''" and
        actor = "(''org'', None)" and ?gen2.0 = example_gen and ?now2.0 = 6, OF a(1-3) _ _ c a(4,5)]
    by simp blast
qed

end
