(* ===== verification/Jobs.thy ===== *)
theory Jobs
  imports Bounties
begin

text \<open>
  Jobs and their leases: the scheduler (\<open>findClaimableJob\<close>), leasing, release and reaping of
  \<open>src/src/store.ts\<close>, the job description handed to workers, and the routes \<open>next\<close>, \<open>claim\<close> and
  \<open>release\<close> of \<open>src/src/server.ts\<close>. Scores are exact rationals where the code has doubles.
  \<open>isLeaseExpired\<close> is the helper of \<open>src/src/utils.ts\<close>.
\<close>

section \<open>Reputation and duplicates\<close>

definition expectedPassRate :: "string \<Rightarrow> db \<Rightarrow> rat" where
  "expectedPassRate wid s =
     (case find (\<lambda>r. rep_worker_id r = wid) (reputation s) of
        None \<Rightarrow> 1 / 2
      | Some r \<Rightarrow> of_int (rep_alpha r) / of_int (rep_alpha r + rep_beta r))"

definition recordReputation :: "int \<Rightarrow> string \<Rightarrow> bool \<Rightarrow> db \<Rightarrow> db" where
  "recordReputation now wid passed s =
     (let row = find (\<lambda>r. rep_worker_id r = wid) (reputation s);
          alpha = (case row of None \<Rightarrow> 2 | Some r \<Rightarrow> rep_alpha r) + (if passed then 1 else 0);
          beta = (case row of None \<Rightarrow> 2 | Some r \<Rightarrow> rep_beta r) + (if passed then 0 else 1)
      in s\<lparr>reputation := insert_do_update (\<lambda>r. rep_worker_id r = wid)
             (\<lambda>r. r\<lparr>rep_alpha := alpha, rep_beta := beta, rep_updated_at := now\<rparr>)
             \<lparr> rep_worker_id = wid, rep_alpha = alpha, rep_beta = beta, rep_updated_at = now \<rparr>
             (reputation s)\<rparr>)"

definition workerDuplicateRate :: "string \<Rightarrow> db \<Rightarrow> rat" where
  "workerDuplicateRate wid s =
     (let recent = take 100 (order_desc s_created_at (filter (\<lambda>r. s_worker_id r = wid) (submissions s)));
          dup = count_where (\<lambda>r. s_status r = SubDuplicate) recent
      in if recent = [] then 0 else of_nat dup / of_nat (length recent))"

section \<open>Leases\<close>

definition isLeaseExpired :: "int \<Rightarrow> int option \<Rightarrow> bool" where
  "isLeaseExpired now e = (case e of None \<Rightarrow> False | Some t \<Rightarrow> t < now)"

definition active_status :: "job_status \<Rightarrow> bool" where
  "active_status st \<longleftrightarrow> st = JobClaimed \<or> st = JobSubmitted \<or> st = JobVerifying"

definition getActiveJobForWorker :: "string \<Rightarrow> db \<Rightarrow> job_obj option" where
  "getActiveJobForWorker wid s =
     map_option jobFromRow
       (find (\<lambda>r. j_lease_worker_id r = Some wid \<and> active_status (j_status r)) (order_desc j_created_at (jobs s)))"

text \<open>The worker is busy: a job it submitted, or holds under a lease that has not expired.\<close>

definition busy_with :: "int \<Rightarrow> string \<Rightarrow> jobs_row \<Rightarrow> bool" where
  "busy_with now wid r \<longleftrightarrow>
     j_lease_worker_id r = Some wid \<and>
     (j_status r = JobSubmitted \<or> j_status r = JobVerifying \<or>
      (j_status r = JobClaimed \<and> \<not> isLeaseExpired now (j_lease_expires_at r)))"

definition leasable :: "int \<Rightarrow> jobs_row \<Rightarrow> bool" where
  "leasable now r \<longleftrightarrow>
     j_status r = JobOpen \<or> (j_status r = JobClaimed \<and> isLeaseExpired now (j_lease_expires_at r))"

text \<open>One transaction under the worker's advisory lock.\<close>

definition leaseJob :: "string \<Rightarrow> int \<Rightarrow> string \<Rightarrow> string \<Rightarrow> int \<Rightarrow> db \<Rightarrow> job_obj option \<times> db" where
  "leaseJob nonce now jid wid ttl s =
     (if list_ex (busy_with now wid) (jobs s) then (None, s)
      else
        let sel = (\<lambda>r. j_id r = jid \<and> leasable now r);
            lease = (\<lambda>r. r\<lparr>j_status := JobClaimed, j_lease_worker_id := Some wid,
                           j_lease_expires_at := Some (now + ttl), j_lease_nonce := Some nonce\<rparr>)
        in (map_option (\<lambda>r. jobFromRow (lease r)) (find sel (jobs s)),
            s\<lparr>jobs := update_where sel lease (jobs s)\<rparr>))"

definition free_job :: "job_status \<Rightarrow> jobs_row \<Rightarrow> jobs_row" where
  "free_job st r = r\<lparr>j_status := st, j_lease_worker_id := None, j_lease_expires_at := None, j_lease_nonce := None\<rparr>"

definition releaseJobLease :: "string \<Rightarrow> string \<Rightarrow> string \<Rightarrow> db \<Rightarrow> job_obj option \<times> db" where
  "releaseJobLease jid wid nonce s =
     (let sel = (\<lambda>r. j_id r = jid \<and> j_lease_worker_id r = Some wid \<and> j_lease_nonce r = Some nonce \<and>
                     j_status r = JobClaimed)
      in (map_option (\<lambda>r. jobFromRow (free_job JobOpen r)) (find sel (jobs s)),
          s\<lparr>jobs := update_where sel (free_job JobOpen) (jobs s)\<rparr>))"

definition reapExpiredLeases :: "int \<Rightarrow> db \<Rightarrow> string list \<times> db" where
  "reapExpiredLeases now s =
     (let sel = (\<lambda>r. j_status r = JobClaimed \<and> isLeaseExpired now (j_lease_expires_at r))
      in (map j_id (filter sel (jobs s)), s\<lparr>jobs := update_where sel (free_job JobExpired) (jobs s)\<rparr>))"

section \<open>The scheduler\<close>

record find_opts =
  fo_capabilityTag :: "string option"
  fo_supportedCapabilityTags :: "string list option"
  fo_minPayoutCents :: "jsnum option"
  fo_taskType :: "string option"
  fo_excludeJobIds :: "string list"
  fo_requireJobId :: "string option"
  fo_requireBountyId :: "string option"

text \<open>\<open>coalesce(jobs.task_descriptor->>'type', bounties.task_descriptor->>'type')\<close>.\<close>

definition candidate_type :: "jobs_row \<Rightarrow> bounties_row \<Rightarrow> string option" where
  "candidate_type j b =
     (case j_task_descriptor j of
        Some td \<Rightarrow> Some (td_type td)
      | None \<Rightarrow> map_option td_type (b_task_descriptor b))"

text \<open>\<open>Array.from(new Set(xs))\<close> keeps first occurrences.\<close>

definition uniq :: "string list \<Rightarrow> string list" where
  "uniq xs = rev (remdups (rev xs))"

definition candidate_ok :: "int \<Rightarrow> find_opts \<Rightarrow> jobs_row \<times> bounties_row \<Rightarrow> bool" where
  "candidate_ok now opts jb \<longleftrightarrow>
     (case jb of (j, b) \<Rightarrow>
        b_status b = BountyPublished \<and> leasable now j \<and>
        (if truthy (fo_requireJobId opts) then Some (j_id j) = fo_requireJobId opts
         else truthy (fo_requireBountyId opts) \<longrightarrow> Some (b_id b) = fo_requireBountyId opts) \<and>
        (truthy (fo_taskType opts) \<longrightarrow> candidate_type j b = fo_taskType opts) \<and>
        j_id j \<notin> set (take 50 (uniq (fo_excludeJobIds opts))))"

text \<open>\<open>ORDER BY priority DESC, payout_cents DESC, created_at ASC LIMIT\<close> as stable sorts from the last
  key to the first.\<close>

definition candidates :: "int \<Rightarrow> find_opts \<Rightarrow> db \<Rightarrow> (jobs_row \<times> bounties_row) list" where
  "candidates now opts s =
     (let joined = List.map_filter (\<lambda>j. map_option (\<lambda>b. (j, b)) (bounty_row (j_bounty_id j) s)) (jobs s)
      in take (if truthy (fo_requireJobId opts) then 1 else 50)
           (order_desc (\<lambda>(j, b). b_priority b) (order_desc (\<lambda>(j, b). b_payout_cents b)
             (sort_key (\<lambda>(j, b). j_created_at j) (filter (candidate_ok now opts) joined)))))"

definition descriptor_of :: "job_obj \<Rightarrow> bounty_obj \<Rightarrow> task_descriptor option" where
  "descriptor_of job bounty =
     (case jo_taskDescriptor job of Some td \<Rightarrow> Some td | None \<Rightarrow> bo_taskDescriptor bounty)"

definition job_tags :: "task_descriptor option \<Rightarrow> string list" where
  "job_tags d =
     (case d of None \<Rightarrow> [''browser'']
      | Some td \<Rightarrow> if td_capability_tags td = [] then [''browser''] else td_capability_tags td)"

definition tags_supported :: "worker_obj \<Rightarrow> find_opts \<Rightarrow> string list \<Rightarrow> bool" where
  "tags_supported worker opts tags =
     (case fo_supportedCapabilityTags opts of
        Some supported \<Rightarrow> list_all (\<lambda>t. t \<in> set (filter (\<lambda>x. x \<noteq> []) supported)) tags
      | None \<Rightarrow> \<not> (map_of (wo_capabilities worker) ''browser'' = Some (JBool False) \<and> ''browser'' \<in> set tags))"

definition below_min :: "jsnum option \<Rightarrow> int \<Rightarrow> bool" where
  "below_min m payout =
     (case m of None \<Rightarrow> False | Some NaN \<Rightarrow> False | Some (Infinity pos) \<Rightarrow> pos
      | Some (Fin q) \<Rightarrow> q \<noteq> 0 \<and> of_int payout < q)"

definition stale :: "int \<Rightarrow> int option \<Rightarrow> int \<Rightarrow> bool" where
  "stale now sla created =
     (case sla of None \<Rightarrow> False
      | Some sec \<Rightarrow> sec > 0 \<and> created \<noteq> 0 \<and> now - created > sec * 1000)"

text \<open>The filters of the loop, after the query.\<close>

definition eligible ::
    "url_parser \<Rightarrow> bool \<Rightarrow> int \<Rightarrow> worker_obj \<Rightarrow> find_opts \<Rightarrow> db \<Rightarrow> job_obj \<times> bounty_obj \<Rightarrow> bool" where
  "eligible parse_url production now worker opts s jb \<longleftrightarrow>
     (case jb of (job, bounty) \<Rightarrow>
        let d = descriptor_of job bounty;
            public = systemPublicOrigins parse_url production
                       (trim (case d of None \<Rightarrow> [] | Some td \<Rightarrow> td_type td)) s;
            tags = job_tags d
        in jo_id job \<notin> set (fo_excludeJobIds opts) \<and>
           list_all (\<lambda>o'. o' \<in> set public \<or> originAllowed parse_url production (bo_orgId bounty) o' s)
             (bo_allowedOrigins bounty) \<and>
           \<not> below_min (fo_minPayoutCents opts) (bo_payoutCents bounty) \<and>
           (truthy (fo_capabilityTag opts) \<longrightarrow> the (fo_capabilityTag opts) \<in> set tags) \<and>
           tags_supported worker opts tags \<and>
           \<not> stale now (Option.bind d td_freshness_sla_sec) (jo_createdAt job))"

definition score :: "rat \<Rightarrow> rat \<Rightarrow> bounty_obj \<Rightarrow> rat" where
  "score rep dupRate bounty =
     (let payout = of_int (bo_payoutCents bounty)
      in of_int (bo_priority bounty) * 100000 + payout
         - of_int (bo_requiredProofs bounty) * (1 - rep) * 500 - payout * dupRate * (2 / 10))"

text \<open>The loop keeps the first candidate of the highest score.\<close>

fun best_of :: "('c \<Rightarrow> rat) \<Rightarrow> 'c option \<Rightarrow> 'c list \<Rightarrow> 'c option" where
  "best_of f best [] = best"
| "best_of f None (c # cs) = best_of f (Some c) cs"
| "best_of f (Some b) (c # cs) = best_of f (Some (if f c > f b then c else b)) cs"

text \<open>The objects built from a joined row leave out \<open>finalReason\<close>.\<close>

definition candidate_objs :: "jobs_row \<times> bounties_row \<Rightarrow> job_obj \<times> bounty_obj" where
  "candidate_objs jb = (case jb of (j, b) \<Rightarrow> ((jobFromRow j)\<lparr>jo_finalReason := None\<rparr>, bountyFromRow b))"

definition findClaimableJob ::
    "url_parser \<Rightarrow> bool \<Rightarrow> int \<Rightarrow> worker_obj \<Rightarrow> find_opts \<Rightarrow> db \<Rightarrow> (job_obj \<times> bounty_obj) option" where
  "findClaimableJob parse_url production now worker opts s =
     (let rep = expectedPassRate (wo_id worker) s; dupRate = workerDuplicateRate (wo_id worker) s
      in best_of (\<lambda>(job, bounty). score rep dupRate bounty) None
           (filter (eligible parse_url production now worker opts s)
              (map candidate_objs (candidates now opts s))))"

section \<open>The job description\<close>

record job_spec =
  sp_jobId :: string
  sp_bountyId :: string
  sp_requiredProofs :: int
  sp_title :: string
  sp_description :: string
  sp_allowedOrigins :: "string list"
  sp_timeBudgetSec :: nat
  sp_maxRequestsPerMinute :: nat
  sp_fingerprintClass :: string
  sp_locale :: string
  sp_timezone :: string
  sp_viewport :: "nat \<times> nat"
  sp_taskDescriptor :: "task_descriptor option"
  sp_journey :: json
  sp_requiredFiles :: "string list"

definition has_startUrl :: "json \<Rightarrow> bool" where
  "has_startUrl j =
     (case j of JObj fs \<Rightarrow> (case map_of fs ''startUrl'' of Some (JStr _) \<Rightarrow> True | _ \<Rightarrow> False) | _ \<Rightarrow> False)"

definition first_origin :: "string list \<Rightarrow> string" where
  "first_origin os = (case os of [] \<Rightarrow> ''about:blank'' | o' # _ \<Rightarrow> o')"

definition buildJobSpec :: "job_obj \<Rightarrow> bounty_obj \<Rightarrow> job_spec" where
  "buildJobSpec job bounty =
     (let fp = jo_fingerprintClass job; eu = str_includes fp ''eu''; url = first_origin (bo_allowedOrigins bounty)
      in \<lparr> sp_jobId = jo_id job, sp_bountyId = bo_id bounty, sp_requiredProofs = bo_requiredProofs bounty,
           sp_title = bo_title bounty, sp_description = bo_description bounty,
           sp_allowedOrigins = bo_allowedOrigins bounty, sp_timeBudgetSec = 240,
           sp_maxRequestsPerMinute = 30, sp_fingerprintClass = fp,
           sp_locale = (if eu then ''en-GB'' else ''en-US''),
           sp_timezone = (if eu then ''Europe/London'' else ''America/Los_Angeles''),
           sp_viewport = (if startsWith fp ''mobile'' then (390, 844) else (1365, 768)),
           sp_taskDescriptor = descriptor_of job bounty,
           sp_journey = (if has_startUrl (bo_journey bounty) then bo_journey bounty
                         else JObj [(''startUrl'', JStr url), (''milestones'', JArr []),
                                (''successCondition'',
                                   JObj [(''type'', JStr ''url_matches''), (''value'', JStr url)])]),
           sp_requiredFiles = [''manifest.json'', ''summary.md'', ''repro_steps.md''] \<rparr>)"

section \<open>Load\<close>

definition unfinished :: "verifications_row \<Rightarrow> bool" where
  "unfinished r \<longleftrightarrow> v_status r = VerQueued \<or> v_status r = VerInProgress"

definition verifierBacklog :: "db \<Rightarrow> nat" where
  "verifierBacklog s = count_where unfinished (verifications s)"

text \<open>Age in seconds of the oldest row, 0 when there is none.\<close>

definition oldest_age :: "int \<Rightarrow> int list \<Rightarrow> rat" where
  "oldest_age now ts = (if ts = [] then 0 else of_int (now - Min (set ts)) / 1000)"

definition verifierBacklogOldestAgeSec :: "int \<Rightarrow> db \<Rightarrow> rat" where
  "verifierBacklogOldestAgeSec now s = oldest_age now (map v_created_at (filter unfinished (verifications s)))"

definition outboxOldestPendingAgeSec :: "int \<Rightarrow> string option \<Rightarrow> db \<Rightarrow> rat" where
  "outboxOldestPendingAgeSec now topic s =
     oldest_age now (map ob_created_at (filter (\<lambda>r. ob_status r = ObPending \<and>
       (truthy topic \<longrightarrow> Some (ob_topic r) = topic)) (outbox_events s)))"

definition artifactScanBacklogOldestAgeSec :: "int \<Rightarrow> db \<Rightarrow> rat" where
  "artifactScanBacklogOldestAgeSec now s =
     oldest_age now (map a_created_at (filter (\<lambda>r. a_status r = ArtUploaded) (artifacts s)))"

section \<open>Routes\<close>

text \<open>Limits from the environment; an age limit counts when it is positive (NaN is not).\<close>

record intake_env =
  in_paused :: bool
  in_descriptors :: bool
  in_maxBacklog :: jsnum
  in_maxVerifierAge :: jsnum
  in_maxOutboxAge :: jsnum
  in_maxScanAge :: jsnum

definition num_gt :: "rat \<Rightarrow> jsnum \<Rightarrow> bool" where
  "num_gt x bound = (case bound of NaN \<Rightarrow> False | Infinity pos \<Rightarrow> \<not> pos | Fin q \<Rightarrow> x > q)"

definition too_old :: "jsnum \<Rightarrow> rat \<Rightarrow> bool" where
  "too_old bound age \<longleftrightarrow> (case bound of Fin q \<Rightarrow> q > 0 \<and> age > q | _ \<Rightarrow> False)"

datatype next_answer = Busy string | Idle | Claimable job_spec

definition strip_descriptor :: "intake_env \<Rightarrow> job_spec \<Rightarrow> job_spec" where
  "strip_descriptor env spec = (if in_descriptors env then spec else spec\<lparr>sp_taskDescriptor := None\<rparr>)"

definition allowed_opts :: "intake_env \<Rightarrow> find_opts \<Rightarrow> find_opts" where
  "allowed_opts env opts =
     (if in_descriptors env then opts
      else opts\<lparr>fo_capabilityTag := None, fo_taskType := None, fo_supportedCapabilityTags := None\<rparr>)"

definition route_next ::
    "url_parser \<Rightarrow> bool \<Rightarrow> intake_env \<Rightarrow> int \<Rightarrow> worker_obj \<Rightarrow> find_opts \<Rightarrow> db \<Rightarrow> next_answer \<times> db" where
  "route_next parse_url production env now worker opts s =
     (let s1 = touchWorkerLastSeen (wo_id worker) now s
      in case getActiveJobForWorker (wo_id worker) s1 of
           Some job \<Rightarrow> (Busy (jo_id job), s1)
         | None \<Rightarrow>
             if in_paused env \<or> num_gt (of_nat (verifierBacklog s1)) (in_maxBacklog env)
                \<or> too_old (in_maxVerifierAge env) (verifierBacklogOldestAgeSec now s1)
                \<or> too_old (in_maxOutboxAge env) (outboxOldestPendingAgeSec now None s1)
                \<or> too_old (in_maxScanAge env) (artifactScanBacklogOldestAgeSec now s1)
             then (Idle, s1)
             else (case findClaimableJob parse_url production now worker (allowed_opts env opts) s1 of
                 None \<Rightarrow> (Idle, s1)
               | Some (job, bounty) \<Rightarrow> (Claimable (strip_descriptor env (buildJobSpec job bounty)), s1)))"

definition lease_ttl_ms :: int where
  "lease_ttl_ms = 20 * 60 * 1000"

record claim_answer =
  ca_job :: job_spec
  ca_leaseExpiresAt :: "int option"
  ca_leaseNonce :: "string option"

definition route_claim ::
    "intake_env \<Rightarrow> string \<Rightarrow> int \<Rightarrow> worker_obj \<Rightarrow> string \<Rightarrow> db \<Rightarrow> claim_answer response \<times> db" where
  "route_claim env nonce now worker jid s =
     (if getActiveJobForWorker (wo_id worker) s \<noteq> None then (Reject 409 ''already_claimed'', s)
      else case getJob jid s of
          None \<Rightarrow> (Reject 404 ''not_found'', s)
        | Some job \<Rightarrow>
            if stale now (Option.bind (jo_taskDescriptor job) td_freshness_sla_sec) (jo_createdAt job)
            then (Reject 409 ''stale_job'', s)
            else if jo_status job \<noteq> JobOpen \<and> \<not> isLeaseExpired now (jo_leaseExpiresAt job)
            then (Reject 409 ''not_available'', s)
            else (case leaseJob nonce now jid (wo_id worker) lease_ttl_ms s of
                (None, s') \<Rightarrow> (Reject 409 ''not_available'', s')
              | (Some lease, s') \<Rightarrow>
                  (case getBounty (jo_bountyId job) s' of
                     None \<Rightarrow> (Reject 500 ''internal'', s')
                   | Some bounty \<Rightarrow>
                       (Ok \<lparr> ca_job = strip_descriptor env (buildJobSpec lease bounty),
                             ca_leaseExpiresAt = jo_leaseExpiresAt lease,
                             ca_leaseNonce = jo_leaseNonce lease \<rparr>, s'))))"

definition route_release ::
    "string \<Rightarrow> int \<Rightarrow> worker_obj \<Rightarrow> string \<Rightarrow> string \<Rightarrow> db \<Rightarrow> unit response \<times> db" where
  "route_release rid now worker jid nonce s =
     (case releaseJobLease jid (wo_id worker) nonce s of
        (Some _, s') \<Rightarrow>
          (Ok (), writeAuditEvent rid now ''worker'' (Some (wo_id worker)) ''job.lease_release'' ''job'' jid s')
      | (None, s') \<Rightarrow>
          (case getJob jid s' of
             None \<Rightarrow> (Reject 404 ''not_found'', s')
           | Some job \<Rightarrow>
               if jo_leaseWorkerId job \<noteq> Some (wo_id worker) then (Reject 403 ''forbidden'', s')
               else if truthy (jo_leaseNonce job) \<and> jo_leaseNonce job \<noteq> Some nonce
               then (Reject 403 ''forbidden'', s')
               else (Reject 409 ''not_available'', s')))"

section \<open>Leases are exclusive\<close>

lemmas lease_defs = leasable_def busy_with_def isLeaseExpired_def free_job_def

lemma isLeaseExpired_Some [simp]: "isLeaseExpired now (Some t) \<longleftrightarrow> t < now"
  by (simp add: isLeaseExpired_def)

lemma leaseJob_cases:
  assumes "leaseJob nonce now jid wid ttl s = (Some job, s')"
  obtains r where "\<not> list_ex (busy_with now wid) (jobs s)" and "r \<in> set (jobs s)" and "j_id r = jid"
    and "leasable now r"
    and "job = jobFromRow (r\<lparr>j_status := JobClaimed, j_lease_worker_id := Some wid,
               j_lease_expires_at := Some (now + ttl), j_lease_nonce := Some nonce\<rparr>)"
    and "s' = s\<lparr>jobs := update_where (\<lambda>r. j_id r = jid \<and> leasable now r)
           (\<lambda>r. r\<lparr>j_status := JobClaimed, j_lease_worker_id := Some wid,
               j_lease_expires_at := Some (now + ttl), j_lease_nonce := Some nonce\<rparr>) (jobs s)\<rparr>"
proof -
  let ?sel = "\<lambda>r. j_id r = jid \<and> leasable now r"
  from assms obtain r where r: "find ?sel (jobs s) = Some r"
    and "\<not> list_ex (busy_with now wid) (jobs s)"
    and "job = jobFromRow (r\<lparr>j_status := JobClaimed, j_lease_worker_id := Some wid,
               j_lease_expires_at := Some (now + ttl), j_lease_nonce := Some nonce\<rparr>)"
    and "s' = s\<lparr>jobs := update_where ?sel
           (\<lambda>r. r\<lparr>j_status := JobClaimed, j_lease_worker_id := Some wid,
               j_lease_expires_at := Some (now + ttl), j_lease_nonce := Some nonce\<rparr>) (jobs s)\<rparr>"
    by (auto simp: leaseJob_def Let_def split: if_split_asm)
  with find_SomeD [OF r] show thesis by (intro that) auto
qed

lemma leaseJob_refused:
  assumes "\<And>r. r \<in> set (jobs s) \<Longrightarrow> j_id r = jid \<Longrightarrow> \<not> leasable now r"
  shows "leaseJob nonce now jid wid ttl s = (None, s)"
proof -
  have "find (\<lambda>r. j_id r = jid \<and> leasable now r) (jobs s) = None" using assms by (auto simp: find_None)
  moreover have "update_where (\<lambda>r. j_id r = jid \<and> leasable now r) f (jobs s) = jobs s" for f
    by (rule update_where_none) (use assms in auto)
  ultimately show ?thesis by (simp add: leaseJob_def Let_def)
qed

lemma leaseJob_busy:
  "r \<in> set (jobs s) \<Longrightarrow> busy_with now wid r \<Longrightarrow> leaseJob nonce now jid wid ttl s = (None, s)"
  by (auto simp: leaseJob_def list_ex_iff)

lemma same_job: "distinct (map j_id (jobs s)) \<Longrightarrow> r \<in> set (jobs s) \<Longrightarrow> q \<in> set (jobs s) \<Longrightarrow> j_id r = j_id q \<Longrightarrow> r = q"
  by (auto simp: distinct_map dest: inj_onD)

lemma find_only:
  assumes "r \<in> set t" and "P r" and "\<And>x. x \<in> set t \<Longrightarrow> P x \<Longrightarrow> x = r"
  shows "find P t = Some r"
proof -
  have "find P t \<noteq> None" using assms(1,2) by (metis find_None)
  then obtain x where x: "find P t = Some x" by blast
  from assms(3) find_SomeD [OF x] have "x = r" by blast
  with x show ?thesis by simp
qed

lemma update_where_compose:
  assumes "\<And>x. x \<in> set t \<Longrightarrow> P x \<Longrightarrow> Q (f x) \<and> R x \<and> g (f x) = h x"
    and "\<And>x. x \<in> set t \<Longrightarrow> \<not> P x \<Longrightarrow> \<not> Q x \<and> \<not> R x"
  shows "update_where Q g (update_where P f t) = update_where R h t"
  unfolding update_where_def map_map using assms by (intro map_cong) simp_all

text \<open>C32. A lease is exclusive in both directions: a job is leased only if it was open or its lease
  had run out and the worker had no active job; and until the new lease runs out, nobody, the
  holder included, can lease the job again, and the holder can lease no other job either.\<close>

theorem lease_exclusive:
  assumes "leaseJob nonce now jid wid ttl s = (Some job, s')" and "distinct (map j_id (jobs s))"
    and "t \<le> now + ttl"
  shows "(\<exists>r. job_row jid s = Some r \<and> leasable now r) \<and> \<not> list_ex (busy_with now wid) (jobs s) \<and>
         jo_leaseWorkerId job = Some wid \<and> jo_leaseExpiresAt job = Some (now + ttl) \<and>
         getJob jid s' = Some job \<and>
         (\<forall>n w d. leaseJob n t jid w d s' = (None, s')) \<and>
         (\<forall>n j d. leaseJob n t j wid d s' = (None, s'))"
  using assms(1)
proof (rule leaseJob_cases)
  fix r
  let ?f = "\<lambda>r. r\<lparr>j_status := JobClaimed, j_lease_worker_id := Some wid,
               j_lease_expires_at := Some (now + ttl), j_lease_nonce := Some nonce\<rparr>"
  assume busy: "\<not> list_ex (busy_with now wid) (jobs s)" and r: "r \<in> set (jobs s)" "j_id r = jid" "leasable now r"
    and job: "job = jobFromRow (?f r)"
    and s': "s' = s\<lparr>jobs := update_where (\<lambda>r. j_id r = jid \<and> leasable now r) ?f (jobs s)\<rparr>"
  have row: "job_row jid s = Some r" unfolding job_row_def by (rule find_unique [OF assms(2) r(1,2)])
  have held: "q = ?f r" if "q \<in> set (jobs s')" "j_id q = jid" for q
  proof -
    from that obtain x where x: "x \<in> set (jobs s)" "q = (if j_id x = jid \<and> leasable now x then ?f x else x)"
      by (auto simp: s' in_set_update_where)
    with that have "j_id x = jid" by (simp split: if_split_asm)
    then have "x = r" using same_job [OF assms(2) x(1) r(1)] r(2) by simp
    with x r show ?thesis by simp
  qed
  have in': "?f r \<in> set (jobs s')" using r by (auto simp: s' in_set_update_where)
  have "distinct (map j_id (jobs s'))" using assms(2) by (simp add: s' map_update_where)
  then have "find (\<lambda>q. j_id q = jid) (jobs s') = Some (?f r)"
    by (rule find_unique) (use in' r in auto)
  then have "getJob jid s' = Some job" by (simp add: getJob_def job)
  moreover have "leaseJob n t jid w d s' = (None, s')" for n w d
    by (rule leaseJob_refused, drule (1) held) (use assms(3) in \<open>simp add: leasable_def\<close>)
  moreover have "leaseJob n t j wid d s' = (None, s')" for n j d
    by (rule leaseJob_busy [OF in']) (use assms(3) in \<open>simp add: busy_with_def\<close>)
  ultimately show ?thesis
    using row r busy by (auto simp: job jobFromRow_def)
qed

definition example_job_store :: db where
  "example_job_store = example_store\<lparr>jobs := [example_job], bounties := [example_bounty\<lparr>b_status := BountyPublished\<rparr>]\<rparr>"

lemma example_lease:
  "leaseJob ''n'' 5 ''j1'' ''w1'' 100 example_job_store =
     (Some (jobFromRow (example_job\<lparr>j_status := JobClaimed, j_lease_worker_id := Some ''w1'',
        j_lease_expires_at := Some 105, j_lease_nonce := Some ''n''\<rparr>)),
      example_job_store\<lparr>jobs := [example_job\<lparr>j_status := JobClaimed, j_lease_worker_id := Some ''w1'',
        j_lease_expires_at := Some 105, j_lease_nonce := Some ''n''\<rparr>]\<rparr>)"
  by (simp add: leaseJob_def example_job_store_def example_job_def lease_defs Let_def)

theorem lease_exclusive_witness:
  "\<exists>job s'. leaseJob ''n'' 5 ''j1'' ''w1'' 100 example_job_store = (Some job, s') \<and>
     leaseJob ''m'' 50 ''j1'' ''w2'' 100 s' = (None, s')"
proof -
  have "distinct (map j_id (jobs example_job_store))" by (simp add: example_job_store_def)
  from lease_exclusive [OF example_lease this, of 50] example_lease show ?thesis by auto
qed

text \<open>Releasing undoes leasing: the holder can give the job back with the nonce it got; the job
  is open again without a trace of the lease and every other table and job is as before.\<close>

theorem lease_release_roundtrip:
  assumes "leaseJob nonce now jid wid ttl s = (Some job, s')" and "distinct (map j_id (jobs s))"
    and "job_row jid s = Some r"
  shows "releaseJobLease jid wid nonce s' =
     (Some (jobFromRow (free_job JobOpen r)),
      s\<lparr>jobs := update_where (\<lambda>q. j_id q = jid) (free_job JobOpen) (jobs s)\<rparr>)"
  using assms(1)
proof (rule leaseJob_cases)
  fix q
  let ?f = "\<lambda>r. r\<lparr>j_status := JobClaimed, j_lease_worker_id := Some wid,
               j_lease_expires_at := Some (now + ttl), j_lease_nonce := Some nonce\<rparr>"
  let ?sel = "\<lambda>r. j_id r = jid \<and> j_lease_worker_id r = Some wid \<and> j_lease_nonce r = Some nonce \<and> j_status r = JobClaimed"
  assume q: "q \<in> set (jobs s)" "j_id q = jid" "leasable now q"
    and s': "s' = s\<lparr>jobs := update_where (\<lambda>r. j_id r = jid \<and> leasable now r) ?f (jobs s)\<rparr>"
  have "q = r" using find_unique [OF assms(2) q(1,2)] assms(3) by (simp add: job_row_def)
  have only: "x = r" if "x \<in> set (jobs s)" "j_id x = jid" for x
    using same_job [OF assms(2) that(1) q(1)] that q \<open>q = r\<close> by simp
  have r: "r \<in> set (jobs s)" "j_id r = jid" "leasable now r" using q \<open>q = r\<close> by simp_all
  have "update_where ?sel (free_job JobOpen) (jobs s') = update_where (\<lambda>q. j_id q = jid) (free_job JobOpen) (jobs s)"
  proof -
    have "leasable now x" if "x \<in> set (jobs s)" "j_id x = jid" for x using only that r by simp
    then show ?thesis unfolding s' by (simp, intro update_where_compose) (auto simp: free_job_def)
  qed
  moreover have "find ?sel (jobs s') = Some (?f r)"
  proof (rule find_only)
    show "?f r \<in> set (jobs s')" using r by (auto simp: s' in_set_update_where)
    show "?sel (?f r)" using r by simp
    fix x assume "x \<in> set (jobs s')" "?sel x"
    then obtain y where y: "y \<in> set (jobs s)" "x = (if j_id y = jid \<and> leasable now y then ?f y else y)" "j_id x = jid"
      by (auto simp: s' in_set_update_where)
    then have "j_id y = jid" by (simp split: if_split_asm)
    with y only r show "x = ?f r" by simp
  qed
  moreover have "free_job JobOpen (?f r) = free_job JobOpen r" by (simp add: free_job_def)
  ultimately show ?thesis by (simp add: releaseJobLease_def s' Let_def)
qed

theorem lease_release_roundtrip_witness:
  "releaseJobLease ''j1'' ''w1'' ''n'' (snd (leaseJob ''n'' 5 ''j1'' ''w1'' 100 example_job_store)) =
     (Some (jobFromRow example_job), example_job_store)"
proof -
  have "distinct (map j_id (jobs example_job_store))" "job_row ''j1'' example_job_store = Some example_job"
    by (simp_all add: example_job_store_def job_row_def example_job_def)
  from lease_release_roundtrip [OF example_lease this] show ?thesis
    by (simp add: example_lease) (simp add: example_job_store_def example_job_def free_job_def)
qed

section \<open>One active job per worker\<close>

definition one_active :: "int \<Rightarrow> db \<Rightarrow> bool" where
  "one_active now s \<longleftrightarrow> (\<forall>wid. count_where (busy_with now wid) (jobs s) \<le> 1)"

lemma count_where_mono:
  "(\<And>r. r \<in> set t \<Longrightarrow> P r \<Longrightarrow> Q r) \<Longrightarrow> count_where P t \<le> count_where Q t"
  by (induction t) auto

lemma count_update_le:
  "(\<And>r. r \<in> set t \<Longrightarrow> Q (if P r then f r else r) \<Longrightarrow> Q r) \<Longrightarrow> count_where Q (update_where P f t) \<le> count_where Q t"
  by (induction t) (auto split: if_split_asm)

lemma count_selected_le_1:
  assumes "distinct (map k t)" and "\<And>r. r \<in> set t \<Longrightarrow> Q (if P r then f r else r) \<Longrightarrow> k r = x"
  shows "count_where Q (update_where P f t) \<le> 1"
  using assms
proof (induction t)
  case (Cons a t)
  have "count_where Q (update_where P f t) = 0" if "Q (if P a then f a else a)"
  proof -
    have "k a = x" using Cons.prems(2) [of a] that by simp
    then have "k r \<noteq> x" if "r \<in> set t" for r using Cons.prems(1) that by (metis distinct.simps(2) image_eqI list.map(2) list.set_map)
    then have "\<not> Q (if P r then f r else r)" if "r \<in> set t" for r using Cons.prems(2) that by (meson list.set_intros(2))
    then show ?thesis by (auto simp: count_where_0 in_set_update_where)
  qed
  moreover have "count_where Q (update_where P f t) \<le> 1" using Cons by simp
  ultimately show ?case by simp
qed simp

lemma one_active_later:
  assumes "one_active t s" and "t \<le> now" shows "one_active now s"
proof -
  have "busy_with now w r \<Longrightarrow> busy_with t w r" for w r
    using assms(2) by (auto simp: busy_with_def isLeaseExpired_def split: option.split_asm)
  then have "count_where (busy_with now w) (jobs s) \<le> count_where (busy_with t w) (jobs s)" for w
    by (rule count_where_mono)
  with assms(1) show ?thesis unfolding one_active_def using order_trans by blast
qed

text \<open>A worker never has two active jobs: leasing (whatever job, whenever), giving a lease back and
  reaping keep the number of jobs that each worker has submitted or holds under a running lease at
  one or less, and the passing of time does not add any.\<close>

theorem one_active_job_per_worker:
  assumes "one_active t s" and "t \<le> now" and "distinct (map j_id (jobs s))"
  shows "one_active now (snd (leaseJob nonce now jid wid ttl s)) \<and>
         one_active now (snd (releaseJobLease jid wid nonce s)) \<and>
         one_active now (snd (reapExpiredLeases now s))"
proof -
  have now: "count_where (busy_with now w) (jobs s) \<le> 1" for w
    using one_active_later [OF assms(1,2)] by (simp add: one_active_def)
  let ?sel = "\<lambda>r. j_id r = jid \<and> leasable now r"
  let ?f = "\<lambda>r. r\<lparr>j_status := JobClaimed, j_lease_worker_id := Some wid,
               j_lease_expires_at := Some (now + ttl), j_lease_nonce := Some nonce\<rparr>"
  have lease: "count_where (busy_with now w) (update_where ?sel ?f (jobs s)) \<le> 1"
    if "\<not> list_ex (busy_with now wid) (jobs s)" for w
  proof (cases "w = wid")
    case True
    show ?thesis
      by (rule count_selected_le_1 [OF assms(3), where x = jid])
        (use that True in \<open>auto simp: list_ex_iff split: if_split_asm\<close>)
  next
    case False
    have "count_where (busy_with now w) (update_where ?sel ?f (jobs s)) \<le> count_where (busy_with now w) (jobs s)"
      by (rule count_update_le) (use False in \<open>auto simp: busy_with_def split: if_split_asm\<close>)
    with now show ?thesis using order_trans by blast
  qed
  have free: "count_where (busy_with now w) (update_where P (free_job st) (jobs s)) \<le> 1" for w P st
  proof -
    have "count_where (busy_with now w) (update_where P (free_job st) (jobs s)) \<le> count_where (busy_with now w) (jobs s)"
      by (rule count_update_le) (auto simp: busy_with_def free_job_def split: if_split_asm)
    with now show ?thesis using order_trans by blast
  qed
  show ?thesis
    using now lease free
    by (simp add: one_active_def leaseJob_def releaseJobLease_def reapExpiredLeases_def Let_def)
qed

theorem one_active_job_per_worker_witness:
  "one_active 5 (snd (leaseJob ''n'' 5 ''j1'' ''w1'' 100 example_job_store)) \<and>
   list_ex (busy_with 5 ''w1'') (jobs (snd (leaseJob ''n'' 5 ''j1'' ''w1'' 100 example_job_store)))"
proof -
  have "one_active 5 example_job_store" "distinct (map j_id (jobs example_job_store))"
    by (simp_all add: one_active_def example_job_store_def example_job_def busy_with_def)
  from one_active_job_per_worker [where nonce = "''n''" and jid = "''j1''" and wid = "''w1''" and ttl = 100,
      OF this(1) order_refl this(2)]
  show ?thesis by (simp add: example_lease busy_with_def)
qed

section \<open>Reaped jobs\<close>

lemma map_filter_in: "y \<in> set (List.map_filter f xs) \<longleftrightarrow> (\<exists>x\<in>set xs. f x = Some y)"
  by (induction xs) (auto simp: map_filter_simps split: option.splits)

lemma best_of_SomeD:
  "best_of f b cs = Some x \<Longrightarrow> (b = Some x \<or> x \<in> set cs)"
  by (induction f b cs rule: best_of.induct) (auto split: if_split_asm)

lemma candidatesD:
  "jb \<in> set (candidates now opts s) \<Longrightarrow>
     candidate_ok now opts jb \<and> fst jb \<in> set (jobs s) \<and> bounty_row (j_bounty_id (fst jb)) s = Some (snd jb)"
  by (auto simp: candidates_def map_filter_in dest!: in_set_takeD)

lemma findClaimableJob_SomeD:
  assumes "findClaimableJob parse_url production now worker opts s = Some (job, bounty)"
  obtains j b where "j \<in> set (jobs s)" and "bounty_row (j_bounty_id j) s = Some b"
    and "candidate_ok now opts (j, b)" and "candidate_objs (j, b) = (job, bounty)"
    and "eligible parse_url production now worker opts s (job, bounty)"
proof -
  from assms have "(job, bounty) \<in> set (filter (eligible parse_url production now worker opts s)
      (map candidate_objs (candidates now opts s)))"
    by (auto simp: findClaimableJob_def Let_def dest: best_of_SomeD)
  then show thesis by (auto dest!: candidatesD intro!: that)
qed

text \<open>A reaped job is lost: the lease reaper does not reopen the jobs whose leases have run out but
  marks them expired, and such a job is never offered by the scheduler and never leased again,
  although an unreaped one with the same lease would be.\<close>

theorem reaped_job_lost:
  assumes "reapExpiredLeases now s = (ids, s')" and "jid \<in> set ids" and "distinct (map j_id (jobs s))"
  shows "(\<exists>r. job_row jid s = Some r \<and> leasable now r) \<and>
         (\<forall>n t w ttl. leaseJob n t jid w ttl s' = (None, s')) \<and>
         (\<forall>parse production t worker opts job bounty.
            findClaimableJob parse production t worker opts s' = Some (job, bounty) \<longrightarrow> jo_id job \<noteq> jid)"
proof -
  let ?sel = "\<lambda>r. j_status r = JobClaimed \<and> isLeaseExpired now (j_lease_expires_at r)"
  have s': "s' = s\<lparr>jobs := update_where ?sel (free_job JobExpired) (jobs s)\<rparr>"
    and "ids = map j_id (filter ?sel (jobs s))"
    using assms(1) by (auto simp: reapExpiredLeases_def Let_def)
  with assms(2) obtain r where r: "r \<in> set (jobs s)" "j_id r = jid" "?sel r" by auto
  have dead: "j_status q = JobExpired" if "q \<in> set (jobs s')" "j_id q = jid" for q
  proof -
    from that obtain x where x: "x \<in> set (jobs s)" "q = (if ?sel x then free_job JobExpired x else x)"
      by (auto simp: s' in_set_update_where)
    with that have "j_id x = jid" by (simp add: free_job_def split: if_split_asm)
    then have "x = r" using same_job [OF assms(3) x(1) r(1)] r(2) by simp
    with x r show ?thesis by (simp add: free_job_def)
  qed
  have "job_row jid s = Some r" unfolding job_row_def by (rule find_unique [OF assms(3) r(1,2)])
  moreover have "leasable now r" using r by (simp add: leasable_def)
  moreover have "leaseJob n t jid w ttl s' = (None, s')" for n t w ttl
    by (rule leaseJob_refused, drule (1) dead) (simp add: leasable_def)
  moreover have "jo_id job \<noteq> jid" if "findClaimableJob parse production t worker opts s' = Some (job, bounty)"
    for parse production t worker opts job bounty
    using that
  proof (rule findClaimableJob_SomeD)
    fix j b
    assume "j \<in> set (jobs s')" "candidate_ok t opts (j, b)" "candidate_objs (j, b) = (job, bounty)"
    then show "jo_id job \<noteq> jid"
      using dead [of j] by (auto simp: candidate_ok_def candidate_objs_def jobFromRow_def leasable_def)
  qed
  ultimately show ?thesis by blast
qed

theorem reaped_job_lost_witness:
  "(let s = snd (leaseJob ''n'' 5 ''j1'' ''w1'' 100 example_job_store); r = reapExpiredLeases 200 s
    in fst r = [''j1''] \<and> leaseJob ''m'' 300 ''j1'' ''w2'' 100 (snd r) = (None, snd r))"
proof -
  let ?s = "snd (leaseJob ''n'' 5 ''j1'' ''w1'' 100 example_job_store)"
  obtain ids s' where e: "reapExpiredLeases 200 ?s = (ids, s')" by fastforce
  then have "ids = [''j1'']"
    by (simp add: example_lease reapExpiredLeases_def Let_def) (auto simp: example_job_def)
  moreover have "distinct (map j_id (jobs ?s))" by (simp add: example_lease)
  ultimately show ?thesis using reaped_job_lost [OF e, of "''j1''"] e by (simp add: Let_def)
qed

section \<open>The scheduler picks the best eligible job\<close>

lemma best_of_max:
  "best_of f b cs = Some x \<Longrightarrow> (\<forall>c\<in>set cs. f c \<le> f x) \<and> (\<forall>y. b = Some y \<longrightarrow> f y \<le> f x)"
  by (induction f b cs rule: best_of.induct) (force split: if_split_asm)+

lemma best_of_None: "best_of f b cs = None \<longleftrightarrow> b = None \<and> cs = []"
  by (induction f b cs rule: best_of.induct) auto


section \<open>What is offered can be claimed\<close>

lemma active_if_busy:
  "getActiveJobForWorker wid s = None \<Longrightarrow> r \<in> set (jobs s) \<Longrightarrow> \<not> busy_with now wid r"
  by (auto simp: getActiveJobForWorker_def find_None busy_with_def active_status_def)

lemma touch_frame [simp]:
  "jobs (touchWorkerLastSeen w t s) = jobs s" "bounties (touchWorkerLastSeen w t s) = bounties s"
  by (simp_all add: touchWorkerLastSeen_def)

text \<open>An offered job can be claimed: if the worker claims the job it was offered before anything
  else happens, the claim succeeds, under the same description, and the worker holds the lease for
  twenty minutes.\<close>

theorem offered_job_claimable:
  assumes "route_next parse_url production env now worker opts s = (Claimable spec, s1)"
    and "distinct (map j_id (jobs s))"
  shows "\<exists>a s2. route_claim env nonce now worker (sp_jobId spec) s1 = (Ok a, s2) \<and>
           ca_job a = spec \<and> ca_leaseExpiresAt a = Some (now + 1200000) \<and> ca_leaseNonce a = Some nonce \<and>
           (\<exists>r\<in>set (jobs s2). j_id r = sp_jobId spec \<and> busy_with now (wo_id worker) r)"
proof -
  have s1: "s1 = touchWorkerLastSeen (wo_id worker) now s"
    and idle: "getActiveJobForWorker (wo_id worker) s1 = None"
    using assms(1) by (auto simp: route_next_def Let_def split: option.split_asm if_split_asm)
  obtain job bounty where found: "findClaimableJob parse_url production now worker (allowed_opts env opts) s1 = Some (job, bounty)"
    and spec: "spec = strip_descriptor env (buildJobSpec job bounty)"
    using assms(1) by (auto simp: route_next_def Let_def split: option.split_asm if_split_asm)
  from found obtain j b where jb: "j \<in> set (jobs s1)" "bounty_row (j_bounty_id j) s1 = Some b"
    "candidate_ok now (allowed_opts env opts) (j, b)" "candidate_objs (j, b) = (job, bounty)"
    "eligible parse_url production now worker (allowed_opts env opts) s1 (job, bounty)"
    by (rule findClaimableJob_SomeD)
  have objs: "job = (jobFromRow j)\<lparr>jo_finalReason := None\<rparr>" "bounty = bountyFromRow b"
    using jb(4) by (simp_all add: candidate_objs_def)
  have dist: "distinct (map j_id (jobs s1))" using assms(2) s1 by simp
  have leas: "leasable now j" using jb(3) by (simp add: candidate_ok_def)
  have id: "sp_jobId spec = j_id j" by (simp add: spec strip_descriptor_def buildJobSpec_def objs jobFromRow_def Let_def)
  let ?f = "\<lambda>r. r\<lparr>j_status := JobClaimed, j_lease_worker_id := Some (wo_id worker),
               j_lease_expires_at := Some (now + lease_ttl_ms), j_lease_nonce := Some nonce\<rparr>"
  have get: "getJob (j_id j) s1 = Some (jobFromRow j)"
    using find_unique [OF dist jb(1)] by (simp add: getJob_def)
  have "stale now (Option.bind (j_task_descriptor j) td_freshness_sla_sec) (j_created_at j) = False"
    using jb(5) by (cases "j_task_descriptor j")
      (auto simp: eligible_def Let_def descriptor_of_def objs jobFromRow_def stale_def split: option.splits)
  moreover have "j_status j = JobOpen \<or> isLeaseExpired now (j_lease_expires_at j)"
    using leas by (auto simp: leasable_def)
  moreover have "\<not> list_ex (busy_with now (wo_id worker)) (jobs s1)"
    using active_if_busy [OF idle] by (auto simp: list_ex_iff)
  moreover have "find (\<lambda>r. j_id r = j_id j \<and> leasable now r) (jobs s1) = Some j"
    by (rule find_only) (use jb(1) leas same_job [OF dist] in auto)
  moreover have "getBounty (j_bounty_id j) s' = Some bounty" if "bounties s' = bounties s1" for s'
    using jb(2) that by (simp add: getBounty_def bounty_row_def objs)
  ultimately obtain a where "route_claim env nonce now worker (j_id j) s1 =
      (Ok a, s1\<lparr>jobs := update_where (\<lambda>r. j_id r = j_id j \<and> leasable now r) ?f (jobs s1)\<rparr>)"
    and "a = \<lparr> ca_job = strip_descriptor env (buildJobSpec (jobFromRow (?f j)) bounty),
               ca_leaseExpiresAt = Some (now + lease_ttl_ms), ca_leaseNonce = Some nonce \<rparr>"
    using idle get by (auto simp: route_claim_def leaseJob_def Let_def jobFromRow_def)
  moreover have "buildJobSpec (jobFromRow (?f j)) bounty = buildJobSpec job bounty"
    by (simp add: buildJobSpec_def Let_def objs jobFromRow_def descriptor_of_def)
  moreover have "?f j \<in> set (update_where (\<lambda>r. j_id r = j_id j \<and> leasable now r) ?f (jobs s1))"
    using jb(1) leas by (auto simp: in_set_update_where)
  then have "\<exists>r\<in>set (update_where (\<lambda>r. j_id r = j_id j \<and> leasable now r) ?f (jobs s1)).
      j_id r = j_id j \<and> busy_with now (wo_id worker) r"
    by (rule bexI [rotated]) (simp add: busy_with_def lease_ttl_ms_def)
  ultimately show ?thesis unfolding id by (simp add: spec lease_ttl_ms_def)
qed

definition example_worker :: worker_obj where
  "example_worker = \<lparr> wo_id = ''w1'', wo_displayName = None, wo_status = WorkerActive, wo_capabilities = [],
     wo_rateLimitedUntil = None \<rparr>"

definition example_intake :: intake_env where
  "example_intake = \<lparr> in_paused = False, in_descriptors = True, in_maxBacklog = Fin 500,
     in_maxVerifierAge = Fin 0, in_maxOutboxAge = Fin 0, in_maxScanAge = Fin 0 \<rparr>"

definition any_job :: find_opts where
  "any_job = \<lparr> fo_capabilityTag = None, fo_supportedCapabilityTags = None, fo_minPayoutCents = None,
     fo_taskType = None, fo_excludeJobIds = [], fo_requireJobId = None, fo_requireBountyId = None \<rparr>"

lemma example_offer:
  "\<exists>spec. route_next (\<lambda>u. None) True example_intake 5 example_worker any_job example_job_store =
     (Claimable spec, example_job_store) \<and> sp_jobId spec = ''j1''"
proof -
  let ?b = "example_bounty\<lparr>b_status := BountyPublished\<rparr>"
  have s: "workers example_job_store = []" "jobs example_job_store = [example_job]"
    "verifications example_job_store = []" "bounties example_job_store = [?b]" "submissions example_job_store = []"
    by (simp_all add: example_job_store_def example_store_def empty_db_def)
  have j: "j_bounty_id example_job = ''b1''" "j_status example_job = JobOpen" "j_id example_job = ''j1''"
    "j_task_descriptor example_job = None" "j_lease_worker_id example_job = None" "b_id example_bounty = ''b1''"
    "b_task_descriptor example_bounty = None" "b_allowed_origins example_bounty = []"
    by (simp_all add: example_job_def example_bounty_def)
  have "bounty_row ''b1'' example_job_store = Some ?b" by (simp add: bounty_row_def s j)
  then have c: "candidates 5 any_job example_job_store = [(example_job, ?b)]"
    by (simp add: candidates_def s j map_filter_simps candidate_ok_def any_job_def leasable_def order_desc_def uniq_def)
  have e: "eligible (\<lambda>u. None) True 5 example_worker any_job example_job_store (candidate_objs (example_job, ?b))"
    by (simp add: eligible_def candidate_objs_def Let_def descriptor_of_def jobFromRow_def bountyFromRow_def j
        any_job_def below_min_def tags_supported_def example_worker_def stale_def)
  have "findClaimableJob (\<lambda>u. None) True 5 example_worker any_job example_job_store = Some (candidate_objs (example_job, ?b))"
    by (simp add: findClaimableJob_def Let_def c e)
  moreover have "touchWorkerLastSeen ''w1'' 5 example_job_store = example_job_store"
    by (simp add: touchWorkerLastSeen_def example_job_store_def example_store_def empty_db_def)
  moreover have "getActiveJobForWorker ''w1'' example_job_store = None"
    by (simp add: getActiveJobForWorker_def s order_desc_def j)
  moreover have "verifierBacklog example_job_store = 0" by (simp add: verifierBacklog_def s)
  ultimately show ?thesis
    by (simp add: route_next_def example_intake_def example_worker_def num_gt_def too_old_def allowed_opts_def
        candidate_objs_def strip_descriptor_def buildJobSpec_def Let_def jobFromRow_def j)
qed

theorem offered_job_claimable_witness:
  "\<exists>spec a s2. route_next (\<lambda>u. None) True example_intake 5 example_worker any_job example_job_store = (Claimable spec, example_job_store) \<and>
     route_claim example_intake ''n'' 5 example_worker (sp_jobId spec) example_job_store = (Ok a, s2) \<and> ca_job a = spec"
proof -
  obtain spec where o: "route_next (\<lambda>u. None) True example_intake 5 example_worker any_job example_job_store =
     (Claimable spec, example_job_store)" using example_offer by blast
  have "distinct (map j_id (jobs example_job_store))" by (simp add: example_job_store_def)
  from offered_job_claimable [OF o this, of "''n''"] o show ?thesis by blast
qed

section \<open>Reputation\<close>

definition reputation_ok :: "db \<Rightarrow> bool" where
  "reputation_ok s \<longleftrightarrow> list_all (\<lambda>r. rep_alpha r > 0 \<and> rep_beta r > 0) (reputation s)"

definition rep_counts :: "string \<Rightarrow> db \<Rightarrow> int \<times> int" where
  "rep_counts wid s = (case find (\<lambda>r. rep_worker_id r = wid) (reputation s) of
     None \<Rightarrow> (2, 2) | Some r \<Rightarrow> (rep_alpha r, rep_beta r))"

lemma expectedPassRate_counts:
  "expectedPassRate wid s = of_int (fst (rep_counts wid s)) / of_int (fst (rep_counts wid s) + snd (rep_counts wid s))"
  by (simp add: expectedPassRate_def rep_counts_def split: option.split)

lemma rep_counts_pos: "reputation_ok s \<Longrightarrow> fst (rep_counts wid s) > 0 \<and> snd (rep_counts wid s) > 0"
  by (auto simp: reputation_ok_def rep_counts_def list_all_iff dest: find_SomeD split: option.split)

lemma rep_counts_record:
  "rep_counts w (recordReputation now wid passed s) =
     (if w = wid then (fst (rep_counts wid s) + (if passed then 1 else 0), snd (rep_counts wid s) + (if passed then 0 else 1))
      else rep_counts w s)"
proof -
  have c: "list_ex (\<lambda>r. rep_worker_id r = wid) t = (find (\<lambda>r. rep_worker_id r = wid) t \<noteq> None)" for t
    by (auto simp: find_None list_ex_iff)
  show ?thesis
    by (auto simp: recordReputation_def rep_counts_def insert_do_update_def c Let_def find_update_where find_append
        dest: find_SomeD split: option.split)
qed

text \<open>Reputation is a proper probability that follows the outcomes: recording an outcome keeps all
  counters positive, so the expected pass rate of every worker stays strictly between 0 and 1; a pass
  raises the rate of its worker, anything else lowers it, and no other worker's rate moves.\<close>

theorem pass_rate_follows_outcomes:
  fixes now wid passed s
  assumes "reputation_ok s"
  defines "s' \<equiv> recordReputation now wid passed s"
  shows "reputation_ok s' \<and> 0 < expectedPassRate w s' \<and> expectedPassRate w s' < 1 \<and>
         (passed \<longrightarrow> expectedPassRate wid s < expectedPassRate wid s') \<and>
         (\<not> passed \<longrightarrow> expectedPassRate wid s' < expectedPassRate wid s) \<and>
         (w \<noteq> wid \<longrightarrow> expectedPassRate w s' = expectedPassRate w s)"
proof -
  have "fst (rep_counts wid s) > 0 \<and> snd (rep_counts wid s) > 0" by (rule rep_counts_pos [OF assms(1)])
  then have "case find (\<lambda>r. rep_worker_id r = wid) (reputation s) of None \<Rightarrow> True | Some r \<Rightarrow> rep_alpha r > 0 \<and> rep_beta r > 0"
    by (auto simp: rep_counts_def split: option.split)
  with assms(1) have ok: "reputation_ok s'"
    by (auto simp: s'_def recordReputation_def reputation_ok_def list_all_iff insert_do_update_def
        in_set_update_where Let_def split: option.split)
  obtain a b where ab: "rep_counts wid s = (a, b)" by fastforce
  with rep_counts_pos [OF assms(1), of wid] have pos: "0 < a" "0 < b" by simp_all
  have up: "(of_int a :: rat) / of_int (a + b) < of_int (a + 1) / of_int (a + 1 + b)"
    and down: "(of_int a :: rat) / of_int (a + (b + 1)) < of_int a / of_int (a + b)"
    using pos by (simp_all add: divide_simps) (simp_all add: algebra_simps flip: of_int_mult of_int_add)
  obtain c d where cd: "rep_counts w s' = (c, d)" by fastforce
  with rep_counts_pos [OF ok, of w] have "0 < c" "0 < d" by simp_all
  then have "0 < expectedPassRate w s' \<and> expectedPassRate w s' < 1"
    by (simp add: expectedPassRate_counts cd flip: of_int_add)
  with ok up down show ?thesis
    by (auto simp: s'_def expectedPassRate_counts rep_counts_record ab)
qed

theorem pass_rate_follows_outcomes_witness:
  "expectedPassRate ''w1'' empty_db < expectedPassRate ''w1'' (recordReputation 5 ''w1'' True empty_db)"
proof -
  have "reputation_ok empty_db" by (simp add: reputation_ok_def empty_db_def)
  from pass_rate_follows_outcomes [where wid = "''w1''" and now = 5 and passed = True, OF this] show ?thesis by simp
qed

end
