(* ===== verification/RateLimit.thy ===== *)
theory RateLimit
  imports Schema
begin

text \<open>
  The token bucket of \<open>src/src/ratelimit.ts\<close>. One call is one transaction that holds the row of
  its key; tokens are exact rationals where the code has doubles. \<open>requests\<close> is a sequence of calls
  on one key at given instants and counts the grants.
\<close>

definition refill :: "rat \<Rightarrow> int \<Rightarrow> buckets_row \<Rightarrow> rat" where
  "refill ratePerMin now b = min ratePerMin (rl_tokens b + of_int (now - rl_updated_at b) * (ratePerMin / 60000))"

definition take_token :: "rat \<Rightarrow> int \<Rightarrow> buckets_row \<Rightarrow> bool \<times> buckets_row" where
  "take_token ratePerMin now b =
     (let tokens = refill ratePerMin now b
      in if tokens < 1 then (False, b\<lparr>rl_tokens := tokens, rl_updated_at := now\<rparr>)
         else (True, b\<lparr>rl_tokens := tokens - 1, rl_updated_at := now\<rparr>))"

definition rateLimit :: "string \<Rightarrow> rat \<Rightarrow> int \<Rightarrow> db \<Rightarrow> err + bool \<times> db" where
  "rateLimit key ratePerMin now s =
     (let t = insert_do_nothing (\<lambda>b. rl_key b = key)
                \<lparr> rl_key = key, rl_tokens = ratePerMin, rl_updated_at = now \<rparr> (rate_limit_buckets s)
      in case find (\<lambda>b. rl_key b = key) t of
           None \<Rightarrow> Inl (OtherError ''rate_limit_bucket_missing'')
         | Some b \<Rightarrow>
             Inr (fst (take_token ratePerMin now b),
                  s\<lparr>rate_limit_buckets :=
                      update_where (\<lambda>b. rl_key b = key) (\<lambda>b'. snd (take_token ratePerMin now b)) t\<rparr>))"

fun requests :: "string \<Rightarrow> rat \<Rightarrow> int list \<Rightarrow> db \<Rightarrow> nat \<times> db" where
  "requests key ratePerMin [] s = (0, s)"
| "requests key ratePerMin (now # clock) s =
     (case rateLimit key ratePerMin now s of
        Inl _ \<Rightarrow> requests key ratePerMin clock s
      | Inr (granted, s') \<Rightarrow>
          (let r = requests key ratePerMin clock s' in (fst r + (if granted then 1 else 0), snd r)))"

definition bucket :: "string \<Rightarrow> db \<Rightarrow> buckets_row option" where
  "bucket key s = find (\<lambda>b. rl_key b = key) (rate_limit_buckets s)"

lemma take_token_key [simp]: "rl_key (snd (take_token r now b)) = rl_key b"
  by (simp add: take_token_def Let_def)

text \<open>A call takes a token from the bucket of its key, a full one if there was none.\<close>

definition opened :: "string \<Rightarrow> rat \<Rightarrow> int \<Rightarrow> db \<Rightarrow> buckets_row" where
  "opened key ratePerMin now s =
     (case bucket key s of
        None \<Rightarrow> \<lparr> rl_key = key, rl_tokens = ratePerMin, rl_updated_at = now \<rparr> | Some b \<Rightarrow> b)"

lemma rateLimit_bucket:
  "\<exists>s'. rateLimit key ratePerMin now s = Inr (fst (take_token ratePerMin now (opened key ratePerMin now s)), s') \<and>
     bucket key s' = Some (snd (take_token ratePerMin now (opened key ratePerMin now s)))"
proof (cases "bucket key s")
  case None
  then have "\<not> list_ex (\<lambda>b. rl_key b = key) (rate_limit_buckets s)"
    by (auto simp: bucket_def find_None list_ex_iff)
  with None show ?thesis
    by (simp add: rateLimit_def insert_do_nothing_def Let_def bucket_def find_append opened_def find_update_where
        take_token_def)
next
  case (Some b)
  then have k: "rl_key b = key" "list_ex (\<lambda>b. rl_key b = key) (rate_limit_buckets s)"
    by (auto simp: bucket_def list_ex_iff dest: find_SomeD)
  with Some show ?thesis
    by (simp add: rateLimit_def insert_do_nothing_def Let_def bucket_def opened_def find_update_where)
qed

lemma grants_from_bucket:
  assumes "bucket key s = Some b" and "sorted (rl_updated_at b # clock)" and "0 \<le> ratePerMin"
  shows "of_nat (fst (requests key ratePerMin clock s)) \<le>
           max 0 (rl_tokens b + of_int (last (rl_updated_at b # clock) - rl_updated_at b) * (ratePerMin / 60000))"
  using assms(1,2)
proof (induction clock arbitrary: s b)
  case (Cons now clock)
  let ?fill = "ratePerMin / 60000"
  let ?l = "last (now # clock)"
  obtain s' where s': "rateLimit key ratePerMin now s = Inr (fst (take_token ratePerMin now b), s')"
    "bucket key s' = Some (snd (take_token ratePerMin now b))"
    using rateLimit_bucket [where key = key and s = s and ratePerMin = ratePerMin and now = now] Cons.prems(1) by (auto simp: opened_def)
  have upd: "rl_updated_at (snd (take_token ratePerMin now b)) = now" by (simp add: take_token_def Let_def)
  define E D where "E = of_int (?l - now) * ?fill" and "D = of_int (now - rl_updated_at b) * ?fill"
  have IH: "of_nat (fst (requests key ratePerMin clock s')) \<le> max 0 (rl_tokens (snd (take_token ratePerMin now b)) + E)"
    using Cons.IH [OF s'(2)] Cons.prems(2) upd by (simp add: E_def)
  have "now \<le> ?l" using Cons.prems(2) by (cases clock) auto
  then have ge: "0 \<le> E" unfolding E_def using assms(3) by (intro mult_nonneg_nonneg) simp_all
  have "(of_int (last (rl_updated_at b # now # clock) - rl_updated_at b) :: rat) = of_int (?l - now) + of_int (now - rl_updated_at b)"
    by simp
  then have sum: "of_int (last (rl_updated_at b # now # clock) - rl_updated_at b) * ?fill = E + D"
    unfolding E_def D_def by (metis distrib_right)
  have le: "refill ratePerMin now b \<le> rl_tokens b + D" by (simp add: refill_def D_def)
  show ?case
  proof (cases "refill ratePerMin now b < 1")
    case True
    with s' have "fst (requests key ratePerMin (now # clock) s) = fst (requests key ratePerMin clock s')"
      by (simp add: take_token_def Let_def)
    moreover have "rl_tokens (snd (take_token ratePerMin now b)) = refill ratePerMin now b"
      using True by (simp add: take_token_def Let_def)
    ultimately show ?thesis unfolding sum using IH le by simp
  next
    case False
    with s' have "fst (requests key ratePerMin (now # clock) s) = fst (requests key ratePerMin clock s') + 1"
      by (simp add: take_token_def Let_def)
    moreover have "rl_tokens (snd (take_token ratePerMin now b)) = refill ratePerMin now b - 1"
      using False by (simp add: take_token_def Let_def)
    ultimately show ?thesis unfolding sum using IH le ge False by simp
  qed
qed simp

text \<open>C40. The rate limiter keeps its promise: from whatever state of the bucket, the calls on a key at
  instants from the first to the last grant no more than the rate per minute plus the tokens that
  flow in meanwhile; and a call that comes at least one refill interval after the last one on the
  key is granted, if the bucket was not overdrawn and the rate is at least one per minute.\<close>

theorem rate_limit_bound:
  assumes "sorted (t # clock)" and "0 \<le> ratePerMin"
  shows "of_nat (fst (requests key ratePerMin (t # clock) s)) \<le>
           ratePerMin + of_int (last (t # clock) - t) * (ratePerMin / 60000) \<and>
         (\<forall>b now. bucket key s = Some b \<and> 0 \<le> rl_tokens b \<and> 1 \<le> ratePerMin \<and>
            60000 \<le> of_int (now - rl_updated_at b) * ratePerMin \<longrightarrow>
            (\<exists>s'. rateLimit key ratePerMin now s = Inr (True, s')))"
proof
  let ?b = "opened key ratePerMin t s"
  let ?r = "take_token ratePerMin t ?b"
  let ?in = "of_int (last (t # clock) - t) * (ratePerMin / 60000)"
  obtain s' where s': "rateLimit key ratePerMin t s = Inr (fst ?r, s')" "bucket key s' = Some (snd ?r)"
    using rateLimit_bucket [where key = key and s = s and ratePerMin = ratePerMin and now = t] by auto
  have upd: "rl_updated_at (snd ?r) = t" by (simp add: take_token_def Let_def)
  have g: "of_nat (fst (requests key ratePerMin clock s')) \<le> max 0 (rl_tokens (snd ?r) + ?in)"
    using grants_from_bucket [OF s'(2) _ assms(2), of clock] assms(1) upd by simp
  have "t \<le> last (t # clock)" using assms(1) by (cases clock) auto
  then have ge: "0 \<le> ?in" using assms(2) by (intro mult_nonneg_nonneg) simp_all
  have le: "refill ratePerMin t ?b \<le> ratePerMin" by (simp add: refill_def)
  show "of_nat (fst (requests key ratePerMin (t # clock) s)) \<le> ratePerMin + ?in"
  proof (cases "refill ratePerMin t ?b < 1")
    case True
    with g ge le assms(2) have "of_nat (fst (requests key ratePerMin clock s')) \<le> ratePerMin + ?in"
      by (simp add: take_token_def Let_def max_def split: if_split_asm)
    with True s' show ?thesis by (simp add: take_token_def Let_def)
  next
    case False
    with g ge le assms(2) have "1 + of_nat (fst (requests key ratePerMin clock s')) \<le> ratePerMin + ?in"
      by (simp add: take_token_def Let_def max_def split: if_split_asm)
    with False s' show ?thesis by (simp add: take_token_def Let_def)
  qed
next
  show "\<forall>b now. bucket key s = Some b \<and> 0 \<le> rl_tokens b \<and> 1 \<le> ratePerMin \<and>
            60000 \<le> of_int (now - rl_updated_at b) * ratePerMin \<longrightarrow>
            (\<exists>s'. rateLimit key ratePerMin now s = Inr (True, s'))"
  proof (intro allI impI, elim conjE)
    fix b now
    assume b: "bucket key s = Some b" "0 \<le> rl_tokens b" "1 \<le> ratePerMin" "60000 \<le> of_int (now - rl_updated_at b) * ratePerMin"
    then have "1 \<le> of_int (now - rl_updated_at b) * (ratePerMin / 60000)" by (simp add: field_simps)
    with b have "\<not> refill ratePerMin now b < 1" by (simp add: refill_def)
    then show "\<exists>s'. rateLimit key ratePerMin now s = Inr (True, s')"
      using rateLimit_bucket [where key = key and s = s and ratePerMin = ratePerMin and now = now] b(1) by (auto simp: take_token_def opened_def Let_def)
  qed
qed

theorem rate_limit_bound_witness:
  "fst (requests ''ip'' 2 [0, 1, 2, 3] empty_db) \<le> 2 \<and> (\<exists>s'. rateLimit ''ip'' 2 0 empty_db = Inr (True, s'))"
proof -
  have "of_nat (fst (requests ''ip'' 2 [0, 1, 2, 3] empty_db)) \<le> (2 :: rat) + of_int (3 - 0) * (2 / 60000)"
    using rate_limit_bound [where t = 0 and clock = "[1, 2, 3]" and ratePerMin = 2 and key = "''ip''" and s = empty_db] by simp
  then have "of_nat (fst (requests ''ip'' 2 [0, 1, 2, 3] empty_db)) < (of_nat 3 :: rat)" by simp
  then have "fst (requests ''ip'' 2 [0, 1, 2, 3] empty_db) \<le> 2" by (simp only: of_nat_less_iff)
  moreover have "\<exists>s'. rateLimit ''ip'' 2 0 empty_db = Inr (True, s')"
    using rateLimit_bucket [where key = "''ip''" and s = empty_db and ratePerMin = 2 and now = 0]
    by (auto simp: bucket_def opened_def empty_db_def take_token_def refill_def)
  ultimately show ?thesis by simp
qed

end
