(* ===== verification/Scanner.thy ===== *)
theory Scanner
  imports Schema
begin

text \<open>
  The upload scanner (\<open>src/src/scanner.ts\<close>): content sniffing by declared type, the UTF-8 test on
  text, the clamd protocol (stream framing, answer, fallback from socket to TCP) and the choice of
  engine. Bytes are characters. The clamscan process and the sockets are parameters: what they
  answer. A scan result is \<open>None\<close> for ok and the reason otherwise.
\<close>

section \<open>UTF-8\<close>

text \<open>What \<open>Buffer.toString('utf8')\<close> decodes: code points, with one U+FFFD for every maximal
  ill-formed part. The pending state holds the number of bytes still needed, the range of the next
  one and the bits read so far.\<close>

type_synonym utf8_state = "(nat \<times> nat \<times> nat \<times> nat) option"

definition utf8_lead :: "nat \<Rightarrow> nat + (nat \<times> nat \<times> nat \<times> nat)" where
  "utf8_lead b =
     (if b < 128 then Inl b
      else if 194 \<le> b \<and> b \<le> 223 then Inr (1, 128, 191, b - 192)
      else if 224 \<le> b \<and> b \<le> 239 then
        Inr (2, if b = 224 then 160 else 128, if b = 237 then 159 else 191, b - 224)
      else if 240 \<le> b \<and> b \<le> 244 then
        Inr (3, if b = 240 then 144 else 128, if b = 244 then 143 else 191, b - 240)
      else Inl 65533)"

fun utf8_decode :: "utf8_state \<Rightarrow> nat list \<Rightarrow> nat list" where
  "utf8_decode st [] = (if st = None then [] else [65533])"
| "utf8_decode None (b # bs) =
     (case utf8_lead b of Inl c \<Rightarrow> c # utf8_decode None bs | Inr st \<Rightarrow> utf8_decode (Some st) bs)"
| "utf8_decode (Some (n, lo, hi, cp)) (b # bs) =
     (if lo \<le> b \<and> b \<le> hi then
        (let cp' = cp * 64 + (b - 128)
         in if n \<le> 1 then cp' # utf8_decode None bs else utf8_decode (Some (n - 1, 128, 191, cp')) bs)
      else 65533 #
        (case utf8_lead b of Inl c \<Rightarrow> c # utf8_decode None bs | Inr st \<Rightarrow> utf8_decode (Some st) bs))"

definition bytes_of :: "string \<Rightarrow> nat list" where
  "bytes_of s = map of_char s"

definition decode_text :: "string \<Rightarrow> nat list" where
  "decode_text bytes = utf8_decode None (bytes_of bytes)"

text \<open>The length of a JavaScript string counts a code point beyond the BMP twice.\<close>

definition utf16_length :: "nat list \<Rightarrow> nat" where
  "utf16_length cps = sum_list (map (\<lambda>c. if c < 65536 then 1 else 2) cps)"

definition looksLikeUtf8Text :: "string \<Rightarrow> bool" where
  "looksLikeUtf8Text bytes =
     (if 0 \<in> set (bytes_of bytes) then False
      else
        let s = decode_text bytes; replacements = length (filter (\<lambda>c. c = 65533) s)
        in (of_nat replacements :: rat) / of_nat (max 1 (utf16_length s)) < 1 / 100)"

text \<open>White space for \<open>trimStart\<close>.\<close>

definition js_space :: "nat \<Rightarrow> bool" where
  "js_space c \<longleftrightarrow> c \<in> {9, 10, 11, 12, 13, 32, 160, 5760, 8232, 8233, 8239, 8287, 12288, 65279} \<or>
     (8192 \<le> c \<and> c \<le> 8202)"

definition json_start :: "string \<Rightarrow> bool" where
  "json_start bytes =
     (case dropWhile js_space (decode_text bytes) of [] \<Rightarrow> False | c # _ \<Rightarrow> c = 123 \<or> c = 91)"

section \<open>Sniffing\<close>

definition starts_with_bytes :: "string \<Rightarrow> nat list \<Rightarrow> bool" where
  "starts_with_bytes buf pre \<longleftrightarrow> length pre \<le> length buf \<and> take (length pre) (bytes_of buf) = pre"

type_synonym scan_result = "string option"

definition sniffed :: "bool \<Rightarrow> string \<Rightarrow> scan_result" where
  "sniffed ok reason = (if ok then None else Some reason)"

definition basic_scan :: "string \<Rightarrow> string \<Rightarrow> scan_result" where
  "basic_scan ct bytes =
     (if ct = ''image/png'' then
        sniffed (starts_with_bytes bytes [0x89, 0x50, 0x4e, 0x47, 0x0d, 0x0a, 0x1a, 0x0a]) ''content_type_mismatch_png''
      else if ct = ''image/jpeg'' then
        sniffed (length bytes \<ge> 4 \<and> starts_with_bytes bytes [0xff, 0xd8]) ''content_type_mismatch_jpeg''
      else if ct = ''application/pdf'' then
        sniffed (starts_with_bytes bytes [0x25, 0x50, 0x44, 0x46, 0x2d]) ''content_type_mismatch_pdf''
      else if ct = ''application/zip'' then
        sniffed (starts_with_bytes bytes [0x50, 0x4b, 0x03, 0x04] \<or> starts_with_bytes bytes [0x50, 0x4b, 0x05, 0x06]
                 \<or> starts_with_bytes bytes [0x50, 0x4b, 0x07, 0x08]) ''content_type_mismatch_zip''
      else if ct = ''text/plain'' then sniffed (looksLikeUtf8Text bytes) ''content_type_mismatch_text''
      else if ct = ''application/json'' then
        sniffed (looksLikeUtf8Text bytes \<and> json_start bytes) ''content_type_mismatch_json''
      else if ct = ''video/mp4'' then
        sniffed (length bytes \<ge> 12 \<and> map (\<lambda>b. b mod 128) (take 4 (drop 4 (bytes_of bytes))) = bytes_of ''ftyp'')
          ''content_type_mismatch_mp4''
      else None)"

section \<open>clamd\<close>

text \<open>The frames of the \<open>zINSTREAM\<close> command: chunks of at most 1 MiB with their length as four
  big-endian bytes, ended by an empty one.\<close>

definition uint32be :: "nat \<Rightarrow> string" where
  "uint32be n = map char_of [n div 16777216 mod 256, n div 65536 mod 256, n div 256 mod 256, n mod 256]"

function clamd_frames :: "nat \<Rightarrow> string \<Rightarrow> string list" where
  "clamd_frames chunk bytes =
     (if bytes = [] \<or> chunk = 0 then [uint32be 0]
      else uint32be (length (take chunk bytes)) # take chunk bytes # clamd_frames chunk (drop chunk bytes))"
  by pat_completeness auto
termination by (relation "measure (\<lambda>(chunk, bytes). length bytes)") auto

declare clamd_frames.simps [simp del]

definition clamd_message :: "string \<Rightarrow> string" where
  "clamd_message bytes = ''zINSTREAM'' @ [char_of (0::nat)] @ concat (clamd_frames 1048576 bytes)"

text \<open>How a connection ends: a failed write, a time-out, an error, or the server's answer.\<close>

datatype clamd_end = StreamError string | Timeout | SocketError string | Closed string

definition toUpperCase :: "string \<Rightarrow> string" where
  "toUpperCase = map (\<lambda>c. let n = of_char c :: nat in if 97 \<le> n \<and> n \<le> 122 then char_of (n - 32) else c)"

definition scanOnce :: "clamd_end \<Rightarrow> scan_result" where
  "scanOnce outcome =
     (case outcome of
        StreamError m \<Rightarrow> Some (''clamd_stream_error:'' @ m)
      | Timeout \<Rightarrow> Some ''clamd_timeout''
      | SocketError m \<Rightarrow> Some (''clamd_error:'' @ m)
      | Closed resp \<Rightarrow>
          (let line = trim resp; upper = toUpperCase line
           in if str_includes upper '' OK'' then None
              else if str_includes upper ''FOUND'' then Some ''clamd_infected''
              else if line = [] then Some ''clamd_no_response''
              else Some (''clamd_unknown:'' @ take 200 line)))"

definition retryable_socket :: "string \<Rightarrow> bool" where
  "retryable_socket r =
     list_ex (str_includes r) [''connect ENOENT'', ''connect ENOTSOCK'', ''connect ECONNREFUSED'',
       ''connect EACCES'', ''clamd_timeout'', ''clamd_no_response'']"

text \<open>\<open>sock\<close> is the configured unix socket, with the outcome of scanning through it.\<close>

definition scanWithClamd :: "jsnum \<Rightarrow> clamd_end option \<Rightarrow> clamd_end \<Rightarrow> err + scan_result" where
  "scanWithClamd port sock tcp =
     (if \<not> (case port of Fin q \<Rightarrow> q > 0 | _ \<Rightarrow> False) then Inl (OtherError ''invalid_clamd_port'')
      else case sock of
          None \<Rightarrow> Inr (scanOnce tcp)
        | Some e \<Rightarrow>
            (case scanOnce e of
               None \<Rightarrow> Inr None
             | Some r \<Rightarrow> if retryable_socket r then Inr (scanOnce tcp) else Inr (Some r)))"

section \<open>clamscan\<close>

datatype clamscan_end = ExitCode int string string | SpawnError string

definition scanWithClamav :: "clamscan_end \<Rightarrow> scan_result" where
  "scanWithClamav outcome =
     (case outcome of
        ExitCode code out errs \<Rightarrow>
          if code = 0 then None
          else if code = 1 then Some ''clamav_infected''
          else Some (''clamav_error:'' @ take 200 (if errs = [] then out else errs))
      | SpawnError m \<Rightarrow> Some (''clamav_spawn_error:'' @ m))"

section \<open>The scan\<close>

record scan_env =
  sc_engine :: "string option"
  sc_clamscan :: "string \<Rightarrow> clamscan_end"
  sc_clamd_port :: jsnum
  sc_clamd_socket :: "(string \<Rightarrow> clamd_end) option"
  sc_clamd_tcp :: "string \<Rightarrow> clamd_end"

definition scanBytes :: "scan_env \<Rightarrow> string \<Rightarrow> string option \<Rightarrow> err + scan_result" where
  "scanBytes env bytes contentType =
     (let engine = trim (toLowerCase (case sc_engine env of None \<Rightarrow> [] | Some e \<Rightarrow> e));
          ct = trim (toLowerCase (case contentType of None \<Rightarrow> [] | Some c \<Rightarrow> c))
      in if bytes = [] then Inr (Some ''empty_file'')
         else case basic_scan ct bytes of
             Some r \<Rightarrow> Inr (Some r)
           | None \<Rightarrow>
               if engine = ''clamav'' then Inr (scanWithClamav (sc_clamscan env bytes))
               else if engine = ''clamd'' then
                 scanWithClamd (sc_clamd_port env) (map_option (\<lambda>f. f (clamd_message bytes)) (sc_clamd_socket env))
                   (sc_clamd_tcp env (clamd_message bytes))
               else Inr None)"

section \<open>The stream carries the file\<close>

text \<open>A server that reads length-prefixed frames until the empty one. \<open>fuel\<close> bounds the number of
  frames.\<close>

definition be32 :: "string \<Rightarrow> nat" where
  "be32 h = foldl (\<lambda>n c. n * 256 + of_char c) 0 h"

fun read_frames :: "nat \<Rightarrow> string \<Rightarrow> string option" where
  "read_frames 0 s = None"
| "read_frames (Suc fuel) s =
     (if length s < 4 then None
      else let n = be32 (take 4 s); body = drop 4 s
           in if n = 0 then Some []
              else if length body < n then None
              else map_option (\<lambda>rest. take n body @ rest) (read_frames fuel (drop n body)))"

lemma length_uint32be [simp]: "length (uint32be n) = 4"
  by (simp add: uint32be_def)

lemma be32_uint32be: "n < 4294967296 \<Longrightarrow> be32 (uint32be n) = n"
proof -
  assume n: "n < 4294967296"
  have "n div 16777216 < 256" using n by simp
  moreover have "16777216 * (n div 16777216) + 65536 * (n div 65536 mod 256) + 256 * (n div 256 mod 256)
      + n mod 256 = n"
  proof -
    have "n div 65536 div 256 = n div 16777216" "n div 256 div 256 = n div 65536"
      by (simp_all flip: div_mult2_eq)
    moreover have "n div 65536 mod 256 + 256 * (n div 65536 div 256) = n div 65536"
      "n div 256 mod 256 + 256 * (n div 256 div 256) = n div 256" "n mod 256 + 256 * (n div 256) = n"
      by simp_all
    ultimately show ?thesis by linarith
  qed
  ultimately show "be32 (uint32be n) = n"
    by (simp add: be32_def uint32be_def mult.commute)
qed

lemma read_frames_frame:
  assumes "0 < length b" and "length b < 4294967296"
  shows "read_frames (Suc fuel) (uint32be (length b) @ b @ rest) = map_option (\<lambda>r. b @ r) (read_frames fuel rest)"
  using assms by (simp add: be32_uint32be)

lemma read_frames_end: "read_frames (Suc fuel) (uint32be 0) = Some []"
  by (simp add: be32_uint32be)

text \<open>The scanner sends the file it was given: for every upload, a server that reads the frames of
  the stream gets back exactly the bytes, and reads no more frames than there are bytes plus one;
  hence what clamd judges is the upload itself.\<close>

theorem clamd_stream_roundtrip:
  "read_frames (Suc (length bytes)) (drop 10 (clamd_message bytes)) = Some bytes"
proof -
  have "read_frames (Suc fuel) (concat (clamd_frames 1048576 bytes)) = Some bytes"
    if "length bytes \<le> fuel" for fuel
    using that
  proof (induction "(1048576 :: nat)" bytes arbitrary: fuel rule: clamd_frames.induct)
    case (1 bytes)
    show ?case
    proof (cases "bytes = []")
      case True
      then show ?thesis by (simp add: clamd_frames.simps [of _ "[]"] read_frames_end del: read_frames.simps)
    next
      case False
      let ?b = "take 1048576 bytes" and ?r = "drop 1048576 bytes"
      from False 1(2) obtain f where f: "fuel = Suc f" by (cases fuel) auto
      have "read_frames (Suc f) (concat (clamd_frames 1048576 ?r)) = Some ?r"
        using 1(1) [of f] False 1(2) f by simp
      then have "read_frames fuel (concat (clamd_frames 1048576 ?r)) = Some ?r" using f by simp
      moreover have "0 < length ?b" "length ?b < 4294967296" using False by simp_all
      ultimately show ?thesis
        using False by (simp add: clamd_frames.simps [of _ bytes] read_frames_frame del: read_frames.simps length_take)
    qed
  qed
  then show ?thesis by (simp add: clamd_message_def)
qed

end
