(* ===== verification/Encoding.thy ===== *)
theory Encoding
  imports Scanner
begin

text \<open>
  The encodings of the JavaScript runtime that the authentication code relies on: \<open>Number(..)\<close> of a
  string, \<open>Buffer.from(.., 'hex')\<close>, base64 in both directions and \<open>decodeURIComponent\<close>. Bytes and
  ASCII characters are both \<open>char\<close>. The last section shows that base64 decodes what it encodes.
\<close>

section \<open>Numbers from strings\<close>

definition digit_val :: "nat \<Rightarrow> char \<Rightarrow> nat option" where
  "digit_val base c =
     (let n = of_char c :: nat;
          v = (if 48 \<le> n \<and> n \<le> 57 then n - 48 else if 97 \<le> n \<and> n \<le> 122 then n - 87
               else if 65 \<le> n \<and> n \<le> 90 then n - 55 else 99)
      in if v < base then Some v else None)"

definition all_digits :: "nat \<Rightarrow> string \<Rightarrow> bool" where
  "all_digits base s \<longleftrightarrow> list_all (\<lambda>c. digit_val base c \<noteq> None) s"

definition digits_value :: "nat \<Rightarrow> string \<Rightarrow> nat" where
  "digits_value base s = foldl (\<lambda>n c. n * base + the (digit_val base c)) 0 s"

text \<open>\<open>digits\<close>, \<open>digits.digits\<close>, \<open>digits.\<close> or \<open>.digits\<close>, without sign or exponent.\<close>

definition unsigned_decimal :: "string \<Rightarrow> rat option" where
  "unsigned_decimal s =
     (case split_on CHR ''.'' s of
        [i] \<Rightarrow> if i \<noteq> [] \<and> all_digits 10 i then Some (of_nat (digits_value 10 i)) else None
      | [i, f] \<Rightarrow>
          if i @ f \<noteq> [] \<and> all_digits 10 i \<and> all_digits 10 f
          then Some (of_nat (digits_value 10 (i @ f)) / 10 ^ length f) else None
      | _ \<Rightarrow> None)"

definition strip_sign :: "string \<Rightarrow> bool \<times> string" where
  "strip_sign s =
     (case s of [] \<Rightarrow> (False, s)
      | c # t \<Rightarrow> if c = CHR ''-'' then (True, t) else if c = CHR ''+'' then (False, t) else (False, s))"

definition decimal_literal :: "string \<Rightarrow> jsnum" where
  "decimal_literal s =
     (let (neg, t) = strip_sign s; sign = (if neg then - 1 else 1 :: rat)
      in if t = ''Infinity'' then Infinity (\<not> neg)
         else case split_on CHR ''e'' (map (\<lambda>c. if c = CHR ''E'' then CHR ''e'' else c) t) of
             [m] \<Rightarrow> (case unsigned_decimal m of Some q \<Rightarrow> Fin (sign * q) | None \<Rightarrow> NaN)
           | [m, e] \<Rightarrow>
               (let (eneg, d) = strip_sign e
                in case unsigned_decimal m of
                    None \<Rightarrow> NaN
                  | Some q \<Rightarrow>
                      if d = [] \<or> \<not> all_digits 10 d then NaN
                      else if eneg then Fin (sign * q / 10 ^ digits_value 10 d)
                      else Fin (sign * q * 10 ^ digits_value 10 d))
           | _ \<Rightarrow> NaN)"

definition based_literal :: "nat \<Rightarrow> string \<Rightarrow> jsnum" where
  "based_literal base s =
     (if s \<noteq> [] \<and> all_digits base s then Fin (of_nat (digits_value base s)) else NaN)"

text \<open>The value is exact: the rounding to a double is left out.\<close>

definition js_number :: "string \<Rightarrow> jsnum" where
  "js_number str =
     (let s = trim str; p = toLowerCase (take 2 s)
      in if s = [] then Fin 0
         else if p = ''0x'' then based_literal 16 (drop 2 s)
         else if p = ''0o'' then based_literal 8 (drop 2 s)
         else if p = ''0b'' then based_literal 2 (drop 2 s)
         else decimal_literal s)"

section \<open>Hexadecimal\<close>

text \<open>\<open>Buffer.from(s, 'hex')\<close> stops at the first pair that is not hexadecimal.\<close>

fun hex_decode :: "string \<Rightarrow> string" where
  "hex_decode (a # b # s) =
     (case (digit_val 16 a, digit_val 16 b) of
        (Some x, Some y) \<Rightarrow> char_of (16 * x + y) # hex_decode s
      | _ \<Rightarrow> [])"
| "hex_decode _ = []"

section \<open>Base64\<close>

definition b64_char :: "nat \<Rightarrow> char" where
  "b64_char n =
     char_of (if n < 26 then n + 65 else if n < 52 then n + 71 else if n < 62 then n - 4
              else if n = 62 then 43 else 47)"

fun base64_encode :: "string \<Rightarrow> string" where
  "base64_encode [] = []"
| "base64_encode [a] =
     (let x = of_char a :: nat in [b64_char (x div 4), b64_char (x mod 4 * 16), CHR ''='', CHR ''=''])"
| "base64_encode [a, b] =
     (let x = of_char a :: nat; y = of_char b
      in [b64_char (x div 4), b64_char (x mod 4 * 16 + y div 16), b64_char (y mod 16 * 4), CHR ''=''])"
| "base64_encode (a # b # c # s) =
     (let x = of_char a :: nat; y = of_char b; z = of_char c
      in [b64_char (x div 4), b64_char (x mod 4 * 16 + y div 16), b64_char (y mod 16 * 4 + z div 64),
          b64_char (z mod 64)] @ base64_encode s)"

text \<open>\<open>Buffer.from(s, 'base64')\<close> reads up to the first \<open>=\<close>, takes the URL alphabet too and skips other
  characters; a single character left over is dropped.\<close>

definition b64_val :: "char \<Rightarrow> nat option" where
  "b64_val c =
     (let n = of_char c :: nat
      in if 65 \<le> n \<and> n \<le> 90 then Some (n - 65) else if 97 \<le> n \<and> n \<le> 122 then Some (n - 71)
         else if 48 \<le> n \<and> n \<le> 57 then Some (n + 4) else if n = 43 \<or> n = 45 then Some 62
         else if n = 47 \<or> n = 95 then Some 63 else None)"

fun b64_bytes :: "nat list \<Rightarrow> string" where
  "b64_bytes (p # q # r # u # vs) =
     [char_of (p * 4 + q div 16), char_of (q mod 16 * 16 + r div 4), char_of (r mod 4 * 64 + u)] @ b64_bytes vs"
| "b64_bytes [p, q, r] = [char_of (p * 4 + q div 16), char_of (q mod 16 * 16 + r div 4)]"
| "b64_bytes [p, q] = [char_of (p * 4 + q div 16)]"
| "b64_bytes _ = []"

definition base64_decode :: "string \<Rightarrow> string" where
  "base64_decode s = b64_bytes (List.map_filter b64_val (takeWhile (\<lambda>c. c \<noteq> CHR ''='') s))"

section \<open>Percent encoding\<close>

fun percent_bytes :: "string \<Rightarrow> string option" where
  "percent_bytes [] = Some []"
| "percent_bytes (c # s) =
     (if c \<noteq> CHR ''%'' then map_option (\<lambda>t. c # t) (percent_bytes s)
      else case s of
          a # b # t \<Rightarrow>
            (case (digit_val 16 a, digit_val 16 b) of
               (Some x, Some y) \<Rightarrow> map_option (\<lambda>u. char_of (16 * x + y) # u) (percent_bytes t)
             | _ \<Rightarrow> None)
        | _ \<Rightarrow> None)"

fun utf8_valid :: "(nat \<times> nat \<times> nat) option \<Rightarrow> nat list \<Rightarrow> bool" where
  "utf8_valid st [] = (st = None)"
| "utf8_valid None (b # bs) =
     (case utf8_lead b of
        Inl c \<Rightarrow> c = b \<and> b < 128 \<and> utf8_valid None bs
      | Inr (n, lo, hi, _) \<Rightarrow> utf8_valid (Some (n, lo, hi)) bs)"
| "utf8_valid (Some (n, lo, hi)) (b # bs) =
     (lo \<le> b \<and> b \<le> hi \<and> utf8_valid (if n \<le> 1 then None else Some (n - 1, 128, 191)) bs)"

text \<open>\<open>None\<close> is the \<open>URIError\<close>. The decoded text is kept as its UTF-8 bytes.\<close>

definition decodeURIComponent :: "string \<Rightarrow> string option" where
  "decodeURIComponent s =
     (case percent_bytes s of
        None \<Rightarrow> None
      | Some t \<Rightarrow> if utf8_valid None (bytes_of t) then Some t else None)"

section \<open>Base64 round trip\<close>

lemma b64_val_char [simp]: "n < 64 \<Longrightarrow> b64_val (b64_char n) = Some n"
  by (simp add: b64_val_def b64_char_def Let_def) arith

lemma b64_char_plain: "n < 64 \<Longrightarrow> b64_char n \<noteq> CHR ''='' \<and> b64_char n \<noteq> CHR ''$''"
proof -
  assume n: "n < 64"
  have "(of_char (b64_char n) :: nat) \<noteq> of_char CHR ''='' \<and> (of_char (b64_char n) :: nat) \<noteq> of_char CHR ''$''"
    using n by (simp add: b64_char_def) arith
  then show ?thesis by auto
qed

lemma sextets [simp]:
  "of_char a div (4 :: nat) < 64" "of_char a mod (4 :: nat) * 16 < 64"
  "of_char a mod 4 * 16 + of_char b div (16 :: nat) < 64" "of_char b mod (16 :: nat) * 4 < 64"
  "of_char b mod 16 * 4 + of_char c div (64 :: nat) < 64" "of_char c mod (64 :: nat) < 64"
proof -
  have "(of_char a :: nat) < 256" "(of_char b :: nat) < 256" "(of_char c :: nat) < 256" by simp_all
  then have "of_char a div 4 < (64 :: nat)" "of_char b div 16 < (16 :: nat)" "of_char c div 64 < (4 :: nat)"
    by linarith+
  moreover have "of_char a mod 4 < (4 :: nat)" "of_char b mod 16 < (16 :: nat)" by simp_all
  ultimately show "of_char a div (4 :: nat) < 64" "of_char a mod (4 :: nat) * 16 < 64"
    "of_char a mod 4 * 16 + of_char b div (16 :: nat) < 64" "of_char b mod (16 :: nat) * 4 < 64"
    "of_char b mod 16 * 4 + of_char c div (64 :: nat) < 64" "of_char c mod (64 :: nat) < 64"
    by linarith+
qed

lemma octets [simp]:
  "of_char b div 16 div (16 :: nat) = 0" "of_char b div 16 mod (16 :: nat) = of_char b div 16"
  "of_char c div 64 div (4 :: nat) = 0" "of_char c div 64 mod (4 :: nat) = of_char c div 64"
proof -
  have "(of_char b :: nat) < 256" "(of_char c :: nat) < 256" by simp_all
  then have "of_char b div 16 < (16 :: nat)" "of_char c div 64 < (4 :: nat)" by linarith+
  then show "of_char b div 16 div (16 :: nat) = 0" "of_char b div 16 mod (16 :: nat) = of_char b div 16"
    "of_char c div 64 div (4 :: nat) = 0" "of_char c div 64 mod (4 :: nat) = of_char c div 64"
    by simp_all
qed

lemma base64_decode_encode [simp]: "base64_decode (base64_encode s) = s"
proof (induction s rule: base64_encode.induct)
  case (4 a b c s)
  have "base64_decode (base64_encode (a # b # c # s)) = [a, b, c] @ base64_decode (base64_encode s)"
    by (simp add: base64_decode_def Let_def List.map_filter_simps b64_char_plain flip: add.assoc)
  with 4 show ?case by simp
qed (simp_all add: base64_decode_def Let_def List.map_filter_simps b64_char_plain)

lemma b64_char_dollar: "n < 64 \<Longrightarrow> CHR ''$'' \<noteq> b64_char n"
  using b64_char_plain [of n] by auto

lemma base64_no_dollar: "CHR ''$'' \<notin> set (base64_encode s)"
  by (induction s rule: base64_encode.induct) (simp_all add: Let_def b64_char_dollar)

end
