(* ===== verification/Auth.thy ===== *)
theory Auth
  imports Encoding RateLimit Objects Origins Billing
begin

text \<open>
  Who may call: passwords, organisations and API keys (\<open>src/src/buyer.ts\<close>), cookie sessions
  (\<open>src/src/auth/sessions.ts\<close>), and from \<open>server.ts\<close> the four authentication hooks and the login,
  session, logout, registration, API-key and origin routes. HMAC, SHA-256 and scrypt are the
  functions of a record; random ids and secrets are arguments. A hook answers \<open>Ok\<close> when the request
  goes on to the handler.
\<close>

record crypto =
  cr_hmac :: "string \<Rightarrow> string \<Rightarrow> string"  \<comment> \<open>key, message; hexadecimal\<close>
  cr_sha :: "string \<Rightarrow> string"
  cr_scrypt :: "string \<Rightarrow> string \<Rightarrow> nat \<Rightarrow> jsnum \<times> jsnum \<times> jsnum \<Rightarrow> err + string"

section \<open>Passwords\<close>

definition normalizeEmail :: "string \<Rightarrow> string" where
  "normalizeEmail email = toLowerCase (trim email)"

definition join_with :: "char \<Rightarrow> string list \<Rightarrow> string" where
  "join_with d ws = (case ws of [] \<Rightarrow> [] | w # vs \<Rightarrow> w @ concat (map (\<lambda>v. d # v) vs))"

definition hashPassword :: "crypto \<Rightarrow> string \<Rightarrow> string \<Rightarrow> err + string" where
  "hashPassword cr salt password =
     (case cr_scrypt cr password salt 32 (Fin 16384, Fin 8, Fin 1) of
        Inl e \<Rightarrow> Inl e
      | Inr derived \<Rightarrow>
          Inr (join_with CHR ''$'' [''scrypt'', ''16384'', ''8'', ''1'', base64_encode salt, base64_encode derived]))"

definition verifyPasswordHash :: "crypto \<Rightarrow> string \<Rightarrow> string \<Rightarrow> err + bool" where
  "verifyPasswordHash cr password raw =
     (if startsWith raw ''scrypt$'' then
        (case split_on CHR ''$'' raw of
           [_, n, r, p, saltB64, hashB64] \<Rightarrow>
             let n = js_number n; r = js_number r; p = js_number p
             in if \<not> is_finite n \<or> \<not> is_finite r \<or> \<not> is_finite p then Inr False
                else let salt = base64_decode saltB64; expected = base64_decode hashB64
                in (case cr_scrypt cr password salt (length expected) (n, r, p) of
                      Inl e \<Rightarrow> Inl e
                    | Inr actual \<Rightarrow> Inr (actual = expected))
         | _ \<Rightarrow> Inr False)
      else Inr (raw = cr_sha cr password))"

record user_obj =
  us_id :: string
  us_email :: string
  us_passwordHash :: string
  us_orgId :: string
  us_role :: string

definition verifyPassword :: "crypto \<Rightarrow> string \<Rightarrow> string \<Rightarrow> db \<Rightarrow> err + user_obj option" where
  "verifyPassword cr email pwd s =
     (case find (\<lambda>u. ou_email u = normalizeEmail email) (org_users s) of
        None \<Rightarrow> Inr None
      | Some u \<Rightarrow>
          (case verifyPasswordHash cr pwd (ou_password_hash u) of
             Inl e \<Rightarrow> Inl e
           | Inr okay \<Rightarrow>
               Inr (if okay then Some \<lparr> us_id = ou_id u, us_email = ou_email u,
                      us_passwordHash = ou_password_hash u, us_orgId = ou_org_id u, us_role = ou_role u \<rparr>
                    else None)))"

section \<open>Organisations and API keys\<close>

record registered =
  rg_orgId :: string
  rg_userId :: string
  rg_email :: string
  rg_role :: string

definition new_org :: "string \<Rightarrow> string \<Rightarrow> int \<Rightarrow> orgs_row" where
  "new_org oid name now =
     \<lparr> org_id = oid, org_name = name, org_platform_fee_bps = 0, org_platform_fee_wallet_address = None,
       org_cors_allow_origins = [], org_daily_spend_limit_cents = None, org_monthly_spend_limit_cents = None,
       org_max_published_bounties = None, org_max_open_jobs = None, org_created_at = now \<rparr>"

text \<open>The two inserts are separate statements: a failing hash leaves the organisation behind.\<close>

definition registerOrg ::
    "crypto \<Rightarrow> (nat \<Rightarrow> string) \<Rightarrow> int \<Rightarrow> string \<Rightarrow> string \<Rightarrow> string \<Rightarrow> db \<Rightarrow> (err + registered) \<times> db" where
  "registerOrg cr gen now orgName0 email0 password s =
     (let orgName = trim orgName0; email = normalizeEmail email0;
          oid = ''org_'' @ gen 0; uid = gen 1
      in if length orgName < 2 \<or> length orgName > 80 then (Inl (OtherError ''invalid_org_name''), s)
         else if email = [] \<or> \<not> str_includes email ''@'' \<or> length email > 200
         then (Inl (OtherError ''invalid_email''), s)
         else if length password < 8 \<or> length password > 200 then (Inl (OtherError ''invalid_password''), s)
         else if list_ex (\<lambda>u. ou_email u = email) (org_users s)
         then (Inl (OtherError ''email_already_registered''), s)
         else let s1 = s\<lparr>orgs := orgs s @ [new_org oid orgName now]\<rparr>
         in case hashPassword cr (gen 2) password of
             Inl e \<Rightarrow> (Inl e, s1)
           | Inr h \<Rightarrow>
               (Inr \<lparr> rg_orgId = oid, rg_userId = uid, rg_email = email, rg_role = ''owner'' \<rparr>,
                s1\<lparr>org_users := org_users s1 @
                     [\<lparr> ou_id = uid, ou_org_id = oid, ou_email = email, ou_password_hash = h,
                        ou_role = ''owner'', ou_created_at = now \<rparr>]\<rparr>))"

record api_key_obj =
  ako_id :: string
  ako_orgId :: string
  ako_name :: string
  ako_keyPrefix :: string
  ako_keyHash :: string
  ako_revokedAt :: "int option"

definition createOrgApiKey ::
    "crypto \<Rightarrow> string \<Rightarrow> string \<Rightarrow> string \<Rightarrow> int \<Rightarrow> string \<Rightarrow> string \<Rightarrow> db \<Rightarrow> (api_key_obj \<times> string) \<times> db" where
  "createOrgApiKey cr pepper kid secret now org name s =
     (let full = ''pw_bu_'' @ secret; prefix = take 12 full; h = cr_hmac cr pepper full
      in ((\<lparr> ako_id = kid, ako_orgId = org, ako_name = name, ako_keyPrefix = prefix, ako_keyHash = h,
             ako_revokedAt = None \<rparr>, full),
          s\<lparr>org_api_keys := org_api_keys s @
              [\<lparr> ak_id = kid, ak_org_id = org, ak_name = name, ak_key_prefix = prefix, ak_key_hash = h,
                 ak_revoked_at = None, ak_last_used_at = None, ak_created_at = now \<rparr>]\<rparr>))"

definition key_matches :: "crypto \<Rightarrow> string \<Rightarrow> string \<Rightarrow> api_keys_row \<Rightarrow> bool" where
  "key_matches cr pepper token k \<longleftrightarrow>
     ak_key_prefix k = take 12 token \<and> ak_key_hash k \<in> {cr_hmac cr pepper token, cr_sha cr token}
     \<and> ak_revoked_at k = None"

definition getApiKey :: "crypto \<Rightarrow> string \<Rightarrow> int \<Rightarrow> string \<Rightarrow> db \<Rightarrow> api_key_obj option \<times> db" where
  "getApiKey cr pepper now token s =
     (case find (key_matches cr pepper token) (org_api_keys s) of
        None \<Rightarrow> (None, s)
      | Some k \<Rightarrow>
          (Some \<lparr> ako_id = ak_id k, ako_orgId = ak_org_id k, ako_name = ak_name k,
                  ako_keyPrefix = ak_key_prefix k, ako_keyHash = ak_key_hash k,
                  ako_revokedAt = ak_revoked_at k \<rparr>,
           if (case ak_last_used_at k of None \<Rightarrow> True | Some t \<Rightarrow> now - t > 60000)
           then s\<lparr>org_api_keys := update_where (\<lambda>r. ak_id r = ak_id k) (\<lambda>r. r\<lparr>ak_last_used_at := Some now\<rparr>)
                    (org_api_keys s)\<rparr>
           else s))"

section \<open>Sessions\<close>

definition signSessionId :: "crypto \<Rightarrow> string \<Rightarrow> string \<Rightarrow> string" where
  "signSessionId cr secret sid = cr_hmac cr secret sid"

definition verifySessionCookie :: "crypto \<Rightarrow> string \<Rightarrow> string \<Rightarrow> string option" where
  "verifySessionCookie cr secret cookie =
     (case split_on CHR ''.'' cookie of
        [sid, sig] \<Rightarrow>
          if hex_decode sig = hex_decode (signSessionId cr secret sid) then Some sid else None
      | _ \<Rightarrow> None)"

definition csrfToken :: "crypto \<Rightarrow> string \<Rightarrow> string" where
  "csrfToken cr csrfSecret = cr_hmac cr csrfSecret ''csrf''"

record session_obj =
  sn_id :: string
  sn_userId :: string
  sn_orgId :: string
  sn_role :: string
  sn_csrfSecret :: string
  sn_expiresAt :: int

record created_session =
  cs_id :: string
  cs_csrfSecret :: string
  cs_expiresAt :: int
  cs_cookieValue :: string

definition createSession ::
    "crypto \<Rightarrow> string \<Rightarrow> string \<Rightarrow> string \<Rightarrow> int \<Rightarrow> string \<Rightarrow> string \<Rightarrow> string \<Rightarrow> int option \<Rightarrow> db \<Rightarrow>
     created_session \<times> db" where
  "createSession cr secret sid csrf now uid org role ttlSec s =
     (let expires = now + (case ttlSec of None \<Rightarrow> 7 * 24 * 3600 | Some t \<Rightarrow> t) * 1000
      in (\<lparr> cs_id = sid, cs_csrfSecret = csrf, cs_expiresAt = expires,
            cs_cookieValue = sid @ ''.'' @ signSessionId cr secret sid \<rparr>,
          s\<lparr>sessions := sessions s @
              [\<lparr> ses_id = sid, ses_user_id = uid, ses_org_id = org, ses_role = role, ses_csrf_secret = csrf,
                 ses_created_at = now, ses_expires_at = expires, ses_revoked_at = None \<rparr>]\<rparr>))"

definition getSession :: "int \<Rightarrow> string \<Rightarrow> db \<Rightarrow> session_obj option" where
  "getSession now sid s =
     (case find (\<lambda>r. ses_id r = sid) (sessions s) of
        None \<Rightarrow> None
      | Some r \<Rightarrow>
          if ses_revoked_at r \<noteq> None then None
          else if ses_expires_at r < now then None
          else Some \<lparr> sn_id = ses_id r, sn_userId = ses_user_id r, sn_orgId = ses_org_id r, sn_role = ses_role r,
                      sn_csrfSecret = ses_csrf_secret r, sn_expiresAt = ses_expires_at r \<rparr>)"

definition revokeSession :: "int \<Rightarrow> string \<Rightarrow> db \<Rightarrow> db" where
  "revokeSession now sid s =
     s\<lparr>sessions := update_where (\<lambda>r. ses_id r = sid) (\<lambda>r. r\<lparr>ses_revoked_at := Some now\<rparr>) (sessions s)\<rparr>"

section \<open>Requests\<close>

record http_request =
  rq_method :: string
  rq_route :: string
  rq_authorization :: "string option"
  rq_cookie :: "string option"
  rq_csrf :: "string option"

text \<open>A secret of the configuration: the hash of the token, if set, else the token itself.\<close>

record token_env =
  tk_hash :: "string option"
  tk_pepper :: string
  tk_plain :: string

record auth_env =
  ae_crypto :: crypto
  ae_worker_pepper :: string
  ae_buyer_pepper :: string
  ae_session_secret :: string
  ae_verifier :: token_env
  ae_admin :: token_env

text \<open>\<open>auth?.startsWith('Bearer ') ? auth.slice(7).trim() : undefined\<close>\<close>

definition bearer :: "http_request \<Rightarrow> string option" where
  "bearer rq =
     (case rq_authorization rq of
        None \<Rightarrow> None
      | Some a \<Rightarrow> if startsWith a ''Bearer '' then Some (trim (drop 7 a)) else None)"

definition token_ok :: "crypto \<Rightarrow> token_env \<Rightarrow> string option \<Rightarrow> bool" where
  "token_ok cr tk token =
     (case tk_hash tk of
        Some (c # h) \<Rightarrow> cr_hmac cr (tk_pepper tk) (case token of None \<Rightarrow> [] | Some t \<Rightarrow> t) = c # h
      | _ \<Rightarrow> token = Some (tk_plain tk))"

text \<open>Cookies in their order; the later of two with the same name wins. \<open>None\<close> is a \<open>URIError\<close>.\<close>

fun cookie_pairs :: "string list \<Rightarrow> (string \<times> string) list option" where
  "cookie_pairs [] = Some []"
| "cookie_pairs (part # parts) =
     (let kv = split_on CHR ''='' (trim part)
      in if hd kv = [] then cookie_pairs parts
         else case decodeURIComponent (join_with CHR ''='' (tl kv)) of
             None \<Rightarrow> None
           | Some v \<Rightarrow> map_option (\<lambda>ps. (hd kv, v) # ps) (cookie_pairs parts))"

definition parseCookies :: "string option \<Rightarrow> (string \<times> string) list option" where
  "parseCookies header = cookie_pairs (split_on CHR '';'' (case header of None \<Rightarrow> [] | Some h \<Rightarrow> h))"

definition cookie :: "string \<Rightarrow> (string \<times> string) list \<Rightarrow> string option" where
  "cookie k ps = map_of (rev ps) k"

text \<open>The rate limits of a request, in order; a database error is a 500.\<close>

fun rate_gate :: "(string \<times> rat) list \<Rightarrow> int \<Rightarrow> db \<Rightarrow> unit response \<times> db" where
  "rate_gate [] now s = (Ok (), s)"
| "rate_gate ((k, r) # gates) now s =
     (case rateLimit k r now s of
        Inl _ \<Rightarrow> (Reject 500 ''internal'', s)
      | Inr (granted, s') \<Rightarrow> if granted then rate_gate gates now s' else (Reject 429 ''rate_limited'', s'))"

definition granted :: "'a \<Rightarrow> unit response \<times> db \<Rightarrow> 'a response \<times> db" where
  "granted x g = (case fst g of Ok _ \<Rightarrow> (Ok x, snd g) | Reject c e \<Rightarrow> (Reject c e, snd g))"

section \<open>The four hooks\<close>

definition authenticateWorker :: "auth_env \<Rightarrow> int \<Rightarrow> http_request \<Rightarrow> db \<Rightarrow> worker_obj response \<times> db" where
  "authenticateWorker env now rq s =
     (case bearer rq of
        None \<Rightarrow> (Reject 401 ''unauthorized'', s)
      | Some token \<Rightarrow>
          (case getWorkerByToken (cr_hmac (ae_crypto env) (ae_worker_pepper env)) (cr_sha (ae_crypto env)) (Some token) s of
             None \<Rightarrow> (Reject 401 ''unauthorized'', s)
           | Some w \<Rightarrow>
               if wo_status w \<noteq> WorkerActive then (Reject 401 ''unauthorized'', s)
               else if (case wo_rateLimitedUntil w of None \<Rightarrow> False | Some t \<Rightarrow> t \<noteq> 0 \<and> t > now)
               then (Reject 429 ''rate_limited'', s)
               else granted w
                 (rate_gate [(''worker:'' @ wo_id w @ '':global'', 120),
                             (''worker:'' @ wo_id w @ '':route:'' @ rq_route rq, 60)] now s)))"

definition authenticateVerifier :: "auth_env \<Rightarrow> int \<Rightarrow> http_request \<Rightarrow> db \<Rightarrow> unit response \<times> db" where
  "authenticateVerifier env now rq s =
     (if \<not> token_ok (ae_crypto env) (ae_verifier env) (bearer rq) then (Reject 401 ''unauthorized'', s)
      else rate_gate [(''verifier:global'', 600), (''verifier:route:'' @ rq_route rq, 600)] now s)"

definition authenticateAdmin :: "auth_env \<Rightarrow> int \<Rightarrow> http_request \<Rightarrow> db \<Rightarrow> unit response \<times> db" where
  "authenticateAdmin env now rq s =
     (if \<not> token_ok (ae_crypto env) (ae_admin env) (bearer rq) then (Reject 401 ''unauthorized'', s)
      else rate_gate [(''admin:global'', 600), (''admin:route:'' @ rq_route rq, 600)] now s)"

record principal =
  pr_orgId :: string
  pr_userId :: "string option"
  pr_role :: "string option"
  pr_sessionId :: "string option"
  pr_apiKeyId :: "string option"

text \<open>The session of the cookie, if there is one that still holds.\<close>

definition cookie_session :: "auth_env \<Rightarrow> int \<Rightarrow> (string \<times> string) list \<Rightarrow> db \<Rightarrow> session_obj option" where
  "cookie_session env now cookies s =
     (case cookie ''pw_sess'' cookies of
        Some (c # v) \<Rightarrow>
          (case verifySessionCookie (ae_crypto env) (ae_session_secret env) (c # v) of
             Some (d # sid) \<Rightarrow> getSession now (d # sid) s
           | _ \<Rightarrow> None)
      | _ \<Rightarrow> None)"

definition unsafe_method :: "string \<Rightarrow> bool" where
  "unsafe_method m \<longleftrightarrow> toUpperCase m \<in> {''POST'', ''PUT'', ''PATCH'', ''DELETE''}"

definition csrf_ok :: "auth_env \<Rightarrow> http_request \<Rightarrow> session_obj \<Rightarrow> bool" where
  "csrf_ok env rq sess \<longleftrightarrow>
     (unsafe_method (rq_method rq) \<longrightarrow>
        truthy (rq_csrf rq) \<and> rq_csrf rq = Some (csrfToken (ae_crypto env) (sn_csrfSecret sess)))"

definition session_principal :: "session_obj \<Rightarrow> principal" where
  "session_principal sess =
     \<lparr> pr_orgId = sn_orgId sess, pr_userId = Some (sn_userId sess), pr_role = Some (sn_role sess),
       pr_sessionId = Some (sn_id sess), pr_apiKeyId = None \<rparr>"

definition key_principal :: "api_key_obj \<Rightarrow> principal" where
  "key_principal k =
     \<lparr> pr_orgId = ako_orgId k, pr_userId = None, pr_role = None, pr_sessionId = None,
       pr_apiKeyId = Some (ako_id k) \<rparr>"

definition session_access ::
    "auth_env \<Rightarrow> int \<Rightarrow> http_request \<Rightarrow> session_obj \<Rightarrow> db \<Rightarrow> principal response \<times> db" where
  "session_access env now rq sess s =
     (case rate_gate [(''buyer_sess:'' @ sn_id sess @ '':global'', 240),
                      (''buyer_sess:'' @ sn_id sess @ '':route:'' @ rq_route rq, 120)] now s of
        (Reject c e, s') \<Rightarrow> (Reject c e, s')
      | (Ok _, s') \<Rightarrow>
          if csrf_ok env rq sess then (Ok (session_principal sess), s') else (Reject 403 ''csrf'', s'))"

definition key_access :: "auth_env \<Rightarrow> int \<Rightarrow> http_request \<Rightarrow> db \<Rightarrow> principal response \<times> db" where
  "key_access env now rq s =
     (case bearer rq of
        None \<Rightarrow> (Reject 401 ''unauthorized'', s)
      | Some token \<Rightarrow>
          if token = [] then (Reject 401 ''unauthorized'', s)
          else (case getApiKey (ae_crypto env) (ae_buyer_pepper env) now token s of
              (None, s') \<Rightarrow> (Reject 401 ''unauthorized'', s')
            | (Some k, s') \<Rightarrow>
                granted (key_principal k)
                  (rate_gate [(''buyer:'' @ ako_id k @ '':global'', 120),
                              (''buyer:'' @ ako_id k @ '':route:'' @ rq_route rq, 60)] now s')))"

definition authenticateBuyer :: "auth_env \<Rightarrow> int \<Rightarrow> http_request \<Rightarrow> db \<Rightarrow> principal response \<times> db" where
  "authenticateBuyer env now rq s =
     (case parseCookies (rq_cookie rq) of
        None \<Rightarrow> (Reject 500 ''internal'', s)
      | Some cookies \<Rightarrow>
          (case cookie_session env now cookies s of
             Some sess \<Rightarrow> session_access env now rq sess s
           | None \<Rightarrow> key_access env now rq s))"

section \<open>Where the request came from\<close>

type_synonym headers = "string \<Rightarrow> string option"

definition first_value :: "headers \<Rightarrow> string \<Rightarrow> string" where
  "first_value hs name = trim (hd (split_on CHR '','' (case hs name of None \<Rightarrow> [] | Some v \<Rightarrow> v)))"

definition forwardedProtoFromHeaders :: "headers \<Rightarrow> string" where
  "forwardedProtoFromHeaders hs =
     (let cf = first_value hs ''cloudfront-forwarded-proto''
      in if cf \<noteq> [] then cf else first_value hs ''x-forwarded-proto'')"

definition or_else :: "string \<Rightarrow> string \<Rightarrow> string" where
  "or_else a b = (if a \<noteq> [] then a else b)"

text \<open>The socket: its local address and the decimal form of its port, if the port is not 0.\<close>

definition publicBaseUrlForRequest :: "string option \<Rightarrow> headers \<Rightarrow> string option \<times> string option \<Rightarrow> string" where
  "publicBaseUrlForRequest public_env hs socket =
     (let env = trim (case public_env of None \<Rightarrow> [] | Some e \<Rightarrow> e);
          proto = or_else (forwardedProtoFromHeaders hs) ''http'';
          authority = first_value hs '':authority'';
          host = or_else (or_else (first_value hs ''x-forwarded-host'')
                   (trim (case hs ''host'' of None \<Rightarrow> [] | Some h \<Rightarrow> h))) authority;
          raw = trim (case fst socket of None \<Rightarrow> [] | Some a \<Rightarrow> a);
          addr = (if raw = ''::1'' \<or> raw = ''::'' \<or> startsWith raw ''::ffff:''
                  then or_else (if startsWith raw ''::ffff:'' then drop 7 raw else raw) ''127.0.0.1'' else raw)
      in if env \<noteq> [] then strip_slash env
         else if host \<noteq> [] then strip_slash (proto @ ''://'' @ host)
         else case snd socket of
             Some port \<Rightarrow>
               if addr \<noteq> [] then strip_slash (proto @ ''://'' @ addr @ '':'' @ port) else ''http://localhost:3000''
           | None \<Rightarrow> ''http://localhost:3000'')"

definition cookie_secure :: "string option \<Rightarrow> bool \<Rightarrow> headers \<Rightarrow> bool" where
  "cookie_secure secure_env production hs =
     (let v = toLowerCase (trim (case secure_env of None \<Rightarrow> [] | Some e \<Rightarrow> e))
      in if v = ''true'' \<or> v = ''1'' then True
         else if v = ''false'' \<or> v = ''0'' then False
         else production \<and> forwardedProtoFromHeaders hs = ''https'')"

section \<open>Account routes\<close>

record login_answer =
  la_orgId :: string
  la_role :: string
  la_email :: string
  la_csrfToken :: string
  la_cookie :: string

definition route_login ::
    "auth_env \<Rightarrow> string \<Rightarrow> string \<Rightarrow> int \<Rightarrow> string option \<Rightarrow> string option \<Rightarrow> db \<Rightarrow> login_answer response \<times> db" where
  "route_login env sid csrf now email password s =
     (if \<not> truthy email \<or> \<not> truthy password then (Reject 400 ''invalid'', s)
      else case verifyPassword (ae_crypto env) (the email) (the password) s of
          Inl _ \<Rightarrow> (Reject 500 ''internal'', s)
        | Inr None \<Rightarrow> (Reject 401 ''unauthorized'', s)
        | Inr (Some u) \<Rightarrow>
            (let (sess, s') = createSession (ae_crypto env) (ae_session_secret env) sid csrf now
                                (us_id u) (us_orgId u) (us_role u) None s
             in (Ok \<lparr> la_orgId = us_orgId u, la_role = us_role u, la_email = us_email u,
                       la_csrfToken = csrfToken (ae_crypto env) (cs_csrfSecret sess),
                       la_cookie = cs_cookieValue sess \<rparr>, s')))"

record session_answer =
  sa_orgId :: string
  sa_role :: string
  sa_email :: "string option"
  sa_csrfToken :: string
  sa_expiresAt :: int

definition route_session :: "auth_env \<Rightarrow> int \<Rightarrow> http_request \<Rightarrow> db \<Rightarrow> session_answer response" where
  "route_session env now rq s =
     (case parseCookies (rq_cookie rq) of
        None \<Rightarrow> Reject 500 ''internal''
      | Some cookies \<Rightarrow>
          (case cookie_session env now cookies s of
             None \<Rightarrow> Reject 401 ''unauthorized''
           | Some sess \<Rightarrow>
               (let user = find (\<lambda>u. ou_id u = sn_userId sess) (org_users s)
                in if (case user of None \<Rightarrow> False | Some u \<Rightarrow> ou_org_id u \<noteq> [] \<and> ou_org_id u \<noteq> sn_orgId sess)
                   then Reject 401 ''unauthorized''
                   else Ok \<lparr> sa_orgId = sn_orgId sess, sa_role = sn_role sess,
                             sa_email = map_option ou_email user,
                             sa_csrfToken = csrfToken (ae_crypto env) (sn_csrfSecret sess),
                             sa_expiresAt = sn_expiresAt sess \<rparr>)))"

definition route_logout :: "auth_env \<Rightarrow> int \<Rightarrow> http_request \<Rightarrow> db \<Rightarrow> unit response \<times> db" where
  "route_logout env now rq s =
     (case parseCookies (rq_cookie rq) of
        None \<Rightarrow> (Reject 500 ''internal'', s)
      | Some cookies \<Rightarrow>
          (case cookie ''pw_sess'' cookies of
             Some (c # v) \<Rightarrow>
               (case verifySessionCookie (ae_crypto env) (ae_session_secret env) (c # v) of
                  Some (d # sid) \<Rightarrow> (Ok (), revokeSession now (d # sid) s)
                | _ \<Rightarrow> (Ok (), s))
           | _ \<Rightarrow> (Ok (), s)))"

definition route_register ::
    "auth_env \<Rightarrow> (nat \<Rightarrow> string) \<Rightarrow> int \<Rightarrow> string \<Rightarrow> string \<Rightarrow> string \<Rightarrow> string \<Rightarrow> string option \<Rightarrow> db \<Rightarrow>
     (registered \<times> api_key_obj \<times> string) response \<times> db" where
  "route_register env gen now ip orgName email password keyName s =
     (case rate_gate [(''register:ip:'' @ ip, 10)] now s of
        (Reject c e, s0) \<Rightarrow> (Reject c e, s0)
      | (Ok _, s0) \<Rightarrow>
          (case registerOrg (ae_crypto env) gen now orgName email password s0 of
             (Inl e, s1) \<Rightarrow>
               (Reject (if err_message e = ''email_already_registered'' then 409 else 400) ''invalid'', s1)
           | (Inr r, s1) \<Rightarrow>
               (let ((key, token), s2) = createOrgApiKey (ae_crypto env) (ae_buyer_pepper env) (gen 3) (gen 4) now
                      (rg_orgId r) (case keyName of None \<Rightarrow> ''default'' | Some n \<Rightarrow> n) s1
                in (Ok (r, key, token),
                    writeAuditEvent (gen 5) now ''anonymous'' (Some (rg_email r)) ''org.register'' ''org''
                      (rg_orgId r) s2))))"

definition route_api_key ::
    "auth_env \<Rightarrow> (nat \<Rightarrow> string) \<Rightarrow> int \<Rightarrow> string \<Rightarrow> string \<Rightarrow> string option \<Rightarrow> db \<Rightarrow>
     (api_key_obj \<times> string) response \<times> db" where
  "route_api_key env gen now email password name s =
     (case verifyPassword (ae_crypto env) email password s of
        Inl _ \<Rightarrow> (Reject 500 ''internal'', s)
      | Inr user \<Rightarrow>
          (case user of
             None \<Rightarrow> (Reject 401 ''unauthorized'', s)
           | Some u \<Rightarrow>
               if us_role u \<noteq> ''owner'' \<and> us_role u \<noteq> ''admin'' then (Reject 401 ''unauthorized'', s)
               else (let (kt, s') = createOrgApiKey (ae_crypto env) (ae_buyer_pepper env) (gen 0) (gen 1) now
                           (us_orgId u) (if truthy name then the name else ''default'') s
                     in (Ok kt, s'))))"

section \<open>Origin routes\<close>

definition route_add_origin ::
    "url_parser \<Rightarrow> bool \<Rightarrow> (nat \<Rightarrow> string) \<Rightarrow> int \<Rightarrow> principal \<Rightarrow> string option \<Rightarrow> string option \<Rightarrow> db \<Rightarrow>
     origins_row response \<times> db" where
  "route_add_origin parse_url production gen now pr origin method s =
     (if \<not> truthy origin \<or> \<not> truthy method then (Reject 400 ''invalid'', s)
      else case addOrigin parse_url production gen now (pr_orgId pr) (the origin) (the method) s of
          Inl e \<Rightarrow>
            (if startsWith (err_message e) ''blocked_domain:'' then Reject 403 ''blocked_domain''
             else Reject 400 ''invalid'', s)
        | Inr (row, s') \<Rightarrow> (Ok row, s'))"

definition route_list_origins :: "principal \<Rightarrow> db \<Rightarrow> origins_row list" where
  "route_list_origins pr s = listOrigins (pr_orgId pr) s"

definition route_check_origin ::
    "url_parser \<Rightarrow> net \<Rightarrow> int \<Rightarrow> principal \<Rightarrow> string \<Rightarrow> db \<Rightarrow> origins_row response \<times> db" where
  "route_check_origin parse_url n now pr oid s =
     (case checkOrigin parse_url n now oid s of
        (None, s') \<Rightarrow> (Reject 404 ''not_found'', s') | (Some r, s') \<Rightarrow> (Ok r, s'))"

definition route_revoke_origin :: "principal \<Rightarrow> string \<Rightarrow> db \<Rightarrow> origins_row response \<times> db" where
  "route_revoke_origin pr oid s =
     (case revokeOrigin oid s of
        (None, s') \<Rightarrow> (Reject 404 ''not_found'', s') | (Some r, s') \<Rightarrow> (Ok r, s'))"

section \<open>The actor of an artifact request\<close>

datatype actor = Verifier | Admin | AsWorker worker_obj | AsBuyer api_key_obj

definition artifact_actor :: "auth_env \<Rightarrow> int \<Rightarrow> http_request \<Rightarrow> db \<Rightarrow> actor option \<times> db" where
  "artifact_actor env now rq s =
     (let cr = ae_crypto env
      in case bearer rq of
          None \<Rightarrow> (None, s)
        | Some token \<Rightarrow>
            if token = [] then (None, s)
            else if token_ok cr (ae_verifier env) (Some token) then (Some Verifier, s)
            else if token_ok cr (ae_admin env) (Some token) then (Some Admin, s)
            else case getWorkerByToken (cr_hmac cr (ae_worker_pepper env)) (cr_sha cr) (Some token) s of
                Some w \<Rightarrow> (Some (AsWorker w), s)
              | None \<Rightarrow>
                  (case getApiKey cr (ae_buyer_pepper env) now token s of
                     (None, s') \<Rightarrow> (None, s') | (Some k, s') \<Rightarrow> (Some (AsBuyer k), s')))"

section \<open>Passwords are verified against what was stored\<close>

lemma split_on_single [simp]: "d \<notin> set w \<Longrightarrow> split_on d w = [w]"
  by (induction w) auto

lemma split_on_append [simp]: "d \<notin> set w \<Longrightarrow> split_on d (w @ d # t) = w # split_on d t"
  by (induction w) auto

lemma stored_number: "js_number ''16384'' = Fin 16384" "js_number ''8'' = Fin 8" "js_number ''1'' = Fin 1"
  by (simp_all add: js_number_def trim_def is_space_def toLowerCase_def lower_char_def Let_def decimal_literal_def
      strip_sign_def unsigned_decimal_def all_digits_def digit_val_def digits_value_def)

text \<open>A password is accepted by what was stored for it, and only by that: for scrypt with its
  output of the requested length, the stored string verifies the password it was made from, and
  another password exactly if scrypt maps both to the same bytes under the stored salt.\<close>

theorem password_roundtrip:
  assumes "hashPassword cr salt password = Inr stored"
    and "cr_scrypt cr password salt 32 (Fin 16384, Fin 8, Fin 1) = Inr derived" and "length derived = 32"
    and "cr_scrypt cr guess salt 32 (Fin 16384, Fin 8, Fin 1) = Inr other"
  shows "verifyPasswordHash cr password stored = Inr True \<and>
         verifyPasswordHash cr guess stored = Inr (other = derived)"
proof -
  have h: "stored = ''scrypt'' @ CHR ''$'' # ''16384'' @ CHR ''$'' # ''8'' @ CHR ''$'' # ''1'' @ CHR ''$'' #
      base64_encode salt @ CHR ''$'' # base64_encode derived"
    using assms(1,2) by (simp add: hashPassword_def join_with_def)
  have "split_on CHR ''$'' stored = [''scrypt'', ''16384'', ''8'', ''1'', base64_encode salt, base64_encode derived]"
    unfolding h by (simp add: base64_no_dollar)
  moreover have "startsWith stored ''scrypt$''" unfolding h by simp
  ultimately have "verifyPasswordHash cr g stored =
      (case cr_scrypt cr g salt 32 (Fin 16384, Fin 8, Fin 1) of Inl e \<Rightarrow> Inl e | Inr a \<Rightarrow> Inr (a = derived))" for g
    using assms(3) by (simp add: verifyPasswordHash_def stored_number is_finite_def)
  with assms show ?thesis by simp
qed

definition toy_crypto :: crypto where
  "toy_crypto = \<lparr> cr_hmac = \<lambda>k m. ''ab'', cr_sha = \<lambda>m. m,
     cr_scrypt = \<lambda>pw salt n ps. Inr (take n (pw @ replicate n CHR ''x'')) \<rparr>"

theorem password_roundtrip_witness:
  "\<exists>stored. hashPassword toy_crypto ''salt'' ''secret'' = Inr stored \<and>
     verifyPasswordHash toy_crypto ''secret'' stored = Inr True \<and>
     verifyPasswordHash toy_crypto ''guess'' stored = Inr False"
proof -
  let ?d = "take 32 (''secret'' @ replicate 32 CHR ''x'')" and ?o = "take 32 (''guess'' @ replicate 32 CHR ''x'')"
  obtain stored where h: "hashPassword toy_crypto ''salt'' ''secret'' = Inr stored"
    by (simp add: hashPassword_def toy_crypto_def)
  have "?o \<noteq> ?d" by (simp add: eval_nat_numeral)
  with password_roundtrip [OF h, where guess = "''guess''" and other = ?o and derived = ?d] h
  show ?thesis by (simp add: toy_crypto_def)
qed

section \<open>What an authenticated buyer request proves\<close>

lemma rate_gate_frame: "rate_gate gates now s = (a, s') \<Longrightarrow> \<exists>t. s' = s\<lparr>rate_limit_buckets := t\<rparr>"
proof (induction gates now s rule: rate_gate.induct)
  case (1 now s)
  then have "s' = s\<lparr>rate_limit_buckets := rate_limit_buckets s\<rparr>" by simp
  then show ?case by blast
next
  case (2 k r gates now s)
  have R: "rateLimit k r now s = Inr (g, s1) \<Longrightarrow> \<exists>t. s1 = s\<lparr>rate_limit_buckets := t\<rparr>" for g s1
    by (auto simp: rateLimit_def Let_def split: option.split_asm)
  show ?case
  proof (cases "rateLimit k r now s")
    case (Inl e)
    with 2(2) have "s' = s\<lparr>rate_limit_buckets := rate_limit_buckets s\<rparr>" by simp
    then show ?thesis by blast
  next
    case (Inr x)
    obtain g s1 where x: "x = (g, s1)" by (cases x)
    with R Inr obtain t where t: "s1 = s\<lparr>rate_limit_buckets := t\<rparr>" by blast
    show ?thesis
    proof (cases g)
      case True
      have "rate_gate gates now s1 = (a, s')" using 2(2) Inr x True by simp
      with 2(1) [OF Inr x [symmetric] True] t show ?thesis by fastforce
    qed (use 2(2) Inr x t in auto)
  qed
qed

lemma granted_Ok: "granted x g = (Ok y, s') \<longleftrightarrow> y = x \<and> g = (Ok (), s')"
  by (cases g) (auto simp: granted_def split: response.splits)

lemma verifySessionCookieD:
  assumes "verifySessionCookie cr secret c = Some sid"
  obtains sig where "split_on CHR ''.'' c = [sid, sig]" and "hex_decode sig = hex_decode (cr_hmac cr secret sid)"
  using assms by (auto simp: verifySessionCookie_def signSessionId_def split: list.split_asm if_split_asm)

lemma getSessionD:
  assumes "getSession now sid s = Some sess"
  obtains r where "r \<in> set (sessions s)" and "ses_id r = sid" and "ses_revoked_at r = None"
    and "now \<le> ses_expires_at r" and "sn_orgId sess = ses_org_id r" and "sn_csrfSecret sess = ses_csrf_secret r"
proof -
  from assms obtain r where f: "find (\<lambda>r. ses_id r = sid) (sessions s) = Some r"
    by (auto simp: getSession_def split: option.split_asm)
  with assms find_SomeD [OF f] show thesis
    by (intro that [of r]) (auto simp: getSession_def split: if_split_asm)
qed

lemma getApiKeyD:
  assumes "getApiKey cr pepper now token s = (Some k, s')"
  obtains r where "r \<in> set (org_api_keys s)" and "key_matches cr pepper token r" and "ako_orgId k = ak_org_id r"
    and "ako_id k = ak_id r"
proof -
  from assms obtain r where f: "find (key_matches cr pepper token) (org_api_keys s) = Some r"
    by (auto simp: getApiKey_def split: option.split_asm)
  with assms find_SomeD [OF f] show thesis
    by (intro that [of r]) (auto simp: getApiKey_def)
qed

text \<open>C37. A request passes the buyer hook for an organisation only with a secret of that
  organisation: the cookie of one of its sessions, signed by the server, neither revoked nor expired,
  and on an unsafe method the CSRF token of that session; or a bearer token whose keyed or plain hash
  is that of one of its API keys, not revoked.\<close>

theorem buyer_request_authentic:
  assumes "authenticateBuyer env now rq s = (Ok pr, s')"
  shows "(\<exists>cookies c sid sig. \<exists>r\<in>set (sessions s).
            parseCookies (rq_cookie rq) = Some cookies \<and> cookie ''pw_sess'' cookies = Some c \<and>
            split_on CHR ''.'' c = [sid, sig] \<and>
            hex_decode sig = hex_decode (cr_hmac (ae_crypto env) (ae_session_secret env) sid) \<and>
            ses_id r = sid \<and> ses_revoked_at r = None \<and> now \<le> ses_expires_at r \<and>
            (\<not> unsafe_method (rq_method rq) \<or>
             rq_csrf rq = Some (cr_hmac (ae_crypto env) (ses_csrf_secret r) ''csrf'')) \<and>
            pr_orgId pr = ses_org_id r \<and> pr_apiKeyId pr = None) \<or>
         (\<exists>token. \<exists>k\<in>set (org_api_keys s).
            bearer rq = Some token \<and> ak_key_prefix k = take 12 token \<and>
            (ak_key_hash k = cr_hmac (ae_crypto env) (ae_buyer_pepper env) token \<or>
             ak_key_hash k = cr_sha (ae_crypto env) token) \<and>
            ak_revoked_at k = None \<and> pr_orgId pr = ak_org_id k \<and> pr_apiKeyId pr = Some (ak_id k))"
proof -
  from assms obtain cookies where ck: "parseCookies (rq_cookie rq) = Some cookies"
    by (auto simp: authenticateBuyer_def split: option.split_asm)
  show ?thesis
  proof (cases "cookie_session env now cookies s")
    case (Some sess)
    with assms ck have acc: "session_access env now rq sess s = (Ok pr, s')" by (simp add: authenticateBuyer_def)
    from Some obtain c v d sid where c: "cookie ''pw_sess'' cookies = Some (c # v)"
      and v: "verifySessionCookie (ae_crypto env) (ae_session_secret env) (c # v) = Some (d # sid)"
      and g: "getSession now (d # sid) s = Some sess"
      by (auto simp: cookie_session_def split: option.split_asm list.split_asm)
    from acc have "csrf_ok env rq sess" and "pr = session_principal sess"
      by (auto simp: session_access_def split: prod.split_asm response.split_asm if_split_asm)
    moreover from g obtain r where "r \<in> set (sessions s)" "ses_id r = d # sid" "ses_revoked_at r = None"
      "now \<le> ses_expires_at r" "sn_orgId sess = ses_org_id r" "sn_csrfSecret sess = ses_csrf_secret r"
      by (rule getSessionD)
    moreover from v obtain sig where "split_on CHR ''.'' (c # v) = [d # sid, sig]"
      "hex_decode sig = hex_decode (cr_hmac (ae_crypto env) (ae_session_secret env) (d # sid))"
      by (rule verifySessionCookieD)
    ultimately show ?thesis
      using c ck by (auto simp: csrf_ok_def csrfToken_def session_principal_def)
  next
    case None
    with assms ck have "key_access env now rq s = (Ok pr, s')" by (simp add: authenticateBuyer_def)
    then obtain token k s1 where "bearer rq = Some token"
      and k: "getApiKey (ae_crypto env) (ae_buyer_pepper env) now token s = (Some k, s1)" and "pr = key_principal k"
      by (auto simp: key_access_def granted_Ok split: option.split_asm if_split_asm prod.split_asm)
    moreover from k obtain r where "r \<in> set (org_api_keys s)"
      "key_matches (ae_crypto env) (ae_buyer_pepper env) token r" "ako_orgId k = ak_org_id r" "ako_id k = ak_id r"
      by (rule getApiKeyD)
    ultimately show ?thesis by (auto simp: key_matches_def key_principal_def)
  qed
qed

section \<open>From login to logout\<close>

text \<open>The characters of ids and hexadecimal digests: ASCII, and none that a cookie header treats
  specially.\<close>

definition plain_char :: "char \<Rightarrow> bool" where
  "plain_char c \<longleftrightarrow>
     (of_char c :: nat) < 128 \<and> \<not> is_space c \<and> c \<notin> {CHR '';'', CHR ''='', CHR ''%'', CHR ''.''}"

definition cookie_char :: "char \<Rightarrow> bool" where
  "cookie_char c \<longleftrightarrow> plain_char c \<or> c = CHR ''.''"

lemma cookie_charD:
  "cookie_char c \<Longrightarrow> (of_char c :: nat) < 128 \<and> \<not> is_space c \<and> c \<noteq> CHR '';'' \<and> c \<noteq> CHR ''='' \<and> c \<noteq> CHR ''%''"
  by (auto simp: cookie_char_def plain_char_def is_space_def)

lemma trim_plain: "list_all (\<lambda>c. \<not> is_space c) v \<Longrightarrow> trim v = v"
proof -
  have drop: "dropWhile is_space w = w" if "list_all (\<lambda>c. \<not> is_space c) w" for w
    using that by (cases w) auto
  show "list_all (\<lambda>c. \<not> is_space c) v \<Longrightarrow> trim v = v"
    by (simp add: trim_def drop list_all_iff)
qed

lemma percent_plain: "CHR ''%'' \<notin> set v \<Longrightarrow> percent_bytes v = Some v"
  by (induction v) auto

lemma utf8_ascii: "list_all (\<lambda>b. b < 128) bs \<Longrightarrow> utf8_valid None bs"
  by (induction bs) (auto simp: utf8_lead_def)

lemma decode_plain: "list_all cookie_char v \<Longrightarrow> decodeURIComponent v = Some v"
proof -
  assume v: "list_all cookie_char v"
  then have "CHR ''%'' \<notin> set v" using cookie_charD by (auto simp: list_all_iff)
  moreover have "list_all (\<lambda>b. b < 128) (bytes_of v)"
    using v cookie_charD by (auto simp: list_all_iff bytes_of_def)
  ultimately show ?thesis by (simp add: decodeURIComponent_def percent_plain utf8_ascii)
qed

lemma parse_session_cookie:
  assumes v: "list_all cookie_char v"
  shows "parseCookies (Some (''pw_sess='' @ v)) = Some [(''pw_sess'', v)]"
proof -
  have "CHR '';'' \<notin> set (''pw_sess='' @ v)" "CHR ''='' \<notin> set v"
    using v cookie_charD by (auto simp: list_all_iff)
  moreover have "trim (''pw_sess='' @ v) = ''pw_sess='' @ v"
    by (rule trim_plain) (use v cookie_charD in \<open>auto simp: list_all_iff is_space_def\<close>)
  ultimately show ?thesis
    using split_on_append [of "CHR ''=''" "''pw_sess''" v]
    by (simp add: parseCookies_def Let_def join_with_def decode_plain [OF v])
qed

lemma verify_own_cookie:
  assumes "list_all plain_char sid" and "list_all plain_char (cr_hmac cr secret sid)"
  shows "verifySessionCookie cr secret (sid @ ''.'' @ signSessionId cr secret sid) = Some sid"
proof -
  have "CHR ''.'' \<notin> set sid" "CHR ''.'' \<notin> set (cr_hmac cr secret sid)"
    using assms by (auto simp: list_all_iff plain_char_def)
  then show ?thesis by (simp add: verifySessionCookie_def signSessionId_def)
qed

lemma fresh_bucket_grants:
  assumes "bucket key s = None" and "1 \<le> r"
  shows "\<exists>s'. rateLimit key r now s = Inr (True, s') \<and> (\<forall>k. k \<noteq> key \<longrightarrow> bucket k s' = bucket k s)"
proof -
  have n: "\<not> list_ex (\<lambda>b. rl_key b = key) (rate_limit_buckets s)"
    using assms(1) by (auto simp: bucket_def find_None list_ex_iff)
  let ?b = "\<lparr> rl_key = key, rl_tokens = r, rl_updated_at = now \<rparr>"
  have t: "fst (take_token r now ?b)" using assms(2) by (simp add: take_token_def refill_def)
  have "find (\<lambda>b. rl_key b = key) (rate_limit_buckets s) = None" using assms(1) by (simp add: bucket_def)
  with n t show ?thesis
    by (auto simp: rateLimit_def insert_do_nothing_def Let_def find_append bucket_def find_update_where
        split: option.splits dest: find_SomeD)
qed

lemma find_updated: "find P t = Some r \<Longrightarrow> P (f r) \<Longrightarrow> find P (update_where P f t) = Some (f r)"
  by (induction t) (auto split: if_split_asm)

lemma new_session_found:
  assumes "sid \<notin> ses_id ` set (sessions s)" and "ses_id r = sid"
  shows "find (\<lambda>q. ses_id q = sid) (sessions s @ [r]) = Some r"
proof -
  have "find (\<lambda>q. ses_id q = sid) (sessions s) = None" using assms(1) by (auto simp: find_None)
  with assms(2) show ?thesis by (simp add: find_append)
qed

text \<open>A login gives access until the logout: for seven days the cookie and the CSRF token of the
  answer carry a request, of any method, to the organisation of the user whose password was given
  (the session's first request, so that no rate limit has been used up); and after the logout the
  cookie alone is refused.\<close>

theorem session_lifecycle:
  assumes login: "route_login env sid csrf now email password s = (Ok a, s1)"
    and fresh: "sid \<notin> ses_id ` set (sessions s)" and sid: "sid \<noteq> []" "list_all plain_char sid"
    and sig: "list_all plain_char (cr_hmac (ae_crypto env) (ae_session_secret env) sid)"
    and csrf: "la_csrfToken a \<noteq> []"
    and rq: "rq_cookie rq = Some (''pw_sess='' @ la_cookie a)" "rq_csrf rq = Some (la_csrfToken a)"
      "rq_authorization rq = None"
    and unused: "bucket (''buyer_sess:'' @ sid @ '':global'') s = None"
      "bucket (''buyer_sess:'' @ sid @ '':route:'' @ rq_route rq) s = None"
    and time: "t \<le> now + 604800000"
  shows "\<exists>pr s2. authenticateBuyer env t rq s1 = (Ok pr, s2) \<and> pr_orgId pr = la_orgId a \<and>
           pr_sessionId pr = Some sid \<and>
           fst (authenticateBuyer env u rq (snd (route_logout env t' rq s2))) = Reject 401 ''unauthorized''"
proof -
  let ?cr = "ae_crypto env" and ?secret = "ae_session_secret env"
  let ?row = "\<lambda>us. \<lparr> ses_id = sid, ses_user_id = us_id us, ses_org_id = us_orgId us, ses_role = us_role us,
      ses_csrf_secret = csrf, ses_created_at = now, ses_expires_at = now + 604800000, ses_revoked_at = None \<rparr>"
  from login obtain us where us: "truthy email" "truthy password"
      "verifyPassword ?cr (the email) (the password) s = Inr (Some us)"
    by (auto simp: route_login_def split: sum.split_asm option.split_asm if_split_asm)
  have "route_login env sid csrf now email password s =
      (Ok \<lparr> la_orgId = us_orgId us, la_role = us_role us, la_email = us_email us,
            la_csrfToken = csrfToken ?cr csrf, la_cookie = sid @ ''.'' @ signSessionId ?cr ?secret sid \<rparr>,
       s\<lparr>sessions := sessions s @ [?row us]\<rparr>)"
    using us by (simp add: route_login_def createSession_def Let_def)
  with login have a: "la_orgId a = us_orgId us" "la_csrfToken a = csrfToken ?cr csrf"
      "la_cookie a = sid @ ''.'' @ signSessionId ?cr ?secret sid"
    and s1: "s1 = s\<lparr>sessions := sessions s @ [?row us]\<rparr>"
    by auto
  define v where "v = la_cookie a"
  have v: "list_all cookie_char v" "v \<noteq> []" "verifySessionCookie ?cr ?secret v = Some sid"
    using a(3) sid sig verify_own_cookie [OF sid(2) sig]
    by (auto simp: v_def cookie_char_def list_all_iff signSessionId_def)
  then obtain c w where cw: "v = c # w" by (cases v) auto
  obtain d e where de: "sid = d # e" using sid(1) by (cases sid) auto
  have ck: "parseCookies (rq_cookie rq) = Some [(''pw_sess'', v)]"
    using rq(1) parse_session_cookie [OF v(1)] by (simp add: v_def)
  have sess: "cookie_session env n [(''pw_sess'', v)] x = getSession n sid x" for n x
    using v(3) by (simp add: cookie_session_def cookie_def cw de)
  let ?s = "\<lparr> sn_id = sid, sn_userId = us_id us, sn_orgId = us_orgId us, sn_role = us_role us,
      sn_csrfSecret = csrf, sn_expiresAt = now + 604800000 \<rparr>"
  have "getSession t sid s1 = Some ?s"
    using new_session_found [OF fresh, of "?row us"] time by (simp add: getSession_def s1)
  then have auth: "authenticateBuyer env t rq s1 = session_access env t rq ?s s1"
    by (simp add: authenticateBuyer_def ck sess)
  let ?g = "''buyer_sess:'' @ sid @ '':global''" and ?r = "''buyer_sess:'' @ sid @ '':route:'' @ rq_route rq"
  have "bucket ?g s1 = None" "bucket ?r s1 = None" using unused by (simp_all add: s1 bucket_def)
  moreover have "?r \<noteq> ?g" by simp
  ultimately obtain x y where "rateLimit ?g 240 t s1 = Inr (True, x)" "rateLimit ?r 120 t x = Inr (True, y)"
    using fresh_bucket_grants [of ?g s1 240 t] fresh_bucket_grants [of ?r _ 120 t]
    by (metis (no_types, lifting) one_le_numeral)
  then have gate: "rate_gate [(?g, 240), (?r, 120)] t s1 = (Ok (), y)" by simp
  have ok: "csrf_ok env rq ?s" using rq(2) a(2) csrf by (simp add: csrf_ok_def)
  have res: "authenticateBuyer env t rq s1 = (Ok (session_principal ?s), y)"
    using gate ok by (simp add: auth session_access_def)
  have ys: "sessions y = sessions s1" using rate_gate_frame [OF gate] by auto
  have out: "route_logout env t' rq y = (Ok (), revokeSession t' sid y)"
    using v(3) by (simp add: route_logout_def ck cookie_def cw de)
  have "find (\<lambda>q. ses_id q = sid) (sessions (revokeSession t' sid y)) = Some ((?row us)\<lparr>ses_revoked_at := Some t'\<rparr>)"
    using find_updated [OF new_session_found [OF fresh, of "?row us"], of "\<lambda>r. r\<lparr>ses_revoked_at := Some t'\<rparr>"]
    by (simp add: revokeSession_def ys s1)
  then have "getSession u sid (revokeSession t' sid y) = None" by (simp add: getSession_def)
  then have "fst (authenticateBuyer env u rq (revokeSession t' sid y)) = Reject 401 ''unauthorized''"
    by (simp add: authenticateBuyer_def ck sess key_access_def bearer_def rq(3))
  with res out a(1) show ?thesis by (auto simp: session_principal_def)
qed

definition toy_env :: auth_env where
  "toy_env = \<lparr> ae_crypto = toy_crypto, ae_worker_pepper = [], ae_buyer_pepper = [], ae_session_secret = ''k'',
     ae_verifier = \<lparr> tk_hash = None, tk_pepper = [], tk_plain = ''pw_vf_internal'' \<rparr>,
     ae_admin = \<lparr> tk_hash = None, tk_pepper = [], tk_plain = ''pw_adm_internal'' \<rparr> \<rparr>"

definition toy_user_store :: db where
  "toy_user_store = empty_db\<lparr>org_users :=
     [\<lparr> ou_id = ''u'', ou_org_id = ''o'', ou_email = ''a@b'', ou_password_hash = ''secret'',
        ou_role = ''owner'', ou_created_at = 0 \<rparr>]\<rparr>"

definition toy_request :: http_request where
  "toy_request = \<lparr> rq_method = ''POST'', rq_route = ''/x'', rq_authorization = None,
     rq_cookie = Some ''pw_sess=s1.ab'', rq_csrf = Some ''ab'' \<rparr>"

lemma toy_login:
  "route_login toy_env ''s1'' ''c'' 0 (Some ''a@b'') (Some ''secret'') toy_user_store =
     (Ok \<lparr> la_orgId = ''o'', la_role = ''owner'', la_email = ''a@b'', la_csrfToken = ''ab'', la_cookie = ''s1.ab'' \<rparr>,
      toy_user_store\<lparr>sessions :=
        [\<lparr> ses_id = ''s1'', ses_user_id = ''u'', ses_org_id = ''o'', ses_role = ''owner'', ses_csrf_secret = ''c'',
           ses_created_at = 0, ses_expires_at = 604800000, ses_revoked_at = None \<rparr>]\<rparr>)"
  by (simp add: route_login_def verifyPassword_def verifyPasswordHash_def toy_env_def toy_crypto_def toy_user_store_def
      empty_db_def createSession_def signSessionId_def csrfToken_def normalizeEmail_def toLowerCase_def lower_char_def
      trim_def is_space_def Let_def)

theorem session_lifecycle_witness:
  "\<exists>s1 a pr s2. route_login toy_env ''s1'' ''c'' 0 (Some ''a@b'') (Some ''secret'') toy_user_store = (Ok a, s1) \<and>
     authenticateBuyer toy_env 5 toy_request s1 = (Ok pr, s2) \<and> pr_orgId pr = ''o'' \<and>
     fst (authenticateBuyer toy_env 7 toy_request (snd (route_logout toy_env 6 toy_request s2))) =
       Reject 401 ''unauthorized''"
  using session_lifecycle [OF toy_login, where t = 5 and t' = 6 and u = 7 and rq = toy_request] toy_login
  by (simp add: toy_request_def toy_env_def toy_crypto_def toy_user_store_def empty_db_def bucket_def
      plain_char_def is_space_def) blast

definition toy_key_store :: db where
  "toy_key_store = empty_db\<lparr>org_api_keys :=
     [\<lparr> ak_id = ''k'', ak_org_id = ''o'', ak_name = [], ak_key_prefix = ''tok'', ak_key_hash = ''tok'',
        ak_revoked_at = None, ak_last_used_at = Some 0, ak_created_at = 0 \<rparr>]\<rparr>"

definition toy_key_request :: http_request where
  "toy_key_request = \<lparr> rq_method = ''GET'', rq_route = ''/x'', rq_authorization = Some ''Bearer tok'',
     rq_cookie = None, rq_csrf = None \<rparr>"

lemma toy_key_access:
  "\<exists>s'. authenticateBuyer toy_env 5 toy_key_request toy_key_store =
     (Ok \<lparr> pr_orgId = ''o'', pr_userId = None, pr_role = None, pr_sessionId = None, pr_apiKeyId = Some ''k'' \<rparr>, s')"
  by (simp add: authenticateBuyer_def toy_key_request_def parseCookies_def trim_def is_space_def cookie_session_def cookie_def
      key_access_def bearer_def getApiKey_def key_matches_def toy_env_def toy_crypto_def toy_key_store_def empty_db_def
      rateLimit_def insert_do_nothing_def take_token_def refill_def Let_def granted_def key_principal_def)

theorem buyer_request_authentic_witness:
  "\<exists>token. \<exists>k\<in>set (org_api_keys toy_key_store). bearer toy_key_request = Some token \<and>
     ak_key_hash k = token \<and> ak_org_id k = ''o''"
proof -
  from toy_key_access obtain s' where "authenticateBuyer toy_env 5 toy_key_request toy_key_store =
    (Ok \<lparr> pr_orgId = ''o'', pr_userId = None, pr_role = None, pr_sessionId = None, pr_apiKeyId = Some ''k'' \<rparr>, s')"
    by blast
  from buyer_request_authentic [OF this] show ?thesis
    by (auto simp: toy_env_def toy_crypto_def toy_key_store_def empty_db_def)
qed

section \<open>Origins of other organisations\<close>

text \<open>The revoke route does not look at the caller: whichever organisation a request is
  authenticated for, it revokes the origin with the given id, and the organisation that owns the
  origin can no longer publish or serve anything on it.\<close>

theorem foreign_origin_revoked:
  assumes "r \<in> set (origins s)" and "distinct (map or_id (origins s))"
    and "\<And>q. q \<in> set (origins s) \<Longrightarrow> or_org_id q = or_org_id r \<Longrightarrow> or_origin q = or_origin r \<Longrightarrow> q = r"
    and "originAllowed parse_url production (or_org_id r) candidate s"
    and "normalizeOrigin parse_url production candidate = Inr (or_origin r)"
    and "pr_orgId pr \<noteq> or_org_id r"
  shows "\<exists>s'. route_revoke_origin pr (or_id r) s = (Ok (r\<lparr>or_status := ''revoked''\<rparr>), s') \<and>
           \<not> originAllowed parse_url production (or_org_id r) candidate s'"
proof -
  let ?f = "\<lambda>q. q\<lparr>or_status := ''revoked''\<rparr>" and ?P = "\<lambda>q. or_id q = or_id r"
  have f: "find ?P (origins s) = Some r" using assms(1,2) by (auto intro: find_unique)
  then have "find ?P (update_where ?P ?f (origins s)) = Some (?f r)" by (rule find_updated) simp
  moreover have "\<not> list_ex (\<lambda>q. or_org_id q = or_org_id r \<and> or_status q = ''verified'' \<and> or_origin q = or_origin r)
      (update_where ?P ?f (origins s))"
    unfolding list_ex_iff
  proof (intro notI, elim bexE conjE)
    fix q' assume q': "q' \<in> set (update_where ?P ?f (origins s))" "or_org_id q' = or_org_id r"
      "or_status q' = ''verified''" "or_origin q' = or_origin r"
    then obtain q where q: "q \<in> set (origins s)" "q' = (if ?P q then ?f q else q)"
      unfolding in_set_update_where by blast
    then have "or_org_id q' = or_org_id q" "or_origin q' = or_origin q" by simp_all
    with q' assms(3) [OF q(1)] have "q = r" by simp
    with q(2) q'(3) show False by simp
  qed
  ultimately show ?thesis
    using assms(5) by (simp add: route_revoke_origin_def revokeOrigin_def update_origin_def origin_by_id_def
        originAllowed_def Let_def)
qed

definition toy_origin :: origins_row where
  "toy_origin = \<lparr> or_id = ''x'', or_org_id = ''victim'', or_origin = ''https://a.example'', or_status = ''verified'',
     or_method = ''dns_txt'', or_token = ''t'', or_verified_at = Some 0, or_failure_reason = None, or_created_at = 0 \<rparr>"

definition toy_parse :: url_parser where
  "toy_parse u = Some \<lparr> u_protocol = ''https:'', u_username = [], u_password = [], u_hostname = ''a.example'', u_origin = u,
     u_pathname = ''/'', u_href = u \<rparr>"

theorem foreign_origin_revoked_witness:
  "\<exists>s'. route_revoke_origin (key_principal \<lparr> ako_id = ''k'', ako_orgId = ''attacker'', ako_name = [],
      ako_keyPrefix = [], ako_keyHash = [], ako_revokedAt = None \<rparr>) ''x'' (empty_db\<lparr>origins := [toy_origin]\<rparr>) =
      (Ok (toy_origin\<lparr>or_status := ''revoked''\<rparr>), s') \<and>
     \<not> originAllowed toy_parse True ''victim'' ''https://a.example'' s'"
  using foreign_origin_revoked [where r = toy_origin and s = "empty_db\<lparr>origins := [toy_origin]\<rparr>" and parse_url = toy_parse
      and production = True and candidate = "''https://a.example''" and pr = "key_principal \<lparr> ako_id = ''k'',
      ako_orgId = ''attacker'', ako_name = [], ako_keyPrefix = [], ako_keyHash = [], ako_revokedAt = None \<rparr>"]
  by (simp add: toy_origin_def originAllowed_def normalizeOrigin_def toy_parse_def key_principal_def)

end
