(* ===== verification/Artifacts.thy ===== *)
theory Artifacts
  imports Auth Jobs
begin

text \<open>
  Uploads and their life cycle: \<open>src/src/storage.ts\<close> (presigned uploads, local uploads, scanning,
  quarantine, deletion, downloads), \<open>src/src/retention.ts\<close>, the two artifact handlers of
  \<open>src/workers/handlers.ts\<close> and the upload, download, status, quarantine, deletion and retention
  routes of \<open>server.ts\<close>.

  These operations mix statements on the store with effects on the object storage and may throw
  between the two, so they are programs on a \<open>world\<close>, the store and the stored bytes, that end in an
  error or a value and keep what was done before the error. S3 and the file system are given by
  what they hold and by which calls fail; a failing call does nothing.
\<close>

section \<open>Programs\<close>

record storage =
  st_files :: "string \<Rightarrow> string option"
  st_objects :: "string \<times> string \<Rightarrow> string option"

record world =
  w_db :: db
  w_st :: storage

type_synonym 'a prog = "world \<Rightarrow> (err + 'a) \<times> world"

definition ret :: "'a \<Rightarrow> 'a prog" where
  "ret x w = (Inr x, w)"

definition raise :: "string \<Rightarrow> 'a prog" where
  "raise m w = (Inl (OtherError m), w)"

definition bind_prog :: "'a prog \<Rightarrow> ('a \<Rightarrow> 'b prog) \<Rightarrow> 'b prog" where
  "bind_prog m f w = (case m w of (Inl e, w') \<Rightarrow> (Inl e, w') | (Inr x, w') \<Rightarrow> f x w')"

definition seq_prog :: "unit prog \<Rightarrow> 'b prog \<Rightarrow> 'b prog" where
  "seq_prog m n = bind_prog m (\<lambda>_. n)"

definition query :: "(db \<Rightarrow> 'a) \<Rightarrow> 'a prog" where
  "query f w = (Inr (f (w_db w)), w)"

definition exec :: "(db \<Rightarrow> db) \<Rightarrow> unit prog" where
  "exec f w = (Inr (), w\<lparr>w_db := f (w_db w)\<rparr>)"

definition check :: "bool \<Rightarrow> string \<Rightarrow> unit prog" where
  "check ok m = (if ok then ret () else raise m)"

definition of_result :: "err + 'a \<Rightarrow> 'a prog" where
  "of_result r w = (r, w)"

fun for_each :: "('x \<Rightarrow> 'a prog) \<Rightarrow> 'x list \<Rightarrow> 'a list prog" where
  "for_each f [] = ret []"
| "for_each f (x # xs) = bind_prog (f x) (\<lambda>y. bind_prog (for_each f xs) (\<lambda>ys. ret (y # ys)))"

named_theorems prog_simps \<open>running programs\<close>

declare ret_def [prog_simps] raise_def [prog_simps] query_def [prog_simps] exec_def [prog_simps]
  of_result_def [prog_simps] check_def [prog_simps] bind_prog_def [prog_simps] seq_prog_def [prog_simps]

section \<open>Configuration\<close>

datatype backend = LocalDisk | S3 | OtherBackend string

datatype s3_call = CopyObj string string string | DeleteObj string string | GetObj string string

record storage_env =
  se_backend :: backend
  se_root :: "string list"
  se_public_base :: string
  se_ttl_days :: int
  se_max_bytes :: jsnum
  se_bucket :: "bucket_kind \<Rightarrow> string option"
  se_bucket_fallback :: "string option"
  se_sign :: "string \<Rightarrow> string \<Rightarrow> string"
  se_s3_error :: "s3_call \<Rightarrow> string option"
  se_write_error :: "string \<Rightarrow> string option"
  se_scan :: scan_env

definition ALLOWED_CONTENT_TYPES :: "string list" where
  "ALLOWED_CONTENT_TYPES =
     [''image/png'', ''image/jpeg'', ''application/pdf'', ''application/json'', ''text/plain'',
      ''application/zip'', ''video/mp4'', ''application/octet-stream'']"

definition engine_name :: "storage_env \<Rightarrow> string" where
  "engine_name env = (case sc_engine (se_scan env) of None \<Rightarrow> ''basic'' | Some e \<Rightarrow> e)"

definition bucketForKind :: "storage_env \<Rightarrow> bucket_kind \<Rightarrow> err + string" where
  "bucketForKind env kind =
     (case (case se_bucket env kind of Some b \<Rightarrow> Some b | None \<Rightarrow> se_bucket_fallback env) of
        Some (c # b) \<Rightarrow> Inr (c # b)
      | _ \<Rightarrow> Inl (OtherError ''S3_BUCKET (or S3_BUCKET_* for staging/clean/quarantine) is required when STORAGE_BACKEND=s3''))"

section \<open>Files and objects\<close>

text \<open>\<open>path.resolve\<close> on POSIX: segments pushed on the root, \<open>..\<close> pops.\<close>

fun walk :: "string list \<Rightarrow> string list \<Rightarrow> string list" where
  "walk st [] = st"
| "walk st (seg # segs) =
     (if seg = [] \<or> seg = ''.'' then walk st segs
      else if seg = ''..'' then walk (butlast st) segs
      else walk (st @ [seg]) segs)"

definition path_resolve :: "string list \<Rightarrow> string \<Rightarrow> string list" where
  "path_resolve dir key = walk (if startsWith key ''/'' then [] else dir) (split_on CHR ''/'' key)"

definition path_string :: "string list \<Rightarrow> string" where
  "path_string segs = (if segs = [] then ''/'' else concat (map (\<lambda>s. CHR ''/'' # s) segs))"

definition localPathForStorageKey :: "storage_env \<Rightarrow> string \<Rightarrow> err + string" where
  "localPathForStorageKey env key =
     (let path = path_string (path_resolve (se_root env) key)
      in if startsWith path (path_string (se_root env)) then Inr path
         else Inl (OtherError ''invalid_storage_key''))"

definition write_file :: "storage_env \<Rightarrow> string \<Rightarrow> string \<Rightarrow> unit prog" where
  "write_file env path bytes w =
     (case se_write_error env path of
        Some m \<Rightarrow> raise m w
      | None \<Rightarrow> (Inr (), w\<lparr>w_st := (w_st w)\<lparr>st_files := (st_files (w_st w))(path \<mapsto> bytes)\<rparr>\<rparr>))"

text \<open>\<open>unlink(path).catch(() => undefined)\<close>\<close>

definition unlink :: "string \<Rightarrow> unit prog" where
  "unlink path w = (Inr (), w\<lparr>w_st := (w_st w)\<lparr>st_files := (st_files (w_st w))(path := None)\<rparr>\<rparr>)"

definition read_file :: "string \<Rightarrow> string prog" where
  "read_file path w = (case st_files (w_st w) path of None \<Rightarrow> raise ''ENOENT'' w | Some b \<Rightarrow> (Inr b, w))"

definition copy_object :: "storage_env \<Rightarrow> string \<Rightarrow> string \<Rightarrow> string \<Rightarrow> unit prog" where
  "copy_object env src dst key w =
     (case se_s3_error env (CopyObj src dst key) of
        Some m \<Rightarrow> raise m w
      | None \<Rightarrow>
          (case st_objects (w_st w) (src, key) of
             None \<Rightarrow> raise ''NoSuchKey'' w
           | Some b \<Rightarrow> (Inr (), w\<lparr>w_st := (w_st w)\<lparr>st_objects := (st_objects (w_st w))((dst, key) \<mapsto> b)\<rparr>\<rparr>)))"

definition delete_object :: "storage_env \<Rightarrow> string \<Rightarrow> string \<Rightarrow> unit prog" where
  "delete_object env b key w =
     (case se_s3_error env (DeleteObj b key) of
        Some m \<Rightarrow> raise m w
      | None \<Rightarrow> (Inr (), w\<lparr>w_st := (w_st w)\<lparr>st_objects := (st_objects (w_st w))((b, key) := None)\<rparr>\<rparr>))"

text \<open>\<open>GetObject\<close> and \<open>streamToBuffer\<close>, which gives up beyond the limit.\<close>

definition get_object :: "storage_env \<Rightarrow> string \<Rightarrow> string \<Rightarrow> string prog" where
  "get_object env b key w =
     (case se_s3_error env (GetObj b key) of
        Some m \<Rightarrow> raise m w
      | None \<Rightarrow>
          (case st_objects (w_st w) (b, key) of
             None \<Rightarrow> raise ''NoSuchKey'' w
           | Some bytes \<Rightarrow>
               if num_gt (of_nat (length bytes)) (se_max_bytes env) \<and> bytes \<noteq> [] then raise ''too_large'' w
               else (Inr bytes, w)))"

definition artifact_row :: "string \<Rightarrow> db \<Rightarrow> artifacts_row option" where
  "artifact_row aid s = find (\<lambda>r. a_id r = aid) (artifacts s)"

definition set_artifact :: "string \<Rightarrow> (artifacts_row \<Rightarrow> artifacts_row) \<Rightarrow> unit prog" where
  "set_artifact aid f =
     exec (\<lambda>s. s\<lparr>artifacts := update_where (\<lambda>r. a_id r = aid) f (artifacts s)\<rparr>)"

section \<open>Presigned uploads\<close>

record file_request =
  fr_filename :: string
  fr_contentType :: string
  fr_sizeBytes :: "int option"

record presigned_upload =
  pu_artifactId :: string
  pu_filename :: string
  pu_url :: string
  pu_contentType :: string
  pu_finalUrl :: string

definition validateFile :: "storage_env \<Rightarrow> file_request \<Rightarrow> unit prog" where
  "validateFile env f =
     seq_prog (check (fr_filename f \<noteq> []) ''invalid_filename'')
    (seq_prog (check (fr_contentType f \<in> set ALLOWED_CONTENT_TYPES) ''content_type_not_allowed'')
    (seq_prog (check (case fr_sizeBytes f of None \<Rightarrow> True | Some n \<Rightarrow> 0 \<le> n) ''invalid_size'')
       (check (case fr_sizeBytes f of None \<Rightarrow> True | Some n \<Rightarrow> \<not> num_gt (of_int n) (se_max_bytes env)) ''too_large'')))"

definition sanitizeFilename :: "string \<Rightarrow> err + string" where
  "sanitizeFilename filename =
     (let base = last (split_on CHR 0x5C (last (split_on CHR ''/'' (trim filename))))
      in if base = [] \<or> length base > 200 then Inl (OtherError ''invalid_filename'') else Inr base)"

definition scheduleArtifactDeletion :: "string \<Rightarrow> int \<Rightarrow> string \<Rightarrow> int \<Rightarrow> db \<Rightarrow> db" where
  "scheduleArtifactDeletion rid now aid runAt s =
     s\<lparr>retention_jobs := retention_jobs s @
         [\<lparr> rj_id = rid, rj_artifact_id = aid, rj_status = ''pending'', rj_run_at = runAt, rj_attempts = 0,
            rj_locked_at = None, rj_locked_by = None, rj_last_error = None, rj_created_at = now,
            rj_finished_at = None \<rparr>]\<rparr>"

text \<open>The days an artifact of the job is kept: the organisation's policy or the default.\<close>

definition org_of_job :: "string \<Rightarrow> db \<Rightarrow> string option" where
  "org_of_job jid s =
     (case find (\<lambda>j. j_id j = jid) (jobs s) of
        None \<Rightarrow> None
      | Some j \<Rightarrow> map_option b_org_id (find (\<lambda>b. b_id b = j_bounty_id j) (bounties s)))"

definition ttl_days :: "storage_env \<Rightarrow> string \<Rightarrow> db \<Rightarrow> int" where
  "ttl_days env jid s =
     (case org_of_job jid s of
        Some (c # org) \<Rightarrow>
          (case find (\<lambda>p. rp_org_id p = Some (c # org) \<and> rp_applies_to p = ''artifacts'') (retention_policies s) of
             Some p \<Rightarrow> (case rp_max_age_days p of Some d \<Rightarrow> d | None \<Rightarrow> se_ttl_days env)
           | None \<Rightarrow> se_ttl_days env)
      | _ \<Rightarrow> se_ttl_days env)"

definition new_artifact ::
    "storage_env \<Rightarrow> string \<Rightarrow> string option \<Rightarrow> string \<Rightarrow> string option \<Rightarrow> string \<Rightarrow> string \<Rightarrow> string \<Rightarrow>
     string \<Rightarrow> file_request \<Rightarrow> int \<Rightarrow> int \<Rightarrow> artifacts_row" where
  "new_artifact env aid sub jid wid kind filename key url f now expires =
     \<lparr> a_id = aid, a_submission_id = sub, a_job_id = Some jid, a_worker_id = wid, a_kind = kind,
       a_label = Some filename, a_sha256 = None, a_storage_key = Some key, a_final_url = Some url,
       a_content_type = Some (fr_contentType f), a_size_bytes = fr_sizeBytes f, a_status = ArtPresigned,
       a_bucket_kind = (if se_backend env = S3 then Some Staging else None), a_scan_engine = None,
       a_scan_started_at = None, a_scan_finished_at = None, a_scan_reason = None, a_quarantine_key = None,
       a_created_at = now, a_expires_at = Some expires, a_deleted_at = None \<rparr>"

text \<open>One file: the row, its deletion date, and where to send the bytes.\<close>

definition presign_file ::
    "storage_env \<Rightarrow> string \<Rightarrow> string \<Rightarrow> int \<Rightarrow> int \<Rightarrow> string option \<Rightarrow> string \<Rightarrow> string option \<Rightarrow>
     (string \<Rightarrow> string) \<Rightarrow> (string \<times> string) \<times> file_request \<Rightarrow> presigned_upload prog" where
  "presign_file env base route now expires sub jid wid kind_of idf =
     (let ((aid, rid), f) = idf
      in seq_prog (validateFile env f)
        (bind_prog (of_result (sanitizeFilename (fr_filename f))) (\<lambda>filename.
          let key = ''artifacts/'' @ aid @ ''/'' @ filename;
              finalUrl = base @ ''/api/artifacts/'' @ aid @ ''/download'';
              answer = (\<lambda>url. \<lparr> pu_artifactId = aid, pu_filename = filename, pu_url = url,
                          pu_contentType = fr_contentType f, pu_finalUrl = finalUrl \<rparr>)
          in seq_prog (exec (\<lambda>s. s\<lparr>artifacts := artifacts s @
                 [new_artifact env aid sub jid wid (kind_of filename) filename key finalUrl f now expires]\<rparr>))
            (seq_prog (exec (scheduleArtifactDeletion rid now aid expires))
              (case se_backend env of
                 LocalDisk \<Rightarrow> ret (answer (base @ route @ aid))
               | S3 \<Rightarrow> bind_prog (of_result (bucketForKind env Staging)) (\<lambda>bucket.
                   ret (answer (se_sign env bucket key)))
               | OtherBackend b \<Rightarrow> raise (''Unsupported STORAGE_BACKEND: '' @ b))))))"

definition verifier_kind :: "string \<Rightarrow> string" where
  "verifier_kind filename =
     (let l = toLowerCase filename
      in if endsWith l ''.png'' \<or> endsWith l ''.jpg'' \<or> endsWith l ''.jpeg'' then ''screenshot''
         else if endsWith l ''.log'' \<or> endsWith l ''.txt'' then ''log'' else ''other'')"

text \<open>\<open>ids\<close> gives the artifact id and the retention job id of each file.\<close>

definition presignUploads ::
    "storage_env \<Rightarrow> (nat \<Rightarrow> string \<times> string) \<Rightarrow> int \<Rightarrow> string \<Rightarrow> string \<Rightarrow> file_request list \<Rightarrow> string \<Rightarrow>
     presigned_upload list prog" where
  "presignUploads env ids now jid wid files publicBase =
     (if files = [] then ret []
      else if length files > 10 then raise ''too_many_files''
      else bind_prog (query (ttl_days env jid)) (\<lambda>ttl.
        for_each (presign_file env (strip_slash publicBase) ''/api/uploads/local/'' now
            (now + ttl * 24 * 60 * 60 * 1000) None jid (Some wid) (\<lambda>_. ''other''))
          (zip (map ids [0..<length files]) files)))"

definition presignVerifierUploads ::
    "storage_env \<Rightarrow> (nat \<Rightarrow> string \<times> string) \<Rightarrow> int \<Rightarrow> string \<Rightarrow> string \<Rightarrow> file_request list \<Rightarrow> string \<Rightarrow>
     presigned_upload list prog" where
  "presignVerifierUploads env ids now sub jid files publicBase =
     (if files = [] then ret []
      else if length files > 20 then raise ''too_many_files''
      else bind_prog (query (ttl_days env jid)) (\<lambda>ttl.
        for_each (presign_file env (strip_slash publicBase) ''/api/verifier/uploads/local/'' now
            (now + ttl * 24 * 60 * 60 * 1000) (Some sub) jid None verifier_kind)
          (zip (map ids [0..<length files]) files)))"

section \<open>Attaching to a submission\<close>

record artifact_ref =
  ar_kind :: string
  ar_label :: string
  ar_sha256 :: string
  ar_url :: string
  ar_sizeBytes :: "int option"
  ar_contentType :: "string option"

text \<open>\<open>pathname\<close> is the URL parser's path, undefined for a relative url. The pattern is
  \<open>^/api/artifacts/([^/]+)/download$\<close>.\<close>

definition extractArtifactIdFromUrl :: "(string \<Rightarrow> string option) \<Rightarrow> string \<Rightarrow> string option" where
  "extractArtifactIdFromUrl pathname url =
     (case split_on CHR ''/'' (case pathname url of Some p \<Rightarrow> p | None \<Rightarrow> url) of
        [e, api, arts, aid, d] \<Rightarrow>
          if e = [] \<and> api = ''api'' \<and> arts = ''artifacts'' \<and> aid \<noteq> [] \<and> d = ''download'' then Some aid else None
      | _ \<Rightarrow> None)"

definition attach_error :: "string \<Rightarrow> string \<Rightarrow> artifacts_row option \<Rightarrow> string option" where
  "attach_error jid wid art =
     (case art of
        None \<Rightarrow> Some ''artifact_not_found''
      | Some a \<Rightarrow>
          if a_deleted_at a \<noteq> None then Some ''artifact_deleted''
          else if truthy (a_worker_id a) \<and> a_worker_id a \<noteq> Some wid then Some ''artifact_forbidden''
          else if truthy (a_job_id a) \<and> a_job_id a \<noteq> Some jid then Some ''artifact_wrong_job''
          else if a_status a = ArtBlocked then Some ''artifact_blocked''
          else if a_status a \<noteq> ArtScanned \<and> a_status a \<noteq> ArtAccepted then Some ''artifact_not_scanned''
          else None)"

definition attach_row :: "string \<Rightarrow> artifact_ref \<Rightarrow> artifacts_row \<Rightarrow> artifacts_row" where
  "attach_row sub ref a =
     a\<lparr>a_submission_id := Some sub, a_kind := ar_kind ref, a_label := Some (ar_label ref),
       a_sha256 := Some (ar_sha256 ref),
       a_content_type := (case ar_contentType ref of None \<Rightarrow> a_content_type a | c \<Rightarrow> c),
       a_size_bytes := (case ar_sizeBytes ref of None \<Rightarrow> a_size_bytes a | n \<Rightarrow> n)\<rparr>"

text \<open>Each reference on its own, without a transaction: those before a bad one stay attached.\<close>

fun attachSubmissionArtifacts ::
    "(string \<Rightarrow> string option) \<Rightarrow> string \<Rightarrow> string \<Rightarrow> string \<Rightarrow> artifact_ref list \<Rightarrow> db \<Rightarrow> (err + nat) \<times> db" where
  "attachSubmissionArtifacts pathname sub jid wid [] s = (Inr 0, s)"
| "attachSubmissionArtifacts pathname sub jid wid (ref # refs) s =
     (case extractArtifactIdFromUrl pathname (ar_url ref) of
        None \<Rightarrow> attachSubmissionArtifacts pathname sub jid wid refs s
      | Some aid \<Rightarrow>
          (case attach_error jid wid (artifact_row aid s) of
             Some m \<Rightarrow> (Inl (OtherError m), s)
           | None \<Rightarrow>
               (case attachSubmissionArtifacts pathname sub jid wid refs
                       (s\<lparr>artifacts := update_where (\<lambda>r. a_id r = aid)
                            (attach_row sub ref) (artifacts s)\<rparr>) of
                  (Inl e, s') \<Rightarrow> (Inl e, s')
                | (Inr n, s') \<Rightarrow> (Inr (Suc n), s'))))"

definition markSubmissionArtifactsAccepted :: "string \<Rightarrow> db \<Rightarrow> db" where
  "markSubmissionArtifactsAccepted sub s =
     s\<lparr>artifacts := update_where (\<lambda>r. a_submission_id r = Some sub) (\<lambda>r. r\<lparr>a_status := ArtAccepted\<rparr>)
        (artifacts s)\<rparr>"

section \<open>Local uploads\<close>

definition upload_type :: "string option \<Rightarrow> artifacts_row \<Rightarrow> string" where
  "upload_type contentType row =
     (case contentType of Some c \<Rightarrow> c
      | None \<Rightarrow> (case a_content_type row of Some c \<Rightarrow> c | None \<Rightarrow> ''application/octet-stream''))"

definition upload_key :: "string \<Rightarrow> artifacts_row \<Rightarrow> string" where
  "upload_key aid row =
     (case a_storage_key row of Some k \<Rightarrow> k | None \<Rightarrow> ''artifacts/'' @ aid @ ''/blob'')"

definition check_upload :: "storage_env \<Rightarrow> string \<Rightarrow> string \<Rightarrow> unit prog" where
  "check_upload env ct bytes =
     seq_prog (check (ct \<in> set ALLOWED_CONTENT_TYPES) ''content_type_not_allowed'')
       (check (\<not> num_gt (of_nat (length bytes)) (se_max_bytes env)) ''too_large'')"

definition putLocalUpload ::
    "storage_env \<Rightarrow> string \<Rightarrow> string \<Rightarrow> string \<Rightarrow> string option \<Rightarrow> unit prog" where
  "putLocalUpload env aid wid bytes contentType =
     bind_prog (query (artifact_row aid)) (\<lambda>row. case row of
         None \<Rightarrow> raise ''artifact_not_found''
       | Some row \<Rightarrow>
           if truthy (a_worker_id row) \<and> a_worker_id row \<noteq> Some wid then raise ''forbidden''
           else let ct = upload_type contentType row
           in seq_prog (check_upload env ct bytes)
             (bind_prog (of_result (localPathForStorageKey env (upload_key aid row))) (\<lambda>path.
               seq_prog (write_file env path bytes)
              (seq_prog (set_artifact aid (\<lambda>r. r\<lparr>a_status := ArtUploaded, a_content_type := Some ct,
                           a_size_bytes := Some (int (length bytes))\<rparr>))
              (bind_prog (of_result (scanBytes (se_scan env) bytes (Some ct))) (\<lambda>scan. case scan of
                  Some reason \<Rightarrow>
                    seq_prog (unlink path)
                   (seq_prog (set_artifact aid (\<lambda>r. r\<lparr>a_status := ArtBlocked\<rparr>)) (raise reason))
                | None \<Rightarrow> set_artifact aid (\<lambda>r. r\<lparr>a_status := ArtScanned\<rparr>)))))))"

definition putVerifierLocalUpload ::
    "storage_env \<Rightarrow> int \<Rightarrow> int \<Rightarrow> string \<Rightarrow> string \<Rightarrow> string option \<Rightarrow> unit prog" where
  "putVerifierLocalUpload env started finished aid bytes contentType =
     bind_prog (query (artifact_row aid)) (\<lambda>row. case row of
         None \<Rightarrow> raise ''artifact_not_found''
       | Some row \<Rightarrow>
           if truthy (a_worker_id row) then raise ''forbidden''
           else let ct = upload_type contentType row
           in seq_prog (check_upload env ct bytes)
             (bind_prog (of_result (localPathForStorageKey env (upload_key aid row))) (\<lambda>path.
               seq_prog (write_file env path bytes)
              (seq_prog (set_artifact aid (\<lambda>r. r\<lparr>a_status := ArtUploaded, a_content_type := Some ct,
                           a_size_bytes := Some (int (length bytes)), a_scan_started_at := Some started\<rparr>))
              (bind_prog (of_result (scanBytes (se_scan env) bytes (Some ct))) (\<lambda>scan. case scan of
                  Some reason \<Rightarrow>
                    seq_prog (unlink path)
                   (seq_prog (set_artifact aid (\<lambda>r. r\<lparr>a_status := ArtBlocked, a_scan_engine := Some (engine_name env),
                        a_scan_finished_at := Some finished, a_scan_reason := Some reason\<rparr>))
                     (raise reason))
                | None \<Rightarrow> set_artifact aid (\<lambda>r. r\<lparr>a_status := ArtScanned, a_scan_engine := Some (engine_name env),
                        a_scan_finished_at := Some finished, a_scan_reason := None\<rparr>)))))))"

section \<open>Scanning stored objects\<close>

definition isDeterministicBlockReason :: "string \<Rightarrow> bool" where
  "isDeterministicBlockReason reason =
     (let r = toLowerCase reason
      in r = ''empty_file'' \<or> startsWith r ''content_type_mismatch_'' \<or> str_includes r ''infected''
         \<or> str_includes r ''malware_detected'')"

definition isScannerErrorReason :: "string \<Rightarrow> bool" where
  "isScannerErrorReason reason =
     (let r = toLowerCase reason
      in r = [] \<or> (startsWith r ''clamd_'' \<and> \<not> str_includes r ''infected'') \<or> startsWith r ''clamav_error''
         \<or> startsWith r ''clamav_spawn_error'')"

definition retry_reason :: "string \<Rightarrow> bool" where
  "retry_reason reason \<longleftrightarrow> \<not> isDeterministicBlockReason reason \<and> isScannerErrorReason reason"

definition scan_mark ::
    "storage_env \<Rightarrow> int \<Rightarrow> artifact_status \<Rightarrow> string option \<Rightarrow> artifacts_row \<Rightarrow> artifacts_row" where
  "scan_mark env finished st reason r =
     r\<lparr>a_status := st, a_scan_engine := Some (engine_name env), a_scan_finished_at := Some finished,
       a_scan_reason := reason\<rparr>"

definition deleteStorageObject :: "storage_env \<Rightarrow> string \<Rightarrow> unit prog" where
  "deleteStorageObject env key =
     (case se_backend env of
        LocalDisk \<Rightarrow> bind_prog (of_result (localPathForStorageKey env key)) unlink
      | S3 \<Rightarrow> bind_prog (of_result (bucketForKind env Staging)) (\<lambda>b. delete_object env b key)
      | OtherBackend _ \<Rightarrow> ret ())"

definition move_object :: "storage_env \<Rightarrow> string \<Rightarrow> string \<Rightarrow> string \<Rightarrow> unit prog" where
  "move_object env src dst key = seq_prog (copy_object env src dst key) (delete_object env src key)"

definition read_upload :: "storage_env \<Rightarrow> string \<Rightarrow> string prog" where
  "read_upload env key =
     (case se_backend env of
        LocalDisk \<Rightarrow> bind_prog (of_result (localPathForStorageKey env key)) read_file
      | S3 \<Rightarrow> bind_prog (of_result (bucketForKind env Staging)) (\<lambda>b. get_object env b key)
      | OtherBackend b \<Rightarrow> raise (''unsupported_storage_backend:'' @ b))"

definition settle_s3 :: "storage_env \<Rightarrow> int \<Rightarrow> string \<Rightarrow> string \<Rightarrow> scan_result \<Rightarrow> unit prog" where
  "settle_s3 env finished aid key scan =
     bind_prog (of_result (bucketForKind env Staging)) (\<lambda>staging.
     bind_prog (of_result (bucketForKind env Clean)) (\<lambda>clean.
     bind_prog (of_result (bucketForKind env Quarantine)) (\<lambda>quarantine.
       case scan of
         None \<Rightarrow>
           seq_prog (move_object env staging clean key)
             (set_artifact aid (\<lambda>r. (scan_mark env finished ArtScanned None r)
                \<lparr>a_bucket_kind := Some Clean, a_quarantine_key := None\<rparr>))
       | Some reason \<Rightarrow>
           if retry_reason reason then
             seq_prog (set_artifact aid (\<lambda>r. (scan_mark env finished ArtScanFailed (Some reason) r)
                \<lparr>a_bucket_kind := Some Staging, a_quarantine_key := None\<rparr>)) (raise reason)
           else
             seq_prog (move_object env staging quarantine key)
            (seq_prog (set_artifact aid (\<lambda>r. (scan_mark env finished ArtBlocked (Some reason) r)
                \<lparr>a_bucket_kind := Some Quarantine, a_quarantine_key := Some key\<rparr>)) (raise reason)))))"

definition settle_local :: "storage_env \<Rightarrow> int \<Rightarrow> string \<Rightarrow> string \<Rightarrow> scan_result \<Rightarrow> unit prog" where
  "settle_local env finished aid key scan =
     (case scan of
        None \<Rightarrow> set_artifact aid (scan_mark env finished ArtScanned None)
      | Some reason \<Rightarrow>
          if retry_reason reason then
            seq_prog (set_artifact aid (scan_mark env finished ArtScanFailed (Some reason))) (raise reason)
          else
            seq_prog (deleteStorageObject env key)
           (seq_prog (set_artifact aid (scan_mark env finished ArtBlocked (Some reason))) (raise reason)))"

definition scanArtifactObject :: "storage_env \<Rightarrow> int \<Rightarrow> int \<Rightarrow> string \<Rightarrow> unit prog" where
  "scanArtifactObject env started finished aid =
     bind_prog (query (artifact_row aid)) (\<lambda>row. case row of
         None \<Rightarrow> ret ()
       | Some row \<Rightarrow>
           if a_deleted_at row \<noteq> None then ret ()
           else case a_storage_key row of
               Some (k # ey) \<Rightarrow>
                 if a_status row \<in> {ArtScanned, ArtAccepted, ArtBlocked, ArtDeleted} then ret ()
                 else bind_prog (read_upload env (k # ey)) (\<lambda>bytes.
                   seq_prog (set_artifact aid (\<lambda>r. r\<lparr>a_status := ArtUploaded,
                       a_size_bytes := (case a_size_bytes row of None \<Rightarrow> Some (int (length bytes)) | n \<Rightarrow> n),
                       a_scan_started_at := Some started\<rparr>))
                  (bind_prog (of_result (scanBytes (se_scan env) bytes (a_content_type row))) (\<lambda>scan.
                     if se_backend env = S3 then settle_s3 env finished aid (k # ey) scan
                     else settle_local env finished aid (k # ey) scan)))
             | _ \<Rightarrow> raise ''artifact_missing_storage_key'')"

section \<open>Deletion and quarantine\<close>

definition deleteArtifactObject :: "storage_env \<Rightarrow> int \<Rightarrow> string \<Rightarrow> unit prog" where
  "deleteArtifactObject env now aid =
     bind_prog (query (artifact_row aid)) (\<lambda>row. case row of
         None \<Rightarrow> ret ()
       | Some row \<Rightarrow>
           if a_deleted_at row \<noteq> None then ret ()
           else seq_prog
             (case a_storage_key row of
                Some (k # ey) \<Rightarrow>
                  (case se_backend env of
                     LocalDisk \<Rightarrow> bind_prog (of_result (localPathForStorageKey env (k # ey))) unlink
                   | S3 \<Rightarrow>
                       bind_prog (of_result (bucketForKind env
                           (case a_bucket_kind row of Some b \<Rightarrow> b | None \<Rightarrow> Staging)))
                         (\<lambda>b. delete_object env b (k # ey))
                   | OtherBackend _ \<Rightarrow> ret ())
              | _ \<Rightarrow> ret ())
             (set_artifact aid (\<lambda>r. r\<lparr>a_status := ArtDeleted, a_deleted_at := Some now\<rparr>)))"

definition quarantine_mark :: "int \<Rightarrow> string \<Rightarrow> artifacts_row \<Rightarrow> artifacts_row" where
  "quarantine_mark now reason r =
     r\<lparr>a_status := ArtBlocked, a_scan_reason := Some reason, a_scan_finished_at := Some now\<rparr>"

definition admin_engine :: "artifacts_row \<Rightarrow> string option" where
  "admin_engine row = (case a_scan_engine row of None \<Rightarrow> Some ''admin'' | e \<Rightarrow> e)"

definition quarantineArtifactObjectAdmin :: "storage_env \<Rightarrow> int \<Rightarrow> string \<Rightarrow> string \<Rightarrow> unit prog" where
  "quarantineArtifactObjectAdmin env now aid reason0 =
     (let reason = trim reason0; mark = quarantine_mark now (take 2000 (''admin_quarantine:'' @ reason))
      in if aid = [] then raise ''artifact_not_found''
         else if reason = [] then raise ''invalid_reason''
         else bind_prog (query (artifact_row aid)) (\<lambda>row. case row of
             None \<Rightarrow> raise ''artifact_not_found''
           | Some row \<Rightarrow>
               if a_deleted_at row \<noteq> None then raise ''artifact_not_found''
               else case a_storage_key row of
                   Some (k # ey) \<Rightarrow>
                     if a_status row = ArtBlocked then set_artifact aid mark
                     else if se_backend env = S3 then
                       (let kind = (case a_bucket_kind row of Some b \<Rightarrow> b | None \<Rightarrow> Staging)
                        in if kind = Quarantine then set_artifact aid mark
                           else bind_prog (of_result (bucketForKind env (if kind = Clean then Clean else Staging))) (\<lambda>src.
                                bind_prog (of_result (bucketForKind env Quarantine)) (\<lambda>dst.
                                seq_prog (move_object env src dst (k # ey))
                                  (set_artifact aid (\<lambda>r. (mark r)\<lparr>a_bucket_kind := Some Quarantine,
                                     a_scan_engine := admin_engine row, a_quarantine_key := Some (k # ey)\<rparr>)))))
                     else set_artifact aid (\<lambda>r. (mark r)\<lparr>a_scan_engine := admin_engine row\<rparr>)
                 | _ \<Rightarrow> raise ''artifact_missing_storage_key''))"

section \<open>Access\<close>

record access_info =
  ai_id :: string
  ai_status :: artifact_status
  ai_deletedAt :: "int option"
  ai_storageKey :: "string option"
  ai_contentType :: "string option"
  ai_bucketKind :: "bucket_kind option"
  ai_scanEngine :: "string option"
  ai_scanStartedAt :: "int option"
  ai_scanFinishedAt :: "int option"
  ai_scanReason :: "string option"
  ai_sizeBytes :: "int option"
  ai_workerId :: "string option"
  ai_orgId :: "string option"

definition artifact_org :: "artifacts_row \<Rightarrow> db \<Rightarrow> string option" where
  "artifact_org a s =
     (if truthy (a_job_id a) then org_of_job (the (a_job_id a)) s
      else if truthy (a_submission_id a) then
        Option.bind (find (\<lambda>q. s_id q = the (a_submission_id a)) (submissions s)) (\<lambda>q. org_of_job (s_job_id q) s)
      else None)"

definition getArtifactAccessInfo :: "string \<Rightarrow> db \<Rightarrow> access_info option" where
  "getArtifactAccessInfo aid s =
     map_option (\<lambda>a. \<lparr> ai_id = a_id a, ai_status = a_status a, ai_deletedAt = a_deleted_at a,
         ai_storageKey = a_storage_key a, ai_contentType = a_content_type a, ai_bucketKind = a_bucket_kind a,
         ai_scanEngine = a_scan_engine a, ai_scanStartedAt = a_scan_started_at a,
         ai_scanFinishedAt = a_scan_finished_at a, ai_scanReason = a_scan_reason a,
         ai_sizeBytes = a_size_bytes a, ai_workerId = a_worker_id a, ai_orgId = artifact_org a s \<rparr>)
       (artifact_row aid s)"

definition presignArtifactDownloadUrl :: "storage_env \<Rightarrow> string \<Rightarrow> db \<Rightarrow> err + string" where
  "presignArtifactDownloadUrl env aid s =
     (case artifact_row aid s of
        None \<Rightarrow> Inl (OtherError ''artifact_not_found'')
      | Some r \<Rightarrow>
          (case a_storage_key r of
             Some (k # ey) \<Rightarrow>
               if se_backend env = S3 then
                 if a_status r \<noteq> ArtScanned \<and> a_status r \<noteq> ArtAccepted then Inl (OtherError ''artifact_not_scanned'')
                 else if a_bucket_kind r \<noteq> Some Clean then Inl (OtherError ''artifact_not_in_clean_bucket'')
                 else (case bucketForKind env Clean of Inl e \<Rightarrow> Inl e | Inr b \<Rightarrow> Inr (se_sign env b (k # ey)))
               else Inr (strip_slash (se_public_base env) @ ''/api/artifacts/'' @ aid @ ''/download'')
           | _ \<Rightarrow> Inl (OtherError ''artifact_missing_storage_key'')))"

text \<open>What a download answers: the bytes of a file (a stream of no bytes if it is gone) or a
  redirect.\<close>

datatype download = Stream string "string option" | Redirect string

definition actor_allowed :: "actor \<Rightarrow> access_info \<Rightarrow> bool" where
  "actor_allowed act art \<longleftrightarrow>
     (case act of
        AsWorker w \<Rightarrow> truthy (ai_workerId art) \<and> ai_workerId art = Some (wo_id w)
      | AsBuyer k \<Rightarrow> truthy (ai_orgId art) \<and> ai_orgId art = Some (ako_orgId k)
      | _ \<Rightarrow> True)"

definition route_download ::
    "auth_env \<Rightarrow> storage_env \<Rightarrow> int \<Rightarrow> http_request \<Rightarrow> string \<Rightarrow> world \<Rightarrow> download response \<times> world" where
  "route_download env senv now rq aid w =
     (case artifact_actor env now rq (w_db w) of
        (None, s) \<Rightarrow> (Reject 401 ''unauthorized'', w\<lparr>w_db := s\<rparr>)
      | (Some act, s) \<Rightarrow>
          ((case getArtifactAccessInfo aid s of
              None \<Rightarrow> Reject 404 ''not_found''
            | Some art \<Rightarrow>
                if ai_deletedAt art \<noteq> None then Reject 404 ''not_found''
                else if \<not> truthy (ai_storageKey art) then Reject 409 ''not_ready''
                else if ai_status art = ArtBlocked then Reject 422 ''blocked''
                else if ai_status art \<noteq> ArtScanned \<and> ai_status art \<noteq> ArtAccepted then Reject 409 ''not_ready''
                else if \<not> actor_allowed act art then Reject 403 ''forbidden''
                else if se_backend senv = LocalDisk then
                  (case localPathForStorageKey senv (the (ai_storageKey art)) of
                     Inl _ \<Rightarrow> Reject 404 ''not_found''
                   | Inr path \<Rightarrow>
                       Ok (Stream (case ai_contentType art of None \<Rightarrow> ''application/octet-stream'' | Some c \<Rightarrow> c)
                             (st_files (w_st w) path)))
                else (case presignArtifactDownloadUrl senv aid s of
                    Inl e \<Rightarrow>
                      Reject (if str_includes (err_message e) ''not_scanned'' \<or> str_includes (err_message e) ''not_in_clean''
                              then 409 else 400) ''invalid''
                  | Inr url \<Rightarrow> Ok (Redirect url))),
           w\<lparr>w_db := s\<rparr>))"

definition route_artifact_status ::
    "auth_env \<Rightarrow> int \<Rightarrow> http_request \<Rightarrow> string \<Rightarrow> db \<Rightarrow> access_info response \<times> db" where
  "route_artifact_status env now rq aid s0 =
     (case artifact_actor env now rq s0 of
        (None, s) \<Rightarrow> (Reject 401 ''unauthorized'', s)
      | (Some act, s) \<Rightarrow>
          ((case getArtifactAccessInfo aid s of
              None \<Rightarrow> Reject 404 ''not_found''
            | Some art \<Rightarrow>
                if ai_deletedAt art \<noteq> None then Reject 404 ''not_found''
                else if \<not> actor_allowed act art then Reject 403 ''forbidden''
                else Ok (art\<lparr>ai_storageKey := None, ai_workerId := None, ai_orgId := None\<rparr>)), s))"

section \<open>Upload routes\<close>

definition answer_prog :: "('a \<Rightarrow> 'b) \<Rightarrow> (string \<Rightarrow> nat) \<Rightarrow> 'a prog \<Rightarrow> world \<Rightarrow> 'b response \<times> world" where
  "answer_prog f code m w =
     (case m w of
        (Inl e, w') \<Rightarrow> (Reject (code (err_message e)) ''invalid'', w')
      | (Inr x, w') \<Rightarrow> (Ok (f x), w'))"

definition blockedContentTypes :: "string option \<Rightarrow> string list" where
  "blockedContentTypes env =
     filter (\<lambda>s. s \<noteq> []) (map (\<lambda>s. toLowerCase (trim s))
       (split_on CHR '','' (case env of None \<Rightarrow> [] | Some e \<Rightarrow> e)))"

text \<open>The worker must hold the lease of the job, and it must not have run out.\<close>

definition lease_error :: "int \<Rightarrow> string \<Rightarrow> string \<Rightarrow> db \<Rightarrow> (nat \<times> string) option" where
  "lease_error now jid wid s =
     (case getJob jid s of
        None \<Rightarrow> Some (404, ''not_found'')
      | Some job \<Rightarrow>
          if jo_leaseWorkerId job \<noteq> Some wid then Some (409, ''not_owner'')
          else if isLeaseExpired now (jo_leaseExpiresAt job) then Some (409, ''lease_expired'')
          else None)"

definition route_presign ::
    "storage_env \<Rightarrow> string option \<Rightarrow> (nat \<Rightarrow> string \<times> string) \<Rightarrow> int \<Rightarrow> worker_obj \<Rightarrow> string \<Rightarrow> file_request list \<Rightarrow>
     string \<Rightarrow> world \<Rightarrow> presigned_upload list response \<times> world" where
  "route_presign env blocked_env ids now worker jid files publicBase w =
     (let types = blockedContentTypes blocked_env
      in if list_ex (\<lambda>f. toLowerCase (fr_contentType f) \<noteq> [] \<and> toLowerCase (fr_contentType f) \<in> set types) files
         then (Reject 400 ''blocked_content_type'', w)
         else case lease_error now jid (wo_id worker) (w_db w) of
             Some (c, e) \<Rightarrow> (Reject c e, w)
           | None \<Rightarrow>
               answer_prog (\<lambda>us. us) (\<lambda>_. 400) (presignUploads env ids now jid (wo_id worker) files publicBase) w)"

text \<open>The request body: bytes, text, or what the JSON parser made of it.\<close>

datatype body = BufferBody string | TextBody string | ParsedBody json

definition body_bytes :: "(json \<Rightarrow> string) \<Rightarrow> string option \<Rightarrow> body \<Rightarrow> string option" where
  "body_bytes stringify contentType b =
     (case b of
        BufferBody x \<Rightarrow> Some x
      | TextBody x \<Rightarrow> Some x
      | ParsedBody j \<Rightarrow>
          if trim (hd (split_on CHR '';'' (toLowerCase (case contentType of None \<Rightarrow> [] | Some c \<Rightarrow> c)))) = ''application/json''
          then Some (stringify j) else None)"

definition upload_code :: "string \<Rightarrow> nat" where
  "upload_code m = (if m = ''artifact_not_found'' then 404 else if m = ''forbidden'' then 403 else 400)"

definition route_put_local ::
    "storage_env \<Rightarrow> (json \<Rightarrow> string) \<Rightarrow> worker_obj \<Rightarrow> string \<Rightarrow> string option \<Rightarrow> body \<Rightarrow> world \<Rightarrow> unit response \<times> world" where
  "route_put_local env stringify worker aid contentType b w =
     (case body_bytes stringify contentType b of
        None \<Rightarrow> (Reject 400 ''invalid'', w)
      | Some bytes \<Rightarrow> answer_prog (\<lambda>u. u) upload_code (putLocalUpload env aid (wo_id worker) bytes contentType) w)"

definition route_verifier_put_local ::
    "storage_env \<Rightarrow> (json \<Rightarrow> string) \<Rightarrow> int \<Rightarrow> int \<Rightarrow> string \<Rightarrow> string option \<Rightarrow> body \<Rightarrow> world \<Rightarrow> unit response \<times> world" where
  "route_verifier_put_local env stringify started finished aid contentType b w =
     (case body_bytes stringify contentType b of
        None \<Rightarrow> (Reject 400 ''invalid'', w)
      | Some bytes \<Rightarrow>
          answer_prog (\<lambda>u. u) upload_code (putVerifierLocalUpload env started finished aid bytes contentType) w)"

text \<open>The completion hooks: the row goes back to \<open>uploaded\<close> and a scan is requested, under one
  idempotency key per artifact.\<close>

definition mark_uploaded :: "string option \<Rightarrow> int option \<Rightarrow> artifacts_row \<Rightarrow> artifacts_row" where
  "mark_uploaded sha sizeBytes r =
     r\<lparr>a_status := ArtUploaded, a_sha256 := (case sha of None \<Rightarrow> a_sha256 r | x \<Rightarrow> x),
       a_size_bytes := (case sizeBytes of None \<Rightarrow> a_size_bytes r | x \<Rightarrow> x)\<rparr>"

definition complete_upload ::
    "backend \<Rightarrow> string \<Rightarrow> int \<Rightarrow> string \<Rightarrow> string option \<Rightarrow> int option \<Rightarrow> db \<Rightarrow> db" where
  "complete_upload backend rid now aid sha sizeBytes s =
     (if backend \<noteq> S3 then s
      else enqueueOutbox rid now ''artifact.scan.requested'' (PlArtifactScan aid) None (Some (''artifact_scan:'' @ aid))
             (s\<lparr>artifacts := update_where (\<lambda>r. a_id r = aid) (mark_uploaded sha sizeBytes) (artifacts s)\<rparr>))"

definition route_upload_complete ::
    "backend \<Rightarrow> string \<Rightarrow> int \<Rightarrow> worker_obj \<Rightarrow> string \<Rightarrow> string option \<Rightarrow> int option \<Rightarrow> db \<Rightarrow> unit response \<times> db" where
  "route_upload_complete backend rid now worker aid sha sizeBytes s =
     (case artifact_row aid s of
        None \<Rightarrow> (Reject 404 ''not_found'', s)
      | Some a \<Rightarrow>
          if a_deleted_at a \<noteq> None then (Reject 404 ''not_found'', s)
          else if truthy (a_worker_id a) \<and> a_worker_id a \<noteq> Some (wo_id worker) then (Reject 403 ''forbidden'', s)
          else if \<not> truthy (a_job_id a) then (Reject 409 ''invalid'', s)
          else (case lease_error now (the (a_job_id a)) (wo_id worker) s of
              Some (c, e) \<Rightarrow> (Reject c e, s)
            | None \<Rightarrow> (Ok (), complete_upload backend rid now aid sha sizeBytes s)))"

definition route_verifier_presign ::
    "storage_env \<Rightarrow> (nat \<Rightarrow> string \<times> string) \<Rightarrow> int \<Rightarrow> string \<Rightarrow> file_request list \<Rightarrow> string \<Rightarrow> world \<Rightarrow>
     presigned_upload list response \<times> world" where
  "route_verifier_presign env ids now sub files publicBase w =
     (case getSubmission sub (w_db w) of
        None \<Rightarrow> (Reject 404 ''not_found'', w)
      | Some q \<Rightarrow>
          answer_prog (\<lambda>us. us) (\<lambda>_. 400)
            (presignVerifierUploads env ids now (so_id q) (so_jobId q) files publicBase) w)"

definition route_verifier_complete ::
    "backend \<Rightarrow> string \<Rightarrow> int \<Rightarrow> string \<Rightarrow> string option \<Rightarrow> int option \<Rightarrow> db \<Rightarrow> unit response \<times> db" where
  "route_verifier_complete backend rid now aid sha sizeBytes s =
     (case artifact_row aid s of
        None \<Rightarrow> (Reject 404 ''not_found'', s)
      | Some a \<Rightarrow>
          if a_deleted_at a \<noteq> None then (Reject 404 ''not_found'', s)
          else if truthy (a_worker_id a) then (Reject 403 ''forbidden'', s)
          else if \<not> truthy (a_submission_id a) then (Reject 409 ''invalid'', s)
          else (Ok (), complete_upload backend rid now aid sha sizeBytes s))"

section \<open>Administration and retention\<close>

definition audit_world :: "string \<Rightarrow> int \<Rightarrow> string \<Rightarrow> string \<Rightarrow> world \<Rightarrow> world" where
  "audit_world rid now action aid w =
     w\<lparr>w_db := writeAuditEvent rid now ''admin_token'' None action ''artifact'' aid (w_db w)\<rparr>"

definition route_admin_quarantine ::
    "storage_env \<Rightarrow> string \<Rightarrow> int \<Rightarrow> string \<Rightarrow> string \<Rightarrow> world \<Rightarrow> unit response \<times> world" where
  "route_admin_quarantine env rid now aid reason w =
     (case quarantineArtifactObjectAdmin env now aid reason w of
        (Inl e, w') \<Rightarrow> (Reject (if str_includes (err_message e) ''not_found'' then 404 else 400) ''invalid'', w')
      | (Inr _, w') \<Rightarrow> (Ok (), audit_world rid now ''artifact.quarantine'' aid w'))"

definition route_admin_delete ::
    "storage_env \<Rightarrow> string \<Rightarrow> int \<Rightarrow> string \<Rightarrow> world \<Rightarrow> unit response \<times> world" where
  "route_admin_delete env rid now aid w =
     (case getArtifactAccessInfo aid (w_db w) of
        None \<Rightarrow> (Reject 404 ''not_found'', w)
      | Some art \<Rightarrow>
          if ai_deletedAt art \<noteq> None then (Reject 404 ''not_found'', w)
          else (case deleteArtifactObject env now aid w of
              (Inl _, w') \<Rightarrow> (Reject 500 ''internal'', w')
            | (Inr _, w') \<Rightarrow> (Ok (), audit_world rid now ''artifact.delete'' aid w')))"

definition route_retention_list :: "principal \<Rightarrow> db \<Rightarrow> retention_policies_row list" where
  "route_retention_list pr s =
     order_desc rp_created_at (filter (\<lambda>p. rp_org_id p = Some (pr_orgId pr)) (retention_policies s))"

text \<open>A fractional number of days is refused by the \<open>INTEGER\<close> column.\<close>

definition route_retention_upsert ::
    "(nat \<Rightarrow> string) \<Rightarrow> int \<Rightarrow> principal \<Rightarrow> string option \<Rightarrow> jsnum \<Rightarrow> string option \<Rightarrow> db \<Rightarrow>
     retention_policies_row response \<times> db" where
  "route_retention_upsert gen now pr appliesTo0 maxAge name0 s =
     (let appliesTo = (case appliesTo0 of None \<Rightarrow> ''artifacts'' | Some a \<Rightarrow> a);
          name = (case name0 of None \<Rightarrow> appliesTo | Some n \<Rightarrow> n);
          same = (\<lambda>p. rp_org_id p = Some (pr_orgId pr) \<and> rp_applies_to p = appliesTo)
      in if appliesTo \<noteq> ''artifacts'' then (Reject 400 ''invalid'', s)
         else if (case maxAge of Fin q \<Rightarrow> q < 1 \<or> q > 3650 | _ \<Rightarrow> True) then (Reject 400 ''invalid'', s)
         else case int_of_num maxAge of
             None \<Rightarrow> (Reject 500 ''internal'', s)
           | Some d \<Rightarrow>
               (let row = \<lparr> rp_id = gen 0, rp_org_id = Some (pr_orgId pr), rp_name = name, rp_applies_to = appliesTo,
                      rp_max_age_days = Some d, rp_created_at = now \<rparr>;
                    t = insert_do_update same (\<lambda>p. p\<lparr>rp_name := name, rp_max_age_days := Some d\<rparr>) row
                          (retention_policies s)
                in case find same t of
                     None \<Rightarrow> (Reject 500 ''internal'', s)
                   | Some p \<Rightarrow>
                       (Ok p, writeAuditEvent (gen 1) now ''buyer_api_key'' (pr_apiKeyId pr) ''retention_policy.upsert''
                          ''retention_policy'' (rp_id p) (s\<lparr>retention_policies := t\<rparr>))))"

text \<open>Due deletions become outbox events, at most \<open>batch\<close> at a time.\<close>

fun enqueue_deletions :: "(nat \<Rightarrow> string) \<Rightarrow> int \<Rightarrow> retention_jobs_row list \<Rightarrow> db \<Rightarrow> db" where
  "enqueue_deletions gen now [] s = s"
| "enqueue_deletions gen now (job # due) s =
     enqueue_deletions (\<lambda>n. gen (Suc n)) now due
       (enqueueOutbox (gen 0) now ''artifact.delete.requested'' (PlArtifactDelete (rj_artifact_id job) (Some (rj_id job)))
          None (Some (''retention:'' @ rj_id job))
          (s\<lparr>retention_jobs := update_where (\<lambda>j. rj_id j = rj_id job) (\<lambda>j. j\<lparr>rj_status := ''enqueued''\<rparr>)
               (retention_jobs s)\<rparr>))"

definition enqueueDueRetentionDeletions :: "(nat \<Rightarrow> string) \<Rightarrow> int \<Rightarrow> int \<Rightarrow> nat \<Rightarrow> db \<Rightarrow> nat \<times> db" where
  "enqueueDueRetentionDeletions gen clock now batch s =
     (let due = take batch (sort_key rj_run_at
                  (filter (\<lambda>j. rj_status j = ''pending'' \<and> rj_run_at j \<le> now) (retention_jobs s)))
      in (length due, enqueue_deletions gen clock due s))"

definition handleArtifactDeleteRequested :: "storage_env \<Rightarrow> int \<Rightarrow> outbox_payload \<Rightarrow> unit prog" where
  "handleArtifactDeleteRequested env now payload =
     (case payload of
        PlArtifactDelete (c # aid) retentionJobId \<Rightarrow>
          seq_prog (deleteArtifactObject env now (c # aid))
            (if truthy retentionJobId then
               exec (\<lambda>s. s\<lparr>retention_jobs := update_where (\<lambda>j. rj_id j = the retentionJobId)
                 (\<lambda>j. j\<lparr>rj_status := ''finished'', rj_finished_at := Some now\<rparr>) (retention_jobs s)\<rparr>)
             else ret ())
      | _ \<Rightarrow> raise ''missing_artifactId'')"

definition handleArtifactScanRequested :: "storage_env \<Rightarrow> int \<Rightarrow> int \<Rightarrow> outbox_payload \<Rightarrow> unit prog" where
  "handleArtifactScanRequested env started finished payload =
     (case payload of
        PlArtifactScan (c # aid) \<Rightarrow> scanArtifactObject env started finished (c # aid)
      | _ \<Rightarrow> raise ''missing_artifactId'')"

end
