(* ===== verification/ArtifactSafety.thy ===== *)
theory ArtifactSafety
  imports Artifacts
begin

text \<open>
  What the upload pipeline guarantees: where files may be written, what a scan does with the bytes,
  who may download what, and the two ways in which a verdict or a configuration defeats it.
\<close>

section \<open>Rows\<close>

lemma artifact_rowD: "artifact_row aid s = Some r \<Longrightarrow> r \<in> set (artifacts s) \<and> a_id r = aid"
  using find_SomeD [of "\<lambda>r. a_id r = aid" "artifacts s" r] by (simp add: artifact_row_def)

lemma artifact_row_update:
  assumes "artifact_row aid s = Some r" and "\<And>r. a_id (f r) = a_id r"
  shows "artifact_row aid (s\<lparr>artifacts := update_where (\<lambda>r. a_id r = aid) f (artifacts s)\<rparr>) = Some (f r)"
  using assms find_updated [of "\<lambda>r. a_id r = aid" "artifacts s" r f] artifact_rowD [OF assms(1)]
  by (simp add: artifact_row_def)

section \<open>Paths\<close>

lemma last_split_no_sep: "d \<notin> set (last (split_on d s))"
  by (induction s) (auto split: list.splits)

lemma last_split_subset: "set (last (split_on d s)) \<subseteq> set s"
  by (induction s) (auto split: list.splits)

lemma sanitized:
  assumes "sanitizeFilename f = Inr base"
  shows "CHR ''/'' \<notin> set base" and "base \<noteq> []" and "length base \<le> 200"
proof -
  from assms have b: "base = last (split_on CHR 0x5C (last (split_on CHR ''/'' (trim f))))"
    and "base \<noteq> []" "length base \<le> 200"
    by (auto simp: sanitizeFilename_def Let_def split: if_split_asm)
  then show "base \<noteq> []" "length base \<le> 200" by auto
  show "CHR ''/'' \<notin> set base"
    using last_split_subset [of "CHR 0x5C" "last (split_on CHR ''/'' (trim f))"]
      last_split_no_sep [of "CHR ''/''" "trim f"] unfolding b by blast
qed

lemma path_string_prefix: "xs \<noteq> [] \<Longrightarrow> startsWith (path_string (dir @ xs)) (path_string dir)"
  by (cases xs) (auto simp: path_string_def)

text \<open>Uploads stay in the upload directory: for every file name a client may choose, the path of
  the stored file is the directory of the artifact's own id, with the sanitised name in it; only the
  names \<open>.\<close> and \<open>..\<close>, which the code lets through, give a directory, still inside the root.\<close>

theorem upload_path_confined:
  assumes "sanitizeFilename f = Inr base" and "CHR ''/'' \<notin> set aid" and "aid \<notin> {[], ''.'', ''..''}"
  shows "localPathForStorageKey env (''artifacts/'' @ aid @ ''/'' @ base) =
    Inr (path_string (se_root env @
      (if base = ''..'' then [''artifacts''] else if base = ''.'' then [''artifacts'', aid]
       else [''artifacts'', aid, base])))"
proof -
  have "split_on CHR ''/'' (''artifacts/'' @ aid @ ''/'' @ base) = [''artifacts'', aid, base]"
    using split_on_append [of "CHR ''/''" "''artifacts''" "aid @ ''/'' @ base"]
      split_on_append [of "CHR ''/''" aid base] sanitized(1) [OF assms(1)] assms(2)
    by simp
  moreover have "\<not> startsWith (''artifacts/'' @ aid @ ''/'' @ base) ''/''" by simp
  ultimately have "path_resolve (se_root env) (''artifacts/'' @ aid @ ''/'' @ base) =
      se_root env @ (if base = ''..'' then [''artifacts''] else if base = ''.'' then [''artifacts'', aid]
        else [''artifacts'', aid, base])"
    using assms(3) sanitized(2) [OF assms(1)] by (simp add: path_resolve_def butlast_append)
  then show ?thesis by (simp add: localPathForStorageKey_def Let_def path_string_prefix)
qed

definition toy_storage :: "backend \<Rightarrow> storage_env" where
  "toy_storage b = \<lparr> se_backend = b, se_root = [''srv'', ''uploads''], se_public_base = ''http://h'', se_ttl_days = 7,
     se_max_bytes = Fin 1000, se_bucket = (\<lambda>k. Some (case k of Staging \<Rightarrow> ''st'' | Clean \<Rightarrow> ''cl'' | Quarantine \<Rightarrow> ''qu'')),
     se_bucket_fallback = None, se_sign = (\<lambda>b k. b @ k), se_s3_error = (\<lambda>_. None), se_write_error = (\<lambda>_. None),
     se_scan = \<lparr> sc_engine = None, sc_clamscan = (\<lambda>_. ExitCode 0 [] []), sc_clamd_port = Fin 3310,
       sc_clamd_socket = None, sc_clamd_tcp = (\<lambda>_. Timeout) \<rparr> \<rparr>"

theorem upload_path_confined_witness:
  "sanitizeFilename '' ../../etc/passwd '' = Inr ''passwd'' \<and>
   localPathForStorageKey (toy_storage LocalDisk) ''artifacts/a1/passwd'' = Inr ''/srv/uploads/artifacts/a1/passwd''"
proof -
  have f: "sanitizeFilename '' ../../etc/passwd '' = Inr ''passwd''"
    by (simp add: sanitizeFilename_def trim_def is_space_def Let_def)
  from upload_path_confined [OF f, where aid = "''a1''" and env = "toy_storage LocalDisk"] f
  show ?thesis by (simp add: toy_storage_def path_string_def)
qed

section \<open>A scan decides where the bytes go\<close>

definition object_at :: "storage_env \<Rightarrow> bucket_kind \<Rightarrow> string \<Rightarrow> world \<Rightarrow> string option" where
  "object_at env kind key w =
     (case bucketForKind env kind of Inl _ \<Rightarrow> None | Inr b \<Rightarrow> st_objects (w_st w) (b, key))"

lemma set_artifact_run:
  "set_artifact aid f w =
     (Inr (), w\<lparr>w_db := (w_db w)\<lparr>artifacts := update_where (\<lambda>r. a_id r = aid) f (artifacts (w_db w))\<rparr>\<rparr>)"
  by (simp add: set_artifact_def exec_def)

lemma move_object_run:
  assumes "\<And>c. se_s3_error env c = None" and "st_objects (w_st w) (src, key) = Some b"
  shows "move_object env src dst key w =
    (Inr (), w\<lparr>w_st := (w_st w)\<lparr>st_objects := (st_objects (w_st w))((dst, key) \<mapsto> b, (src, key) := None)\<rparr>\<rparr>)"
  using assms by (simp add: move_object_def copy_object_def delete_object_def prog_simps)

text \<open>The run of a scan up to the verdict on the bytes.\<close>

lemma scan_upto_verdict:
  assumes row: "artifact_row aid (w_db w) = Some r" "a_deleted_at r = None" "a_storage_key r = Some key" "key \<noteq> []"
      "a_status r \<notin> {ArtScanned, ArtAccepted, ArtBlocked, ArtDeleted}"
    and s3: "se_backend env = S3" "\<And>c. se_s3_error env c = None"
    and st: "bucketForKind env Staging = Inr st" "st_objects (w_st w) (st, key) = Some bytes"
      "\<not> num_gt (of_nat (length bytes)) (se_max_bytes env)"
    and scan: "scanBytes (se_scan env) bytes (a_content_type r) = Inr res"
  obtains w1 r1 where "scanArtifactObject env t0 t1 aid w = settle_s3 env t1 aid key res w1"
    and "w_st w1 = w_st w" and "artifact_row aid (w_db w1) = Some r1" and "a_id r1 = aid"
proof -
  let ?up = "\<lambda>q. q\<lparr>a_status := ArtUploaded,
      a_size_bytes := (case a_size_bytes r of None \<Rightarrow> Some (int (length bytes)) | n \<Rightarrow> n), a_scan_started_at := Some t0\<rparr>"
  let ?w = "w\<lparr>w_db := (w_db w)\<lparr>artifacts := update_where (\<lambda>r. a_id r = aid) ?up (artifacts (w_db w))\<rparr>\<rparr>"
  obtain k ey where key: "key = k # ey" using row(4) by (cases key) auto
  have "read_upload env key w = (Inr bytes, w)"
    using s3 st by (simp add: read_upload_def prog_simps get_object_def)
  then have "scanArtifactObject env t0 t1 aid w = settle_s3 env t1 aid key res ?w"
    using row s3(1) scan by (simp add: scanArtifactObject_def prog_simps set_artifact_run key)
  moreover have "artifact_row aid (w_db ?w) = Some (?up r)"
    using artifact_row_update [OF row(1), of ?up] by simp
  moreover have "a_id (?up r) = aid" using artifact_rowD [OF row(1)] by simp
  ultimately show thesis by (intro that [of ?w "?up r"]) simp_all
qed

text \<open>C38. What a scan does with an upload on S3, with three different buckets and no failing call:
  bytes found clean move to the clean bucket and the artifact is scanned; bytes rejected for good move
  to the quarantine bucket and the artifact is blocked; if the scanner itself failed the bytes stay
  where they are, the artifact is marked for a retry and the error makes the event come again. In
  the last two cases the clean bucket is as it was.\<close>

theorem scan_outcome:
  assumes row: "artifact_row aid (w_db w) = Some r" "a_deleted_at r = None" "a_storage_key r = Some key" "key \<noteq> []"
      "a_status r \<notin> {ArtScanned, ArtAccepted, ArtBlocked, ArtDeleted}"
    and s3: "se_backend env = S3" "\<And>c. se_s3_error env c = None"
    and buckets: "bucketForKind env Staging = Inr st" "bucketForKind env Clean = Inr cl"
      "bucketForKind env Quarantine = Inr qu" "distinct [st, cl, qu]"
    and bytes: "object_at env Staging key w = Some bytes" "\<not> num_gt (of_nat (length bytes)) (se_max_bytes env)"
    and scan: "scanBytes (se_scan env) bytes (a_content_type r) = Inr res"
  shows "\<exists>w' r'. snd (scanArtifactObject env t0 t1 aid w) = w' \<and> artifact_row aid (w_db w') = Some r' \<and>
    (case res of
       None \<Rightarrow>
         fst (scanArtifactObject env t0 t1 aid w) = Inr () \<and> a_status r' = ArtScanned \<and>
         a_bucket_kind r' = Some Clean \<and> object_at env Clean key w' = Some bytes \<and> object_at env Staging key w' = None
     | Some reason \<Rightarrow>
         fst (scanArtifactObject env t0 t1 aid w) = Inl (OtherError reason) \<and> a_scan_reason r' = Some reason \<and>
         object_at env Clean key w' = object_at env Clean key w \<and>
         (if retry_reason reason
          then a_status r' = ArtScanFailed \<and> object_at env Staging key w' = Some bytes
          else a_status r' = ArtBlocked \<and> a_bucket_kind r' = Some Quarantine \<and>
               object_at env Quarantine key w' = Some bytes \<and> object_at env Staging key w' = None))"
proof -
  have o: "st_objects (w_st w) (st, key) = Some bytes" using bytes(1) buckets(1) by (simp add: object_at_def)
  obtain w1 r1 where run: "scanArtifactObject env t0 t1 aid w = settle_s3 env t1 aid key res w1"
    and w1: "w_st w1 = w_st w" and r1: "artifact_row aid (w_db w1) = Some r1"
    by (rule scan_upto_verdict [OF row s3 buckets(1) o bytes(2) scan])
  have o1: "st_objects (w_st w1) (st, key) = Some bytes" using o w1 by simp
  note move = move_object_run [OF s3(2) o1]
  note upd = artifact_row_update [OF r1]
  have ne: "st \<noteq> cl" "st \<noteq> qu" "cl \<noteq> qu" "cl \<noteq> st" "qu \<noteq> st" "qu \<noteq> cl" using buckets(4) by auto
  show ?thesis
  proof (cases res)
    case None
    then show ?thesis
      by (simp add: run settle_s3_def prog_simps buckets(1-3) move set_artifact_run object_at_def upd scan_mark_def ne)
  next
    case (Some reason)
    show ?thesis
    proof (cases "retry_reason reason")
      case True
      with Some show ?thesis
        by (simp add: run settle_s3_def prog_simps buckets(1-3) set_artifact_run object_at_def upd scan_mark_def ne w1 o)
    next
      case False
      with Some show ?thesis
        by (simp add: run settle_s3_def prog_simps buckets(1-3) move set_artifact_run object_at_def upd scan_mark_def ne w1)
    qed
  qed
qed

definition toy_artifact :: artifacts_row where
  "toy_artifact = \<lparr> a_id = ''a1'', a_submission_id = Some ''s1'', a_job_id = Some ''j1'', a_worker_id = Some ''w1'',
     a_kind = ''other'', a_label = None, a_sha256 = None, a_storage_key = Some ''artifacts/a1/f'', a_final_url = None,
     a_content_type = Some ''application/octet-stream'', a_size_bytes = None, a_status = ArtUploaded,
     a_bucket_kind = Some Staging, a_scan_engine = None, a_scan_started_at = None, a_scan_finished_at = None,
     a_scan_reason = None, a_quarantine_key = None, a_created_at = 0, a_expires_at = None, a_deleted_at = None \<rparr>"

definition toy_world :: "artifacts_row \<Rightarrow> world" where
  "toy_world r = \<lparr> w_db = empty_db\<lparr>artifacts := [r]\<rparr>,
     w_st = \<lparr> st_files = (\<lambda>_. None)(''/srv/uploads/artifacts/a1/f'' := Some ''x''),
       st_objects = (\<lambda>_. None)((''st'', ''artifacts/a1/f'') := Some ''x'') \<rparr> \<rparr>"

lemma toy_scan: "scanBytes (se_scan (toy_storage b)) ''x'' (Some ''application/octet-stream'') = Inr None"
  by (simp add: scanBytes_def toy_storage_def basic_scan_def toLowerCase_def lower_char_def trim_def is_space_def Let_def)

theorem scan_outcome_witness:
  "\<exists>w' r'. snd (scanArtifactObject (toy_storage S3) 1 2 ''a1'' (toy_world toy_artifact)) = w' \<and>
     artifact_row ''a1'' (w_db w') = Some r' \<and> a_status r' = ArtScanned \<and> a_bucket_kind r' = Some Clean \<and>
     object_at (toy_storage S3) Clean ''artifacts/a1/f'' w' = Some ''x''"
proof -
  let ?env = "toy_storage S3" and ?w = "toy_world toy_artifact" and ?k = "''artifacts/a1/f''"
  have row: "artifact_row ''a1'' (w_db ?w) = Some toy_artifact" "a_deleted_at toy_artifact = None"
    "a_storage_key toy_artifact = Some ?k" "?k \<noteq> []"
    "a_status toy_artifact \<notin> {ArtScanned, ArtAccepted, ArtBlocked, ArtDeleted}"
    by (simp_all add: artifact_row_def toy_world_def empty_db_def toy_artifact_def)
  have env: "se_backend ?env = S3" "\<And>c. se_s3_error ?env c = None" by (simp_all add: toy_storage_def)
  have bk: "bucketForKind ?env Staging = Inr ''st''" "bucketForKind ?env Clean = Inr ''cl''"
    "bucketForKind ?env Quarantine = Inr ''qu''" "distinct [''st'', ''cl'', ''qu'']"
    by (simp_all add: toy_storage_def bucketForKind_def)
  have ob: "object_at ?env Staging ?k ?w = Some ''x''" "\<not> num_gt (of_nat (length ''x'')) (se_max_bytes ?env)"
    by (simp add: object_at_def bk(1) toy_world_def) (simp add: num_gt_def toy_storage_def)
  have sc: "scanBytes (se_scan ?env) ''x'' (a_content_type toy_artifact) = Inr None"
    using toy_scan [of S3] by (simp add: toy_artifact_def)
  from scan_outcome [OF row env bk ob sc, of 1 2] show ?thesis by auto
qed

text \<open>With one bucket for everything, which the configuration allows (\<open>S3_BUCKET\<close> alone), the copy to the
  clean bucket is a copy onto itself, and the deletion that follows removes the only copy: the upload is
  reported scanned and is gone.\<close>

lemma single_bucket_scan_loses_upload:
  assumes "artifact_row aid (w_db w) = Some r" "a_deleted_at r = None" "a_storage_key r = Some key" "key \<noteq> []"
      "a_status r \<notin> {ArtScanned, ArtAccepted, ArtBlocked, ArtDeleted}"
    and "se_backend env = S3" "\<And>c. se_s3_error env c = None"
    and bk: "\<And>k. se_bucket env k = None" "se_bucket_fallback env = Some b" "b \<noteq> []"
    and st: "st_objects (w_st w) (b, key) = Some bytes" "\<not> num_gt (of_nat (length bytes)) (se_max_bytes env)"
    and "scanBytes (se_scan env) bytes (a_content_type r) = Inr None"
  shows "\<exists>w' r'. scanArtifactObject env t0 t1 aid w = (Inr (), w') \<and> artifact_row aid (w_db w') = Some r' \<and>
    a_status r' = ArtScanned \<and> object_at env kind key w' = None"
proof -
  have b: "bucketForKind env k = Inr b" for k using bk by (cases b) (simp_all add: bucketForKind_def)
  obtain w1 r1 where run: "scanArtifactObject env t0 t1 aid w = settle_s3 env t1 aid key None w1"
    and w1: "w_st w1 = w_st w" and r1: "artifact_row aid (w_db w1) = Some r1"
    by (rule scan_upto_verdict [OF assms(1-7) b st assms(13)])
  have o1: "st_objects (w_st w1) (b, key) = Some bytes" using st(1) w1 by simp
  show ?thesis
    by (simp add: run settle_s3_def prog_simps b move_object_run [OF assms(7) o1] set_artifact_run object_at_def
        artifact_row_update [OF r1] scan_mark_def)
qed

section \<open>Downloads\<close>

lemma getArtifactAccessInfoD:
  assumes "getArtifactAccessInfo aid s = Some art"
  obtains a where "artifact_row aid s = Some a" and "ai_status art = a_status a" and "ai_deletedAt art = a_deleted_at a"
    and "ai_storageKey art = a_storage_key a" and "ai_workerId art = a_worker_id a" and "ai_orgId art = artifact_org a s"
    and "ai_contentType art = a_content_type a"
  using assms by (auto simp: getArtifactAccessInfo_def)

text \<open>C39. What a download gives away: an answer with content or a redirect goes only to a verifier, an
  admin, the worker who uploaded the artifact or an API key of the organisation that owns the job; the
  artifact is scanned or accepted and not deleted; the content is a file under the upload directory,
  and on S3 the redirect is to the clean bucket.\<close>

theorem download_authorised:
  assumes "route_download env senv now rq aid w = (Ok d, w')"
  shows "\<exists>a act. artifact_row aid (w_db w') = Some a \<and> fst (artifact_actor env now rq (w_db w)) = Some act \<and>
    a_deleted_at a = None \<and> (a_status a = ArtScanned \<or> a_status a = ArtAccepted) \<and>
    (case act of
       AsWorker worker \<Rightarrow> a_worker_id a = Some (wo_id worker)
     | AsBuyer k \<Rightarrow> artifact_org a (w_db w') = Some (ako_orgId k)
     | _ \<Rightarrow> True) \<and>
    (case d of
       Stream ct content \<Rightarrow>
         \<exists>path. startsWith path (path_string (se_root senv)) \<and> content = st_files (w_st w) path
     | Redirect url \<Rightarrow>
         (if se_backend senv = S3
          then a_bucket_kind a = Some Clean \<and>
               (\<exists>b key. bucketForKind senv Clean = Inr b \<and> a_storage_key a = Some key \<and> url = se_sign senv b key)
          else se_backend senv \<noteq> LocalDisk))"
proof -
  obtain act s where act: "artifact_actor env now rq (w_db w) = (Some act, s)"
    using assms by (auto simp: route_download_def split: prod.split_asm option.split_asm)
  with assms have db: "s = w_db w'" by (auto simp: route_download_def)
  from assms act obtain art where art: "getArtifactAccessInfo aid s = Some art"
    by (auto simp: route_download_def split: option.split_asm)
  from art obtain a where a: "artifact_row aid s = Some a" "ai_status art = a_status a" "ai_deletedAt art = a_deleted_at a"
    "ai_storageKey art = a_storage_key a" "ai_workerId art = a_worker_id a" "ai_orgId art = artifact_org a s"
    by (rule getArtifactAccessInfoD)
  note run = assms [unfolded route_download_def act prod.case option.case art]
  from run have ok: "a_deleted_at a = None" "truthy (a_storage_key a)" "a_status a = ArtScanned \<or> a_status a = ArtAccepted"
    "actor_allowed act art"
    by (auto simp: a split: if_split_asm)
  have who: "case act of AsWorker worker \<Rightarrow> a_worker_id a = Some (wo_id worker)
     | AsBuyer k \<Rightarrow> artifact_org a (w_db w') = Some (ako_orgId k) | _ \<Rightarrow> True"
    unfolding db [symmetric] using ok(4) by (auto simp: actor_allowed_def a split: actor.splits)
  show ?thesis
  proof (cases "se_backend senv = LocalDisk")
    case True
    with run ok a obtain path where "localPathForStorageKey senv (the (a_storage_key a)) = Inr path"
      "d = Stream (case ai_contentType art of None \<Rightarrow> ''application/octet-stream'' | Some c \<Rightarrow> c) (st_files (w_st w) path)"
      by (auto split: sum.split_asm if_split_asm)
    moreover from this(1) have "startsWith path (path_string (se_root senv))"
      by (auto simp: localPathForStorageKey_def Let_def split: if_split_asm)
    ultimately show ?thesis using a(1) [unfolded db] act ok who by auto
  next
    case False
    with run ok a obtain url where url: "presignArtifactDownloadUrl senv aid s = Inr url" "d = Redirect url"
      by (auto split: sum.split_asm if_split_asm)
    from ok(2) obtain k ey where key: "a_storage_key a = Some (k # ey)"
      by (cases "a_storage_key a"; cases "the (a_storage_key a)") auto
    from url(1) have "se_backend senv = S3 \<Longrightarrow> a_bucket_kind a = Some Clean \<and>
        (\<exists>b. bucketForKind senv Clean = Inr b \<and> url = se_sign senv b (k # ey))"
      by (auto simp: presignArtifactDownloadUrl_def a(1) key split: if_split_asm sum.split_asm)
    then show ?thesis using a(1) [unfolded db] act ok who url(2) False key by auto
  qed
qed

lemma verifier_actor:
  assumes "bearer rq = Some (c # token)" and "token_ok (ae_crypto env) (ae_verifier env) (Some (c # token))"
  shows "artifact_actor env now rq s = (Some Verifier, s)"
  using assms by (simp add: artifact_actor_def)

lemma verifier_download_local:
  assumes "bearer rq = Some (c # token)" and "token_ok (ae_crypto env) (ae_verifier env) (Some (c # token))"
    and "artifact_row aid (w_db w) = Some a" and "a_deleted_at a = None" and "a_storage_key a = Some key" "key \<noteq> []"
    and "se_backend senv = LocalDisk" and "localPathForStorageKey senv key = Inr path"
  shows "fst (route_download env senv now rq aid w) =
    (if a_status a = ArtBlocked then Reject 422 ''blocked''
     else if a_status a = ArtScanned \<or> a_status a = ArtAccepted then
       Ok (Stream (case a_content_type a of None \<Rightarrow> ''application/octet-stream'' | Some t \<Rightarrow> t) (st_files (w_st w) path))
     else Reject 409 ''not_ready'')"
  using assms by (auto simp: route_download_def verifier_actor getArtifactAccessInfo_def actor_allowed_def)

definition toy_scanned :: artifacts_row where
  "toy_scanned = toy_artifact\<lparr>a_status := ArtScanned, a_bucket_kind := None\<rparr>"

definition verifier_request :: http_request where
  "verifier_request = \<lparr> rq_method = ''GET'', rq_route = [], rq_authorization = Some ''Bearer pw_vf_internal'',
     rq_cookie = None, rq_csrf = None \<rparr>"

lemma toy_verifier:
  "bearer verifier_request = Some ''pw_vf_internal''"
  "token_ok (ae_crypto toy_env) (ae_verifier toy_env) (Some ''pw_vf_internal'')"
  by (simp_all add: bearer_def verifier_request_def token_ok_def toy_env_def trim_def is_space_def)

lemma toy_scanned_row:
  "artifact_row ''a1'' (w_db (toy_world toy_scanned)) = Some toy_scanned" "a_deleted_at toy_scanned = None"
  "a_storage_key toy_scanned = Some ''artifacts/a1/f''" "''artifacts/a1/f'' \<noteq> []" "a_submission_id toy_scanned = Some ''s1''"
  by (simp_all add: artifact_row_def toy_world_def empty_db_def toy_scanned_def toy_artifact_def)

lemma toy_status: "a_status toy_scanned = ArtScanned" "a_status toy_scanned \<noteq> ArtBlocked"
  by (simp_all add: toy_scanned_def)

lemma toy_local:
  "se_backend (toy_storage LocalDisk) = LocalDisk"
  "localPathForStorageKey (toy_storage LocalDisk) ''artifacts/a1/f'' = Inr ''/srv/uploads/artifacts/a1/f''"
  by (simp_all add: toy_storage_def localPathForStorageKey_def path_resolve_def path_string_def Let_def)

theorem download_authorised_witness:
  "\<exists>d a. fst (route_download toy_env (toy_storage LocalDisk) 0 verifier_request ''a1'' (toy_world toy_scanned)) = Ok d \<and>
     artifact_row ''a1'' (w_db (toy_world toy_scanned)) = Some a \<and> a_status a = ArtScanned"
proof -
  let ?run = "route_download toy_env (toy_storage LocalDisk) 0 verifier_request ''a1'' (toy_world toy_scanned)"
  obtain d w' where run: "?run = (Ok d, w')"
    using verifier_download_local [OF toy_verifier toy_scanned_row(1-4) toy_local, of 0]
    by (cases ?run) (auto simp: toy_scanned_def)
  have w': "w' = toy_world toy_scanned"
    using run by (simp add: route_download_def verifier_actor [OF toy_verifier] split: option.split_asm)
  from download_authorised [OF run] obtain a where "artifact_row ''a1'' (w_db w') = Some a" "a_deleted_at a = None" by blast
  with toy_scanned_row(1) w' run show ?thesis by (auto simp: toy_scanned_def)
qed

text \<open>A pass undoes a quarantine: on the local backend an artifact that an admin has quarantined is
  refused, but the verdict pass for its submission sets every artifact of the submission to accepted
  whatever its status, and the quarantined bytes, which stay on disk, are served again.\<close>

theorem quarantine_undone_by_pass:
  assumes "artifact_row aid (w_db w) = Some a" and "a_deleted_at a = None" and "a_storage_key a = Some key" "key \<noteq> []"
    and "a_submission_id a = Some sub" and "se_backend senv = LocalDisk" and "localPathForStorageKey senv key = Inr path"
    and "quarantineArtifactObjectAdmin senv now aid reason w = (Inr (), w1)"
    and "bearer rq = Some (c # token)" and "token_ok (ae_crypto env) (ae_verifier env) (Some (c # token))"
  shows "fst (route_download env senv t rq aid w1) = Reject 422 ''blocked'' \<and>
    fst (route_download env senv t rq aid (w1\<lparr>w_db := markSubmissionArtifactsAccepted sub (w_db w1)\<rparr>)) =
      Ok (Stream (case a_content_type a of None \<Rightarrow> ''application/octet-stream'' | Some t \<Rightarrow> t) (st_files (w_st w) path))"
proof -
  obtain k ey where key: "key = k # ey" using assms(4) by (cases key) auto
  have "\<exists>f. w1 = snd (set_artifact aid f w) \<and> a_status (f a) = ArtBlocked \<and> a_deleted_at (f a) = None \<and>
      a_storage_key (f a) = Some key \<and> a_submission_id (f a) = Some sub \<and> a_content_type (f a) = a_content_type a \<and>
      (\<forall>r. a_id (f r) = a_id r)"
  proof -
    let ?m = "quarantine_mark now (take 2000 (''admin_quarantine:'' @ trim reason))"
    from assms(8) have "aid \<noteq> []" "trim reason \<noteq> []"
      by (auto simp: quarantineArtifactObjectAdmin_def Let_def raise_def split: if_split_asm)
    then have "w1 = snd (set_artifact aid (if a_status a = ArtBlocked then ?m else (\<lambda>r. (?m r)\<lparr>a_scan_engine := admin_engine a\<rparr>)) w)"
      using assms(8) assms(1-3,6)
      by (simp add: quarantineArtifactObjectAdmin_def Let_def prog_simps key set_artifact_run split: if_split_asm)
    then show ?thesis
      by (intro exI [of _ "if a_status a = ArtBlocked then ?m else (\<lambda>r. (?m r)\<lparr>a_scan_engine := admin_engine a\<rparr>)"])
        (simp add: quarantine_mark_def assms)
  qed
  then obtain f where w1: "w1 = snd (set_artifact aid f w)" and f: "a_status (f a) = ArtBlocked" "a_deleted_at (f a) = None"
    "a_storage_key (f a) = Some key" "a_submission_id (f a) = Some sub" "a_content_type (f a) = a_content_type a"
    "\<And>r. a_id (f r) = a_id r" by blast
  have r1: "artifact_row aid (w_db w1) = Some (f a)"
    using artifact_row_update [OF assms(1) f(6)] by (simp add: w1 set_artifact_run)
  have files: "st_files (w_st w1) = st_files (w_st w)" by (simp add: w1 set_artifact_run)
  have "artifact_row aid (markSubmissionArtifactsAccepted sub (w_db w1)) = Some ((f a)\<lparr>a_status := ArtAccepted\<rparr>)"
    using r1 f(4) by (simp add: artifact_row_def markSubmissionArtifactsAccepted_def find_update_where)
  then show ?thesis
    using verifier_download_local [OF assms(9,10) r1 f(2) f(3) assms(4,6,7)] f(1)
      verifier_download_local [OF assms(9,10), where aid = aid and key = key and senv = senv and path = path
        and a = "(f a)\<lparr>a_status := ArtAccepted\<rparr>" and w = "w1\<lparr>w_db := markSubmissionArtifactsAccepted sub (w_db w1)\<rparr>"]
      f assms(4,6,7) files by simp
qed

theorem quarantine_undone_by_pass_witness:
  "\<exists>w1. quarantineArtifactObjectAdmin (toy_storage LocalDisk) 5 ''a1'' ''malware'' (toy_world toy_scanned) = (Inr (), w1) \<and>
     fst (route_download toy_env (toy_storage LocalDisk) 6 verifier_request ''a1'' w1) = Reject 422 ''blocked'' \<and>
     (\<exists>t. fst (route_download toy_env (toy_storage LocalDisk) 6 verifier_request ''a1''
        (w1\<lparr>w_db := markSubmissionArtifactsAccepted ''s1'' (w_db w1)\<rparr>)) = Ok (Stream t (Some ''x'')))"
proof -
  obtain w1 where q: "quarantineArtifactObjectAdmin (toy_storage LocalDisk) 5 ''a1'' ''malware'' (toy_world toy_scanned) = (Inr (), w1)"
    using toy_scanned_row(1,2,3) toy_status
    by (simp add: quarantineArtifactObjectAdmin_def Let_def prog_simps set_artifact_run toy_local trim_def is_space_def)
  have "st_files (w_st (toy_world toy_scanned)) ''/srv/uploads/artifacts/a1/f'' = Some ''x''" by (simp add: toy_world_def)
  with quarantine_undone_by_pass [OF toy_scanned_row toy_local q toy_verifier, of 6] q show ?thesis by simp
qed

end
