(* ===== verification/Verification.thy ===== *)
theory Verification
  imports Artifacts Payouts
begin

text \<open>
  Submission and verification (\<open>src/src/server.ts\<close>): the submit, job status, claim and verdict
  routes, the admin routes on workers, verifications and submissions, the registry of accepted
  duplicates (\<open>src/src/store.ts\<close>) and the handler of \<open>verification.requested\<close>
  (\<open>src/workers/handlers.ts\<close>). Each route is the sequence of statements of its handler; nothing
  groups them into a transaction, so an error in the middle leaves the earlier ones in place.
\<close>

section \<open>Accepted duplicates\<close>

definition registerAcceptedDedupe :: "int \<Rightarrow> string \<Rightarrow> string \<Rightarrow> db \<Rightarrow> db" where
  "registerAcceptedDedupe now bid key s =
     s\<lparr>accepted_dedupe := insert_do_nothing (\<lambda>r. ad_bounty_id r = bid \<and> ad_dedupe_key r = key)
         \<lparr> ad_bounty_id = bid, ad_dedupe_key = key, ad_accepted_at = now \<rparr> (accepted_dedupe s)\<rparr>"

definition isAcceptedDuplicate :: "string \<Rightarrow> string \<Rightarrow> db \<Rightarrow> bool" where
  "isAcceptedDuplicate bid key s = list_ex (\<lambda>r. ad_bounty_id r = bid \<and> ad_dedupe_key r = key) (accepted_dedupe s)"

section \<open>Requesting a verification\<close>

definition new_verification :: "string \<Rightarrow> string \<Rightarrow> int \<Rightarrow> verification_obj" where
  "new_verification vid sid attempt =
     \<lparr> vo_id = vid, vo_submissionId = sid, vo_attemptNo = attempt, vo_status = VerQueued, vo_claimToken = None,
       vo_claimedBy = None, vo_claimExpiresAt = None, vo_verdict = None, vo_reason = None, vo_scorecard = None,
       vo_evidence = None \<rparr>"

definition verification_key :: "string \<Rightarrow> int \<Rightarrow> string" where
  "verification_key sid attempt = ''verification:'' @ sid @ '':'' @ show_int attempt"

definition enqueue_verification :: "string \<Rightarrow> int \<Rightarrow> string \<Rightarrow> string \<Rightarrow> int \<Rightarrow> db \<Rightarrow> db" where
  "enqueue_verification oid now vid sid attempt =
     enqueueOutbox oid now ''verification.requested'' (PlVerification vid sid attempt) None
       (Some (verification_key sid attempt))"

definition request_verification :: "string \<Rightarrow> string \<Rightarrow> int \<Rightarrow> string \<Rightarrow> int \<Rightarrow> db \<Rightarrow> db" where
  "request_verification oid vid now sid attempt s =
     enqueue_verification oid now vid sid attempt (addVerification now (new_verification vid sid attempt) s)"

section \<open>Submitting\<close>

text \<open>The parts of the manifest the route reads, and the manifest as it is stored.\<close>

record submit_body =
  sb_manifest :: json
  sb_bountyId :: string
  sb_finalUrl :: "string option"
  sb_observed :: string
  sb_artifacts :: "artifact_ref list"
  sb_notes :: "string option"

record submit_env =
  su_sha :: "string \<Rightarrow> string"
  su_stringify :: "submit_body \<Rightarrow> string"
  su_index_json :: "artifact_ref list \<Rightarrow> json"
  su_pathname :: "string \<Rightarrow> string option"
  su_parse_url :: url_parser

record submit_answer =
  sv_state :: string
  sv_jobStatus :: job_obj
  sv_submission :: submission_obj
  sv_verificationId :: "string option"

definition latest_verification :: "string \<Rightarrow> db \<Rightarrow> string option" where
  "latest_verification sid s =
     (case order_desc v_attempt_no (filter (\<lambda>v. v_submission_id v = sid) (verifications s)) of
        [] \<Rightarrow> None | v # _ \<Rightarrow> Some (v_id v))"

definition respondWithExistingSubmission :: "job_obj \<Rightarrow> submission_obj \<Rightarrow> db \<Rightarrow> submit_answer \<times> db" where
  "respondWithExistingSubmission job existing s =
     (let (job, s) =
            (if truthy (jo_currentSubmissionId job) then (job, s)
             else let job' = job\<lparr>jo_currentSubmissionId := Some (so_id existing),
                        jo_status := (if jo_status job = JobClaimed \<or> jo_status job = JobOpen then JobVerifying
                                      else jo_status job)\<rparr>
                  in (job', updateJob job' s))
      in (\<lparr> sv_state = (if jo_status job = JobDone then ''done'' else ''verifying''), sv_jobStatus = job,
            sv_submission = existing, sv_verificationId = latest_verification (so_id existing) s \<rparr>, s))"

text \<open>A retry under the same idempotency key: attach again, make sure the first verification exists
  and is queued, and point the job at the submission.\<close>

definition resume_submission ::
    "submit_env \<Rightarrow> string \<Rightarrow> string \<Rightarrow> int \<Rightarrow> worker_obj \<Rightarrow> job_obj \<Rightarrow> submission_obj \<Rightarrow> submit_body \<Rightarrow> db \<Rightarrow>
     submit_answer response \<times> db" where
  "resume_submission env vid oid now worker job existing body s =
     (case attachSubmissionArtifacts (su_pathname env) (so_id existing) (jo_id job) (wo_id worker) (sb_artifacts body) s of
        (Inl _, s1) \<Rightarrow> (Reject 400 ''invalid_artifact'', s1)
      | (Inr _, s1) \<Rightarrow>
          (let s2 = (case findVerificationBySubmission (so_id existing) 1 s1 of
                       None \<Rightarrow> request_verification oid vid now (so_id existing) 1 s1
                     | Some v \<Rightarrow>
                         if vo_status v = VerQueued then enqueue_verification oid now (vo_id v) (so_id existing) 1 s1
                         else s1);
               (job, s3) = (if jo_status job = JobClaimed \<or> jo_status job = JobOpen then
                              let job' = job\<lparr>jo_status := JobVerifying, jo_currentSubmissionId := Some (so_id existing)\<rparr>
                              in (job', updateJob job' s2)
                            else (job, s2));
               (a, s4) = respondWithExistingSubmission job existing s3
           in (Ok a, s4)))"

definition dedupe_key :: "submit_env \<Rightarrow> submit_body \<Rightarrow> string" where
  "dedupe_key env body = su_sha env (sb_bountyId body @ ''|'' @ take 200 (sb_observed body))"

definition new_submission ::
    "submit_env \<Rightarrow> string \<Rightarrow> int \<Rightarrow> string \<Rightarrow> string \<Rightarrow> string option \<Rightarrow> submit_body \<Rightarrow> bool \<Rightarrow> submission_obj" where
  "new_submission env sid now jid wid key body duplicate =
     \<lparr> so_id = sid, so_jobId = jid, so_workerId = wid, so_idempotencyKey = key,
       so_requestHash = Some (su_sha env (su_stringify env body)), so_manifest = sb_manifest body,
       so_artifactIndex = su_index_json env (sb_artifacts body),
       so_status = (if duplicate then SubDuplicate else SubSubmitted), so_dedupeKey = Some (dedupe_key env body),
       so_finalVerdict = None, so_finalReason = None, so_finalQualityScore = None, so_payoutStatus = Some PayNone,
       so_createdAt = now \<rparr>"

definition create_submission ::
    "submit_env \<Rightarrow> string \<times> string \<times> string \<Rightarrow> int \<Rightarrow> worker_obj \<Rightarrow> job_obj \<Rightarrow> bounty_obj \<Rightarrow> string option \<Rightarrow>
     submit_body \<Rightarrow> db \<Rightarrow> submit_answer response \<times> db" where
  "create_submission env ids now worker job bounty key body s =
     (let (sid, vid, oid) = ids;
          duplicate = isAcceptedDuplicate (bo_id bounty) (dedupe_key env body) s;
          sub = new_submission env sid now (jo_id job) (wo_id worker) key body duplicate
      in case attachSubmissionArtifacts (su_pathname env) sid (jo_id job) (wo_id worker) (sb_artifacts body)
               (addSubmission sub s) of
          (Inl _, s1) \<Rightarrow> (Reject 400 ''invalid_artifact'', s1)
        | (Inr _, s1) \<Rightarrow>
            if duplicate then
              (let job' = job\<lparr>jo_currentSubmissionId := Some sid, jo_status := JobDone, jo_finalVerdict := Some Fail,
                     jo_finalQualityScore := Some 0\<rparr>
               in (Ok \<lparr> sv_state = ''done'', sv_jobStatus = job', sv_submission = sub, sv_verificationId = None \<rparr>,
                   updateJob job' s1))
            else
              (let s2 = request_verification oid vid now sid 1 s1;
                   job' = job\<lparr>jo_currentSubmissionId := Some sid, jo_status := JobVerifying\<rparr>
               in (Ok \<lparr> sv_state = ''verifying'', sv_jobStatus = job', sv_submission = sub,
                        sv_verificationId = Some vid \<rparr>, updateJob job' s2)))"

definition route_submit ::
    "submit_env \<Rightarrow> string \<times> string \<times> string \<Rightarrow> int \<Rightarrow> worker_obj \<Rightarrow> string \<Rightarrow> string option \<Rightarrow> submit_body \<Rightarrow> db \<Rightarrow>
     submit_answer response \<times> db" where
  "route_submit env ids now worker jid key0 body s =
     (case getJob jid s of
        None \<Rightarrow> (Reject 404 ''not_found'', s)
      | Some job \<Rightarrow>
          if jo_leaseWorkerId job \<noteq> Some (wo_id worker) then (Reject 409 ''not_owner'', s)
          else if isLeaseExpired now (jo_leaseExpiresAt job) then (Reject 409 ''lease_expired'', s)
          else let trimmed = trim (case key0 of None \<Rightarrow> [] | Some k \<Rightarrow> k);
                   key = (if trimmed = [] then None else Some trimmed);
                   hash = su_sha env (su_stringify env body);
                   current = (if truthy (jo_currentSubmissionId job)
                              then getSubmission (the (jo_currentSubmissionId job)) s else None);
                   keyed = (case key of None \<Rightarrow> None
                            | Some k \<Rightarrow> findSubmissionByIdempotency jid (wo_id worker) k s)
               in if length trimmed > 200 then (Reject 400 ''invalid'', s)
                  else if (case current of None \<Rightarrow> False | Some e \<Rightarrow> so_workerId e = wo_id worker)
                  then (let (a, s') = respondWithExistingSubmission job (the current) s in (Ok a, s'))
                  else case keyed of
                      Some existing \<Rightarrow>
                        if truthy (so_requestHash existing) \<and> so_requestHash existing \<noteq> Some hash
                        then (Reject 409 ''idempotency_conflict'', s)
                        else resume_submission env (fst (snd ids)) (snd (snd ids)) now worker job existing body s
                    | None \<Rightarrow>
                        if stale now (Option.bind (jo_taskDescriptor job) td_freshness_sla_sec) (jo_createdAt job)
                        then (Reject 409 ''stale_job'', s)
                        else (case getBounty (jo_bountyId job) s of
                            None \<Rightarrow> (Reject 500 ''internal'', s)
                          | Some bounty \<Rightarrow>
                              if truthy (sb_finalUrl body) then
                                (case su_parse_url env (the (sb_finalUrl body)) of
                                   None \<Rightarrow> (Reject 400 ''invalid'', s)
                                 | Some u \<Rightarrow>
                                     if u_origin u \<notin> set (bo_allowedOrigins bounty)
                                     then (Reject 400 ''origin_violation'', s)
                                     else create_submission env ids now worker job bounty key body s)
                              else create_submission env ids now worker job bounty key body s))"

definition route_job_status :: "worker_obj \<Rightarrow> string \<Rightarrow> db \<Rightarrow> job_obj response" where
  "route_job_status worker jid s =
     (case getJob jid s of
        None \<Rightarrow> Reject 404 ''not_found''
      | Some job \<Rightarrow> if jo_leaseWorkerId job \<noteq> Some (wo_id worker) then Reject 404 ''not_found'' else Ok job)"

section \<open>Claiming a verification\<close>

record claimed_artifact =
  cl_kind :: string
  cl_label :: "string option"
  cl_sha256 :: "string option"
  cl_url :: "string option"
  cl_sizeBytes :: "int option"
  cl_contentType :: "string option"

record verifier_claim =
  vc_verificationId :: string
  vc_claimToken :: string
  vc_jobSpec :: job_spec
  vc_submissionId :: string
  vc_manifest :: json
  vc_artifacts :: "claimed_artifact list"
  vc_artifactIndex :: json

text \<open>The attempt, added if it does not exist, and the claim written to it. The answer carries the
  stored artifacts; \<open>vc_artifactIndex\<close> is the submitted index, used when there are none.\<close>

definition claim_verification ::
    "string \<Rightarrow> string \<Rightarrow> int \<Rightarrow> string \<Rightarrow> int \<Rightarrow> string \<Rightarrow> int \<Rightarrow> db \<Rightarrow> verification_obj option \<times> db" where
  "claim_verification vid token now sid attempt who ttlSec s =
     (let (v, s1) = (case findVerificationBySubmission sid attempt s of
                       Some v \<Rightarrow> (v, s)
                     | None \<Rightarrow>
                         let v = new_verification vid sid attempt in (v, addVerification now v s))
      in if vo_status v = VerInProgress \<and> (case vo_claimExpiresAt v of None \<Rightarrow> False | Some t \<Rightarrow> t \<noteq> 0 \<and> t > now)
         then (None, s1)
         else let v' = v\<lparr>vo_status := VerInProgress, vo_claimToken := Some token, vo_claimedBy := Some who,
                        vo_claimExpiresAt := Some (now + ttlSec * 1000)\<rparr>
              in (Some v', updateVerification v' s1))"

definition route_claim_verification ::
    "intake_env \<Rightarrow> string \<Rightarrow> string \<Rightarrow> int \<Rightarrow> string \<Rightarrow> int \<Rightarrow> string \<Rightarrow> int \<Rightarrow> db \<Rightarrow> verifier_claim response \<times> db" where
  "route_claim_verification env vid token now sid attempt who ttlSec s =
     (case getSubmission sid s of
        None \<Rightarrow> (Reject 404 ''not_found'', s)
      | Some sub \<Rightarrow>
          (case claim_verification vid token now sid attempt who ttlSec s of
             (None, s1) \<Rightarrow> (Reject 409 ''claimed'', s1)
           | (Some v, s1) \<Rightarrow>
               (case getJob (so_jobId sub) s1 of
                  None \<Rightarrow> (Reject 404 ''not_found'', s1)
                | Some job \<Rightarrow>
                    (case getBounty (jo_bountyId job) s1 of
                       None \<Rightarrow> (Reject 500 ''internal'', s1)
                     | Some bounty \<Rightarrow>
                         (Ok \<lparr> vc_verificationId = vo_id v, vc_claimToken = token,
                               vc_jobSpec = strip_descriptor env (buildJobSpec job bounty), vc_submissionId = so_id sub,
                               vc_manifest = so_manifest sub,
                               vc_artifacts = map (\<lambda>a. \<lparr> cl_kind = a_kind a, cl_label = a_label a, cl_sha256 = a_sha256 a,
                                   cl_url = a_final_url a, cl_sizeBytes = a_size_bytes a, cl_contentType = a_content_type a \<rparr>)
                                 (sort_key a_created_at (filter (\<lambda>a. a_submission_id a = Some (so_id sub) \<and>
                                    a_deleted_at a = None) (artifacts s1))),
                               vc_artifactIndex = so_artifactIndex sub \<rparr>, s1)))))"

section \<open>The verdict\<close>

record verdict_body =
  vb_claimToken :: string
  vb_submissionId :: string
  vb_attemptNo :: int
  vb_verdict :: verdict
  vb_reason :: string
  vb_scorecard :: json
  vb_qualityScore :: rat
  vb_evidence :: json

record verdict_answer =
  va_verificationId :: string
  va_job :: "job_obj option"
  va_nextAttempt :: "int option"

definition verdict_status :: "verdict \<Rightarrow> submission_status" where
  "verdict_status v = (case v of Pass \<Rightarrow> SubAccepted | Fail \<Rightarrow> SubFailed | Inconclusive \<Rightarrow> SubInconclusive)"

definition max_attempt :: "string \<Rightarrow> db \<Rightarrow> int" where
  "max_attempt sid s =
     (case map v_attempt_no (filter (\<lambda>v. v_submission_id v = sid) (verifications s)) of
        [] \<Rightarrow> 1 | n # ns \<Rightarrow> foldr max ns n)"

text \<open>\<open>addPayout\<close> and its event, due when the dispute window closes.\<close>

definition queue_payout ::
    "pay_env \<Rightarrow> string \<Rightarrow> string \<Rightarrow> int \<Rightarrow> submission_obj \<Rightarrow> bounty_obj \<Rightarrow> db \<Rightarrow> err + db" where
  "queue_payout env pid oid now sub bounty s =
     (case addPayout env pid now (so_id sub) (so_workerId sub) (bo_payoutCents bounty) s of
        Inl e \<Rightarrow> Inl e
      | Inr (None, _) \<Rightarrow> Inl NoResult
      | Inr (Some p, s1) \<Rightarrow>
          Inr (enqueueOutbox oid now payout_topic (PlPayout (p_id p) (Some (so_id sub)) (so_workerId sub))
                 (if bo_disputeWindowSec bounty > 0 then Some (now + bo_disputeWindowSec bounty * 1000) else None)
                 (Some (''payout:'' @ p_id p)) s1))"

definition judge_submission :: "verdict_body \<Rightarrow> submission_obj \<Rightarrow> submission_obj" where
  "judge_submission b sub =
     sub\<lparr>so_finalVerdict := Some (vb_verdict b), so_finalReason := Some (take 500 (vb_reason b)),
         so_status := verdict_status (vb_verdict b), so_finalQualityScore := Some (vb_qualityScore b),
         so_payoutStatus := Some (if vb_verdict b = Pass then PayPending else PayNone)\<rparr>"

definition finish_verification :: "verdict_body \<Rightarrow> verification_obj \<Rightarrow> verification_obj" where
  "finish_verification b v =
     v\<lparr>vo_status := VerFinished, vo_verdict := Some (vb_verdict b), vo_reason := Some (vb_reason b),
       vo_scorecard := Some (vb_scorecard b), vo_evidence := Some (vb_evidence b)\<rparr>"

text \<open>Registering an accepted observation; a missing bounty throws.\<close>

definition register_pass :: "int \<Rightarrow> submission_obj \<Rightarrow> db \<Rightarrow> err + db" where
  "register_pass now sub s =
     (if truthy (so_dedupeKey sub) then
        (case getJob (so_jobId sub) s of
           None \<Rightarrow> Inr s
         | Some job \<Rightarrow>
             (case getBounty (jo_bountyId job) s of
                None \<Rightarrow> Inl BountyNotFound
              | Some bounty \<Rightarrow> Inr (registerAcceptedDedupe now (bo_id bounty) (the (so_dedupeKey sub)) s)))
      else Inr s)"

definition complete_job ::
    "pay_env \<Rightarrow> string \<Rightarrow> string \<Rightarrow> int \<Rightarrow> string \<Rightarrow> verdict_body \<Rightarrow> submission_obj \<Rightarrow> job_obj \<Rightarrow> db \<Rightarrow>
     verdict_answer response \<times> db" where
  "complete_job env pid oid now vid b sub job s =
     (let job' = job\<lparr>jo_status := JobDone, jo_doneAt := Some now\<rparr>; s1 = updateJob job' s;
          answer = \<lparr> va_verificationId = vid, va_job = Some job', va_nextAttempt = None \<rparr>
      in if vb_verdict b \<noteq> Pass then (Ok answer, s1)
         else case getBounty (jo_bountyId job) s1 of
             None \<Rightarrow> (Reject 500 ''internal'', s1)
           | Some bounty \<Rightarrow>
               (case queue_payout env pid oid now sub bounty s1 of
                  Inl _ \<Rightarrow> (Reject 500 ''internal'', s1)
                | Inr s2 \<Rightarrow> (Ok answer, markSubmissionArtifactsAccepted (so_id sub) s2)))"

definition settle_job ::
    "pay_env \<Rightarrow> jsnum \<Rightarrow> (nat \<Rightarrow> string) \<Rightarrow> int \<Rightarrow> string \<Rightarrow> verdict_body \<Rightarrow> submission_obj \<Rightarrow> job_obj \<Rightarrow> db \<Rightarrow>
     verdict_answer response \<times> db" where
  "settle_job env maxAttempts gen now vid b sub job0 s =
     (let job = job0\<lparr>jo_finalVerdict := Some (vb_verdict b), jo_finalReason := so_finalReason sub,
                      jo_finalQualityScore := Some (vb_qualityScore b)\<rparr>;
          n = max_attempt (so_id sub) s
      in if vb_verdict b = Inconclusive \<and> (case maxAttempts of Fin q \<Rightarrow> of_int n < q | Infinity pos \<Rightarrow> pos | NaN \<Rightarrow> False)
         then let s1 = request_verification (gen 1) (gen 0) now (so_id sub) (n + 1) s;
                  job' = job\<lparr>jo_status := JobVerifying\<rparr>
              in (Ok \<lparr> va_verificationId = vid, va_job = Some job', va_nextAttempt = Some (n + 1) \<rparr>, updateJob job' s1)
         else complete_job env (gen 0) (gen 1) now vid b sub job s)"

definition apply_verdict ::
    "pay_env \<Rightarrow> jsnum \<Rightarrow> (nat \<Rightarrow> string) \<Rightarrow> int \<Rightarrow> verification_obj \<Rightarrow> verdict_body \<Rightarrow> db \<Rightarrow>
     verdict_answer response \<times> db" where
  "apply_verdict env maxAttempts gen now v b s =
     (let s1 = updateVerification (finish_verification b v) s
      in case getSubmission (vb_submissionId b) s1 of
          None \<Rightarrow> (Reject 404 ''not_found'', s1)
        | Some sub0 \<Rightarrow>
            let sub = judge_submission b sub0;
                s2 = recordReputation now (so_workerId sub) (vb_verdict b = Pass) (updateSubmission sub s1)
            in case (if vb_verdict b = Pass then register_pass now sub s2 else Inr s2) of
                Inl _ \<Rightarrow> (Reject 500 ''internal'', s2)
              | Inr s3 \<Rightarrow>
                  (case getJob (so_jobId sub) s3 of
                     None \<Rightarrow> (Reject 404 ''not_found'', s3)
                   | Some job \<Rightarrow> settle_job env maxAttempts gen now (vo_id v) b sub job s3))"

definition route_verdict ::
    "pay_env \<Rightarrow> jsnum \<Rightarrow> (nat \<Rightarrow> string) \<Rightarrow> int \<Rightarrow> verdict_body \<Rightarrow> db \<Rightarrow> verdict_answer response \<times> db" where
  "route_verdict env maxAttempts gen now b s =
     (case findVerificationBySubmission (vb_submissionId b) (vb_attemptNo b) s of
        None \<Rightarrow> (Reject 404 ''not_found'', s)
      | Some v \<Rightarrow>
          if vo_claimToken v \<noteq> Some (vb_claimToken b) then (Reject 401 ''invalid_claim'', s)
          else if vo_status v = VerFinished then
            (Ok \<lparr> va_verificationId = vo_id v,
                  va_job = Option.bind (getSubmission (vb_submissionId b) s) (\<lambda>q. getJob (so_jobId q) s),
                  va_nextAttempt = None \<rparr>, s)
          else if (case vo_claimExpiresAt v of None \<Rightarrow> False | Some t \<Rightarrow> t \<noteq> 0 \<and> t < now)
          then (Reject 409 ''claim_expired'', s)
          else apply_verdict env maxAttempts gen now v b s)"

section \<open>Administration\<close>

definition admin_audit :: "string \<Rightarrow> int \<Rightarrow> string \<Rightarrow> string \<Rightarrow> string \<Rightarrow> db \<Rightarrow> db" where
  "admin_audit rid now action target tid = writeAuditEvent rid now ''admin_token'' None action target tid"

definition route_ban :: "string \<Rightarrow> int \<Rightarrow> string \<Rightarrow> db \<Rightarrow> worker_obj response \<times> db" where
  "route_ban rid now wid s =
     (case banWorker wid s of
        (None, s') \<Rightarrow> (Reject 404 ''not_found'', s')
      | (Some w, s') \<Rightarrow> (Ok w, admin_audit rid now ''worker.ban'' ''worker'' (wo_id w) s'))"

text \<open>A duration that is not a number makes an invalid date, which the database refuses.\<close>

definition route_rate_limit_worker ::
    "string \<Rightarrow> int \<Rightarrow> string \<Rightarrow> jsnum option \<Rightarrow> db \<Rightarrow> worker_obj response \<times> db" where
  "route_rate_limit_worker rid now wid durationSec s =
     (case (case durationSec of None \<Rightarrow> Fin 600 | Some d \<Rightarrow> d) of
        Fin q \<Rightarrow>
          (case rateLimitWorker now wid \<lfloor>q * 1000\<rfloor> s of
             (None, s') \<Rightarrow> (Reject 404 ''not_found'', s')
           | (Some w, s') \<Rightarrow> (Ok w, admin_audit rid now ''worker.rate_limit'' ''worker'' (wo_id w) s'))
      | _ \<Rightarrow> (Reject 500 ''internal'', s))"

definition route_requeue_verification :: "string \<Rightarrow> int \<Rightarrow> string \<Rightarrow> db \<Rightarrow> unit response \<times> db" where
  "route_requeue_verification rid now vid s =
     (case getVerification vid s of
        None \<Rightarrow> (Reject 404 ''not_found'', s)
      | Some v \<Rightarrow>
          (Ok (), admin_audit rid now ''verification.requeue'' ''verification'' (vo_id v)
             (updateVerification (v\<lparr>vo_status := VerQueued, vo_claimToken := None, vo_claimExpiresAt := None\<rparr>) s)))"

definition route_mark_duplicate :: "string \<Rightarrow> int \<Rightarrow> string \<Rightarrow> db \<Rightarrow> unit response \<times> db" where
  "route_mark_duplicate rid now sid s =
     (case getSubmission sid s of
        None \<Rightarrow> (Reject 404 ''not_found'', s)
      | Some sub0 \<Rightarrow>
          (let sub = sub0\<lparr>so_status := SubDuplicate, so_finalVerdict := Some Fail,
                 so_finalReason := Some ''admin_mark_duplicate''\<rparr>;
               s1 = updateSubmission sub s;
               s2 = (case getJob (so_jobId sub) s1 of
                       None \<Rightarrow> s1
                     | Some job \<Rightarrow> updateJob (job\<lparr>jo_status := JobDone, jo_finalVerdict := Some Fail,
                                     jo_finalReason := so_finalReason sub\<rparr>) s1)
           in (Ok (), admin_audit rid now ''submission.mark_duplicate'' ''submission'' (so_id sub) s2)))"

definition verdict_name :: "verdict \<Rightarrow> string" where
  "verdict_name v = (case v of Pass \<Rightarrow> ''pass'' | Fail \<Rightarrow> ''fail'' | Inconclusive \<Rightarrow> ''inconclusive'')"

definition override_submission :: "verdict \<Rightarrow> rat option \<Rightarrow> submission_obj \<Rightarrow> submission_obj" where
  "override_submission v quality sub =
     sub\<lparr>so_finalVerdict := Some v, so_finalReason := Some (''admin_override:'' @ verdict_name v),
         so_status := verdict_status v,
         so_finalQualityScore := Some (case quality of Some q \<Rightarrow> q
           | None \<Rightarrow> (case so_finalQualityScore sub of Some q \<Rightarrow> q | None \<Rightarrow> 0)),
         so_payoutStatus := Some (if v = Pass then PayPending else PayNone)\<rparr>"

text \<open>\<open>choice\<close> is \<open>None\<close> when it is not one of the three.\<close>

definition route_override_verdict ::
    "pay_env \<Rightarrow> (nat \<Rightarrow> string) \<Rightarrow> int \<Rightarrow> string \<Rightarrow> verdict option \<Rightarrow> rat option \<Rightarrow> db \<Rightarrow>
     (submission_obj \<times> job_obj option) response \<times> db" where
  "route_override_verdict env gen now sid choice quality s =
     (case getSubmission sid s of
        None \<Rightarrow> (Reject 404 ''not_found'', s)
      | Some sub0 \<Rightarrow>
          (case choice of
             None \<Rightarrow> (Reject 400 ''invalid'', s)
           | Some v \<Rightarrow>
               (let sub = override_submission v quality sub0;
                    s1 = updateSubmission sub s;
                    job = map_option (\<lambda>j. j\<lparr>jo_finalVerdict := Some v, jo_finalReason := so_finalReason sub,
                            jo_finalQualityScore := so_finalQualityScore sub, jo_status := JobDone\<rparr>)
                            (getJob (so_jobId sub) s1);
                    s2 = (case job of None \<Rightarrow> s1 | Some j \<Rightarrow> updateJob j s1);
                    finish = (\<lambda>t. (Ok (sub, job),
                      admin_audit (gen 2) now ''submission.override_verdict'' ''submission'' (so_id sub) t))
                in if v \<noteq> Pass then finish s2
                   else case job of
                       None \<Rightarrow> (Reject 409 ''not_found'', s2)
                     | Some j \<Rightarrow>
                         (case getBounty (jo_bountyId j) s2 of
                            None \<Rightarrow> (Reject 500 ''internal'', s2)
                          | Some bounty \<Rightarrow>
                              (case queue_payout env (gen 0) (gen 1) now sub bounty s2 of
                                 Inl _ \<Rightarrow> (Reject 500 ''internal'', s2)
                               | Inr s3 \<Rightarrow>
                                   finish (if truthy (so_dedupeKey sub)
                                           then registerAcceptedDedupe now (jo_bountyId j) (the (so_dedupeKey sub)) s3
                                           else s3))))))"

section \<open>The verification runner\<close>

text \<open>A call to the API may not arrive, or its answer may be lost after it has been processed.\<close>

datatype delivery = Answered | NotSent string | AnswerLost string

record gateway_answer =
  ga_verdict :: verdict
  ga_reason :: string
  ga_scorecard :: json
  ga_qualityScore :: rat
  ga_evidence :: json

definition api_call :: "delivery \<Rightarrow> (db \<Rightarrow> 'a response \<times> db) \<Rightarrow> string \<Rightarrow> db \<Rightarrow> (string + 'a) \<times> db" where
  "api_call d call what s =
     (case d of
        NotSent m \<Rightarrow> (Inl m, s)
      | AnswerLost m \<Rightarrow> (Inl m, snd (call s))
      | Answered \<Rightarrow>
          (case call s of
             (Ok x, s') \<Rightarrow> (Inr x, s')
           | (Reject code _, s') \<Rightarrow> (Inl (what @ show_nat code), s')))"

text \<open>\<open>gateway\<close> is the verifier gateway, which may throw. The runner claims for 600 seconds.\<close>

definition handleVerificationRequested ::
    "pay_env \<Rightarrow> intake_env \<Rightarrow> jsnum \<Rightarrow> (nat \<Rightarrow> string) \<Rightarrow> string \<Rightarrow> (verifier_claim \<Rightarrow> string + gateway_answer) \<Rightarrow>
     delivery \<Rightarrow> delivery \<Rightarrow> int \<Rightarrow> int \<Rightarrow> outbox_payload \<Rightarrow> db \<Rightarrow> err option \<times> db" where
  "handleVerificationRequested penv ienv maxAttempts gen who gateway d1 d2 now later payload s =
     (case payload of
        PlVerification _ sid attempt \<Rightarrow>
          if sid = [] then (Some (OtherError ''missing_submissionId''), s)
          else (case api_call d1 (route_claim_verification ienv (gen 0) (gen 1) now sid attempt who 600) ''claim_failed:'' s of
              (Inl m, s1) \<Rightarrow> (Some (OtherError m), s1)
            | (Inr claim, s1) \<Rightarrow>
                (case gateway claim of
                   Inl m \<Rightarrow> (Some (OtherError m), s1)
                 | Inr g \<Rightarrow>
                     (case api_call d2 (route_verdict penv maxAttempts (\<lambda>n. gen (n + 2)) later
                              \<lparr> vb_claimToken = vc_claimToken claim, vb_submissionId = sid, vb_attemptNo = attempt,
                                vb_verdict = ga_verdict g, vb_reason = ga_reason g, vb_scorecard = ga_scorecard g,
                                vb_qualityScore = ga_qualityScore g, vb_evidence = ga_evidence g \<rparr>)
                            ''verdict_failed:'' s1 of
                        (Inl m, s2) \<Rightarrow> (Some (OtherError m), s2)
                      | (Inr _, s2) \<Rightarrow> (None, s2))))
      | _ \<Rightarrow> (Some (OtherError ''missing_submissionId''), s))"

end
