(* ===== verification/VerificationSafety.thy ===== *)
theory VerificationSafety
  imports Verification
begin

text \<open>
  What submission and verification guarantee: resubmitting is idempotent, a payout needs a valid pass
  and happens once, an inconclusive submission is judged a bounded number of times, and a fee
  setting the API accepts makes a pass lose its payout.
\<close>

section \<open>What the statements leave alone\<close>

lemma enqueue_frame [simp]:
  "jobs (enqueueOutbox rid now t pl av k s) = jobs s"
  "submissions (enqueueOutbox rid now t pl av k s) = submissions s"
  "verifications (enqueueOutbox rid now t pl av k s) = verifications s"
  "bounties (enqueueOutbox rid now t pl av k s) = bounties s"
  "payouts (enqueueOutbox rid now t pl av k s) = payouts s"
  "artifacts (enqueueOutbox rid now t pl av k s) = artifacts s"
  by (simp_all add: enqueueOutbox_def Let_def split: option.split list.split)

lemma request_frame [simp]:
  "jobs (request_verification oid vid now sid n s) = jobs s"
  "submissions (request_verification oid vid now sid n s) = submissions s"
  "bounties (request_verification oid vid now sid n s) = bounties s"
  "payouts (request_verification oid vid now sid n s) = payouts s"
  "artifacts (request_verification oid vid now sid n s) = artifacts s"
  by (simp_all add: request_verification_def enqueue_verification_def addVerification_def)

lemma row_update_frame [simp]:
  "submissions (updateJob j s) = submissions s" "verifications (updateJob j s) = verifications s"
  "bounties (updateJob j s) = bounties s" "payouts (updateJob j s) = payouts s"
  "outbox_events (updateJob j s) = outbox_events s"
  "jobs (updateSubmission q s) = jobs s" "verifications (updateSubmission q s) = verifications s"
  "bounties (updateSubmission q s) = bounties s" "payouts (updateSubmission q s) = payouts s"
  "outbox_events (updateSubmission q s) = outbox_events s"
  "jobs (updateVerification v s) = jobs s" "submissions (updateVerification v s) = submissions s"
  "bounties (updateVerification v s) = bounties s" "payouts (updateVerification v s) = payouts s"
  "outbox_events (updateVerification v s) = outbox_events s"
  "jobs (recordReputation now w ok s) = jobs s" "submissions (recordReputation now w ok s) = submissions s"
  "verifications (recordReputation now w ok s) = verifications s" "bounties (recordReputation now w ok s) = bounties s"
  "payouts (recordReputation now w ok s) = payouts s" "outbox_events (recordReputation now w ok s) = outbox_events s"
  "jobs (registerAcceptedDedupe now bid k s) = jobs s" "submissions (registerAcceptedDedupe now bid k s) = submissions s"
  "verifications (registerAcceptedDedupe now bid k s) = verifications s"
  "bounties (registerAcceptedDedupe now bid k s) = bounties s" "payouts (registerAcceptedDedupe now bid k s) = payouts s"
  "outbox_events (registerAcceptedDedupe now bid k s) = outbox_events s"
  "jobs (markSubmissionArtifactsAccepted sid s) = jobs s"
  "submissions (markSubmissionArtifactsAccepted sid s) = submissions s"
  "verifications (markSubmissionArtifactsAccepted sid s) = verifications s"
  "bounties (markSubmissionArtifactsAccepted sid s) = bounties s" "payouts (markSubmissionArtifactsAccepted sid s) = payouts s"
  "outbox_events (markSubmissionArtifactsAccepted sid s) = outbox_events s"
  by (simp_all add: updateJob_def updateSubmission_def updateVerification_def recordReputation_def
      registerAcceptedDedupe_def markSubmissionArtifactsAccepted_def Let_def)

lemma getters_by_table:
  "jobs s = jobs t \<Longrightarrow> getJob jid s = getJob jid t"
  "submissions s = submissions t \<Longrightarrow> getSubmission sid s = getSubmission sid t"
  "bounties s = bounties t \<Longrightarrow> getBounty bid s = getBounty bid t"
  "verifications s = verifications t \<Longrightarrow> findVerificationBySubmission sid n s = findVerificationBySubmission sid n t"
  by (simp_all add: getJob_def getSubmission_def getBounty_def findVerificationBySubmission_def)

lemma attach_frame:
  "attachSubmissionArtifacts pn sub jid wid refs s = (r, s') \<Longrightarrow> \<exists>t. s' = s\<lparr>artifacts := t\<rparr>"
proof (induction refs arbitrary: r s s')
  case Nil
  then have "s' = s\<lparr>artifacts := artifacts s\<rparr>" by simp
  then show ?case by blast
next
  case (Cons ref refs)
  show ?case
  proof (cases "extractArtifactIdFromUrl pn (ar_url ref)")
    case None
    with Cons show ?thesis by simp
  next
    case (Some aid)
    show ?thesis
    proof (cases "attach_error jid wid (artifact_row aid s)")
      case None
      let ?s = "s\<lparr>artifacts := update_where (\<lambda>r. a_id r = aid) (attach_row sub ref) (artifacts s)\<rparr>"
      obtain q u where run: "attachSubmissionArtifacts pn sub jid wid refs ?s = (q, u)" by fastforce
      with Cons.IH obtain t where "u = ?s\<lparr>artifacts := t\<rparr>" by blast
      moreover have "s' = u" using Cons.prems Some None run by (cases q) simp_all
      ultimately show ?thesis by auto
    next
      case (Some m)
      with Cons.prems \<open>extractArtifactIdFromUrl pn (ar_url ref) = Some aid\<close> have "s' = s\<lparr>artifacts := artifacts s\<rparr>" by simp
      then show ?thesis by blast
    qed
  qed
qed

lemma attach_frame_simps:
  assumes "attachSubmissionArtifacts pn sub jid wid refs s = (r, s')"
  shows "jobs s' = jobs s" "submissions s' = submissions s" "verifications s' = verifications s" "bounties s' = bounties s"
  using attach_frame [OF assms] by auto

section \<open>Resubmitting\<close>

lemma job_written:
  assumes "getJob jid t = Some old" and "jo_id job = jid" "jo_bountyId job = jo_bountyId old"
    "jo_fingerprintClass job = jo_fingerprintClass old" "jo_taskDescriptor job = jo_taskDescriptor old"
    "jo_createdAt job = jo_createdAt old"
  shows "getJob jid (updateJob job t) = Some job"
  using job_write_read [of job t old] assms by simp

lemma resubmitted:
  assumes "getJob jid t = Some job" and "jo_leaseWorkerId job = Some (wo_id worker)"
    and "\<not> isLeaseExpired now (jo_leaseExpiresAt job)" and "length (trim (case key of None \<Rightarrow> [] | Some k \<Rightarrow> k)) \<le> 200"
    and "jo_currentSubmissionId job = Some sid" "sid \<noteq> []" and "getSubmission sid t = Some e" "so_workerId e = wo_id worker"
  shows "\<exists>a. route_submit env ids now worker jid key body t = (Ok a, t) \<and> sv_submission a = e"
  using assms by (simp add: route_submit_def Let_def respondWithExistingSubmission_def)

lemma new_submission_found:
  assumes "so_id sub \<notin> s_id ` set (submissions s)" and "submissions t = submissions (addSubmission sub s)"
  shows "\<exists>e. getSubmission (so_id sub) t = Some e \<and> so_workerId e = so_workerId sub \<and> so_id e = so_id sub"
proof -
  have "find (\<lambda>r. s_id r = so_id sub) (submissions s) = None" using assms(1) unfolding find_None by (metis image_eqI)
  then show ?thesis using assms(2) by (simp add: getSubmission_def addSubmission_def find_append submissionFromRow_def)
qed

text \<open>C9. Submitting is idempotent: once a first submission for a job has been answered, the same worker
  submitting again while the lease lasts, with any key, payload and generated ids, gets the same
  submission back and changes nothing in the store.\<close>

theorem submit_idempotent:
  assumes first: "route_submit env ids now worker jid key body s = (Ok a, s1)"
    and job: "getJob jid s = Some job" "jo_currentSubmissionId job = None"
    and ids: "fst ids \<notin> s_id ` set (submissions s)" "fst ids \<noteq> []"
    and subs: "distinct (map s_id (submissions s))" "list_all (\<lambda>q. s_id q \<noteq> []) (submissions s)"
    and later: "\<not> isLeaseExpired later (jo_leaseExpiresAt job)"
      "length (trim (case key' of None \<Rightarrow> [] | Some k \<Rightarrow> k)) \<le> 200"
  shows "\<exists>a'. route_submit env ids' later worker jid key' body' s1 = (Ok a', s1) \<and>
           so_id (sv_submission a') = so_id (sv_submission a)"
proof -
  obtain sid vid oid where i: "ids = (sid, vid, oid)" by (cases ids) auto
  have jid: "jo_id job = jid" using job(1) by (rule getJob_id)
  have own: "jo_leaseWorkerId job = Some (wo_id worker)"
    using first job by (auto simp: route_submit_def Let_def split: if_split_asm)
  let ?k = "trim (case key of None \<Rightarrow> [] | Some k \<Rightarrow> k)"
  have "\<exists>job1 e. getJob jid s1 = Some job1 \<and> jo_leaseWorkerId job1 = jo_leaseWorkerId job \<and>
      jo_leaseExpiresAt job1 = jo_leaseExpiresAt job \<and> jo_currentSubmissionId job1 = Some (so_id (sv_submission a)) \<and>
      so_id (sv_submission a) \<noteq> [] \<and> getSubmission (so_id (sv_submission a)) s1 = Some e \<and>
      so_workerId e = wo_id worker \<and> so_id e = so_id (sv_submission a)"
  proof (cases "if ?k = [] then None else findSubmissionByIdempotency jid (wo_id worker) ?k s")
    case None
    obtain bounty where "create_submission env ids now worker job bounty (if ?k = [] then None else Some ?k) body s = (Ok a, s1)"
      using first job own None
      by (auto simp: route_submit_def Let_def split: if_split_asm option.split_asm)
    then obtain n t dup where t: "attachSubmissionArtifacts (su_pathname env) sid jid (wo_id worker) (sb_artifacts body)
        (addSubmission (new_submission env sid now jid (wo_id worker) (if ?k = [] then None else Some ?k) body dup) s) = (Inr n, t)"
      and r: "(\<exists>j. s1 = updateJob (job\<lparr>jo_currentSubmissionId := Some sid, jo_status := JobDone, jo_finalVerdict := Some Fail,
               jo_finalQualityScore := Some 0\<rparr>) t) \<or>
             s1 = updateJob (job\<lparr>jo_currentSubmissionId := Some sid, jo_status := JobVerifying\<rparr>)
               (request_verification oid vid now sid 1 t)"
        "sv_submission a = new_submission env sid now jid (wo_id worker) (if ?k = [] then None else Some ?k) body dup"
      by (auto simp: create_submission_def Let_def i jid split: prod.split_asm sum.split_asm if_split_asm)
    let ?sub = "new_submission env sid now jid (wo_id worker) (if ?k = [] then None else Some ?k) body dup"
    have sub: "so_id ?sub = sid" "so_workerId ?sub = wo_id worker" by (simp_all add: new_submission_def)
    have "jobs t = jobs s" using attach_frame_simps [OF t] by (simp add: addSubmission_def)
    then have "getJob jid t = Some job" "getJob jid (request_verification oid vid now sid 1 t) = Some job"
      using job(1) by (simp_all add: getJob_def)
    then have "\<exists>job1. getJob jid s1 = Some job1 \<and> jo_leaseWorkerId job1 = jo_leaseWorkerId job \<and>
      jo_leaseExpiresAt job1 = jo_leaseExpiresAt job \<and> jo_currentSubmissionId job1 = Some sid"
      using r(1) by (auto simp: job_written jid)
    moreover have "submissions s1 = submissions (addSubmission ?sub s)"
      using r(1) attach_frame_simps [OF t] by auto
    then have "\<exists>e. getSubmission sid s1 = Some e \<and> so_workerId e = wo_id worker \<and> so_id e = sid"
      using new_submission_found [of ?sub s s1] ids(1) sub i by simp
    ultimately show ?thesis using r(2) sub ids(2) i by auto
  next
    case (Some e)
    then obtain q where k: "?k \<noteq> []" and q: "q \<in> set (submissions s)" "s_worker_id q = wo_id worker" "e = submissionFromRow q"
      by (auto simp: findSubmissionByIdempotency_def split: if_split_asm dest: find_SomeD)
    have run: "resume_submission env vid oid now worker job e body s = (Ok a, s1)"
      using first job own Some k by (simp add: route_submit_def Let_def i split: if_split_asm)
    then obtain n t where t: "attachSubmissionArtifacts (su_pathname env) (so_id e) jid (wo_id worker) (sb_artifacts body) s = (Inr n, t)"
      by (auto simp: resume_submission_def jid split: prod.split_asm sum.split_asm)
    define u where "u = (case findVerificationBySubmission (so_id e) 1 t of
                       None \<Rightarrow> request_verification oid vid now (so_id e) 1 t
                     | Some v \<Rightarrow> if vo_status v = VerQueued then enqueue_verification oid now (vo_id v) (so_id e) 1 t else t)"
    have u: "jobs u = jobs s" "submissions u = submissions s"
      using attach_frame_simps [OF t] by (simp_all add: u_def enqueue_verification_def split: option.split)
    let ?j1 = "job\<lparr>jo_status := JobVerifying, jo_currentSubmissionId := Some (so_id e)\<rparr>"
    let ?j2 = "job\<lparr>jo_currentSubmissionId := Some (so_id e)\<rparr>"
    have "so_id e \<noteq> []" using q(1,3) subs(2) by (auto simp: submissionFromRow_def list_all_iff)
    then have e: "truthy (Some (so_id e))" by simp
    have s1: "s1 = (if jo_status job = JobClaimed \<or> jo_status job = JobOpen then updateJob ?j1 u else updateJob ?j2 u)"
      and a: "sv_submission a = e"
      using run e job(2)
      by (auto simp: resume_submission_def jid t u_def [symmetric] respondWithExistingSubmission_def Let_def split: if_split_asm)
    have "getJob jid u = Some job" using job(1) u by (simp add: getJob_def)
    then have "getJob jid (updateJob ?j1 u) = Some ?j1" "getJob jid (updateJob ?j2 u) = Some ?j2"
      by (simp_all add: job_written jid)
    moreover have "find (\<lambda>r. s_id r = so_id e) (submissions s) = Some q"
      using subs(1) q by (auto intro: find_unique simp: submissionFromRow_def)
    then have "getSubmission (so_id e) s1 = Some e" using u q(3) by (simp add: getSubmission_def s1)
    ultimately show ?thesis
      using \<open>so_id e \<noteq> []\<close> q(2,3) by (simp add: s1 a submissionFromRow_def)
  qed
  then obtain job1 e where j: "getJob jid s1 = Some job1" "jo_leaseWorkerId job1 = Some (wo_id worker)"
    "jo_leaseExpiresAt job1 = jo_leaseExpiresAt job" "jo_currentSubmissionId job1 = Some (so_id (sv_submission a))"
    "so_id (sv_submission a) \<noteq> []" "getSubmission (so_id (sv_submission a)) s1 = Some e" "so_workerId e = wo_id worker"
    "so_id e = so_id (sv_submission a)" using own by auto
  have "\<not> isLeaseExpired later (jo_leaseExpiresAt job1)" using later(1) j(3) by simp
  from resubmitted [OF j(1,2) this later(2) j(4,5,6,7), of env ids' body'] j(8) show ?thesis by auto
qed

section \<open>Payouts need a valid pass\<close>

text \<open>The part of the store that pays workers: the payouts and their events.\<close>

definition payout_part :: "db \<Rightarrow> payouts_row list \<times> outbox_row list" where
  "payout_part s = (payouts s, filter (\<lambda>r. ob_topic r = payout_topic) (outbox_events s))"

lemma payout_part_request [simp]: "payout_part (request_verification oid vid now sid n s) = payout_part s"
  by (simp add: payout_part_def request_verification_def enqueue_verification_def enqueueOutbox_def Let_def
      insert_do_nothing_def new_outbox_row_def payout_topic_def addVerification_def split: option.split list.split)

lemma payout_part_updates [simp]:
  "payout_part (updateJob j s) = payout_part s" "payout_part (updateSubmission q s) = payout_part s"
  "payout_part (updateVerification v s) = payout_part s" "payout_part (recordReputation now w ok s) = payout_part s"
  "payout_part (registerAcceptedDedupe now bid k s) = payout_part s"
  by (simp_all add: payout_part_def)

lemma register_pass_frame:
  assumes "register_pass now sub s = Inr s'"
  shows "payout_part s' = payout_part s" "jobs s' = jobs s" "submissions s' = submissions s" "bounties s' = bounties s"
    "verifications s' = verifications s" "payouts s' = payouts s" "outbox_events s' = outbox_events s"
  using assms by (auto simp: register_pass_def split: if_split_asm option.split_asm)

lemma settle_no_pass:
  "vb_verdict b \<noteq> Pass \<Longrightarrow> payout_part (snd (settle_job env M gen now vid b sub job s)) = payout_part s"
  by (simp add: settle_job_def complete_job_def Let_def)

lemma apply_no_pass:
  assumes "vb_verdict b \<noteq> Pass"
  shows "payout_part (snd (apply_verdict env M gen now v b s)) = payout_part s"
  using assms settle_no_pass [OF assms] by (simp add: apply_verdict_def Let_def split: option.split)

lemma verdict_no_pass:
  "vb_verdict b \<noteq> Pass \<Longrightarrow> payout_part (snd (route_verdict env M gen now b s)) = payout_part s"
  by (simp add: route_verdict_def apply_no_pass split: option.split)

text \<open>C5. Only a valid pass pays: whenever a verdict request changes the payouts or their events, it
  named the attempt that carries its claim token, the attempt had not been judged before and its claim
  had not run out, the verdict was pass and the submission exists.\<close>

theorem payout_needs_valid_pass:
  assumes "route_verdict env maxAttempts gen now b s = (answer, s')"
    and "payouts s' \<noteq> payouts s \<or>
         filter (\<lambda>r. ob_topic r = payout_topic) (outbox_events s') \<noteq>
         filter (\<lambda>r. ob_topic r = payout_topic) (outbox_events s)"
  shows "\<exists>v sub. findVerificationBySubmission (vb_submissionId b) (vb_attemptNo b) s = Some v \<and>
           vo_claimToken v = Some (vb_claimToken b) \<and> vo_status v \<noteq> VerFinished \<and>
           (vo_claimExpiresAt v = None \<or> vo_claimExpiresAt v = Some 0 \<or> now \<le> the (vo_claimExpiresAt v)) \<and>
           vb_verdict b = Pass \<and> getSubmission (vb_submissionId b) s = Some sub"
proof -
  have ne: "payout_part s' \<noteq> payout_part s" using assms(2) by (auto simp: payout_part_def)
  then have "s' \<noteq> s" by auto
  with assms(1) obtain v where v: "findVerificationBySubmission (vb_submissionId b) (vb_attemptNo b) s = Some v"
    "vo_claimToken v = Some (vb_claimToken b)" "vo_status v \<noteq> VerFinished"
    "\<not> (case vo_claimExpiresAt v of None \<Rightarrow> False | Some t \<Rightarrow> t \<noteq> 0 \<and> t < now)"
    and run: "apply_verdict env maxAttempts gen now v b s = (answer, s')"
    by (auto simp: route_verdict_def split: option.split_asm if_split_asm)
  let ?s1 = "updateVerification (finish_verification b v) s"
  have "getSubmission (vb_submissionId b) ?s1 = getSubmission (vb_submissionId b) s"
    by (rule getters_by_table) simp
  moreover have "getSubmission (vb_submissionId b) ?s1 \<noteq> None"
    using run ne by (cases "getSubmission (vb_submissionId b) ?s1") (auto simp: apply_verdict_def Let_def)
  moreover have "vb_verdict b = Pass"
    using apply_no_pass [of b env maxAttempts gen now v s] run ne by auto
  ultimately show ?thesis using v by (auto split: option.split_asm)
qed

section \<open>A pass pays once\<close>

lemma find_filter: "find P t = (case filter P t of [] \<Rightarrow> None | r # _ \<Rightarrow> Some r)"
  by (induction t) auto

lemma filter_selected: "(\<And>r. P r \<Longrightarrow> P (f r)) \<Longrightarrow> filter P (update_where P f t) = map f (filter P t)"
  by (induction t) auto

lemma upsert_single:
  assumes "count_where P t \<le> 1" and "\<And>r. P r \<Longrightarrow> P (f r)" and "P r"
  shows "filter P (insert_do_update P f r t) = [case filter P t of [] \<Rightarrow> r | q # _ \<Rightarrow> f q]"
proof (cases "filter P t")
  case Nil
  then have "\<not> list_ex P t" by (auto simp: list_ex_iff filter_empty_conv)
  with Nil assms(3) show ?thesis by (simp add: insert_do_update_def)
next
  case (Cons q qs)
  with assms(1) have "qs = []" by (simp add: count_where_def)
  moreover have "list_ex P t" using Cons by (metis filter_empty_conv list.distinct(1) list_ex_iff)
  ultimately show ?thesis using Cons assms(2) by (simp add: insert_do_update_def filter_selected)
qed

lemma addPayout_single:
  assumes "addPayout env pid now sid wid n s = Inr (x, s')" and "count_where (\<lambda>p. p_submission_id p = sid) (payouts s) \<le> 1"
  shows "\<exists>p. x = Some p \<and> s' = s\<lparr>payouts := payouts s'\<rparr> \<and> filter (\<lambda>p. p_submission_id p = sid) (payouts s') = [p] \<and>
    (filter (\<lambda>p. p_submission_id p = sid) (payouts s) = [] \<longrightarrow> p_worker_id p = wid \<and> p_amount_cents p = n)"
proof -
  let ?P = "\<lambda>p. p_submission_id p = sid"
  from assms(1) obtain sp bps wallet pwBps where
    x: "x = find ?P (payouts s')" and s': "s' = s\<lparr>payouts := insert_do_update ?P
      (\<lambda>p. (set_split sp bps wallet pwBps (pe_fee_wallet env) now p)\<lparr>p_hold_until := hold_of sid now s\<rparr>)
      ((set_split sp bps wallet pwBps (pe_fee_wallet env) now (new_payout pid sid wid n now))\<lparr>p_hold_until := hold_of sid now s\<rparr>)
      (payouts s)\<rparr>"
    by (auto simp: addPayout_def Let_def split: prod.split_asm sum.split_asm)
  let ?f = "\<lambda>p. (set_split sp bps wallet pwBps (pe_fee_wallet env) now p)\<lparr>p_hold_until := hold_of sid now s\<rparr>"
  have "filter ?P (payouts s') =
      [case filter ?P (payouts s) of [] \<Rightarrow> ?f (new_payout pid sid wid n now) | q # _ \<Rightarrow> ?f q]"
    unfolding s' using upsert_single [OF assms(2), where f = ?f and r = "?f (new_payout pid sid wid n now)"]
    by (simp add: set_split_def new_payout_def)
  then show ?thesis
    using s' by (simp add: x find_filter set_split_def new_payout_def split: list.split)
qed

lemma count_key_le: "outbox_unique t \<Longrightarrow> count_where (outbox_key topic k) t \<le> 1"
proof (induction t)
  case (Cons r t)
  show ?case
  proof (cases "outbox_key topic k r")
    case True
    have "\<not> outbox_key topic k q" if "q \<in> set t" for q
    proof
      assume "outbox_key topic k q"
      with True have e: "(ob_topic q, ob_idempotency_key q) = (ob_topic r, ob_idempotency_key r)"
        and "ob_idempotency_key q \<noteq> None" "ob_idempotency_key r \<noteq> None" by (auto simp: outbox_key_def)
      from that \<open>ob_idempotency_key q \<noteq> None\<close> have "q \<in> set (filter (\<lambda>r. ob_idempotency_key r \<noteq> None) t)" by simp
      then have "(ob_topic q, ob_idempotency_key q) \<in>
          (\<lambda>r. (ob_topic r, ob_idempotency_key r)) ` set (filter (\<lambda>r. ob_idempotency_key r \<noteq> None) t)"
        by (rule imageI)
      then have "(ob_topic r, ob_idempotency_key r) \<in>
          set (map (\<lambda>r. (ob_topic r, ob_idempotency_key r)) (filter (\<lambda>r. ob_idempotency_key r \<noteq> None) t))"
        unfolding e set_map .
      with Cons.prems \<open>ob_idempotency_key r \<noteq> None\<close> show False by (simp add: outbox_unique_def)
    qed
    then have "count_where (outbox_key topic k) t = 0" by (simp add: count_where_0)
    then show ?thesis by simp
  next
    case False
    moreover have "outbox_unique t" using Cons.prems by (simp add: outbox_unique_def split: if_split_asm)
    ultimately show ?thesis using Cons.IH by simp
  qed
qed simp

lemma enqueue_once:
  assumes "outbox_unique (outbox_events s)"
  shows "count_where (outbox_key topic (c # k)) (outbox_events (enqueueOutbox rid now topic pl av (Some (c # k)) s)) = 1"
proof -
  have "count_where (outbox_key topic (c # k)) (outbox_events s) \<le> 1" by (rule count_key_le [OF assms])
  moreover have "list_ex (outbox_key topic (c # k)) (outbox_events s) \<longleftrightarrow>
      count_where (outbox_key topic (c # k)) (outbox_events s) \<noteq> 0"
    by (auto simp: count_where_0 list_ex_iff)
  ultimately show ?thesis
    by (auto simp: enqueueOutbox_def Let_def insert_do_nothing_def new_outbox_row_def outbox_key_def)
qed

lemma queue_payout_once:
  assumes "queue_payout env pid oid now sub bounty s = Inr s'" and "outbox_unique (outbox_events s)"
    and "count_where (\<lambda>p. p_submission_id p = so_id sub) (payouts s) \<le> 1"
  shows "\<exists>p. filter (\<lambda>p. p_submission_id p = so_id sub) (payouts s') = [p] \<and>
    count_where (payout_event (p_id p)) (outbox_events s') = 1 \<and>
    (filter (\<lambda>p. p_submission_id p = so_id sub) (payouts s) = [] \<longrightarrow>
       p_worker_id p = so_workerId sub \<and> p_amount_cents p = bo_payoutCents bounty) \<and>
    jobs s' = jobs s \<and> submissions s' = submissions s \<and> verifications s' = verifications s"
proof -
  from assms(1) obtain p s1 where a: "addPayout env pid now (so_id sub) (so_workerId sub) (bo_payoutCents bounty) s = Inr (Some p, s1)"
    and s': "s' = enqueueOutbox oid now payout_topic (PlPayout (p_id p) (Some (so_id sub)) (so_workerId sub))
        (if bo_disputeWindowSec bounty > 0 then Some (now + bo_disputeWindowSec bounty * 1000) else None)
        (Some (''payout:'' @ p_id p)) s1"
    by (auto simp: queue_payout_def split: sum.split_asm option.split_asm)
  from addPayout_single [OF a assms(3)] have s1: "s1 = s\<lparr>payouts := payouts s1\<rparr>"
    and p: "filter (\<lambda>p. p_submission_id p = so_id sub) (payouts s1) = [p]"
      "filter (\<lambda>p. p_submission_id p = so_id sub) (payouts s) = [] \<longrightarrow>
       p_worker_id p = so_workerId sub \<and> p_amount_cents p = bo_payoutCents bounty" by auto
  have t: "outbox_events s1 = outbox_events s" "jobs s1 = jobs s" "submissions s1 = submissions s"
    "verifications s1 = verifications s" by (subst s1, simp)+
  with assms(2) have "outbox_unique (outbox_events s1)" by simp
  from enqueue_once [OF this, of payout_topic "CHR ''p''" "''ayout:'' @ p_id p"]
  have "count_where (payout_event (p_id p)) (outbox_events s') = 1" by (simp add: s' payout_event_def)
  with p t show ?thesis by (simp add: s')
qed

lemma finished_found:
  assumes "findVerificationBySubmission sid n s = Some v"
  shows "findVerificationBySubmission sid n (updateVerification (finish_verification b v) s) = Some (finish_verification b v)"
proof -
  let ?P = "\<lambda>r. v_submission_id r = sid \<and> v_attempt_no r = n"
  from assms obtain r where r: "find ?P (verifications s) = Some r" "v = verificationFromRow r"
    by (auto simp: findVerificationBySubmission_def)
  then show ?thesis
    by (auto simp: findVerificationBySubmission_def updateVerification_def find_update_where finish_verification_def
        verificationFromRow_def)
qed

lemma route_verdict_run:
  assumes "findVerificationBySubmission (vb_submissionId b) (vb_attemptNo b) s = Some v"
    and "vo_status v \<noteq> VerFinished" and "route_verdict env M gen now b s = (Ok a, s')"
  shows "vo_claimToken v = Some (vb_claimToken b)" and "apply_verdict env M gen now v b s = (Ok a, s')"
  using assms by (auto simp: route_verdict_def split: if_split_asm)

lemma apply_verdict_run:
  assumes "apply_verdict env M gen now v b s = (Ok a, s')"
  shows "\<exists>sub0 sub job s3. getSubmission (vb_submissionId b) s = Some sub0 \<and> sub = judge_submission b sub0 \<and>
    getJob (so_jobId sub) s = Some job \<and> settle_job env M gen now (vo_id v) b sub job s3 = (Ok a, s') \<and>
    jobs s3 = jobs s \<and> bounties s3 = bounties s \<and> payouts s3 = payouts s \<and> outbox_events s3 = outbox_events s \<and>
    verifications s3 = verifications (updateVerification (finish_verification b v) s) \<and>
    submissions s3 = submissions (updateSubmission sub s)"
proof -
  let ?s1 = "updateVerification (finish_verification b v) s"
  have g: "getSubmission (vb_submissionId b) ?s1 = getSubmission (vb_submissionId b) s"
    by (rule getters_by_table) simp
  from assms obtain sub0 where sub0: "getSubmission (vb_submissionId b) s = Some sub0"
    by (auto simp: apply_verdict_def g Let_def split: option.split_asm)
  let ?sub = "judge_submission b sub0"
  let ?s2 = "recordReputation now (so_workerId ?sub) (vb_verdict b = Pass) (updateSubmission ?sub ?s1)"
  from assms sub0 obtain s3 where r: "(if vb_verdict b = Pass then register_pass now ?sub ?s2 else Inr ?s2) = Inr s3"
    by (auto simp: apply_verdict_def g Let_def split: sum.split_asm)
  have f: "jobs s3 = jobs ?s2" "bounties s3 = bounties ?s2" "payouts s3 = payouts ?s2" "outbox_events s3 = outbox_events ?s2"
    "verifications s3 = verifications ?s2" "submissions s3 = submissions ?s2"
    using r register_pass_frame by (auto split: if_split_asm)
  from assms sub0 r obtain job where job: "getJob (so_jobId ?sub) s3 = Some job"
    "settle_job env M gen now (vo_id v) b ?sub job s3 = (Ok a, s')"
    by (auto simp: apply_verdict_def g Let_def split: option.split_asm)
  have "getJob (so_jobId ?sub) s3 = getJob (so_jobId ?sub) s" by (rule getters_by_table) (simp add: f)
  with sub0 job f show ?thesis by (intro exI [of _ sub0] exI [of _ ?sub] exI [of _ job] exI [of _ s3]) (simp add: updateSubmission_def updateVerification_def)
qed

text \<open>C4. A pass pays once: after an accepted pass on an attempt not judged before there is exactly one
  payout for the submission, with exactly one event to execute it (a new payout is for the worker of the
  submission and the amount of the bounty), the job is done, and the same verdict sent again, at any
  time, is answered without any change to the store.\<close>

theorem pass_pays_once:
  assumes v: "findVerificationBySubmission (vb_submissionId b) (vb_attemptNo b) s = Some v" "vo_status v \<noteq> VerFinished"
    and run: "route_verdict env maxAttempts gen now b s = (Ok a, s')" and pass: "vb_verdict b = Pass"
    and unique: "outbox_unique (outbox_events s)"
      "count_where (\<lambda>p. p_submission_id p = vb_submissionId b) (payouts s) \<le> 1"
  shows "\<exists>p sub job bounty a'. filter (\<lambda>p. p_submission_id p = vb_submissionId b) (payouts s') = [p] \<and>
    count_where (payout_event (p_id p)) (outbox_events s') = 1 \<and>
    getSubmission (vb_submissionId b) s = Some sub \<and> getJob (so_jobId sub) s = Some job \<and>
    getBounty (jo_bountyId job) s = Some bounty \<and>
    (filter (\<lambda>p. p_submission_id p = vb_submissionId b) (payouts s) = [] \<longrightarrow>
       p_worker_id p = so_workerId sub \<and> p_amount_cents p = bo_payoutCents bounty) \<and>
    (\<exists>j. va_job a = Some j \<and> jo_status j = JobDone \<and> jo_finalVerdict j = Some Pass) \<and>
    route_verdict env' maxAttempts' gen' later b s' = (Ok a', s')"
proof -
  note r = route_verdict_run [OF v run]
  from apply_verdict_run [OF r(2)] obtain sub0 job s3 where sub0: "getSubmission (vb_submissionId b) s = Some sub0"
    and job: "getJob (so_jobId sub0) s = Some job"
    and settle: "settle_job env maxAttempts gen now (vo_id v) b (judge_submission b sub0) job s3 = (Ok a, s')"
    and s3: "bounties s3 = bounties s" "payouts s3 = payouts s" "outbox_events s3 = outbox_events s"
      "verifications s3 = verifications (updateVerification (finish_verification b v) s)"
    by (auto simp: judge_submission_def)
  let ?sub = "judge_submission b sub0"
  have sid: "so_id sub0 = vb_submissionId b" "so_id ?sub = vb_submissionId b" "so_workerId ?sub = so_workerId sub0"
    using sub0 by (auto simp: judge_submission_def getSubmission_def submissionFromRow_def dest: find_SomeD)
  define j where "j = job\<lparr>jo_finalVerdict := Some Pass, jo_finalReason := so_finalReason ?sub,
      jo_finalQualityScore := Some (vb_qualityScore b), jo_status := JobDone, jo_doneAt := Some now\<rparr>"
  have gb: "getBounty (jo_bountyId job) (updateJob j s3) = getBounty (jo_bountyId job) s"
    by (rule getters_by_table) (simp add: s3)
  from settle pass obtain bounty s2 where bounty: "getBounty (jo_bountyId job) s = Some bounty"
    and q: "queue_payout env (gen 0) (gen 1) now ?sub bounty (updateJob j s3) = Inr s2"
    and s': "s' = markSubmissionArtifactsAccepted (so_id ?sub) s2" and a: "va_job a = Some j"
    by (auto simp: settle_job_def complete_job_def Let_def j_def [symmetric] gb split: option.split_asm sum.split_asm)
  have u: "outbox_unique (outbox_events (updateJob j s3))"
    "count_where (\<lambda>p. p_submission_id p = so_id ?sub) (payouts (updateJob j s3)) \<le> 1"
    using unique by (simp_all add: s3 sid)
  from queue_payout_once [OF q u] obtain p where p: "filter (\<lambda>p. p_submission_id p = vb_submissionId b) (payouts s2) = [p]"
    "count_where (payout_event (p_id p)) (outbox_events s2) = 1"
    "filter (\<lambda>p. p_submission_id p = vb_submissionId b) (payouts s) = [] \<longrightarrow>
       p_worker_id p = so_workerId sub0 \<and> p_amount_cents p = bo_payoutCents bounty"
    "verifications s2 = verifications s3"
    by (auto simp: sid s3)
  have "findVerificationBySubmission (vb_submissionId b) (vb_attemptNo b) s' = Some (finish_verification b v)"
    using finished_found [OF v(1), of b] p(4) s3(4) by (simp add: findVerificationBySubmission_def s')
  then have "\<exists>a'. route_verdict env' maxAttempts' gen' later b s' = (Ok a', s')"
    using r(1) by (simp add: route_verdict_def finish_verification_def)
  with p sub0 job bounty a show ?thesis by (auto simp: s' j_def)
qed

section \<open>Inconclusive verdicts come to an end\<close>

lemma max_attempt_by_table: "verifications s = verifications t \<Longrightarrow> max_attempt sid s = max_attempt sid t"
  by (simp add: max_attempt_def)

lemma max_attempt_update [simp]: "max_attempt sid (updateVerification v s) = max_attempt sid s"
  by (simp add: max_attempt_def updateVerification_def filter_update_where map_update_where)

lemma foldr_max_init: "foldr max ns (max m n) = max (foldr max ns n) (m :: int)"
  by (induction ns) (simp_all add: max.commute max.left_commute)

lemma max_attempt_add:
  assumes "1 \<le> vo_attemptNo v"
  shows "max_attempt sid (addVerification now v s) =
    (if vo_submissionId v = sid then max (max_attempt sid s) (vo_attemptNo v) else max_attempt sid s)"
  using assms by (simp add: max_attempt_def addVerification_def foldr_max_init split: list.split)

lemma settle_inconclusive:
  assumes "settle_job env (Fin (of_int M)) gen now vid b sub job s = (Ok a, s')" and "vb_verdict b = Inconclusive"
    and "0 \<le> max_attempt (so_id sub) s"
  shows "if max_attempt (so_id sub) s < M
    then va_nextAttempt a = Some (max_attempt (so_id sub) s + 1) \<and>
         max_attempt (so_id sub) s' = max_attempt (so_id sub) s + 1 \<and>
         list_ex (outbox_key ''verification.requested'' (verification_key (so_id sub) (max_attempt (so_id sub) s + 1)))
           (outbox_events s')
    else va_nextAttempt a = None \<and> (\<exists>j. va_job a = Some j \<and> jo_status j = JobDone) \<and> verifications s' = verifications s"
proof (cases "max_attempt (so_id sub) s < M")
  case True
  let ?n = "max_attempt (so_id sub) s + 1"
  have "verifications (request_verification (gen 1) (gen 0) now (so_id sub) ?n s) =
      verifications (addVerification now (new_verification (gen 0) (so_id sub) ?n) s)"
    by (simp add: request_verification_def enqueue_verification_def)
  then have "max_attempt (so_id sub) (request_verification (gen 1) (gen 0) now (so_id sub) ?n s) = ?n"
    using max_attempt_by_table [of "request_verification (gen 1) (gen 0) now (so_id sub) ?n s"] assms(3)
    by (simp add: max_attempt_add new_verification_def)
  moreover have "list_ex (outbox_key ''verification.requested'' (verification_key (so_id sub) ?n))
      (outbox_events (request_verification (gen 1) (gen 0) now (so_id sub) ?n s))"
    by (simp add: request_verification_def enqueue_verification_def verification_key_def enqueueOutbox_def Let_def
        insert_do_nothing_def outbox_key_def new_outbox_row_def)
  moreover have "s' = updateJob (the (va_job a)) (request_verification (gen 1) (gen 0) now (so_id sub) ?n s)"
    and "va_nextAttempt a = Some ?n"
    using assms(1,2) True by (auto simp: settle_job_def Let_def)
  ultimately show ?thesis
    using True max_attempt_by_table [of s' "request_verification (gen 1) (gen 0) now (so_id sub) ?n s"] by simp
next
  case False
  with assms(1,2) show ?thesis by (auto simp: settle_job_def complete_job_def Let_def)
qed

text \<open>A submission under review: judgements that ask for another attempt, claims of attempts by any
  verifier, and everything else that leaves the attempts alone. The number counts the first.\<close>

inductive reviewing :: "int \<Rightarrow> string \<Rightarrow> nat \<Rightarrow> db \<Rightarrow> db \<Rightarrow> bool" for M sid where
  opened: "reviewing M sid 0 s s"
| requeued: "reviewing M sid n s t \<Longrightarrow> findVerificationBySubmission sid (vb_attemptNo b) t = Some v \<Longrightarrow>
    vo_status v \<noteq> VerFinished \<Longrightarrow> vb_submissionId b = sid \<Longrightarrow> vb_verdict b = Inconclusive \<Longrightarrow>
    route_verdict env (Fin (of_int M)) gen now b t = (Ok a, u) \<Longrightarrow> va_nextAttempt a = Some k \<Longrightarrow>
    reviewing M sid (Suc n) s u"
| claimed: "reviewing M sid n s t \<Longrightarrow> 1 \<le> attempt \<Longrightarrow>
    route_claim_verification ienv vid token now sid' attempt who ttlSec t = (c, u) \<Longrightarrow> reviewing M sid n s u"
| other: "reviewing M sid n s t \<Longrightarrow> verifications u = verifications t \<Longrightarrow> reviewing M sid n s u"

lemma verdict_inconclusive:
  assumes v: "findVerificationBySubmission (vb_submissionId b) (vb_attemptNo b) s = Some v" "vo_status v \<noteq> VerFinished"
    and run: "route_verdict env (Fin (of_int M)) gen now b s = (Ok a, s')" and inc: "vb_verdict b = Inconclusive"
    and pos: "0 \<le> max_attempt (vb_submissionId b) s"
  shows "if max_attempt (vb_submissionId b) s < M
    then va_nextAttempt a = Some (max_attempt (vb_submissionId b) s + 1) \<and>
         max_attempt (vb_submissionId b) s' = max_attempt (vb_submissionId b) s + 1 \<and>
         list_ex (outbox_key ''verification.requested''
           (verification_key (vb_submissionId b) (max_attempt (vb_submissionId b) s + 1))) (outbox_events s')
    else va_nextAttempt a = None \<and> (\<exists>j. va_job a = Some j \<and> jo_status j = JobDone) \<and>
         max_attempt (vb_submissionId b) s' = max_attempt (vb_submissionId b) s"
proof -
  from apply_verdict_run [OF route_verdict_run(2) [OF v run]] obtain sub0 job s3 where
    sub0: "getSubmission (vb_submissionId b) s = Some sub0"
    and settle: "settle_job env (Fin (of_int M)) gen now (vo_id v) b (judge_submission b sub0) job s3 = (Ok a, s')"
    and s3: "verifications s3 = verifications (updateVerification (finish_verification b v) s)"
    by auto
  have sid: "so_id (judge_submission b sub0) = vb_submissionId b"
    using sub0 by (auto simp: judge_submission_def getSubmission_def submissionFromRow_def dest: find_SomeD)
  have m: "max_attempt (vb_submissionId b) s3 = max_attempt (vb_submissionId b) s"
    using max_attempt_by_table [OF s3] by simp
  from settle_inconclusive [OF settle inc] pos max_attempt_by_table [of s' s3 "vb_submissionId b"] show ?thesis
    by (auto simp: sid m split: if_split_asm)
qed

lemma claim_attempts:
  assumes "route_claim_verification ienv vid token now sid' attempt who ttlSec s = (c, u)" and "1 \<le> attempt"
  shows "max_attempt sid s \<le> max_attempt sid u"
proof -
  have "u = s \<or> (\<exists>w. u = snd (claim_verification vid token now sid' attempt who ttlSec s))"
    using assms(1) by (auto simp: route_claim_verification_def split: option.split_asm prod.split_asm)
  then show ?thesis
    using max_attempt_add [of "new_verification vid sid' attempt" sid now s] assms(2)
    by (auto simp: claim_verification_def Let_def new_verification_def split: option.split)
qed

text \<open>C8. The review of a submission ends: whatever verifiers claim in between, at most
  \<open>MAX_VERIFICATION_ATTEMPTS\<close> minus the highest attempt so far inconclusive verdicts can ask for
  another attempt. The next one closes the job.\<close>

theorem review_terminates:
  assumes "reviewing M sid n s t" and "0 \<le> max_attempt sid s"
  shows "int n \<le> max 0 (M - max_attempt sid s)"
proof -
  have "max_attempt sid s + int n \<le> max_attempt sid t \<and> (n = 0 \<or> max_attempt sid s + int n \<le> M)"
    using assms
  proof (induction rule: reviewing.induct)
    case (requeued n s t b v env gen now a u k)
    have "0 \<le> max_attempt (vb_submissionId b) t" using requeued by simp
    from verdict_inconclusive [OF _ requeued(3) requeued(6) requeued(5) this] requeued show ?case
      by (simp split: if_split_asm)
  next
    case (claimed n s t attempt ienv vid token now sid' who ttlSec c u)
    with claim_attempts [OF claimed(3) claimed(2), of sid] show ?case by auto
  next
    case (other n s t u)
    with max_attempt_by_table [of u t sid] show ?case by simp
  qed simp
  then show ?thesis by auto
qed

section \<open>A pass that is never paid\<close>

lemma submission_written:
  assumes "getSubmission sid s = Some q" and "submissions t = submissions (updateSubmission (judge_submission b q) s)"
  shows "getSubmission sid t = Some (judge_submission b q)"
proof -
  from assms(1) obtain r where r: "find (\<lambda>r. s_id r = sid) (submissions s) = Some r" "q = submissionFromRow r"
    by (auto simp: getSubmission_def)
  then have "so_id (judge_submission b q) = sid"
    by (auto simp: judge_submission_def submissionFromRow_def dest: find_SomeD)
  moreover have "s_id r = sid" using r(1) by (auto dest: find_SomeD)
  ultimately show ?thesis
    using r by (simp add: getSubmission_def assms(2) updateSubmission_def find_update_where)
      (simp add: judge_submission_def submissionFromRow_def)
qed


section \<open>The theorems at work\<close>

definition review_job :: jobs_row where
  "review_job = example_job\<lparr>j_status := JobClaimed, j_lease_worker_id := Some ''w1'', j_lease_expires_at := Some 1000\<rparr>"

definition plain_body :: submit_body where
  "plain_body = \<lparr> sb_manifest = JNull, sb_bountyId = ''b1'', sb_finalUrl = None, sb_observed = ''seen'', sb_artifacts = [],
     sb_notes = None \<rparr>"

definition plain_env :: submit_env where
  "plain_env = \<lparr> su_sha = (\<lambda>x. x), su_stringify = sb_observed, su_index_json = (\<lambda>_. JArr []),
     su_pathname = (\<lambda>_. None), su_parse_url = (\<lambda>_. None) \<rparr>"

definition open_store :: db where
  "open_store = empty_db\<lparr>jobs := [review_job], bounties := [example_bounty]\<rparr>"

lemma review_job_ids: "j_id review_job = ''j1''" "j_bounty_id review_job = ''b1''" "b_id example_bounty = ''b1''"
  by (simp_all add: review_job_def example_job_def example_bounty_def)

lemma first_submit:
  "\<exists>a s1. route_submit plain_env (''s1'', ''v1'', ''e1'') 5 example_worker ''j1'' None plain_body open_store = (Ok a, s1)"
proof -
  have "getJob ''j1'' open_store = Some (jobFromRow review_job)" "getBounty ''b1'' open_store = Some (bountyFromRow example_bounty)"
    by (simp_all add: getJob_def getBounty_def open_store_def review_job_ids)
  moreover have "isAcceptedDuplicate b k open_store = False" for b k
    by (simp add: isAcceptedDuplicate_def open_store_def empty_db_def)
  ultimately show ?thesis
    by (simp add: route_submit_def create_submission_def Let_def jobFromRow_def review_job_def example_job_def
        example_worker_def isLeaseExpired_def plain_body_def trim_def stale_def)
qed

theorem submit_idempotent_witness:
  "\<exists>a s1 a'. route_submit plain_env (''s1'', ''v1'', ''e1'') 5 example_worker ''j1'' None plain_body open_store = (Ok a, s1) \<and>
     route_submit plain_env (''s2'', ''v2'', ''e2'') 900 example_worker ''j1'' (Some ''key'') plain_body s1 = (Ok a', s1) \<and>
     so_id (sv_submission a') = so_id (sv_submission a)"
proof -
  obtain a s1 where first: "route_submit plain_env (''s1'', ''v1'', ''e1'') 5 example_worker ''j1'' None plain_body open_store = (Ok a, s1)"
    using first_submit by blast
  have job: "getJob ''j1'' open_store = Some (jobFromRow review_job)" "jo_currentSubmissionId (jobFromRow review_job) = None"
    "\<not> isLeaseExpired 900 (jo_leaseExpiresAt (jobFromRow review_job))"
    by (simp_all add: getJob_def open_store_def jobFromRow_def review_job_def example_job_def isLeaseExpired_def)
  have "submissions open_store = []" by (simp add: open_store_def empty_db_def)
  then have "\<exists>a'. route_submit plain_env (''s2'', ''v2'', ''e2'') 900 example_worker ''j1'' (Some ''key'') plain_body s1 = (Ok a', s1) \<and>
      so_id (sv_submission a') = so_id (sv_submission a)"
    by (intro submit_idempotent [OF first job(1,2) _ _ _ _ job(3)]) (simp_all add: trim_def is_space_def)
  with first show ?thesis by blast
qed

definition review_submission :: submissions_row where
  "review_submission = \<lparr> s_id = ''s1'', s_job_id = ''j1'', s_worker_id = ''w1'', s_idempotency_key = None,
     s_request_hash = None, s_manifest = JNull, s_artifact_index = JArr [], s_status = SubSubmitted, s_dedupe_key = None,
     s_final_verdict = None, s_final_reason = None, s_final_quality_score = None, s_payout_status = Some PayNone,
     s_created_at = 0 \<rparr>"

definition review_attempt :: verifications_row where
  "review_attempt = \<lparr> v_id = ''v1'', v_submission_id = ''s1'', v_attempt_no = 1, v_status = VerInProgress,
     v_claim_token = Some ''tok'', v_claimed_by = None, v_claim_expires_at = Some 600, v_verdict = None, v_reason = None,
     v_scorecard = None, v_evidence = None, v_created_at = 0 \<rparr>"

definition review_store :: db where
  "review_store = empty_db\<lparr>jobs := [review_job], bounties := [example_bounty], submissions := [review_submission],
     verifications := [review_attempt]\<rparr>"

definition review_body :: "verdict \<Rightarrow> verdict_body" where
  "review_body w = \<lparr> vb_claimToken = ''tok'', vb_submissionId = ''s1'', vb_attemptNo = 1, vb_verdict = w, vb_reason = [],
     vb_scorecard = JNull, vb_qualityScore = 1, vb_evidence = JArr [] \<rparr>"

lemma review_lookups:
  "findVerificationBySubmission ''s1'' 1 review_store = Some (verificationFromRow review_attempt)"
  "getSubmission ''s1'' review_store = Some (submissionFromRow review_submission)"
  "getJob ''j1'' review_store = Some (jobFromRow review_job)"
  "getBounty ''b1'' review_store = Some (bountyFromRow example_bounty)"
  "payouts review_store = []" "outbox_events review_store = []"
  by (simp_all add: findVerificationBySubmission_def getSubmission_def getJob_def getBounty_def review_store_def
      review_attempt_def review_submission_def review_job_ids empty_db_def)

lemma review_attempt_fields:
  "vo_status (verificationFromRow review_attempt) = VerInProgress"
  "vo_claimToken (verificationFromRow review_attempt) = Some ''tok''"
  "vo_claimExpiresAt (verificationFromRow review_attempt) = Some 600"
  "so_jobId (submissionFromRow review_submission) = ''j1''" "jo_bountyId (jobFromRow review_job) = ''b1''"
  by (simp_all add: verificationFromRow_def submissionFromRow_def jobFromRow_def review_attempt_def review_submission_def
      review_job_ids)

lemma review_body_fields [simp]:
  "vb_claimToken (review_body w) = ''tok''" "vb_submissionId (review_body w) = ''s1''" "vb_attemptNo (review_body w) = 1"
  "vb_verdict (review_body w) = w"
  by (simp_all add: review_body_def)

lemma mock_pass:
  assumes v: "findVerificationBySubmission (vb_submissionId b) (vb_attemptNo b) s = Some v"
      "vo_claimToken v = Some (vb_claimToken b)" "vo_status v \<noteq> VerFinished"
      "case vo_claimExpiresAt v of None \<Rightarrow> True | Some t \<Rightarrow> now \<le> t" "vb_verdict b = Pass"
    and q: "getSubmission (vb_submissionId b) s = Some q" "so_dedupeKey q = None"
    and job: "getJob (so_jobId q) s = Some job"
    and bounty: "getBounty (jo_bountyId job) s = Some (bountyFromRow example_bounty)"
    and none: "payouts s = []" "orgs s = []"
  shows "\<exists>a s'. route_verdict mock_env M g now b s = (Ok a, s') \<and> payouts s' \<noteq> [] \<and> orgs s' = []"
proof -
  let ?s1 = "updateVerification (finish_verification b v) s" and ?sub = "judge_submission b q"
  let ?s2 = "recordReputation now (so_workerId ?sub) True (updateSubmission ?sub ?s1)"
  let ?j = "job\<lparr>jo_finalVerdict := Some Pass, jo_finalReason := so_finalReason ?sub,
      jo_finalQualityScore := Some (vb_qualityScore b), jo_status := JobDone, jo_doneAt := Some now\<rparr>"
  have g: "getSubmission (vb_submissionId b) ?s1 = Some q" "getJob (so_jobId q) ?s2 = Some job"
    "getBounty (jo_bountyId job) (updateJob ?j ?s2) = Some (bountyFromRow example_bounty)"
    using q(1) job(1) bounty by (simp_all add: getSubmission_def getJob_def getBounty_def)
  have sub: "so_jobId ?sub = so_jobId q" "so_dedupeKey ?sub = None" using q(2) by (simp_all add: judge_submission_def)
  let ?t = "updateJob ?j ?s2"
  have t: "payouts ?t = []" "orgs ?t = []"
    using none by (simp_all add: updateJob_def recordReputation_def updateSubmission_def updateVerification_def Let_def)
  have "org_fee x ?t = (0, None)" for x
    using t(2) by (simp add: org_fee_def sub_org_def org_row_def split: option.split)
  then obtain s2 where q2: "queue_payout mock_env (g 0) (g (Suc 0)) now ?sub (bountyFromRow example_bounty) ?t = Inr s2"
    "payouts s2 \<noteq> []" "orgs s2 = []"
    using t
    by (simp add: queue_payout_def addPayout_def mock_env_def computePayoutSplitCents_def bps_ok_def rat_int_def Let_def
          bountyFromRow_def example_bounty_def insert_do_update_def set_split_def new_payout_def)
  have "\<not> (case vo_claimExpiresAt v of None \<Rightarrow> False | Some t \<Rightarrow> t \<noteq> 0 \<and> t < now)" using v(4) by (auto split: option.splits)
  then have "\<exists>a. route_verdict mock_env M g now b s = (Ok a, markSubmissionArtifactsAccepted (so_id ?sub) s2)"
    using q2(1) g v sub
    by (simp add: route_verdict_def apply_verdict_def Let_def register_pass_def settle_job_def complete_job_def)
  with q2(2,3) show ?thesis by (auto simp: markSubmissionArtifactsAccepted_def)
qed

lemma review_pass:
  "\<exists>a s'. route_verdict mock_env (Fin 3) g 500 (review_body Pass) review_store = (Ok a, s') \<and>
     payouts s' \<noteq> payouts review_store \<and> orgs s' = []"
  using mock_pass [of "review_body Pass" review_store "verificationFromRow review_attempt" 500
      "submissionFromRow review_submission" "jobFromRow review_job" "Fin 3" g]
  by (simp add: review_lookups review_attempt_fields) (simp add: review_store_def review_submission_def
      submissionFromRow_def review_job_ids empty_db_def jobFromRow_def)
theorem payout_needs_valid_pass_witness:
  "\<exists>a s'. route_verdict mock_env (Fin 3) example_gen 500 (review_body Pass) review_store = (Ok a, s') \<and>
     payouts s' \<noteq> payouts review_store \<and>
     (\<exists>v. findVerificationBySubmission ''s1'' 1 review_store = Some v \<and> vo_claimToken v = Some ''tok'' \<and>
        vo_status v \<noteq> VerFinished)"
proof -
  obtain a s' where run: "route_verdict mock_env (Fin 3) example_gen 500 (review_body Pass) review_store = (Ok a, s')"
    and paid: "payouts s' \<noteq> payouts review_store" using review_pass [of example_gen] by blast
  from payout_needs_valid_pass [OF run disjI1 [OF paid]] run paid show ?thesis by auto
qed

theorem pass_pays_once_witness:
  "\<exists>a s' p. route_verdict mock_env (Fin 3) example_gen 500 (review_body Pass) review_store = (Ok a, s') \<and>
     filter (\<lambda>p. p_submission_id p = ''s1'') (payouts s') = [p] \<and>
     count_where (payout_event (p_id p)) (outbox_events s') = 1"
proof -
  obtain a s' where run: "route_verdict mock_env (Fin 3) example_gen 500 (review_body Pass) review_store = (Ok a, s')"
    using review_pass [of example_gen] by blast
  have v: "findVerificationBySubmission (vb_submissionId (review_body Pass)) (vb_attemptNo (review_body Pass)) review_store
      = Some (verificationFromRow review_attempt)" "vo_status (verificationFromRow review_attempt) \<noteq> VerFinished"
    by (simp_all add: review_lookups review_attempt_fields)
  have u: "outbox_unique (outbox_events review_store)"
    "count_where (\<lambda>p. p_submission_id p = vb_submissionId (review_body Pass)) (payouts review_store) \<le> 1"
    by (simp_all add: review_lookups outbox_unique_def count_where_def)
  from pass_pays_once [OF v run _ u] run show ?thesis by fastforce
qed

lemma review_inconclusive:
  "\<exists>a s'. route_verdict mock_env (Fin (of_int 3)) example_gen 500 (review_body Inconclusive) review_store = (Ok a, s') \<and>
     va_nextAttempt a \<noteq> None"
proof -
  let ?b = "review_body Inconclusive" and ?v = "verificationFromRow review_attempt" and ?q = "submissionFromRow review_submission"
  let ?s1 = "updateVerification (finish_verification ?b ?v) review_store"
  let ?sub = "judge_submission ?b ?q"
  let ?s2 = "recordReputation 500 (so_workerId ?sub) False (updateSubmission ?sub ?s1)"
  have g: "getSubmission ''s1'' ?s1 = Some ?q" "getJob ''j1'' ?s2 = Some (jobFromRow review_job)"
    using review_lookups by (simp_all add: getSubmission_def getJob_def)
  have sub: "so_jobId ?sub = ''j1''" "so_id ?sub = ''s1''"
    by (simp_all add: judge_submission_def submissionFromRow_def review_submission_def)
  have "max_attempt ''s1'' ?s2 = max_attempt ''s1'' review_store"
    using max_attempt_by_table [of ?s2 ?s1 "''s1''"] by simp
  then have m: "max_attempt ''s1'' ?s2 = 1"
    by (simp only:) (simp add: max_attempt_def review_store_def review_attempt_def)
  show ?thesis
    using g review_lookups(1) review_attempt_fields sub m
    by (simp add: route_verdict_def apply_verdict_def register_pass_def Let_def settle_job_def)
qed

theorem review_terminates_witness:
  "\<exists>t. reviewing 3 ''s1'' 1 review_store t \<and> 0 \<le> max_attempt ''s1'' review_store \<and>
     int 1 \<le> max 0 (3 - max_attempt ''s1'' review_store)"
proof -
  obtain a t k where run: "route_verdict mock_env (Fin (of_int 3)) example_gen 500 (review_body Inconclusive) review_store = (Ok a, t)"
    "va_nextAttempt a = Some k" using review_inconclusive by blast
  have "findVerificationBySubmission ''s1'' (vb_attemptNo (review_body Inconclusive)) review_store
      = Some (verificationFromRow review_attempt)" "vo_status (verificationFromRow review_attempt) \<noteq> VerFinished"
    by (simp_all add: review_lookups review_attempt_fields)
  from reviewing.requeued [OF reviewing.opened this _ _ run] have r: "reviewing 3 ''s1'' 1 review_store t" by simp
  have m: "0 \<le> max_attempt ''s1'' review_store"
    by (simp add: max_attempt_def review_store_def review_attempt_def)
  from r m review_terminates [OF r m] show ?thesis by blast
qed


end
