(* ===== verification/System.thy ===== *)
theory System
  imports Disputes VerificationSafety
begin

text \<open>
  The system as a whole: one step relation whose steps are the requests and the worker turns of the
  components that share the store, and what every sequence of them keeps. The books of the billing
  ledger refine an abstract bank, in which accounts are opened, credited, and debited only when
  covered.
\<close>

section \<open>Operations that leave the books alone\<close>

definition same_books :: "db \<Rightarrow> db \<Rightarrow> bool" where
  "same_books s s' \<longleftrightarrow> same_ledger s s' \<and> disputes s' = disputes s"

named_theorems books \<open>operations that leave the books alone\<close>

lemma same_books_refl [simp]: "same_books s s"
  by (simp add: same_books_def)

lemma same_books_trans: "same_books s t \<Longrightarrow> same_books t u \<Longrightarrow> same_books s u"
  by (auto simp: same_books_def intro: same_ledger_trans)

lemma books_rows [books]:
  "same_books s0 (updateJob j s) = same_books s0 s"
  "same_books s0 (updateSubmission q s) = same_books s0 s"
  "same_books s0 (updateVerification v s) = same_books s0 s"
  "same_books s0 (addVerification now v s) = same_books s0 s"
  "same_books s0 (addSubmission q s) = same_books s0 s"
  "same_books s0 (recordReputation now w ok s) = same_books s0 s"
  "same_books s0 (registerAcceptedDedupe now bid k s) = same_books s0 s"
  "same_books s0 (markSubmissionArtifactsAccepted sid s) = same_books s0 s"
  "same_books s0 (touchWorkerLastSeen w now s) = same_books s0 s"
  "same_books s0 (s\<lparr>jobs := js\<rparr>) = same_books s0 s"
  "same_books s0 (s\<lparr>artifacts := as\<rparr>) = same_books s0 s"
  "same_books s0 (s\<lparr>bounties := bs\<rparr>) = same_books s0 s"
  by (simp_all add: same_books_def same_ledger_def updateJob_def updateSubmission_def updateVerification_def
      addVerification_def addSubmission_def recordReputation_def registerAcceptedDedupe_def
      markSubmissionArtifactsAccepted_def touchWorkerLastSeen_def Let_def)

lemma books_writes [books]:
  "same_books s0 (enqueueOutbox rid now t pl av k s) = same_books s0 s"
  "same_books s0 (writeAuditEvent rid now a b c d e s) = same_books s0 s"
  "same_books s0 (admin_audit rid now c d e s) = same_books s0 s"
  "same_books s0 (request_verification oid vid now sid n s) = same_books s0 s"
  "same_books s0 (enqueue_verification oid now vid sid n s) = same_books s0 s"
  by (simp_all add: same_books_def same_ledger_def writeAuditEvent_def admin_audit_def request_verification_def
      enqueue_verification_def addVerification_def)

lemma books_attach:
  "attachSubmissionArtifacts pn sub jid wid refs s = (r, s') \<Longrightarrow> same_books s0 s' = same_books s0 s"
  using attach_frame [of pn sub jid wid refs s r s'] by (auto simp: books)

lemma books_respond [books]:
  "same_books s0 (snd (respondWithExistingSubmission job e s)) = same_books s0 s"
  by (simp add: respondWithExistingSubmission_def Let_def books)

lemma resume_books [books]:
  "same_books s0 (snd (resume_submission env vid oid now worker job e body s)) = same_books s0 s"
proof -
  obtain r t where t: "attachSubmissionArtifacts (su_pathname env) (so_id e) (jo_id job) (wo_id worker) (sb_artifacts body) s
      = (r, t)" by fastforce
  define u where "u = (case findVerificationBySubmission (so_id e) 1 t of
      None \<Rightarrow> request_verification oid vid now (so_id e) 1 t
    | Some v \<Rightarrow> if vo_status v = VerQueued then enqueue_verification oid now (vo_id v) (so_id e) 1 t else t)"
  have "same_books s0 u = same_books s0 s" by (auto simp: u_def books books_attach [OF t] split: option.split)
  then show ?thesis
    by (cases r) (simp_all add: resume_submission_def t u_def [symmetric] Let_def split_beta books books_attach [OF t])
qed

lemma create_books [books]:
  "same_books s0 (snd (create_submission env ids now worker job bounty key body s)) = same_books s0 s"
proof -
  obtain sid vid oid where i: "ids = (sid, vid, oid)" by (cases ids) auto
  let ?sub = "new_submission env sid now (jo_id job) (wo_id worker) key body (isAcceptedDuplicate (bo_id bounty) (dedupe_key env body) s)"
  obtain r t where t: "attachSubmissionArtifacts (su_pathname env) sid (jo_id job) (wo_id worker) (sb_artifacts body)
      (addSubmission ?sub s) = (r, t)" by fastforce
  then show ?thesis
    by (cases r) (simp_all add: create_submission_def i Let_def books books_attach [OF t])
qed

lemma submit_books: "same_books s (snd (route_submit env ids now worker jid key body s))"
  by (simp add: route_submit_def Let_def split_beta books split: option.split)

lemma claim_verification_books: "same_books s (snd (route_claim_verification env vid token now sid attempt who ttl s))"
proof -
  have "claim_verification vid token now sid attempt who ttl s = (v, s') \<Longrightarrow> same_books s s'" for v s'
    by (auto simp: claim_verification_def Let_def books split: option.split_asm if_split_asm)
  then show ?thesis by (auto simp: route_claim_verification_def split: option.split prod.split)
qed

lemma queue_payout_books: "queue_payout env pid oid now sub bounty s = Inr s' \<Longrightarrow> same_books s0 s' = same_books s0 s"
  by (auto simp: queue_payout_def addPayout_def Let_def books same_books_def same_ledger_def
      split: sum.split_asm option.split_asm prod.split_asm)

lemma settle_books [books]: "same_books s0 (snd (settle_job env m gen now vid b sub job s)) = same_books s0 s"
  by (auto simp: settle_job_def complete_job_def Let_def books queue_payout_books split: option.split sum.split)

lemma verdict_books: "same_books s (snd (route_verdict env m gen now b s))"
proof -
  have "register_pass now sub t = Inr u \<Longrightarrow> same_books s0 u = same_books s0 t" for sub t u s0
    by (auto simp: register_pass_def books split: if_split_asm option.split_asm)
  then have "same_books s (snd (apply_verdict env m gen now v b s))" for v
    by (auto simp: apply_verdict_def Let_def books split: option.split sum.split)
  then show ?thesis by (auto simp: route_verdict_def split: option.split)
qed

lemma override_books: "same_books s (snd (route_override_verdict env gen now sid choice quality s))"
  by (auto simp: route_override_verdict_def Let_def books queue_payout_books split: option.split sum.split)

lemma admin_books:
  "same_books s (snd (route_requeue_verification rid now vid s))"
  "same_books s (snd (route_mark_duplicate rid now sid s))"
  "same_books s (snd (route_ban rid now wid s))"
  "same_books s (snd (route_rate_limit_worker rid now wid d s))"
  by (auto simp: route_requeue_verification_def route_mark_duplicate_def Let_def books split: option.split)
    (auto simp: route_ban_def banWorker_def route_rate_limit_worker_def rateLimitWorker_def Let_def books
      same_books_def same_ledger_def admin_audit_def split: option.split jsnum.split prod.split)

lemma job_books:
  "same_books s (snd (route_next pu pr env now worker opts s))"
  "same_books s (snd (route_claim env nonce now worker jid s))"
  "same_books s (snd (route_release rid now worker jid nonce s))"
  "same_books s (snd (reapExpiredLeases now s))"
  by (auto simp: route_next_def Let_def books split: option.split prod.split)
    (auto simp: route_claim_def leaseJob_def route_release_def releaseJobLease_def reapExpiredLeases_def
      Let_def books split: option.split if_split_asm)

lemma createBounty_books: "createBounty pu pr env gen now inp s = Inr (b, s') \<Longrightarrow> same_books s s'"
  by (auto simp: createBounty_def Let_def books split: sum.split_asm)

lemma books_by_ledger: "same_ledger s t \<Longrightarrow> disputes t = disputes s \<Longrightarrow> same_books s t"
  by (simp add: same_books_def)

lemma requeue_all_disputes [simp]: "disputes (requeue_all gen i now wid ps s) = disputes s"
  by (induction gen i now wid ps s rule: requeue_all.induct) simp_all

lemma payout_books:
  "same_books s (snd (admin_payout_retry gen now pid s))"
  "same_books s (snd (admin_payout_mark gen now pid st pr ref reason s))"
  "same_books s (snd (worker_set_payout_address ga rc gen now wid ch ad sg s))"
  by (rule books_by_ledger [OF admin_payout_retry_frame] books_by_ledger [OF admin_payout_mark_frame]
      books_by_ledger [OF worker_set_payout_address_frame],
    simp add: admin_payout_retry_def admin_payout_mark_def worker_set_payout_address_def markPayoutStatus_def Let_def
      split: option.split)+

section \<open>The steps of the system\<close>

definition verification_runner_handler ::
    "pay_env \<Rightarrow> intake_env \<Rightarrow> jsnum \<Rightarrow> (string \<Rightarrow> nat \<Rightarrow> string) \<Rightarrow> string \<Rightarrow> (verifier_claim \<Rightarrow> string + gateway_answer) \<Rightarrow>
     delivery \<Rightarrow> delivery \<Rightarrow> int \<Rightarrow> handler" where
  "verification_runner_handler penv ienv maxAttempts gen who gateway d1 d2 delay evt now s =
     handleVerificationRequested penv ienv maxAttempts (gen (ev_id evt)) who gateway d1 d2 now (now + delay)
       (ev_payload evt) s"

inductive system_step :: "db \<Rightarrow> db \<Rightarrow> bool" where
  topup: "system_step s (snd (admin_topup gen now org amount s))"
| checkout: "system_step s (snd (topup_checkout gen now org k amount cc cs s))"
| webhook: "system_step s (snd (stripeWebhookRoute v now s))"
| new_bounty: "createBounty pu production env gen now inp s = Inr (b, s') \<Longrightarrow> system_step s s'"
| publish: "system_step s (snd (route_publish pu production gen now org k bid s))"
| set_status: "system_step s (snd (route_set_status gen now org k st act bid s))"
| next_job: "system_step s (snd (route_next pu production ienv now worker opts s))"
| claim_job: "system_step s (snd (route_claim ienv nonce now worker jid s))"
| release_job: "system_step s (snd (route_release rid now worker jid nonce s))"
| reap_leases: "system_step s (snd (reapExpiredLeases now s))"
| submit: "system_step s (snd (route_submit senv ids now worker jid key body s))"
| claim_review: "system_step s (snd (route_claim_verification ienv vid token now sid attempt who ttl s))"
| verdict_given: "system_step s (snd (route_verdict penv maxAttempts gen now vb s))"
| override: "system_step s (snd (route_override_verdict penv gen now sid choice quality s))"
| requeue_review: "system_step s (snd (route_requeue_verification rid now vid s))"
| mark_duplicate: "system_step s (snd (route_mark_duplicate rid now sid s))"
| retry_payout: "system_step s (snd (admin_payout_retry gen now pid s))"
| mark_payout: "system_step s (snd (admin_payout_mark gen now pid pst provider ref reason s))"
| payout_address: "system_step s (snd (worker_set_payout_address ga recover gen now wid chain address0 signature s))"
| open_dispute: "createDispute gen now org payoutId submissionId reason actor s = Inr (d, s') \<Longrightarrow> system_step s s'"
| cancel_dispute: "cancelDispute gen now org did actor s = Inr (d, s') \<Longrightarrow> system_step s s'"
| resolve_dispute: "system_step s (snd (admin_dispute_resolve gen now did refund notes s))"
| payout_turn: "system_step s (runOutboxTurn d sc timeout (payout_runner_handler penv gens) topics w l skip now clock s)"
| review_turn: "system_step s (runOutboxTurn d sc timeout
      (verification_runner_handler penv ienv maxAttempts gens who gateway d1 d2 delay) topics w l skip now clock s)"
| elsewhere: "same_books s s' \<Longrightarrow> system_step s s'"

inductive_cases system_stepE: "system_step s s'"

definition reachable :: "db \<Rightarrow> db \<Rightarrow> bool" where
  "reachable = system_step\<^sup>*\<^sup>*"

lemma reachable_induct [consumes 1, case_names start step]:
  assumes "reachable s t" and "P s" and "\<And>t u. reachable s t \<Longrightarrow> system_step t u \<Longrightarrow> P t \<Longrightarrow> P u"
  shows "P t"
  using assms unfolding reachable_def by (induction rule: rtranclp_induct) auto

lemma reachable_refl [simp]: "reachable s s"
  by (simp add: reachable_def)

lemma reachable_step: "system_step s t \<Longrightarrow> reachable t u \<Longrightarrow> reachable s u"
  unfolding reachable_def by (rule converse_rtranclp_into_rtranclp)

lemmas quiet_operations = submit_books claim_verification_books verdict_books override_books admin_books job_books
  payout_books createBounty_books

lemma review_runner_books: "same_books s (snd (verification_runner_handler penv ienv m gen who g d1 d2 delay evt now s))"
proof -
  have claim: "api_call d (route_claim_verification ienv v k n sid a w ttl) what s = (r, t) \<Longrightarrow> same_books s t"
    for d v k n sid a w ttl what r t
    using claim_verification_books [of s ienv v k n sid a w ttl]
    by (auto simp: api_call_def split: delivery.split_asm prod.split_asm response.split_asm)
  have verdict: "api_call d (route_verdict penv m gn n b) what u = (r, t) \<Longrightarrow> same_books u t" for d gn n b what u r t
    using verdict_books [of u penv m gn n b]
    by (auto simp: api_call_def split: delivery.split_asm prod.split_asm response.split_asm)
  show ?thesis
    by (auto simp: verification_runner_handler_def handleVerificationRequested_def dest: claim
        split: outbox_payload.split sum.split prod.split)
      (rule same_books_trans, erule claim, erule verdict)+
qed

section \<open>Laws of the system\<close>

text \<open>A law that every operation that touches the ledger or the disputes keeps. The other operations
  keep it because they leave both alone.\<close>

locale system_law =
  fixes I :: "db \<Rightarrow> bool"
  assumes law_quiet: "I s \<Longrightarrow> same_books s s' \<Longrightarrow> I s'"
    and law_topup: "I s \<Longrightarrow> I (snd (admin_topup gen now org amount s))"
    and law_checkout: "I s \<Longrightarrow> I (snd (topup_checkout gen now org k cents cc cs s))"
    and law_webhook: "I s \<Longrightarrow> I (snd (stripeWebhookRoute v now s))"
    and law_publish: "I s \<Longrightarrow> I (snd (route_publish pu production gen now org k bid s))"
    and law_set_status: "I s \<Longrightarrow> I (snd (route_set_status gen now org k st act bid s))"
    and law_open: "I s \<Longrightarrow> createDispute gen now org pid sid reason actor s = Inr (d, s') \<Longrightarrow> I s'"
    and law_cancel: "I s \<Longrightarrow> cancelDispute gen now org did actor s = Inr (d, s') \<Longrightarrow> I s'"
    and law_resolve: "I s \<Longrightarrow> I (snd (admin_dispute_resolve gen now did refund ns s))"
    and law_payout: "I s \<Longrightarrow> I (snd (payout_runner_handler penv gens evt now s))"
begin

lemma law_outbox: "I (s\<lparr>outbox_events := t\<rparr>) = I s"
proof
  assume "I (s\<lparr>outbox_events := t\<rparr>)" then show "I s" by (rule law_quiet) (simp add: same_books_def same_ledger_def)
next
  assume "I s" then show "I (s\<lparr>outbox_events := t\<rparr>)" by (rule law_quiet) (simp add: same_books_def same_ledger_def)
qed

end

sublocale system_law \<subseteq> payout_turns: outbox_consumer "payout_runner_handler env gens" I for env gens
  by unfold_locales (rule law_payout law_outbox; assumption?)+

sublocale system_law \<subseteq> review_turns: outbox_consumer
    "verification_runner_handler penv ienv m gens who g d1 d2 delay" I for penv ienv m gens who g d1 d2 delay
  by unfold_locales (erule law_quiet [OF _ review_runner_books], rule law_outbox)

context system_law
begin

lemmas quiet_laws = quiet_operations [THEN law_quiet [rotated]]

lemmas moving_laws = law_topup law_checkout law_webhook law_publish law_set_status law_open law_cancel law_resolve

lemma step_law: "system_step s s' \<Longrightarrow> I s \<Longrightarrow> I s'"
  by (induction rule: system_step.induct)
    (rule moving_laws quiet_laws payout_turns.turn_inv review_turns.turn_inv law_quiet; assumption)+

lemma reachable_law: "reachable s t \<Longrightarrow> I s \<Longrightarrow> I t"
  by (induction rule: reachable_induct) (auto dest: step_law)

end

sublocale ledger_state \<subseteq> system_law I
proof unfold_locales
  fix s s' :: db
  assume "I s" "same_books s s'"
  then show "I s'" unfolding same_books_def by (blast intro: I_frame)
qed (auto intro: admin_topup_I topup_checkout_I stripeWebhookRoute_I route_publish_I route_set_status_I
    createDispute_I cancelDispute_I admin_dispute_resolve_I payout_runner_I)

section \<open>The abstract bank\<close>

record bank =
  bk_balance :: "string \<Rightarrow> int option"
  bk_journal :: "(string \<times> int) list"

definition post :: "string \<Rightarrow> int \<Rightarrow> bank \<Rightarrow> bank" where
  "post a k b = \<lparr> bk_balance = (bk_balance b)(a := map_option (\<lambda>n. n + k) (bk_balance b a)),
     bk_journal = bk_journal b @ [(a, k)] \<rparr>"

inductive bank_step :: "bank \<Rightarrow> bank \<Rightarrow> bool" where
  opened: "bk_balance b a = None \<Longrightarrow> bank_step b (b\<lparr>bk_balance := (bk_balance b)(a \<mapsto> 0)\<rparr>)"
| credited: "bk_balance b a = Some n \<Longrightarrow> 0 \<le> k \<Longrightarrow> bank_step b (post a k b)"
| debited: "bk_balance b a = Some n \<Longrightarrow> 0 \<le> k \<Longrightarrow> k \<le> n \<Longrightarrow> bank_step b (post a (- k) b)"

inductive_cases bank_stepE: "bank_step b b'"

text \<open>What the store says of the bank.\<close>

definition books_of :: "db \<Rightarrow> bank" where
  "books_of s = \<lparr> bk_balance = map_of (map (\<lambda>a. (ba_id a, ba_balance_cents a)) (billing_accounts s)),
     bk_journal = map (\<lambda>e. (be_account_id e, be_amount_cents e)) (billing_events s) \<rparr>"

lemma balance_lookup:
  assumes "accounts_ok t" and "a \<in> set t"
  shows "map_of (map (\<lambda>a. (ba_id a, ba_balance_cents a)) t) (ba_id a) = Some (ba_balance_cents a)"
proof -
  have "distinct (map ba_id t)"
    using assms(1) by (auto simp: accounts_ok_def distinct_map inj_on_def)
  then show ?thesis using assms(2) by (intro map_of_is_SomeI) (auto simp: comp_def)
qed

lemma balance_update:
  assumes "\<And>a. a \<in> set t \<Longrightarrow> P a \<longleftrightarrow> ba_id a = aid"
    and f: "\<And>a. ba_id (f a) = ba_id a" "\<And>a. ba_balance_cents (f a) = ba_balance_cents a + k"
  shows "map_of (map (\<lambda>a. (ba_id a, ba_balance_cents a)) (update_where P f t)) =
    (map_of (map (\<lambda>a. (ba_id a, ba_balance_cents a)) t))
      (aid := map_option (\<lambda>n. n + k) (map_of (map (\<lambda>a. (ba_id a, ba_balance_cents a)) t) aid))"
  using assms(1)
proof (induction t)
  case (Cons a t)
  let ?m = "\<lambda>t. map_of (map (\<lambda>a. (ba_id a, ba_balance_cents a)) t)"
  have ih: "?m (update_where P f t) = (?m t)(aid := map_option (\<lambda>n. n + k) (?m t aid))"
    by (rule Cons.IH, rule Cons.prems) simp
  show ?case
    using Cons.prems [of a] by (cases "P a") (auto simp: ih f fun_eq_iff)
qed simp

lemma books_post:
  assumes "accounts_ok (billing_accounts s)" and "post_entry e now s = Inr s'"
  shows "books_of s' = post (be_account_id e) (be_amount_cents e) (books_of s) \<and>
    bk_balance (books_of s) (be_account_id e) \<noteq> None \<and> accounts_ok (billing_accounts s')"
  using assms(2)
proof (rule post_entry_Inr)
  fix a0
  assume a0: "a0 \<in> set (billing_accounts s)" "ba_id a0 = be_account_id e"
    and s': "s' = s\<lparr>billing_accounts := update_where (\<lambda>a. ba_id a = be_account_id e)
                 (\<lambda>a. a\<lparr>ba_balance_cents := ba_balance_cents a + be_amount_cents e,
                        ba_updated_at := now\<rparr>) (billing_accounts s),
               billing_events := billing_events s @ [e]\<rparr>"
  show ?thesis
    using balance_lookup [OF assms(1) a0(1)] a0(2) assms(1)
    by (simp add: s' books_of_def post_def accounts_ok_update balance_update [where k = "be_amount_cents e"])
qed

lemma books_debit:
  assumes "accounts_ok (billing_accounts s)" and "debit_entry eid aid n meta now s = Inr s'"
  shows "books_of s' = post aid (- n) (books_of s) \<and>
    (\<exists>m. bk_balance (books_of s) aid = Some m \<and> n \<le> m) \<and> accounts_ok (billing_accounts s')"
  using assms(2)
proof (rule debit_entry_Inr)
  fix a0
  assume a0: "a0 \<in> set (billing_accounts s)" "ba_id a0 = aid" "n \<le> ba_balance_cents a0"
    and s': "s' = s\<lparr>billing_accounts := update_where (\<lambda>a. ba_id a = aid \<and> n \<le> ba_balance_cents a)
                 (\<lambda>a. a\<lparr>ba_balance_cents := ba_balance_cents a - n, ba_updated_at := now\<rparr>)
                 (billing_accounts s),
               billing_events := billing_events s @ [new_event eid aid BountyBudgetReserve (- n) meta now]\<rparr>"
  have "n \<le> ba_balance_cents a" if "a \<in> set (billing_accounts s)" "ba_id a = aid" for a
    using accounts_ok_unique [OF assms(1) that(1) a0(1)] that a0 by simp
  then have "map_of (map (\<lambda>a. (ba_id a, ba_balance_cents a)) (billing_accounts s')) =
    (map_of (map (\<lambda>a. (ba_id a, ba_balance_cents a)) (billing_accounts s)))
      (aid := map_option (\<lambda>m. m + - n) (map_of (map (\<lambda>a. (ba_id a, ba_balance_cents a)) (billing_accounts s)) aid))"
    unfolding s' by (simp del: add_uminus_conv_diff, intro balance_update) auto
  moreover have "billing_events s' = billing_events s @ [new_event eid aid BountyBudgetReserve (- n) meta now]"
    "accounts_ok (billing_accounts s')" using assms(1) by (simp_all add: s' accounts_ok_update)
  ultimately show ?thesis
    using balance_lookup [OF assms(1) a0(1)] a0 by (simp add: books_of_def post_def new_event_def)
qed

lemma books_account:
  assumes "accounts_ok (billing_accounts s)"
  shows "(books_of (snd (getOrCreateAccount org now s)) = books_of s \<or>
      bank_step (books_of s) (books_of (snd (getOrCreateAccount org now s)))) \<and>
    accounts_ok (billing_accounts (snd (getOrCreateAccount org now s)))"
proof (cases "account_of org s")
  case None
  then have new: "\<And>a. a \<in> set (billing_accounts s) \<Longrightarrow> ba_org_id a \<noteq> org"
    by (auto simp: account_of_def find_None)
  then have "acct_id org \<notin> ba_id ` set (billing_accounts s)"
    using assms unfolding accounts_ok_def by (metis acct_id_inj image_iff)
  then have "bk_balance (books_of s) (acct_id org) = None"
    by (auto simp: books_of_def map_of_eq_None_iff)
  moreover have "books_of (snd (getOrCreateAccount org now s)) =
      (books_of s)\<lparr>bk_balance := (bk_balance (books_of s))(acct_id org \<mapsto> 0)\<rparr>"
    using \<open>acct_id org \<notin> _\<close> None
    by (auto simp: getOrCreateAccount_def books_of_def new_account_def map_of_append map_add_def fun_eq_iff
        split: option.split dest!: map_of_SomeD)
  ultimately show ?thesis
    using new None assms by (simp add: bank_step.opened getOrCreateAccount_def accounts_ok_append)
qed (simp add: getOrCreateAccount_def assms)

text \<open>Whatever the operations do to the books, an abstract bank could have done.\<close>

interpretation bank: ledger_state "\<lambda>s. accounts_ok (billing_accounts s) \<and> bank_step\<^sup>*\<^sup>* b (books_of s)" for b
proof unfold_locales
  fix s s' :: db
  assume "accounts_ok (billing_accounts s) \<and> bank_step\<^sup>*\<^sup>* b (books_of s)" "same_ledger s s'"
  then show "accounts_ok (billing_accounts s') \<and> bank_step\<^sup>*\<^sup>* b (books_of s')"
    by (simp add: same_ledger_def books_of_def)
next
  fix s org now
  assume "accounts_ok (billing_accounts s) \<and> bank_step\<^sup>*\<^sup>* b (books_of s)"
  then show "accounts_ok (billing_accounts (snd (getOrCreateAccount org now s))) \<and>
      bank_step\<^sup>*\<^sup>* b (books_of (snd (getOrCreateAccount org now s)))"
    using books_account by (metis rtranclp.rtrancl_into_rtrancl)
next
  fix s s' e now
  assume "accounts_ok (billing_accounts s) \<and> bank_step\<^sup>*\<^sup>* b (books_of s)" "0 \<le> be_amount_cents e" "post_entry e now s = Inr s'"
  then show "accounts_ok (billing_accounts s') \<and> bank_step\<^sup>*\<^sup>* b (books_of s')"
    using books_post [of s e now s'] by (auto intro: rtranclp.rtrancl_into_rtrancl bank_step.credited)
next
  fix s s' eid aid n meta now
  assume "accounts_ok (billing_accounts s) \<and> bank_step\<^sup>*\<^sup>* b (books_of s)" "0 \<le> n" "debit_entry eid aid n meta now s = Inr s'"
  then show "accounts_ok (billing_accounts s') \<and> bank_step\<^sup>*\<^sup>* b (books_of s')"
    using books_debit [of s eid aid n meta now s'] by (auto intro: rtranclp.rtrancl_into_rtrancl bank_step.debited)
qed

section \<open>Types of the ledger\<close>

text \<open>An account per organisation under its derived id, balances that are non-negative and fit the
  \<open>INTEGER\<close> column, entries that fit it and belong to an account.\<close>

definition ledger_typed :: "db \<Rightarrow> bool" where
  "ledger_typed s \<longleftrightarrow> accounts_ok (billing_accounts s) \<and>
     (\<forall>a\<in>set (billing_accounts s). 0 \<le> ba_balance_cents a \<and> int4 (ba_balance_cents a)) \<and>
     (\<forall>e\<in>set (billing_events s). be_account_id e \<in> ba_id ` set (billing_accounts s) \<and> int4 (be_amount_cents e))"

lemma ids_update_where:
  "(\<And>a. ba_id (f a) = ba_id a) \<Longrightarrow> ba_id ` set (update_where P f t) = ba_id ` set t"
  by (metis list.set_map map_update_where)

lemma typed_post:
  assumes ok: "ledger_typed s" and pos: "0 \<le> be_amount_cents e" and run: "post_entry e now s = Inr s'"
  shows "ledger_typed s'"
  using run
proof (rule post_entry_Inr)
  let ?f = "\<lambda>a. a\<lparr>ba_balance_cents := ba_balance_cents a + be_amount_cents e, ba_updated_at := now\<rparr>"
  let ?t = "update_where (\<lambda>a. ba_id a = be_account_id e) ?f (billing_accounts s)"
  fix a0
  assume a0: "a0 \<in> set (billing_accounts s)" "ba_id a0 = be_account_id e"
    and s': "s' = s\<lparr>billing_accounts := ?t, billing_events := billing_events s @ [e]\<rparr>"
  have fits: "int4 (ba_balance_cents a + be_amount_cents e)"
    if "a \<in> set (billing_accounts s)" "ba_id a = be_account_id e" for a
    using run that by (auto simp: post_entry_def change_balance_def list_ex_iff split: if_split_asm)
  have "int4 (be_amount_cents e)"
    using fits [OF a0] ok a0(1) pos by (auto simp: int4_def ledger_typed_def)
  moreover have "0 \<le> ba_balance_cents a \<and> int4 (ba_balance_cents a)" if "a \<in> set ?t" for a
    using that ok pos fits by (auto simp: ledger_typed_def in_set_update_where)
  moreover have "be_account_id e \<in> ba_id ` set (billing_accounts s)" using a0 by (metis image_eqI)
  ultimately show ?thesis
    using ok by (auto simp: s' ledger_typed_def accounts_ok_update ids_update_where)
qed

lemma typed_debit:
  assumes ok: "ledger_typed s" and pos: "0 \<le> n" and run: "debit_entry eid aid n meta now s = Inr s'"
  shows "ledger_typed s'"
  using run
proof (rule debit_entry_Inr)
  let ?f = "\<lambda>a. a\<lparr>ba_balance_cents := ba_balance_cents a - n, ba_updated_at := now\<rparr>"
  let ?t = "update_where (\<lambda>a. ba_id a = aid \<and> n \<le> ba_balance_cents a) ?f (billing_accounts s)"
  let ?e = "new_event eid aid BountyBudgetReserve (- n) meta now"
  fix a0
  assume a0: "a0 \<in> set (billing_accounts s)" "ba_id a0 = aid" "n \<le> ba_balance_cents a0"
    and s': "s' = s\<lparr>billing_accounts := ?t, billing_events := billing_events s @ [?e]\<rparr>"
  have "int4 (be_amount_cents ?e)"
    using ok a0 pos by (auto simp: int4_def ledger_typed_def new_event_def)
  moreover have "0 \<le> ba_balance_cents a \<and> int4 (ba_balance_cents a)" if "a \<in> set ?t" for a
    using that ok pos by (fastforce simp: ledger_typed_def int4_def in_set_update_where)
  moreover have "be_account_id ?e \<in> ba_id ` set (billing_accounts s)" using a0 by (auto simp: new_event_def)
  ultimately show ?thesis
    using ok by (auto simp: s' ledger_typed_def accounts_ok_update ids_update_where)
qed

interpretation typed: ledger_state ledger_typed
proof unfold_locales
  fix s s' :: db
  assume "ledger_typed s" "same_ledger s s'"
  then show "ledger_typed s'" by (simp add: ledger_typed_def same_ledger_def)
next
  fix s org now
  assume ok: "ledger_typed s"
  then have "accounts_ok (billing_accounts (snd (getOrCreateAccount org now s)))"
    using books_account [of s org now] by (simp add: ledger_typed_def)
  with ok show "ledger_typed (snd (getOrCreateAccount org now s))"
    by (auto simp: ledger_typed_def getOrCreateAccount_def new_account_def int4_def split: option.splits)
qed (fact typed_post typed_debit)+

section \<open>Disputes in the system\<close>

lemma account_disputes [simp]:
  "disputes (snd (getOrCreateAccount org now s)) = disputes s" "disputes (ensureAccount org now s) = disputes s"
  by (simp_all add: getOrCreateAccount_def ensureAccount_def split: option.split)

lemma entry_disputes:
  "post_entry e now s = Inr s' \<Longrightarrow> disputes s' = disputes s"
  "debit_entry eid aid n meta now s = Inr s' \<Longrightarrow> disputes s' = disputes s"
  by (auto elim!: post_entry_Inr debit_entry_Inr)

lemma stripe_disputes [simp]: "disputes (snd (stripeWebhookRoute v now s)) = disputes s"
proof -
  have "stripe_credit evt sess now s = Inr t \<Longrightarrow> disputes t = disputes s" for evt sess s t
    by (auto simp: stripe_credit_def Let_def entry_disputes split: if_split_asm option.split_asm)
  then have "stripe_process evt now s = Inr t \<Longrightarrow> disputes t = disputes s" for evt s t
    by (auto simp: stripe_process_def set_webhook_status_def Let_def
        split: if_split_asm option.split_asm sum.split_asm)
  then have "disputes (snd (stripeWebhook evt now s)) = disputes s" for evt
    by (fastforce simp: stripeWebhook_def set_webhook_status_def Let_def split: sum.split)
  then show ?thesis by (simp add: stripeWebhookRoute_def split: sum.split)
qed

lemma admin_topup_disputes [simp]: "disputes (snd (admin_topup gen now org amount s)) = disputes s"
  by (simp add: admin_topup_def Let_def entry_disputes split: option.split sum.split)

lemma checkout_disputes [simp]: "disputes (snd (topup_checkout gen now org k cents cc cs s)) = disputes s"
proof -
  have 1: "checkout_customer gen now org cc t = Inr (c, u) \<Longrightarrow> disputes u = disputes t" for t c u
    by (auto simp: checkout_customer_def save_customer_def split: option.split_asm sum.split_asm)
  have 2: "checkout_session gen now org cc f c t = (r, u) \<Longrightarrow> disputes u = disputes t" for f c t r u
    by (auto simp: checkout_session_def save_customer_def split: sum.split_asm if_split_asm)
  show ?thesis
    by (simp add: topup_checkout_def Let_def split: option.split sum.split prod.split) (auto dest!: 1 2)
qed

lemma bounty_disputes [simp]:
  "disputes (snd (route_publish pu production gen now org k bid s)) = disputes s"
  "disputes (snd (route_set_status gen now org k st act bid s)) = disputes s"
proof -
  have "reserveBudget gen now b aid t = Inr u \<Longrightarrow> disputes u = disputes t" for b aid t u
    using reserveBudget_cases [of gen now b aid t u] by (auto dest: entry_disputes)
  moreover have "generateJobs gen now b t = Inr u \<Longrightarrow> disputes u = disputes t" for b t u
    using generateJobs_cases [of gen now b t u] by auto
  moreover have "disputes t = disputes s" if "getOrCreateAccount org now s = (acct, t)" for org acct t
    using that account_disputes(1) [of org now s] by simp
  ultimately have "publishBounty gen now bid s = Inr (b, t) \<Longrightarrow> disputes t = disputes s" for b t
    by (fastforce simp: publishBounty_def Let_def set_bounty_def split: option.split_asm prod.split_asm sum.split_asm)
  then show "disputes (snd (route_publish pu production gen now org k bid s)) = disputes s"
    by (auto simp: route_publish_def Let_def split: option.split sum.split prod.split)
  have "releaseBudget gen now bid res t = Inr u \<Longrightarrow> disputes u = disputes t" for res t u
    by (auto simp: releaseBudget_def dest: entry_disputes split: sum.split_asm if_split_asm)
  then have "setBountyStatus gen now bid st s = Inr (r, t) \<Longrightarrow> disputes t = disputes s" for r t
    by (fastforce simp: setBountyStatus_def Let_def set_bounty_def split: option.split_asm if_split_asm sum.split_asm)
  then show "disputes (snd (route_set_status gen now org k st act bid s)) = disputes s"
    by (auto simp: route_set_status_def split: option.split sum.split prod.split)
qed

lemma one_open_by_table: "disputes t = disputes s \<Longrightarrow> one_open s \<Longrightarrow> one_open t"
  by (simp add: one_open_def)

interpretation open_disputes: system_law one_open
proof unfold_locales
  fix s s' :: db
  assume "one_open s" "same_books s s'"
  then show "one_open s'" by (simp add: same_books_def one_open_def)
next
  fix s gen now did refund ns
  assume "one_open s"
  then show "one_open (snd (admin_dispute_resolve gen now did refund ns s))"
    by (auto simp: admin_dispute_resolve_def dest: one_open_resolve split: sum.split)
next
  fix s penv gens evt now
  assume "one_open s"
  from at_most_one_open_dispute [OF this] show "one_open (snd (payout_runner_handler penv gens evt now s))" by blast
qed (erule one_open_by_table [rotated], rule admin_topup_disputes checkout_disputes stripe_disputes bounty_disputes
    | erule (1) one_open_create | erule (1) one_open_cancel)+

end
