(* ===== verification/Pipeline.thy ===== *)
theory Pipeline
  imports System
begin

text \<open>
  The way of accepted work to its money, across the verification routes, the outbox and the payout
  runner.
\<close>

lemma addPayout_fresh:
  assumes run: "addPayout env pid now sid wid n s = Inr (x, s')"
    and fresh: "filter (\<lambda>p. p_submission_id p = sid) (payouts s) = []"
  obtains p sp pw k where "x = Some p" and "s' = s\<lparr>payouts := payouts s @ [p]\<rparr>" and "p_id p = pid"
    and "p_submission_id p = sid" and "p_worker_id p = wid" and "p_amount_cents p = n" and "p_status p = PayoutPending"
    and "p_blocked_reason p = None" and "p_hold_until p = hold_of sid now s" and "pe_fee_bps env = Inr pw"
    and "rat_int pw = Inr k" and "computePayoutSplitCents n (of_int (fst (org_fee sid s))) pw = Inr sp"
proof -
  obtain bps wallet where f: "org_fee sid s = (bps, wallet)" by fastforce
  from run f obtain sp pw k where e: "pe_fee_bps env = Inr pw" "rat_int pw = Inr k"
      "computePayoutSplitCents n (of_int bps) pw = Inr sp"
    by (auto simp: addPayout_def Let_def split: sum.split_asm)
  let ?p = "(set_split sp bps wallet k (pe_fee_wallet env) now (new_payout pid sid wid n now))\<lparr>p_hold_until := hold_of sid now s\<rparr>"
  have none: "\<not> list_ex (\<lambda>p. p_submission_id p = sid) (payouts s)"
    using fresh by (auto simp: list_ex_iff filter_empty_conv)
  then have "find (\<lambda>p. p_submission_id p = sid) (payouts s) = None" by (auto simp: find_None list_ex_iff)
  with run e f none have "x = Some ?p" "s' = s\<lparr>payouts := payouts s @ [?p]\<rparr>"
    by (auto simp: addPayout_def Let_def insert_do_update_def find_append set_split_def new_payout_def)
  then show thesis
    by (rule that [OF _ _ _ _ _ _ _ _ _ e(1,2)]) (simp_all add: set_split_def new_payout_def e f)
qed

text \<open>A due payout of the mock provider is paid when its event is handled.\<close>

lemma due_payout_paid:
  assumes p: "payout_row pid s = Some p" and "pid \<noteq> []" and due: "\<not> payout_parked now p"
    and fee: "pe_fee_bps env = Inr pw" "rat_int pw = Inr k"
      "computePayoutSplitCents (p_amount_cents p) (of_int (fst (org_fee (p_submission_id p) s))) pw = Inr sp"
    and wallet: "fst (org_fee (p_submission_id p) s) = 0 \<or> truthy (snd (org_fee (p_submission_id p) s))"
    and mock: "pe_provider env = ''mock''"
  obtains s' q where "handlePayoutRequested env gen now pid s = ((None, [ProviderCall pid (netCents sp) (p_worker_id p)]), s')"
    and "payout_row pid s' = Some q" and "p_status q = PayoutPaid"
proof -
  have id: "p_id p = pid" using p by (auto simp: payout_row_def dest: find_SomeD)
  obtain bps w where f: "org_fee (p_submission_id p) s = (bps, w)" by fastforce
  have "bps_ok (of_int bps)" using fee(3) computePayoutSplitCents_Inr(5) f by simp
  then have range: "\<not> (bps < 0 \<or> 10000 < bps)" by (simp add: bps_ok_def)
  have pays: "0 < bps \<longrightarrow> truthy w" using wallet f by auto
  let ?t = "markPayoutStatus now pid PayoutPaid (Some (Some ''mock'')) (Some (Some (''mock_'' @ pid)))
      (update_payout pid (set_split sp bps w k (pe_fee_wallet env) now) s)"
  have run: "handlePayoutRequested env gen now pid s = ((None, [ProviderCall pid (netCents sp) (p_worker_id p)]), ?t)"
    using assms range pays
    by (simp add: handlePayoutRequested_def getPayout_def f id is_crypto_def payByProvider_def getPaymentProvider_def
        createProviderPayout_def)
  obtain q where q: "payout_row pid ?t = Some q" "p_status q = PayoutPaid"
    using p by (auto simp: payout_row_def markPayoutStatus_def update_payout_def find_update_where set_split_def
        dest: find_SomeD)
  show thesis by (rule that [OF run q])
qed

lemma pass_run:
  assumes v: "findVerificationBySubmission (vb_submissionId b) (vb_attemptNo b) s = Some v" "vo_status v \<noteq> VerFinished"
    and run: "route_verdict env maxAttempts gen now b s = (Ok a, s')" and pass: "vb_verdict b = Pass"
  obtains sub job bounty t s2 where "getSubmission (vb_submissionId b) s = Some sub" and "getJob (so_jobId sub) s = Some job"
    and "getBounty (jo_bountyId job) s = Some bounty" and "payouts t = payouts s"
    and "queue_payout env (gen 0) (gen 1) now (judge_submission b sub) bounty t = Inr s2"
    and "s' = markSubmissionArtifactsAccepted (vb_submissionId b) s2" and "so_id sub = vb_submissionId b"
proof -
  note r = route_verdict_run [OF v run]
  from apply_verdict_run [OF r(2)] obtain sub job s3 where sub: "getSubmission (vb_submissionId b) s = Some sub"
    and job: "getJob (so_jobId sub) s = Some job"
    and settle: "settle_job env maxAttempts gen now (vo_id v) b (judge_submission b sub) job s3 = (Ok a, s')"
    and s3: "bounties s3 = bounties s" "payouts s3 = payouts s"
    by (auto simp: judge_submission_def)
  have sid: "so_id sub = vb_submissionId b"
    using sub by (auto simp: getSubmission_def submissionFromRow_def dest: find_SomeD)
  have gb: "getBounty i (updateJob j s3) = getBounty i s" for i j
    by (rule getters_by_table) (simp add: s3)
  have js: "so_id (judge_submission b sub) = vb_submissionId b" by (simp add: judge_submission_def sid)
  from settle pass obtain bounty j s2 where bounty: "getBounty (jo_bountyId job) s = Some bounty"
    and q: "queue_payout env (gen 0) (gen 1) now (judge_submission b sub) bounty (updateJob j s3) = Inr s2"
    and s': "s' = markSubmissionArtifactsAccepted (vb_submissionId b) s2"
    by (auto simp: settle_job_def complete_job_def Let_def gb js split: option.split_asm sum.split_asm)
  show thesis by (rule that [OF sub job bounty _ q s' sid]) (simp add: s3)
qed



end
