(* ===== verification/Json.thy ===== *)
theory Json
  imports Encoding
begin

text \<open>
  JSON values as the JavaScript runtime treats them: property access, the conversions
  \<open>String(x)\<close>, \<open>Number(x)\<close> and \<open>Boolean(x)\<close>, \<open>JSON.stringify\<close> and the text of numbers. An access
  to a missing property is \<open>None\<close>, the value \<open>undefined\<close>. Strings are lists of bytes, so the
  length of a serialisation is \<open>Buffer.byteLength\<close>. The decimal text of a number
  other than the exact integers is the runtime's: the parameter \<open>frac_text\<close>. Keys of an object are
  distinct, in the order of the text.
\<close>

section \<open>Property access\<close>

text \<open>\<open>x?.k\<close>: undefined unless the value is an object that has the property.\<close>

definition jget :: "string \<Rightarrow> json option \<Rightarrow> json option" where
  "jget k x = (case x of Some (JObj fs) \<Rightarrow> map_of fs k | _ \<Rightarrow> None)"

text \<open>\<open>x ?? y\<close>\<close>

definition nullish :: "json option \<Rightarrow> bool" where
  "nullish x \<longleftrightarrow> x = None \<or> x = Some JNull"

definition coalesce :: "json option \<Rightarrow> json option \<Rightarrow> json option" where
  "coalesce x y = (if nullish x then y else x)"

text \<open>\<open>x \<and>\<and> typeof x === 'object'\<close>; arrays are objects.\<close>

definition is_object :: "json option \<Rightarrow> bool" where
  "is_object x = (case x of Some (JObj _) \<Rightarrow> True | Some (JArr _) \<Rightarrow> True | _ \<Rightarrow> False)"

definition jarray :: "json option \<Rightarrow> json list option" where
  "jarray x = (case x of Some (JArr xs) \<Rightarrow> Some xs | _ \<Rightarrow> None)"

definition jstr :: "json option \<Rightarrow> string option" where
  "jstr x = (case x of Some (JStr s) \<Rightarrow> Some s | _ \<Rightarrow> None)"

text \<open>\<open>Boolean(x)\<close>\<close>

fun json_truthy :: "json option \<Rightarrow> bool" where
  "json_truthy None = False"
| "json_truthy (Some JNull) = False"
| "json_truthy (Some (JBool b)) = b"
| "json_truthy (Some (JNum x)) = (x \<noteq> NaN \<and> x \<noteq> Fin 0)"
| "json_truthy (Some (JStr s)) = (s \<noteq> [])"
| "json_truthy (Some _) = True"

text \<open>\<open>{ ...x, k: v }\<close>: the property keeps its place when it exists.\<close>

definition obj_fields :: "json option \<Rightarrow> (string \<times> json) list" where
  "obj_fields x = (case x of Some (JObj fs) \<Rightarrow> fs | _ \<Rightarrow> [])"

fun set_field :: "string \<Rightarrow> json \<Rightarrow> (string \<times> json) list \<Rightarrow> (string \<times> json) list" where
  "set_field k v [] = [(k, v)]"
| "set_field k v ((k', v') # fs) = (if k' = k then (k, v) # fs else (k', v') # set_field k v fs)"

lemma map_of_set_field [simp]: "map_of (set_field k v fs) = (map_of fs)(k \<mapsto> v)"
  by (induction fs) auto

section \<open>Text of values\<close>

definition number_text :: "(rat \<Rightarrow> string) \<Rightarrow> jsnum \<Rightarrow> string" where
  "number_text frac_text x =
     (case x of
        NaN \<Rightarrow> ''NaN''
      | Infinity pos \<Rightarrow> if pos then ''Infinity'' else ''-Infinity''
      | Fin q \<Rightarrow> if q = of_int \<lfloor>q\<rfloor> \<and> \<bar>q\<bar> \<le> 2 ^ 53 then show_int \<lfloor>q\<rfloor> else frac_text q)"

definition join :: "string \<Rightarrow> string list \<Rightarrow> string" where
  "join sep ws = (case ws of [] \<Rightarrow> [] | w # vs \<Rightarrow> w @ concat (map (\<lambda>v. sep @ v) vs))"

text \<open>\<open>String(x)\<close>: arrays join their elements with commas, \<open>null\<close> elements being empty.\<close>

fun json_text :: "(rat \<Rightarrow> string) \<Rightarrow> json \<Rightarrow> string" where
  "json_text ft JNull = ''null''"
| "json_text ft (JBool b) = (if b then ''true'' else ''false'')"
| "json_text ft (JNum x) = number_text ft x"
| "json_text ft (JStr s) = s"
| "json_text ft (JArr xs) = join '','' (map (\<lambda>x. if x = JNull then [] else json_text ft x) xs)"
| "json_text ft (JObj fs) = ''[object Object]''"

text \<open>\<open>String(x ?? '')\<close>\<close>

definition text_or_blank :: "(rat \<Rightarrow> string) \<Rightarrow> json option \<Rightarrow> string" where
  "text_or_blank ft x = (if nullish x then [] else json_text ft (the x))"

text \<open>\<open>Number(x)\<close>\<close>

definition json_number :: "(rat \<Rightarrow> string) \<Rightarrow> json option \<Rightarrow> jsnum" where
  "json_number ft x =
     (case x of
        None \<Rightarrow> NaN
      | Some JNull \<Rightarrow> Fin 0
      | Some (JBool b) \<Rightarrow> Fin (if b then 1 else 0)
      | Some (JNum n) \<Rightarrow> n
      | Some v \<Rightarrow> js_number (json_text ft v))"

text \<open>A nullable string as a value.\<close>

definition json_opt :: "string option \<Rightarrow> json" where
  "json_opt x = (case x of None \<Rightarrow> JNull | Some v \<Rightarrow> JStr v)"

section \<open>\<open>JSON.stringify\<close>\<close>

definition hex_char :: "nat \<Rightarrow> char" where
  "hex_char n = char_of (if n < 10 then 48 + n else 87 + n)"

definition json_escape :: "char \<Rightarrow> string" where
  "json_escape c =
     (let n = of_char c :: nat
      in if n = 34 then [CHR 0x5C, CHR 0x22]
         else if n = 92 then [CHR 0x5C, CHR 0x5C]
         else if n = 8 then [CHR 0x5C, CHR ''b'']
         else if n = 9 then [CHR 0x5C, CHR ''t'']
         else if n = 10 then [CHR 0x5C, CHR ''n'']
         else if n = 12 then [CHR 0x5C, CHR ''f'']
         else if n = 13 then [CHR 0x5C, CHR ''r'']
         else if n < 32 then [CHR 0x5C, CHR ''u'', CHR ''0'', CHR ''0'', hex_char (n div 16), hex_char (n mod 16)]
         else [c])"

definition json_quote :: "string \<Rightarrow> string" where
  "json_quote s = [CHR 0x22] @ concat (map json_escape s) @ [CHR 0x22]"

text \<open>Infinities and NaN become \<open>null\<close>.\<close>

fun json_stringify :: "(rat \<Rightarrow> string) \<Rightarrow> json \<Rightarrow> string" where
  "json_stringify ft JNull = ''null''"
| "json_stringify ft (JBool b) = (if b then ''true'' else ''false'')"
| "json_stringify ft (JNum x) = (if is_finite x then number_text ft x else ''null'')"
| "json_stringify ft (JStr s) = json_quote s"
| "json_stringify ft (JArr xs) = ''['' @ join '','' (map (json_stringify ft) xs) @ '']''"
| "json_stringify ft (JObj fs) =
     ''{'' @ join '','' (map (\<lambda>kv. json_quote (fst kv) @ '':'' @ json_stringify ft (snd kv)) fs) @ ''}''"

definition byteLength :: "string \<Rightarrow> nat" where
  "byteLength = length"

section \<open>Facts\<close>

lemma jget_simps [simp]:
  "jget k None = None" "jget k (Some (JObj fs)) = map_of fs k" "jget k (Some (JArr xs)) = None"
  "jget k (Some (JStr s)) = None" "jget k (Some JNull) = None" "jget k (Some (JNum x)) = None"
  "jget k (Some (JBool b)) = None"
  by (simp_all add: jget_def)

lemma nullish_simps [simp]: "nullish None" "nullish (Some JNull)" "nullish (Some (JStr s)) = False"
    "nullish (Some (JObj fs)) = False" "nullish (Some (JArr xs)) = False" "nullish (Some (JNum x)) = False"
    "nullish (Some (JBool b)) = False"
  by (simp_all add: nullish_def)

lemma text_or_blank_simps [simp]: "text_or_blank ft None = []" "text_or_blank ft (Some JNull) = []"
    "text_or_blank ft (Some (JStr s)) = s"
  by (simp_all add: text_or_blank_def)

lemma join_Nil [simp]: "join sep [] = []"
  and join_Cons [simp]: "join sep (w # ws) = w @ concat (map (\<lambda>v. sep @ v) ws)"
  by (simp_all add: join_def)

end
