(* ===== verification/Descriptors.thy ===== *)
theory Descriptors
  imports Json Jobs
begin

text \<open>
  Task descriptors: the schema \<open>taskDescriptorSchema\<close> of \<open>src/src/schemas.ts\<close> and the gates of
  \<open>src/src/server.ts\<close> that every descriptor passes before it is stored with an app or a bounty (its
  size, the search for keys that look like credentials, the check of browser scripts). The
  last sections relate the two recursive gates to their declarative meaning and show that a parsed
  descriptor parses to itself.
\<close>

section \<open>The schema\<close>

definition capabilityTagEnum :: "string list" where
  "capabilityTagEnum = [''browser'', ''http'', ''ffmpeg'', ''llm_summarize'', ''screenshot'']"

definition artifactKindEnum :: "string list" where
  "artifactKindEnum = [''screenshot'', ''snapshot'', ''pdf'', ''log'', ''video'', ''other'']"

definition length_between :: "nat \<Rightarrow> nat \<Rightarrow> 'a list \<Rightarrow> bool" where
  "length_between lo hi xs \<longleftrightarrow> lo \<le> length xs \<and> length xs \<le> hi"

text \<open>\<open>z.number().int().min(lo).max(hi)\<close>\<close>

definition int_between :: "int \<Rightarrow> int \<Rightarrow> json \<Rightarrow> int option" where
  "int_between lo hi x =
     (case x of
        JNum (Fin q) \<Rightarrow> if q = of_int \<lfloor>q\<rfloor> \<and> lo \<le> \<lfloor>q\<rfloor> \<and> \<lfloor>q\<rfloor> \<le> hi then Some \<lfloor>q\<rfloor> else None
      | _ \<Rightarrow> None)"

definition string_between :: "nat \<Rightarrow> nat \<Rightarrow> json \<Rightarrow> string option" where
  "string_between lo hi x =
     (case x of JStr s \<Rightarrow> if length_between lo hi s then Some s else None | _ \<Rightarrow> None)"

text \<open>An optional property may be absent, but not \<open>null\<close>.\<close>

definition optional_ok :: "(json \<Rightarrow> 'a option) \<Rightarrow> json option \<Rightarrow> bool" where
  "optional_ok p x = (case x of None \<Rightarrow> True | Some j \<Rightarrow> p j \<noteq> None)"

definition artifactKind_ok :: "json option \<Rightarrow> bool" where
  "artifactKind_ok x = (case x of Some (JStr s) \<Rightarrow> s \<in> set artifactKindEnum | _ \<Rightarrow> False)"

definition requiredArtifactSpec_ok :: "json \<Rightarrow> bool" where
  "requiredArtifactSpec_ok x =
     (case x of
        JObj fs \<Rightarrow> artifactKind_ok (map_of fs ''kind'') \<and>
          optional_ok (int_between 1 20) (map_of fs ''count'') \<and>
          optional_ok (string_between 1 200) (map_of fs ''label_prefix'') \<and>
          optional_ok (string_between 1 200) (map_of fs ''label'')
      | _ \<Rightarrow> False)"

definition requiredArtifacts_ok :: "json option \<Rightarrow> bool" where
  "requiredArtifacts_ok x =
     (case x of
        None \<Rightarrow> True
      | Some (JArr xs) \<Rightarrow> length_between 1 50 xs \<and> list_all requiredArtifactSpec_ok xs
      | _ \<Rightarrow> False)"

text \<open>Unknown properties of the output specification and of its entries pass through.\<close>

definition parse_outputSpec :: "json option \<Rightarrow> json option" where
  "parse_outputSpec x =
     (case x of
        None \<Rightarrow> Some (JObj [])
      | Some (JObj fs) \<Rightarrow> if requiredArtifacts_ok (map_of fs ''required_artifacts'') then Some (JObj fs) else None
      | _ \<Rightarrow> None)"

definition parse_record :: "json option \<Rightarrow> json option" where
  "parse_record x = (case x of None \<Rightarrow> Some (JObj []) | Some (JObj fs) \<Rightarrow> Some (JObj fs) | _ \<Rightarrow> None)"

fun tag_of :: "json \<Rightarrow> string option" where
  "tag_of (JStr s) = (if s \<in> set capabilityTagEnum then Some s else None)"
| "tag_of _ = None"

definition parse_tags :: "json option \<Rightarrow> string list option" where
  "parse_tags x =
     (case x of
        Some (JArr xs) \<Rightarrow> if length_between 1 20 xs then those (map tag_of xs) else None
      | _ \<Rightarrow> None)"

definition parse_version :: "json option \<Rightarrow> bool" where
  "parse_version x \<longleftrightarrow> x = None \<or> x = Some (JStr ''v1'')"

definition parse_freshness :: "json option \<Rightarrow> int option option" where
  "parse_freshness x =
     (case x of None \<Rightarrow> Some None | Some j \<Rightarrow> map_option Some (int_between 1 86400 j))"

definition parse_profile :: "json option \<Rightarrow> json option option" where
  "parse_profile x =
     (case x of None \<Rightarrow> Some None | Some (JObj fs) \<Rightarrow> Some (Some (JObj fs)) | _ \<Rightarrow> None)"

text \<open>\<open>taskDescriptorSchema.safeParse\<close>: unknown properties of the descriptor are dropped.\<close>

definition taskDescriptorSchema :: "json \<Rightarrow> task_descriptor option" where
  "taskDescriptorSchema x =
     (case x of
        JObj fs \<Rightarrow>
          if \<not> parse_version (map_of fs ''schema_version'') then None
          else (case (Option.bind (map_of fs ''type'') (string_between 1 120),
                      parse_tags (map_of fs ''capability_tags''),
                      parse_record (map_of fs ''input_spec''),
                      parse_outputSpec (map_of fs ''output_spec''),
                      parse_freshness (map_of fs ''freshness_sla_sec''),
                      parse_profile (map_of fs ''site_profile'')) of
              (Some ty, Some tags, Some inp, Some out, Some fresh, Some prof) \<Rightarrow>
                Some \<lparr> td_type = ty, td_capability_tags = tags, td_input_spec = inp,
                       td_output_spec = out, td_freshness_sla_sec = fresh, td_site_profile = prof \<rparr>
            | _ \<Rightarrow> None)
      | _ \<Rightarrow> None)"

text \<open>The parsed value, as it is measured, searched and stored.\<close>

definition optional_field :: "string \<Rightarrow> json option \<Rightarrow> (string \<times> json) list" where
  "optional_field k x = (case x of None \<Rightarrow> [] | Some v \<Rightarrow> [(k, v)])"

definition descriptor_json :: "task_descriptor \<Rightarrow> json" where
  "descriptor_json td =
     JObj ([(''schema_version'', JStr ''v1''), (''type'', JStr (td_type td)),
            (''capability_tags'', JArr (map JStr (td_capability_tags td))),
            (''input_spec'', td_input_spec td), (''output_spec'', td_output_spec td)] @
           optional_field ''freshness_sla_sec''
             (map_option (\<lambda>n. JNum (Fin (of_int n))) (td_freshness_sla_sec td)) @
           optional_field ''site_profile'' (td_site_profile td))"

section \<open>Keys that look like credentials\<close>

definition sensitive_key :: "string \<Rightarrow> bool" where
  "sensitive_key k \<longleftrightarrow>
     (let key = toLowerCase k
      in str_includes key ''token'' \<or> str_includes key ''secret'' \<or> str_includes key ''password'')"

text \<open>The indices of an array are its keys; none of them is sensitive.\<close>

fun hasSensitiveKeys :: "jsnum \<Rightarrow> nat \<Rightarrow> json \<Rightarrow> bool" where
  "hasSensitiveKeys maxDepth depth (JObj fs) =
     (num_gt (of_nat depth) maxDepth \<or>
      list_ex (\<lambda>kv. sensitive_key (fst kv) \<or> hasSensitiveKeys maxDepth (depth + 1) (snd kv)) fs)"
| "hasSensitiveKeys maxDepth depth (JArr xs) =
     (num_gt (of_nat depth) maxDepth \<or> list_ex (hasSensitiveKeys maxDepth (depth + 1)) xs)"
| "hasSensitiveKeys maxDepth depth _ = num_gt (of_nat depth) maxDepth"

section \<open>Browser scripts\<close>

definition browserFlowAllowedOps :: "string list" where
  "browserFlowAllowedOps = [''goto'', ''navigate'', ''wait'', ''click'', ''fill'', ''type'', ''press'',
     ''screenshot'', ''extract'']"

definition browserFlowHardCapSteps :: nat where
  "browserFlowHardCapSteps = 100"

definition is_upper :: "char \<Rightarrow> bool" where
  "is_upper c \<longleftrightarrow> 65 \<le> (of_char c :: nat) \<and> (of_char c :: nat) \<le> 90"

definition is_lower :: "char \<Rightarrow> bool" where
  "is_lower c \<longleftrightarrow> 97 \<le> (of_char c :: nat) \<and> (of_char c :: nat) \<le> 122"

text \<open>The pattern \<open>^[a-zA-Z0-9_:-]{1,80}$\<close>\<close>

definition browserFlowAttr :: "string \<Rightarrow> bool" where
  "browserFlowAttr s \<longleftrightarrow> length_between 1 80 s \<and>
     list_all (\<lambda>c. is_lower c \<or> is_upper c \<or> is_digit c \<or> c \<in> {CHR ''_'', CHR '':'', CHR ''-''}) s"

text \<open>The patterns \<open>token|secret|password|key\<close> (in any case) and \<open>^[A-Z0-9_]{1,100}$\<close>\<close>

definition env_sensitive :: "string \<Rightarrow> bool" where
  "env_sensitive s \<longleftrightarrow>
     (let l = toLowerCase s
      in str_includes l ''token'' \<or> str_includes l ''secret'' \<or> str_includes l ''password'' \<or>
         str_includes l ''key'')"

definition env_name :: "string \<Rightarrow> bool" where
  "env_name s \<longleftrightarrow> length_between 1 100 s \<and> list_all (\<lambda>c. is_upper c \<or> is_digit c \<or> c = CHR ''_'') s"

definition step_op :: "(rat \<Rightarrow> string) \<Rightarrow> json \<Rightarrow> string" where
  "step_op ft step =
     toLowerCase (trim (text_or_blank ft (coalesce (jget ''op'' (Some step)) (jget ''action'' (Some step)))))"

text \<open>The name of the environment variable a step takes its value from; blank when there is none.\<close>

definition step_env :: "(rat \<Rightarrow> string) \<Rightarrow> json \<Rightarrow> string" where
  "step_env ft step = trim (text_or_blank ft (jget ''value_env'' (Some step)))"

definition value_env_error :: "(rat \<Rightarrow> string) \<Rightarrow> bool \<Rightarrow> json \<Rightarrow> string option" where
  "value_env_error ft allowValueEnv step =
     (let envName = step_env ft step
      in if envName = [] then None
         else if \<not> allowValueEnv then Some ''_value_env_forbidden''
         else if env_sensitive envName then Some ''_value_env_sensitive''
         else if \<not> env_name envName then Some ''_value_env_invalid_name''
         else None)"

definition extract_error :: "(rat \<Rightarrow> string) \<Rightarrow> json \<Rightarrow> string option" where
  "extract_error ft step =
     (if trim (text_or_blank ft (jget ''key'' (Some step))) = [] then Some ''_extract_missing_key''
      else if jget ''fn'' (Some step) \<noteq> None then Some ''_extract_fn_forbidden''
      else (case jget ''attribute'' (Some step) of
          Some (JStr a) \<Rightarrow>
            if trim a \<noteq> [] \<and> \<not> browserFlowAttr (trim a) then Some ''_extract_invalid_attribute'' else None
        | _ \<Rightarrow> None))"

definition step_error :: "(rat \<Rightarrow> string) \<Rightarrow> bool \<Rightarrow> json \<Rightarrow> string option" where
  "step_error ft allowValueEnv step =
     (let op = step_op ft step
      in if \<not> is_object (Some step) then Some ''_not_object''
         else if op = [] then Some ''_missing_op''
         else if op \<notin> set browserFlowAllowedOps then Some (''_op_not_allowed:'' @ op)
         else if jget ''fn'' (Some step) \<noteq> None then Some ''_fn_forbidden''
         else (case value_env_error ft allowValueEnv step of
             Some e \<Rightarrow> Some e
           | None \<Rightarrow> if op = ''extract'' then extract_error ft step else None))"

fun steps_error :: "(rat \<Rightarrow> string) \<Rightarrow> bool \<Rightarrow> nat \<Rightarrow> json list \<Rightarrow> string option" where
  "steps_error ft allowValueEnv i [] = None"
| "steps_error ft allowValueEnv i (step # steps) =
     (case step_error ft allowValueEnv step of
        Some e \<Rightarrow> Some (''browser_flow_step_'' @ show_nat i @ e)
      | None \<Rightarrow> steps_error ft allowValueEnv (i + 1) steps)"

text \<open>The script of a descriptor: its steps, if it has a non-empty list of them.\<close>

definition browser_flow :: "task_descriptor \<Rightarrow> json option" where
  "browser_flow td =
     coalesce (jget ''browser_flow'' (td_site_profile td)) (jget ''browserFlow'' (td_site_profile td))"

definition browser_steps :: "task_descriptor \<Rightarrow> json list" where
  "browser_steps td = (case jarray (jget ''steps'' (browser_flow td)) of None \<Rightarrow> [] | Some steps \<Rightarrow> steps)"

definition validateTaskDescriptorBrowserFlow ::
    "(rat \<Rightarrow> string) \<Rightarrow> bool \<Rightarrow> task_descriptor \<Rightarrow> string option" where
  "validateTaskDescriptorBrowserFlow ft allowValueEnv td =
     (if \<not> is_object (td_site_profile td) then None
      else if \<not> is_object (browser_flow td) then None
      else (case jarray (jget ''steps'' (browser_flow td)) of
          None \<Rightarrow> None
        | Some steps \<Rightarrow>
            if steps = [] then None
            else if length steps > browserFlowHardCapSteps then Some ''browser_flow_steps_exceeds_hard_cap''
            else steps_error ft allowValueEnv 0 steps))"

section \<open>The gates together\<close>

record descriptor_env =
  de_enabled :: "string option"
  de_maxBytes :: jsnum
  de_maxDepth :: jsnum
  de_flowGate :: bool
  de_allowValueEnv :: bool
  de_uiMaxBytes :: jsnum
  de_fracText :: "rat \<Rightarrow> string"

definition isTaskDescriptorEnabled :: "string option \<Rightarrow> bool" where
  "isTaskDescriptorEnabled env =
     (let v = toLowerCase (case env of None \<Rightarrow> ''true'' | Some s \<Rightarrow> s)
      in v \<noteq> ''false'' \<and> v \<noteq> ''0'' \<and> v \<noteq> ''no'')"

definition too_large :: "(rat \<Rightarrow> string) \<Rightarrow> jsnum \<Rightarrow> json \<Rightarrow> bool" where
  "too_large ft bound j \<longleftrightarrow> num_gt (of_nat (byteLength (json_stringify ft j))) bound"

text \<open>What stands before the storing of a descriptor in the routes of apps and bounties; the app
  routes test the type between the schema and the size.\<close>

definition check_descriptor ::
    "descriptor_env \<Rightarrow> (task_descriptor \<Rightarrow> bool) \<Rightarrow> json \<Rightarrow> task_descriptor response" where
  "check_descriptor env type_ok raw =
     (if \<not> isTaskDescriptorEnabled (de_enabled env) then Reject 409 ''feature_disabled''
      else (case taskDescriptorSchema raw of
          None \<Rightarrow> Reject 400 ''invalid_task_descriptor''
        | Some td \<Rightarrow>
            if \<not> type_ok td then Reject 400 ''invalid''
            else if too_large (de_fracText env) (de_maxBytes env) (descriptor_json td)
            then Reject 400 ''task_descriptor_too_large''
            else if hasSensitiveKeys (de_maxDepth env) 0 (descriptor_json td)
            then Reject 400 ''task_descriptor_sensitive''
            else Ok td))"

text \<open>The bounty route checks the browser script too, when its gate is switched on.\<close>

definition check_bounty_descriptor :: "descriptor_env \<Rightarrow> json \<Rightarrow> task_descriptor response" where
  "check_bounty_descriptor env raw =
     (case check_descriptor env (\<lambda>_. True) raw of
        Reject code e \<Rightarrow> Reject code e
      | Ok td \<Rightarrow>
          if de_flowGate env \<and>
             validateTaskDescriptorBrowserFlow (de_fracText env) (de_allowValueEnv env) td \<noteq> None
          then Reject 400 ''invalid_task_descriptor'' else Ok td)"

definition check_uiSchema :: "descriptor_env \<Rightarrow> json \<Rightarrow> json response" where
  "check_uiSchema env ui =
     (if too_large (de_fracText env) (de_uiMaxBytes env) ui then Reject 400 ''ui_schema_too_large''
      else if hasSensitiveKeys (de_maxDepth env) 0 ui then Reject 400 ''ui_schema_sensitive''
      else Ok ui)"

section \<open>What the gates mean\<close>

fun json_depth :: "json \<Rightarrow> nat" where
  "json_depth (JObj fs) = foldr (\<lambda>kv n. max (Suc (json_depth (snd kv))) n) fs 0"
| "json_depth (JArr xs) = foldr (\<lambda>x n. max (Suc (json_depth x)) n) xs 0"
| "json_depth _ = 0"

text \<open>All property names, at any depth.\<close>

fun json_keys :: "json \<Rightarrow> string list" where
  "json_keys (JObj fs) = concat (map (\<lambda>kv. fst kv # json_keys (snd kv)) fs)"
| "json_keys (JArr xs) = concat (map json_keys xs)"
| "json_keys _ = []"

lemma num_gt_mono: "num_gt (of_nat a) M \<Longrightarrow> a \<le> b \<Longrightarrow> num_gt (of_nat b) M"
  by (auto simp: num_gt_def split: jsnum.splits)

lemma num_gt_max: "num_gt (of_nat (max a b)) M \<longleftrightarrow> num_gt (of_nat a) M \<or> num_gt (of_nat b) M"
  by (metis max.cobounded1 max.cobounded2 max_def num_gt_mono)

lemma num_gt_foldr_max:
  "num_gt (of_nat (d + foldr (\<lambda>x n. max (Suc (f x)) n) xs 0)) M \<longleftrightarrow>
     num_gt (of_nat d) M \<or> list_ex (\<lambda>x. num_gt (of_nat (Suc d + f x)) M) xs"
  by (induction xs) (simp_all del: of_nat_Suc of_nat_add add: nat_add_max_right num_gt_max disj_left_commute)

lemma hasSensitiveKeys_eq:
  "hasSensitiveKeys M d j \<longleftrightarrow> num_gt (of_nat (d + json_depth j)) M \<or> list_ex sensitive_key (json_keys j)"
proof (induction M d j rule: hasSensitiveKeys.induct)
  case (1 M d fs)
  have "list_ex (\<lambda>kv. sensitive_key (fst kv) \<or> hasSensitiveKeys M (d + 1) (snd kv)) fs \<longleftrightarrow>
        list_ex (\<lambda>kv. sensitive_key (fst kv) \<or> num_gt (of_nat (Suc d + json_depth (snd kv))) M \<or>
                       list_ex sensitive_key (json_keys (snd kv))) fs"
    using 1 by (auto simp: list_ex_iff simp del: of_nat_Suc of_nat_add)
  then show ?case
    by (auto simp: num_gt_foldr_max list_ex_iff simp del: of_nat_Suc of_nat_add)
next
  case (2 M d xs)
  have "list_ex (hasSensitiveKeys M (d + 1)) xs \<longleftrightarrow>
        list_ex (\<lambda>x. num_gt (of_nat (Suc d + json_depth x)) M \<or> list_ex sensitive_key (json_keys x)) xs"
    using 2 by (auto simp: list_ex_iff simp del: of_nat_Suc of_nat_add)
  then show ?case
    by (auto simp: num_gt_foldr_max list_ex_iff simp del: of_nat_Suc of_nat_add)
qed simp_all

text \<open>The search for credentials answers whether the value is nested deeper than the bound, or
  has, at any depth, a property whose name contains token, secret or password.\<close>

theorem sensitive_keys_iff:
  "hasSensitiveKeys M 0 j \<longleftrightarrow> num_gt (of_nat (json_depth j)) M \<or> list_ex sensitive_key (json_keys j)"
  by (simp add: hasSensitiveKeys_eq)

section \<open>Browser scripts that pass\<close>

definition env_ok :: "(rat \<Rightarrow> string) \<Rightarrow> bool \<Rightarrow> json \<Rightarrow> bool" where
  "env_ok ft allowValueEnv step \<longleftrightarrow>
     step_env ft step = [] \<or>
     (allowValueEnv \<and> env_name (step_env ft step) \<and> \<not> env_sensitive (step_env ft step))"

definition extract_ok :: "(rat \<Rightarrow> string) \<Rightarrow> json \<Rightarrow> bool" where
  "extract_ok ft step \<longleftrightarrow>
     trim (text_or_blank ft (jget ''key'' (Some step))) \<noteq> [] \<and>
     (case jget ''attribute'' (Some step) of
        Some (JStr a) \<Rightarrow> trim a = [] \<or> browserFlowAttr (trim a)
      | _ \<Rightarrow> True)"

definition step_ok :: "(rat \<Rightarrow> string) \<Rightarrow> bool \<Rightarrow> json \<Rightarrow> bool" where
  "step_ok ft allowValueEnv step \<longleftrightarrow>
     is_object (Some step) \<and> step_op ft step \<in> set browserFlowAllowedOps \<and>
     jget ''fn'' (Some step) = None \<and> env_ok ft allowValueEnv step \<and>
     (step_op ft step = ''extract'' \<longrightarrow> extract_ok ft step)"

lemma value_env_error_None: "value_env_error ft a step = None \<longleftrightarrow> env_ok ft a step"
  by (auto simp: value_env_error_def env_ok_def Let_def)

lemma extract_error_None:
  "jget ''fn'' (Some step) = None \<Longrightarrow> extract_error ft step = None \<longleftrightarrow> extract_ok ft step"
  by (auto simp: extract_error_def extract_ok_def split: option.splits json.splits)

lemma blank_op: "[] \<notin> set browserFlowAllowedOps"
  by (simp add: browserFlowAllowedOps_def)

lemma step_error_None: "step_error ft a step = None \<longleftrightarrow> step_ok ft a step"
  using blank_op value_env_error_None [of ft a step] extract_error_None [of step ft]
  by (cases "value_env_error ft a step"; cases "step_op ft step = []")
     (simp_all add: step_error_def step_ok_def Let_def)

lemma steps_error_None: "steps_error ft a i steps = None \<longleftrightarrow> list_all (step_ok ft a) steps"
  by (induction steps arbitrary: i) (auto simp: step_error_None [symmetric] split: option.splits)

text \<open>C18. The validation of a browser script accepts exactly the descriptors with at most 100 steps,
  each of which is an object with an allowed operation and no function, takes its value from the
  environment only where that is allowed and from a variable with a harmless name, and names what it
  extracts.\<close>

theorem browser_flow_accepted_iff:
  "validateTaskDescriptorBrowserFlow ft a td = None \<longleftrightarrow>
     length (browser_steps td) \<le> browserFlowHardCapSteps \<and> list_all (step_ok ft a) (browser_steps td)"
proof (cases "jarray (jget ''steps'' (browser_flow td))")
  case (Some steps)
  have "is_object (browser_flow td)"
    using Some by (auto simp: jget_def jarray_def is_object_def split: option.splits json.splits)
  moreover from this have "is_object (td_site_profile td)"
    by (auto simp: browser_flow_def jget_def is_object_def coalesce_def nullish_def
        split: option.splits json.splits if_splits)
  ultimately show ?thesis
    using Some by (auto simp: validateTaskDescriptorBrowserFlow_def browser_steps_def steps_error_None)
qed (simp add: validateTaskDescriptorBrowserFlow_def browser_steps_def)

section \<open>Parsing again\<close>

lemma string_between_idem: "string_between lo hi x = Some s \<Longrightarrow> string_between lo hi (JStr s) = Some s"
  by (auto simp: string_between_def split: json.splits if_splits)

lemma int_between_idem: "int_between lo hi x = Some n \<Longrightarrow> int_between lo hi (JNum (Fin (of_int n))) = Some n"
  by (auto simp: int_between_def split: json.splits jsnum.splits if_splits)

lemma tag_of_Some: "tag_of x = Some s \<Longrightarrow> x = JStr s"
  by (cases x) (auto split: if_splits)

lemma those_tags: "those (map tag_of xs) = Some ts \<Longrightarrow> xs = map JStr ts"
  by (induction xs arbitrary: ts) (auto dest: tag_of_Some split: option.splits)

lemma parse_tags_idem: "parse_tags x = Some ts \<Longrightarrow> parse_tags (Some (JArr (map JStr ts))) = Some ts"
  using those_tags by (fastforce simp: parse_tags_def split: option.splits json.splits if_splits)

lemma parse_record_idem: "parse_record x = Some r \<Longrightarrow> parse_record (Some r) = Some r"
  by (auto simp: parse_record_def split: option.splits json.splits)

lemma parse_outputSpec_idem: "parse_outputSpec x = Some r \<Longrightarrow> parse_outputSpec (Some r) = Some r"
  by (auto simp: parse_outputSpec_def requiredArtifacts_ok_def split: option.splits json.splits if_splits)

lemma parse_freshness_idem:
  "parse_freshness x = Some f \<Longrightarrow> parse_freshness (map_option (\<lambda>n. JNum (Fin (of_int n))) f) = Some f"
  using int_between_idem by (fastforce simp: parse_freshness_def split: option.splits)

lemma parse_profile_idem: "parse_profile x = Some p \<Longrightarrow> parse_profile p = Some p"
  by (auto simp: parse_profile_def split: option.splits json.splits)

lemmas descriptor_idem = string_between_idem parse_tags_idem parse_record_idem parse_outputSpec_idem
  parse_freshness_idem parse_profile_idem

lemma map_of_optional: "map_of (optional_field k x) k' = (if k = k' then x else None)"
  by (auto simp: optional_field_def split: option.splits)

lemma map_of_optional_append:
  "map_of (optional_field k x @ fs) k' = (if k = k' \<and> x \<noteq> None then x else map_of fs k')"
  by (auto simp: optional_field_def split: option.splits)

lemma parse_freshness_None: "parse_freshness None = Some None"
  by (simp add: parse_freshness_def)

text \<open>What the schema accepts, field by field.\<close>

lemma taskDescriptorSchema_cases:
  assumes "taskDescriptorSchema x = Some td"
  obtains fs t where "x = JObj fs" "map_of fs ''type'' = Some t" "string_between 1 120 t = Some (td_type td)"
    "parse_tags (map_of fs ''capability_tags'') = Some (td_capability_tags td)"
    "parse_record (map_of fs ''input_spec'') = Some (td_input_spec td)"
    "parse_outputSpec (map_of fs ''output_spec'') = Some (td_output_spec td)"
    "parse_freshness (map_of fs ''freshness_sla_sec'') = Some (td_freshness_sla_sec td)"
    "parse_profile (map_of fs ''site_profile'') = Some (td_site_profile td)"
  using assms
  by (auto simp: taskDescriptorSchema_def bind_eq_Some_conv split: json.splits if_splits option.splits)

text \<open>The parsed form of an accepted descriptor, which the request schema hands to the route and
  which is stored with the app, is accepted again and parses to itself.\<close>

theorem descriptor_reparses:
  assumes "taskDescriptorSchema x = Some td"
  shows "taskDescriptorSchema (descriptor_json td) = Some td"
proof -
  from assms obtain fs t where "map_of fs ''type'' = Some t" "string_between 1 120 t = Some (td_type td)"
    "parse_tags (map_of fs ''capability_tags'') = Some (td_capability_tags td)"
    "parse_record (map_of fs ''input_spec'') = Some (td_input_spec td)"
    "parse_outputSpec (map_of fs ''output_spec'') = Some (td_output_spec td)"
    and fresh: "parse_freshness (map_of fs ''freshness_sla_sec'') = Some (td_freshness_sla_sec td)"
    and "parse_profile (map_of fs ''site_profile'') = Some (td_site_profile td)"
    by (elim taskDescriptorSchema_cases)
  with parse_freshness_idem [OF fresh] show ?thesis
    by (cases "td_freshness_sla_sec td")
       (simp_all add: taskDescriptorSchema_def descriptor_json_def map_of_optional map_of_optional_append
         parse_version_def descriptor_idem parse_freshness_None del: map_of_append)
qed

definition example_descriptor :: json where
  "example_descriptor = JObj [(''type'', JStr ''deals''), (''capability_tags'', JArr [JStr ''http'']),
     (''note'', JStr ''dropped''), (''freshness_sla_sec'', JNum (Fin 60))]"

theorem descriptor_reparses_witness:
  "\<exists>td. taskDescriptorSchema example_descriptor = Some td \<and> td_type td = ''deals'' \<and>
        taskDescriptorSchema (descriptor_json td) = Some td"
proof -
  obtain td where td: "taskDescriptorSchema example_descriptor = Some td" "td_type td = ''deals''"
    by (simp add: taskDescriptorSchema_def example_descriptor_def parse_version_def string_between_def
        length_between_def parse_tags_def capabilityTagEnum_def parse_record_def parse_outputSpec_def
        parse_freshness_def int_between_def parse_profile_def)
  with descriptor_reparses [OF td(1)] show ?thesis by blast
qed

section \<open>What passes the gates\<close>

lemma taskDescriptorSchema_type: "taskDescriptorSchema x = Some td \<Longrightarrow> length_between 1 120 (td_type td)"
  by (elim taskDescriptorSchema_cases) (auto simp: string_between_def split: json.split_asm if_split_asm)

lemma check_descriptor_Ok:
  assumes "check_descriptor env ok raw = Ok td"
  shows "isTaskDescriptorEnabled (de_enabled env) \<and> taskDescriptorSchema raw = Some td \<and> ok td \<and>
    \<not> too_large (de_fracText env) (de_maxBytes env) (descriptor_json td) \<and>
    \<not> hasSensitiveKeys (de_maxDepth env) 0 (descriptor_json td)"
  using assms by (simp add: check_descriptor_def split: option.split_asm if_split_asm)

lemma check_bounty_descriptor_Ok:
  assumes "check_bounty_descriptor env raw = Ok td"
  shows "check_descriptor env (\<lambda>_. True) raw = Ok td \<and>
    (de_flowGate env \<longrightarrow> validateTaskDescriptorBrowserFlow (de_fracText env) (de_allowValueEnv env) td = None)"
  using assms by (simp add: check_bounty_descriptor_def split: response.split_asm if_split_asm)

lemma check_bounty_descriptor_type: "check_bounty_descriptor env raw = Ok td \<Longrightarrow> td_type td \<noteq> []"
  using check_bounty_descriptor_Ok check_descriptor_Ok taskDescriptorSchema_type
  by (fastforce simp: length_between_def)

end
