(* ===== verification/Intake.thy ===== *)
theory Intake
  imports Descriptors Disputes Auth
begin

text \<open>
  The buyer's side of \<open>src/src/server.ts\<close>: the route that creates a bounty, with its gates on the
  descriptor, the ownership of the task type, the origins and the payout, the preparation of the
  descriptors of the two system apps, and the routes of the app registry, of origin requests and of
  disputes. Request bodies are records of the JSON values the handlers convert; \<open>principal\<close> is what
  \<open>authenticateBuyer\<close> has put into the request. Where the error code of a rejection is only
  \<open>invalid\<close>, the model may append the message that tells the cases apart. The last sections show what every created bounty
  satisfies and what the moderation of apps does not achieve.
\<close>

section \<open>Text processing\<close>

text \<open>\<open>s.replaceAll(pat, by)\<close> for a pattern that is not empty and a replacement without \<open>$\<close>.\<close>

fun replace_all :: "string \<Rightarrow> string \<Rightarrow> string \<Rightarrow> string" where
  "replace_all pat by [] = []"
| "replace_all pat by (c # s) =
     (if pat \<noteq> [] \<and> startsWith (c # s) pat then by @ replace_all pat by (drop (length pat - 1) s)
      else c # replace_all pat by s)"

definition upper_hex :: "nat \<Rightarrow> char" where
  "upper_hex n = char_of (if n < 10 then 48 + n else 55 + n)"

definition uri_unreserved :: "char \<Rightarrow> bool" where
  "uri_unreserved c \<longleftrightarrow> is_lower c \<or> is_upper c \<or> is_digit c \<or>
     (of_char c :: nat) \<in> {45, 95, 46, 33, 126, 42, 39, 40, 41}"

definition encodeURIComponent :: "string \<Rightarrow> string" where
  "encodeURIComponent s =
     concat (map (\<lambda>c. if uri_unreserved c then [c]
                      else [CHR ''%'', upper_hex (of_char c div 16), upper_hex (of_char c mod 16)]) s)"

text \<open>Lines split at \<open>\r?\n\<close>, trimmed, without blanks: the carriage return is white space.\<close>

definition trimmed_nonblank :: "string list \<Rightarrow> string list" where
  "trimmed_nonblank ws = filter (\<lambda>w. w \<noteq> []) (map trim ws)"

section \<open>The app of a task type\<close>

definition task_app :: "string \<Rightarrow> string \<Rightarrow> db \<Rightarrow> app_obj response" where
  "task_app org type s =
     (case getAppByTaskType type s of
        None \<Rightarrow> Reject 400 ''app_not_registered''
      | Some app \<Rightarrow>
          if aj_status app = ''disabled'' then Reject 409 ''app_disabled''
          else if aj_ownerOrgId app \<noteq> org \<and> aj_ownerOrgId app \<noteq> ''org_system'' then Reject 403 ''forbidden''
          else Ok app)"

definition public_origins :: "url_parser \<Rightarrow> bool \<Rightarrow> app_obj option \<Rightarrow> string list" where
  "public_origins parse_url production app =
     (case app of
        None \<Rightarrow> []
      | Some a \<Rightarrow>
          if aj_ownerOrgId a \<noteq> ''org_system'' then []
          else oks (map (normalizeOrigin parse_url production) (aj_publicAllowedOrigins a)))"

section \<open>Origins of a bounty\<close>

text \<open>The buyer's origins have to be verified for the organisation, unless the platform supports
  them; the bounty gets both lists, without repetitions.\<close>

definition effective_origins ::
    "url_parser \<Rightarrow> bool \<Rightarrow> (rat \<Rightarrow> string) \<Rightarrow> string \<Rightarrow> json list \<Rightarrow> string list \<Rightarrow> db \<Rightarrow> string list response" where
  "effective_origins parse_url production ft org raw public s =
     (case sequence_errs (map (\<lambda>x. normalizeOrigin parse_url production (json_text ft x)) raw) of
        Inl _ \<Rightarrow> Reject 400 ''invalid''
      | Inr buyer \<Rightarrow>
          if \<not> list_all (\<lambda>x. originAllowed parse_url production org x s) (filter (\<lambda>x. x \<notin> set public) buyer)
          then Reject 400 ''origin_not_verified''
          else if uniq (buyer @ public) = [] then Reject 400 ''invalid''
          else Ok (uniq (buyer @ public)))"

section \<open>Descriptors of the system apps\<close>

text \<open>The origin of a url in a descriptor. \<open>normalizeOrigin\<close> may throw outside of any handler
  (credentials in the url, plain http in production): the answer is 500.\<close>

definition url_origin :: "url_parser \<Rightarrow> bool \<Rightarrow> url \<Rightarrow> string response" where
  "url_origin parse_url production u =
     (case normalizeOrigin parse_url production (u_origin u) of
        Inl _ \<Rightarrow> Reject 500 ''internal'' | Inr x \<Rightarrow> Ok x)"

definition check_clips ::
    "url_parser \<Rightarrow> bool \<Rightarrow> string list \<Rightarrow> string list \<Rightarrow> task_descriptor \<Rightarrow> unit response" where
  "check_clips parse_url production effective public td =
     (case jstr (jget ''vod_url'' (Some (td_input_spec td))) of
        None \<Rightarrow> Reject 400 ''invalid:missing_vod_url''
      | Some vodUrl \<Rightarrow>
          if trim vodUrl = [] then Reject 400 ''invalid:missing_vod_url''
          else (case parse_url vodUrl of
              None \<Rightarrow> Reject 400 ''invalid:invalid_vod_url''
            | Some u \<Rightarrow>
                if u_protocol u \<notin> {''http:'', ''https:''} then Reject 400 ''invalid:invalid_vod_url_protocol''
                else (case url_origin parse_url production u of
                    Reject c e \<Rightarrow> Reject c e
                  | Ok vodOrigin \<Rightarrow>
                      if vodOrigin \<notin> set effective then Reject 400 ''invalid:vod_url_origin_not_allowed''
                      else if vodOrigin \<in> set public \<and> \<not> endsWith (toLowerCase (u_pathname u)) ''.mp4''
                      then Reject 400 ''invalid:vod_url_must_be_direct_mp4_for_supported_origins''
                      else Ok ())))"

text \<open>The first url of the input: \<open>url\<close>, or the first of \<open>sites\<close>.\<close>

definition site_list :: "(rat \<Rightarrow> string) \<Rightarrow> json option \<Rightarrow> string list" where
  "site_list ft x =
     (case x of
        Some (JArr xs) \<Rightarrow> trimmed_nonblank (map (\<lambda>j. text_or_blank ft (Some j)) xs)
      | Some (JStr t) \<Rightarrow> trimmed_nonblank (split_on (CHR 0x0A) t)
      | _ \<Rightarrow> [])"

definition trimmed_text :: "json option \<Rightarrow> string" where
  "trimmed_text x = (case jstr x of None \<Rightarrow> [] | Some t \<Rightarrow> trim t)"

definition given_start_url :: "(rat \<Rightarrow> string) \<Rightarrow> json option \<Rightarrow> string" where
  "given_start_url ft inp =
     (let explicit = trimmed_text (jget ''url'' inp)
      in if explicit \<noteq> [] then explicit
         else (case site_list ft (jget ''sites'' inp) of [] \<Rightarrow> [] | x # _ \<Rightarrow> x))"

definition enabled_template :: "string \<Rightarrow> db \<Rightarrow> templates_row option" where
  "enabled_template orig s =
     find (\<lambda>r. mt_origin r = orig \<and> mt_enabled r) (marketplace_origin_templates s)"

definition first_template :: "db \<Rightarrow> templates_row option" where
  "first_template s =
     (case sort_key mt_origin (filter mt_enabled (marketplace_origin_templates s)) of
        [] \<Rightarrow> None | r # _ \<Rightarrow> Some r)"

definition search_template :: "string \<Rightarrow> db \<Rightarrow> string" where
  "search_template preferred s =
     (let row = (case enabled_template preferred s of None \<Rightarrow> first_template s | Some r \<Rightarrow> Some r)
      in trim (case row of None \<Rightarrow> [] | Some r \<Rightarrow> (case mt_search_url_template r of None \<Rightarrow> [] | Some t \<Rightarrow> t)))"

text \<open>Without a url, the search page of a marketplace is opened with the query.\<close>

definition with_search_url ::
    "url_parser \<Rightarrow> bool \<Rightarrow> (rat \<Rightarrow> string) \<Rightarrow> task_descriptor \<Rightarrow> db \<Rightarrow> (string \<times> task_descriptor) response" where
  "with_search_url parse_url production ft td s =
     (let inp = Some (td_input_spec td);
          query = trimmed_text (jget ''query'' inp);
          given = given_start_url ft inp
      in if given \<noteq> [] \<or> query = [] then Ok (given, td)
         else (case normalizeOrigin parse_url production ''https://www.ebay.com'' of
             Inl _ \<Rightarrow> Reject 500 ''internal''
           | Inr preferred \<Rightarrow>
               let tpl = search_template preferred s;
                   url = replace_all ''{query}'' (encodeURIComponent query) tpl
               in if tpl = [] then Ok ([], td)
                  else Ok (url, td\<lparr>td_input_spec :=
                         JObj (set_field ''url'' (JStr url) (obj_fields inp))\<rparr>)))"

definition has_keys :: "json \<Rightarrow> bool" where
  "has_keys x = (case x of JObj fs \<Rightarrow> fs \<noteq> [] | JArr xs \<Rightarrow> xs \<noteq> [] | _ \<Rightarrow> False)"

definition selectors_provided :: "json option \<Rightarrow> bool" where
  "selectors_provided prof \<longleftrightarrow>
     json_truthy (jget ''selectors'' prof) \<or> json_truthy (jget ''price_selector'' prof) \<or>
     json_truthy (jget ''stock_selector'' prof) \<or> json_truthy (jget ''title_selector'' prof)"

definition with_selectors :: "templates_row \<Rightarrow> task_descriptor \<Rightarrow> task_descriptor" where
  "with_selectors tmpl td =
     (let fs = set_field ''selectors'' (mt_selectors_json tmpl) (obj_fields (td_site_profile td))
      in td\<lparr>td_site_profile := Some (JObj
           (case mt_wait_selector tmpl of
              Some (c # w) \<Rightarrow> set_field ''marketplace_wait_selector'' (JStr (c # w)) fs
            | _ \<Rightarrow> fs))\<rparr>)"

text \<open>The start url has to lie in the bounty's origins. Unless the buyer gives selectors, they come
  from the template of the origin, and a supported origin must have one.\<close>

definition prepare_marketplace ::
    "url_parser \<Rightarrow> bool \<Rightarrow> (rat \<Rightarrow> string) \<Rightarrow> string list \<Rightarrow> string list \<Rightarrow> task_descriptor \<Rightarrow> db \<Rightarrow>
     task_descriptor response" where
  "prepare_marketplace parse_url production ft effective public td s =
     (case with_search_url parse_url production ft td s of
        Reject c e \<Rightarrow> Reject c e
      | Ok (startUrl, td1) \<Rightarrow>
          if startUrl = [] then Ok td1
          else (case parse_url startUrl of
              None \<Rightarrow> Reject 400 ''invalid:invalid_marketplace_start_url''
            | Some u \<Rightarrow>
                (case url_origin parse_url production u of
                   Reject c e \<Rightarrow> Reject c e
                 | Ok startOrigin \<Rightarrow>
                     if startOrigin \<notin> set effective then Reject 400 ''invalid:marketplace_start_url_origin_not_allowed''
                     else if selectors_provided (td_site_profile td1) then Ok td1
                     else (case enabled_template startOrigin s of
                         Some tmpl \<Rightarrow>
                           if has_keys (mt_selectors_json tmpl) then Ok (with_selectors tmpl td1)
                           else if startOrigin \<in> set public
                           then Reject 400 ''invalid:missing_marketplace_template_for_supported_origin'' else Ok td1
                       | None \<Rightarrow>
                           if startOrigin \<in> set public
                           then Reject 400 ''invalid:missing_marketplace_template_for_supported_origin'' else Ok td1))))"

definition prepare_system ::
    "url_parser \<Rightarrow> bool \<Rightarrow> (rat \<Rightarrow> string) \<Rightarrow> string list \<Rightarrow> string list \<Rightarrow> task_descriptor \<Rightarrow> db \<Rightarrow>
     task_descriptor response" where
  "prepare_system parse_url production ft effective public td s =
     (if td_type td = ''clips_highlights'' then
        (case check_clips parse_url production effective public td of
           Reject c e \<Rightarrow> Reject c e | Ok _ \<Rightarrow> Ok td)
      else if td_type td = ''marketplace_drops''
      then prepare_marketplace parse_url production ft effective public td s
      else Ok td)"

section \<open>Creating a bounty\<close>

text \<open>The request body: the raw values of the properties that the handler converts, under both
  spellings, and the remaining ones, which it passes on to \<open>createBounty\<close>.\<close>

record bounty_body =
  bb_allowedOrigins :: "json option"
  bb_allowed_origins :: "json option"
  bb_taskDescriptor :: "json option"
  bb_task_descriptor :: "json option"
  bb_payoutCents :: "json option"
  bb_payout_cents :: "json option"
  bb_rest :: bounty_input

record bounty_env =
  be_parse :: url_parser
  be_production :: bool
  be_disputeWindow :: "jsnum option"
  be_minPayout :: jsnum
  be_descriptor :: descriptor_env

text \<open>The descriptor, checked, with the app of its type; nothing if the body has none.\<close>

definition bounty_descriptor ::
    "descriptor_env \<Rightarrow> string \<Rightarrow> json option \<Rightarrow> db \<Rightarrow> (task_descriptor \<times> app_obj) option response" where
  "bounty_descriptor env org raw s =
     (case raw of
        None \<Rightarrow> Ok None
      | Some j \<Rightarrow>
          (case check_bounty_descriptor env j of
             Reject c e \<Rightarrow> Reject c e
           | Ok td \<Rightarrow>
               (case task_app org (td_type td) s of
                  Reject c e \<Rightarrow> Reject c e
                | Ok app \<Rightarrow> Ok (Some (td, app)))))"

text \<open>The payout in cents: positive, not below the platform's minimum, and an integer that the
  column holds.\<close>

definition bounty_payout :: "jsnum \<Rightarrow> jsnum \<Rightarrow> int response" where
  "bounty_payout minimum payout =
     (case payout of
        Fin q \<Rightarrow>
          if q \<le> 0 then Reject 400 ''invalid''
          else if (case minimum of Fin m \<Rightarrow> m > 0 \<and> q < m | Infinity pos \<Rightarrow> pos | NaN \<Rightarrow> False)
          then Reject 400 ''min_payout''
          else if q = of_int \<lfloor>q\<rfloor> \<and> int4 \<lfloor>q\<rfloor> then Ok \<lfloor>q\<rfloor> else Reject 400 ''invalid''
      | _ \<Rightarrow> Reject 400 ''invalid'')"

definition system_descriptor ::
    "bounty_env \<Rightarrow> string list \<Rightarrow> string list \<Rightarrow> (task_descriptor \<times> app_obj) option \<Rightarrow> db \<Rightarrow>
     task_descriptor option response" where
  "system_descriptor env effective public checked s =
     (case checked of
        None \<Rightarrow> Ok None
      | Some (td, app) \<Rightarrow>
          if aj_ownerOrgId app \<noteq> ''org_system'' then Ok (Some td)
          else (case prepare_system (be_parse env) (be_production env) (de_fracText (be_descriptor env))
                  effective public td s of
              Reject c e \<Rightarrow> Reject c e | Ok td' \<Rightarrow> Ok (Some td')))"

text \<open>After the gates: the bounty is inserted and audited.\<close>

definition store_bounty ::
    "bounty_env \<Rightarrow> (nat \<Rightarrow> string) \<Rightarrow> int \<Rightarrow> principal \<Rightarrow> bounty_input \<Rightarrow> db \<Rightarrow> bounty_obj response \<times> db" where
  "store_bounty env gen now pr inp s =
     (case createBounty (be_parse env) (be_production env) (be_disputeWindow env) gen now inp s of
        Inl e \<Rightarrow>
          (if startsWith (err_message e) ''blocked_domain:'' then Reject 403 ''blocked_domain''
           else Reject 400 ''invalid'', s)
      | Inr (b, s1) \<Rightarrow>
          (Ok b, writeAuditEvent (gen 1) now ''buyer_api_key'' (pr_apiKeyId pr) ''bounty.create''
                   ''bounty'' (bo_id b) s1))"

definition raw_origins :: "bounty_body \<Rightarrow> json list response" where
  "raw_origins body =
     (case coalesce (bb_allowedOrigins body) (bb_allowed_origins body) of
        None \<Rightarrow> Ok [] | Some (JArr xs) \<Rightarrow> Ok xs | Some _ \<Rightarrow> Reject 400 ''invalid'')"

definition raw_payout :: "(rat \<Rightarrow> string) \<Rightarrow> bounty_body \<Rightarrow> jsnum" where
  "raw_payout ft body =
     json_number ft (coalesce (coalesce (bb_payoutCents body) (bb_payout_cents body)) (Some (JNum (Fin 1000))))"

text \<open>\<open>POST /api/bounties\<close>. Nothing is written before the last step. Exceptions of
  \<open>assertUrlNotBlocked\<close> are always about a blocked domain.\<close>

definition bounty_gates ::
    "bounty_env \<Rightarrow> principal \<Rightarrow> bounty_body \<Rightarrow> db \<Rightarrow> bounty_input response" where
  "bounty_gates env pr body s =
     (let ft = de_fracText (be_descriptor env); org = pr_orgId pr
      in if bi_title (bb_rest body) = [] \<or> bi_description (bb_rest body) = [] then Reject 400 ''invalid''
         else (case raw_origins body of
             Reject c e \<Rightarrow> Reject c e
           | Ok raw \<Rightarrow>
         (case bounty_descriptor (be_descriptor env) org
                 (coalesce (bb_taskDescriptor body) (bb_task_descriptor body)) s of
             Reject c e \<Rightarrow> Reject c e
           | Ok checked \<Rightarrow>
         (let public = public_origins (be_parse env) (be_production env) (map_option snd checked)
          in case effective_origins (be_parse env) (be_production env) ft org raw public s of
             Reject c e \<Rightarrow> Reject c e
           | Ok effective \<Rightarrow>
         (case system_descriptor env effective public checked s of
             Reject c e \<Rightarrow> Reject c e
           | Ok td \<Rightarrow>
             if list_ex (\<lambda>x. isl (assertUrlNotBlocked (be_parse env) x s)) effective
             then Reject 403 ''blocked_domain''
             else (case bounty_payout (be_minPayout env) (raw_payout ft body) of
                 Reject c e \<Rightarrow> Reject c e
               | Ok payout \<Rightarrow>
                   Ok ((bb_rest body)\<lparr>bi_allowedOrigins := effective, bi_payoutCents := Some payout,
                         bi_taskDescriptor := td, bi_orgId := org\<rparr>)))))))"

definition route_create_bounty ::
    "bounty_env \<Rightarrow> (nat \<Rightarrow> string) \<Rightarrow> int \<Rightarrow> principal \<Rightarrow> bounty_body \<Rightarrow> db \<Rightarrow> bounty_obj response \<times> db" where
  "route_create_bounty env gen now pr body s =
     (case bounty_gates env pr body s of
        Reject c e \<Rightarrow> (Reject c e, s)
      | Ok inp \<Rightarrow> store_bounty env gen now pr inp s)"

section \<open>What a created bounty satisfies\<close>

text \<open>Documented behaviour of the URL parser: the origin of a web address is its own origin.\<close>

definition origin_stable :: "url_parser \<Rightarrow> bool" where
  "origin_stable parse_url \<longleftrightarrow>
     (\<forall>x u u'. parse_url x = Some u \<and> u_protocol u \<in> {''http:'', ''https:''} \<and>
               parse_url (u_origin u) = Some u' \<longrightarrow> u_origin u' = u_origin u)"

lemma normalizeOrigin_idem:
  "origin_stable parse_url \<Longrightarrow> normalizeOrigin parse_url pn x = Inr y \<Longrightarrow>
     normalizeOrigin parse_url pn y = Inr z \<Longrightarrow> z = y"
  unfolding origin_stable_def normalizeOrigin_def
  by (auto split: option.split_asm if_split_asm)

lemma sequence_errs_map_Inr [simp]: "sequence_errs (map Inr ys) = Inr ys"
  by (induction ys) simp_all

lemma sequence_errs_Inr: "sequence_errs xs = Inr ys \<Longrightarrow> xs = map Inr ys"
  by (induction xs arbitrary: ys rule: sequence_errs.induct) (auto split: sum.split_asm)

lemma set_oks: "x \<in> set (oks xs) \<longleftrightarrow> Inr x \<in> set xs"
  by (induction xs rule: oks.induct) auto

lemma set_uniq [simp]: "set (uniq xs) = set xs"
  by (simp add: uniq_def)

text \<open>The descriptors of the system apps keep their type.\<close>

lemma prepare_system_type:
  "prepare_system pu pn ft eff pub td s = Ok td' \<Longrightarrow> td_type td' = td_type td"
proof -
  have "with_search_url pu pn ft td s = Ok (x, td1) \<Longrightarrow> td_type td1 = td_type td" for x td1
    by (auto simp: with_search_url_def Let_def split: if_split_asm sum.split_asm)
  then have "prepare_marketplace pu pn ft eff pub td s = Ok td' \<Longrightarrow> td_type td' = td_type td"
    by (auto simp: prepare_marketplace_def with_selectors_def Let_def
        split: response.split_asm prod.split_asm if_split_asm option.split_asm)
  then show "prepare_system pu pn ft eff pub td s = Ok td' \<Longrightarrow> td_type td' = td_type td"
    by (auto simp: prepare_system_def split: response.split_asm if_split_asm)
qed

text \<open>The app of the type that a stored descriptor has.\<close>

lemma system_descriptor_app:
  assumes "bounty_descriptor env org raw s = Ok checked"
    and "system_descriptor benv eff pub checked s = Ok td"
  shows "map_option td_type td = map_option (td_type \<circ> fst) checked \<and>
    (case td of None \<Rightarrow> checked = None
     | Some d \<Rightarrow> td_type d \<noteq> [] \<and> task_app org (td_type d) s = Ok (snd (the checked)))"
proof (cases checked)
  case None
  with assms show ?thesis by (simp add: system_descriptor_def)
next
  case (Some p)
  then obtain d app where p: "checked = Some (d, app)" by (cases p) simp
  with assms(1) have d: "td_type d \<noteq> []" "task_app org (td_type d) s = Ok app"
    by (auto simp: bounty_descriptor_def check_bounty_descriptor_type
        split: option.split_asm response.split_asm)
  from assms(2) p obtain d' where "td = Some d'" "td_type d' = td_type d"
    by (auto simp: system_descriptor_def prepare_system_type split: if_split_asm response.split_asm)
  with d p show ?thesis by simp
qed

lemma task_app_Ok: "task_app org ty s = Ok app \<Longrightarrow> getAppByTaskType ty s = Some app"
  by (auto simp: task_app_def split: option.split_asm if_split_asm)

text \<open>The origins the route takes from the app are the ones that publication accepts later.\<close>

lemma public_origins_system:
  "ty \<noteq> [] \<Longrightarrow> getAppByTaskType ty s = Some app \<Longrightarrow>
     public_origins pu pn (Some app) = systemPublicOrigins pu pn ty s"
  by (simp add: public_origins_def systemPublicOrigins_def)

lemma bounty_payout_Ok:
  "bounty_payout m p = Ok n \<Longrightarrow> 0 < n \<and> (case m of Fin q \<Rightarrow> q \<le> of_int n | Infinity pos \<Rightarrow> \<not> pos | NaN \<Rightarrow> True)"
  by (auto simp: bounty_payout_def split: jsnum.split_asm jsnum.split if_split_asm)

text \<open>A bounty whose gates passed, and what its insertion leaves.\<close>

lemma effective_origins_Ok:
  assumes "effective_origins pu pn ft org raw public s = Ok eff"
  shows "eff \<noteq> [] \<and> (\<forall>x\<in>set eff. x \<in> set public \<or> originAllowed pu pn org x s) \<and>
    (\<forall>x\<in>set eff. x \<in> set public \<or> (\<exists>y. normalizeOrigin pu pn y = Inr x))"
proof -
  obtain buyer where buyer: "sequence_errs (map (\<lambda>x. normalizeOrigin pu pn (json_text ft x)) raw) = Inr buyer"
    and allowed: "list_all (\<lambda>x. originAllowed pu pn org x s) (filter (\<lambda>x. x \<notin> set public) buyer)"
    and eff: "eff = uniq (buyer @ public)" "eff \<noteq> []"
    using assms by (auto simp: effective_origins_def split: sum.split_asm if_split_asm)
  have "\<exists>y. normalizeOrigin pu pn y = Inr x" if "x \<in> set buyer" for x
  proof -
    from that sequence_errs_Inr [OF buyer]
    have "Inr x \<in> set (map (\<lambda>x. normalizeOrigin pu pn (json_text ft x)) raw)" by simp
    then obtain j where "normalizeOrigin pu pn (json_text ft j) = Inr x" by auto
    then show ?thesis ..
  qed
  with allowed eff show ?thesis by (auto simp: list_all_iff)
qed

lemma public_origins_normal:
  "x \<in> set (public_origins pu pn app) \<Longrightarrow> \<exists>y. normalizeOrigin pu pn y = Inr x"
  by (auto simp: public_origins_def set_oks image_iff split: option.split_asm if_split_asm)

lemma bounty_gates_Ok:
  assumes "bounty_gates env pr body s = Ok inp"
  obtains raw checked eff td n where
    "raw_origins body = Ok raw"
    "bounty_descriptor (be_descriptor env) (pr_orgId pr)
       (coalesce (bb_taskDescriptor body) (bb_task_descriptor body)) s = Ok checked"
    "effective_origins (be_parse env) (be_production env) (de_fracText (be_descriptor env)) (pr_orgId pr) raw
       (public_origins (be_parse env) (be_production env) (map_option snd checked)) s = Ok eff"
    "system_descriptor env eff (public_origins (be_parse env) (be_production env) (map_option snd checked))
       checked s = Ok td"
    "list_all (\<lambda>x. \<not> isl (assertUrlNotBlocked (be_parse env) x s)) eff"
    "bounty_payout (be_minPayout env) (raw_payout (de_fracText (be_descriptor env)) body) = Ok n"
    "inp = (bb_rest body)\<lparr>bi_allowedOrigins := eff, bi_payoutCents := Some n, bi_taskDescriptor := td,
       bi_orgId := pr_orgId pr\<rparr>"
  using assms
  by (auto simp: bounty_gates_def Let_def list_ex_iff list_all_iff split: if_split_asm response.split_asm)

lemma createBounty_row:
  assumes "createBounty pu pn w gen now inp s = Inr (b, s')"
  obtains row where "b = bountyFromRow row" "s' = s\<lparr>bounties := bounties s @ [row]\<rparr>"
    "sequence_errs (map (normalizeOrigin pu pn) (bi_allowedOrigins inp)) = Inr (b_allowed_origins row)"
    "b_org_id row = bi_orgId inp" "b_status row = BountyDraft"
    "b_payout_cents row = patched (bi_payoutCents inp) 1000" "b_task_descriptor row = bi_taskDescriptor inp"
  by (rule that [of "last (bounties s')"])
     (use assms in \<open>auto simp: createBounty_def Let_def split: sum.split_asm\<close>)

lemma normalized_fixed:
  assumes "origin_stable pu" and "\<And>x. x \<in> set xs \<Longrightarrow> \<exists>y. normalizeOrigin pu pn y = Inr x"
    and "sequence_errs (map (normalizeOrigin pu pn) xs) = Inr ys"
  shows "ys = xs"
proof -
  from sequence_errs_Inr [OF assms(3)] have eq: "map (normalizeOrigin pu pn) xs = map Inr ys" .
  from eq have len: "length ys = length xs" using map_eq_imp_length_eq by metis
  moreover have "ys ! i = xs ! i" if "i < length xs" for i
  proof -
    from eq that len have "normalizeOrigin pu pn (xs ! i) = Inr (ys ! i)"
      by (metis nth_map)
    with assms(2) [of "xs ! i"] that normalizeOrigin_idem [OF assms(1)] show ?thesis
      by (metis nth_mem)
  qed
  ultimately show ?thesis by (simp add: list_eq_iff_nth_eq)
qed

text \<open>Views that the insertion of a bounty and of an audit entry do not change.\<close>

lemma insertion_views [simp]:
  "originAllowed pu pn org x (writeAuditEvent i now a b c d e (s\<lparr>bounties := bs\<rparr>)) = originAllowed pu pn org x s"
  "systemPublicOrigins pu pn ty (writeAuditEvent i now a b c d e (s\<lparr>bounties := bs\<rparr>)) = systemPublicOrigins pu pn ty s"
  "assertUrlNotBlocked pu x (writeAuditEvent i now a b c d e (s\<lparr>bounties := bs\<rparr>)) = assertUrlNotBlocked pu x s"
  "task_app org ty (writeAuditEvent i now a b c d e (s\<lparr>bounties := bs\<rparr>)) = task_app org ty s"
  by (simp_all add: originAllowed_def systemPublicOrigins_def assertUrlNotBlocked_def isHostnameBlocked_def
      task_app_def getAppByTaskType_def with_supported_def supported_of_def writeAuditEvent_def
      cong: option.case_cong sum.case_cong)

text \<open>C17. Creating a bounty: when the route answers with a bounty, one draft of the organisation has
  been added, with a payout that is positive and at least the platform's minimum; it has origins,
  none of which is blocked and each of which is verified for the organisation or supported for its
  task type, so that the check of origins at publication passes; and its task type belongs to an
  enabled app of the organisation or of the platform.\<close>

theorem created_bounty_admissible:
  assumes "route_create_bounty env gen now pr body s = (Ok b, s')" and "origin_stable (be_parse env)"
  shows "\<exists>row. bounties s' = bounties s @ [row] \<and> b = bountyFromRow row \<and>
    b_org_id row = pr_orgId pr \<and> b_status row = BountyDraft \<and> 0 < b_payout_cents row \<and>
    (case be_minPayout env of Fin q \<Rightarrow> q \<le> of_int (b_payout_cents row) | Infinity pos \<Rightarrow> \<not> pos | NaN \<Rightarrow> True) \<and>
    b_allowed_origins row \<noteq> [] \<and>
    list_all (\<lambda>x. \<not> isl (assertUrlNotBlocked (be_parse env) x s')) (b_allowed_origins row) \<and>
    origins_verified (be_parse env) (be_production env) b s' \<and>
    (case b_task_descriptor row of None \<Rightarrow> True
     | Some td \<Rightarrow> \<exists>app. task_app (pr_orgId pr) (td_type td) s' = Ok app)"
proof -
  let ?pu = "be_parse env" and ?pn = "be_production env" and ?org = "pr_orgId pr"
  obtain inp where gates: "bounty_gates env pr body s = Ok inp"
    and stored: "store_bounty env gen now pr inp s = (Ok b, s')"
    using assms(1) by (auto simp: route_create_bounty_def split: response.split_asm)
  from gates obtain raw checked eff td n where
    checked: "bounty_descriptor (be_descriptor env) ?org
       (coalesce (bb_taskDescriptor body) (bb_task_descriptor body)) s = Ok checked"
    and eff: "effective_origins ?pu ?pn (de_fracText (be_descriptor env)) ?org raw
       (public_origins ?pu ?pn (map_option snd checked)) s = Ok eff"
    and td: "system_descriptor env eff (public_origins ?pu ?pn (map_option snd checked)) checked s = Ok td"
    and blocked: "list_all (\<lambda>x. \<not> isl (assertUrlNotBlocked ?pu x s)) eff"
    and payout: "bounty_payout (be_minPayout env) (raw_payout (de_fracText (be_descriptor env)) body) = Ok n"
    and inp: "inp = (bb_rest body)\<lparr>bi_allowedOrigins := eff, bi_payoutCents := Some n, bi_taskDescriptor := td,
       bi_orgId := ?org\<rparr>"
    by (elim bounty_gates_Ok)
  obtain s1 where new: "createBounty ?pu ?pn (be_disputeWindow env) gen now inp s = Inr (b, s1)"
    and s': "s' = writeAuditEvent (gen 1) now ''buyer_api_key'' (pr_apiKeyId pr) ''bounty.create'' ''bounty'' (bo_id b) s1"
    using stored by (auto simp: store_bounty_def split: sum.split_asm if_split_asm)
  from new obtain row where row: "b = bountyFromRow row" "s1 = s\<lparr>bounties := bounties s @ [row]\<rparr>"
    and norm: "sequence_errs (map (normalizeOrigin ?pu ?pn) (bi_allowedOrigins inp)) = Inr (b_allowed_origins row)"
    and cols: "b_org_id row = bi_orgId inp" "b_status row = BountyDraft"
      "b_payout_cents row = patched (bi_payoutCents inp) 1000" "b_task_descriptor row = bi_taskDescriptor inp"
    by (elim createBounty_row)
  note facts = effective_origins_Ok [OF eff]
  have "\<exists>y. normalizeOrigin ?pu ?pn y = Inr x" if "x \<in> set eff" for x
    using that facts public_origins_normal by blast
  moreover from norm inp have "sequence_errs (map (normalizeOrigin ?pu ?pn) eff) = Inr (b_allowed_origins row)"
    by simp
  ultimately have orig: "b_allowed_origins row = eff" by (rule normalized_fixed [OF assms(2)])
  note app = system_descriptor_app [OF checked td]
  have public: "public_origins ?pu ?pn (map_option snd checked) =
      systemPublicOrigins ?pu ?pn (case td of None \<Rightarrow> [] | Some d \<Rightarrow> td_type d) s"
    using app by (cases checked)
      (auto simp: public_origins_def systemPublicOrigins_def dest!: task_app_Ok split: option.split_asm)
  have "origins_verified ?pu ?pn b s'"
    using facts public cols inp
    by (auto simp: origins_verified_def s' row(2) list_all_iff row(1) bountyFromRow_def orig)
  moreover have "case b_task_descriptor row of None \<Rightarrow> True | Some d \<Rightarrow> \<exists>a. task_app ?org (td_type d) s' = Ok a"
    using app cols(4) inp by (auto simp: s' row(2) split: option.splits)
  moreover have "list_all (\<lambda>x. \<not> isl (assertUrlNotBlocked ?pu x s')) (b_allowed_origins row)"
    using blocked by (simp add: s' row(2) orig)
  moreover have "bounties s' = bounties s @ [row]" by (simp add: s' row(2) writeAuditEvent_def)
  ultimately show ?thesis
    using bounty_payout_Ok [OF payout] facts cols inp row(1) by (auto simp: orig patched_def)
qed

definition example_request_env :: bounty_env where
  "example_request_env = \<lparr> be_parse = toy_parse, be_production = True, be_disputeWindow = None,
     be_minPayout = Fin 100, be_descriptor = \<lparr> de_enabled = None, de_maxBytes = Fin 16000,
       de_maxDepth = Fin 6, de_flowGate = True, de_allowValueEnv = False, de_uiMaxBytes = Fin 32000,
       de_fracText = \<lambda>_. ''0.5'' \<rparr> \<rparr>"

definition example_buyer :: principal where
  "example_buyer = \<lparr> pr_orgId = ''victim'', pr_userId = None, pr_role = None, pr_sessionId = None,
     pr_apiKeyId = Some ''k'' \<rparr>"

definition example_bounty_body :: bounty_body where
  "example_bounty_body = \<lparr> bb_allowedOrigins = Some (JArr [JStr ''https://a.example'']), bb_allowed_origins = None,
     bb_taskDescriptor = None, bb_task_descriptor = None, bb_payoutCents = None, bb_payout_cents = Some (JNum (Fin 250)),
     bb_rest = \<lparr> bi_orgId = [], bi_title = ''t'', bi_description = ''d'', bi_allowedOrigins = [], bi_journey = None,
       bi_payoutCents = None, bi_coveragePayoutCents = None, bi_requiredProofs = None,
       bi_fingerprintClasses = None, bi_priority = None, bi_disputeWindowSec = None, bi_tags = None,
       bi_taskDescriptor = None \<rparr> \<rparr>"

theorem created_bounty_admissible_witness:
  "\<exists>b s' row. route_create_bounty example_request_env (\<lambda>_. ''b'') 0 example_buyer example_bounty_body
       (empty_db\<lparr>origins := [toy_origin]\<rparr>) = (Ok b, s') \<and>
     bounties s' = [row] \<and> b_payout_cents row > 0 \<and> b_org_id row = ''victim'' \<and>
     origins_verified toy_parse True b s'"
proof -
  let ?s = "empty_db\<lparr>origins := [toy_origin]\<rparr>"
  have eff: "effective_origins toy_parse True f ''victim'' [JStr ''https://a.example''] [] ?s = Ok [''https://a.example'']"
    for f
    by (simp add: effective_origins_def normalizeOrigin_def toy_parse_def originAllowed_def toy_origin_def uniq_def)
  have free: "assertUrlNotBlocked pu x ?s = Inr ()" for pu x
    by (simp add: assertUrlNotBlocked_def isHostnameBlocked_def empty_db_def Let_def split: option.split)
  obtain b s' where run: "route_create_bounty example_request_env (\<lambda>_. ''b'') 0 example_buyer example_bounty_body ?s = (Ok b, s')"
    by (simp add: route_create_bounty_def bounty_gates_def example_request_env_def example_buyer_def
        example_bounty_body_def raw_origins_def coalesce_def bounty_descriptor_def public_origins_def eff
        system_descriptor_def free bounty_payout_def raw_payout_def json_number_def int4_def store_bounty_def
        createBounty_def normalizeOrigin_def toy_parse_def Let_def)
  have "origin_stable toy_parse" by (simp add: origin_stable_def toy_parse_def)
  with created_bounty_admissible [OF run] run show ?thesis
    by (auto simp: example_request_env_def example_buyer_def empty_db_def)
qed

end
