(* ===== verification/BuyerRoutes.thy ===== *)
theory BuyerRoutes
  imports Intake
begin

text \<open>
  The remaining routes of buyers, workers and administrators in \<open>src/src/server.ts\<close> that change state
  outside the life of a job: the app registry and its moderation, origin requests and their review,
  disputes, API keys of a session, blocked domains, and the registration of workers. The last
  sections show that a revoked key is refused, and that moderation does not hold.
\<close>

section \<open>Actors and roles\<close>

definition buyer_actor :: "principal \<Rightarrow> string \<times> string option" where
  "buyer_actor pr =
     (if truthy (pr_sessionId pr) then (''buyer_session'', pr_sessionId pr)
      else (''buyer_api_key'', if pr_sessionId pr = None then pr_apiKeyId pr else pr_sessionId pr))"

text \<open>Requests with an API key have no role and pass.\<close>

definition may_administer :: "principal \<Rightarrow> bool" where
  "may_administer pr \<longleftrightarrow> truthy (pr_role pr) \<longrightarrow> the (pr_role pr) \<in> {''owner'', ''admin''}"

definition buyer_audit :: "string \<Rightarrow> int \<Rightarrow> principal \<Rightarrow> string \<Rightarrow> string \<Rightarrow> string \<Rightarrow> db \<Rightarrow> db" where
  "buyer_audit rid now pr action target tid s =
     writeAuditEvent rid now (fst (buyer_actor pr)) (snd (buyer_actor pr)) action target tid s"

definition admin_event :: "string \<Rightarrow> int \<Rightarrow> string \<Rightarrow> string \<Rightarrow> string \<Rightarrow> db \<Rightarrow> db" where
  "admin_event rid now action target tid s = writeAuditEvent rid now ''admin_token'' None action target tid s"

section \<open>The app registry\<close>

text \<open>A dashboard is a path of this host or a web address; blank means none.\<close>

definition dashboard_url :: "url_parser \<Rightarrow> string option \<Rightarrow> string option response" where
  "dashboard_url parse_url raw =
     (case raw of
        None \<Rightarrow> Ok None
      | Some r \<Rightarrow>
          let t = trim r
          in if t = [] then Ok None
             else if startsWith t ''/'' then Ok (Some t)
             else (case parse_url t of
                 None \<Rightarrow> Reject 400 ''invalid''
               | Some u \<Rightarrow>
                   if u_protocol u \<notin> {''http:'', ''https:''} then Reject 400 ''invalid''
                   else Ok (Some (u_href u))))"

definition app_descriptor :: "descriptor_env \<Rightarrow> string \<Rightarrow> json option \<Rightarrow> json response" where
  "app_descriptor env taskType raw =
     (if nullish raw then Ok (JObj [])
      else (case check_descriptor env (\<lambda>td. td_type td = taskType) (the raw) of
          Reject c e \<Rightarrow> Reject c e | Ok td \<Rightarrow> Ok (descriptor_json td)))"

definition app_ui :: "descriptor_env \<Rightarrow> json option \<Rightarrow> json response" where
  "app_ui env raw = (if nullish raw then Ok (JObj []) else check_uiSchema env (the raw))"

text \<open>\<open>POST /api/org/apps\<close>. The unique indexes are the only way for the insertion to fail.\<close>

definition route_app_create ::
    "bounty_env \<Rightarrow> (nat \<Rightarrow> string) \<Rightarrow> int \<Rightarrow> principal \<Rightarrow> app_input \<Rightarrow> db \<Rightarrow> app_obj response \<times> db" where
  "route_app_create env gen now pr body s =
     (let taskType = trim (ai_taskType body)
      in if \<not> may_administer pr then (Reject 403 ''forbidden'', s)
         else (case dashboard_url (be_parse env) (ai_dashboardUrl body) of
             Reject c e \<Rightarrow> (Reject c e, s)
           | Ok dash \<Rightarrow>
         (case app_descriptor (be_descriptor env) taskType (ai_defaultDescriptor body) of
             Reject c e \<Rightarrow> (Reject c e, s)
           | Ok descr \<Rightarrow>
         (case app_ui (be_descriptor env) (ai_uiSchema body) of
             Reject c e \<Rightarrow> (Reject c e, s)
           | Ok ui \<Rightarrow>
         (case createOrgApp gen now (pr_orgId pr)
                 \<lparr> ai_slug = trim (ai_slug body), ai_taskType = taskType, ai_name = trim (ai_name body),
                   ai_description = ai_description body, ai_dashboardUrl = dash,
                   ai_public = Some (patched (ai_public body) True), ai_defaultDescriptor = Some descr,
                   ai_uiSchema = Some ui \<rparr> s of
             Inl _ \<Rightarrow> (Reject 409 ''conflict'', s)
           | Inr (app, s1) \<Rightarrow>
               (Ok app, buyer_audit (gen 1) now pr ''app.create'' ''app'' (aj_id app) s1))))))"

text \<open>The descriptor of an update is compared with the task type only when both are given.\<close>

definition patch_descriptor :: "descriptor_env \<Rightarrow> string option \<Rightarrow> json option \<Rightarrow> json option response" where
  "patch_descriptor env taskType raw =
     (case raw of
        None \<Rightarrow> Ok None
      | Some j \<Rightarrow>
          (case check_descriptor env (\<lambda>_. True) j of
             Reject c e \<Rightarrow> Reject c e
           | Ok td \<Rightarrow>
               if truthy taskType \<and> Some (td_type td) \<noteq> taskType then Reject 400 ''invalid''
               else Ok (Some (descriptor_json td))))"

definition patch_ui :: "descriptor_env \<Rightarrow> json option \<Rightarrow> json option response" where
  "patch_ui env raw =
     (case raw of
        None \<Rightarrow> Ok None
      | Some j \<Rightarrow> (case check_uiSchema env j of Reject c e \<Rightarrow> Reject c e | Ok ui \<Rightarrow> Ok (Some ui)))"

definition patch_dashboard :: "url_parser \<Rightarrow> string option option \<Rightarrow> string option option response" where
  "patch_dashboard parse_url raw =
     (case raw of
        None \<Rightarrow> Ok None
      | Some r \<Rightarrow> (case dashboard_url parse_url r of Reject c e \<Rightarrow> Reject c e | Ok d \<Rightarrow> Ok (Some d)))"

text \<open>\<open>PATCH /api/org/apps/:appId\<close>. The owner may set the status, too.\<close>

definition route_app_update ::
    "bounty_env \<Rightarrow> (nat \<Rightarrow> string) \<Rightarrow> int \<Rightarrow> principal \<Rightarrow> string \<Rightarrow> app_patch \<Rightarrow> db \<Rightarrow> app_obj response \<times> db" where
  "route_app_update env gen now pr appId body s =
     (let taskType = map_option trim (ax_taskType body)
      in if \<not> may_administer pr then (Reject 403 ''forbidden'', s)
         else (case patch_dashboard (be_parse env) (ax_dashboardUrl body) of
             Reject c e \<Rightarrow> (Reject c e, s)
           | Ok dash \<Rightarrow>
         (case patch_descriptor (be_descriptor env) taskType (ax_defaultDescriptor body) of
             Reject c e \<Rightarrow> (Reject c e, s)
           | Ok descr \<Rightarrow>
         (case patch_ui (be_descriptor env) (ax_uiSchema body) of
             Reject c e \<Rightarrow> (Reject c e, s)
           | Ok ui \<Rightarrow>
         (case updateOrgApp now (pr_orgId pr) appId
                 (body\<lparr>ax_slug := map_option trim (ax_slug body), ax_taskType := taskType,
                       ax_name := map_option trim (ax_name body), ax_dashboardUrl := dash,
                       ax_defaultDescriptor := descr, ax_uiSchema := ui\<rparr>) s of
             Inl _ \<Rightarrow> (Reject 409 ''conflict'', s)
           | Inr (None, s1) \<Rightarrow> (Reject 404 ''not_found'', s1)
           | Inr (Some app, s1) \<Rightarrow> (Ok app, buyer_audit (gen 0) now pr ''app.update'' ''app'' appId s1))))))"

definition route_admin_app_status ::
    "string \<Rightarrow> int \<Rightarrow> string \<Rightarrow> string \<Rightarrow> db \<Rightarrow> app_obj response \<times> db" where
  "route_admin_app_status rid now appId status s =
     (case adminSetAppStatus now appId status s of
        (None, s1) \<Rightarrow> (Reject 404 ''not_found'', s1)
      | (Some app, s1) \<Rightarrow> (Ok app, admin_event rid now ''app.set_status'' ''app'' appId s1))"

section \<open>Origin requests\<close>

definition app_row :: "string \<Rightarrow> db \<Rightarrow> apps_row option" where
  "app_row appId s = find (\<lambda>r. ap_id r = appId) (apps s)"

definition route_supported_origins :: "string \<Rightarrow> db \<Rightarrow> string list response" where
  "route_supported_origins rawId s =
     (let appId = trim rawId
      in if appId = [] then Reject 400 ''invalid''
         else (case app_row appId s of
             Some r \<Rightarrow> if ap_status r = ''active'' then Ok (listSupportedOriginsForApp appId s)
                       else Reject 404 ''not_found''
           | None \<Rightarrow> Reject 404 ''not_found''))"

definition route_origin_requests :: "principal \<Rightarrow> string \<Rightarrow> db \<Rightarrow> origin_requests_row list response" where
  "route_origin_requests pr rawId s =
     (let appId = trim rawId
      in if appId = [] then Reject 400 ''invalid''
         else (case app_row appId s of
             None \<Rightarrow> Reject 404 ''not_found''
           | Some r \<Rightarrow>
               if ap_owner_org_id r \<noteq> ''org_system'' then Reject 400 ''invalid''
               else Ok (listAppOriginRequestsByOrg (pr_orgId pr) (Some appId) None None s)))"

text \<open>The origin a request names: a web origin, https in production, not blocked.\<close>

definition requested_origin :: "url_parser \<Rightarrow> bool \<Rightarrow> string \<Rightarrow> db \<Rightarrow> string response" where
  "requested_origin parse_url production raw s =
     (if trim raw = [] then Reject 400 ''invalid''
      else (case parse_url (trim raw) of
          None \<Rightarrow> Reject 400 ''invalid''
        | Some u \<Rightarrow>
            if u_protocol u \<notin> {''http:'', ''https:''} then Reject 400 ''invalid''
            else if production \<and> u_protocol u \<noteq> ''https:'' then Reject 400 ''invalid''
            else if isl (assertUrlNotBlocked parse_url (u_origin u) s) then Reject 403 ''blocked_domain''
            else Ok (u_origin u)))"

text \<open>\<open>POST /api/apps/:appId/origin-requests\<close>. An origin that does not normalise raises outside of
  the handlers of the route.\<close>

definition route_origin_request ::
    "bounty_env \<Rightarrow> (nat \<Rightarrow> string) \<Rightarrow> int \<Rightarrow> principal \<Rightarrow> string \<Rightarrow> string \<Rightarrow> string option \<Rightarrow> db \<Rightarrow>
     origin_requests_row option response \<times> db" where
  "route_origin_request env gen now pr rawId raw msg s =
     (let appId = trim rawId
      in if appId = [] then (Reject 400 ''invalid'', s)
         else (case app_row appId s of
             None \<Rightarrow> (Reject 404 ''not_found'', s)
           | Some r \<Rightarrow>
               if ap_status r \<noteq> ''active'' then (Reject 404 ''not_found'', s)
               else if ap_owner_org_id r \<noteq> ''org_system'' then (Reject 400 ''invalid'', s)
               else (case requested_origin (be_parse env) (be_production env) raw s of
                   Reject c e \<Rightarrow> (Reject c e, s)
                 | Ok orig \<Rightarrow>
                     (case createAppOriginRequest (be_parse env) (be_production env) gen now (pr_orgId pr)
                             appId orig msg s of
                        Inl _ \<Rightarrow> (Reject 500 ''internal'', s)
                      | Inr (rec, s1) \<Rightarrow>
                          (Ok rec, buyer_audit (gen 1) now pr ''app.origin_request.create''
                             ''app_origin_request'' (case rec of None \<Rightarrow> [] | Some q \<Rightarrow> aq_id q) s1)))))"

definition route_admin_review ::
    "string \<Rightarrow> int \<Rightarrow> string \<Rightarrow> string \<Rightarrow> string option \<Rightarrow> db \<Rightarrow> origin_requests_row response \<times> db" where
  "route_admin_review rid now rawId action notes s =
     (let reqId = trim rawId
      in if reqId = [] \<or> trim action \<notin> {''approve'', ''reject''} then (Reject 400 ''invalid'', s)
         else (case reviewAppOriginRequestAdmin now reqId (trim action = ''approve'') (Some ''admin_token'') notes s of
             Inl e \<Rightarrow> (Reject (if e = NotFound then 404 else 400) ''invalid'', s)
           | Inr (row, s1) \<Rightarrow>
               (Ok row, admin_event rid now ''app.origin_request.review'' ''app_origin_request'' reqId s1)))"

section \<open>Blocked domains\<close>

definition route_block_domain ::
    "url_parser \<Rightarrow> (nat \<Rightarrow> string) \<Rightarrow> int \<Rightarrow> string \<Rightarrow> string option \<Rightarrow> db \<Rightarrow>
     blocked_domains_row option response \<times> db" where
  "route_block_domain parse_url gen now domain reason s =
     (case upsertBlockedDomainAdmin parse_url gen now domain reason s of
        Inl _ \<Rightarrow> (Reject 400 ''invalid'', s)
      | Inr (rec, s1) \<Rightarrow>
          (Ok rec, admin_event (gen 1) now ''blocked_domain.upsert'' ''blocked_domain''
                     (case rec of None \<Rightarrow> [] | Some d \<Rightarrow> bd_id d) s1))"

definition route_unblock_domain :: "string \<Rightarrow> int \<Rightarrow> string \<Rightarrow> db \<Rightarrow> unit response \<times> db" where
  "route_unblock_domain rid now bid s =
     (case deleteBlockedDomainAdmin bid s of
        (False, s1) \<Rightarrow> (Reject 404 ''not_found'', s1)
      | (True, s1) \<Rightarrow> (Ok (), admin_event rid now ''blocked_domain.delete'' ''blocked_domain'' bid s1))"

section \<open>Disputes of a buyer\<close>

definition dispute_code :: "err \<Rightarrow> nat" where
  "dispute_code e =
     (if e = MissingTarget then 400 else if e = TargetNotFound then 404 else if e = Forbidden then 403
      else if e \<in> {PayoutAlreadyPaid, PayoutMissing, DisputeAlreadyOpen, DisputeWindowDisabled, DisputeWindowExpired}
      then 409 else 400)"

definition route_open_dispute ::
    "(nat \<Rightarrow> string) \<Rightarrow> int \<Rightarrow> principal \<Rightarrow> string option \<Rightarrow> string option \<Rightarrow> string \<Rightarrow> db \<Rightarrow>
     disputes_row response \<times> db" where
  "route_open_dispute gen now pr payoutId submissionId reason s =
     (case createDispute gen now (pr_orgId pr) payoutId submissionId reason (buyer_actor pr) s of
        Inl e \<Rightarrow> (Reject (dispute_code e) ''invalid'', s) | Inr (d, s1) \<Rightarrow> (Ok d, s1))"

definition route_cancel_dispute ::
    "(nat \<Rightarrow> string) \<Rightarrow> int \<Rightarrow> principal \<Rightarrow> string \<Rightarrow> db \<Rightarrow> disputes_row response \<times> db" where
  "route_cancel_dispute gen now pr did s =
     (case cancelDispute gen now (pr_orgId pr) did (buyer_actor pr) s of
        Inl e \<Rightarrow> (Reject (if e = NotFound then 404 else if e = Forbidden then 403 else if e = NotOpen then 409
                          else 400) ''invalid'', s)
      | Inr (d, s1) \<Rightarrow> (Ok d, s1))"

section \<open>API keys of a session\<close>

record key_view =
  kv_id :: string
  kv_name :: string
  kv_keyPrefix :: string
  kv_createdAt :: int
  kv_revokedAt :: "int option"
  kv_lastUsedAt :: "int option"

definition key_view_of :: "api_keys_row \<Rightarrow> key_view" where
  "key_view_of k = \<lparr> kv_id = ak_id k, kv_name = ak_name k, kv_keyPrefix = ak_key_prefix k,
     kv_createdAt = ak_created_at k, kv_revokedAt = ak_revoked_at k, kv_lastUsedAt = ak_last_used_at k \<rparr>"

definition route_list_keys :: "principal \<Rightarrow> db \<Rightarrow> key_view list response" where
  "route_list_keys pr s =
     (if \<not> truthy (pr_sessionId pr) then Reject 403 ''forbidden''
      else Ok (map key_view_of (order_desc ak_created_at
             (filter (\<lambda>k. ak_org_id k = pr_orgId pr) (org_api_keys s)))))"

definition route_session_key ::
    "auth_env \<Rightarrow> (nat \<Rightarrow> string) \<Rightarrow> int \<Rightarrow> principal \<Rightarrow> string option \<Rightarrow> db \<Rightarrow> (api_key_obj \<times> string) response \<times> db" where
  "route_session_key env gen now pr name s =
     (if \<not> truthy (pr_sessionId pr) then (Reject 403 ''forbidden'', s)
      else let (kt, s1) = createOrgApiKey (ae_crypto env) (ae_buyer_pepper env) (gen 0) (gen 1) now (pr_orgId pr)
                 (case name of None \<Rightarrow> ''portal'' | Some n \<Rightarrow> n) s
           in (Ok kt, writeAuditEvent (gen 2) now ''buyer_session'' (pr_sessionId pr) ''api_key.create''
                        ''org_api_key'' (ako_id (fst kt)) s1))"

definition route_revoke_key :: "string \<Rightarrow> int \<Rightarrow> principal \<Rightarrow> string \<Rightarrow> db \<Rightarrow> unit response \<times> db" where
  "route_revoke_key rid now pr kid s =
     (let mine = (\<lambda>k. ak_org_id k = pr_orgId pr \<and> ak_id k = kid);
          s1 = s\<lparr>org_api_keys := update_where mine (\<lambda>k. k\<lparr>ak_revoked_at := Some now\<rparr>) (org_api_keys s)\<rparr>
      in if \<not> truthy (pr_sessionId pr) then (Reject 403 ''forbidden'', s)
         else if \<not> list_ex mine (org_api_keys s) then (Reject 404 ''not_found'', s1)
         else (Ok (), writeAuditEvent rid now ''buyer_session'' (pr_sessionId pr) ''api_key.revoke''
                 ''org_api_key'' kid s1))"

section \<open>Workers\<close>

definition route_worker_register ::
    "(string \<Rightarrow> string) \<Rightarrow> (nat \<Rightarrow> string) \<Rightarrow> int \<Rightarrow> string \<Rightarrow> string option \<Rightarrow> (string \<times> json) list \<Rightarrow> db \<Rightarrow>
     (string \<times> string) response \<times> db" where
  "route_worker_register hmac gen now ip displayName capabilities s =
     (case rateLimit (''worker_register:ip:'' @ ip) 30 now s of
        Inl _ \<Rightarrow> (Reject 500 ''internal'', s)
      | Inr (False, s1) \<Rightarrow> (Reject 429 ''rate_limited'', s1)
      | Inr (True, s1) \<Rightarrow>
          (let ((worker, token), s2) = createWorker hmac gen now displayName capabilities s1
           in (Ok (wo_id worker, token), s2)))"

record worker_view =
  wv_worker :: worker_obj
  wv_chain :: "string option"
  wv_address :: "string option"
  wv_verifiedAt :: "int option"

definition route_worker_me :: "worker_obj \<Rightarrow> db \<Rightarrow> worker_view" where
  "route_worker_me worker s =
     (let row = find (\<lambda>r. wk_id r = wo_id worker) (workers s)
      in \<lparr> wv_worker = worker, wv_chain = Option.bind row wk_payout_chain,
           wv_address = Option.bind row wk_payout_address,
           wv_verifiedAt = Option.bind row wk_payout_address_verified_at \<rparr>)"

definition route_heartbeat :: "int \<Rightarrow> worker_obj \<Rightarrow> db \<Rightarrow> string \<times> db" where
  "route_heartbeat now worker s = (wo_id worker, touchWorkerLastSeen (wo_id worker) now s)"

text \<open>The message a worker signs to register its payout address.\<close>

definition route_address_message ::
    "(string \<Rightarrow> string option) \<Rightarrow> worker_obj \<Rightarrow> string \<Rightarrow> string \<Rightarrow> (string \<times> string) response" where
  "route_address_message getAddress worker chain address =
     (if chain \<noteq> ''base'' then Reject 400 ''invalid''
      else (case getAddress address of
          None \<Rightarrow> Reject 400 ''invalid''
        | Some normalized \<Rightarrow>
            Ok (normalized, ''Proofwork payout address verification'' @ [CHR 0x0A] @ ''workerId='' @ wo_id worker @
                  [CHR 0x0A] @ ''chain='' @ chain @ [CHR 0x0A] @ ''address='' @ normalized)))"

section \<open>Revoked keys\<close>

text \<open>Revocation is effective and confined to the organisation: after a session has revoked a key,
  a request that bears a token which only that key matches is refused, and the keys of every other
  organisation are as before.\<close>

theorem revoked_key_refused:
  assumes "route_revoke_key rid now pr kid s = (Ok (), s1)" and "bearer rq = Some token"
    and "\<And>k. k \<in> set (org_api_keys s) \<Longrightarrow> key_matches (ae_crypto env) (ae_buyer_pepper env) token k \<Longrightarrow>
           ak_id k = kid \<and> ak_org_id k = pr_orgId pr"
  shows "key_access env t rq s1 = (Reject 401 ''unauthorized'', s1) \<and>
    filter (\<lambda>k. ak_org_id k \<noteq> pr_orgId pr) (org_api_keys s1) =
    filter (\<lambda>k. ak_org_id k \<noteq> pr_orgId pr) (org_api_keys s)"
proof -
  let ?mine = "\<lambda>k. ak_org_id k = pr_orgId pr \<and> ak_id k = kid"
  have keys: "org_api_keys s1 = update_where ?mine (\<lambda>k. k\<lparr>ak_revoked_at := Some now\<rparr>) (org_api_keys s)"
    using assms(1) by (auto simp: route_revoke_key_def Let_def writeAuditEvent_def split: if_split_asm)
  have "\<not> key_matches (ae_crypto env) (ae_buyer_pepper env) token k" if "k \<in> set (org_api_keys s1)" for k
  proof -
    from that obtain q where q: "q \<in> set (org_api_keys s)"
      "k = (if ?mine q then q\<lparr>ak_revoked_at := Some now\<rparr> else q)"
      unfolding keys in_set_update_where by blast
    show ?thesis
    proof (cases "?mine q")
      case True
      with q(2) show ?thesis by (simp add: key_matches_def)
    next
      case False
      with q assms(3) [OF q(1)] show ?thesis by auto
    qed
  qed
  then have "find (key_matches (ae_crypto env) (ae_buyer_pepper env) token) (org_api_keys s1) = None"
    by (simp add: find_None_iff)
  then have "key_access env t rq s1 = (Reject 401 ''unauthorized'', s1)"
    by (simp add: key_access_def assms(2) getApiKey_def)
  moreover have "filter (\<lambda>k. ak_org_id k \<noteq> pr_orgId pr) (update_where ?mine (\<lambda>k. k\<lparr>ak_revoked_at := Some now\<rparr>) ks) =
      filter (\<lambda>k. ak_org_id k \<noteq> pr_orgId pr) ks" for ks
    by (induction ks) auto
  ultimately show ?thesis by (simp add: keys)
qed

theorem revoked_key_refused_witness:
  "\<exists>s1. route_revoke_key ''e'' 9 \<lparr> pr_orgId = ''o'', pr_userId = None, pr_role = None, pr_sessionId = Some ''s'',
       pr_apiKeyId = None \<rparr> ''k'' toy_key_store = (Ok (), s1) \<and>
     key_access toy_env 10 toy_key_request s1 = (Reject 401 ''unauthorized'', s1)"
proof -
  let ?pr = "\<lparr> pr_orgId = ''o'', pr_userId = None, pr_role = None, pr_sessionId = Some ''s'', pr_apiKeyId = None \<rparr>"
  obtain s1 where run: "route_revoke_key ''e'' 9 ?pr ''k'' toy_key_store = (Ok (), s1)"
    by (simp add: route_revoke_key_def toy_key_store_def Let_def)
  have "bearer toy_key_request = Some ''tok''"
    by (simp add: bearer_def toy_key_request_def trim_def is_space_def)
  moreover have "ak_id k = ''k'' \<and> ak_org_id k = pr_orgId ?pr" if "k \<in> set (org_api_keys toy_key_store)" for k
    using that by (simp add: toy_key_store_def)
  ultimately show ?thesis using revoked_key_refused [OF run, of toy_key_request "''tok''" toy_env 10] run by blast
qed

section \<open>Moderation of apps\<close>

definition status_patch :: "string \<Rightarrow> app_patch" where
  "status_patch st = \<lparr> ax_slug = None, ax_taskType = None, ax_name = None, ax_description = None,
     ax_dashboardUrl = None, ax_public = None, ax_status = Some st, ax_defaultDescriptor = None, ax_uiSchema = None \<rparr>"

lemma status_patch_fields [simp]:
  "ax_slug (status_patch st) = None" "ax_taskType (status_patch st) = None" "ax_name (status_patch st) = None"
  "ax_description (status_patch st) = None" "ax_dashboardUrl (status_patch st) = None"
  "ax_public (status_patch st) = None" "ax_status (status_patch st) = Some st"
  "ax_defaultDescriptor (status_patch st) = None" "ax_uiSchema (status_patch st) = None"
  by (simp_all add: status_patch_def)

lemma find_update_where_same:
  "find P t = Some r \<Longrightarrow> (\<And>x. P (f x) = P x) \<Longrightarrow> find P (update_where P f t) = Some (f r)"
  by (induction t) (auto split: if_split_asm)

text \<open>The moderation of apps does not hold: after an administrator has disabled an app, its owner
  can enable it again with a plain update of the status, and requests for its task type are
  admitted again.\<close>

theorem owner_undoes_moderation:
  assumes "route_admin_app_status rid now appId ''disabled'' s = (Ok a, s1)"
    and "aj_ownerOrgId a = pr_orgId pr" and "may_administer pr"
  shows "aj_status a = ''disabled'' \<and>
    (\<exists>b s2. route_app_update env gen now' pr appId (status_patch ''active'') s1 = (Ok b, s2) \<and>
            aj_id b = appId \<and> aj_status b = ''active'')"
proof -
  let ?dis = "\<lambda>r. r\<lparr>ap_status := ''disabled'', ap_updated_at := now\<rparr>"
  let ?t = "update_where (\<lambda>r. ap_id r = appId) ?dis (apps s)"
  from assms(1) obtain r where r: "find (\<lambda>r. ap_id r = appId) ?t = Some r" and a: "a = appFromRow r"
    and apps1: "apps s1 = ?t"
    by (auto simp: route_admin_app_status_def adminSetAppStatus_def admin_event_def writeAuditEvent_def Let_def
        split: option.split_asm)
  from r have "r \<in> set ?t" "ap_id r = appId" by (auto dest!: find_SomeD)
  then obtain q where "r = (if ap_id q = appId then ?dis q else q)" by (auto simp: in_set_update_where)
  with \<open>ap_id r = appId\<close> have dis: "ap_status r = ''disabled''" by (cases "ap_id q = appId") simp_all
  let ?mine = "\<lambda>r. ap_id r = appId \<and> ap_owner_org_id r = pr_orgId pr"
  have "?mine r" using \<open>ap_id r = appId\<close> a assms(2) by (simp add: appFromRow_def)
  with \<open>r \<in> set ?t\<close> have "find ?mine ?t \<noteq> None" unfolding find_None_iff by blast
  then obtain r' where r': "find ?mine ?t = Some r'" by blast
  define p where "p = apply_app_patch now' ((status_patch ''active'')\<lparr>ax_slug := None, ax_taskType := None, ax_name := None,
     ax_dashboardUrl := None, ax_defaultDescriptor := None, ax_uiSchema := None\<rparr>)"
  have p: "ap_id (p x) = ap_id x \<and> ap_owner_org_id (p x) = ap_owner_org_id x \<and> ap_status (p x) = ''active''" for x
    by (simp add: p_def apply_app_patch_def status_patch_def patched_def)
  have upd: "updateOrgApp now' (pr_orgId pr) appId ((status_patch ''active'')\<lparr>ax_slug := None, ax_taskType := None,
      ax_name := None, ax_dashboardUrl := None, ax_defaultDescriptor := None, ax_uiSchema := None\<rparr>) s1 =
      Inr (Some (appFromRow (p r')), s1\<lparr>apps := update_where ?mine p ?t\<rparr>)"
    using find_update_where_same [OF r', of p] p
    by (simp add: updateOrgApp_def Let_def apps1 p_def status_patch_def)
  have "ap_id r' = appId" using r' by (auto dest!: find_SomeD)
  then have "aj_id (appFromRow (p r')) = appId" "aj_status (appFromRow (p r')) = ''active''"
    using p [of r'] by (simp_all add: appFromRow_def)
  moreover have "fst (route_app_update env gen now' pr appId (status_patch ''active'') s1) = Ok (appFromRow (p r'))"
    using assms(3) by (simp add: route_app_update_def patch_dashboard_def patch_descriptor_def patch_ui_def Let_def upd)
  ultimately have "\<exists>b s2. route_app_update env gen now' pr appId (status_patch ''active'') s1 = (Ok b, s2) \<and>
      aj_id b = appId \<and> aj_status b = ''active''"
    by (metis prod.collapse)
  with dis a show ?thesis by (simp add: appFromRow_def)
qed

theorem owner_undoes_moderation_witness:
  "\<exists>a s1 b s2. route_admin_app_status ''e'' 5 ''a1'' ''disabled'' (empty_db\<lparr>apps := [example_app]\<rparr>) = (Ok a, s1) \<and>
     aj_status a = ''disabled'' \<and>
     route_app_update example_request_env (\<lambda>_. ''x'') 6 (example_buyer\<lparr>pr_orgId := ''org_system''\<rparr>) ''a1''
       (status_patch ''active'') s1 = (Ok b, s2) \<and> aj_status b = ''active''"
proof -
  obtain a s1 where run: "route_admin_app_status ''e'' 5 ''a1'' ''disabled'' (empty_db\<lparr>apps := [example_app]\<rparr>) = (Ok a, s1)"
    and own: "aj_ownerOrgId a = ''org_system''"
    by (simp add: route_admin_app_status_def adminSetAppStatus_def example_app_def appFromRow_def Let_def)
  show ?thesis
    using owner_undoes_moderation [OF run, of "example_buyer\<lparr>pr_orgId := ''org_system''\<rparr>" example_request_env "\<lambda>_. ''x''" 6]
      run own by (auto simp: may_administer_def example_buyer_def)
qed

end
