(* ===== verification/Settings.thy ===== *)
theory Settings
  imports BuyerRoutes Payouts
begin

text \<open>
  Settings of an organisation and the search by id: platform fee, browser origins and quotas
  (\<open>src/src/server.ts\<close>, \<open>src/src/store.ts\<close>), and the three \<open>resolve\<close> operations behind the search box
  of the portals. A settings body has passed the schema of its route except for the range of the fee,
  which both the schema and the handler test. The last sections show what fee settings mean for
  payouts, and that the search of an organisation sees nothing but its own objects.
\<close>

section \<open>Platform fee\<close>

record fee_settings =
  fs_orgId :: string
  fs_bps :: int
  fs_wallet :: "string option"

definition fee_settings_of :: "orgs_row \<Rightarrow> fee_settings" where
  "fee_settings_of o' = \<lparr> fs_orgId = org_id o', fs_bps = org_platform_fee_bps o',
     fs_wallet = org_platform_fee_wallet_address o' \<rparr>"

definition getOrgPlatformFeeSettings :: "string \<Rightarrow> db \<Rightarrow> fee_settings option" where
  "getOrgPlatformFeeSettings org s = map_option fee_settings_of (org_row org s)"

definition update_org :: "string \<Rightarrow> (orgs_row \<Rightarrow> orgs_row) \<Rightarrow> db \<Rightarrow> db" where
  "update_org org f s = s\<lparr>orgs := update_where (\<lambda>o'. org_id o' = org) f (orgs s)\<rparr>"

definition setOrgPlatformFeeSettings ::
    "string \<Rightarrow> int \<Rightarrow> string option \<Rightarrow> db \<Rightarrow> fee_settings option \<times> db" where
  "setOrgPlatformFeeSettings org bps wallet s =
     (let s1 = update_org org (\<lambda>o'. o'\<lparr>org_platform_fee_bps := bps, org_platform_fee_wallet_address := wallet\<rparr>) s
      in (map_option fee_settings_of (org_row org s1), s1))"

definition route_get_fee :: "principal \<Rightarrow> db \<Rightarrow> fee_settings response" where
  "route_get_fee pr s =
     (case getOrgPlatformFeeSettings (pr_orgId pr) s of
        None \<Rightarrow> Reject 404 ''not_found'' | Some x \<Rightarrow> Ok x)"

text \<open>\<open>getAddress\<close> (of \<open>ethers\<close>) returns the checksummed form of a valid address. A blank wallet is none.\<close>

definition fee_wallet :: "(string \<Rightarrow> string option) \<Rightarrow> string option \<Rightarrow> string option response" where
  "fee_wallet getAddress raw =
     (case raw of
        None \<Rightarrow> Ok None
      | Some w \<Rightarrow>
          if trim w = [] then Ok None
          else (case getAddress (trim w) of None \<Rightarrow> Reject 400 ''invalid'' | Some a \<Rightarrow> Ok (Some a)))"

text \<open>\<open>PUT /api/org/platform-fee\<close>; \<open>max_env\<close> is \<open>MAX_ORG_PLATFORM_FEE_BPS\<close>. The body's fee is an
  integer.\<close>

definition max_org_fee :: "jsnum option \<Rightarrow> rat option" where
  "max_org_fee max_env =
     (case (case max_env of None \<Rightarrow> Fin 5000 | Some x \<Rightarrow> x) of
        Fin m \<Rightarrow> if 0 \<le> m \<and> m \<le> 10000 then Some m else None
      | _ \<Rightarrow> None)"

definition route_put_fee ::
    "(string \<Rightarrow> string option) \<Rightarrow> jsnum option \<Rightarrow> string \<Rightarrow> int \<Rightarrow> principal \<Rightarrow> int \<Rightarrow> string option \<Rightarrow> db \<Rightarrow>
     fee_settings response \<times> db" where
  "route_put_fee getAddress max_env rid now pr bps walletRaw s =
     (if bps < 0 \<or> bps > 10000 then (Reject 400 ''internal'', s)
      else if \<not> may_administer pr then (Reject 403 ''forbidden'', s)
      else (case max_org_fee max_env of
          None \<Rightarrow> (Reject 500 ''misconfigured'', s)
        | Some m \<Rightarrow>
            if of_int bps > m then (Reject 400 ''invalid'', s)
            else (case fee_wallet getAddress walletRaw of
                Reject c e \<Rightarrow> (Reject c e, s)
              | Ok wallet \<Rightarrow>
                  if bps > 0 \<and> \<not> truthy wallet then (Reject 400 ''invalid'', s)
                  else (case setOrgPlatformFeeSettings (pr_orgId pr) bps wallet s of
                      (None, s1) \<Rightarrow> (Reject 404 ''not_found'', s1)
                    | (Some x, s1) \<Rightarrow>
                        (Ok x, buyer_audit rid now pr ''org.platform_fee.update'' ''org'' (pr_orgId pr) s1)))))"

section \<open>Browser origins\<close>

text \<open>The column is an array of strings; the reader drops empty ones.\<close>

definition getOrgCorsAllowOrigins :: "string \<Rightarrow> db \<Rightarrow> string list option" where
  "getOrgCorsAllowOrigins org s =
     map_option (\<lambda>o'. filter (\<lambda>x. x \<noteq> []) (org_cors_allow_origins o')) (org_row org s)"

definition setOrgCorsAllowOrigins :: "string \<Rightarrow> string list \<Rightarrow> db \<Rightarrow> string list option \<times> db" where
  "setOrgCorsAllowOrigins org origs s =
     (let s1 = update_org org (\<lambda>o'. o'\<lparr>org_cors_allow_origins := origs\<rparr>) s
      in (getOrgCorsAllowOrigins org s1, s1))"

text \<open>Every browser origin of any organisation, for preflight requests.\<close>

definition listAllCorsAllowOrigins :: "db \<Rightarrow> string list" where
  "listAllCorsAllowOrigins s = filter (\<lambda>x. x \<noteq> []) (remdups (concat (map org_cors_allow_origins (orgs s))))"

definition route_get_cors :: "principal \<Rightarrow> db \<Rightarrow> string list response" where
  "route_get_cors pr s =
     (case getOrgCorsAllowOrigins (pr_orgId pr) s of None \<Rightarrow> Reject 404 ''not_found'' | Some x \<Rightarrow> Ok x)"

text \<open>Blank entries are skipped, the others must be web addresses; only their origin is kept.\<close>

fun clean_origins :: "url_parser \<Rightarrow> string list \<Rightarrow> string list response" where
  "clean_origins parse_url [] = Ok []"
| "clean_origins parse_url (x # xs) =
     (if trim x = [] then clean_origins parse_url xs
      else (case parse_url (trim x) of
          None \<Rightarrow> Reject 400 ''invalid''
        | Some u \<Rightarrow>
            if u_protocol u \<notin> {''http:'', ''https:''} then Reject 400 ''invalid''
            else (case clean_origins parse_url xs of Reject c e \<Rightarrow> Reject c e | Ok os \<Rightarrow> Ok (u_origin u # os))))"

text \<open>\<open>Array.from(new Set(xs))\<close> keeps the first occurrence of each element.\<close>

definition first_occurrences :: "'a list \<Rightarrow> 'a list" where
  "first_occurrences xs = rev (remdups (rev xs))"

definition route_put_cors ::
    "url_parser \<Rightarrow> string \<Rightarrow> int \<Rightarrow> principal \<Rightarrow> string list \<Rightarrow> db \<Rightarrow> string list response \<times> db" where
  "route_put_cors parse_url rid now pr raw s =
     (if \<not> may_administer pr then (Reject 403 ''forbidden'', s)
      else (case clean_origins parse_url raw of
          Reject c e \<Rightarrow> (Reject c e, s)
        | Ok cleaned \<Rightarrow>
            let uniq = first_occurrences cleaned
            in if length uniq > 100 then (Reject 400 ''invalid'', s)
               else (case setOrgCorsAllowOrigins (pr_orgId pr) uniq s of
                   (None, s1) \<Rightarrow> (Reject 404 ''not_found'', s1)
                 | (Some x, s1) \<Rightarrow>
                     (Ok x, buyer_audit rid now pr ''org.cors_allow_origins.update'' ''org'' (pr_orgId pr) s1))))"

section \<open>Quotas\<close>

record quotas =
  qt_orgId :: string
  qt_daily :: "int option"
  qt_monthly :: "int option"
  qt_maxOpenJobs :: "int option"

definition quotas_of :: "orgs_row \<Rightarrow> quotas" where
  "quotas_of o' = \<lparr> qt_orgId = org_id o', qt_daily = org_daily_spend_limit_cents o',
     qt_monthly = org_monthly_spend_limit_cents o', qt_maxOpenJobs = org_max_open_jobs o' \<rparr>"

definition getOrgQuotaSettings :: "string \<Rightarrow> db \<Rightarrow> quotas option" where
  "getOrgQuotaSettings org s = map_option quotas_of (org_row org s)"

text \<open>\<open>None\<close>: the body does not name the quota; \<open>Some None\<close> lifts it.\<close>

record quota_patch =
  qx_daily :: "int option option"
  qx_monthly :: "int option option"
  qx_maxOpenJobs :: "int option option"

definition column_fits :: "int option option \<Rightarrow> bool" where
  "column_fits x = (case x of Some (Some n) \<Rightarrow> int4 n | _ \<Rightarrow> True)"

text \<open>An empty patch makes an \<open>UPDATE\<close> without assignments, which Postgres rejects.\<close>

definition setOrgQuotaSettings :: "string \<Rightarrow> quota_patch \<Rightarrow> db \<Rightarrow> err + quotas option \<times> db" where
  "setOrgQuotaSettings org x s =
     (if qx_daily x = None \<and> qx_monthly x = None \<and> qx_maxOpenJobs x = None then Inl (OtherError ''syntax error'')
      else if \<not> column_fits (qx_daily x) \<or> \<not> column_fits (qx_monthly x) \<or> \<not> column_fits (qx_maxOpenJobs x)
      then Inl IntegerOutOfRange
      else let s1 = update_org org (\<lambda>o'. o'\<lparr>
               org_daily_spend_limit_cents := patched (qx_daily x) (org_daily_spend_limit_cents o'),
               org_monthly_spend_limit_cents := patched (qx_monthly x) (org_monthly_spend_limit_cents o'),
               org_max_open_jobs := patched (qx_maxOpenJobs x) (org_max_open_jobs o')\<rparr>) s
           in Inr (getOrgQuotaSettings org s1, s1))"

definition route_get_quotas :: "principal \<Rightarrow> db \<Rightarrow> quotas response" where
  "route_get_quotas pr s =
     (case getOrgQuotaSettings (pr_orgId pr) s of None \<Rightarrow> Reject 404 ''not_found'' | Some x \<Rightarrow> Ok x)"

definition route_put_quotas :: "string \<Rightarrow> int \<Rightarrow> principal \<Rightarrow> quota_patch \<Rightarrow> db \<Rightarrow> quotas response \<times> db" where
  "route_put_quotas rid now pr x s =
     (if \<not> may_administer pr then (Reject 403 ''forbidden'', s)
      else (case setOrgQuotaSettings (pr_orgId pr) x s of
          Inl _ \<Rightarrow> (Reject 500 ''internal'', s)
        | Inr (None, s1) \<Rightarrow> (Reject 404 ''not_found'', s1)
        | Inr (Some q, s1) \<Rightarrow> (Ok q, buyer_audit rid now pr ''org.quotas.update'' ''org'' (pr_orgId pr) s1)))"

section \<open>Search by id\<close>

fun bounty_status_text :: "bounty_status \<Rightarrow> string" where
  "bounty_status_text BountyDraft = ''draft''"
| "bounty_status_text BountyPublished = ''published''"
| "bounty_status_text BountyPaused = ''paused''"
| "bounty_status_text BountyClosed = ''closed''"

fun job_status_text :: "job_status \<Rightarrow> string" where
  "job_status_text JobOpen = ''open''"
| "job_status_text JobClaimed = ''claimed''"
| "job_status_text JobSubmitted = ''submitted''"
| "job_status_text JobVerifying = ''verifying''"
| "job_status_text JobDone = ''done''"
| "job_status_text JobExpired = ''expired''"
| "job_status_text JobCancelled = ''cancelled''"

fun submission_status_text :: "submission_status \<Rightarrow> string" where
  "submission_status_text SubSubmitted = ''submitted''"
| "submission_status_text SubValidated = ''validated''"
| "submission_status_text SubQueued = ''queued''"
| "submission_status_text SubVerifying = ''verifying''"
| "submission_status_text SubAccepted = ''accepted''"
| "submission_status_text SubFailed = ''failed''"
| "submission_status_text SubInconclusive = ''inconclusive''"
| "submission_status_text SubDuplicate = ''duplicate''"
| "submission_status_text SubBlocked = ''blocked''"

fun payout_status_text :: "payout_status \<Rightarrow> string" where
  "payout_status_text PayoutPending = ''pending''"
| "payout_status_text PayoutPaid = ''paid''"
| "payout_status_text PayoutFailed = ''failed''"
| "payout_status_text PayoutRefunded = ''refunded''"

fun dispute_status_text :: "dispute_status \<Rightarrow> string" where
  "dispute_status_text DisputeOpen = ''open''"
| "dispute_status_text DisputeResolved = ''resolved''"
| "dispute_status_text DisputeCancelled = ''cancelled''"

fun artifact_status_text :: "artifact_status \<Rightarrow> string" where
  "artifact_status_text ArtPresigned = ''presigned''"
| "artifact_status_text ArtUploaded = ''uploaded''"
| "artifact_status_text ArtScanned = ''scanned''"
| "artifact_status_text ArtAccepted = ''accepted''"
| "artifact_status_text ArtBlocked = ''blocked''"
| "artifact_status_text ArtScanFailed = ''scan_failed''"
| "artifact_status_text ArtDeleted = ''deleted''"

fun verification_status_text :: "verification_status \<Rightarrow> string" where
  "verification_status_text VerQueued = ''queued''"
| "verification_status_text VerInProgress = ''in_progress''"
| "verification_status_text VerFinished = ''finished''"

fun verdict_text :: "verdict \<Rightarrow> string" where
  "verdict_text Pass = ''pass''"
| "verdict_text Fail = ''fail''"
| "verdict_text Inconclusive = ''inconclusive''"

fun worker_status_text :: "worker_status \<Rightarrow> string" where
  "worker_status_text WorkerActive = ''active''"
| "worker_status_text WorkerRateLimited = ''rate_limited''"
| "worker_status_text WorkerBanned = ''banned''"

text \<open>What a search answers: nothing, or the type of the object and some of its columns.\<close>

datatype resolved = NothingFound | Resolved string "(string \<times> json) list"

definition normalizeResolveId :: "string \<Rightarrow> string" where
  "normalizeResolveId i = take 200 (trim i)"

text \<open>Searches are tried in order; \<open>isoText\<close> is \<open>toISOString\<close>.\<close>

definition first_hit :: "resolved option list \<Rightarrow> resolved" where
  "first_hit xs = (case filter (\<lambda>x. x \<noteq> None) xs of Some r # _ \<Rightarrow> r | _ \<Rightarrow> NothingFound)"

definition payout_meta :: "(int \<Rightarrow> string) \<Rightarrow> payouts_row \<Rightarrow> (string \<times> json) list" where
  "payout_meta isoText p =
     [(''status'', JStr (payout_status_text (p_status p))), (''blockedReason'', json_opt (p_blocked_reason p)),
      (''holdUntil'', json_opt (map_option isoText (p_hold_until p)))]"

definition dispute_meta :: "disputes_row \<Rightarrow> (string \<times> json) list" where
  "dispute_meta d =
     [(''submissionId'', json_opt (d_submission_id d)), (''payoutId'', json_opt (d_payout_id d)),
      (''status'', JStr (dispute_status_text (d_status d))), (''resolution'', json_opt (d_resolution d))]"

definition job_meta :: "jobs_row \<Rightarrow> (string \<times> json) list" where
  "job_meta j = [(''bountyId'', JStr (j_bounty_id j)), (''status'', JStr (job_status_text (j_status j)))]"

definition resolveIdAdmin :: "(int \<Rightarrow> string) \<Rightarrow> string \<Rightarrow> db \<Rightarrow> resolved" where
  "resolveIdAdmin isoText raw s =
     (let i = normalizeResolveId raw
      in if i = [] then NothingFound
         else first_hit
           [map_option (\<lambda>a. Resolved ''app'' [(''slug'', JStr (ap_slug a)), (''taskType'', JStr (ap_task_type a))])
              (find (\<lambda>a. ap_id a = i) (apps s)),
            map_option (\<lambda>b. Resolved ''bounty'' [(''orgId'', JStr (b_org_id b)), (''title'', JStr (b_title b))])
              (find (\<lambda>b. b_id b = i) (bounties s)),
            map_option (\<lambda>j. Resolved ''job'' (job_meta j)) (find (\<lambda>j. j_id j = i) (jobs s)),
            map_option (\<lambda>x. Resolved ''submission'' [(''jobId'', JStr (s_job_id x)), (''workerId'', JStr (s_worker_id x)),
                (''status'', JStr (submission_status_text (s_status x)))])
              (find (\<lambda>x. s_id x = i) (submissions s)),
            map_option (\<lambda>p. Resolved ''payout'' ([(''submissionId'', JStr (p_submission_id p)),
                (''workerId'', JStr (p_worker_id p))] @ payout_meta isoText p))
              (find (\<lambda>p. p_id p = i) (payouts s)),
            map_option (\<lambda>d. Resolved ''dispute'' ((''orgId'', JStr (d_org_id d)) # dispute_meta d))
              (find (\<lambda>d. d_id d = i) (disputes s)),
            map_option (\<lambda>a. Resolved ''artifact'' [(''submissionId'', json_opt (a_submission_id a)),
                (''jobId'', json_opt (a_job_id a)), (''workerId'', json_opt (a_worker_id a)), (''kind'', JStr (a_kind a)),
                (''status'', JStr (artifact_status_text (a_status a)))])
              (find (\<lambda>a. a_id a = i) (artifacts s)),
            map_option (\<lambda>r. Resolved ''origin'' [(''orgId'', JStr (or_org_id r)), (''origin'', JStr (or_origin r)),
                (''status'', JStr (or_status r))])
              (find (\<lambda>r. or_id r = i) (origins s)),
            map_option (\<lambda>v. Resolved ''verification'' [(''submissionId'', JStr (v_submission_id v)),
                (''attemptNo'', JNum (Fin (of_int (v_attempt_no v)))),
                (''status'', JStr (verification_status_text (v_status v))),
                (''verdict'', json_opt (map_option verdict_text (v_verdict v)))])
              (find (\<lambda>v. v_id v = i) (verifications s)),
            map_option (\<lambda>w. Resolved ''worker'' [(''displayName'', json_opt (wk_display_name w)),
                (''status'', JStr (worker_status_text (wk_status w)))])
              (find (\<lambda>w. wk_id w = i) (workers s)),
            map_option (\<lambda>a. Resolved ''alarm_notification'' [(''environment'', JStr (an_environment a)),
                (''alarmName'', json_opt (an_alarm_name a))])
              (find (\<lambda>a. an_id a = i) (alarm_notifications s))])"

text \<open>The inner joins from a submission to the organisation of its bounty.\<close>

definition bounty_of_org :: "string \<Rightarrow> db \<Rightarrow> string \<Rightarrow> bool" where
  "bounty_of_org org s bid = list_ex (\<lambda>b. b_id b = bid \<and> b_org_id b = org) (bounties s)"

definition job_of_org :: "string \<Rightarrow> db \<Rightarrow> string \<Rightarrow> bool" where
  "job_of_org org s jid = list_ex (\<lambda>j. j_id j = jid \<and> bounty_of_org org s (j_bounty_id j)) (jobs s)"

definition sub_of_org :: "string \<Rightarrow> db \<Rightarrow> string \<Rightarrow> bool" where
  "sub_of_org org s sid = list_ex (\<lambda>x. s_id x = sid \<and> job_of_org org s (s_job_id x)) (submissions s)"

definition artifact_of_org :: "string \<Rightarrow> db \<Rightarrow> artifacts_row \<Rightarrow> bool" where
  "artifact_of_org org s a = (case a_job_id a of None \<Rightarrow> False | Some j \<Rightarrow> job_of_org org s j)"

definition resolveIdOrg :: "(int \<Rightarrow> string) \<Rightarrow> string \<Rightarrow> string \<Rightarrow> db \<Rightarrow> resolved" where
  "resolveIdOrg isoText org raw s =
     (let i = normalizeResolveId raw
      in if i = [] then NothingFound
         else first_hit
           [map_option (\<lambda>a. Resolved ''app'' [(''slug'', JStr (ap_slug a)), (''taskType'', JStr (ap_task_type a))])
              (find (\<lambda>a. ap_id a = i \<and> ap_owner_org_id a = org) (apps s)),
            map_option (\<lambda>r. Resolved ''origin'' [(''origin'', JStr (or_origin r)), (''status'', JStr (or_status r))])
              (find (\<lambda>r. or_id r = i \<and> or_org_id r = org) (origins s)),
            map_option (\<lambda>b. Resolved ''bounty'' [(''title'', JStr (b_title b)), (''status'', JStr (bounty_status_text (b_status b)))])
              (find (\<lambda>b. b_id b = i \<and> b_org_id b = org) (bounties s)),
            map_option (\<lambda>j. Resolved ''job'' (job_meta j))
              (find (\<lambda>j. j_id j = i \<and> bounty_of_org org s (j_bounty_id j)) (jobs s)),
            map_option (\<lambda>x. Resolved ''submission'' [(''jobId'', JStr (s_job_id x)), (''workerId'', JStr (s_worker_id x)),
                (''status'', JStr (submission_status_text (s_status x)))])
              (find (\<lambda>x. s_id x = i \<and> job_of_org org s (s_job_id x)) (submissions s)),
            map_option (\<lambda>p. Resolved ''payout'' (payout_meta isoText p))
              (find (\<lambda>p. p_id p = i \<and> sub_of_org org s (p_submission_id p)) (payouts s)),
            map_option (\<lambda>d. Resolved ''dispute'' (dispute_meta d))
              (find (\<lambda>d. d_id d = i \<and> d_org_id d = org) (disputes s)),
            map_option (\<lambda>a. Resolved ''artifact'' [(''kind'', JStr (a_kind a)), (''status'', JStr (artifact_status_text (a_status a)))])
              (find (\<lambda>a. a_id a = i \<and> artifact_of_org org s a) (artifacts s))])"

text \<open>A job is visible to the worker that holds its lease or has submitted for it.\<close>

definition resolveIdWorker :: "(int \<Rightarrow> string) \<Rightarrow> string \<Rightarrow> string \<Rightarrow> db \<Rightarrow> resolved" where
  "resolveIdWorker isoText wid raw s =
     (let i = normalizeResolveId raw
      in if i = [] then NothingFound
         else if i = wid then Resolved ''worker'' [(''workerId'', JStr wid)]
         else first_hit
           [map_option (\<lambda>x. Resolved ''submission'' [(''jobId'', JStr (s_job_id x)),
                (''status'', JStr (submission_status_text (s_status x)))])
              (find (\<lambda>x. s_id x = i \<and> s_worker_id x = wid) (submissions s)),
            map_option (\<lambda>p. Resolved ''payout'' (payout_meta isoText p))
              (find (\<lambda>p. p_id p = i \<and> p_worker_id p = wid) (payouts s)),
            map_option (\<lambda>a. Resolved ''artifact'' [(''kind'', JStr (a_kind a)), (''status'', JStr (artifact_status_text (a_status a)))])
              (find (\<lambda>a. a_id a = i \<and> a_worker_id a = Some wid) (artifacts s)),
            map_option (\<lambda>j. Resolved ''job'' (job_meta j))
              (find (\<lambda>j. j_id j = i \<and> j_lease_worker_id j = Some wid) (jobs s)),
            if list_ex (\<lambda>x. s_job_id x = i \<and> s_worker_id x = wid) (submissions s)
            then map_option (\<lambda>j. Resolved ''job'' (job_meta j)) (find (\<lambda>j. j_id j = i) (jobs s))
            else None])"

text \<open>The three routes differ in the search and in the page they link to.\<close>

definition route_resolve ::
    "string \<Rightarrow> (string \<Rightarrow> resolved) \<Rightarrow> string option \<Rightarrow> (resolved \<times> string option) response" where
  "route_resolve page search q =
     (let i = trim (case q of None \<Rightarrow> [] | Some x \<Rightarrow> x)
      in if i = [] then Reject 400 ''invalid''
         else (case search i of
             NothingFound \<Rightarrow> Ok (NothingFound, None)
           | Resolved ty meta \<Rightarrow> Ok (Resolved ty meta, Some (page @ ''?id='' @ encodeURIComponent i))))"

definition admin_resolve_route ::
    "(int \<Rightarrow> string) \<Rightarrow> string option \<Rightarrow> db \<Rightarrow> (resolved \<times> string option) response" where
  "admin_resolve_route isoText q s = route_resolve ''/admin/explorer.html'' (\<lambda>i. resolveIdAdmin isoText i s) q"

definition org_resolve_route ::
    "(int \<Rightarrow> string) \<Rightarrow> principal \<Rightarrow> string option \<Rightarrow> db \<Rightarrow> (resolved \<times> string option) response" where
  "org_resolve_route isoText pr q s =
     route_resolve ''/buyer/explorer.html'' (\<lambda>i. resolveIdOrg isoText (pr_orgId pr) i s) q"

definition worker_resolve_route ::
    "(int \<Rightarrow> string) \<Rightarrow> worker_obj \<Rightarrow> string option \<Rightarrow> db \<Rightarrow> (resolved \<times> string option) response" where
  "worker_resolve_route isoText w q s =
     route_resolve ''/worker/explorer.html'' (\<lambda>i. resolveIdWorker isoText (wo_id w) i s) q"

section \<open>The search of an organisation sees its own objects only\<close>

text \<open>The store as an organisation may see it: its apps, origins, bounties and disputes, and the jobs,
  submissions, payouts and artifacts of its bounties.\<close>

definition org_rows :: "string \<Rightarrow> db \<Rightarrow> db" where
  "org_rows org s = empty_db\<lparr>
     apps := filter (\<lambda>a. ap_owner_org_id a = org) (apps s),
     origins := filter (\<lambda>r. or_org_id r = org) (origins s),
     bounties := filter (\<lambda>b. b_org_id b = org) (bounties s),
     jobs := filter (\<lambda>j. bounty_of_org org s (j_bounty_id j)) (jobs s),
     submissions := filter (\<lambda>x. job_of_org org s (s_job_id x)) (submissions s),
     payouts := filter (\<lambda>p. sub_of_org org s (p_submission_id p)) (payouts s),
     disputes := filter (\<lambda>d. d_org_id d = org) (disputes s),
     artifacts := filter (artifact_of_org org s) (artifacts s)\<rparr>"

lemma org_rows_tables [simp]:
  "apps (org_rows org s) = filter (\<lambda>a. ap_owner_org_id a = org) (apps s)"
  "origins (org_rows org s) = filter (\<lambda>r. or_org_id r = org) (origins s)"
  "bounties (org_rows org s) = filter (\<lambda>b. b_org_id b = org) (bounties s)"
  "jobs (org_rows org s) = filter (\<lambda>j. bounty_of_org org s (j_bounty_id j)) (jobs s)"
  "submissions (org_rows org s) = filter (\<lambda>x. job_of_org org s (s_job_id x)) (submissions s)"
  "payouts (org_rows org s) = filter (\<lambda>p. sub_of_org org s (p_submission_id p)) (payouts s)"
  "disputes (org_rows org s) = filter (\<lambda>d. d_org_id d = org) (disputes s)"
  "artifacts (org_rows org s) =
     filter (artifact_of_org org s) (artifacts s)"
  by (simp_all add: org_rows_def)

lemma find_filtered: "find P (filter Q xs) = find (\<lambda>x. P x \<and> Q x) xs"
  by (induction xs) auto

lemma list_ex_filter: "list_ex P (filter Q xs) = list_ex (\<lambda>x. P x \<and> Q x) xs"
  by (induction xs) auto

lemma org_rows_owner [simp]:
  "bounty_of_org org (org_rows org s) bid = bounty_of_org org s bid"
  "job_of_org org (org_rows org s) jid = job_of_org org s jid"
  "sub_of_org org (org_rows org s) sid = sub_of_org org s sid"
  "artifact_of_org org (org_rows org s) a = artifact_of_org org s a"
proof -
  show b: "bounty_of_org org (org_rows org s) bid = bounty_of_org org s bid" for bid
    by (auto simp: bounty_of_org_def list_ex_filter)
  show j: "job_of_org org (org_rows org s) jid = job_of_org org s jid" for jid
    by (simp add: job_of_org_def [of org "org_rows org s"] job_of_org_def [of org s] b list_ex_filter conj_ac)
  show "sub_of_org org (org_rows org s) sid = sub_of_org org s sid"
    by (simp add: sub_of_org_def [of org "org_rows org s"] sub_of_org_def [of org s] j list_ex_filter conj_ac)
  show "artifact_of_org org (org_rows org s) a = artifact_of_org org s a"
    by (simp add: artifact_of_org_def j split: option.split)
qed

text \<open>The store as a worker may see it: its submissions, payouts and artifacts, and the jobs it holds or
  has submitted for.\<close>

definition worker_rows :: "string \<Rightarrow> db \<Rightarrow> db" where
  "worker_rows wid s = empty_db\<lparr>
     submissions := filter (\<lambda>x. s_worker_id x = wid) (submissions s),
     payouts := filter (\<lambda>p. p_worker_id p = wid) (payouts s),
     artifacts := filter (\<lambda>a. a_worker_id a = Some wid) (artifacts s),
     jobs := filter (\<lambda>j. j_lease_worker_id j = Some wid \<or>
               list_ex (\<lambda>x. s_job_id x = j_id j \<and> s_worker_id x = wid) (submissions s)) (jobs s)\<rparr>"

lemma worker_rows_tables [simp]:
  "submissions (worker_rows wid s) = filter (\<lambda>x. s_worker_id x = wid) (submissions s)"
  "payouts (worker_rows wid s) = filter (\<lambda>p. p_worker_id p = wid) (payouts s)"
  "artifacts (worker_rows wid s) = filter (\<lambda>a. a_worker_id a = Some wid) (artifacts s)"
  "jobs (worker_rows wid s) = filter (\<lambda>j. j_lease_worker_id j = Some wid \<or>
     list_ex (\<lambda>x. s_job_id x = j_id j \<and> s_worker_id x = wid) (submissions s)) (jobs s)"
  by (simp_all add: worker_rows_def)

lemma org_search_confined:
  "resolveIdOrg isoText org raw s = resolveIdOrg isoText org raw (org_rows org s)"
  by (simp add: resolveIdOrg_def Let_def find_filtered conj_assoc)

lemma find_cong_on: "(\<And>x. P x = Q x) \<Longrightarrow> find P xs = find Q xs"
  by (induction xs) auto

lemma worker_search_confined:
  "resolveIdWorker isoText wid raw s = resolveIdWorker isoText wid raw (worker_rows wid s)"
proof -
  let ?i = "normalizeResolveId raw"
  let ?seen = "\<lambda>j. j_lease_worker_id j = Some wid \<or> list_ex (\<lambda>x. s_job_id x = j_id j \<and> s_worker_id x = wid) (submissions s)"
  have leased: "find (\<lambda>j. j_id j = ?i \<and> j_lease_worker_id j = Some wid) (filter ?seen (jobs s)) =
      find (\<lambda>j. j_id j = ?i \<and> j_lease_worker_id j = Some wid) (jobs s)"
    unfolding find_filtered by (rule find_cong_on) auto
  have done_for: "find (\<lambda>j. j_id j = ?i) (filter ?seen (jobs s)) = find (\<lambda>j. j_id j = ?i) (jobs s)"
    if "list_ex (\<lambda>x. s_job_id x = ?i \<and> s_worker_id x = wid) (submissions s)"
    unfolding find_filtered by (rule find_cong_on) (use that in auto)
  show ?thesis
    by (simp add: resolveIdWorker_def Let_def find_filtered [of _ "\<lambda>x. s_worker_id x = wid"]
        find_filtered [of _ "\<lambda>p. p_worker_id p = wid"] find_filtered [of _ "\<lambda>a. a_worker_id a = Some wid"]
        list_ex_filter conj_assoc leased done_for)
qed

text \<open>The search of a portal reveals nothing about others: whatever id is asked for, the answer to an
  organisation, including the choice among objects with the same id, is the one computed from its own
  apps, origins, bounties and disputes and what belongs to its bounties, and the answer to a worker the
  one computed from its own work.\<close>

theorem search_confined:
  "org_resolve_route isoText pr q s = org_resolve_route isoText pr q (org_rows (pr_orgId pr) s) \<and>
   worker_resolve_route isoText w q s = worker_resolve_route isoText w q (worker_rows (wo_id w) s)"
proof
  have "(\<lambda>i. resolveIdOrg isoText (pr_orgId pr) i s) = (\<lambda>i. resolveIdOrg isoText (pr_orgId pr) i (org_rows (pr_orgId pr) s))"
    by (rule ext) (rule org_search_confined)
  then show "org_resolve_route isoText pr q s = org_resolve_route isoText pr q (org_rows (pr_orgId pr) s)"
    by (simp only: org_resolve_route_def)
  have "(\<lambda>i. resolveIdWorker isoText (wo_id w) i s) = (\<lambda>i. resolveIdWorker isoText (wo_id w) i (worker_rows (wo_id w) s))"
    by (rule ext) (rule worker_search_confined)
  then show "worker_resolve_route isoText w q s = worker_resolve_route isoText w q (worker_rows (wo_id w) s)"
    by (simp only: worker_resolve_route_def)
qed

section \<open>What fee settings mean for payouts\<close>

lemma route_put_fee_ok:
  assumes "route_put_fee getAddress max_env rid now pr bps raw s = (Ok x, s1)"
  obtains m w where "max_org_fee max_env = Some m" "of_int bps \<le> m" "0 \<le> bps" "bps > 0 \<longrightarrow> truthy w"
    "orgs s1 = update_where (\<lambda>o'. org_id o' = pr_orgId pr)
       (\<lambda>o'. o'\<lparr>org_platform_fee_bps := bps, org_platform_fee_wallet_address := w\<rparr>) (orgs s)"
    "bounties s1 = bounties s" "jobs s1 = jobs s" "submissions s1 = submissions s" "payouts s1 = payouts s"
proof -
  from assms obtain m w s2 where "max_org_fee max_env = Some m" "of_int bps \<le> m" "0 \<le> bps" "bps > 0 \<longrightarrow> truthy w"
    and upd: "setOrgPlatformFeeSettings (pr_orgId pr) bps w s = (Some x, s2)"
    and s1: "s1 = buyer_audit rid now pr ''org.platform_fee.update'' ''org'' (pr_orgId pr) s2"
    by (auto simp: route_put_fee_def split: if_split_asm option.split_asm response.split_asm prod.split_asm)
  moreover from upd have "s2 = update_org (pr_orgId pr)
      (\<lambda>o'. o'\<lparr>org_platform_fee_bps := bps, org_platform_fee_wallet_address := w\<rparr>) s"
    by (simp add: setOrgPlatformFeeSettings_def Let_def)
  ultimately show ?thesis
    by (intro that [of m w]) (simp_all add: buyer_audit_def writeAuditEvent_def update_org_def)
qed

lemma sub_org_after_update:
  assumes "orgs s1 = update_where (\<lambda>o'. org_id o' = org) f (orgs s)" and "\<And>o'. org_id (f o') = org_id o'"
    and "bounties s1 = bounties s" "jobs s1 = jobs s" "submissions s1 = submissions s"
  shows "sub_org sid s1 = map_option (\<lambda>o'. if org_id o' = org then f o' else o') (sub_org sid s)"
proof -
  have "org_row x s1 = map_option (\<lambda>o'. if org_id o' = org then f o' else o') (org_row x s)" for x
    unfolding org_row_def assms(1) using assms(2) by (intro find_update_where) simp
  then show ?thesis
    using assms(3-5) by (simp add: sub_org_def sub_bounty_def sub_job_def row_lookups split: bind_split)
qed

lemma floor_part_mono:
  fixes q :: rat
  assumes "0 \<le> q" "q \<le> 1" "x \<le> y"
  shows "x - \<lfloor>of_int x * q\<rfloor> \<le> y - \<lfloor>of_int y * q\<rfloor>"
proof -
  have "of_int (y - x) * q \<le> of_int (y - x)"
    using assms by (intro mult_left_le) simp_all
  then have "of_int y * q \<le> of_int x * q + of_int (y - x)" by (simp add: algebra_simps)
  then have "\<lfloor>of_int y * q\<rfloor> \<le> \<lfloor>of_int x * q + of_int (y - x)\<rfloor>" by (rule floor_mono)
  then show ?thesis by simp
qed

lemma higher_fee_lower_net:
  assumes "computePayoutSplitCents g a pw = Inr sp" "computePayoutSplitCents g b pw = Inr sp'" "a \<le> b"
  shows "netCents sp' \<le> netCents sp"
proof -
  note s = computePayoutSplitCents_Inr [OF assms(1)] and s' = computePayoutSplitCents_Inr [OF assms(2)]
  have "platformFeeCents sp \<le> platformFeeCents sp'"
    unfolding s(1) s'(1) by (rule floor_bps_mono) (use s(4) assms(3) in simp_all)
  then have "g - platformFeeCents sp' - \<lfloor>of_int (g - platformFeeCents sp') * (pw / 10000)\<rfloor> \<le>
      g - platformFeeCents sp - \<lfloor>of_int (g - platformFeeCents sp) * (pw / 10000)\<rfloor>"
    by (intro floor_part_mono) (use s(6) in \<open>simp_all add: bps_ok_def\<close>)
  then show ?thesis by (simp add: s(3) s'(3) s(2) s'(2))
qed



end
