(* ===== verification/Gate.thy ===== *)
theory Gate
  imports Settings Auth
begin

text \<open>
  What every request of \<open>src/src/server.ts\<close> passes before its handler: the fail-fast checks of the
  configuration, the hook that decides about foreign browser origins and plain HTTP, and the headers
  that are added to every response. The hook keeps three caches, of the organisation of a token, of the
  browser origins of an organisation and of all browser origins; they are part of the state here. The last section shows how stale a decision of the hook can be.
\<close>

record raw_request =
  rw_method :: string
  rw_url :: string
  rw_headers :: headers

section \<open>Configuration checks\<close>

record startup_env =
  su_production :: bool
  su_worker_pepper :: "string option"
  su_verifier_pepper :: string
  su_admin_pepper :: string
  su_verifier_hash :: "string option"
  su_verifier_token :: string
  su_admin_hash :: "string option"
  su_admin_token :: string

definition startup_check :: "startup_env \<Rightarrow> err + unit" where
  "startup_check e =
     (if \<not> su_production e then Inr ()
      else if su_worker_pepper e = None \<or> su_worker_pepper e = Some ''dev_pepper_change_me''
      then Inl (OtherError ''WORKER_TOKEN_PEPPER must be set in production'')
      else if su_verifier_pepper e = ''dev_pepper_change_me''
      then Inl (OtherError ''VERIFIER_TOKEN_PEPPER must be set in production'')
      else if su_admin_pepper e = ''dev_pepper_change_me''
      then Inl (OtherError ''ADMIN_TOKEN_PEPPER must be set in production'')
      else if \<not> truthy (su_verifier_hash e) \<and> su_verifier_token e = ''pw_vf_internal''
      then Inl (OtherError ''Set VERIFIER_TOKEN_HASH (and VERIFIER_TOKEN_PEPPER) in production'')
      else if \<not> truthy (su_admin_hash e) \<and> su_admin_token e = ''pw_adm_internal''
      then Inl (OtherError ''Set ADMIN_TOKEN_HASH (and ADMIN_TOKEN_PEPPER) in production'')
      else Inr ())"

record gate_env =
  gt_production :: bool
  gt_enforce_https :: "string option"
  gt_cors_origins :: "string option"
  gt_cache_ttl :: "jsnum option"
  gt_debug_headers :: "string option"
  gt_node_env :: string
  gt_crypto :: crypto
  gt_buyer_pepper :: string

definition enforceHttpsForApi :: "gate_env \<Rightarrow> bool" where
  "enforceHttpsForApi env =
     (let raw = toLowerCase (trim (or_blank (gt_enforce_https env)))
      in if raw \<in> {''false'', ''0'', ''no''} then False
         else if raw \<in> {''true'', ''1'', ''yes''} then True
         else gt_production env)"

section \<open>The hook\<close>

text \<open>A token's organisation, an organisation's origins and the union, each with its expiry.\<close>

record caches =
  ca_token :: "string \<rightharpoonup> string \<times> rat"
  ca_org :: "string \<rightharpoonup> string list \<times> rat"
  ca_union :: "string list \<times> rat"

definition cold_caches :: caches where
  "cold_caches = \<lparr> ca_token = Map.empty, ca_org = Map.empty, ca_union = ([], 0) \<rparr>"

text \<open>One second to ten minutes.\<close>

definition cache_ttl :: "gate_env \<Rightarrow> rat" where
  "cache_ttl env =
     (case (case gt_cache_ttl env of None \<Rightarrow> Fin 30000 | Some x \<Rightarrow> x) of
        Fin q \<Rightarrow> max 1000 (min 600000 q) | _ \<Rightarrow> 30000)"

definition resolveOrgIdFromBuyerToken ::
    "gate_env \<Rightarrow> int \<Rightarrow> string \<Rightarrow> caches \<Rightarrow> db \<Rightarrow> string option \<times> caches \<times> db" where
  "resolveOrgIdFromBuyerToken env now token c s =
     (case ca_token c token of
        Some (org, e) \<Rightarrow>
          if e > of_int now then (Some org, c, s)
          else (case getApiKey (gt_crypto env) (gt_buyer_pepper env) now token s of
              (None, s1) \<Rightarrow> (None, c, s1)
            | (Some k, s1) \<Rightarrow>
                (Some (ako_orgId k),
                 c\<lparr>ca_token := (ca_token c)(token \<mapsto> (ako_orgId k, of_int now + cache_ttl env))\<rparr>, s1))
      | None \<Rightarrow>
          (case getApiKey (gt_crypto env) (gt_buyer_pepper env) now token s of
              (None, s1) \<Rightarrow> (None, c, s1)
            | (Some k, s1) \<Rightarrow>
                (Some (ako_orgId k),
                 c\<lparr>ca_token := (ca_token c)(token \<mapsto> (ako_orgId k, of_int now + cache_ttl env))\<rparr>, s1)))"

definition read_org_origins :: "string \<Rightarrow> db \<Rightarrow> string list" where
  "read_org_origins org s = (case getOrgCorsAllowOrigins org s of None \<Rightarrow> [] | Some os \<Rightarrow> os)"

definition resolveOrgCorsOrigins :: "gate_env \<Rightarrow> int \<Rightarrow> string \<Rightarrow> caches \<Rightarrow> db \<Rightarrow> string list \<times> caches" where
  "resolveOrgCorsOrigins env now org c s =
     (case ca_org c org of
        Some (os, e) \<Rightarrow>
          if e > of_int now then (os, c)
          else (read_org_origins org s,
                c\<lparr>ca_org := (ca_org c)(org \<mapsto> (read_org_origins org s, of_int now + cache_ttl env))\<rparr>)
      | None \<Rightarrow>
          (read_org_origins org s,
           c\<lparr>ca_org := (ca_org c)(org \<mapsto> (read_org_origins org s, of_int now + cache_ttl env))\<rparr>))"

definition resolveUnionCorsOrigins :: "gate_env \<Rightarrow> int \<Rightarrow> caches \<Rightarrow> db \<Rightarrow> string list \<times> caches" where
  "resolveUnionCorsOrigins env now c s =
     (if snd (ca_union c) > of_int now then (fst (ca_union c), c)
      else (listAllCorsAllowOrigins s,
            c\<lparr>ca_union := (listAllCorsAllowOrigins s, of_int now + cache_ttl env)\<rparr>))"

text \<open>The hook answers itself (\<open>Sent\<close> a status code) or lets the request go on; the second component
  says whether the response carries the CORS headers.\<close>

datatype gate_result = Sent nat | Continue

definition global_origins :: "gate_env \<Rightarrow> string list" where
  "global_origins env = filter (\<lambda>x. x \<noteq> []) (map trim (split_on CHR '','' (or_blank (gt_cors_origins env))))"

definition server_origin :: "raw_request \<Rightarrow> string" where
  "server_origin rq =
     (let p = forwardedProtoFromHeaders (rw_headers rq); xf = first_value (rw_headers rq) ''x-forwarded-host'';
          host = (if xf \<noteq> [] then xf else first_value (rw_headers rq) ''host'')
      in if host = [] then [] else (if p = [] then ''http'' else p) @ ''://'' @ host)"

definition request_token :: "raw_request \<Rightarrow> string" where
  "request_token rq =
     (let a = or_blank (rw_headers rq ''authorization'') in if startsWith a ''Bearer '' then trim (drop 7 a) else [])"

definition is_buyer_token :: "string \<Rightarrow> bool" where
  "is_buyer_token t = startsWith t ''pw_bu_''"

definition api_path :: "raw_request \<Rightarrow> bool" where
  "api_path rq \<longleftrightarrow> startsWith (rw_url rq) ''/api'' \<and> \<not> startsWith (rw_url rq) ''/api/webhooks/''"

definition org_allows ::
    "gate_env \<Rightarrow> int \<Rightarrow> string \<Rightarrow> string \<Rightarrow> caches \<Rightarrow> db \<Rightarrow> bool \<times> caches \<times> db" where
  "org_allows env now token orig c s =
     (case resolveOrgIdFromBuyerToken env now token c s of
        (None, c1, s1) \<Rightarrow> (False, c1, s1)
      | (Some org, c1, s1) \<Rightarrow>
          if org = [] then (False, c1, s1)
          else let (os, c2) = resolveOrgCorsOrigins env now org c1 s1 in (orig \<in> set os, c2, s1))"

definition cors_stage ::
    "gate_env \<Rightarrow> int \<Rightarrow> raw_request \<Rightarrow> string \<Rightarrow> caches \<Rightarrow> db \<Rightarrow> (gate_result \<times> bool) \<times> caches \<times> db" where
  "cors_stage env now rq orig c s =
     (let token = request_token rq;
          own = orig = server_origin rq \<or> orig \<in> set (global_origins env);
          (allow, c1, s1) = (if \<not> own \<and> token \<noteq> [] \<and> is_buyer_token token
                             then org_allows env now token orig c s else (own, c, s))
      in if toLowerCase (rw_method rq) = ''options'' then
           (let (os, c2) = (if allow then ([], c1) else resolveUnionCorsOrigins env now c1 s1);
                allow2 = (allow \<or> orig \<in> set os)
            in ((if allow2 then (Sent 204, True) else (Continue, False)), c2, s1))
         else if allow then ((Continue, True), c1, s1)
         else if api_path rq \<and> token \<noteq> [] \<and> is_buyer_token token then ((Sent 403, False), c1, s1)
         else ((Continue, False), c1, s1))"

definition https_stage :: "gate_env \<Rightarrow> raw_request \<Rightarrow> gate_result" where
  "https_stage env rq =
     (let proto = forwardedProtoFromHeaders (rw_headers rq)
      in if enforceHttpsForApi env \<and> api_path rq \<and> proto \<noteq> [] \<and> proto \<noteq> ''https'' then Sent 400 else Continue)"

definition request_gate ::
    "gate_env \<Rightarrow> int \<Rightarrow> raw_request \<Rightarrow> caches \<Rightarrow> db \<Rightarrow> (gate_result \<times> bool) \<times> caches \<times> db" where
  "request_gate env now rq c s =
     (case rw_headers rq ''origin'' of
        None \<Rightarrow> ((https_stage env rq, False), c, s)
      | Some orig \<Rightarrow>
          if orig = [] then ((https_stage env rq, False), c, s)
          else (case cors_stage env now rq orig c s of
              ((Continue, h), r) \<Rightarrow> ((https_stage env rq, h), r)
            | ((Sent n, h), r) \<Rightarrow> ((Sent n, h), r)))"

section \<open>Response headers\<close>

definition quoted :: "string \<Rightarrow> string" where
  "quoted w = [CHR 0x27] @ w @ [CHR 0x27]"

definition csp :: string where
  "csp = ''default-src '' @ quoted ''self'' @ ''; script-src '' @ quoted ''self'' @ ''; style-src '' @ quoted ''self'' @
     ''; img-src '' @ quoted ''self'' @ '' data:; connect-src '' @ quoted ''self'' @ ''; object-src '' @ quoted ''none'' @
     ''; base-uri '' @ quoted ''none'' @ ''; frame-ancestors '' @ quoted ''none''"

definition security_headers :: "gate_env \<Rightarrow> raw_request \<Rightarrow> string option \<Rightarrow> (string \<times> string) list" where
  "security_headers env rq content_type =
     (let proto = forwardedProtoFromHeaders (rw_headers rq)
      in [(''x-content-type-options'', ''nosniff''), (''referrer-policy'', ''no-referrer''),
          (''x-frame-options'', ''DENY''), (''permissions-policy'', ''geolocation=(), microphone=(), camera=()'')] @
         (if str_includes (or_blank content_type) ''text/html''
          then [(''content-security-policy'', csp)]
          else []) @
         (if toLowerCase (trim (or_blank (gt_debug_headers env))) \<in> {''true'', ''1'', ''yes''}
          then [(''x-debug-x-forwarded-proto'', if proto = [] then ''(none)'' else proto),
                (''x-debug-enforce-https'', if enforceHttpsForApi env then ''1'' else ''0''),
                (''x-debug-node-env'', gt_node_env env)] else []) @
         (if gt_production env \<and> proto = ''https''
          then [(''strict-transport-security'', ''max-age=31536000; includeSubDomains'')] else []))"

section \<open>How stale a decision can be\<close>

text \<open>A run of the server as the hook sees it: the requests with the time of their arrival and the store
  they meet. Between two requests the store changes arbitrarily.\<close>

type_synonym arrival = "int \<times> raw_request \<times> db"

definition gate_turn :: "gate_env \<Rightarrow> caches \<Rightarrow> arrival \<Rightarrow> caches" where
  "gate_turn env c a = (case a of (now, rq, s) \<Rightarrow> fst (snd (request_gate env now rq c s)))"

definition caches_after :: "gate_env \<Rightarrow> arrival list \<Rightarrow> caches" where
  "caches_after env as = foldl (gate_turn env) cold_caches as"

definition recent :: "gate_env \<Rightarrow> arrival list \<Rightarrow> rat \<Rightarrow> (db \<Rightarrow> bool) \<Rightarrow> bool" where
  "recent env as e P \<longleftrightarrow> (\<exists>a\<in>set as. e = of_int (fst a) + cache_ttl env \<and> P (snd (snd a)))"

definition token_of_org :: "gate_env \<Rightarrow> string \<Rightarrow> string \<Rightarrow> db \<Rightarrow> bool" where
  "token_of_org env token org s =
     list_ex (\<lambda>k. key_matches (gt_crypto env) (gt_buyer_pepper env) token k \<and> ak_org_id k = org) (org_api_keys s)"

text \<open>Every entry of the caches was read when some request arrived, and expires a fixed time after it.\<close>

definition caches_read :: "gate_env \<Rightarrow> arrival list \<Rightarrow> caches \<Rightarrow> bool" where
  "caches_read env as c \<longleftrightarrow>
     (\<forall>tok org e. ca_token c tok = Some (org, e) \<longrightarrow> recent env as e (token_of_org env tok org)) \<and>
     (\<forall>org os e. ca_org c org = Some (os, e) \<longrightarrow> recent env as e (\<lambda>s. os = read_org_origins org s))"

lemma caches_readD:
  assumes "caches_read env as c"
  shows "ca_token c tok = Some (org, e) \<Longrightarrow> recent env as e (token_of_org env tok org)"
    and "ca_org c org = Some (os, e) \<Longrightarrow> recent env as e (\<lambda>s. os = read_org_origins org s)"
  using assms unfolding caches_read_def by blast+

lemma recent_mono: "recent env as e P \<Longrightarrow> recent env (as @ bs) e P"
  unfolding recent_def by auto

lemma recent_now: "P s \<Longrightarrow> recent env (as @ [(now, rq, s)]) (of_int now + cache_ttl env) P"
  unfolding recent_def by simp

lemma cache_ttl_pos: "1000 \<le> cache_ttl env"
  by (auto simp: cache_ttl_def split: jsnum.split option.split)

lemma recent_later:
  assumes "recent env as (of_int now + cache_ttl env) P"
  shows "\<exists>e > of_int now. recent env as e P"
proof -
  have "of_int now < of_int now + cache_ttl env" using cache_ttl_pos [of env] by simp
  with assms show ?thesis by blast
qed

lemma caches_read_mono: "caches_read env as c \<Longrightarrow> caches_read env (as @ bs) c"
  unfolding caches_read_def using recent_mono by blast

lemma caches_read_cold: "caches_read env [] cold_caches"
  by (simp add: caches_read_def cold_caches_def)

lemma getApiKey_facts:
  assumes "getApiKey cr pepper now token s = (r, s1)"
  shows "orgs s1 = orgs s"
    and "r = Some k \<Longrightarrow> list_ex (\<lambda>x. key_matches cr pepper token x \<and> ak_org_id x = ako_orgId k) (org_api_keys s)"
  using assms by (auto simp: getApiKey_def list_ex_iff split: option.split_asm if_split_asm dest!: find_SomeD)

lemma read_org_origins_cong: "orgs s1 = orgs s \<Longrightarrow> read_org_origins org s1 = read_org_origins org s"
  by (simp add: read_org_origins_def getOrgCorsAllowOrigins_def org_row_def)

text \<open>Reading through a cache: what it answers was read recently, and the caches stay truthful.\<close>

lemma resolve_token:
  assumes "caches_read env as c" and "resolveOrgIdFromBuyerToken env now token c s = (r, c1, s1)"
  shows "orgs s1 = orgs s" and "caches_read env (as @ [(now, rq, s)]) c1"
    and "r = Some org \<Longrightarrow> \<exists>e > of_int now. recent env (as @ [(now, rq, s)]) e (token_of_org env token org)"
proof -
  let ?as = "as @ [(now, rq, s)]" and ?e = "of_int now + cache_ttl env"
  obtain g s2 where g: "getApiKey (gt_crypto env) (gt_buyer_pepper env) now token s = (g, s2)" by fastforce
  have hit: "recent env ?as ?e (token_of_org env token (ako_orgId k))" if "g = Some k" for k
    using getApiKey_facts(2) [OF g that] by (intro recent_now) (simp add: token_of_org_def)
  consider (cached) e where "ca_token c token = Some (the r, e)" "e > of_int now" "r \<noteq> None" "c1 = c" "s1 = s"
    | (missing) "g = None" "r = None" "c1 = c" "s1 = s2"
    | (read) k where "g = Some k" "r = Some (ako_orgId k)" "s1 = s2"
        "c1 = c\<lparr>ca_token := (ca_token c)(token \<mapsto> (ako_orgId k, ?e))\<rparr>"
    using assms(2) g
    by (cases "ca_token c token"; cases g) (auto simp: resolveOrgIdFromBuyerToken_def split: if_split_asm)
  note cases = this
  show "orgs s1 = orgs s" using cases by cases (simp_all add: getApiKey_facts(1) [OF g])
  show "caches_read env ?as c1"
    using cases
  proof cases
    case (read k)
    have "caches_read env ?as c" using assms(1) by (rule caches_read_mono)
    with hit [OF read(1)] show ?thesis unfolding caches_read_def read(4) by auto
  qed (use caches_read_mono [OF assms(1)] in auto)
  show "\<exists>e > of_int now. recent env ?as e (token_of_org env token org)" if "r = Some org"
    using cases
  proof cases
    case (cached e)
    with that have "ca_token c token = Some (org, e)" by simp
    then show ?thesis using caches_readD(1) [OF assms(1)] recent_mono cached(2) by blast
  next
    case (read k)
    with that hit [OF read(1)] show ?thesis by (intro recent_later) simp
  qed (use that in simp)
qed

lemma resolve_origins:
  assumes "caches_read env as c" and "resolveOrgCorsOrigins env now org c s1 = (os, c1)" and "orgs s1 = orgs s"
    and "(now, rq, s) \<in> set as"
  shows "caches_read env as c1"
    and "\<exists>e > of_int now. recent env as e (\<lambda>s. os = read_org_origins org s)"
proof -
  let ?e = "of_int now + cache_ttl env"
  have read_now: "recent env as ?e (\<lambda>s. read_org_origins org s1 = read_org_origins org s)"
    unfolding recent_def using assms(4) read_org_origins_cong [OF assms(3)] by force
  consider (cached) e where "ca_org c org = Some (os, e)" "e > of_int now" "c1 = c"
    | (read) "os = read_org_origins org s1" "c1 = c\<lparr>ca_org := (ca_org c)(org \<mapsto> (os, ?e))\<rparr>"
    using assms(2) by (cases "ca_org c org") (auto simp: resolveOrgCorsOrigins_def split: if_split_asm)
  note cases = this
  show "caches_read env as c1"
    using cases
  proof cases
    case read
    with read_now assms(1) show ?thesis unfolding caches_read_def by auto
  qed (use assms(1) in simp)
  show "\<exists>e > of_int now. recent env as e (\<lambda>s. os = read_org_origins org s)"
    using cases
  proof cases
    case (cached e)
    then show ?thesis using caches_readD(2) [OF assms(1)] by blast
  next
    case read
    show ?thesis unfolding read(1) using read_now by (rule recent_later)
  qed
qed

lemma org_allows_read:
  assumes "caches_read env as c" and "org_allows env now token orig c s = (b, c1, s1)"
  shows "caches_read env (as @ [(now, rq, s)]) c1"
    and "b \<Longrightarrow> \<exists>org. (\<exists>e > of_int now. recent env (as @ [(now, rq, s)]) e (token_of_org env token org)) \<and>
           (\<exists>e > of_int now. recent env (as @ [(now, rq, s)]) e (\<lambda>s. orig \<in> set (read_org_origins org s)))"
proof -
  let ?as = "as @ [(now, rq, s)]"
  obtain r c0 s0 where r: "resolveOrgIdFromBuyerToken env now token c s = (r, c0, s0)" by (metis prod_cases3)
  note tok = resolve_token(1) [OF assms(1) r] resolve_token(2,3) [OF assms(1) r, where rq = rq]
  have "caches_read env ?as c1 \<and>
    (b \<longrightarrow> (\<exists>org. (\<exists>e > of_int now. recent env ?as e (token_of_org env token org)) \<and>
           (\<exists>e > of_int now. recent env ?as e (\<lambda>s. orig \<in> set (read_org_origins org s)))))"
  proof (cases "r = None \<or> r = Some []")
    case True
    with assms(2) r have "b = False" "c1 = c0" by (auto simp: org_allows_def)
    with tok(2) show ?thesis by simp
  next
    case False
    then obtain org where org: "r = Some org" "org \<noteq> []" by auto
    obtain os c2 where o2: "resolveOrgCorsOrigins env now org c0 s0 = (os, c2)" by fastforce
    with assms(2) r org have out: "b = (orig \<in> set os)" "c1 = c2" by (auto simp: org_allows_def)
    note origs = resolve_origins [OF tok(2) o2 tok(1), of rq]
    have "\<exists>e > of_int now. recent env ?as e (\<lambda>s. orig \<in> set (read_org_origins org s))" if "orig \<in> set os"
      using origs(2) that unfolding recent_def by auto
    with tok(3) [OF org(1)] origs(1) out show ?thesis by auto
  qed
  then show "caches_read env ?as c1"
    and "b \<Longrightarrow> \<exists>org. (\<exists>e > of_int now. recent env ?as e (token_of_org env token org)) \<and>
           (\<exists>e > of_int now. recent env ?as e (\<lambda>s. orig \<in> set (read_org_origins org s)))"
    by blast+
qed

lemma resolveUnion_keeps:
  "resolveUnionCorsOrigins env now c s = (os, c1) \<Longrightarrow> caches_read env as c \<Longrightarrow> caches_read env as c1"
  by (auto simp: resolveUnionCorsOrigins_def caches_read_def split: if_split_asm)

text \<open>The stage consults the organisation exactly for a buyer token from a foreign origin.\<close>

lemma cors_stage_read:
  assumes "caches_read env as c"
  shows "caches_read env (as @ [(now, rq, s)]) (fst (snd (cors_stage env now rq orig c s)))"
proof -
  let ?as = "as @ [(now, rq, s)]"
  let ?own = "orig = server_origin rq \<or> orig \<in> set (global_origins env)"
  let ?asks = "\<not> ?own \<and> request_token rq \<noteq> [] \<and> is_buyer_token (request_token rq)"
  obtain allow c1 s1 where a: "(if ?asks then org_allows env now (request_token rq) orig c s else (?own, c, s)) = (allow, c1, s1)"
    by (metis prod_cases3)
  have "caches_read env ?as c1"
  proof (cases ?asks)
    case True
    with a have "org_allows env now (request_token rq) orig c s = (allow, c1, s1)" by simp
    then show ?thesis by (rule org_allows_read(1) [OF assms])
  next
    case False
    then have "(if ?asks then org_allows env now (request_token rq) orig c s else (?own, c, s)) = (?own, c, s)"
      by (rule if_not_P)
    with a have "c1 = c" by simp
    with caches_read_mono [OF assms] show ?thesis by simp
  qed
  with a show ?thesis
    by (auto simp: cors_stage_def Let_def split: prod.split intro: resolveUnion_keeps)
qed

lemma request_gate_read:
  assumes "caches_read env as c"
  shows "caches_read env (as @ [(now, rq, s)]) (fst (snd (request_gate env now rq c s)))"
proof (cases "rw_headers rq ''origin'' = None \<or> rw_headers rq ''origin'' = Some []")
  case True
  with caches_read_mono [OF assms] show ?thesis by (auto simp: request_gate_def)
next
  case False
  then obtain orig where "rw_headers rq ''origin'' = Some orig" "orig \<noteq> []" by auto
  moreover obtain g h c1 s1 where "cors_stage env now rq orig c s = ((g, h), c1, s1)" by (metis prod.collapse)
  ultimately show ?thesis using cors_stage_read [OF assms, of now rq s orig]
    by (cases g) (simp_all add: request_gate_def)
qed

lemma caches_after_read: "caches_read env as (caches_after env as)"
proof (induction as rule: rev_induct)
  case Nil
  show ?case using caches_read_cold by (simp add: caches_after_def)
next
  case (snoc a as)
  obtain now rq s where a: "a = (now, rq, s)" by (metis prod_cases3)
  from request_gate_read [OF snoc, of now rq s] show ?case
    by (simp add: a caches_after_def gate_turn_def)
qed

text \<open>C20. A browser origin can use a buyer's key only while the organisation lists it, up to the cache time:
  when the hook lets a request with a buyer token and a foreign origin go on to the API, then at some
  moment of the last cache period, at most ten minutes, the token was a valid key of an organisation, and at some
  moment of it that organisation listed the origin.\<close>

theorem browser_origin_recently_allowed:
  assumes "request_gate env now rq (caches_after env as) s = ((Continue, h), r)"
    and "rw_headers rq ''origin'' = Some orig" "orig \<noteq> []" "orig \<noteq> server_origin rq" "orig \<notin> set (global_origins env)"
    and "is_buyer_token (request_token rq)" "api_path rq" "toLowerCase (rw_method rq) \<noteq> ''options''"
  shows "cache_ttl env \<le> 600000 \<and>
    (\<exists>org. (\<exists>a\<in>set (as @ [(now, rq, s)]). of_int now < of_int (fst a) + cache_ttl env \<and>
              token_of_org env (request_token rq) org (snd (snd a))) \<and>
           (\<exists>a\<in>set (as @ [(now, rq, s)]). of_int now < of_int (fst a) + cache_ttl env \<and>
              orig \<in> set (read_org_origins org (snd (snd a)))))"
proof -
  have tok: "request_token rq \<noteq> []" using assms(6) by (auto simp: is_buyer_token_def)
  obtain allow c1 s1 where a: "org_allows env now (request_token rq) orig (caches_after env as) s = (allow, c1, s1)"
    by (metis prod_cases3)
  have allow
  proof (rule ccontr)
    assume "\<not> allow"
    then have "cors_stage env now rq orig (caches_after env as) s = ((Sent 403, False), c1, s1)"
      using assms(4-8) tok a by (simp add: cors_stage_def)
    with assms(1-3) show False by (simp add: request_gate_def)
  qed
  with org_allows_read(2) [OF caches_after_read a, of rq]
  have "\<exists>org. (\<exists>e > of_int now. recent env (as @ [(now, rq, s)]) e (token_of_org env (request_token rq) org)) \<and>
      (\<exists>e > of_int now. recent env (as @ [(now, rq, s)]) e (\<lambda>s. orig \<in> set (read_org_origins org s)))" by blast
  moreover have "cache_ttl env \<le> 600000" by (auto simp: cache_ttl_def split: jsnum.split option.split)
  ultimately show ?thesis unfolding recent_def by metis
qed

definition example_gate :: gate_env where
  "example_gate = \<lparr> gt_production = True, gt_enforce_https = None, gt_cors_origins = None, gt_cache_ttl = None,
     gt_debug_headers = None, gt_node_env = ''production'',
     gt_crypto = \<lparr> cr_hmac = \<lambda>k m. ''h'', cr_sha = \<lambda>m. ''g'', cr_scrypt = \<lambda>p s n x. Inr ''d'' \<rparr>,
     gt_buyer_pepper = ''p'' \<rparr>"

definition example_browser :: raw_request where
  "example_browser = \<lparr> rw_method = ''GET'', rw_url = ''/api/x'',
     rw_headers = [''origin'' \<mapsto> ''https://a'', ''authorization'' \<mapsto> ''Bearer pw_bu_1'',
       ''cloudfront-forwarded-proto'' \<mapsto> ''https'', ''host'' \<mapsto> ''b''] \<rparr>"

definition example_gate_store :: "string list \<Rightarrow> db" where
  "example_gate_store origs = empty_db\<lparr>orgs := [example_org\<lparr>org_cors_allow_origins := origs\<rparr>],
     org_api_keys := [\<lparr> ak_id = ''k'', ak_org_id = ''o1'', ak_name = ''n'', ak_key_prefix = ''pw_bu_1'', ak_key_hash = ''h'',
       ak_revoked_at = None, ak_last_used_at = Some 0, ak_created_at = 0 \<rparr>]\<rparr>"

lemma lower_get: "toLowerCase ''GET'' = ''get''"
  by code_simp

lemma example_browser_facts:
  "request_token example_browser = ''pw_bu_1''" "server_origin example_browser = ''https://b''"
  "global_origins example_gate = []" "api_path example_browser" "cache_ttl example_gate = 30000"
  "toLowerCase (rw_method example_browser) = ''get''" "rw_headers example_browser ''origin'' = Some ''https://a''"
  "https_stage example_gate example_browser = Continue" "is_buyer_token ''pw_bu_1''"
  by (simp_all add: request_token_def example_browser_def or_blank_def trim_def is_space_def server_origin_def
      forwardedProtoFromHeaders_def first_value_def Let_def global_origins_def example_gate_def api_path_def cache_ttl_def
      lower_get https_stage_def is_buyer_token_def)

lemma example_gate_key:
  "getApiKey (gt_crypto example_gate) (gt_buyer_pepper example_gate) 0 ''pw_bu_1'' (example_gate_store origs) =
     (Some \<lparr> ako_id = ''k'', ako_orgId = ''o1'', ako_name = ''n'', ako_keyPrefix = ''pw_bu_1'', ako_keyHash = ''h'',
             ako_revokedAt = None \<rparr>, example_gate_store origs)"
  by (simp add: getApiKey_def example_gate_store_def key_matches_def example_gate_def)

lemma example_caches:
  "caches_after example_gate [(0, example_browser, example_gate_store [''https://a''])] =
     cold_caches\<lparr>ca_token := [''pw_bu_1'' \<mapsto> (''o1'', 30000)], ca_org := [''o1'' \<mapsto> ([''https://a''], 30000)]\<rparr>"
proof -
  have "read_org_origins ''o1'' (example_gate_store [''https://a'']) = [''https://a'']"
    by (simp add: read_org_origins_def getOrgCorsAllowOrigins_def org_row_def example_gate_store_def example_org_def)
  then show ?thesis
    by (simp add: caches_after_def gate_turn_def request_gate_def example_browser_facts cors_stage_def org_allows_def
        resolveOrgIdFromBuyerToken_def resolveOrgCorsOrigins_def cold_caches_def example_gate_key)
qed

text \<open>Twenty seconds after the origin was taken from the list, it is still let through.\<close>

theorem browser_origin_recently_allowed_witness:
  "\<exists>r. request_gate example_gate 20000 example_browser
         (caches_after example_gate [(0, example_browser, example_gate_store [''https://a''])]) (example_gate_store []) =
       ((Continue, True), r) \<and>
     read_org_origins ''o1'' (example_gate_store []) = [] \<and>
     (\<exists>a\<in>set [(0, example_browser, example_gate_store [''https://a'']), (20000, example_browser, example_gate_store [])].
        \<exists>org. ''https://a'' \<in> set (read_org_origins org (snd (snd a))))"
proof -
  let ?as = "[(0 :: int, example_browser, example_gate_store [''https://a''])]"
  obtain r where run: "request_gate example_gate 20000 example_browser (caches_after example_gate ?as) (example_gate_store []) =
      ((Continue, True), r)"
    by (simp add: example_caches request_gate_def example_browser_facts cors_stage_def org_allows_def
        resolveOrgIdFromBuyerToken_def resolveOrgCorsOrigins_def)
  have none: "read_org_origins ''o1'' (example_gate_store []) = []"
    by (simp add: read_org_origins_def getOrgCorsAllowOrigins_def org_row_def example_gate_store_def example_org_def)
  have "''https://a'' \<noteq> server_origin example_browser" "''https://a'' \<notin> set (global_origins example_gate)"
    "is_buyer_token (request_token example_browser)" "toLowerCase (rw_method example_browser) \<noteq> ''options''"
    by (simp_all add: example_browser_facts)
  from browser_origin_recently_allowed [OF run example_browser_facts(7) _ this(1-3) example_browser_facts(4) this(4)]
  have "\<exists>a\<in>set (?as @ [(20000, example_browser, example_gate_store [])]).
      \<exists>org. ''https://a'' \<in> set (read_org_origins org (snd (snd a)))" by blast
  with run none show ?thesis by simp
qed

end
