(* ===== verification/Corpus.thy ===== *)
theory Corpus
  imports Json Apps
begin

text \<open>
  The GitHub corpus: the operations of \<open>src/src/store.ts\<close> on ingestion cursors, raw events, repository
  snapshots, similarity queries and provenance manifests; the reuse policy (\<open>src/src/intel/policy.ts\<close>);
  and the repository search (\<open>src/src/intel/githubSearch.ts\<close>). GitHub's answer, the parsing of dates
  and the base-10 logarithm are parameters.
\<close>

section \<open>Ingestion sources\<close>

text \<open>\<open>None\<close>: the caller does not give the field; \<open>Some None\<close> clears it.\<close>

record source_input =
  gi_id :: string
  gi_cursor :: "json option"
  gi_status :: "string option"
  gi_lastSuccessAt :: "int option option"
  gi_lastErrorAt :: "int option option"
  gi_lastError :: "string option option"

definition getGithubSource :: "string \<Rightarrow> db \<Rightarrow> github_sources_row option" where
  "getGithubSource i s = find (\<lambda>r. gs_id r = i) (github_sources s)"

definition upsertGithubSource :: "int \<Rightarrow> source_input \<Rightarrow> db \<Rightarrow> db" where
  "upsertGithubSource now x s =
     s\<lparr>github_sources := insert_do_update (\<lambda>r. gs_id r = gi_id x)
         (\<lambda>r. r\<lparr> gs_cursor_json := patched (gi_cursor x) (gs_cursor_json r), gs_status := patched (gi_status x) (gs_status r),
                 gs_last_success_at := patched (gi_lastSuccessAt x) (gs_last_success_at r),
                 gs_last_error_at := patched (gi_lastErrorAt x) (gs_last_error_at r),
                 gs_last_error := patched (gi_lastError x) (gs_last_error r), gs_updated_at := now \<rparr>)
         \<lparr> gs_id = gi_id x, gs_cursor_json = patched (gi_cursor x) (JObj []), gs_status = patched (gi_status x) ''active'',
           gs_last_success_at = patched (gi_lastSuccessAt x) None, gs_last_error_at = patched (gi_lastErrorAt x) None,
           gs_last_error = patched (gi_lastError x) None, gs_created_at = now, gs_updated_at = now \<rparr>
         (github_sources s)\<rparr>"

section \<open>Raw events\<close>

record event_input =
  ei_eventId :: string
  ei_source :: string
  ei_eventType :: string
  ei_eventCreatedAt :: "int option"
  ei_repoFullName :: "string option"
  ei_actorLogin :: "string option"
  ei_payload :: json

definition coalesce_opt :: "'a option \<Rightarrow> 'a option \<Rightarrow> 'a option" where
  "coalesce_opt x y = (if x = None then y else x)"

text \<open>The event id is the key: an event seen again keeps its payload and gains the source. The order of
  the sources is not defined by the query; here the first occurrences stay.\<close>

definition first_of_each :: "'a list \<Rightarrow> 'a list" where
  "first_of_each xs = rev (remdups (rev xs))"

definition merge_event :: "event_input \<Rightarrow> github_events_row \<Rightarrow> github_events_row" where
  "merge_event x r =
     r\<lparr> ge_sources_json := first_of_each (ge_sources_json r @ [ei_source x]),
        ge_repo_full_name := coalesce_opt (ge_repo_full_name r) (ei_repoFullName x),
        ge_actor_login := coalesce_opt (ge_actor_login r) (ei_actorLogin x) \<rparr>"

definition new_event_row :: "int \<Rightarrow> event_input \<Rightarrow> github_events_row" where
  "new_event_row now x =
     \<lparr> ge_event_id = ei_eventId x, ge_sources_json = [ei_source x], ge_event_type = ei_eventType x,
       ge_event_created_at = ei_eventCreatedAt x, ge_repo_full_name = ei_repoFullName x,
       ge_actor_login = ei_actorLogin x, ge_payload_json = ei_payload x, ge_ingested_at = now \<rparr>"

definition putGithubEventRaw :: "int \<Rightarrow> event_input \<Rightarrow> db \<Rightarrow> db" where
  "putGithubEventRaw now x s =
     s\<lparr>github_events_raw := insert_do_update (\<lambda>r. ge_event_id r = ei_eventId x) (merge_event x) (new_event_row now x)
         (github_events_raw s)\<rparr>"

definition pruneGithubEventsRaw :: "int \<Rightarrow> jsnum \<Rightarrow> jsnum option \<Rightarrow> db \<Rightarrow> nat \<times> db" where
  "pruneGithubEventsRaw now maxAgeDays bound s =
     (let days = clamp_floor 1 365 30 maxAgeDays;
          lim = clamp_floor 1 100000 10000 (case bound of None \<Rightarrow> Fin 10000 | Some x \<Rightarrow> x);
          cutoff = now - days * 86400000;
          del = map ge_event_id (take (nat lim) (sort_key ge_ingested_at
                  (filter (\<lambda>r. ge_ingested_at r < cutoff) (github_events_raw s))));
          gone = (\<lambda>r. ge_event_id r \<in> set del)
      in (count_where gone (github_events_raw s), s\<lparr>github_events_raw := delete_where gone (github_events_raw s)\<rparr>))"

section \<open>Repository snapshots\<close>

record repo_input =
  ri_repoId :: int
  ri_fullName :: string
  ri_htmlUrl :: string
  ri_description :: "string option"
  ri_language :: "string option"
  ri_topics :: "string list"
  ri_licenseSpdx :: "string option"
  ri_licenseKey :: "string option"
  ri_stars :: "jsnum option"
  ri_forks :: "jsnum option"
  ri_archived :: bool
  ri_pushedAt :: "int option"
  ri_updatedAt :: "int option"
  ri_seenAt :: "int option"

definition whole_count :: "jsnum option \<Rightarrow> int option" where
  "whole_count x = (case x of Some (Fin q) \<Rightarrow> Some (max 0 \<lfloor>q\<rfloor>) | _ \<Rightarrow> None)"

definition int8 :: "int \<Rightarrow> bool" where
  "int8 n \<longleftrightarrow> - 9223372036854775808 \<le> n \<and> n \<le> 9223372036854775807"

definition count_fits :: "jsnum option \<Rightarrow> bool" where
  "count_fits x = (case whole_count x of None \<Rightarrow> True | Some n \<Rightarrow> int4 n)"

text \<open>The id is the key of the upsert; the full name has a unique index of its own.\<close>

definition upsertGithubRepo :: "int \<Rightarrow> repo_input \<Rightarrow> db \<Rightarrow> err + db" where
  "upsertGithubRepo clock x s =
     (let now = patched (ri_seenAt x) clock;
          set_columns = (\<lambda>r. r\<lparr> gr_full_name := ri_fullName x, gr_html_url := ri_htmlUrl x,
            gr_description := ri_description x, gr_language := ri_language x, gr_topics_json := ri_topics x,
            gr_license_spdx := ri_licenseSpdx x, gr_license_key := ri_licenseKey x,
            gr_stargazers_count := patched (whole_count (ri_stars x)) (gr_stargazers_count r),
            gr_forks_count := patched (whole_count (ri_forks x)) (gr_forks_count r),
            gr_archived := ri_archived x, gr_pushed_at := ri_pushedAt x, gr_updated_at := ri_updatedAt x,
            gr_fetched_at := now, gr_last_seen_at := now \<rparr>);
          new = \<lparr> gr_repo_id = ri_repoId x, gr_full_name = ri_fullName x, gr_html_url = ri_htmlUrl x,
            gr_description = ri_description x, gr_language = ri_language x, gr_topics_json = ri_topics x,
            gr_license_spdx = ri_licenseSpdx x, gr_license_key = ri_licenseKey x,
            gr_stargazers_count = patched (whole_count (ri_stars x)) 0, gr_forks_count = patched (whole_count (ri_forks x)) 0,
            gr_archived = ri_archived x, gr_pushed_at = ri_pushedAt x, gr_updated_at = ri_updatedAt x,
            gr_fetched_at = now, gr_first_seen_at = now, gr_last_seen_at = now \<rparr>
      in if \<not> int8 (ri_repoId x) \<or> \<not> count_fits (ri_stars x) \<or> \<not> count_fits (ri_forks x) then Inl IntegerOutOfRange
         else if list_ex (\<lambda>r. gr_full_name r = ri_fullName x \<and> gr_repo_id r \<noteq> ri_repoId x) (github_repos s)
         then Inl (OtherError ''duplicate key value violates unique constraint'')
         else Inr (s\<lparr>github_repos :=
                insert_do_update (\<lambda>r. gr_repo_id r = ri_repoId x) set_columns new (github_repos s)\<rparr>))"

section \<open>Queries, results, manifests\<close>

record query_input =
  qi_id :: string
  qi_queryText :: string
  qi_tool :: "string option"
  qi_orgId :: "string option"
  qi_actorType :: "string option"
  qi_actorId :: "string option"
  qi_context :: json
  qi_policyVersion :: "string option"
  qi_latencyMs :: "int option"

definition createSimilarityQuery :: "int \<Rightarrow> query_input \<Rightarrow> db \<Rightarrow> db" where
  "createSimilarityQuery now x s =
     s\<lparr>intel_similarity_queries := intel_similarity_queries s @
         [\<lparr> sq_id = qi_id x, sq_tool = qi_tool x, sq_org_id = qi_orgId x, sq_actor_type = qi_actorType x,
            sq_actor_id = qi_actorId x, sq_query_text = qi_queryText x, sq_context_json = qi_context x,
            sq_policy_version = qi_policyVersion x, sq_latency_ms = qi_latencyMs x, sq_created_at = now \<rparr>]\<rparr>"

record result_input =
  rs_id :: string
  rs_rank :: nat
  rs_itemKind :: string
  rs_itemKey :: string
  rs_score :: rat
  rs_explanation :: "string option"
  rs_data :: json

definition putSimilarityResults :: "int \<Rightarrow> string \<Rightarrow> result_input list \<Rightarrow> db \<Rightarrow> db" where
  "putSimilarityResults now qid results s =
     (if results = [] then s
      else s\<lparr>intel_similarity_results := intel_similarity_results s @
             map (\<lambda>r. \<lparr> sr_id = rs_id r, sr_query_id = qid, sr_rank = rs_rank r, sr_item_kind = rs_itemKind r,
                        sr_item_key = rs_itemKey r, sr_score = rs_score r, sr_explanation = rs_explanation r,
                        sr_data_json = rs_data r, sr_created_at = now \<rparr>) results\<rparr>)"

definition upsertProvenanceManifest :: "int \<Rightarrow> string \<Rightarrow> string \<Rightarrow> string \<Rightarrow> json \<Rightarrow> db \<Rightarrow> db" where
  "upsertProvenanceManifest now mid kind refId manifest s =
     s\<lparr>intel_provenance_manifests := insert_do_update (\<lambda>m. pm_kind m = kind \<and> pm_ref_id m = refId)
         (\<lambda>m. m\<lparr> pm_manifest_json := manifest, pm_updated_at := now \<rparr>)
         \<lparr> pm_id = mid, pm_kind = kind, pm_ref_id = refId, pm_manifest_json = manifest, pm_created_at = now,
           pm_updated_at = now \<rparr> (intel_provenance_manifests s)\<rparr>"

section \<open>Reuse policy\<close>

record policy_env =
  po_allow :: "string option"     \<comment> \<open>\<open>INTEL_LICENSE_ALLOWLIST\<close>\<close>
  po_deny :: "string option"      \<comment> \<open>\<open>INTEL_LICENSE_DENYLIST\<close>\<close>
  po_minStars :: "string option"  \<comment> \<open>\<open>INTEL_MIN_STARS_DEFAULT\<close>\<close>

definition upper_char :: "char \<Rightarrow> char" where
  "upper_char c = (let n = of_char c :: nat in if 97 \<le> n \<and> n \<le> 122 then char_of (n - 32) else c)"

definition toUpperCase :: "string \<Rightarrow> string" where
  "toUpperCase = map upper_char"

definition normalizeLicenseId :: "string option \<Rightarrow> string option" where
  "normalizeLicenseId raw = (let s = trim (or_blank raw) in if s = [] then None else Some (toUpperCase s))"

text \<open>The policy version lets clients cache: twelve digits of a hash over the settings.\<close>

definition readPolicyVersion :: "(rat \<Rightarrow> string) \<Rightarrow> (string \<Rightarrow> string) \<Rightarrow> policy_env \<Rightarrow> string" where
  "readPolicyVersion ft sha env =
     take 12 (sha (json_stringify ft (JObj [(''allow'', JStr (trim (or_blank (po_allow env)))),
       (''deny'', JStr (trim (or_blank (po_deny env)))), (''minStars'', JStr (trim (or_blank (po_minStars env))))])))"

definition upper_nonblank :: "string list \<Rightarrow> string list" where
  "upper_nonblank ws = map toUpperCase (filter (\<lambda>w. w \<noteq> []) (map trim ws))"

definition parseCsvUpper :: "string option \<Rightarrow> string list" where
  "parseCsvUpper v = (let s = trim (or_blank v) in if s = [] then [] else upper_nonblank (split_on CHR '','' s))"

datatype policy_mode = Suggest | AutoApply

datatype decision = Allowed | Blocked string string

text \<open>\<open>Number.isFinite(Number(x)) ? Math.max(0, Math.floor(Number(x))) : null\<close>\<close>

definition nonneg_floor :: "jsnum \<Rightarrow> int option" where
  "nonneg_floor x = (case x of Fin q \<Rightarrow> Some (max 0 \<lfloor>q\<rfloor>) | _ \<Rightarrow> None)"

definition min_stars :: "(rat \<Rightarrow> string) \<Rightarrow> policy_env \<Rightarrow> json option \<Rightarrow> int" where
  "min_stars ft env requested =
     (case nonneg_floor (json_number ft requested) of
        Some n \<Rightarrow> n
      | None \<Rightarrow>
          (case nonneg_floor (case po_minStars env of None \<Rightarrow> Fin 0 | Some x \<Rightarrow> js_number x) of
             Some n \<Rightarrow> n | None \<Rightarrow> 0))"

text \<open>The request's allowlist, if not empty, stands in for the configured one.\<close>

definition license_allowlist :: "policy_env \<Rightarrow> string list option \<Rightarrow> string list option" where
  "license_allowlist env requested =
     (let req = (case requested of None \<Rightarrow> [] | Some ws \<Rightarrow> upper_nonblank ws); conf = parseCsvUpper (po_allow env)
      in if req \<noteq> [] then Some req else if conf \<noteq> [] then Some conf else None)"

definition decideRepoPolicy ::
    "(rat \<Rightarrow> string) \<Rightarrow> policy_env \<Rightarrow> policy_mode \<Rightarrow> string option \<Rightarrow> bool \<Rightarrow> int \<Rightarrow> string list option \<Rightarrow> json option \<Rightarrow>
     decision" where
  "decideRepoPolicy ft env mode spdx archived stars requestAllow requestMinStars =
     (let license = normalizeLicenseId spdx;
          minStars = min_stars ft env requestMinStars;
          deny = parseCsvUpper (po_deny env);
          allow = license_allowlist env requestAllow
      in if archived then Blocked ''policy_blocked_security'' ''repo is archived''
         else if minStars > 0 \<and> stars < minStars
         then Blocked ''policy_blocked_quality'' (''repo stars below minStars='' @ show_int minStars)
         else (case license of
             Some l \<Rightarrow>
               if l \<in> set deny then Blocked ''policy_blocked_license'' (''license denied: '' @ l)
               else (case allow of
                   Some ws \<Rightarrow> if l \<in> set ws then Allowed
                              else Blocked ''policy_blocked_license'' (''license not allowlisted: '' @ l)
                 | None \<Rightarrow> Allowed)
           | None \<Rightarrow>
               (case mode of
                  AutoApply \<Rightarrow> Blocked ''policy_blocked_license''
                                 ''license unknown (auto-apply requires explicit license)''
                | Suggest \<Rightarrow>
                    if allow \<noteq> None then Blocked ''policy_blocked_license'' ''license unknown (allowlist enforced)''
                    else Allowed)))"

section \<open>Repository search\<close>

text \<open>\<open>[^\w\s-]\<close> and white space become blanks.\<close>

definition token_char :: "char \<Rightarrow> bool" where
  "token_char c \<longleftrightarrow> (let n = of_char c :: nat in
     (48 \<le> n \<and> n \<le> 57) \<or> (65 \<le> n \<and> n \<le> 90) \<or> (97 \<le> n \<and> n \<le> 122) \<or> n = 95 \<or> n = 45)"

definition tokens_of :: "string \<Rightarrow> string list" where
  "tokens_of q = take 10 (filter (\<lambda>w. w \<noteq> [])
     (split_on CHR '' '' (map (\<lambda>c. if token_char c then c else CHR '' '') (trim q))))"

definition sanitizeQueryTokens :: "string \<Rightarrow> string list" where
  "sanitizeQueryTokens q = tokens_of q"

definition sanitizeIntelTokens :: "string \<Rightarrow> string list" where
  "sanitizeIntelTokens q = tokens_of (toLowerCase q)"

record search_constraints =
  sc_minStars :: "int option"
  sc_languages :: "string list option"
  sc_licenseAllow :: "string list option"

definition buildGithubSearchQuery :: "string \<Rightarrow> search_constraints \<Rightarrow> string" where
  "buildGithubSearchQuery query c =
     (let tokens = sanitizeQueryTokens query;
          minStars = (case sc_minStars c of None \<Rightarrow> 0 | Some n \<Rightarrow> max 0 n);
          languages = (case sc_languages c of None \<Rightarrow> [] | Some ls \<Rightarrow> take 3 (filter (\<lambda>l. l \<noteq> []) ls));
          license = (case sc_licenseAllow c of Some (l # _) \<Rightarrow> trim l | _ \<Rightarrow> [])
      in if tokens = [] then []
         else trim (join '' '' ([join '' '' tokens, ''fork:false''] @
                (if minStars > 0 then [''stars:>='' @ show_int minStars] else []) @
                map (\<lambda>l. ''language:'' @ l) languages @
                (if license \<noteq> [] then [''license:'' @ license] else []))))"

record snapshot =
  sn_repoId :: int
  sn_fullName :: string
  sn_htmlUrl :: string
  sn_description :: "string option"
  sn_language :: "string option"
  sn_topics :: "string list"
  sn_licenseSpdx :: "string option"
  sn_licenseKey :: "string option"
  sn_stars :: int
  sn_forks :: int
  sn_archived :: bool
  sn_pushedAt :: "int option"
  sn_updatedAt :: "int option"

definition parseDateOrNull :: "(rat \<Rightarrow> string) \<Rightarrow> (string \<Rightarrow> int option) \<Rightarrow> json option \<Rightarrow> int option" where
  "parseDateOrNull ft parse_date x = (let v = trim (text_or_blank ft x) in if v = [] then None else parse_date v)"

definition truthy_text :: "(rat \<Rightarrow> string) \<Rightarrow> json option \<Rightarrow> string option" where
  "truthy_text ft x = (if json_truthy x then Some (json_text ft (the x)) else None)"

definition trimmed_or_none :: "string option \<Rightarrow> string option" where
  "trimmed_or_none x = (case x of None \<Rightarrow> None | Some t \<Rightarrow> if trim t = [] then None else Some (trim t))"

definition item_count :: "(rat \<Rightarrow> string) \<Rightarrow> json option \<Rightarrow> int" where
  "item_count ft x = (case nonneg_floor (json_number ft (coalesce x (Some (JNum (Fin 0))))) of Some n \<Rightarrow> n | None \<Rightarrow> 0)"

text \<open>An item without a positive id, a full name and a page is skipped.\<close>

definition snapshot_of ::
    "(rat \<Rightarrow> string) \<Rightarrow> (string \<Rightarrow> int option) \<Rightarrow> json \<Rightarrow> snapshot option" where
  "snapshot_of ft parse_date item =
     (let it = Some item;
          fullName = trim (text_or_blank ft (jget ''full_name'' it));
          htmlUrl = trim (text_or_blank ft (jget ''html_url'' it));
          license = jget ''license'' it
      in case json_number ft (coalesce (jget ''id'' it) (Some (JNum NaN))) of
           Fin q \<Rightarrow>
             if q \<le> 0 \<or> fullName = [] \<or> htmlUrl = [] then None
             else Some \<lparr> sn_repoId = \<lfloor>q\<rfloor>, sn_fullName = fullName, sn_htmlUrl = htmlUrl,
               sn_description = truthy_text ft (jget ''description'' it), sn_language = truthy_text ft (jget ''language'' it),
               sn_topics = (case jarray (jget ''topics'' it) of
                              None \<Rightarrow> [] | Some ts \<Rightarrow> take 50 (filter (\<lambda>t. t \<noteq> []) (map (json_text ft) ts))),
               sn_licenseSpdx = trimmed_or_none (truthy_text ft (jget ''spdx_id'' license)),
               sn_licenseKey = trimmed_or_none (truthy_text ft (jget ''key'' license)),
               sn_stars = item_count ft (jget ''stargazers_count'' it), sn_forks = item_count ft (jget ''forks_count'' it),
               sn_archived = json_truthy (coalesce (jget ''archived'' it) (Some (JBool False))),
               sn_pushedAt = parseDateOrNull ft parse_date (jget ''pushed_at'' it),
               sn_updatedAt = parseDateOrNull ft parse_date (jget ''updated_at'' it) \<rparr>
         | _ \<Rightarrow> None)"

text \<open>GitHub's answer: the status and the text of the body; \<open>parse_json\<close> is \<open>JSON.parse\<close>.\<close>

record search_env =
  se_frac_text :: "rat \<Rightarrow> string"
  se_parse_date :: "string \<Rightarrow> int option"
  se_parse_json :: "string \<Rightarrow> json option"
  se_baseUrl :: string
  se_http :: "string \<Rightarrow> int \<Rightarrow> err + nat \<times> string"  \<comment> \<open>query, page size\<close>

definition fetchGithubRepoSearch :: "search_env \<Rightarrow> string \<Rightarrow> jsnum \<Rightarrow> err + snapshot list" where
  "fetchGithubRepoSearch env q0 pageSize =
     (let q = trim q0;
          perPage = clamp_floor 1 50 10 pageSize
      in if strip_slash (trim (se_baseUrl env)) = [] then Inl (OtherError ''github_search_missing_base_url'')
         else if q = [] then Inr []
         else (case se_http env q perPage of
             Inl e \<Rightarrow> Inl e
           | Inr (status, body) \<Rightarrow>
               if status < 200 \<or> status > 299
               then Inl (OtherError (''github_search_failed:'' @ show_nat status @ '':'' @ take 200 body))
               else (case (if body = [] then Some JNull else se_parse_json env body) of
                   None \<Rightarrow> Inl (OtherError ''Unexpected token in JSON'')
                 | Some j \<Rightarrow>
                     let items = (case jarray (jget ''items'' (Some j)) of None \<Rightarrow> [] | Some xs \<Rightarrow> xs)
                     in Inr (take (nat perPage)
                          (List.map_filter (snapshot_of (se_frac_text env) (se_parse_date env)) items)))))"

end
