(* ===== verification/Similar.thy ===== *)
theory Similar
  imports Corpus Auth
begin

text \<open>
  The similarity routes of \<open>src/src/server.ts\<close>: \<open>POST /api/intel/similar\<close>, \<open>POST /api/intel/reuse-plan\<close>
  and \<open>GET /api/intel/provenance/:refId\<close>. The two searches store every repository GitHub
  returns, screen them with the reuse policy, rank what is left by score, stars and id, and
  record query, results and provenance. Scores are exact; the base-10 logarithm, the locale's
  order of names and the clock are parameters.
\<close>

section \<open>Scores\<close>

text \<open>\<open>x.toFixed(n)\<close> for a nonnegative \<open>x\<close>: the nearest decimal, halves upwards.\<close>

definition round_to :: "nat \<Rightarrow> rat \<Rightarrow> rat" where
  "round_to n q = of_int \<lfloor>q * 10 ^ n + 1 / 2\<rfloor> / 10 ^ n"

definition fixed3 :: "rat \<Rightarrow> string" where
  "fixed3 q = (let n = \<lfloor>q * 1000 + 1 / 2\<rfloor>; f = show_int (n mod 1000)
     in show_int (n div 1000) @ ''.'' @ replicate (3 - length f) CHR ''0'' @ f)"

record score_env =
  sv_log10 :: "int \<Rightarrow> rat"
  sv_now :: int

definition hits :: "snapshot \<Rightarrow> string \<Rightarrow> bool" where
  "hits sn t \<longleftrightarrow> str_includes (toLowerCase (sn_fullName sn)) t \<or>
     str_includes (toLowerCase (or_blank (sn_description sn))) t \<or>
     list_ex (\<lambda>x. str_includes (toLowerCase x) t) (sn_topics sn)"

definition freshness :: "int \<Rightarrow> int option \<Rightarrow> rat" where
  "freshness now pushed =
     (case pushed of
        None \<Rightarrow> 0
      | Some p \<Rightarrow> let ageDays = of_int (now - p) / 86400000 in max 0 (min 1 ((365 - ageDays) / 365)))"

text \<open>65\% lexical, 25\% stars, 10\% freshness.\<close>

definition computeRepoBaselineScore :: "score_env \<Rightarrow> string list \<Rightarrow> snapshot \<Rightarrow> rat \<times> string" where
  "computeRepoBaselineScore env tokens sn =
     (let matched = filter (hits sn) (filter (\<lambda>t. t \<noteq> []) tokens);
          lexical = of_nat (length matched) / of_nat (max 1 (length tokens));
          stars = sv_log10 env (max 1 (sn_stars sn + 1)) / 10;
          fresh = freshness (sv_now env) (sn_pushedAt sn)
      in (round_to 6 (lexical * 65 / 100 + stars * 25 / 100 + fresh / 10),
          ''lexical='' @ fixed3 lexical @ '' stars='' @ fixed3 stars @ '' fresh='' @ fixed3 fresh @
            '' matched='' @ join '','' (take 6 matched)))"

section \<open>Ranking\<close>

record candidate =
  cd_snapshot :: snapshot
  cd_score :: rat
  cd_explanation :: string

text \<open>The comparator of the code: score and stars descending, id and name ascending; it is the order of
  \<open>rank\<close>, \<open>a \<le> b\<close> when \<open>a\<close> comes first.\<close>

datatype rank = Rank (rk_score: rat) (rk_stars: int) (rk_repo: int) (rk_name: int)

definition rank_before :: "rank \<Rightarrow> rank \<Rightarrow> bool" where
  "rank_before a b \<longleftrightarrow>
     (if rk_score b \<noteq> rk_score a then rk_score b < rk_score a
      else if rk_stars a \<noteq> rk_stars b then rk_stars b < rk_stars a
      else if rk_repo a \<noteq> rk_repo b then rk_repo a < rk_repo b
      else rk_name a \<le> rk_name b)"

instantiation rank :: linorder
begin

definition less_eq_rank :: "rank \<Rightarrow> rank \<Rightarrow> bool" where
  "less_eq_rank a b \<longleftrightarrow> rank_before a b"

definition less_rank :: "rank \<Rightarrow> rank \<Rightarrow> bool" where
  "less_rank a b \<longleftrightarrow> a \<le> b \<and> a \<noteq> (b :: rank)"

instance
proof
  fix a b c :: rank
  show "a \<le> a" by (simp add: less_eq_rank_def rank_before_def)
  show "a \<le> b \<Longrightarrow> b \<le> c \<Longrightarrow> a \<le> c" by (auto simp: less_eq_rank_def rank_before_def split: if_split_asm)
  show anti: "a \<le> b \<Longrightarrow> b \<le> a \<Longrightarrow> a = b" for a b :: rank
    by (cases a; cases b) (auto simp: less_eq_rank_def rank_before_def split: if_split_asm)
  show "a \<le> b \<or> b \<le> a" by (auto simp: less_eq_rank_def rank_before_def)
  show "(a < b) = (a \<le> b \<and> \<not> b \<le> a)"
    using anti by (auto simp: less_rank_def)
qed

end

definition rank_of :: "(string \<Rightarrow> int) \<Rightarrow> candidate \<Rightarrow> rank" where
  "rank_of collate c = Rank (cd_score c) (sn_stars (cd_snapshot c)) (sn_repoId (cd_snapshot c))
     (collate (sn_fullName (cd_snapshot c)))"

section \<open>Screening\<close>

record intel_env =
  ie_search :: search_env
  ie_policy :: policy_env
  ie_score :: score_env
  ie_collate :: "string \<Rightarrow> int"
  ie_sha :: "string \<Rightarrow> string"
  ie_iso :: "int \<Rightarrow> string"
  ie_githubBaseUrl :: string

record blocked_repo =
  bk_fullName :: string
  bk_code :: string
  bk_message :: string

definition repo_input_of :: "snapshot \<Rightarrow> repo_input" where
  "repo_input_of sn = \<lparr> ri_repoId = sn_repoId sn, ri_fullName = sn_fullName sn, ri_htmlUrl = sn_htmlUrl sn,
     ri_description = sn_description sn, ri_language = sn_language sn, ri_topics = sn_topics sn,
     ri_licenseSpdx = sn_licenseSpdx sn, ri_licenseKey = sn_licenseKey sn, ri_stars = Some (Fin (of_int (sn_stars sn))),
     ri_forks = Some (Fin (of_int (sn_forks sn))), ri_archived = sn_archived sn, ri_pushedAt = sn_pushedAt sn,
     ri_updatedAt = sn_updatedAt sn, ri_seenAt = None \<rparr>"

text \<open>\<open>constraints.minStars ?? null\<close>: a constraint that is absent reaches the policy as \<open>null\<close>.\<close>

definition min_stars_arg :: "search_constraints \<Rightarrow> json option" where
  "min_stars_arg c = Some (case sc_minStars c of None \<Rightarrow> JNull | Some n \<Rightarrow> JNum (Fin (of_int n)))"

definition decide :: "intel_env \<Rightarrow> policy_mode \<Rightarrow> search_constraints \<Rightarrow> snapshot \<Rightarrow> decision" where
  "decide env mode c sn =
     decideRepoPolicy (se_frac_text (ie_search env)) (ie_policy env) mode (sn_licenseSpdx sn) (sn_archived sn) (sn_stars sn)
       (sc_licenseAllow c) (min_stars_arg c)"

definition candidate_of :: "intel_env \<Rightarrow> string list \<Rightarrow> snapshot \<Rightarrow> candidate" where
  "candidate_of env tokens sn =
     (let (sc, ex) = computeRepoBaselineScore (ie_score env) tokens sn
      in \<lparr> cd_snapshot = sn, cd_score = sc, cd_explanation = ex \<rparr>)"

text \<open>The loop over the snapshots: store, decide, score. A failing insertion ends the request and keeps
  what has been stored.\<close>

fun screen ::
    "intel_env \<Rightarrow> policy_mode \<Rightarrow> search_constraints \<Rightarrow> string list \<Rightarrow> int \<Rightarrow> snapshot list \<Rightarrow> db \<Rightarrow>
     (err + blocked_repo list \<times> candidate list) \<times> db" where
  "screen env mode c tokens now [] s = (Inr ([], []), s)"
| "screen env mode c tokens now (sn # sns) s =
     (case upsertGithubRepo now (repo_input_of sn) s of
        Inl e \<Rightarrow> (Inl e, s)
      | Inr s1 \<Rightarrow>
          (case screen env mode c tokens now sns s1 of
             (Inl e, s2) \<Rightarrow> (Inl e, s2)
           | (Inr (bs, cs), s2) \<Rightarrow>
               (case decide env mode c sn of
                  Blocked code msg \<Rightarrow>
                    (Inr (\<lparr> bk_fullName = sn_fullName sn, bk_code = code, bk_message = msg \<rparr> # bs, cs), s2)
                | Allowed \<Rightarrow> (Inr (bs, candidate_of env tokens sn # cs), s2))))"

definition page_size :: "int \<Rightarrow> jsnum" where
  "page_size cap = Fin (of_int (min 50 (max 10 (cap * 5))))"

text \<open>What both routes do up to the selection.\<close>

definition find_candidates ::
    "intel_env \<Rightarrow> policy_mode \<Rightarrow> string \<Rightarrow> search_constraints \<Rightarrow> int \<Rightarrow> int \<Rightarrow> db \<Rightarrow>
     (string \<times> blocked_repo list \<times> candidate list) response \<times> db" where
  "find_candidates env mode idea c cap now s =
     (let tokens = sanitizeIntelTokens idea;
          q = buildGithubSearchQuery idea c
      in if tokens = [] then (Reject 400 ''invalid'', s)
         else if q = [] then (Reject 400 ''invalid'', s)
         else (case fetchGithubRepoSearch (ie_search env) q (page_size cap) of
             Inl e \<Rightarrow> (Reject 502 ''github_search_failed'', s)
           | Inr sns \<Rightarrow>
               (case screen env mode c tokens now sns s of
                  (Inl e, s1) \<Rightarrow> (Reject 500 ''internal'', s1)
                | (Inr (bs, cs), s1) \<Rightarrow>
                    (Ok (q, bs, take (nat cap) (sort_key (rank_of (ie_collate env)) cs)), s1))))"

section \<open>Recording\<close>

definition json_int :: "int \<Rightarrow> json" where
  "json_int n = JNum (Fin (of_int n))"

definition json_names :: "string list option \<Rightarrow> json" where
  "json_names x = (case x of None \<Rightarrow> JNull | Some ws \<Rightarrow> JArr (map JStr ws))"

definition result_data :: "intel_env \<Rightarrow> snapshot \<Rightarrow> json" where
  "result_data env sn = JObj [(''repoId'', json_int (sn_repoId sn)), (''fullName'', JStr (sn_fullName sn)),
     (''htmlUrl'', JStr (sn_htmlUrl sn)), (''description'', json_opt (sn_description sn)),
     (''language'', json_opt (sn_language sn)), (''topics'', JArr (map JStr (sn_topics sn))),
     (''licenseSpdx'', json_opt (sn_licenseSpdx sn)), (''stars'', json_int (sn_stars sn)),
     (''forks'', json_int (sn_forks sn)), (''archived'', JBool (sn_archived sn)),
     (''pushedAt'', json_opt (map_option (ie_iso env) (sn_pushedAt sn))),
     (''updatedAt'', json_opt (map_option (ie_iso env) (sn_updatedAt sn)))]"

definition result_inputs :: "intel_env \<Rightarrow> (nat \<Rightarrow> string) \<Rightarrow> candidate list \<Rightarrow> result_input list" where
  "result_inputs env gen cs =
     map (\<lambda>(i, c). \<lparr> rs_id = ''simr_'' @ gen (Suc i), rs_rank = Suc i, rs_itemKind = ''repo'',
            rs_itemKey = sn_fullName (cd_snapshot c), rs_score = cd_score c, rs_explanation = Some (cd_explanation c),
            rs_data = result_data env (cd_snapshot c) \<rparr>) (enumerate 0 cs)"

definition manifest_entry :: "candidate \<Rightarrow> json" where
  "manifest_entry c = JObj [(''repoId'', json_int (sn_repoId (cd_snapshot c))), (''fullName'', JStr (sn_fullName (cd_snapshot c))),
     (''htmlUrl'', JStr (sn_htmlUrl (cd_snapshot c))), (''licenseSpdx'', json_opt (sn_licenseSpdx (cd_snapshot c))),
     (''score'', JNum (Fin (cd_score c)))]"

definition intel_actor :: "principal \<Rightarrow> string \<times> string option" where
  "intel_actor pr =
     (if truthy (pr_userId pr) then ''buyer_user'' else if truthy (pr_apiKeyId pr) then ''buyer_api_key'' else ''buyer'',
      if pr_userId pr = None then pr_apiKeyId pr else pr_userId pr)"

text \<open>Query, results and manifest are three statements; \<open>t\<close> is the time of the writes.\<close>

definition record_search ::
    "intel_env \<Rightarrow> (nat \<Rightarrow> string) \<Rightarrow> int \<Rightarrow> principal \<Rightarrow> string \<Rightarrow> string \<Rightarrow> string \<Rightarrow> string option \<Rightarrow> json \<Rightarrow> string \<Rightarrow>
     int \<Rightarrow> json \<Rightarrow> candidate list \<Rightarrow> db \<Rightarrow> db" where
  "record_search env gen t pr qid kind idea tool context version latency manifest cs s =
     upsertProvenanceManifest t (''prov_'' @ (if kind = ''similarity'' then ''sim_'' else ''plan_'') @ qid) kind qid manifest
       (putSimilarityResults t qid (result_inputs env gen cs)
         (createSimilarityQuery t
            \<lparr> qi_id = qid, qi_queryText = idea, qi_tool = tool, qi_orgId = Some (pr_orgId pr),
              qi_actorType = Some (fst (intel_actor pr)), qi_actorId = snd (intel_actor pr), qi_context = context,
              qi_policyVersion = Some version, qi_latencyMs = Some latency \<rparr> s))"

record similar_answer =
  sa_id :: string
  sa_policyVersion :: string
  sa_results :: "candidate list"
  sa_blockedCount :: nat
  sa_blockedSample :: "blocked_repo list"

record similar_body =
  sb_idea :: string
  sb_codeContext :: "string option"
  sb_limit :: "int option"
  sb_constraints :: search_constraints
  sb_mode :: policy_mode
  sb_tool :: "string option"

definition tool_of :: "string option \<Rightarrow> string option" where
  "tool_of x = (if truthy x then Some (trim (the x)) else None)"

definition similar_limit :: "int \<Rightarrow> int \<Rightarrow> int option \<Rightarrow> int" where
  "similar_limit hi dflt x = max 1 (min hi (patched x dflt))"

definition mode_text :: "policy_mode \<Rightarrow> string" where
  "mode_text m = (case m of Suggest \<Rightarrow> ''suggest'' | AutoApply \<Rightarrow> ''auto_apply'')"

definition similar_context :: "intel_env \<Rightarrow> similar_body \<Rightarrow> int \<Rightarrow> json" where
  "similar_context env b cap = JObj [(''mode'', JStr (mode_text (sb_mode b))), (''limit'', json_int cap),
     (''minStars'', case sc_minStars (sb_constraints b) of None \<Rightarrow> JNull | Some n \<Rightarrow> json_int n),
     (''languages'', json_names (sc_languages (sb_constraints b))),
     (''licenseAllow'', json_names (sc_licenseAllow (sb_constraints b))),
     (''codeContextSha256'', if truthy (sb_codeContext b) then JStr (take 16 (ie_sha env (the (sb_codeContext b)))) else JNull),
     (''codeContextBytes'', json_int (int (length (or_blank (sb_codeContext b)))))]"

definition policy_version :: "intel_env \<Rightarrow> string" where
  "policy_version env = readPolicyVersion (se_frac_text (ie_search env)) (ie_sha env) (ie_policy env)"

text \<open>\<open>POST /api/intel/similar\<close>; the request starts at \<open>now\<close> and writes at \<open>t\<close>.\<close>

definition route_similar ::
    "intel_env \<Rightarrow> (nat \<Rightarrow> string) \<Rightarrow> int \<Rightarrow> int \<Rightarrow> principal \<Rightarrow> similar_body \<Rightarrow> db \<Rightarrow> similar_answer response \<times> db" where
  "route_similar env gen now t pr b s =
     (let idea = trim (sb_idea b);
          cap = similar_limit 20 10 (sb_limit b);
          version = policy_version env
      in case find_candidates env (sb_mode b) idea (sb_constraints b) cap now s of
           (Reject code e, s1) \<Rightarrow> (Reject code e, s1)
         | (Ok (q, bs, selected), s1) \<Rightarrow>
             let qid = ''simq_'' @ gen 0;
                 manifest = JObj [(''kind'', JStr ''similarity''), (''queryId'', JStr qid), (''createdAt'', JStr (ie_iso env t)),
                   (''policyVersion'', JStr version), (''githubBaseUrl'', JStr (ie_githubBaseUrl env)), (''searchQuery'', JStr q),
                   (''mode'', JStr (mode_text (sb_mode b))), (''results'', JArr (map manifest_entry selected)),
                   (''blockedCount'', json_int (int (length bs)))]
             in (Ok \<lparr> sa_id = qid, sa_policyVersion = version, sa_results = selected, sa_blockedCount = length bs,
                      sa_blockedSample = take 10 bs \<rparr>,
                 record_search env gen t pr qid ''similarity'' idea (tool_of (sb_tool b)) (similar_context env b cap) version
                   (t - now) manifest selected s1))"

definition plan_steps :: json where
  "plan_steps = JArr (map (\<lambda>(i, ti, d). JObj [(''id'', JStr i), (''title'', JStr ti), (''detail'', JStr d)])
     [(''shortlist'', ''Shortlist'', ''Review the top candidates and pick 1 to study deeply.''),
      (''license'', ''License'', ''Confirm license compatibility and any NOTICE/attribution requirements.''),
      (''fit'', ''Fit'', ''Map your requirements to the repo: APIs, modules, and extension points.''),
      (''spike'', ''Spike'', ''Prototype an integration in a throwaway branch, then harden into production code.''),
      (''provenance'', ''Provenance'', ''Record exact repo URLs/commits/files you reused for auditability.'')])"

definition plan_context :: "similar_body \<Rightarrow> int \<Rightarrow> json" where
  "plan_context b cap = JObj [(''kind'', JStr ''reuse_plan''), (''limit'', json_int cap),
     (''minStars'', case sc_minStars (sb_constraints b) of None \<Rightarrow> JNull | Some n \<Rightarrow> json_int n),
     (''languages'', json_names (sc_languages (sb_constraints b))),
     (''licenseAllow'', json_names (sc_licenseAllow (sb_constraints b)))]"

text \<open>\<open>POST /api/intel/reuse-plan\<close> always screens in suggest mode.\<close>

definition route_reuse_plan ::
    "intel_env \<Rightarrow> (nat \<Rightarrow> string) \<Rightarrow> int \<Rightarrow> int \<Rightarrow> principal \<Rightarrow> similar_body \<Rightarrow> db \<Rightarrow> similar_answer response \<times> db" where
  "route_reuse_plan env gen now t pr b s =
     (let idea = trim (sb_idea b);
          cap = similar_limit 10 5 (sb_limit b);
          version = policy_version env;
          tool = tool_of (sb_tool b)
      in case find_candidates env Suggest idea (sb_constraints b) cap now s of
           (Reject code e, s1) \<Rightarrow> (Reject code e, s1)
         | (Ok (q, bs, selected), s1) \<Rightarrow>
             let pid = ''plan_'' @ gen 0;
                 manifest = JObj [(''kind'', JStr ''reuse_plan''), (''planId'', JStr pid), (''createdAt'', JStr (ie_iso env t)),
                   (''policyVersion'', JStr version), (''githubBaseUrl'', JStr (ie_githubBaseUrl env)), (''searchQuery'', JStr q),
                   (''steps'', plan_steps), (''candidates'', JArr (map manifest_entry selected)),
                   (''blockedCount'', json_int (int (length bs)))]
             in (Ok \<lparr> sa_id = pid, sa_policyVersion = version, sa_results = selected, sa_blockedCount = length bs,
                      sa_blockedSample = take 10 bs \<rparr>,
                 record_search env gen t pr pid ''reuse_plan'' idea (Some (if truthy tool then the tool else ''reuse_plan''))
                   (plan_context b cap) version (t - now) manifest selected s1))"

section \<open>Provenance\<close>

text \<open>Up to fifty manifests, newest first, of a query of the caller's organisation.\<close>

definition route_provenance ::
    "principal \<Rightarrow> string \<Rightarrow> string option \<Rightarrow> db \<Rightarrow> (similarity_queries_row \<times> manifests_row list) response" where
  "route_provenance pr rawId rawKind s =
     (let refId = trim rawId; kind = trim (or_blank rawKind)
      in if refId = [] then Reject 400 ''invalid''
         else (case find (\<lambda>q. sq_id q = refId) (intel_similarity_queries s) of
             None \<Rightarrow> Reject 404 ''not_found''
           | Some q \<Rightarrow>
               if or_blank (sq_org_id q) \<noteq> pr_orgId pr then Reject 404 ''not_found''
               else Ok (q, take 50 (order_desc pm_created_at
                      (filter (\<lambda>m. pm_ref_id m = refId \<and> (kind \<noteq> [] \<longrightarrow> pm_kind m = kind)) (intel_provenance_manifests s))))))"

section \<open>What the policy admits\<close>

lemma decideRepoPolicy_Allowed_iff:
  "decideRepoPolicy ft env mode spdx archived stars allow req = Allowed \<longleftrightarrow>
     \<not> archived \<and> (min_stars ft env req \<le> 0 \<or> min_stars ft env req \<le> stars) \<and>
     (case normalizeLicenseId spdx of
        None \<Rightarrow> mode = Suggest \<and> license_allowlist env allow = None
      | Some l \<Rightarrow> l \<notin> set (parseCsvUpper (po_deny env)) \<and>
          (case license_allowlist env allow of None \<Rightarrow> True | Some ws \<Rightarrow> l \<in> set ws))"
  by (simp add: decideRepoPolicy_def Let_def not_less split: option.split policy_mode.split)

lemma min_stars_of_arg:
  "min_stars ft env (min_stars_arg c) = (case sc_minStars c of None \<Rightarrow> 0 | Some n \<Rightarrow> max 0 n)"
  by (simp add: min_stars_def min_stars_arg_def json_number_def nonneg_floor_def split: option.split)

section \<open>What a search answers\<close>

lemma screen_result:
  "screen env mode c tokens now sns s = (Inr (bs, cs), s1) \<Longrightarrow>
     cs = map (candidate_of env tokens) (filter (\<lambda>sn. decide env mode c sn = Allowed) sns) \<and>
     length bs + length cs = length sns"
proof (induction sns arbitrary: s bs cs s1)
  case (Cons sn sns)
  then show ?case
    by (fastforce split: sum.split_asm prod.split_asm decision.split_asm)
qed simp

text \<open>The first elements of a sorted list come before all the others.\<close>

lemma take_sorted_best:
  assumes "sorted (map f xs)" "x \<in> set xs" "x \<notin> set (take n xs)"
  shows "length (take n xs) = n \<and> (\<forall>y\<in>set (take n xs). f y \<le> f x)"
proof -
  have "x \<in> set (drop n xs)" using assms(2,3) by (metis Un_iff append_take_drop_id set_append)
  moreover have "sorted (map f (take n xs) @ map f (drop n xs))"
    using assms(1) by (metis append_take_drop_id map_append)
  ultimately have "\<forall>y\<in>set (take n xs). f y \<le> f x" by (auto simp: sorted_append)
  moreover have "n < length xs" using \<open>x \<in> set (drop n xs)\<close> by (cases "n < length xs") auto
  ultimately show ?thesis by simp
qed

lemma find_candidates_best:
  assumes "find_candidates env mode idea c cap now s = (Ok (q, bs, sel), s1)"
  obtains sns where "fetchGithubRepoSearch (ie_search env) q (page_size cap) = Inr sns"
    "sorted (map (rank_of (ie_collate env)) sel)" "length sel \<le> nat cap"
    "\<And>r. r \<in> set sel \<Longrightarrow> decide env mode c (cd_snapshot r) = Allowed \<and> cd_snapshot r \<in> set sns \<and>
       r = candidate_of env (sanitizeIntelTokens idea) (cd_snapshot r)"
    "\<And>sn. sn \<in> set sns \<Longrightarrow> decide env mode c sn = Allowed \<Longrightarrow>
       candidate_of env (sanitizeIntelTokens idea) sn \<in> set sel \<or>
       length sel = nat cap \<and> (\<forall>r\<in>set sel. rank_of (ie_collate env) r \<le>
          rank_of (ie_collate env) (candidate_of env (sanitizeIntelTokens idea) sn))"
proof -
  let ?rank = "rank_of (ie_collate env)" and ?cand = "candidate_of env (sanitizeIntelTokens idea)"
  from assms obtain sns cs where sns: "fetchGithubRepoSearch (ie_search env) q (page_size cap) = Inr sns"
    and scr: "screen env mode c (sanitizeIntelTokens idea) now sns s = (Inr (bs, cs), s1)"
    and sel: "sel = take (nat cap) (sort_key ?rank cs)"
    by (auto simp: find_candidates_def Let_def split: if_split_asm sum.split_asm prod.split_asm)
  have cs: "cs = map ?cand (filter (\<lambda>sn. decide env mode c sn = Allowed) sns)" using screen_result [OF scr] by simp
  have snap: "cd_snapshot (?cand sn) = sn" for sn by (simp add: candidate_of_def split: prod.split)
  have srt: "sorted (map ?rank (sort_key ?rank cs))" by simp
  show ?thesis
  proof (rule that [OF sns])
    show "sorted (map ?rank sel)" unfolding sel take_map [symmetric] by (rule sorted_wrt_take [OF srt])
    show "length sel \<le> nat cap" unfolding sel by simp
    fix r assume "r \<in> set sel"
    then have "r \<in> set cs" unfolding sel by (auto dest: in_set_takeD)
    then show "decide env mode c (cd_snapshot r) = Allowed \<and> cd_snapshot r \<in> set sns \<and> r = ?cand (cd_snapshot r)"
      unfolding cs by (auto simp: snap)
  next
    fix sn assume "sn \<in> set sns" "decide env mode c sn = Allowed"
    then have "?cand sn \<in> set (sort_key ?rank cs)" unfolding cs by auto
    from take_sorted_best [OF srt this, of "nat cap"]
    show "?cand sn \<in> set sel \<or> length sel = nat cap \<and> (\<forall>r\<in>set sel. ?rank r \<le> ?rank (?cand sn))"
      unfolding sel by blast
  qed
qed

lemma similar_limit_bounds: "1 \<le> similar_limit hi d x" "1 \<le> hi \<Longrightarrow> similar_limit hi d x \<le> hi"
  by (auto simp: similar_limit_def)


text \<open>\<open>INTEL_MIN_STARS_DEFAULT\<close> has no effect on a search: a request without a bound on the stars hands
  \<open>null\<close> to the policy, \<open>Number(null)\<close> is 0, a finite number, and so the default is never
  consulted. Whatever its value, both routes store, select and block the same.\<close>

theorem min_stars_default_ignored:
  "find_candidates (env\<lparr>ie_policy := (ie_policy env)\<lparr>po_minStars := v\<rparr>\<rparr>) mode idea c cap now s =
   find_candidates env mode idea c cap now s"
proof -
  let ?env = "env\<lparr>ie_policy := (ie_policy env)\<lparr>po_minStars := v\<rparr>\<rparr>"
  have dec: "decide ?env mode c sn = decide env mode c sn" for sn
    by (simp add: decide_def decideRepoPolicy_def min_stars_of_arg license_allowlist_def Let_def)
  have cand: "candidate_of ?env tokens = candidate_of env tokens" for tokens
    by (rule ext) (simp add: candidate_of_def)
  have "screen ?env mode c tokens now sns s = screen env mode c tokens now sns s" for tokens sns s
    by (induction sns arbitrary: s) (simp_all add: dec cand cong: sum.case_cong prod.case_cong decision.case_cong)
  then show ?thesis by (simp add: find_candidates_def Let_def split: sum.split prod.split)
qed

section \<open>Provenance is for the organisation that asked\<close>

lemma find_append_new: "find P xs = None \<Longrightarrow> P x \<Longrightarrow> find P (xs @ [x]) = Some x"
  by (induction xs) auto

lemma screen_frame:
  "intel_similarity_queries (snd (screen env mode c tokens now sns s)) = intel_similarity_queries s \<and>
   intel_provenance_manifests (snd (screen env mode c tokens now sns s)) = intel_provenance_manifests s"
proof (induction sns arbitrary: s)
  case (Cons sn sns)
  show ?case
  proof (cases "upsertGithubRepo now (repo_input_of sn) s")
    case (Inr s1)
    then have "intel_similarity_queries s1 = intel_similarity_queries s"
      "intel_provenance_manifests s1 = intel_provenance_manifests s"
      by (auto simp: upsertGithubRepo_def Let_def split: if_split_asm)
    with Inr Cons.IH [of s1] show ?thesis by (auto split: prod.split sum.split decision.split)
  qed simp
qed simp

lemma find_candidates_frame:
  "find_candidates env mode idea c cap now s = (r, s1) \<Longrightarrow>
     intel_similarity_queries s1 = intel_similarity_queries s \<and>
     intel_provenance_manifests s1 = intel_provenance_manifests s"
  by (auto simp: find_candidates_def Let_def split: if_split_asm sum.split_asm prod.split_asm
      dest!: arg_cong [of _ _ snd] simp: screen_frame dest: sym)

text \<open>The provenance of a search can be read back by the organisation that made it, and by no other:
  after a similarity search with a fresh id, asking for that id returns the query and one manifest, whose
  entries are the results of the answer in their order; any other organisation gets the answer
  of an unknown id.\<close>

theorem provenance_roundtrip:
  assumes "route_similar env gen now t pr b s = (Ok ans, s1)"
    and "sa_id ans \<notin> set (map sq_id (intel_similarity_queries s))"
    and "sa_id ans \<notin> set (map pm_ref_id (intel_provenance_manifests s))" and "trim (sa_id ans) = sa_id ans"
  shows "(\<exists>q m. route_provenance pr (sa_id ans) None s1 = Ok (q, [m]) \<and> sq_query_text q = trim (sb_idea b) \<and>
      jget ''results'' (Some (pm_manifest_json m)) = Some (JArr (map manifest_entry (sa_results ans)))) \<and>
    (\<forall>pr'. pr_orgId pr' \<noteq> pr_orgId pr \<longrightarrow> route_provenance pr' (sa_id ans) None s1 = Reject 404 ''not_found'')"
proof -
  from assms(1) obtain q bs s2 ctx lat mf where
    fc: "find_candidates env (sb_mode b) (trim (sb_idea b)) (sb_constraints b) (similar_limit 20 10 (sb_limit b)) now s
         = (Ok (q, bs, sa_results ans), s2)"
    and s1: "s1 = record_search env gen t pr (sa_id ans) ''similarity'' (trim (sb_idea b)) (tool_of (sb_tool b)) ctx
         (policy_version env) lat mf (sa_results ans) s2"
    and mf: "jget ''results'' (Some mf) = Some (JArr (map manifest_entry (sa_results ans)))"
    and sid: "sa_id ans \<noteq> []"
    by (auto simp: route_similar_def Let_def split: response.split_asm prod.split_asm)
  note frame = find_candidates_frame [OF fc]
  define row where "row = \<lparr> sq_id = sa_id ans, sq_tool = tool_of (sb_tool b), sq_org_id = Some (pr_orgId pr),
    sq_actor_type = Some (fst (intel_actor pr)), sq_actor_id = snd (intel_actor pr), sq_query_text = trim (sb_idea b),
    sq_context_json = ctx, sq_policy_version = Some (policy_version env), sq_latency_ms = Some lat, sq_created_at = t \<rparr>"
  have queries: "intel_similarity_queries s1 = intel_similarity_queries s @ [row]"
    using frame by (simp add: s1 record_search_def upsertProvenanceManifest_def putSimilarityResults_def
        createSimilarityQuery_def row_def)
  have "\<not> list_ex (\<lambda>m. pm_kind m = ''similarity'' \<and> pm_ref_id m = sa_id ans) (intel_provenance_manifests s2)"
    using assms(3) frame by (force simp: list_ex_iff)
  then obtain m where manifests: "intel_provenance_manifests s1 = intel_provenance_manifests s @ [m]"
    and m: "pm_ref_id m = sa_id ans" "pm_manifest_json m = mf"
    using frame by (simp add: s1 record_search_def upsertProvenanceManifest_def putSimilarityResults_def
        createSimilarityQuery_def insert_do_update_def)
  have "find (\<lambda>q. sq_id q = sa_id ans) (intel_similarity_queries s1) = Some row"
    unfolding queries using assms(2) by (intro find_append_new) (force simp: find_None_iff row_def)+
  moreover have "filter (\<lambda>m. pm_ref_id m = sa_id ans) (intel_provenance_manifests s1) = [m]"
    unfolding manifests using assms(3) m(1) by (force simp: filter_empty_conv)
  ultimately show ?thesis
    using assms(4) sid m(2) mf by (simp add: route_provenance_def row_def or_blank_def trim_def order_desc_def)
qed

section \<open>An example\<close>

definition example_item :: json where
  "example_item = JObj [(''id'', JNum (Fin 7)), (''full_name'', JStr ''a/b''), (''html_url'', JStr ''u''),
     (''stargazers_count'', JNum (Fin 5))]"

definition example_intel :: intel_env where
  "example_intel = \<lparr> ie_search = \<lparr> se_frac_text = (\<lambda>_. ''0''), se_parse_date = (\<lambda>_. None),
       se_parse_json = (\<lambda>_. Some (JObj [(''items'', JArr [example_item])])), se_baseUrl = ''g'',
       se_http = (\<lambda>q n. Inr (200, ''b'')) \<rparr>,
     ie_policy = \<lparr> po_allow = None, po_deny = None, po_minStars = Some ''100'' \<rparr>,
     ie_score = \<lparr> sv_log10 = (\<lambda>_. 0), sv_now = 0 \<rparr>, ie_collate = (\<lambda>_. 0), ie_sha = (\<lambda>_. ''h''), ie_iso = (\<lambda>_. ''d''),
     ie_githubBaseUrl = ''g'' \<rparr>"

definition example_similar :: similar_body where
  "example_similar = \<lparr> sb_idea = ''abc'', sb_codeContext = None, sb_limit = None,
     sb_constraints = \<lparr> sc_minStars = None, sc_languages = None, sc_licenseAllow = None \<rparr>, sb_mode = Suggest, sb_tool = None \<rparr>"

definition example_snapshot :: snapshot where
  "example_snapshot = \<lparr> sn_repoId = 7, sn_fullName = ''a/b'', sn_htmlUrl = ''u'', sn_description = None,
     sn_language = None, sn_topics = [], sn_licenseSpdx = None, sn_licenseKey = None, sn_stars = 5, sn_forks = 0,
     sn_archived = False, sn_pushedAt = None, sn_updatedAt = None \<rparr>"

definition example_asker :: principal where
  "example_asker = \<lparr> pr_orgId = ''o1'', pr_userId = None, pr_role = None, pr_sessionId = None, pr_apiKeyId = Some ''k'' \<rparr>"

lemma example_similar_fields [simp]: "sb_idea example_similar = ''abc''" "sb_limit example_similar = None"
    "sb_mode example_similar = Suggest" "sb_tool example_similar = None"
  by (simp_all add: example_similar_def)

lemma example_parsed: "snapshot_of (\<lambda>_. ''0'') (\<lambda>_. None) example_item = Some example_snapshot"
  by code_simp

lemma example_words: "trim ''abc'' = ''abc''" "sanitizeIntelTokens ''abc'' = [''abc'']"
    "buildGithubSearchQuery ''abc'' (sb_constraints example_similar) = ''abc fork:false''"
    "trim ''abc fork:false'' = ''abc fork:false''" "trim ''g'' = ''g''" "endsWith ''g'' ''/'' = False"
  by code_simp+

lemma example_fetch: "fetchGithubRepoSearch (ie_search example_intel) ''abc fork:false'' (page_size cap) = Inr [example_snapshot]"
proof -
  have "1 \<le> clamp_floor 1 50 10 (page_size cap)" using clamp_floor_bounds [of 1 50 10] by simp
  then have "0 < nat (clamp_floor 1 50 10 (page_size cap))" by simp
  then obtain n where "nat (clamp_floor 1 50 10 (page_size cap)) = Suc n" by (metis gr0_implies_Suc)
  then show ?thesis
    by (simp add: fetchGithubRepoSearch_def example_intel_def example_words example_parsed strip_slash_def
        List.map_filter_def Let_def jarray_def)
qed

lemma example_screen:
  "\<exists>s1. screen example_intel Suggest (sb_constraints example_similar) tokens now [example_snapshot] empty_db =
     (Inr ([], [candidate_of example_intel tokens example_snapshot]), s1)"
proof -
  have "decide example_intel Suggest (sb_constraints example_similar) example_snapshot = Allowed"
    unfolding decide_def decideRepoPolicy_Allowed_iff min_stars_of_arg
    by (simp add: example_snapshot_def example_similar_def normalizeLicenseId_def or_blank_def trim_def
        license_allowlist_def parseCsvUpper_def example_intel_def Let_def)
  moreover have "\<exists>s1. upsertGithubRepo now (repo_input_of example_snapshot) empty_db = Inr s1"
    by (simp add: upsertGithubRepo_def repo_input_of_def example_snapshot_def int8_def count_fits_def whole_count_def
        int4_def empty_db_def Let_def)
  ultimately show ?thesis by auto
qed

lemma example_search:
  "\<exists>ans s1. route_similar example_intel (\<lambda>_. ''x'') 0 5 example_asker example_similar empty_db = (Ok ans, s1) \<and>
     sa_id ans = ''simq_x'' \<and> map cd_snapshot (sa_results ans) = [example_snapshot]"
proof -
  obtain s1 where "screen example_intel Suggest (sb_constraints example_similar) [''abc''] 0 [example_snapshot] empty_db =
     (Inr ([], [candidate_of example_intel [''abc''] example_snapshot]), s1)" using example_screen by blast
  then have "find_candidates example_intel Suggest ''abc'' (sb_constraints example_similar) 10 0 empty_db =
      (Ok (''abc fork:false'', [], [candidate_of example_intel [''abc''] example_snapshot]), s1)"
    by (simp add: find_candidates_def example_words example_fetch)
  moreover have "cd_snapshot (candidate_of example_intel [''abc''] example_snapshot) = example_snapshot"
    by (simp add: candidate_of_def split: prod.split)
  ultimately show ?thesis
    by (simp add: route_similar_def similar_limit_def patched_def example_words Let_def)
qed


theorem provenance_roundtrip_witness:
  "\<exists>ans s1 q m. route_similar example_intel (\<lambda>_. ''x'') 0 5 example_asker example_similar empty_db = (Ok ans, s1) \<and>
     route_provenance example_asker ''simq_x'' None s1 = Ok (q, [m]) \<and> sq_query_text q = ''abc'' \<and>
     route_provenance (example_asker\<lparr>pr_orgId := ''o2''\<rparr>) ''simq_x'' None s1 = Reject 404 ''not_found''"
proof -
  obtain ans s1 where run: "route_similar example_intel (\<lambda>_. ''x'') 0 5 example_asker example_similar empty_db = (Ok ans, s1)"
    and sid: "sa_id ans = ''simq_x''" using example_search by (elim exE conjE)
  have "sa_id ans \<notin> set (map sq_id (intel_similarity_queries empty_db))"
    "sa_id ans \<notin> set (map pm_ref_id (intel_provenance_manifests empty_db))" "trim (sa_id ans) = sa_id ans"
    by (simp_all add: empty_db_def sid trim_def is_space_def)
  note rt = provenance_roundtrip [OF run this]
  have "pr_orgId (example_asker\<lparr>pr_orgId := ''o2''\<rparr>) \<noteq> pr_orgId example_asker" by (simp add: example_asker_def)
  with rt have "route_provenance (example_asker\<lparr>pr_orgId := ''o2''\<rparr>) (sa_id ans) None s1 = Reject 404 ''not_found''" by blast
  with rt run show ?thesis unfolding sid example_similar_fields example_words by metis
qed

end
