(* ===== verification/Ingest.thy ===== *)
theory Ingest
  imports Corpus Auth
begin

text \<open>
  Ingestion of GitHub events: the batches workers hand in (\<open>POST /api/worker/intel/github/events\<close> of
  \<open>src/src/server.ts\<close>) and the runner \<open>src/workers/github-ingest-runner.ts\<close>, which polls the
  events API and the hourly archive and keeps a cursor per source. The transport, \<open>JSON.parse\<close> and the parsing of
  dates are parameters. Each statement of the store commits on its own, so that an exception keeps
  what was done before it.
\<close>

section \<open>Events\<close>

record ingest_env =
  ig_frac_text :: "rat \<Rightarrow> string"
  ig_parse_date :: "string \<Rightarrow> int option"
  ig_parse_json :: "string \<Rightarrow> json option"
  ig_iso :: "int \<Rightarrow> string"
  ig_http :: "string \<Rightarrow> err + nat \<times> string"                 \<comment> \<open>status and body of a page of events\<close>
  ig_archive :: "string \<Rightarrow> err + nat \<times> string list option"  \<comment> \<open>status and lines of an archive\<close>

definition text_of :: "ingest_env \<Rightarrow> json option \<Rightarrow> string" where
  "text_of env x = trim (text_or_blank (ig_frac_text env) x)"

definition nonblank :: "string \<Rightarrow> string option" where
  "nonblank t = (if t = [] then None else Some t)"

definition event_number :: "ingest_env \<Rightarrow> json option \<Rightarrow> jsnum" where
  "event_number env x = json_number (ig_frac_text env) (coalesce x (Some (JNum NaN)))"

text \<open>\<open>x ? String(x).trim() : null\<close>, and a blank result is none, too.\<close>

definition name_of :: "ingest_env \<Rightarrow> json option \<Rightarrow> string option" where
  "name_of env x = (if json_truthy x then nonblank (trim (json_text (ig_frac_text env) (the x))) else None)"

definition event_time :: "ingest_env \<Rightarrow> json option \<Rightarrow> int option" where
  "event_time env e = (let t = text_of env (jget ''created_at'' e) in if t = [] then None else ig_parse_date env t)"

definition github_page :: "string \<Rightarrow> string" where
  "github_page name = ''https://github.com/'' @ name"

section \<open>Batches of workers\<close>

record batch_state =
  bt_inserted :: nat
  bt_skipped :: nat
  bt_lastEventId :: "string option"
  bt_lastCreatedAt :: "int option"

definition batch_start :: batch_state where
  "batch_start = \<lparr> bt_inserted = 0, bt_skipped = 0, bt_lastEventId = None, bt_lastCreatedAt = None \<rparr>"

text \<open>The larger id when both are numbers, else the older one.\<close>

definition later_id :: "string option \<Rightarrow> string \<Rightarrow> string option" where
  "later_id old new =
     (case old of
        None \<Rightarrow> Some new
      | Some a \<Rightarrow>
          if a = [] then Some new
          else (case (js_number a, js_number new) of (Fin x, Fin y) \<Rightarrow> if y > x then Some new else Some a | _ \<Rightarrow> Some a))"

definition later_time :: "int option \<Rightarrow> int option \<Rightarrow> int option" where
  "later_time old new =
     (case new of None \<Rightarrow> old | Some n \<Rightarrow> (case old of None \<Rightarrow> Some n | Some t \<Rightarrow> if n > t then Some n else Some t))"

definition worker_event :: "ingest_env \<Rightarrow> string \<Rightarrow> json \<Rightarrow> event_input option" where
  "worker_event env source ev =
     (let e = Some ev; i = text_of env (jget ''id'' e); ty = text_of env (jget ''type'' e)
      in if \<not> is_object e \<or> i = [] \<or> ty = [] then None
         else Some \<lparr> ei_eventId = i, ei_source = source, ei_eventType = ty, ei_eventCreatedAt = event_time env e,
                ei_repoFullName = name_of env (jget ''name'' (jget ''repo'' e)),
                ei_actorLogin = name_of env (jget ''login'' (jget ''actor'' e)), ei_payload = ev \<rparr>)"

definition bare_repo :: "int \<Rightarrow> string \<Rightarrow> repo_input" where
  "bare_repo i name = \<lparr> ri_repoId = i, ri_fullName = name, ri_htmlUrl = github_page name, ri_description = None,
     ri_language = None, ri_topics = [], ri_licenseSpdx = None, ri_licenseKey = None, ri_stars = None, ri_forks = None,
     ri_archived = False, ri_pushedAt = None, ri_updatedAt = None, ri_seenAt = None \<rparr>"

text \<open>The repository of an event, when it has a positive id and a name.\<close>

definition event_repo :: "ingest_env \<Rightarrow> json \<Rightarrow> string option \<Rightarrow> (int \<times> string) option" where
  "event_repo env ev name =
     (case (event_number env (jget ''id'' (jget ''repo'' (Some ev))), name) of
        (Fin q, Some n) \<Rightarrow> if q > 0 then Some (\<lfloor>q\<rfloor>, n) else None
      | _ \<Rightarrow> None)"

text \<open>The event is stored first; a repository that cannot be stored ends the request.\<close>

definition ingest_worker_event ::
    "ingest_env \<Rightarrow> string \<Rightarrow> int \<Rightarrow> json \<Rightarrow> batch_state \<Rightarrow> db \<Rightarrow> (err + batch_state) \<times> db" where
  "ingest_worker_event env source now ev b s =
     (case worker_event env source ev of
        None \<Rightarrow> (Inr (b\<lparr>bt_skipped := Suc (bt_skipped b)\<rparr>), s)
      | Some x \<Rightarrow>
          let s1 = putGithubEventRaw now x s;
              b1 = b\<lparr>bt_inserted := Suc (bt_inserted b), bt_lastEventId := later_id (bt_lastEventId b) (ei_eventId x),
                     bt_lastCreatedAt := later_time (bt_lastCreatedAt b) (ei_eventCreatedAt x)\<rparr>
          in (case event_repo env ev (ei_repoFullName x) of
                None \<Rightarrow> (Inr b1, s1)
              | Some (i, n) \<Rightarrow>
                  (case upsertGithubRepo now (bare_repo i n) s1 of Inl e \<Rightarrow> (Inl e, s1) | Inr s2 \<Rightarrow> (Inr b1, s2))))"

fun ingest_worker_events ::
    "ingest_env \<Rightarrow> string \<Rightarrow> int \<Rightarrow> json list \<Rightarrow> batch_state \<Rightarrow> db \<Rightarrow> (err + batch_state) \<times> db" where
  "ingest_worker_events env source now [] b s = (Inr b, s)"
| "ingest_worker_events env source now (ev # evs) b s =
     (case ingest_worker_event env source now ev b s of
        (Inl e, s1) \<Rightarrow> (Inl e, s1)
      | (Inr b1, s1) \<Rightarrow> ingest_worker_events env source now evs b1 s1)"

record batch_answer =
  wa_sourceId :: string
  wa_batch :: batch_state

definition worker_source :: "worker_obj \<Rightarrow> string option \<Rightarrow> string" where
  "worker_source w raw =
     (let i = (if truthy raw then trim (the raw) else []) in ''worker:'' @ (if i \<noteq> [] then i else wo_id w))"

definition route_worker_events ::
    "ingest_env \<Rightarrow> int \<Rightarrow> worker_obj \<Rightarrow> string option \<Rightarrow> json list \<Rightarrow> db \<Rightarrow> batch_answer response \<times> db" where
  "route_worker_events env now w raw events s =
     (let source = worker_source w raw
      in if events = [] \<or> length events > 200 then (Reject 400 ''invalid'', s)
         else (case ingest_worker_events env source now events batch_start s of
             (Inl e, s1) \<Rightarrow> (Reject 500 ''internal'', s1)
           | (Inr b, s1) \<Rightarrow>
               (Ok \<lparr> wa_sourceId = source, wa_batch = b \<rparr>,
                upsertGithubSource now
                  \<lparr> gi_id = source,
                    gi_cursor = Some (JObj [(''lastEventId'', json_opt (bt_lastEventId b)),
                      (''lastEventCreatedAt'', json_opt (map_option (ig_iso env) (bt_lastCreatedAt b))),
                      (''lastIngestAt'', JStr (ig_iso env now))]),
                    gi_status = Some ''active'', gi_lastSuccessAt = Some (Some now), gi_lastErrorAt = Some None,
                    gi_lastError = Some None \<rparr> s1)))"

section \<open>The runner\<close>

text \<open>Numeric ids compare as numbers, others as text (\<open>less_eq\<close> of the characters).\<close>

fun text_le :: "string \<Rightarrow> string \<Rightarrow> bool" where
  "text_le [] _ = True"
| "text_le (a # as) [] = False"
| "text_le (a # as) (b # bs) =
     (if a = b then text_le as bs else (of_char a :: nat) < of_char b)"

definition all_decimal :: "string \<Rightarrow> bool" where
  "all_decimal t \<longleftrightarrow> t \<noteq> [] \<and> all_digits 10 t"

definition maxNumericString :: "string option \<Rightarrow> string option \<Rightarrow> string option" where
  "maxNumericString a b =
     (let aa = trim (or_blank a); bb = trim (or_blank b)
      in if aa = [] then nonblank bb
         else if bb = [] then Some aa
         else if all_decimal aa \<and> all_decimal bb
         then (if digits_value 10 aa \<ge> digits_value 10 bb then Some aa else Some bb)
         else if text_le bb aa then Some aa else Some bb)"

record run_state =
  rn_fetched :: nat
  rn_repos :: nat
  rn_lastEventId :: "string option"
  rn_lastCreatedAt :: "string option"

definition run_start :: run_state where
  "run_start = \<lparr> rn_fetched = 0, rn_repos = 0, rn_lastEventId = None, rn_lastCreatedAt = None \<rparr>"

definition runner_event :: "ingest_env \<Rightarrow> string \<Rightarrow> json \<Rightarrow> event_input option" where
  "runner_event env source ev =
     (let e = Some ev; i = text_of env (jget ''id'' e); ty = text_of env (jget ''type'' e)
      in if \<not> is_object e \<or> i = [] \<or> ty = [] then None
         else Some \<lparr> ei_eventId = i, ei_source = source, ei_eventType = ty, ei_eventCreatedAt = event_time env e,
                ei_repoFullName = nonblank (text_of env (jget ''name'' (jget ''repo'' e))),
                ei_actorLogin = nonblank (text_of env (jget ''login'' (jget ''actor'' e))), ei_payload = ev \<rparr>)"

definition empty_repo :: "int \<Rightarrow> string \<Rightarrow> int \<Rightarrow> repo_input" where
  "empty_repo i name seen = (bare_repo i name)\<lparr> ri_stars := Some (Fin 0), ri_forks := Some (Fin 0), ri_seenAt := Some seen \<rparr>"

definition ingestEvent ::
    "ingest_env \<Rightarrow> string \<Rightarrow> int \<Rightarrow> json \<Rightarrow> run_state \<Rightarrow> db \<Rightarrow> (err + run_state) \<times> db" where
  "ingestEvent env source now ev r s =
     (case runner_event env source ev of
        None \<Rightarrow> (Inr r, s)
      | Some x \<Rightarrow>
          let s1 = putGithubEventRaw now x s;
              created = text_of env (jget ''created_at'' (Some ev));
              r1 = r\<lparr>rn_fetched := Suc (rn_fetched r),
                     rn_lastEventId := maxNumericString (rn_lastEventId r) (Some (ei_eventId x)),
                     rn_lastCreatedAt := (if created \<noteq> [] then Some created else rn_lastCreatedAt r)\<rparr>
          in (case event_repo env ev (ei_repoFullName x) of
                None \<Rightarrow> (Inr r1, s1)
              | Some (i, n) \<Rightarrow>
                  (case upsertGithubRepo now (empty_repo i n (patched (ei_eventCreatedAt x) now)) s1 of
                     Inl e \<Rightarrow> (Inl e, s1)
                   | Inr s2 \<Rightarrow> (Inr (r1\<lparr>rn_repos := Suc (rn_repos r1)\<rparr>), s2))))"

fun ingestEvents ::
    "ingest_env \<Rightarrow> string \<Rightarrow> int \<Rightarrow> json list \<Rightarrow> run_state \<Rightarrow> db \<Rightarrow> (err + run_state) \<times> db" where
  "ingestEvents env source now [] r s = (Inr r, s)"
| "ingestEvents env source now (ev # evs) r s =
     (case ingestEvent env source now ev r s of
        (Inl e, s1) \<Rightarrow> (Inl e, s1)
      | (Inr r1, s1) \<Rightarrow> ingestEvents env source now evs r1 s1)"

section \<open>Hours of the archive\<close>

text \<open>The calendar behind \<open>Date.UTC\<close> and the \<open>getUTC\<close> methods: days since 1970 of a civil date and back.\<close>

definition days_from_civil :: "int \<Rightarrow> int \<Rightarrow> int \<Rightarrow> int" where
  "days_from_civil y m d =
     (let y' = (if m \<le> 2 then y - 1 else y);
          doy = (153 * (if m > 2 then m - 3 else m + 9) + 2) div 5 + d - 1;
          yoe = y' mod 400
      in y' div 400 * 146097 + (yoe * 365 + yoe div 4 - yoe div 100 + doy) - 719468)"

definition civil_from_days :: "int \<Rightarrow> int \<times> int \<times> int" where
  "civil_from_days days =
     (let z = days + 719468;
          doe = z mod 146097;
          yoe = (doe - doe div 1460 + doe div 36524 - doe div 146096) div 365;
          doy = doe - (365 * yoe + yoe div 4 - yoe div 100);
          mp = (5 * doy + 2) div 153;
          m = (if mp < 10 then mp + 3 else mp - 9)
      in (yoe + z div 146097 * 400 + (if m \<le> 2 then 1 else 0), m, doy - (153 * mp + 2) div 5 + 1))"

definition pad2 :: "int \<Rightarrow> string" where
  "pad2 n = (let t = show_int n in replicate (2 - length t) CHR ''0'' @ t)"

text \<open>An hour is counted from 1970; its text is \<open>YYYY-MM-DD-H\<close>.\<close>

definition hour_text :: "int \<Rightarrow> string" where
  "hour_text h =
     (case civil_from_days (h div 24) of
        (y, m, d) \<Rightarrow> show_int y @ ''-'' @ pad2 m @ ''-'' @ pad2 d @ ''-'' @ show_int (h mod 24))"

text \<open>\<open>hour.split('-').map(Number)\<close> with missing parts defaulting to 1, 1 and 0; a part that is not a
  number makes the date invalid, and its text is \<open>NaN\<close> in every place. Months and days out of range carry over.\<close>

definition hour_parts :: "string \<Rightarrow> jsnum \<times> jsnum \<times> jsnum \<times> jsnum" where
  "hour_parts t =
     (let ns = map js_number (split_on CHR ''-'' t);
          part = (\<lambda>i d. if i < length ns then ns ! i else Fin d)
      in (part 0 1970, part 1 1, part 2 1, part 3 0))"

definition hour_of :: "string \<Rightarrow> int option" where
  "hour_of t =
     (case hour_parts t of
        (Fin y, Fin m, Fin d, Fin h) \<Rightarrow>
          let m0 = \<lfloor>m\<rfloor> - 1
          in Some ((days_from_civil (\<lfloor>y\<rfloor> + m0 div 12) (m0 mod 12 + 1) 1 + \<lfloor>d\<rfloor> - 1) * 24 + \<lfloor>h\<rfloor>)
      | _ \<Rightarrow> None)"

definition next_hour :: "string \<Rightarrow> string" where
  "next_hour t = (case hour_of t of None \<Rightarrow> ''NaN-NaN-NaN-NaN'' | Some h \<Rightarrow> hour_text (h + 1))"

definition previous_hour :: "int \<Rightarrow> string" where
  "previous_hour now = hour_text (now div 3600000 - 1)"

section \<open>One run\<close>

datatype source_kind = EventsApi | GhArchive | OtherKind string

record run_answer =
  ra_fetched :: nat
  ra_repos :: nat
  ra_cursor :: json

definition source_note :: "string \<Rightarrow> string \<Rightarrow> int \<Rightarrow> string \<Rightarrow> source_input" where
  "source_note i status now msg =
     \<lparr> gi_id = i, gi_cursor = None, gi_status = Some status, gi_lastSuccessAt = None,
       gi_lastErrorAt = Some (Some now), gi_lastError = Some (Some msg) \<rparr>"

definition source_success :: "string \<Rightarrow> json \<Rightarrow> int \<Rightarrow> source_input" where
  "source_success i cursor now =
     \<lparr> gi_id = i, gi_cursor = Some cursor, gi_status = Some ''active'', gi_lastSuccessAt = Some (Some now),
       gi_lastErrorAt = Some None, gi_lastError = Some None \<rparr>"

definition source_fresh :: "string \<Rightarrow> json \<Rightarrow> source_input" where
  "source_fresh i cursor =
     \<lparr> gi_id = i, gi_cursor = Some cursor, gi_status = Some ''active'', gi_lastSuccessAt = None,
       gi_lastErrorAt = None, gi_lastError = None \<rparr>"

definition status_ok :: "nat \<Rightarrow> bool" where
  "status_ok n \<longleftrightarrow> 200 \<le> n \<and> n \<le> 299"

definition events_url :: "string \<Rightarrow> jsnum option \<Rightarrow> string" where
  "events_url base maxEvents =
     base @ ''/events?per_page='' @ show_int (clamp_floor 1 100 100 (case maxEvents of None \<Rightarrow> Fin 100 | Some x \<Rightarrow> x))"

definition run_events_api ::
    "ingest_env \<Rightarrow> string \<Rightarrow> string \<Rightarrow> jsnum option \<Rightarrow> int \<Rightarrow> db \<Rightarrow> (err + run_answer) \<times> db" where
  "run_events_api env source base maxEvents now s =
     (case ig_http env (events_url base maxEvents) of
        Inl e \<Rightarrow> (Inl e, s)
      | Inr (status, body) \<Rightarrow>
          if \<not> status_ok status then
            (Inl (OtherError (''events_api_fetch_failed:'' @ show_nat status)),
             upsertGithubSource now (source_note source ''error'' now
               (''events_api_fetch_failed:'' @ show_nat status @ '':'' @ take 300 body)) s)
          else (case jarray (ig_parse_json env body) of
              None \<Rightarrow>
                (Inl (OtherError ''events_api_invalid_json''),
                 upsertGithubSource now (source_note source ''error'' now ''events_api_invalid_json'') s)
            | Some evs \<Rightarrow>
                (case ingestEvents env source now evs run_start s of
                   (Inl e, s1) \<Rightarrow> (Inl e, s1)
                 | (Inr r, s1) \<Rightarrow>
                     let cursor = JObj [(''kind'', JStr ''events_api''), (''lastEventId'', json_opt (rn_lastEventId r)),
                           (''lastEventCreatedAt'', json_opt (rn_lastCreatedAt r)), (''lastPollAt'', JStr (ig_iso env now))]
                     in (Inr \<lparr> ra_fetched = rn_fetched r, ra_repos = rn_repos r, ra_cursor = cursor \<rparr>,
                         upsertGithubSource now (source_success source cursor now) s1))))"

text \<open>Lines that are blank or not JSON are skipped; so are falsy values.\<close>

definition archive_events :: "ingest_env \<Rightarrow> string list \<Rightarrow> json list" where
  "archive_events env lines =
     List.map_filter (\<lambda>l. if trim l = [] then None else
        (case ig_parse_json env (trim l) of Some j \<Rightarrow> if json_truthy (Some j) then Some j else None | None \<Rightarrow> None)) lines"

definition archive_hour :: "ingest_env \<Rightarrow> string option \<Rightarrow> github_sources_row option \<Rightarrow> string" where
  "archive_hour env explicit existing =
     (let e = trim (or_blank explicit)
      in if e \<noteq> [] then e else text_of env (jget ''nextHour'' (map_option gs_cursor_json existing)))"

definition archive_cursor :: "string \<Rightarrow> json" where
  "archive_cursor h = JObj [(''kind'', JStr ''gh_archive''), (''nextHour'', JStr h)]"

definition run_gh_archive ::
    "ingest_env \<Rightarrow> string \<Rightarrow> string \<Rightarrow> string option \<Rightarrow> github_sources_row option \<Rightarrow> int \<Rightarrow> db \<Rightarrow>
     (err + run_answer) \<times> db" where
  "run_gh_archive env source base explicit existing now s =
     (let hour = archive_hour env explicit existing
      in if hour = [] then
           (let derived = previous_hour now
            in (Inr \<lparr> ra_fetched = 0, ra_repos = 0, ra_cursor = archive_cursor derived \<rparr>,
                upsertGithubSource now (source_fresh source (archive_cursor derived)) s))
         else (case ig_archive env (base @ ''/'' @ hour @ ''.json.gz'') of
             Inl e \<Rightarrow> (Inl e, s)
           | Inr (status, body) \<Rightarrow>
               if status = 404 then
                 (Inr \<lparr> ra_fetched = 0, ra_repos = 0, ra_cursor = archive_cursor hour \<rparr>,
                  upsertGithubSource now (source_note source ''active'' now (''gh_archive_not_ready:'' @ hour)) s)
               else if \<not> status_ok status then
                 (Inl (OtherError (''gh_archive_fetch_failed:'' @ show_nat status)),
                  upsertGithubSource now (source_note source ''error'' now
                    (''gh_archive_fetch_failed:'' @ show_nat status @ '':'' @ hour)) s)
               else (case body of
                   None \<Rightarrow> (Inl (OtherError ''gh_archive_missing_body''), s)
                 | Some lines \<Rightarrow>
                     (case ingestEvents env source now (archive_events env lines) run_start s of
                        (Inl e, s1) \<Rightarrow> (Inl e, s1)
                      | (Inr r, s1) \<Rightarrow>
                          let cursor = JObj [(''kind'', JStr ''gh_archive''), (''nextHour'', JStr (next_hour hour)),
                                (''lastIngestedHour'', JStr hour), (''lastPollAt'', JStr (ig_iso env now))]
                          in (Inr \<lparr> ra_fetched = rn_fetched r, ra_repos = rn_repos r, ra_cursor = cursor \<rparr>,
                              upsertGithubSource now (source_success source cursor now) s1)))))"

definition runGithubIngestOnce ::
    "ingest_env \<Rightarrow> string \<Rightarrow> source_kind \<Rightarrow> string \<Rightarrow> string option \<Rightarrow> jsnum option \<Rightarrow> int \<Rightarrow> db \<Rightarrow>
     (err + run_answer) \<times> db" where
  "runGithubIngestOnce env source kind baseUrl explicit maxEvents now s =
     (let base = strip_slash (trim baseUrl);
          existing = getGithubSource source s;
          s1 = (if existing = None then upsertGithubSource now (source_fresh source (JObj [])) s else s)
      in if base = [] then (Inl (OtherError ''github_ingest_missing_base_url''), s)
         else (case kind of
             EventsApi \<Rightarrow> run_events_api env source base maxEvents now s1
           | GhArchive \<Rightarrow> run_gh_archive env source base explicit existing now s1
           | OtherKind k \<Rightarrow> (Inl (OtherError (''unsupported_source_kind:'' @ k)), s1)))"

section \<open>The loop of the runner\<close>

record runner_config =
  rc_hybrid :: bool
  rc_kind :: source_kind
  rc_rootSource :: string
  rc_eventsSource :: string
  rc_archiveSource :: string
  rc_eventsBase :: string
  rc_archiveBase :: string
  rc_archivePollMs :: int
  rc_ttlDays :: int
  rc_pruneLimit :: int
  rc_pruneIntervalMs :: int

text \<open>\<open>Number(env ?? default)\<close>, clamped.\<close>

definition config_number :: "jsnum option \<Rightarrow> int \<Rightarrow> int \<Rightarrow> int \<Rightarrow> int" where
  "config_number env dflt lo hi = clamp_floor lo hi dflt (case env of None \<Rightarrow> Fin (of_int dflt) | Some x \<Rightarrow> x)"

definition nonblank_or :: "string option \<Rightarrow> string \<Rightarrow> string" where
  "nonblank_or env dflt = (let t = trim (case env of None \<Rightarrow> dflt | Some x \<Rightarrow> x) in if t = [] then dflt else t)"

definition runner_config_of :: "(string \<Rightarrow> string option) \<Rightarrow> runner_config" where
  "runner_config_of getenv =
     (let root = nonblank_or (getenv ''GITHUB_INGEST_SOURCE_ID'') ''hybrid'';
          kind = nonblank_or (getenv ''GITHUB_INGEST_SOURCE_KIND'') ''hybrid'';
          number = (\<lambda>k. map_option js_number (getenv k));
          api = (case getenv ''GITHUB_EVENTS_API_BASE_URL'' of Some x \<Rightarrow> Some x | None \<Rightarrow> getenv ''GITHUB_API_BASE_URL'');
          base = (\<lambda>env dflt. let t = strip_slash (trim (case env of None \<Rightarrow> dflt | Some x \<Rightarrow> x)) in if t = [] then dflt else t)
      in \<lparr> rc_hybrid = (kind = ''hybrid''),
           rc_kind = (if kind = ''events_api'' then EventsApi else if kind = ''gh_archive'' then GhArchive else OtherKind kind),
           rc_rootSource = root,
           rc_eventsSource = nonblank_or (getenv ''GITHUB_INGEST_EVENTS_SOURCE_ID'') (root @ '':events''),
           rc_archiveSource = nonblank_or (getenv ''GITHUB_INGEST_ARCHIVE_SOURCE_ID'') (root @ '':archive''),
           rc_eventsBase = base api ''https://api.github.com'',
           rc_archiveBase = base (getenv ''GITHUB_GH_ARCHIVE_BASE_URL'') ''https://data.gharchive.org'',
           rc_archivePollMs = config_number (number ''GITHUB_INGEST_ARCHIVE_POLL_MS'') 300000 5000 3600000,
           rc_ttlDays = config_number (number ''GITHUB_EVENTS_RAW_TTL_DAYS'') 14 1 365,
           rc_pruneLimit = config_number (number ''GITHUB_EVENTS_RAW_PRUNE_LIMIT'') 10000 1 100000,
           rc_pruneIntervalMs = config_number (number ''GITHUB_EVENTS_RAW_PRUNE_INTERVAL_MS'') 3600000 60000 86400000 \<rparr>)"

record runner_memory =
  rm_lastOkAt :: "int option"
  rm_lastErr :: "err option"
  rm_lastArchivePollAt :: int
  rm_lastPruneAt :: int

text \<open>What a run leaves in the memory of the loop: whether it succeeded and the last error.\<close>

definition note_run :: "(err + run_answer) \<Rightarrow> bool \<times> err option \<Rightarrow> bool \<times> err option" where
  "note_run r st = (case r of Inl e \<Rightarrow> (fst st, Some e) | Inr _ \<Rightarrow> (True, None))"

definition poll_archive ::
    "ingest_env \<Rightarrow> runner_config \<Rightarrow> int \<Rightarrow> runner_memory \<Rightarrow> bool \<times> err option \<Rightarrow> db \<Rightarrow>
     (bool \<times> err option) \<times> int \<times> db" where
  "poll_archive env rc now m st s =
     (if now - rm_lastArchivePollAt m \<ge> rc_archivePollMs rc then
        (let (r, s1) = runGithubIngestOnce env (rc_archiveSource rc) GhArchive (rc_archiveBase rc) None None now s
         in (note_run r st, now, s1))
      else (st, rm_lastArchivePollAt m, s))"

definition poll_sources ::
    "ingest_env \<Rightarrow> runner_config \<Rightarrow> int \<Rightarrow> runner_memory \<Rightarrow> db \<Rightarrow> (bool \<times> err option) \<times> int \<times> db" where
  "poll_sources env rc now m s =
     (let st = (False, rm_lastErr m)
      in if rc_hybrid rc then
           (let (r, s1) = runGithubIngestOnce env (rc_eventsSource rc) EventsApi (rc_eventsBase rc) None None now s
            in poll_archive env rc now m (note_run r st) s1)
         else
           (let base = (if rc_kind rc = GhArchive then rc_archiveBase rc else rc_eventsBase rc);
                (r, s1) = runGithubIngestOnce env (rc_rootSource rc) (rc_kind rc) base None None now s
            in (note_run r st, rm_lastArchivePollAt m, s1)))"

definition runner_turn :: "ingest_env \<Rightarrow> runner_config \<Rightarrow> int \<Rightarrow> runner_memory \<Rightarrow> db \<Rightarrow> runner_memory \<times> db" where
  "runner_turn env rc now m s =
     (let ((okay, lastErr), archiveAt, s1) = poll_sources env rc now m s;
          prune = rc_ttlDays rc > 0 \<and> now - rm_lastPruneAt m \<ge> rc_pruneIntervalMs rc;
          s2 = (if prune then snd (pruneGithubEventsRaw now (Fin (of_int (rc_ttlDays rc))) (Some (Fin (of_int (rc_pruneLimit rc)))) s1)
                else s1)
      in (\<lparr> rm_lastOkAt = (if okay then Some now else rm_lastOkAt m), rm_lastErr = lastErr,
            rm_lastArchivePollAt = archiveAt, rm_lastPruneAt = (if prune then now else rm_lastPruneAt m) \<rparr>, s2))"

section \<open>A batch handed in twice\<close>

lemma first_of_each_facts [simp]:
  "set (first_of_each xs) = set xs" "distinct (first_of_each xs)"
  by (simp_all add: first_of_each_def)

lemma first_of_each_known: "distinct xs \<Longrightarrow> x \<in> set xs \<Longrightarrow> first_of_each (xs @ [x]) = xs"
  by (simp add: first_of_each_def distinct_remdups_id)

text \<open>A row to which an event adds nothing.\<close>

definition covers :: "event_input \<Rightarrow> github_events_row \<Rightarrow> bool" where
  "covers x r \<longleftrightarrow> ei_source x \<in> set (ge_sources_json r) \<and> distinct (ge_sources_json r) \<and>
     (ei_repoFullName x \<noteq> None \<longrightarrow> ge_repo_full_name r \<noteq> None) \<and> (ei_actorLogin x \<noteq> None \<longrightarrow> ge_actor_login r \<noteq> None)"

lemma merge_event_id [simp]: "ge_event_id (merge_event x r) = ge_event_id r"
  by (simp add: merge_event_def)

lemma merge_event_covered: "covers x r \<Longrightarrow> merge_event x r = r"
  by (cases r) (auto simp: covers_def merge_event_def first_of_each_known coalesce_opt_def)

lemma covers_merged: "covers x (merge_event x r)" "covers y r \<Longrightarrow> covers y (merge_event x r)"
  by (auto simp: covers_def merge_event_def coalesce_opt_def)

lemma new_event_row_facts [simp]: "ge_event_id (new_event_row now x) = ei_eventId x" "covers x (new_event_row now x)"
  by (simp_all add: covers_def new_event_row_def)

definition absorbed :: "event_input \<Rightarrow> github_events_row list \<Rightarrow> bool" where
  "absorbed x t \<longleftrightarrow> (\<exists>r\<in>set t. ge_event_id r = ei_eventId x) \<and> (\<forall>r\<in>set t. ge_event_id r = ei_eventId x \<longrightarrow> covers x r)"

lemma put_cases:
  obtains (merged) "\<exists>r\<in>set (github_events_raw s). ge_event_id r = ei_eventId x"
      "github_events_raw (putGithubEventRaw now x s) =
         update_where (\<lambda>r. ge_event_id r = ei_eventId x) (merge_event x) (github_events_raw s)"
    | (added) "\<forall>r\<in>set (github_events_raw s). ge_event_id r \<noteq> ei_eventId x"
      "github_events_raw (putGithubEventRaw now x s) = github_events_raw s @ [new_event_row now x]"
  by (cases "list_ex (\<lambda>r. ge_event_id r = ei_eventId x) (github_events_raw s)")
    (auto simp: putGithubEventRaw_def insert_do_update_def list_ex_iff)

lemma put_absorbed:
  assumes "absorbed x (github_events_raw s)"
  shows "github_events_raw (putGithubEventRaw now x s) = github_events_raw s"
proof (cases rule: put_cases [of s x now])
  case merged
  then show ?thesis using assms by (auto simp: absorbed_def merge_event_covered intro!: update_where_id)
qed (use assms in \<open>auto simp: absorbed_def\<close>)

lemma merged_row:
  assumes "r \<in> set (update_where (\<lambda>r. ge_event_id r = i) (merge_event x) t)"
  obtains q where "q \<in> set t" "ge_event_id q = ge_event_id r" "r = (if ge_event_id q = i then merge_event x q else q)"
  using assms unfolding in_set_update_where by (metis merge_event_id)

lemma some_merged_row:
  assumes "q \<in> set t"
  shows "\<exists>r\<in>set (update_where (\<lambda>r. ge_event_id r = i) (merge_event x) t). ge_event_id r = ge_event_id q"
  by (rule bexI [of _ "if ge_event_id q = i then merge_event x q else q"]) (use assms in \<open>auto simp: update_where_def\<close>)

lemma put_absorbs: "absorbed x (github_events_raw (putGithubEventRaw now x s))"
proof (cases rule: put_cases [of s x now])
  case merged
  let ?t = "update_where (\<lambda>r. ge_event_id r = ei_eventId x) (merge_event x) (github_events_raw s)"
  have "covers x r" if "r \<in> set ?t" "ge_event_id r = ei_eventId x" for r
    using that(1) by (rule merged_row) (use that(2) covers_merged(1) in auto)
  moreover have "\<exists>r\<in>set ?t. ge_event_id r = ei_eventId x" using merged(1) some_merged_row by metis
  ultimately show ?thesis unfolding absorbed_def merged(2) by blast
qed (auto simp: absorbed_def)

lemma put_keeps_absorbed:
  assumes "absorbed y (github_events_raw s)"
  shows "absorbed y (github_events_raw (putGithubEventRaw now x s))"
proof (cases rule: put_cases [of s x now])
  case merged
  let ?t = "update_where (\<lambda>r. ge_event_id r = ei_eventId x) (merge_event x) (github_events_raw s)"
  have "covers y r" if "r \<in> set ?t" "ge_event_id r = ei_eventId y" for r
    using that(1) by (rule merged_row) (use that(2) assms covers_merged(2) in \<open>auto simp: absorbed_def\<close>)
  moreover have "\<exists>r\<in>set ?t. ge_event_id r = ei_eventId y" using assms some_merged_row unfolding absorbed_def by metis
  ultimately show ?thesis unfolding absorbed_def merged(2) by blast
qed (use assms in \<open>auto simp: absorbed_def\<close>)

lemma put_distinct:
  "distinct (map ge_event_id (github_events_raw s)) \<Longrightarrow>
     distinct (map ge_event_id (github_events_raw (putGithubEventRaw now x s)))"
  by (simp add: putGithubEventRaw_def) (rule distinct_insert_do_update; simp)

lemma upsert_repo_events: "upsertGithubRepo now x s = Inr s1 \<Longrightarrow> github_events_raw s1 = github_events_raw s"
  by (auto simp: upsertGithubRepo_def Let_def split: if_split_asm)

text \<open>A worker's event touches the table of raw events through one insertion, or not at all.\<close>

lemma worker_event_table:
  "github_events_raw (snd (ingest_worker_event env source now ev b s)) =
     (case worker_event env source ev of None \<Rightarrow> github_events_raw s
      | Some x \<Rightarrow> github_events_raw (putGithubEventRaw now x s))"
  by (auto simp: ingest_worker_event_def Let_def upsert_repo_events split: option.split prod.split sum.split)

definition batch_absorbed :: "ingest_env \<Rightarrow> string \<Rightarrow> json list \<Rightarrow> github_events_row list \<Rightarrow> bool" where
  "batch_absorbed env source evs t \<longleftrightarrow>
     (\<forall>ev\<in>set evs. case worker_event env source ev of None \<Rightarrow> True | Some x \<Rightarrow> absorbed x t)"

lemma worker_event_keeps:
  "absorbed y (github_events_raw s) \<Longrightarrow>
     absorbed y (github_events_raw (snd (ingest_worker_event env source now ev b s)))"
  unfolding worker_event_table by (auto simp: put_keeps_absorbed split: option.split)

lemma worker_events_keep:
  "absorbed y (github_events_raw s) \<Longrightarrow>
     absorbed y (github_events_raw (snd (ingest_worker_events env source now evs b s)))"
proof (induction evs arbitrary: b s)
  case (Cons ev evs)
  obtain r s1 where "ingest_worker_event env source now ev b s = (r, s1)" by fastforce
  with worker_event_keeps [OF Cons.prems, of env source now ev b] Cons.IH [of s1] show ?case
    by (simp split: sum.split)
qed simp

lemma worker_events_absorb:
  "ingest_worker_events env source now evs b s = (Inr b1, s1) \<Longrightarrow> batch_absorbed env source evs (github_events_raw s1)"
proof (induction evs arbitrary: b s)
  case (Cons ev evs)
  obtain r s2 where one: "ingest_worker_event env source now ev b s = (r, s2)" by fastforce
  with Cons.prems obtain b2 where r: "r = Inr b2" and rest: "ingest_worker_events env source now evs b2 s2 = (Inr b1, s1)"
    by (auto split: sum.split_asm)
  have "absorbed x (github_events_raw s1)" if "worker_event env source ev = Some x" for x
  proof -
    have "absorbed x (github_events_raw s2)" using worker_event_table [of env source now ev b s] put_absorbs that one by simp
    from worker_events_keep [OF this, of env source now evs b2] rest show ?thesis by simp
  qed
  with Cons.IH [OF rest] show ?case by (auto simp: batch_absorbed_def split: option.split)
qed (simp add: batch_absorbed_def)

lemma worker_events_again:
  "batch_absorbed env source evs (github_events_raw s) \<Longrightarrow>
     github_events_raw (snd (ingest_worker_events env source now evs b s)) = github_events_raw s"
proof (induction evs arbitrary: b s)
  case (Cons ev evs)
  obtain r s2 where one: "ingest_worker_event env source now ev b s = (r, s2)" by fastforce
  have same: "github_events_raw s2 = github_events_raw s"
    using worker_event_table [of env source now ev b s] Cons.prems one
    by (auto simp: batch_absorbed_def put_absorbed split: option.split_asm)
  have "batch_absorbed env source evs (github_events_raw s2)" using Cons.prems same by (simp add: batch_absorbed_def)
  with Cons.IH [of s2] same one show ?case by (simp split: sum.split)
qed simp

lemma worker_events_distinct:
  "distinct (map ge_event_id (github_events_raw s)) \<Longrightarrow>
     distinct (map ge_event_id (github_events_raw (snd (ingest_worker_events env source now evs b s))))"
proof (induction evs arbitrary: b s)
  case (Cons ev evs)
  obtain r s2 where one: "ingest_worker_event env source now ev b s = (r, s2)" by fastforce
  have "distinct (map ge_event_id (github_events_raw s2))"
    using worker_event_table [of env source now ev b s] Cons.prems one put_distinct by (auto split: option.split_asm)
  with Cons.IH [of s2] one show ?case by (simp split: sum.split)
qed simp

lemma upsert_source_events [simp]: "github_events_raw (upsertGithubSource now x s) = github_events_raw s"
  by (simp add: upsertGithubSource_def)

text \<open>Handing in events is idempotent by event id: when a worker's batch has been accepted, handing it in
  again, at any time and whatever becomes of the request, leaves the table of raw events as it is; and
  the ids of the table stay unique.\<close>

theorem worker_batch_idempotent:
  assumes "route_worker_events env now w raw evs s = (Ok a, s1)"
    and "distinct (map ge_event_id (github_events_raw s))"
  shows "github_events_raw (snd (route_worker_events env now' w raw evs s1)) = github_events_raw s1 \<and>
    distinct (map ge_event_id (github_events_raw s1))"
proof -
  let ?src = "worker_source w raw"
  from assms(1) obtain b s2 where run: "ingest_worker_events env ?src now evs batch_start s = (Inr b, s2)"
    and s1: "github_events_raw s1 = github_events_raw s2"
    by (auto simp: route_worker_events_def Let_def split: if_split_asm prod.split_asm sum.split_asm)
  have "batch_absorbed env ?src evs (github_events_raw s1)" using worker_events_absorb [OF run] s1 by simp
  then have "github_events_raw (snd (ingest_worker_events env ?src now' evs batch_start s1)) = github_events_raw s1"
    by (rule worker_events_again)
  moreover have "distinct (map ge_event_id (github_events_raw s1))"
    using worker_events_distinct [OF assms(2), of env ?src now evs batch_start] run s1 by simp
  ultimately show ?thesis
    by (auto simp: route_worker_events_def Let_def split: prod.split sum.split)
qed

section \<open>An hour that never ends\<close>

definition name_taken :: "int \<Rightarrow> string \<Rightarrow> db \<Rightarrow> bool" where
  "name_taken i n s \<longleftrightarrow> list_ex (\<lambda>r. gr_full_name r = n \<and> gr_repo_id r \<noteq> i) (github_repos s)"

text \<open>Repeated runs over the archive, one per time of the list.\<close>

definition archive_runs :: "ingest_env \<Rightarrow> string \<Rightarrow> string \<Rightarrow> int list \<Rightarrow> db \<Rightarrow> db" where
  "archive_runs env source base ts s =
     foldl (\<lambda>s t. snd (runGithubIngestOnce env source GhArchive base None None t s)) s ts"

lemma taken_name_refused: "name_taken i n s \<Longrightarrow> \<exists>e. upsertGithubRepo now (empty_repo i n seen) s = Inl e"
  by (auto simp: upsertGithubRepo_def name_taken_def empty_repo_def bare_repo_def Let_def)

lemma put_event_frame [simp]:
  "github_repos (putGithubEventRaw now x s) = github_repos s"
  "github_sources (putGithubEventRaw now x s) = github_sources s"
  by (simp_all add: putGithubEventRaw_def)

lemma blocked_run:
  assumes "getGithubSource source s = Some row" "text_of env (jget ''nextHour'' (Some (gs_cursor_json row))) = h" "h \<noteq> []"
    and "strip_slash (trim base) = b" "b \<noteq> []"
    and "ig_archive env (b @ ''/'' @ h @ ''.json.gz'') = Inr (200, Some lines)"
    and "archive_events env lines = ev # evs" "runner_event env source ev = Some x"
    and "event_repo env ev (ei_repoFullName x) = Some (i, n)" "name_taken i n s"
  shows "\<exists>e. runGithubIngestOnce env source GhArchive base None None t s = (Inl e, putGithubEventRaw t x s)"
proof -
  have "name_taken i n (putGithubEventRaw t x s)" using assms(10) by (simp add: name_taken_def)
  then obtain e where "upsertGithubRepo t (empty_repo i n (patched (ei_eventCreatedAt x) t)) (putGithubEventRaw t x s) = Inl e"
    using taken_name_refused by blast
  then have "ingestEvents env source t (ev # evs) run_start s = (Inl e, putGithubEventRaw t x s)"
    using assms(8,9) by (simp add: ingestEvent_def)
  then have "run_gh_archive env source b None (Some row) t s = (Inl e, putGithubEventRaw t x s)"
    using assms(2,3,6,7) by (simp add: run_gh_archive_def archive_hour_def or_blank_def trim_def status_ok_def)
  with assms(1,4,5) show ?thesis by (simp add: runGithubIngestOnce_def Let_def)
qed

text \<open>An hour of the archive can block its source for ever: when an event of the hour names a repository
  whose name the corpus holds under another id (a repository that was deleted and created again, or
  renamed), the unique index makes the run fail. The cursor stays at the hour and the failure is not even
  noted in the source; every later run fetches the same hour and fails in the same way.\<close>

theorem archive_hour_blocks_source:
  assumes "getGithubSource source s = Some row" "text_of env (jget ''nextHour'' (Some (gs_cursor_json row))) = h" "h \<noteq> []"
    and "strip_slash (trim base) = b" "b \<noteq> []"
    and "ig_archive env (b @ ''/'' @ h @ ''.json.gz'') = Inr (200, Some lines)"
    and "archive_events env lines = ev # evs" "runner_event env source ev = Some x"
    and "event_repo env ev (ei_repoFullName x) = Some (i, n)" "name_taken i n s"
  shows "(\<exists>e. fst (runGithubIngestOnce env source GhArchive base None None t (archive_runs env source base ts s)) = Inl e) \<and>
    getGithubSource source (archive_runs env source base ts s) = Some row"
proof -
  have "getGithubSource source (archive_runs env source base ts s) = Some row \<and>
      name_taken i n (archive_runs env source base ts s)"
  proof (induction ts rule: rev_induct)
    case Nil
    with assms(1,10) show ?case by (simp add: archive_runs_def)
  next
    case (snoc t ts)
    let ?s = "archive_runs env source base ts s"
    from snoc blocked_run [OF _ assms(2-9), of ?s t] obtain e where
      "runGithubIngestOnce env source GhArchive base None None t ?s = (Inl e, putGithubEventRaw t x ?s)" by blast
    then have "archive_runs env source base (ts @ [t]) s = putGithubEventRaw t x ?s" by (simp add: archive_runs_def)
    with snoc show ?case by (simp add: getGithubSource_def name_taken_def)
  qed
  with blocked_run [OF _ assms(2-9), of "archive_runs env source base ts s" t] show ?thesis by fastforce
qed

definition example_gh_event :: json where
  "example_gh_event = JObj [(''id'', JStr ''1''), (''type'', JStr ''PushEvent''),
     (''repo'', JObj [(''id'', JNum (Fin 9)), (''name'', JStr ''a/b'')])]"

definition example_ingest :: ingest_env where
  "example_ingest = \<lparr> ig_frac_text = (\<lambda>_. ''0''), ig_parse_date = (\<lambda>_. None), ig_parse_json = (\<lambda>_. Some example_gh_event),
     ig_iso = (\<lambda>_. ''d''), ig_http = (\<lambda>_. Inr (200, [])), ig_archive = (\<lambda>_. Inr (200, Some [''l''])) \<rparr>"

definition example_event_input :: "string \<Rightarrow> event_input" where
  "example_event_input source = \<lparr> ei_eventId = ''1'', ei_source = source, ei_eventType = ''PushEvent'',
     ei_eventCreatedAt = None, ei_repoFullName = Some ''a/b'', ei_actorLogin = None, ei_payload = example_gh_event \<rparr>"

definition example_corpus :: db where
  "example_corpus = empty_db\<lparr>
     github_sources := [\<lparr> gs_id = ''src'', gs_cursor_json = archive_cursor ''2024-01-01-0'', gs_status = ''active'',
       gs_last_success_at = None, gs_last_error_at = None, gs_last_error = None, gs_created_at = 0, gs_updated_at = 0 \<rparr>],
     github_repos := [\<lparr> gr_repo_id = 7, gr_full_name = ''a/b'', gr_html_url = ''u'', gr_description = None,
       gr_language = None, gr_topics_json = [], gr_license_spdx = None, gr_license_key = None, gr_stargazers_count = 5,
       gr_forks_count = 0, gr_archived = False, gr_pushed_at = None, gr_updated_at = None, gr_fetched_at = 0,
       gr_first_seen_at = 0, gr_last_seen_at = 0 \<rparr>]\<rparr>"

lemma example_ingest_facts:
  "archive_events example_ingest [''l''] = [example_gh_event]"
  "runner_event example_ingest source example_gh_event = Some (example_event_input source)"
  "worker_event example_ingest source example_gh_event = Some (example_event_input source)"
  "event_repo example_ingest example_gh_event (Some ''a/b'') = Some (9, ''a/b'')"
  "ei_repoFullName (example_event_input source) = Some ''a/b''"
  by (simp_all add: archive_events_def List.map_filter_def example_ingest_def example_gh_event_def trim_def is_space_def
      runner_event_def worker_event_def text_of_def is_object_def event_time_def nonblank_def name_of_def Let_def
      event_repo_def event_number_def coalesce_def json_number_def example_event_input_def)

theorem archive_hour_blocks_source_witness:
  "\<exists>e row. fst (runGithubIngestOnce example_ingest ''src'' GhArchive ''http://x'' None None 9
        (archive_runs example_ingest ''src'' ''http://x'' [1, 2, 3] example_corpus)) = Inl e \<and>
     getGithubSource ''src'' (archive_runs example_ingest ''src'' ''http://x'' [1, 2, 3] example_corpus) = Some row \<and>
     gs_cursor_json row = archive_cursor ''2024-01-01-0''"
proof -
  obtain row where row: "getGithubSource ''src'' example_corpus = Some row" "gs_cursor_json row = archive_cursor ''2024-01-01-0''"
    by (simp add: getGithubSource_def example_corpus_def)
  have hour: "text_of example_ingest (jget ''nextHour'' (Some (gs_cursor_json row))) = ''2024-01-01-0''"
    by (simp add: row(2) archive_cursor_def text_of_def trim_def is_space_def)
  have base: "strip_slash (trim ''http://x'') = ''http://x''" by code_simp
  have ans: "ig_archive example_ingest (''http://x'' @ ''/'' @ ''2024-01-01-0'' @ ''.json.gz'') = Inr (200, Some [''l''])"
    by (simp add: example_ingest_def)
  have "name_taken 9 ''a/b'' example_corpus" by (simp add: name_taken_def example_corpus_def)
  from archive_hour_blocks_source [OF row(1) hour _ base _ ans example_ingest_facts(1,2) _ this, of 9 "[1, 2, 3]"]
  have "(\<exists>e. fst (runGithubIngestOnce example_ingest ''src'' GhArchive ''http://x'' None None 9
        (archive_runs example_ingest ''src'' ''http://x'' [1, 2, 3] example_corpus)) = Inl e) \<and>
     getGithubSource ''src'' (archive_runs example_ingest ''src'' ''http://x'' [1, 2, 3] example_corpus) = Some row"
    by (simp add: example_ingest_facts)
  with row(2) show ?thesis by blast
qed

definition example_ingest_worker :: worker_obj where
  "example_ingest_worker = \<lparr> wo_id = ''w'', wo_displayName = None, wo_status = WorkerActive, wo_capabilities = [],
     wo_rateLimitedUntil = None \<rparr>"

theorem worker_batch_idempotent_witness:
  "\<exists>a s1. route_worker_events example_ingest 1 example_ingest_worker None [example_gh_event, JNull] empty_db = (Ok a, s1) \<and>
     map ge_event_id (github_events_raw s1) = [''1''] \<and>
     github_events_raw (snd (route_worker_events example_ingest 5 example_ingest_worker None [example_gh_event, JNull] s1)) =
       github_events_raw s1"
proof -
  have null: "worker_event example_ingest source JNull = None" for source
    by (simp add: worker_event_def is_object_def)
  have up: "\<exists>s2. upsertGithubRepo now (bare_repo 9 ''a/b'') (putGithubEventRaw now x empty_db) = Inr s2" for now x
    by (simp add: upsertGithubRepo_def bare_repo_def int8_def count_fits_def whole_count_def Let_def empty_db_def putGithubEventRaw_def)
  obtain a s1 where run: "route_worker_events example_ingest 1 example_ingest_worker None [example_gh_event, JNull] empty_db = (Ok a, s1)"
    and ids: "map ge_event_id (github_events_raw s1) = [''1'']"
  proof -
    obtain s2 where s2: "upsertGithubRepo 1 (bare_repo 9 ''a/b'')
        (putGithubEventRaw 1 (example_event_input (worker_source example_ingest_worker None)) empty_db) = Inr s2"
      using up by blast
    have "map ge_event_id (github_events_raw s2) = [''1'']"
      using upsert_repo_events [OF s2]
      by (simp add: putGithubEventRaw_def insert_do_update_def empty_db_def new_event_row_def example_event_input_def)
    moreover have "\<exists>a s1. route_worker_events example_ingest 1 example_ingest_worker None [example_gh_event, JNull] empty_db = (Ok a, s1) \<and>
        github_events_raw s1 = github_events_raw s2"
      by (simp add: route_worker_events_def ingest_worker_event_def example_ingest_facts null Let_def s2)
    ultimately show ?thesis using that by auto
  qed
  have "distinct (map ge_event_id (github_events_raw empty_db))" by (simp add: empty_db_def)
  note twice = worker_batch_idempotent [OF run this, where now' = 5]
  show ?thesis by (intro exI conjI) (rule run, rule ids, rule conjunct1 [OF twice])
qed

end
