(* ===== verification/Judge.thy ===== *)
theory Judge
  imports Verification Descriptors
begin

text \<open>
  The verifier gateway. Its service (\<open>src/services/verifier-gateway/server.ts\<close>) judges a submission from
  the job description and the submitted manifest and artifacts: it checks the origin, the completeness of the
  evidence, the artifacts the task descriptor requires and their content, opens the final page in a
  browser and uploads what the browser recorded. Its client (\<open>src/src/verification/gateway.ts\<close>) is what the
  verification runner calls. Requests and answers are JSON; the URL parser, the JSON parser, the HTTP
  transport, SHA-256 and the browser are parameters. An exception is a message on the left.
\<close>

section \<open>Environment\<close>

text \<open>A failed call: the name of the error and its message.\<close>

type_synonym failure = "string \<times> string"

datatype gateway_call =
    PresignEvidence json
  | PutEvidence "json option" "(string \<times> json) list" bool string  \<comment> \<open>url, headers, with the verifier's token, bytes\<close>
  | CompleteEvidence json

datatype console_event = ConsoleMessage string string | PageError string | RequestFailed string string

record file_reply =
  fp_status :: nat
  fp_length :: "string option"
  fp_body :: "failure + string"

record page_visit =
  pv_requests :: "string list"
  pv_events :: "console_event list"
  pv_outcome :: "failure + string \<times> string"  \<comment> \<open>the final url and the screenshot\<close>
  pv_har :: "string option"

record judge_env =
  jv_frac_text :: "rat \<Rightarrow> string"
  jv_parse_url :: url_parser
  jv_parse_json :: "string \<Rightarrow> json option"
  jv_api_base :: string
  jv_max_bytes :: jsnum
  jv_sha :: "string \<Rightarrow> string"
  jv_download :: "string \<Rightarrow> failure + file_reply"
  jv_call :: "gateway_call \<Rightarrow> failure + nat \<times> (failure + json)"
  jv_visit :: "string \<Rightarrow> (string \<Rightarrow> bool) \<Rightarrow> page_visit"

definition reply_ok :: "nat \<Rightarrow> bool" where
  "reply_ok status \<longleftrightarrow> 200 \<le> status \<and> status < 300"

section \<open>Reading the request\<close>

definition clamp01 :: "jsnum \<Rightarrow> rat" where
  "clamp01 x = (case x of Fin q \<Rightarrow> max 0 (min 1 q) | _ \<Rightarrow> 0)"

text \<open>\<open>x?.length ?? 0\<close>\<close>

definition js_length :: "(rat \<Rightarrow> string) \<Rightarrow> json option \<Rightarrow> jsnum" where
  "js_length ft x =
     (case x of
        Some (JStr s) \<Rightarrow> Fin (of_nat (length s))
      | Some (JArr xs) \<Rightarrow> Fin (of_nat (length xs))
      | Some (JObj fs) \<Rightarrow> if nullish (map_of fs ''length'') then Fin 0 else json_number ft (map_of fs ''length'')
      | _ \<Rightarrow> Fin 0)"

definition at_least :: "nat \<Rightarrow> jsnum \<Rightarrow> bool" where
  "at_least n x = (case x of NaN \<Rightarrow> False | Infinity pos \<Rightarrow> pos | Fin q \<Rightarrow> of_nat n \<le> q)"

record scorecard =
  sc_R :: rat
  sc_E :: rat
  sc_A :: rat
  sc_N :: rat
  sc_T :: rat
  sc_qualityScore :: int

definition score_evidence ::
    "(rat \<Rightarrow> string) \<Rightarrow> json option \<Rightarrow> json option \<Rightarrow> json option \<Rightarrow> json option \<Rightarrow> scorecard" where
  "score_evidence ft reproSteps arts expected observed =
     (let r = clamp01 (Fin (if at_least 1 (js_length ft reproSteps) then 1 else 0));
          e = clamp01 (Fin (if at_least 1 (js_length ft arts) then 1 else 0));
          a = clamp01 (Fin (if at_least 5 (js_length ft expected) \<and> at_least 5 (js_length ft observed) then 1 else 1 / 2))
      in \<lparr> sc_R = r, sc_E = e, sc_A = a, sc_N = 1, sc_T = 1,
           sc_qualityScore = \<lfloor>(r + e + a + 1 + 1) / 5 * 100 + 1 / 2\<rfloor> \<rparr>)"

definition origin_of :: "url_parser \<Rightarrow> string \<Rightarrow> string option" where
  "origin_of parse_url u = map_option u_origin (parse_url u)"

definition as_object :: "json option \<Rightarrow> json option" where
  "as_object x = (case x of Some (JObj fs) \<Rightarrow> Some (JObj fs) | _ \<Rightarrow> None)"

definition getTaskDescriptor :: "json option \<Rightarrow> json option" where
  "getTaskDescriptor jobSpec = as_object (jget ''taskDescriptor'' jobSpec)"

definition getCapabilityTags :: "json option \<Rightarrow> string list" where
  "getCapabilityTags td =
     (case jarray (jget ''capability_tags'' td) of
        None \<Rightarrow> [] | Some xs \<Rightarrow> List.map_filter (\<lambda>x. jstr (Some x)) xs)"

text \<open>\<open>allowedOrigins.length && !allowedOrigins.includes(o)\<close>; an object with a length has no \<open>includes\<close>.\<close>

definition origin_refused :: "string \<Rightarrow> json \<Rightarrow> string + bool" where
  "origin_refused o' allowed =
     (case allowed of
        JArr xs \<Rightarrow> Inr (xs \<noteq> [] \<and> JStr o' \<notin> set xs)
      | JStr s \<Rightarrow> Inr (s \<noteq> [] \<and> \<not> str_includes s o')
      | JObj fs \<Rightarrow> if json_truthy (map_of fs ''length'') then Inl ''allowedOrigins.includes is not a function'' else Inr False
      | _ \<Rightarrow> Inr False)"

section \<open>Required artifacts\<close>

definition required_artifacts :: "json option \<Rightarrow> json list" where
  "required_artifacts td =
     (case jarray (jget ''required_artifacts'' (as_object (jget ''output_spec'' td))) of None \<Rightarrow> [] | Some xs \<Rightarrow> xs)"

definition index_list :: "json option \<Rightarrow> json list" where
  "index_list artifactIndex = (case jarray artifactIndex of None \<Rightarrow> [] | Some xs \<Rightarrow> xs)"

text \<open>The kind and the label of an artifact; an empty label or prefix asks for nothing.\<close>

definition matches_artifact ::
    "(rat \<Rightarrow> string) \<Rightarrow> string \<Rightarrow> string option \<Rightarrow> string option \<Rightarrow> json \<Rightarrow> bool" where
  "matches_artifact ft kind label labelPrefix a \<longleftrightarrow>
     is_object (Some a) \<and> text_or_blank ft (jget ''kind'' (Some a)) = kind \<and>
     (let lbl = text_or_blank ft (jget ''label'' (Some a))
      in (truthy label \<longrightarrow> lbl = the label) \<and> (truthy labelPrefix \<longrightarrow> startsWith lbl (the labelPrefix)))"

definition required_count :: "(rat \<Rightarrow> string) \<Rightarrow> json option \<Rightarrow> rat" where
  "required_count ft x = (case json_number ft x of Fin q \<Rightarrow> max 1 q | _ \<Rightarrow> 1)"

text \<open>What is missing for one entry: nothing, or its description.\<close>

definition missing_one :: "(rat \<Rightarrow> string) \<Rightarrow> json list \<Rightarrow> json \<Rightarrow> string option" where
  "missing_one ft arts item =
     (case jstr (jget ''kind'' (as_object (Some item))) of
        None \<Rightarrow> None
      | Some kind \<Rightarrow>
          if kind = [] then None
          else let labelPrefix = jstr (jget ''label_prefix'' (Some item)); label = jstr (jget ''label'' (Some item));
                   hits = length (filter (matches_artifact ft kind label labelPrefix) arts)
               in if of_nat hits < required_count ft (jget ''count'' (Some item))
                  then Some (if truthy label then kind @ '':'' @ the label
                             else if truthy labelPrefix then kind @ '':'' @ the labelPrefix @ ''*'' else kind)
                  else None)"

definition missingRequiredArtifacts :: "(rat \<Rightarrow> string) \<Rightarrow> json option \<Rightarrow> json option \<Rightarrow> string list" where
  "missingRequiredArtifacts ft td artifactIndex =
     List.map_filter (missing_one ft (index_list artifactIndex)) (required_artifacts td)"

section \<open>Content of the artifacts\<close>

text \<open>\<open>name.includes('Abort') ? timeout : message\<close>\<close>

definition failure_text :: "string \<Rightarrow> failure \<Rightarrow> string" where
  "failure_text timeout f = (if str_includes (fst f) ''Abort'' then timeout else snd f)"

definition downloadArtifactBytes :: "judge_env \<Rightarrow> string \<Rightarrow> string + string" where
  "downloadArtifactBytes env aid =
     (case jv_download env aid of
        Inl f \<Rightarrow> Inl (failure_text ''artifact_download_timeout'' f)
      | Inr r \<Rightarrow>
          if \<not> reply_ok (fp_status r) then Inl (''artifact_download_failed:'' @ show_nat (fp_status r))
          else if truthy (fp_length r) \<and>
              (case js_number (the (fp_length r)) of Fin q \<Rightarrow> num_gt q (jv_max_bytes env) | _ \<Rightarrow> False)
          then Inl ''artifact_too_large''
          else (case fp_body r of
              Inl f \<Rightarrow> Inl (failure_text ''artifact_download_timeout'' f)
            | Inr bytes \<Rightarrow>
                if num_gt (of_nat (length bytes)) (jv_max_bytes env) then Inl ''artifact_too_large'' else Inr bytes))"

definition sniffMp4 :: "string \<Rightarrow> bool" where
  "sniffMp4 bytes \<longleftrightarrow> 12 \<le> length bytes \<and> take 4 (drop 4 bytes) = ''ftyp''"

definition item_error :: "(rat \<Rightarrow> string) \<Rightarrow> string \<Rightarrow> string list \<Rightarrow> json \<Rightarrow> string option" where
  "item_error ft key itemKeys item =
     (if \<not> is_object (Some item) then Some (''json_'' @ key @ ''_item_not_object'')
      else map_option (\<lambda>k. ''json_'' @ key @ ''_item_missing_'' @ k)
        (find (\<lambda>k. text_or_blank ft (jget k (Some item)) = []) itemKeys))"

fun first_some :: "('a \<Rightarrow> 'b option) \<Rightarrow> 'a list \<Rightarrow> 'b option" where
  "first_some f [] = None"
| "first_some f (x # xs) = (case f x of Some y \<Rightarrow> Some y | None \<Rightarrow> first_some f xs)"

definition ensureJsonArray ::
    "(rat \<Rightarrow> string) \<Rightarrow> json option \<Rightarrow> string \<Rightarrow> nat \<Rightarrow> string list \<Rightarrow> string option" where
  "ensureJsonArray ft parsed key minItems itemKeys =
     (case jarray (jget key parsed) of
        None \<Rightarrow> Some (''json_missing_'' @ key)
      | Some arr \<Rightarrow>
          if length arr < minItems then Some (''json_'' @ key @ ''_too_small'')
          else if itemKeys = [] then None
          else first_some (item_error ft key itemKeys) arr)"

text \<open>A clip has finite bounds with \<open>0 \<le> start < end\<close>.\<close>

definition clip_ok :: "(rat \<Rightarrow> string) \<Rightarrow> json \<Rightarrow> bool" where
  "clip_ok ft c =
     (case (json_number ft (jget ''start_sec'' (Some c)), json_number ft (jget ''end_sec'' (Some c))) of
        (Fin a, Fin b) \<Rightarrow> 0 \<le> a \<and> a < b
      | _ \<Rightarrow> False)"

definition timeline_error :: "(rat \<Rightarrow> string) \<Rightarrow> json \<Rightarrow> string option" where
  "timeline_error ft parsed =
     (case jarray (jget ''clips'' (Some parsed)) of
        None \<Rightarrow> Some ''timeline_artifact_missing_clips''
      | Some clips \<Rightarrow>
          if clips = [] then Some ''timeline_artifact_missing_clips''
          else if list_all (clip_ok ft) clips then None
          else Some ''timeline_artifact_invalid_clip_bounds'')"

definition ingest_error :: "(rat \<Rightarrow> string) \<Rightarrow> json \<Rightarrow> string option" where
  "ingest_error ft parsed =
     (if text_or_blank ft (jget ''schema'' (Some parsed)) \<noteq> ''github_ingest.v1'' then Some ''ingest_artifact_invalid_schema''
      else if (case json_number ft (coalesce (jget ''fetched_events'' (Some parsed)) (Some (JNum (Fin 0)))) of
                 Fin q \<Rightarrow> q < 1 | _ \<Rightarrow> True)
      then Some ''ingest_artifact_missing_events''
      else case as_object (jget ''ingest'' (Some parsed)) of
          None \<Rightarrow> Some ''ingest_artifact_missing_ingest''
        | Some ing \<Rightarrow>
            if jget ''ok'' (Some ing) \<noteq> Some (JBool True) then Some ''ingest_artifact_ingest_not_ok'' else None)"

definition structured_keys :: "(string \<times> string \<times> string list) list" where
  "structured_keys =
     [(''results'', ''items'', [''url'']), (''deals'', ''deals'', [''url'']), (''rows'', ''rows'', [''title'', ''url'']),
      (''repos'', ''repos'', [''name'', ''url'', ''license'']), (''references'', ''references'', [''id'', ''url''])]"

definition structured_error :: "(rat \<Rightarrow> string) \<Rightarrow> string \<Rightarrow> json \<Rightarrow> string option" where
  "structured_error ft labelPrefix parsed =
     (case map_of structured_keys labelPrefix of
        Some (key, itemKeys) \<Rightarrow>
          map_option (\<lambda>e. labelPrefix @ ''_artifact_'' @ e) (ensureJsonArray ft (Some parsed) key 1 itemKeys)
      | None \<Rightarrow> if labelPrefix = ''ingest'' then ingest_error ft parsed else None)"

text \<open>The bytes of a matched artifact, judged by \<open>test\<close>. A download that fails decides nothing.\<close>

definition check_content ::
    "judge_env \<Rightarrow> string \<Rightarrow> (string \<Rightarrow> string option) \<Rightarrow> json \<Rightarrow> (verdict \<times> string) option" where
  "check_content env name test art =
     (case extractArtifactIdFromUrl (map_option u_pathname \<circ> jv_parse_url env)
             (text_or_blank (jv_frac_text env) (jget ''url'' (Some art))) of
        None \<Rightarrow> Some (Fail, name @ ''_artifact_missing_internal_id'')
      | Some aid \<Rightarrow>
          (case downloadArtifactBytes env aid of
             Inl e \<Rightarrow> Some (Inconclusive, e)
           | Inr bytes \<Rightarrow> map_option (Pair Fail) (test bytes)))"

definition parsed_check :: "judge_env \<Rightarrow> string \<Rightarrow> (json \<Rightarrow> string option) \<Rightarrow> string \<Rightarrow> string option" where
  "parsed_check env name test bytes =
     (case jv_parse_json env bytes of None \<Rightarrow> Some (name @ ''_artifact_invalid_json'') | Some parsed \<Rightarrow> test parsed)"

text \<open>The first artifact that matches is judged; a missing one is skipped here.\<close>

definition check_first ::
    "(json \<Rightarrow> bool) \<Rightarrow> json list \<Rightarrow> (json \<Rightarrow> (verdict \<times> string) option) \<Rightarrow> (verdict \<times> string) option" where
  "check_first P arts test = (case find P arts of None \<Rightarrow> None | Some a \<Rightarrow> test a)"

definition check_video :: "judge_env \<Rightarrow> json list \<Rightarrow> json \<Rightarrow> (verdict \<times> string) option" where
  "check_video env arts r =
     check_first (matches_artifact (jv_frac_text env) ''video'' (jstr (jget ''label'' (Some r))) (jstr (jget ''label_prefix'' (Some r))))
       arts (check_content env ''video'' (\<lambda>bytes. if sniffMp4 bytes then None else Some ''video_artifact_invalid_mp4''))"

definition check_timeline :: "judge_env \<Rightarrow> json list \<Rightarrow> json \<Rightarrow> (verdict \<times> string) option" where
  "check_timeline env arts r =
     check_first (matches_artifact (jv_frac_text env) ''other'' (jstr (jget ''label'' (Some r))) (jstr (jget ''label_prefix'' (Some r))))
       arts (check_content env ''timeline'' (parsed_check env ''timeline'' (timeline_error (jv_frac_text env))))"

definition check_structured :: "judge_env \<Rightarrow> json list \<Rightarrow> json \<Rightarrow> (verdict \<times> string) option" where
  "check_structured env arts r =
     (case jstr (jget ''label_prefix'' (Some r)) of
        None \<Rightarrow> None
      | Some lp \<Rightarrow>
          check_first (matches_artifact (jv_frac_text env) ''other'' None (Some lp)) arts
            (check_content env lp (parsed_check env lp (structured_error (jv_frac_text env) lp))))"

definition is_other :: "(rat \<Rightarrow> string) \<Rightarrow> json \<Rightarrow> bool" where
  "is_other ft r \<longleftrightarrow> as_object (Some r) \<noteq> None \<and> text_or_blank ft (jget ''kind'' (Some r)) = ''other''"

definition prefix_of :: "json \<Rightarrow> string" where
  "prefix_of r = or_blank (jstr (jget ''label_prefix'' (Some r)))"

definition validateDescriptorBoundArtifacts ::
    "judge_env \<Rightarrow> json option \<Rightarrow> json option \<Rightarrow> (verdict \<times> string) option" where
  "validateDescriptorBoundArtifacts env td artifactIndex =
     (let ft = jv_frac_text env; req = required_artifacts td; arts = index_list artifactIndex
      in case first_some (check_video env arts)
             (filter (\<lambda>r. jget ''kind'' (as_object (Some r)) = Some (JStr ''video'')) req) of
           Some e \<Rightarrow> Some e
         | None \<Rightarrow>
             (case first_some (check_timeline env arts)
                 (filter (\<lambda>r. is_other ft r \<and> startsWith (prefix_of r) ''timeline'') req) of
                Some e \<Rightarrow> Some e
              | None \<Rightarrow>
                  first_some (check_structured env arts)
                    (filter (\<lambda>r. is_other ft r \<and> prefix_of r \<in>
                       {''results'', ''deals'', ''rows'', ''repos'', ''references'', ''ingest''}) req)))"

section \<open>The browser\<close>

text \<open>Every request of the page passes this filter; no allowed origins means every origin.\<close>

definition request_allowed :: "url_parser \<Rightarrow> string list \<Rightarrow> string \<Rightarrow> bool" where
  "request_allowed parse_url allowed u \<longleftrightarrow>
     startsWith u ''data:'' \<or> startsWith u ''about:'' \<or> startsWith u ''blob:'' \<or>
     (case parse_url u of None \<Rightarrow> False | Some p \<Rightarrow> allowed = [] \<or> u_origin p \<in> set allowed)"

definition console_line :: "console_event \<Rightarrow> string" where
  "console_line e =
     (case e of
        ConsoleMessage ty txt \<Rightarrow> ''[console:'' @ ty @ ''] '' @ txt
      | PageError m \<Rightarrow> ''[pageerror] '' @ m
      | RequestFailed u e' \<Rightarrow> ''[requestfailed] '' @ u @ '' '' @ e')"

record harness_run =
  hr_outcome :: "string + string \<times> string \<times> string option \<times> string"  \<comment> \<open>final url, screenshot, HAR, console\<close>
  hr_blockedRequests :: nat

definition allowed_strings :: "json \<Rightarrow> string + string list" where
  "allowed_strings allowed =
     (case allowed of
        JArr xs \<Rightarrow> Inr (filter (\<lambda>s. s \<noteq> []) (List.map_filter (\<lambda>x. jstr (Some x)) xs))
      | _ \<Rightarrow> Inl ''allowedOrigins.filter is not a function'')"

definition runPlaywrightHarness :: "judge_env \<Rightarrow> string \<Rightarrow> json \<Rightarrow> string + harness_run" where
  "runPlaywrightHarness env url allowedOrigins =
     (case allowed_strings allowedOrigins of
        Inl m \<Rightarrow> Inl m
      | Inr allowed \<Rightarrow>
          let ok = request_allowed (jv_parse_url env) allowed; v = jv_visit env url ok;
              blocked = length (filter (\<lambda>u. \<not> ok u) (pv_requests v))
          in Inr \<lparr> hr_outcome = (case pv_outcome v of
                     Inl f \<Rightarrow> Inl (snd f)
                   | Inr (finalUrl, png) \<Rightarrow>
                       Inr (finalUrl, png, pv_har v, join [char_of (10 :: nat)] (map console_line (pv_events v)) @ [char_of (10 :: nat)])),
                   hr_blockedRequests = blocked \<rparr>)"

section \<open>Uploading the evidence\<close>

record evidence_file =
  ef_filename :: string
  ef_contentType :: string
  ef_bytes :: string
  ef_label :: string

definition guessKind :: "string \<Rightarrow> string" where
  "guessKind filename = verifier_kind filename"

definition call_api ::
    "judge_env \<Rightarrow> string \<Rightarrow> gateway_call \<Rightarrow> string + (failure + json)" where
  "call_api env what c =
     (case jv_call env c of
        Inl f \<Rightarrow> Inl (snd f)
      | Inr (status, body) \<Rightarrow> if reply_ok status then Inr body else Inl (what @ show_nat status))"

definition presign_request :: "string \<Rightarrow> evidence_file list \<Rightarrow> json" where
  "presign_request sub files =
     JObj [(''submissionId'', JStr sub),
           (''files'', JArr (map (\<lambda>f. JObj [(''filename'', JStr (ef_filename f)), (''contentType'', JStr (ef_contentType f)),
                                      (''sizeBytes'', JNum (Fin (of_nat (length (ef_bytes f)))))]) files))]"

text \<open>The verifier's token goes to the upload route and to the API only.\<close>

definition with_token :: "judge_env \<Rightarrow> json option \<Rightarrow> bool" where
  "with_token env u =
     (case u of
        Some (JStr s) \<Rightarrow> str_includes s ''/api/verifier/uploads/local/'' \<or> startsWith s (jv_api_base env @ ''/'')
      | _ \<Rightarrow> False)"

definition put_call :: "judge_env \<Rightarrow> json \<Rightarrow> evidence_file \<Rightarrow> gateway_call" where
  "put_call env u f =
     PutEvidence (jget ''url'' (Some u)) (obj_fields (jget ''headers'' (Some u))) (with_token env (jget ''url'' (Some u))) (ef_bytes f)"

definition complete_call :: "judge_env \<Rightarrow> json \<Rightarrow> evidence_file \<Rightarrow> gateway_call" where
  "complete_call env u f =
     CompleteEvidence (JObj (optional_field ''artifactId'' (jget ''artifactId'' (Some u)) @
       [(''sha256'', JStr (jv_sha env (ef_bytes f))), (''sizeBytes'', JNum (Fin (of_nat (length (ef_bytes f)))))]))"

definition evidence_ref :: "judge_env \<Rightarrow> json \<Rightarrow> evidence_file \<Rightarrow> json" where
  "evidence_ref env u f =
     JObj ([(''kind'', JStr (guessKind (ef_filename f))), (''label'', JStr (ef_label f)),
            (''sha256'', JStr (jv_sha env (ef_bytes f)))] @
           optional_field ''url'' (jget ''finalUrl'' (Some u)) @
           [(''sizeBytes'', JNum (Fin (of_nat (length (ef_bytes f))))), (''contentType'', JStr (ef_contentType f))])"

text \<open>The files one after the other; the calls made are listed with the result.\<close>

fun upload_files ::
    "judge_env \<Rightarrow> json list \<Rightarrow> evidence_file list \<Rightarrow> (string + json list) \<times> gateway_call list" where
  "upload_files env uploads [] = (Inr [], [])"
| "upload_files env uploads (f # fs) =
     (case find (\<lambda>x. jget ''filename'' (Some x) = Some (JStr (ef_filename f))) uploads of
        None \<Rightarrow> (Inl (''missing_presign_for:'' @ ef_filename f), [])
      | Some u \<Rightarrow>
          let put = put_call env u f; compl = complete_call env u f
          in case call_api env ''evidence_put_failed:'' put of
               Inl m \<Rightarrow> (Inl m, [put])
             | Inr _ \<Rightarrow>
                 (case call_api env ''evidence_complete_failed:'' compl of
                    Inl m \<Rightarrow> (Inl m, [put, compl])
                  | Inr _ \<Rightarrow>
                      (case upload_files env uploads fs of
                         (Inl m, cs) \<Rightarrow> (Inl m, put # compl # cs)
                       | (Inr refs, cs) \<Rightarrow> (Inr (evidence_ref env u f # refs), put # compl # cs))))"

definition uploadEvidenceArtifacts ::
    "judge_env \<Rightarrow> string \<Rightarrow> evidence_file list \<Rightarrow> (string + json list) \<times> gateway_call list" where
  "uploadEvidenceArtifacts env sub files =
     (let presign = PresignEvidence (presign_request sub files)
      in case call_api env ''evidence_presign_failed:'' presign of
           Inl m \<Rightarrow> (Inl m, [presign])
         | Inr (Inl f) \<Rightarrow> (Inl (snd f), [presign])
         | Inr (Inr body) \<Rightarrow>
             (case jarray (jget ''uploads'' (Some body)) of
                None \<Rightarrow> (Inl ''presigned.uploads.find is not a function'', [presign])
              | Some uploads \<Rightarrow>
                  (case upload_files env uploads files of (r, cs) \<Rightarrow> (r, presign # cs))))"

section \<open>Judging\<close>

record run_answer =
  rn_verdict :: verdict
  rn_reason :: string
  rn_scorecard :: scorecard
  rn_evidence :: json
  rn_metadata :: "(string \<times> json) list"

definition present_string :: "nat \<Rightarrow> json option \<Rightarrow> bool" where
  "present_string n x = (case x of Some (JStr s) \<Rightarrow> n \<le> length s | _ \<Rightarrow> False)"

definition present_list :: "json option \<Rightarrow> bool" where
  "present_list x = (case x of Some (JArr xs) \<Rightarrow> xs \<noteq> [] | _ \<Rightarrow> False)"

definition evidence_complete :: "json option \<Rightarrow> bool" where
  "evidence_complete submission \<longleftrightarrow>
     (let manifest = jget ''manifest'' submission; result = jget ''result'' manifest
      in present_string 5 (jget ''observed'' result) \<and> present_string 5 (jget ''expected'' result) \<and>
         present_list (jget ''reproSteps'' manifest) \<and> present_list (jget ''artifactIndex'' submission))"

definition wants_browser :: "json option \<Rightarrow> bool" where
  "wants_browser td \<longleftrightarrow> td = None \<or> getCapabilityTags td = [] \<or> ''browser'' \<in> set (getCapabilityTags td)"

definition evidence_files ::
    "judge_env \<Rightarrow> json option \<Rightarrow> string \<times> string \<times> string option \<times> string \<Rightarrow> evidence_file list" where
  "evidence_files env body run =
     (case run of (_, png, har, console) \<Rightarrow>
        let ft = jv_frac_text env;
            stem = ''verifier_'' @ json_text ft (the (coalesce (jget ''submissionId'' (jget ''submission'' body)) (Some (JStr ''sub'')))) @
                   ''_attempt'' @ json_text ft (the (coalesce (jget ''attemptNo'' body) (Some (JNum (Fin 1)))))
        in [\<lparr> ef_filename = stem @ ''.png'', ef_contentType = ''image/png'', ef_bytes = png, ef_label = ''verifier_screenshot'' \<rparr>,
            \<lparr> ef_filename = stem @ ''.log'', ef_contentType = ''text/plain'', ef_bytes = console, ef_label = ''verifier_console'' \<rparr>] @
           (case har of None \<Rightarrow> [] | Some h \<Rightarrow>
              [\<lparr> ef_filename = stem @ ''.har'', ef_contentType = ''application/octet-stream'', ef_bytes = h, ef_label = ''verifier_har'' \<rparr>]))"

text \<open>The browser part: its evidence is added when the upload succeeds, its failure decides nothing.\<close>

definition run_browser ::
    "judge_env \<Rightarrow> json option \<Rightarrow> string \<Rightarrow> json \<Rightarrow> run_answer \<Rightarrow> json list \<Rightarrow> json \<Rightarrow> (string + run_answer) \<times> gateway_call list" where
  "run_browser env body finalUrl allowed base evidence finalOrigin =
     (case runPlaywrightHarness env finalUrl allowed of
        Inl m \<Rightarrow> (Inl m, [])
      | Inr run \<Rightarrow>
          let meta = (\<lambda>ok. [(''engine'', JStr ''playwright''), (''finalOrigin'', finalOrigin),
                      (''blockedRequests'', JNum (Fin (of_nat (hr_blockedRequests run)))), (''harnessOk'', JBool ok)])
          in case hr_outcome run of
               Inl m \<Rightarrow> (Inr (base\<lparr>rn_verdict := Inconclusive, rn_reason := ''playwright_failed:'' @ m,
                                  rn_metadata := meta False\<rparr>), [])
             | Inr (page, rest) \<Rightarrow>
                 (case jstr (jget ''submissionId'' body) of
                    None \<Rightarrow> (Inr (base\<lparr>rn_metadata := meta True @ [(''harnessFinalUrl'', JStr page)]\<rparr>), [])
                  | Some sub \<Rightarrow>
                      (case uploadEvidenceArtifacts env sub (evidence_files env body (page, rest)) of
                         (Inl m, cs) \<Rightarrow>
                           (Inr (base\<lparr>rn_metadata := meta True @ [(''evidenceUploadError'', JStr m), (''harnessFinalUrl'', JStr page)]\<rparr>), cs)
                       | (Inr refs, cs) \<Rightarrow>
                           (Inr (base\<lparr>rn_evidence := JArr (evidence @ refs),
                                rn_metadata := meta True @ [(''harnessFinalUrl'', JStr page)]\<rparr>), cs))))"

definition run_gateway :: "judge_env \<Rightarrow> json option \<Rightarrow> (string + run_answer) \<times> gateway_call list" where
  "run_gateway env body =
     (let ft = jv_frac_text env;
          jobSpec = jget ''jobSpec'' body; submission = jget ''submission'' body;
          manifest = jget ''manifest'' submission; result = jget ''result'' manifest;
          index = jget ''artifactIndex'' submission;
          td = getTaskDescriptor jobSpec;
          allowed = the (coalesce (jget ''allowedOrigins'' (jget ''constraints'' jobSpec)) (Some (JArr [])));
          finalUrl = jstr (jget ''finalUrl'' manifest);
          finalOrigin = Option.bind finalUrl (origin_of (jv_parse_url env));
          scores = score_evidence ft (jget ''reproSteps'' manifest) index (jget ''expected'' result) (jget ''observed'' result);
          evidence = index_list index;
          taskType = the (coalesce (jget ''type'' td) (Some (JStr ''unknown'')));
          base = \<lparr> rn_verdict = (if evidence_complete submission then Pass else Inconclusive),
                   rn_reason = (if evidence_complete submission then ''manifest + artifacts look complete''
                                else ''insufficient evidence to deterministically verify''),
                   rn_scorecard = scores, rn_evidence = JArr evidence, rn_metadata = [] \<rparr>;
          judge = (case missingRequiredArtifacts ft td index of
              (m # ms) \<Rightarrow>
                (Inr (base\<lparr>rn_verdict := Fail, rn_reason := ''missing_required_artifacts:'' @ join '','' (m # ms),
                      rn_metadata := [(''engine'', JStr ''policy''), (''taskType'', taskType)]\<rparr>), [])
            | [] \<Rightarrow>
                (case validateDescriptorBoundArtifacts env td index of
                   Some (v, e) \<Rightarrow>
                     (Inr (base\<lparr>rn_verdict := v, rn_reason := e,
                           rn_metadata := [(''engine'', JStr ''policy''), (''taskType'', taskType),
                                           (''adapter'', JStr ''descriptor_content'')]\<rparr>), [])
                 | None \<Rightarrow>
                     if finalUrl \<noteq> None \<and> wants_browser td
                     then run_browser env body (the finalUrl) allowed base evidence (json_opt finalOrigin)
                     else (Inr (base\<lparr>rn_metadata := [(''engine'', JStr ''policy''), (''finalOrigin'', json_opt finalOrigin),
                                 (''harnessOk'', JBool False), (''taskType'', taskType)]\<rparr>), [])))
      in if \<not> truthy finalOrigin then judge
         else case origin_refused (the finalOrigin) allowed of
             Inl m \<Rightarrow> (Inl m, [])
           | Inr False \<Rightarrow> judge
           | Inr True \<Rightarrow>
               (Inr (base\<lparr>rn_verdict := Fail, rn_reason := ''finalUrl origin not allowed'',
                     rn_evidence := the (coalesce index (Some (JArr []))),
                     rn_metadata := [(''engine'', JStr ''playwright''), (''finalOrigin'', json_opt finalOrigin),
                                     (''blocked'', JBool True)]\<rparr>), []))"

section \<open>The client of the gateway\<close>

definition scorecard_json :: "scorecard \<Rightarrow> json" where
  "scorecard_json c =
     JObj [(''R'', JNum (Fin (sc_R c))), (''E'', JNum (Fin (sc_E c))), (''A'', JNum (Fin (sc_A c))),
           (''N'', JNum (Fin (sc_N c))), (''T'', JNum (Fin (sc_T c))),
           (''qualityScore'', JNum (Fin (of_int (sc_qualityScore c))))]"

definition answer_json :: "run_answer \<Rightarrow> json" where
  "answer_json a =
     JObj [(''verdict'', JStr (verdict_name (rn_verdict a))), (''reason'', JStr (rn_reason a)),
           (''scorecard'', scorecard_json (rn_scorecard a)), (''evidenceArtifacts'', rn_evidence a),
           (''runMetadata'', JObj (rn_metadata a))]"

record gateway_result =
  gw_verdict :: verdict
  gw_reason :: string
  gw_scorecard :: json
  gw_evidenceArtifacts :: "json option"
  gw_runMetadata :: "json option"

definition verdict_of :: "json option \<Rightarrow> verdict option" where
  "verdict_of x =
     (if x = Some (JStr ''pass'') then Some Pass else if x = Some (JStr ''fail'') then Some Fail
      else if x = Some (JStr ''inconclusive'') then Some Inconclusive else None)"

definition finite_field :: "json option \<Rightarrow> string \<Rightarrow> bool" where
  "finite_field x k = (case jget k x of Some (JNum (Fin _)) \<Rightarrow> True | _ \<Rightarrow> False)"

definition read_gateway_answer :: "json option \<Rightarrow> string + gateway_result" where
  "read_gateway_answer body =
     (case verdict_of (jget ''verdict'' body) of
        None \<Rightarrow> Inl ''verifier_gateway_invalid_verdict''
      | Some v \<Rightarrow>
          if \<not> present_string 1 (jget ''reason'' body) then Inl ''verifier_gateway_invalid_reason''
          else let scores = jget ''scorecard'' body
               in if \<not> list_all (finite_field scores) [''R'', ''E'', ''A'', ''N'', ''T'', ''qualityScore'']
                  then Inl ''verifier_gateway_invalid_scorecard''
                  else Inr \<lparr> gw_verdict = v, gw_reason = the (jstr (jget ''reason'' body)), gw_scorecard = the scores,
                            gw_evidenceArtifacts = map_option JArr (jarray (jget ''evidenceArtifacts'' body)),
                            gw_runMetadata = jget ''runMetadata'' body \<rparr>)"

text \<open>\<open>url\<close> is \<open>VERIFIER_GATEWAY_URL\<close> and \<open>post\<close> the request to it.\<close>

definition runVerifierGateway ::
    "string option \<Rightarrow> (json \<Rightarrow> failure + nat \<times> (failure + json)) \<Rightarrow> json \<Rightarrow> string + gateway_result" where
  "runVerifierGateway url post input =
     (if \<not> truthy url then Inl ''VERIFIER_GATEWAY_URL not configured''
      else case post input of
          Inl f \<Rightarrow> Inl (failure_text ''verifier_gateway_timeout'' f)
        | Inr (status, body) \<Rightarrow>
            if \<not> reply_ok status then Inl (''verifier_gateway_failed:'' @ show_nat status)
            else (case body of Inl f \<Rightarrow> Inl (snd f) | Inr j \<Rightarrow> read_gateway_answer (Some j)))"

section \<open>The verification runner with this gateway\<close>

text \<open>The job description and the claim as the API sends them; properties that are undefined are left out.\<close>

definition job_spec_json :: "job_spec \<Rightarrow> json" where
  "job_spec_json sp =
     JObj ([(''jobId'', JStr (sp_jobId sp)), (''bountyId'', JStr (sp_bountyId sp)),
            (''requiredProofs'', JNum (Fin (of_int (sp_requiredProofs sp)))), (''title'', JStr (sp_title sp)),
            (''description'', JStr (sp_description sp)),
            (''constraints'', JObj [(''allowedOrigins'', JArr (map JStr (sp_allowedOrigins sp))),
               (''timeBudgetSec'', JNum (Fin (of_nat (sp_timeBudgetSec sp)))),
               (''maxRequestsPerMinute'', JNum (Fin (of_nat (sp_maxRequestsPerMinute sp)))),
               (''doNotDo'', JArr (map JStr [''security scanning'', ''exploit attempts'', ''bypass access controls'']))]),
            (''environment'', JObj [(''fingerprintClass'', JStr (sp_fingerprintClass sp)), (''locale'', JStr (sp_locale sp)),
               (''timezone'', JStr (sp_timezone sp)),
               (''viewport'', JObj [(''w'', JNum (Fin (of_nat (fst (sp_viewport sp))))),
                                    (''h'', JNum (Fin (of_nat (snd (sp_viewport sp)))))])])] @
           optional_field ''taskDescriptor'' (map_option descriptor_json (sp_taskDescriptor sp)) @
           [(''journey'', sp_journey sp),
            (''requiredEvidence'', JObj [(''screenshots'', JArr (map JStr [''landing'', ''cta'', ''complete'', ''failure_if_any''])),
               (''snapshotOn'', JArr [JStr ''failure_or_success''])]),
            (''submissionFormat'', JObj [(''manifestVersion'', JStr ''1.0''),
               (''requiredFiles'', JArr (map JStr (sp_requiredFiles sp)))]),
            (''next_steps'', JArr (map JStr [''Claim job'', ''Open startUrl and attempt milestones in order'',
               ''Capture required screenshots and snapshot'', ''Build manifest.json matching submissionFormat'',
               ''Upload artifacts via presign URLs'', ''Submit proof pack'']))])"

text \<open>A column that is \<open>NULL\<close> is sent as \<open>null\<close>.\<close>

definition claimed_artifact_json :: "claimed_artifact \<Rightarrow> json" where
  "claimed_artifact_json a =
     JObj [(''kind'', JStr (cl_kind a)), (''label'', json_opt (cl_label a)), (''sha256'', json_opt (cl_sha256 a)),
           (''url'', json_opt (cl_url a)),
           (''sizeBytes'', (case cl_sizeBytes a of None \<Rightarrow> JNull | Some n \<Rightarrow> JNum (Fin (of_int n)))),
           (''contentType'', json_opt (cl_contentType a))]"

definition claim_index :: "verifier_claim \<Rightarrow> json" where
  "claim_index c = (if vc_artifacts c = [] then vc_artifactIndex c else JArr (map claimed_artifact_json (vc_artifacts c)))"

definition gateway_input :: "string \<Rightarrow> int \<Rightarrow> verifier_claim \<Rightarrow> json" where
  "gateway_input sid attemptNo c =
     JObj [(''verificationId'', JStr (vc_verificationId c)), (''submissionId'', JStr sid),
           (''attemptNo'', JNum (Fin (of_int attemptNo))), (''jobSpec'', job_spec_json (vc_jobSpec c)),
           (''submission'', JObj [(''submissionId'', JStr (vc_submissionId c)), (''manifest'', vc_manifest c),
              (''artifactIndex'', claim_index c)])]"

text \<open>The service behind HTTP: an exception is a 500; \<open>lost\<close> is a request that fails on the way.\<close>

definition gateway_service :: "judge_env \<Rightarrow> failure option \<Rightarrow> json \<Rightarrow> failure + nat \<times> (failure + json)" where
  "gateway_service env lost input =
     (case lost of
        Some f \<Rightarrow> Inl f
      | None \<Rightarrow>
          (case fst (run_gateway env (Some input)) of
             Inl m \<Rightarrow> Inr (500, Inr (JObj [(''statusCode'', JNum (Fin 500)), (''message'', JStr m)]))
           | Inr a \<Rightarrow> Inr (200, Inr (answer_json a))))"

text \<open>The schema of the verdict route; \<open>is_url\<close> is the library's test of a url.\<close>

definition optional_field_ok :: "(json \<Rightarrow> bool) \<Rightarrow> json option \<Rightarrow> bool" where
  "optional_field_ok ok x = (case x of None \<Rightarrow> True | Some j \<Rightarrow> ok j)"

definition nonnegative_int :: "json \<Rightarrow> bool" where
  "nonnegative_int j = (case j of JNum (Fin q) \<Rightarrow> q = of_int \<lfloor>q\<rfloor> \<and> 0 \<le> q | _ \<Rightarrow> False)"

definition string_field :: "json option \<Rightarrow> (string \<Rightarrow> bool) \<Rightarrow> bool" where
  "string_field x ok = (case x of Some (JStr s) \<Rightarrow> ok s | _ \<Rightarrow> False)"

definition artifactRefSchema :: "(string \<Rightarrow> bool) \<Rightarrow> json \<Rightarrow> bool" where
  "artifactRefSchema is_url j \<longleftrightarrow>
     as_object (Some j) \<noteq> None \<and> artifactKind_ok (jget ''kind'' (Some j)) \<and>
     string_field (jget ''label'' (Some j)) (\<lambda>_. True) \<and>
     string_field (jget ''sha256'' (Some j)) (\<lambda>s. 8 \<le> length s) \<and>
     string_field (jget ''url'' (Some j)) is_url \<and>
     optional_field_ok nonnegative_int (jget ''sizeBytes'' (Some j)) \<and>
     optional_field_ok (\<lambda>v. jstr (Some v) \<noteq> None) (jget ''contentType'' (Some j))"

definition unit_number :: "json option \<Rightarrow> bool" where
  "unit_number x = (case x of Some (JNum (Fin q)) \<Rightarrow> 0 \<le> q \<and> q \<le> 1 | _ \<Rightarrow> False)"

definition verifierVerdictSchema :: "(string \<Rightarrow> bool) \<Rightarrow> json option \<Rightarrow> json \<Rightarrow> bool" where
  "verifierVerdictSchema is_url scores evidence \<longleftrightarrow>
     list_all (\<lambda>k. unit_number (jget k scores)) [''R'', ''E'', ''A'', ''N'', ''T''] \<and>
     finite_field scores ''qualityScore'' \<and>
     (case evidence of JArr xs \<Rightarrow> list_all (artifactRefSchema is_url) xs | _ \<Rightarrow> False)"

definition quality_of :: "json \<Rightarrow> rat" where
  "quality_of scores = (case jget ''qualityScore'' (Some scores) of Some (JNum (Fin q)) \<Rightarrow> q | _ \<Rightarrow> 0)"

text \<open>The part of the runner between the claim and the verdict. A verdict the schema refuses is answered
  with 400 before the route runs.\<close>

definition judge_claim ::
    "judge_env \<Rightarrow> string option \<Rightarrow> failure option \<Rightarrow> (string \<Rightarrow> bool) \<Rightarrow> string \<Rightarrow> int \<Rightarrow> delivery \<Rightarrow> verifier_claim \<Rightarrow>
     string + gateway_answer" where
  "judge_claim env url lost is_url sid attemptNo d2 c =
     (case runVerifierGateway url (gateway_service env lost) (gateway_input sid attemptNo c) of
        Inl m \<Rightarrow> Inl m
      | Inr g \<Rightarrow>
          let evidence = (case gw_evidenceArtifacts g of Some e \<Rightarrow> e | None \<Rightarrow> the (coalesce (Some (claim_index c)) (Some (JArr []))))
          in if verifierVerdictSchema is_url (Some (gw_scorecard g)) evidence
             then Inr \<lparr> ga_verdict = gw_verdict g, ga_reason = gw_reason g, ga_scorecard = gw_scorecard g,
                        ga_qualityScore = quality_of (gw_scorecard g), ga_evidence = evidence \<rparr>
             else Inl (case d2 of Answered \<Rightarrow> ''verdict_failed:400'' | NotSent m \<Rightarrow> m | AnswerLost m \<Rightarrow> m))"

definition review_with_gateway ::
    "judge_env \<Rightarrow> string option \<Rightarrow> failure option \<Rightarrow> (string \<Rightarrow> bool) \<Rightarrow> pay_env \<Rightarrow> intake_env \<Rightarrow> jsnum \<Rightarrow> (nat \<Rightarrow> string) \<Rightarrow>
     string \<Rightarrow> delivery \<Rightarrow> delivery \<Rightarrow> int \<Rightarrow> int \<Rightarrow> outbox_payload \<Rightarrow> db \<Rightarrow> err option \<times> db" where
  "review_with_gateway env url lost is_url penv ienv maxAttempts gen who d1 d2 now later payload s =
     handleVerificationRequested penv ienv maxAttempts gen who
       (case payload of PlVerification _ sid attemptNo \<Rightarrow> judge_claim env url lost is_url sid attemptNo d2 | _ \<Rightarrow> (\<lambda>_. Inl []))
       d1 d2 now later payload s"

end
