(* ===== verification/JudgeSafety.thy ===== *)
theory JudgeSafety
  imports Judge VerificationSafety ArtifactSafety
begin

text \<open>
  What the verifier gateway guarantees: which evidence stands behind a pass, that its answers are
  accepted by its client, and when the runner cannot deliver its verdict.
\<close>

section \<open>A pass\<close>

definition descriptor_sent :: "json option \<Rightarrow> json option" where
  "descriptor_sent body = getTaskDescriptor (jget ''jobSpec'' body)"

definition index_sent :: "json option \<Rightarrow> json list" where
  "index_sent body = index_list (jget ''artifactIndex'' (jget ''submission'' body))"

definition matches_entry :: "(rat \<Rightarrow> string) \<Rightarrow> json \<Rightarrow> string \<Rightarrow> json \<Rightarrow> bool" where
  "matches_entry ft r kind =
     matches_artifact ft kind (jstr (jget ''label'' (Some r))) (jstr (jget ''label_prefix'' (Some r)))"

lemma first_some_None: "first_some f xs = None \<longleftrightarrow> (\<forall>x\<in>set xs. f x = None)"
  by (induction xs) (auto split: option.split)

lemma map_filter_Nil: "List.map_filter f xs = [] \<longleftrightarrow> (\<forall>x\<in>set xs. f x = None)"
  by (induction xs) (auto simp: List.map_filter_simps split: option.split)

lemma jget_as_object [simp]: "jget k (as_object x) = jget k x"
  by (auto simp: as_object_def jget_def split: option.splits json.splits)

lemma nothing_missing:
  assumes "missingRequiredArtifacts ft td index = []" and "r \<in> set (required_artifacts td)"
    and "jget ''kind'' (Some r) = Some (JStr k)" and "k \<noteq> []"
  shows "required_count ft (jget ''count'' (Some r)) \<le> of_nat (length (filter (matches_entry ft r k) (index_list index)))"
  using assms
  by (auto simp: missingRequiredArtifacts_def map_filter_Nil missing_one_def Let_def jstr_def matches_entry_def not_less
      split: if_split_asm dest!: bspec [of _ _ r])

lemma required_count_pos: "1 \<le> required_count ft x"
  by (auto simp: required_count_def split: jsnum.split)

lemma index_list_simps: "index_list (Some (JArr xs)) = xs"
  by (simp add: index_list_def jarray_def)

lemma content_accepted:
  assumes "check_content env name test art = None"
  shows "\<exists>aid bytes. extractArtifactIdFromUrl (map_option u_pathname \<circ> jv_parse_url env)
             (text_or_blank (jv_frac_text env) (jget ''url'' (Some art))) = Some aid \<and>
           downloadArtifactBytes env aid = Inr bytes \<and> test bytes = None"
  using assms by (auto simp: check_content_def split: option.split_asm sum.split_asm)

text \<open>The bytes behind an artifact of the index.\<close>

definition artifact_bytes :: "judge_env \<Rightarrow> json \<Rightarrow> string \<Rightarrow> bool" where
  "artifact_bytes env art bytes \<longleftrightarrow>
     (\<exists>aid. extractArtifactIdFromUrl (map_option u_pathname \<circ> jv_parse_url env)
              (text_or_blank (jv_frac_text env) (jget ''url'' (Some art))) = Some aid \<and>
            downloadArtifactBytes env aid = Inr bytes)"

lemma videos_checked:
  assumes "validateDescriptorBoundArtifacts env td index = None" and "r \<in> set (required_artifacts td)"
    and "jget ''kind'' (Some r) = Some (JStr ''video'')"
    and "find (matches_entry (jv_frac_text env) r ''video'') (index_list index) = Some art"
  shows "\<exists>bytes. artifact_bytes env art bytes \<and> sniffMp4 bytes"
proof -
  have "check_video env (index_list index) r = None"
    using assms(1,2,3) by (auto simp: validateDescriptorBoundArtifacts_def Let_def first_some_None split: option.split_asm)
  then have "check_content env ''video'' (\<lambda>bytes. if sniffMp4 bytes then None else Some ''video_artifact_invalid_mp4'') art = None"
    using assms(4) by (simp add: check_video_def check_first_def matches_entry_def)
  from content_accepted [OF this] show ?thesis by (auto simp: artifact_bytes_def split: if_split_asm)
qed

lemma structured_checked:
  assumes "validateDescriptorBoundArtifacts env td index = None" and "r \<in> set (required_artifacts td)"
    and "jget ''kind'' (Some r) = Some (JStr ''other'')" and "jget ''label_prefix'' (Some r) = Some (JStr lp)"
    and "lp \<in> {''results'', ''deals'', ''rows'', ''repos'', ''references'', ''ingest''}"
    and "find (matches_artifact (jv_frac_text env) ''other'' None (Some lp)) (index_list index) = Some art"
  shows "\<exists>bytes j. artifact_bytes env art bytes \<and> jv_parse_json env bytes = Some j \<and>
           structured_error (jv_frac_text env) lp j = None"
proof -
  have "as_object (Some r) \<noteq> None" using assms(3) by (cases r) (auto simp: as_object_def)
  then have "check_structured env (index_list index) r = None"
    using assms(1-5) by (auto simp: validateDescriptorBoundArtifacts_def Let_def first_some_None is_other_def prefix_of_def
        jstr_def or_blank_def split: option.split_asm)
  then have "check_content env lp (parsed_check env lp (structured_error (jv_frac_text env) lp)) art = None"
    using assms(4,6) by (simp add: check_structured_def check_first_def jstr_def)
  from content_accepted [OF this] show ?thesis
    by (auto simp: artifact_bytes_def parsed_check_def split: option.split_asm)
qed

lemma browser_pass:
  assumes "run_browser env body u allowed base ev org = (Inr a, calls)" and "rn_verdict a = Pass"
  shows "rn_verdict base = Pass"
  using assms by (auto simp: run_browser_def Let_def split: sum.split_asm option.split_asm prod.split_asm)

lemma first_some_SomeD: "first_some f xs = Some y \<Longrightarrow> \<exists>x\<in>set xs. f x = Some y"
  by (induction xs) (auto split: option.split_asm)

lemma content_refusal: "check_content env name test art = Some (v, e) \<Longrightarrow> v \<noteq> Pass"
  by (auto simp: check_content_def split: option.split_asm sum.split_asm)

lemma content_check_refusal:
  assumes "validateDescriptorBoundArtifacts env td index = Some (v, e)"
  shows "v \<noteq> Pass"
  using assms
  by (auto simp: validateDescriptorBoundArtifacts_def Let_def check_video_def check_timeline_def check_structured_def
      check_first_def dest!: first_some_SomeD content_refusal split: option.split_asm)

text \<open>What a pass of the gateway means.\<close>

lemma gateway_pass:
  assumes "run_gateway env body = (Inr a, calls)" and "rn_verdict a = Pass"
  shows "evidence_complete (jget ''submission'' body)"
    and "missingRequiredArtifacts (jv_frac_text env) (descriptor_sent body)
           (jget ''artifactIndex'' (jget ''submission'' body)) = []"
    and "validateDescriptorBoundArtifacts env (descriptor_sent body)
           (jget ''artifactIndex'' (jget ''submission'' body)) = None"
    and "jget ''finalUrl'' (jget ''manifest'' (jget ''submission'' body)) = Some (JStr u) \<Longrightarrow> jv_parse_url env u = Some p \<Longrightarrow>
         u_origin p \<noteq> [] \<Longrightarrow> jget ''allowedOrigins'' (jget ''constraints'' (jget ''jobSpec'' body)) = Some (JArr os) \<Longrightarrow>
         os \<noteq> [] \<Longrightarrow> JStr (u_origin p) \<in> set os"
proof -
  let ?sub = "jget ''submission'' body" and ?spec = "jget ''jobSpec'' body"
  let ?index = "jget ''artifactIndex'' ?sub" and ?ft = "jv_frac_text env"
  have "evidence_complete ?sub \<and> missingRequiredArtifacts ?ft (descriptor_sent body) ?index = [] \<and>
      validateDescriptorBoundArtifacts env (descriptor_sent body) ?index = None"
    using assms
    by (auto simp: run_gateway_def Let_def descriptor_sent_def split: if_split_asm sum.split_asm bool.split_asm
        list.split_asm option.split_asm dest: browser_pass content_check_refusal)
  then show "evidence_complete ?sub" "missingRequiredArtifacts ?ft (descriptor_sent body) ?index = []"
    "validateDescriptorBoundArtifacts env (descriptor_sent body) ?index = None" by auto
  show "JStr (u_origin p) \<in> set os" if "jget ''finalUrl'' (jget ''manifest'' ?sub) = Some (JStr u)"
    "jv_parse_url env u = Some p" "u_origin p \<noteq> []" "jget ''allowedOrigins'' (jget ''constraints'' ?spec) = Some (JArr os)" "os \<noteq> []"
  proof (rule ccontr)
    assume "JStr (u_origin p) \<notin> set os"
    with that have "origin_refused (u_origin p) (JArr os) = Inr True" by (simp add: origin_refused_def)
    with assms that show False
      by (simp add: run_gateway_def Let_def jstr_def origin_of_def coalesce_def) auto
  qed
qed

section \<open>The request the runner sends\<close>

lemma input_fields [simp]:
  "descriptor_sent (Some (gateway_input sid n c)) = map_option descriptor_json (sp_taskDescriptor (vc_jobSpec c))"
  "jget ''artifactIndex'' (jget ''submission'' (Some (gateway_input sid n c))) = Some (claim_index c)"
  "jget ''manifest'' (jget ''submission'' (Some (gateway_input sid n c))) = Some (vc_manifest c)"
  "jget ''allowedOrigins'' (jget ''constraints'' (jget ''jobSpec'' (Some (gateway_input sid n c)))) =
     Some (JArr (map JStr (sp_allowedOrigins (vc_jobSpec c))))"
  by (simp_all add: gateway_input_def job_spec_json_def descriptor_sent_def getTaskDescriptor_def map_of_append
      optional_field_def as_object_def descriptor_json_def split: option.split)

lemma verdict_of_name [simp]: "verdict_of (Some (JStr (verdict_name v))) = Some v"
  by (cases v) (simp_all add: verdict_of_def verdict_name_def)

lemma answer_fields [simp]:
  "jget ''verdict'' (Some (answer_json a)) = Some (JStr (verdict_name (rn_verdict a)))"
  "jget ''reason'' (Some (answer_json a)) = Some (JStr (rn_reason a))"
  "jget ''scorecard'' (Some (answer_json a)) = Some (scorecard_json (rn_scorecard a))"
  "jget ''evidenceArtifacts'' (Some (answer_json a)) = Some (rn_evidence a)"
  "jget ''runMetadata'' (Some (answer_json a)) = Some (JObj (rn_metadata a))"
  by (simp_all add: answer_json_def)

lemma read_answer:
  assumes "rn_reason a \<noteq> []"
  shows "read_gateway_answer (Some (answer_json a)) =
    Inr \<lparr> gw_verdict = rn_verdict a, gw_reason = rn_reason a, gw_scorecard = scorecard_json (rn_scorecard a),
          gw_evidenceArtifacts = map_option JArr (jarray (Some (rn_evidence a))), gw_runMetadata = Some (JObj (rn_metadata a)) \<rparr>"
  using assms
  by (cases "rn_reason a")
    (simp_all add: read_gateway_answer_def present_string_def finite_field_def scorecard_json_def jstr_def Let_def)

lemma judge_claim_answer:
  assumes "judge_claim env url lost is_url sid n d2 c = Inr g"
  obtains a calls where "run_gateway env (Some (gateway_input sid n c)) = (Inr a, calls)"
    and "ga_verdict g = rn_verdict a"
proof -
  obtain r where r: "runVerifierGateway url (gateway_service env lost) (gateway_input sid n c) = Inr r" "gw_verdict r = ga_verdict g"
    using assms by (auto simp: judge_claim_def Let_def split: sum.split_asm if_split_asm)
  then obtain a where a: "fst (run_gateway env (Some (gateway_input sid n c))) = Inr a" "read_gateway_answer (Some (answer_json a)) = Inr r"
    by (auto simp: runVerifierGateway_def gateway_service_def reply_ok_def split: if_split_asm option.split_asm sum.split_asm)
  then have "gw_verdict r = rn_verdict a"
    by (auto simp: read_gateway_answer_def Let_def split: if_split_asm)
  with a(1) r(2) that show ?thesis by (cases "run_gateway env (Some (gateway_input sid n c))") auto
qed

lemma claim_keeps_payouts: "payouts (snd (route_claim_verification ienv vid token now sid n who ttl s)) = payouts s"
  by (auto simp: route_claim_verification_def claim_verification_def Let_def updateVerification_def addVerification_def
      split: option.split prod.split)

lemma api_call_fst: "api_call d call what s = (Inr x, s') \<Longrightarrow> call s = (Ok x, s')"
  by (auto simp: api_call_def split: delivery.split_asm prod.split_asm response.split_asm)

lemma api_call_snd: "snd (api_call d call what s) = s \<or> snd (api_call d call what s) = snd (call s)"
  by (auto simp: api_call_def split: delivery.split prod.split response.split)

lemma review_that_pays:
  assumes "review_with_gateway env url lost is_url penv ienv M gen who d1 d2 now later (PlVerification v0 sid n) s = (e, s')"
    and "payouts s' \<noteq> payouts s"
  obtains c s1 a calls where "route_claim_verification ienv (gen 0) (gen 1) now sid n who 600 s = (Ok c, s1)"
    and "run_gateway env (Some (gateway_input sid n c)) = (Inr a, calls)" and "rn_verdict a = Pass"
proof -
  let ?claim = "route_claim_verification ienv (gen 0) (gen 1) now sid n who 600"
  have keeps: "payouts (snd (api_call d1 ?claim ''claim_failed:'' s)) = payouts s"
    using api_call_snd [of d1 ?claim "''claim_failed:''" s] claim_keeps_payouts [of ienv "gen 0" "gen 1" now sid n who 600 s] by auto
  then obtain c s1 g where c: "api_call d1 ?claim ''claim_failed:'' s = (Inr c, s1)" "payouts s1 = payouts s"
    and g: "judge_claim env url lost is_url sid n d2 c = Inr g"
    using assms by (auto simp: review_with_gateway_def handleVerificationRequested_def split: if_split_asm prod.split_asm sum.split_asm)
  let ?b = "\<lparr> vb_claimToken = vc_claimToken c, vb_submissionId = sid, vb_attemptNo = n, vb_verdict = ga_verdict g,
      vb_reason = ga_reason g, vb_scorecard = ga_scorecard g, vb_qualityScore = ga_qualityScore g, vb_evidence = ga_evidence g \<rparr>"
  have "snd (api_call d2 (route_verdict penv M (\<lambda>n. gen (n + 2)) later ?b) ''verdict_failed:'' s1) = s'"
    using assms c(1) g
    by (auto simp: review_with_gateway_def handleVerificationRequested_def split: if_split_asm prod.split_asm sum.split_asm)
  then have "payouts (snd (route_verdict penv M (\<lambda>n. gen (n + 2)) later ?b s1)) \<noteq> payouts s1"
    using api_call_snd [of d2 "route_verdict penv M (\<lambda>n. gen (n + 2)) later ?b" "''verdict_failed:''" s1] assms(2) c(2) by auto
  then have "ga_verdict g = Pass"
    using verdict_no_pass [of ?b penv M "\<lambda>n. gen (n + 2)" later s1] by (auto simp: payout_part_def)
  with judge_claim_answer [OF g] api_call_fst [OF c(1)] that show ?thesis by metis
qed


text \<open>A submission with a video, for a descriptor that requires one.\<close>

definition judged_descriptor :: task_descriptor where
  "judged_descriptor = \<lparr> td_type = ''clips'', td_capability_tags = [''http''], td_input_spec = JObj [],
     td_output_spec = JObj [(''required_artifacts'', JArr [JObj [(''kind'', JStr ''video'')]])],
     td_freshness_sla_sec = None, td_site_profile = None \<rparr>"

definition judged_manifest :: json where
  "judged_manifest = JObj [(''result'', JObj [(''expected'', JStr ''a clip''), (''observed'', JStr ''a clip'')]),
     (''reproSteps'', JArr [JStr ''play''])]"

definition judged_video :: json where
  "judged_video = JObj [(''kind'', JStr ''video''), (''label'', JStr ''clip''), (''sha256'', JStr ''12345678''),
     (''url'', JStr ''/api/artifacts/a1/download'')]"

definition judged_submission :: submissions_row where
  "judged_submission = review_submission\<lparr>s_manifest := judged_manifest, s_artifact_index := JArr [judged_video]\<rparr>"

definition judged_job :: jobs_row where
  "judged_job = review_job\<lparr>j_task_descriptor := Some judged_descriptor\<rparr>"

definition judged_store :: db where
  "judged_store = empty_db\<lparr>jobs := [judged_job], bounties := [example_bounty], submissions := [judged_submission]\<rparr>"

definition toy_judge :: judge_env where
  "toy_judge = \<lparr> jv_frac_text = (\<lambda>_. []), jv_parse_url = (\<lambda>_. None), jv_parse_json = (\<lambda>_. None), jv_api_base = ''http://a'',
     jv_max_bytes = Fin 1000, jv_sha = (\<lambda>_. ''12345678''),
     jv_download = (\<lambda>_. Inr \<lparr> fp_status = 200, fp_length = None, fp_body = Inr ''....ftypmp42'' \<rparr>),
     jv_call = (\<lambda>_. Inl ([], [])),
     jv_visit = (\<lambda>_ _. \<lparr> pv_requests = [], pv_events = [], pv_outcome = Inl ([], []), pv_har = None \<rparr>) \<rparr>"

lemma judged_ids: "j_id judged_job = ''j1''" "j_bounty_id judged_job = ''b1''" "s_id judged_submission = ''s1''"
  "s_job_id judged_submission = ''j1''" "b_id example_bounty = ''b1''"
  "s_manifest judged_submission = judged_manifest" "s_artifact_index judged_submission = JArr [judged_video]"
  "s_dedupe_key judged_submission = None"
  by (simp_all add: judged_job_def judged_submission_def review_submission_def review_job_ids)

definition judged_claim :: verifier_claim where
  "judged_claim = \<lparr> vc_verificationId = [], vc_claimToken = ''x'',
     vc_jobSpec = buildJobSpec (jobFromRow judged_job) (bountyFromRow example_bounty), vc_submissionId = ''s1'',
     vc_manifest = judged_manifest, vc_artifacts = [], vc_artifactIndex = JArr [judged_video] \<rparr>"

definition judged_attempt :: verification_obj where
  "judged_attempt = (new_verification [] ''s1'' 1)\<lparr>vo_status := VerInProgress, vo_claimToken := Some ''x'',
     vo_claimedBy := Some ''me'', vo_claimExpiresAt := Some 600005\<rparr>"

lemma judged_claim_run:
  "\<exists>s1. route_claim_verification example_intake [] ''x'' 5 ''s1'' 1 ''me'' 600 judged_store = (Ok judged_claim, s1) \<and>
     findVerificationBySubmission ''s1'' 1 s1 = Some judged_attempt \<and>
     submissions s1 = [judged_submission] \<and> jobs s1 = [judged_job] \<and> bounties s1 = [example_bounty] \<and>
     payouts s1 = [] \<and> orgs s1 = []"
  by (simp add: route_claim_verification_def claim_verification_def judged_store_def empty_db_def getSubmission_def
      findVerificationBySubmission_def new_verification_def addVerification_def updateVerification_def Let_def
      insert_do_nothing_def judged_ids submissionFromRow_def verificationFromRow_def getJob_def getBounty_def jobFromRow_def
      bountyFromRow_def judged_claim_def example_intake_def strip_descriptor_def judged_attempt_def)

lemma toy_download: "downloadArtifactBytes toy_judge ''a1'' = Inr ''....ftypmp42''"
  by (simp add: downloadArtifactBytes_def toy_judge_def reply_ok_def num_gt_def)

lemma judged_required:
  "required_artifacts (Some (descriptor_json judged_descriptor)) = [JObj [(''kind'', JStr ''video'')]]"
  by (simp add: required_artifacts_def descriptor_json_def judged_descriptor_def as_object_def jarray_def)

lemma judged_fields:
  "index_list (Some (JArr [judged_video])) = [judged_video]"
  "matches_artifact ft ''video'' None None judged_video"
  "text_or_blank ft (jget ''url'' (Some judged_video)) = ''/api/artifacts/a1/download''"
  by (simp_all add: index_list_def jarray_def judged_video_def matches_artifact_def is_object_def)

lemma judged_run:
  "\<exists>a calls. run_gateway toy_judge (Some (gateway_input ''s1'' 1 judged_claim)) = (Inr a, calls) \<and> rn_verdict a = Pass \<and>
     rn_reason a \<noteq> [] \<and> rn_evidence a = JArr [judged_video] \<and> verifierVerdictSchema (\<lambda>_. True) (Some (scorecard_json (rn_scorecard a))) (rn_evidence a)"
proof -
  let ?in = "Some (gateway_input ''s1'' 1 judged_claim)"
  let ?sub = "jget ''submission'' ?in" and ?spec = "jget ''jobSpec'' ?in"
  have td: "getTaskDescriptor ?spec = Some (descriptor_json judged_descriptor)"
    using input_fields(1) [of "''s1''" 1 judged_claim]
    by (simp add: descriptor_sent_def judged_claim_def buildJobSpec_def Let_def descriptor_of_def jobFromRow_def judged_job_def)
  have fields: "claim_index judged_claim = JArr [judged_video]" "vc_manifest judged_claim = judged_manifest"
    by (simp_all add: claim_index_def judged_claim_def)
  have none: "missingRequiredArtifacts ft (Some (descriptor_json judged_descriptor)) (Some (JArr [judged_video])) = []" for ft
    by (simp add: missingRequiredArtifacts_def judged_required judged_fields missing_one_def as_object_def jstr_def Let_def
        required_count_def json_number_def List.map_filter_simps)
  have ok: "validateDescriptorBoundArtifacts toy_judge (Some (descriptor_json judged_descriptor)) (Some (JArr [judged_video])) = None"
    using toy_download
    by (simp add: validateDescriptorBoundArtifacts_def judged_required judged_fields check_video_def check_first_def jstr_def
        check_content_def extractArtifactIdFromUrl_def as_object_def Let_def is_other_def prefix_of_def toy_judge_def sniffMp4_def)
  have complete: "evidence_complete ?sub"
    by (simp add: evidence_complete_def Let_def fields present_string_def present_list_def judged_manifest_def)
  have "verifierVerdictSchema (\<lambda>_. True) (Some (scorecard_json (score_evidence ft r i x o'))) (JArr [judged_video])" for ft r i x o'
    by (simp add: verifierVerdictSchema_def scorecard_json_def score_evidence_def clamp01_def Let_def unit_number_def finite_field_def
        artifactRefSchema_def judged_video_def as_object_def artifactKind_ok_def artifactKindEnum_def string_field_def
        optional_field_ok_def)
  then show ?thesis
    using td none ok complete
    by (simp add: run_gateway_def Let_def fields judged_fields judged_manifest_def jstr_def wants_browser_def getCapabilityTags_def
        descriptor_json_def judged_descriptor_def jarray_def List.map_filter_simps)
qed


section \<open>Evidence that was never completed\<close>

lemma browser_evidence:
  assumes "run_browser env body u allowed base xs org = (Inr a, calls)" and "rn_evidence base = JArr xs"
  shows "\<exists>ys. rn_evidence a = JArr (xs @ ys)"
  using assms by (auto simp: run_browser_def Let_def split: sum.split_asm option.split_asm prod.split_asm)

lemma coalesce_array: "coalesce (Some (JArr xs)) y = Some (JArr xs)"
  by (simp add: coalesce_def)

lemma gateway_evidence:
  assumes "run_gateway env body = (Inr a, calls)" and "jget ''artifactIndex'' (jget ''submission'' body) = Some (JArr xs)"
  shows "\<exists>ys. rn_evidence a = JArr (xs @ ys)"
  using assms(1)
  by (auto simp: run_gateway_def Let_def assms(2) index_list_simps coalesce_array split: if_split_asm sum.split_asm bool.split_asm
      list.split_asm option.split_asm dest: browser_evidence)

definition null_column :: "artifacts_row \<Rightarrow> bool" where
  "null_column r \<longleftrightarrow> a_sha256 r = None \<or> a_size_bytes r = None \<or> a_label r = None \<or> a_final_url r = None \<or> a_content_type r = None"

lemma null_column_refused:
  assumes "null_column r"
  shows "\<not> artifactRefSchema is_url (claimed_artifact_json \<lparr> cl_kind = a_kind r, cl_label = a_label r, cl_sha256 = a_sha256 r,
    cl_url = a_final_url r, cl_sizeBytes = a_size_bytes r, cl_contentType = a_content_type r \<rparr>)"
  using assms
  by (auto simp: null_column_def artifactRefSchema_def claimed_artifact_json_def json_opt_def string_field_def
      optional_field_ok_def nonnegative_int_def jstr_def)

lemma claim_artifacts:
  assumes "route_claim_verification ienv vid token now sid n who ttl s = (Ok c, s1)"
    and "r \<in> set (artifacts s)" and "a_submission_id r = Some sid" and "a_deleted_at r = None"
  shows "\<lparr> cl_kind = a_kind r, cl_label = a_label r, cl_sha256 = a_sha256 r, cl_url = a_final_url r,
           cl_sizeBytes = a_size_bytes r, cl_contentType = a_content_type r \<rparr> \<in> set (vc_artifacts c)"
proof -
  have "artifacts t = artifacts s" if "claim_verification vid token now sid n who ttl s = (v, t)" for v t
    using that by (auto simp: claim_verification_def Let_def updateVerification_def addVerification_def
        split: option.split_asm if_split_asm)
  moreover have "so_id q = sid" if "getSubmission sid s = Some q" for q
    using that by (auto simp: getSubmission_def submissionFromRow_def dest: find_SomeD)
  ultimately show ?thesis
    using assms by (auto simp: route_claim_verification_def split: option.split_asm prod.split_asm)
qed

lemma claim_only_verifications:
  assumes "route_claim_verification ienv vid token now sid n who ttl s = (a, s1)"
  shows "payouts s1 = payouts s" "submissions s1 = submissions s" "jobs s1 = jobs s"
  using assms
  by (auto simp: route_claim_verification_def claim_verification_def Let_def updateVerification_def addVerification_def
      split: option.split_asm prod.split_asm if_split_asm)

lemma judge_refuses:
  assumes "x \<in> set (vc_artifacts c)" and "\<not> artifactRefSchema is_url (claimed_artifact_json x)"
  shows "\<exists>m. judge_claim env url lost is_url sid n d2 c = Inl m"
proof (rule ccontr)
  assume "\<not> ?thesis"
  then obtain g where g: "judge_claim env url lost is_url sid n d2 c = Inr g"
    by (cases "judge_claim env url lost is_url sid n d2 c") auto
  let ?xs = "map claimed_artifact_json (vc_artifacts c)"
  have index: "claim_index c = JArr ?xs" using assms(1) by (auto simp: claim_index_def)
  from g obtain r where r: "runVerifierGateway url (gateway_service env lost) (gateway_input sid n c) = Inr r"
    and ok: "verifierVerdictSchema is_url (Some (gw_scorecard r))
      (case gw_evidenceArtifacts r of Some e \<Rightarrow> e | None \<Rightarrow> the (coalesce (Some (claim_index c)) (Some (JArr []))))"
    by (auto simp: judge_claim_def Let_def split: sum.split_asm if_split_asm)
  from r obtain a calls where a: "run_gateway env (Some (gateway_input sid n c)) = (Inr a, calls)"
    and body: "read_gateway_answer (Some (answer_json a)) = Inr r"
    by (cases "run_gateway env (Some (gateway_input sid n c))")
      (auto simp: runVerifierGateway_def gateway_service_def reply_ok_def split: if_split_asm option.split_asm sum.split_asm)
  obtain ys where "rn_evidence a = JArr (?xs @ ys)" using gateway_evidence [OF a, of ?xs] by (auto simp: index)
  with body have "gw_evidenceArtifacts r = Some (JArr (?xs @ ys))"
    by (auto simp: read_gateway_answer_def Let_def jarray_def split: if_split_asm)
  with ok assms show False by (auto simp: verifierVerdictSchema_def list_all_iff)
qed

text \<open>C12. One upload of evidence that was never completed stops the review: while the submission has an
  artifact with an empty column, as an upload that was announced but not carried out leaves it, every turn
  of the verification runner ends in an error, whatever the gateway sees, and neither the submission, its
  job nor its payout change. The verdict route refuses the evidence that its own claim route lists.\<close>

theorem unfinished_evidence_blocks_review:
  assumes "r \<in> set (artifacts s)" and "a_submission_id r = Some sid" and "a_deleted_at r = None" and "null_column r"
    and "review_with_gateway env url lost is_url penv ienv M gen who d1 d2 now later (PlVerification v0 sid n) s = (e, s')"
  shows "e \<noteq> None \<and> submissions s' = submissions s \<and> jobs s' = jobs s \<and> payouts s' = payouts s"
proof -
  let ?claim = "route_claim_verification ienv (gen 0) (gen 1) now sid n who 600"
  obtain a s1 where c: "?claim s = (a, s1)" by fastforce
  note same = claim_only_verifications [OF c]
  have "\<exists>m. judge_claim env url lost is_url sid n d2 x = Inl m" if "a = Ok x" for x
    using judge_refuses [OF claim_artifacts [OF c [unfolded that] assms(1-3)] null_column_refused [OF assms(4)]] .
  with assms(5) c same show ?thesis
    by (auto simp: review_with_gateway_def handleVerificationRequested_def api_call_def
        split: if_split_asm delivery.split_asm response.split_asm sum.split_asm)
qed

text \<open>A presign request whose second file is too large is refused and leaves the row of the first.\<close>

theorem unfinished_evidence_blocks_review_witness:
  "\<exists>e w' e' s'. route_verifier_presign (toy_storage LocalDisk) (\<lambda>i. (''a'' @ show_nat i, ''r'' @ show_nat i)) 5 ''s1''
       [\<lparr> fr_filename = ''shot.png'', fr_contentType = ''image/png'', fr_sizeBytes = Some 10 \<rparr>,
        \<lparr> fr_filename = ''net.har'', fr_contentType = ''application/octet-stream'', fr_sizeBytes = Some 5000 \<rparr>] ''http://h''
       \<lparr> w_db = judged_store, w_st = \<lparr> st_files = (\<lambda>_. None), st_objects = (\<lambda>_. None) \<rparr> \<rparr> = (Reject 400 e, w') \<and>
     review_with_gateway toy_judge (Some ''u'') None (\<lambda>_. True) mock_env example_intake (Fin 3) example_gen ''me'' Answered Answered
       7 8 (PlVerification [] ''s1'' 2) (w_db w') = (Some e', s') \<and> payouts s' = payouts (w_db w')"
proof -
  let ?w = "\<lparr> w_db = judged_store, w_st = \<lparr> st_files = (\<lambda>_. None), st_objects = (\<lambda>_. None) \<rparr> \<rparr>"
  let ?files = "[\<lparr> fr_filename = ''shot.png'', fr_contentType = ''image/png'', fr_sizeBytes = Some 10 \<rparr>,
    \<lparr> fr_filename = ''net.har'', fr_contentType = ''application/octet-stream'', fr_sizeBytes = Some 5000 \<rparr>]"
  let ?ids = "\<lambda>i. (''a'' @ show_nat i, ''r'' @ show_nat i)"
  have name: "sanitizeFilename ''shot.png'' = Inr ''shot.png''"
    by (simp add: sanitizeFilename_def trim_def is_space_def Let_def)
  have "getSubmission ''s1'' judged_store = Some (submissionFromRow judged_submission)"
    by (simp add: getSubmission_def judged_store_def judged_ids)
  moreover have "so_id (submissionFromRow judged_submission) = ''s1''" by (simp add: submissionFromRow_def judged_ids)
  ultimately have "\<exists>e w'. route_verifier_presign (toy_storage LocalDisk) ?ids 5 ''s1'' ?files ''http://h'' ?w = (Reject 400 e, w') \<and>
      (\<exists>r. r \<in> set (artifacts (w_db w')) \<and> a_submission_id r = Some ''s1'' \<and> a_deleted_at r = None \<and> a_sha256 r = None)"
    by (simp add: route_verifier_presign_def answer_prog_def presignVerifierUploads_def prog_simps Let_def
      presign_file_def validateFile_def ALLOWED_CONTENT_TYPES_def toy_storage_def num_gt_def name new_artifact_def
      scheduleArtifactDeletion_def conj_disj_distribR ex_disj_distrib)
  then obtain e w' r where presign: "route_verifier_presign (toy_storage LocalDisk) ?ids 5 ''s1'' ?files ''http://h'' ?w = (Reject 400 e, w')"
    and r: "r \<in> set (artifacts (w_db w'))" "a_submission_id r = Some ''s1''" "a_deleted_at r = None" "a_sha256 r = None" by blast
  obtain e' s' where review: "review_with_gateway toy_judge (Some ''u'') None (\<lambda>_. True) mock_env example_intake (Fin 3) example_gen ''me''
      Answered Answered 7 8 (PlVerification [] ''s1'' 2) (w_db w') = (e', s')" by fastforce
  have "null_column r" using r(4) by (simp add: null_column_def)
  from unfinished_evidence_blocks_review [OF r(1-3) this review] presign review show ?thesis by auto
qed

end
