(* ===== verification/Agent.thy ===== *)
theory Agent
  imports Intake
begin

text \<open>
  The universal worker (\<open>src/integrations/openclaw/extensions/proofwork-worker/assets/proofwork_worker.mjs\<close>,
  the program a worker runs): its configuration, the rules about urls, task types and secrets it keeps, and the
  test every offered job passes before it is claimed. Jobs are JSON from the API and not trusted. The
  environment, the URL parser and SHA-256 are parameters; an exception is its message on the left.
\<close>

section \<open>Configuration\<close>

text \<open>\<open>process.env\<close>\<close>

type_synonym process_env = "string \<Rightarrow> string option"

definition parseCsv :: "string option \<Rightarrow> string list" where
  "parseCsv v = trimmed_nonblank (split_on CHR '','' (or_blank v))"

definition parseBool :: "string option \<Rightarrow> bool \<Rightarrow> bool" where
  "parseBool v fallback =
     (let s = toLowerCase (trim (or_blank v))
      in if s = ''true'' \<or> s = ''1'' \<or> s = ''yes'' then True
         else if s = ''false'' \<or> s = ''0'' \<or> s = ''no'' then False
         else fallback)"

text \<open>\<open>parseIntClamped(process.env.X ?? fallback, fallback, lo, hi)\<close>\<close>

definition parseIntClamped :: "string option \<Rightarrow> int \<Rightarrow> int \<Rightarrow> int \<Rightarrow> int" where
  "parseIntClamped v fallback lo hi =
     clamp_floor lo hi fallback (case v of None \<Rightarrow> Fin (of_int fallback) | Some s \<Rightarrow> js_number s)"

definition set_text :: "string option \<Rightarrow> string option" where
  "set_text v = (if trim (or_blank v) = [] then None else Some (trim (or_blank v)))"

record agent_config =
  ac_api_base :: string
  ac_strict :: bool
  ac_no_login :: bool
  ac_value_env_allowlist :: "string list"
  ac_extra_origins :: "string list"
  ac_allow_types :: "string list"
  ac_deny_types :: "string list"
  ac_allow_origins :: "string list"
  ac_deny_origins :: "string list"
  ac_http_max_bytes :: int
  ac_artifact_max_bytes :: "int option"
  ac_ffmpeg_max_sec :: int
  ac_budget_override :: "int option"
  ac_browser_profile :: "string option"
  ac_require_job :: "string option"
  ac_require_bounty :: "string option"
  ac_poll_ms :: int
  ac_backoff_ms :: int
  ac_browser_health_ms :: int
  ac_ffmpeg_health_ms :: int

definition agent_config_of :: "process_env \<Rightarrow> agent_config" where
  "agent_config_of env = \<lparr>
     ac_api_base = strip_slash (case env ''PROOFWORK_API_BASE_URL'' of None \<Rightarrow> ''http://localhost:3000'' | Some u \<Rightarrow> u),
     ac_strict = (toLowerCase (trim (or_blank (env ''PROOFWORK_ORIGIN_ENFORCEMENT''))) \<noteq> ''off''),
     ac_no_login = parseBool (env ''PROOFWORK_NO_LOGIN'') True,
     ac_value_env_allowlist = parseCsv (env ''PROOFWORK_VALUE_ENV_ALLOWLIST''),
     ac_extra_origins = parseCsv (env ''PROOFWORK_EXTRA_ALLOWED_ORIGINS''),
     ac_allow_types = parseCsv (env ''PROOFWORK_ALLOW_TASK_TYPES''),
     ac_deny_types = parseCsv (env ''PROOFWORK_DENY_TASK_TYPES''),
     ac_allow_origins = parseCsv (env ''PROOFWORK_ALLOW_ORIGINS''),
     ac_deny_origins = parseCsv (env ''PROOFWORK_DENY_ORIGINS''),
     ac_http_max_bytes = parseIntClamped (env ''PROOFWORK_HTTP_MAX_BYTES'') 2000000 1024 50000000,
     ac_artifact_max_bytes = (if truthy (env ''PROOFWORK_ARTIFACT_MAX_BYTES'')
       then Some (parseIntClamped (env ''PROOFWORK_ARTIFACT_MAX_BYTES'') 50000000 1024 500000000) else None),
     ac_ffmpeg_max_sec = parseIntClamped (env ''PROOFWORK_FFMPEG_MAX_DURATION_SEC'') 60 1 600,
     ac_budget_override = (if truthy (env ''PROOFWORK_JOB_TIME_BUDGET_SEC'')
       then Some (parseIntClamped (env ''PROOFWORK_JOB_TIME_BUDGET_SEC'') 240 10 3600) else None),
     ac_browser_profile = set_text (env ''OPENCLAW_BROWSER_PROFILE''),
     ac_require_job = set_text (env ''PROOFWORK_REQUIRE_JOB_ID''),
     ac_require_bounty = set_text (env ''PROOFWORK_REQUIRE_BOUNTY_ID''),
     ac_poll_ms = parseIntClamped (env ''PROOFWORK_POLL_INTERVAL_MS'') 1000 250 60000,
     ac_backoff_ms = parseIntClamped (env ''PROOFWORK_ERROR_BACKOFF_MS'') 2000 250 60000,
     ac_browser_health_ms = parseIntClamped (env ''PROOFWORK_BROWSER_HEALTH_INTERVAL_MS'') 60000 5000 600000,
     ac_ffmpeg_health_ms = parseIntClamped (env ''PROOFWORK_FFMPEG_HEALTH_INTERVAL_MS'') 60000 5000 600000 \<rparr>"

record agent_env =
  ae_config :: agent_config
  ae_env :: process_env
  ae_parse_url :: url_parser
  ae_frac_text :: "rat \<Rightarrow> string"
  ae_sha :: "string \<Rightarrow> string"  \<comment> \<open>the bytes of the digest\<close>
  ae_parse_json :: "string \<Rightarrow> json option"

abbreviation agent_strict :: "agent_env \<Rightarrow> bool" where
  "agent_strict env \<equiv> ac_strict (ae_config env)"

abbreviation agent_no_login :: "agent_env \<Rightarrow> bool" where
  "agent_no_login env \<equiv> ac_no_login (ae_config env)"

definition supportedCapabilityTags :: "process_env \<Rightarrow> string list" where
  "supportedCapabilityTags env =
     parseCsv (case env ''PROOFWORK_SUPPORTED_CAPABILITY_TAGS'' of
                 None \<Rightarrow> Some ''browser,http,screenshot,llm_summarize'' | v \<Rightarrow> v)"

definition canaryPercent :: "process_env \<Rightarrow> rat" where
  "canaryPercent env =
     (case env ''PROOFWORK_CANARY_PERCENT'' of
        None \<Rightarrow> 100
      | Some s \<Rightarrow> (case js_number s of Fin q \<Rightarrow> max 0 (min 100 q) | _ \<Rightarrow> 100))"

definition withinCanary :: "agent_env \<Rightarrow> string \<Rightarrow> bool" where
  "withinCanary env jobId =
     (let pct = canaryPercent (ae_env env)
      in if pct \<ge> 100 then True else if pct \<le> 0 then False
         else of_nat (be32 (take 4 (ae_sha env jobId))) / 4294967295 < pct / 100)"

section \<open>Urls and task types\<close>

definition urlOriginStrict :: "url_parser \<Rightarrow> string \<Rightarrow> string + string" where
  "urlOriginStrict parse_url u =
     (case parse_url u of
        None \<Rightarrow> Inl ''Invalid URL''
      | Some p \<Rightarrow>
          if u_protocol p \<notin> {''http:'', ''https:''} then Inl ''unsupported_url_scheme''
          else if u_username p \<noteq> [] \<or> u_password p \<noteq> [] then Inl ''url_contains_credentials''
          else Inr (u_origin p))"

text \<open>A list that is not empty admits its members only; a denied entry is never admitted.\<close>

definition policy_allows :: "string list \<Rightarrow> string list \<Rightarrow> string \<Rightarrow> bool" where
  "policy_allows allow deny x = (if x \<in> set deny then False else if allow \<noteq> [] then x \<in> set allow else True)"

definition originAllowedByWorkerPolicy :: "agent_env \<Rightarrow> string \<Rightarrow> bool" where
  "originAllowedByWorkerPolicy env o' = policy_allows (ac_allow_origins (ae_config env)) (ac_deny_origins (ae_config env)) o'"

definition typeAllowedByWorkerPolicy :: "agent_env \<Rightarrow> string \<Rightarrow> bool" where
  "typeAllowedByWorkerPolicy env t = policy_allows (ac_allow_types (ae_config env)) (ac_deny_types (ae_config env)) t"

definition valid_origins :: "url_parser \<Rightarrow> string list \<Rightarrow> string list" where
  "valid_origins parse_url xs = List.map_filter (\<lambda>x. case urlOriginStrict parse_url x of Inl _ \<Rightarrow> None | Inr o' \<Rightarrow> Some o') xs"

text \<open>The set of origins a job may touch, as a list.\<close>

definition compileAllowedOrigins :: "agent_env \<Rightarrow> json option \<Rightarrow> string list" where
  "compileAllowedOrigins env job =
     valid_origins (ae_parse_url env)
       (map (json_text (ae_frac_text env)) (case jarray (jget ''allowedOrigins'' (jget ''constraints'' job)) of None \<Rightarrow> [] | Some xs \<Rightarrow> xs) @
        ac_extra_origins (ae_config env))"

definition assertUrlAllowed :: "agent_env \<Rightarrow> string list \<Rightarrow> string \<Rightarrow> string \<Rightarrow> string + string" where
  "assertUrlAllowed env allowed url what =
     (case urlOriginStrict (ae_parse_url env) url of
        Inl e \<Rightarrow> Inl e
      | Inr o' \<Rightarrow>
          if \<not> originAllowedByWorkerPolicy env o' then Inl (''origin_blocked_by_worker_policy:'' @ what @ '':'' @ o')
          else if \<not> agent_strict env then Inr o'
          else if allowed = [] then Inl (''origin_enforcement_missing_allowed_origins:'' @ what)
          else if o' \<notin> set allowed then Inl (''origin_not_allowed:'' @ what @ '':'' @ o')
          else Inr o')"

definition login_words :: "string list" where
  "login_words = [''oauth'', ''sso'', ''sign in'', ''signin'', ''log in'', ''login'', ''password'', ''passcode'',
     ''one-time'', ''one time'', ''otp'', ''2fa'', ''mfa'', ''verification code'', ''auth/'']"

definition looksLikeLoginText :: "string \<Rightarrow> bool" where
  "looksLikeLoginText s = list_ex (str_includes (toLowerCase s)) login_words"

text \<open>The two tests before a url is visited: \<open>if (strict) assertUrlAllowed(..); if (NO_LOGIN \<and> ..) throw\<close>.\<close>

definition check_url :: "agent_env \<Rightarrow> string list \<Rightarrow> string \<Rightarrow> string \<Rightarrow> string + unit" where
  "check_url env allowed url what =
     (case (if agent_strict env then assertUrlAllowed env allowed url what else Inr []) of
        Inl e \<Rightarrow> Inl e
      | Inr _ \<Rightarrow>
          if agent_no_login env \<and> looksLikeLoginText url then Inl (''no_login_blocked_url:'' @ url) else Inr ())"

section \<open>Secrets\<close>

definition isAllowedValueEnv :: "agent_env \<Rightarrow> string \<Rightarrow> bool" where
  "isAllowedValueEnv env name =
     (let n = trim name
      in if n = [] then False else if \<not> env_name n then False else if env_sensitive n then False
         else n \<in> set (ac_value_env_allowlist (ae_config env)))"

text \<open>\<open>raw.replace(/\r?\n/g, ' ')\<close>\<close>

fun newlines_to_spaces :: "string \<Rightarrow> string" where
  "newlines_to_spaces (a # b # s) =
     (if a = CHR 0x0D \<and> b = CHR 0x0A then CHR '' '' # newlines_to_spaces s
      else if a = CHR 0x0A then CHR '' '' # newlines_to_spaces (b # s) else a # newlines_to_spaces (b # s))"
| "newlines_to_spaces [a] = [if a = CHR 0x0A then CHR '' '' else a]"
| "newlines_to_spaces [] = []"

definition pickFillValue :: "agent_env \<Rightarrow> json option \<Rightarrow> string + string" where
  "pickFillValue env step =
     (if truthy (jstr (jget ''value_env'' step)) then
        let name = trim (the (jstr (jget ''value_env'' step)))
        in if \<not> isAllowedValueEnv env name then Inl (''value_env_not_allowed:'' @ name)
           else Inr (take 1024 (trim (newlines_to_spaces (or_blank (ae_env env name)))))
      else Inr (or_blank (jstr (jget ''value'' step))))"

definition redactStepValue :: "json option \<Rightarrow> string" where
  "redactStepValue step =
     (if truthy (jstr (jget ''value_env'' step)) then ''<env:'' @ the (jstr (jget ''value_env'' step)) @ ''>''
      else case jstr (jget ''value'' step) of
          Some v \<Rightarrow> ''<inline:'' @ show_nat (min 80 (length v)) @ '' chars>''
        | None \<Rightarrow> ''<none>'')"

section \<open>Reading a job\<close>

definition job_td :: "json option \<Rightarrow> json option" where
  "job_td job = jget ''taskDescriptor'' job"

definition job_input :: "json option \<Rightarrow> json option" where
  "job_input job = jget ''input_spec'' (job_td job)"

definition job_output :: "json option \<Rightarrow> json option" where
  "job_output job = jget ''output_spec'' (job_td job)"

definition start_journey :: "json option \<Rightarrow> json option" where
  "start_journey job = jget ''startUrl'' (jget ''journey'' job)"

definition getStartUrlFromJob :: "json option \<Rightarrow> string" where
  "getStartUrlFromJob job =
     (case jstr (jget ''url'' (job_input job)) of
        Some u \<Rightarrow> if trim u \<noteq> [] then trim u else trim (or_blank (jstr (start_journey job)))
      | None \<Rightarrow> trim (or_blank (jstr (start_journey job))))"

definition parseCapabilityTags :: "json option \<Rightarrow> string list" where
  "parseCapabilityTags job =
     (let tags = trimmed_nonblank (List.map_filter (\<lambda>t. jstr (Some t))
                   (case jarray (jget ''capability_tags'' (job_td job)) of None \<Rightarrow> [] | Some xs \<Rightarrow> xs))
      in if tags = [] then [''browser''] else tags)"

definition job_required :: "json option \<Rightarrow> json list" where
  "job_required job = (case jarray (jget ''required_artifacts'' (job_output job)) of None \<Rightarrow> [] | Some xs \<Rightarrow> xs)"

definition computeJobDeadlineMs :: "agent_env \<Rightarrow> int \<Rightarrow> json option \<Rightarrow> int" where
  "computeJobDeadlineMs env now job =
     (let q = (case json_number (ae_frac_text env) (coalesce (jget ''timeBudgetSec'' (jget ''constraints'' job)) (Some (JNum (Fin 0)))) of
                 Fin q \<Rightarrow> if q > 0 then q else 240 | _ \<Rightarrow> 240);
          budget = (case ac_budget_override (ae_config env) of None \<Rightarrow> q | Some b \<Rightarrow> min q (of_int b))
      in now + max 10 (min 3600 \<lfloor>budget\<rfloor>) * 1000)"

definition getBrowserFlowSpec :: "json option \<Rightarrow> json option" where
  "getBrowserFlowSpec job =
     (let sp = jget ''site_profile'' (job_td job); bf = coalesce (jget ''browser_flow'' sp) (jget ''browserFlow'' sp)
      in if is_object sp \<and> is_object bf then bf else None)"

text \<open>\<open>max_steps\<close> within 1 and 100, 50 without one; \<open>slice\<close> drops a fraction.\<close>

definition flow_max_steps :: "(rat \<Rightarrow> string) \<Rightarrow> json option \<Rightarrow> nat" where
  "flow_max_steps ft flow =
     (case json_number ft (jget ''max_steps'' flow) of Fin q \<Rightarrow> nat \<lfloor>max 1 (min 100 q)\<rfloor> | _ \<Rightarrow> 50)"

definition flow_steps :: "json option \<Rightarrow> json list" where
  "flow_steps flow = (case jarray (jget ''steps'' flow) of None \<Rightarrow> [] | Some xs \<Rightarrow> xs)"

definition normalizeBrowserFlowSteps :: "(rat \<Rightarrow> string) \<Rightarrow> json option \<Rightarrow> json list" where
  "normalizeBrowserFlowSteps ft flow = take (flow_max_steps ft flow) (flow_steps flow)"

definition stepFieldText :: "json option \<Rightarrow> string" where
  "stepFieldText step =
     join '' '' (filter (\<lambda>w. w \<noteq> []) (map (\<lambda>k. or_blank (jstr (jget k step)))
       [''selector'', ''text'', ''role'', ''name'', ''label'']))"

section \<open>The score of steps that look like a login\<close>

definition any_word :: "string list \<Rightarrow> string \<Rightarrow> bool" where
  "any_word ws s = list_ex (str_includes s) ws"

text \<open>A url's part of the score; one that does not parse adds \<open>broken\<close>.\<close>

definition url_score :: "agent_env \<Rightarrow> string list \<Rightarrow> int \<Rightarrow> string \<Rightarrow> int" where
  "url_score env allowed broken u =
     (if looksLikeLoginText u then 2 else 0) +
     (case urlOriginStrict (ae_parse_url env) u of
        Inl _ \<Rightarrow> broken
      | Inr o' \<Rightarrow> (if originAllowedByWorkerPolicy env o' then 0 else 5) +
          (if agent_strict env \<and> allowed \<noteq> [] \<and> o' \<notin> set allowed then 5 else 0))"

definition fill_score :: "agent_env \<Rightarrow> json option \<Rightarrow> int" where
  "fill_score env step =
     (let f = toLowerCase (stepFieldText step)
      in (if any_word [''password'', ''passcode''] f then 5 else 0) +
         (if any_word [''otp'', ''2fa'', ''mfa'', ''verification code''] f then 5 else 0) +
         (if any_word [''continue with google'', ''continue with apple'', ''continue with''] f then 5 else 0) +
         (if any_word [''email'', ''e-mail'', ''username'', ''user name''] f then 1 else 0) +
         (case jstr (jget ''value_env'' step) of
            Some v \<Rightarrow> if trim v \<noteq> [] \<and> \<not> isAllowedValueEnv env (trim v) then 5 else 0
          | None \<Rightarrow> 0))"

definition step_score :: "agent_env \<Rightarrow> string list \<Rightarrow> json \<Rightarrow> int" where
  "step_score env allowed step =
     (let op = step_op (ae_frac_text env) step; st = Some step; url = trim (or_blank (jstr (jget ''url'' st)))
      in if op = [] then 0
         else (if op \<in> {''navigate'', ''goto''} \<and> url \<noteq> [] then url_score env allowed 2 url else 0) +
              (if op = ''click'' \<and> looksLikeLoginText (stepFieldText st) then 2 else 0) +
              (if op \<in> {''fill'', ''type''} then fill_score env st else 0) +
              (if op = ''extract'' \<and> trim (or_blank (jstr (jget ''fn'' st))) \<noteq> [] then 10 else 0))"

definition noLoginPreflightScore :: "agent_env \<Rightarrow> string list \<Rightarrow> json option \<Rightarrow> int" where
  "noLoginPreflightScore env allowed job =
     url_score env allowed 0 (getStartUrlFromJob job) +
     sum_list (map (step_score env allowed) (flow_steps (getBrowserFlowSpec job)))"

section \<open>The test of an offered job\<close>

text \<open>\<open>^[a-zA-Z_][a-zA-Z0-9_:\\-]{0,60}$\<close>: the class holds a backslash too.\<close>

definition extract_attribute :: "string \<Rightarrow> bool" where
  "extract_attribute s =
     (case s of [] \<Rightarrow> False
      | c # t \<Rightarrow> (is_lower c \<or> is_upper c \<or> c = CHR ''_'') \<and> length t \<le> 60 \<and>
          list_all (\<lambda>d. is_lower d \<or> is_upper d \<or> is_digit d \<or> d \<in> {CHR ''_'', CHR '':'', CHR 0x5C, CHR ''-''}) t)"

definition step_kind :: "(rat \<Rightarrow> string) \<Rightarrow> json option \<Rightarrow> string" where
  "step_kind ft step = toLowerCase (trim (json_text ft (the (coalesce (jget ''kind'' step) (Some (JStr ''text''))))))"

definition first_error :: "(string + unit) list \<Rightarrow> string + unit" where
  "first_error rs = foldr (\<lambda>r acc. case r of Inl e \<Rightarrow> Inl e | Inr _ \<Rightarrow> acc) rs (Inr ())"

definition refuse_if :: "bool \<Rightarrow> string \<Rightarrow> string + unit" where
  "refuse_if b m = (if b then Inl m else Inr ())"

definition preflight_step :: "agent_env \<Rightarrow> string list \<Rightarrow> nat \<Rightarrow> json \<Rightarrow> string + unit" where
  "preflight_step env allowed i step =
     (let ft = ae_frac_text env; st = Some step; op = step_op ft step; url = trim (or_blank (jstr (jget ''url'' st)));
          name = trim (or_blank (jstr (jget ''value_env'' st))); fields = stepFieldText st
      in if op = [] then Inr ()
         else first_error
           [if op \<in> {''navigate'', ''goto''} \<and> url \<noteq> [] then check_url env allowed url (''step_'' @ show_nat i @ ''_url'') else Inr (),
            if op = ''wait'' \<and> url \<noteq> [] then check_url env allowed url (''step_'' @ show_nat i @ ''_wait_url'') else Inr (),
            refuse_if (op = ''extract'' \<and> trim (or_blank (jstr (jget ''fn'' st))) \<noteq> []) ''extract_fn_forbidden'',
            refuse_if (op = ''extract'' \<and> step_kind ft st = ''attribute'' \<and>
                \<not> extract_attribute (trim (or_blank (jstr (jget ''attribute'' st))))) ''invalid_extract_attribute'',
            refuse_if (op \<in> {''fill'', ''type''} \<and> name \<noteq> [] \<and> \<not> isAllowedValueEnv env name) (''value_env_not_allowed:'' @ name),
            refuse_if (agent_no_login env \<and> op \<in> {''click'', ''fill'', ''type''} \<and> looksLikeLoginText fields)
              (''no_login_blocked_step:'' @ op @ '':'' @ take 120 fields)])"

definition preflight_flow :: "agent_env \<Rightarrow> string list \<Rightarrow> json option \<Rightarrow> string + unit" where
  "preflight_flow env allowed flow =
     (if flow = None then Inr ()
      else if length (flow_steps flow) > 100 then Inl ''browser_flow_steps_exceeds_hard_cap''
      else first_error (map (\<lambda>(i, step). preflight_step env allowed i step)
             (enumerate 0 (normalizeBrowserFlowSteps (ae_frac_text env) flow))))"

definition requires_video :: "(rat \<Rightarrow> string) \<Rightarrow> json option \<Rightarrow> bool" where
  "requires_video ft job =
     (''ffmpeg'' \<in> set (parseCapabilityTags job) \<or>
      list_ex (\<lambda>r. is_object (Some r) \<and> text_or_blank ft (jget ''kind'' (Some r)) = ''video'') (job_required job))"

text \<open>Start and duration of a clip, as numbers.\<close>

definition clip_start :: "(rat \<Rightarrow> string) \<Rightarrow> json option \<Rightarrow> jsnum" where
  "clip_start ft job = json_number ft (coalesce (jget ''start_sec'' (job_input job)) (Some (JNum (Fin 0))))"

definition clip_duration :: "(rat \<Rightarrow> string) \<Rightarrow> json option \<Rightarrow> jsnum" where
  "clip_duration ft job = json_number ft (coalesce (jget ''duration_sec'' (job_input job)) (Some (JNum (Fin 10))))"

definition check_clip :: "agent_env \<Rightarrow> json option \<Rightarrow> string + unit" where
  "check_clip env job =
     (let ft = ae_frac_text env; maxDuration = of_int (min 600 (ac_ffmpeg_max_sec (ae_config env)))
      in first_error
        [refuse_if (case clip_start ft job of Fin q \<Rightarrow> q < 0 | _ \<Rightarrow> True) ''invalid_start_sec'',
         refuse_if (case clip_duration ft job of Fin q \<Rightarrow> q \<le> 0 \<or> q > maxDuration | _ \<Rightarrow> True) ''invalid_duration_sec''])"

definition preflight_video :: "agent_env \<Rightarrow> bool option \<Rightarrow> string list \<Rightarrow> json option \<Rightarrow> string + unit" where
  "preflight_video env ffmpegHealthy allowed job =
     (if \<not> requires_video (ae_frac_text env) job then Inr ()
      else if ffmpegHealthy = Some False then Inl ''ffmpeg_unavailable''
      else let vod = or_blank (jstr (jget ''vod_url'' (job_input job)))
           in if trim vod = [] then Inl ''missing_vod_url''
              else first_error [check_url env allowed vod ''vod_url'', check_clip env job])"

definition preflightJobOrThrow :: "agent_env \<Rightarrow> bool option \<Rightarrow> string list \<Rightarrow> json option \<Rightarrow> string + unit" where
  "preflightJobOrThrow env ffmpegHealthy allowed job =
     (let ty = or_blank (jstr (jget ''type'' (job_td job))); startUrl = getStartUrlFromJob job;
          score = noLoginPreflightScore env allowed job
      in first_error
        [refuse_if (ty \<noteq> [] \<and> \<not> typeAllowedByWorkerPolicy env ty) (''task_type_blocked:'' @ ty),
         refuse_if (startUrl = []) ''missing_start_url'',
         check_url env allowed startUrl ''start_url'',
         preflight_flow env allowed (getBrowserFlowSpec job),
         preflight_video env ffmpegHealthy allowed job,
         refuse_if (agent_no_login env \<and> score \<ge> 8) (''no_login_blocked_preflight(score='' @ show_int score @ '')'')])"

end
