(* ===== verification/AgentNet.thy ===== *)
theory AgentNet
  imports Agent
begin

text \<open>
  What the worker does to the outside: a program that makes calls, reads answers and may throw. The calls
  made so far are its history; what the outside answers, and the clock, may depend on it. This theory
  holds the HTTP part of \<open>proofwork_worker.mjs\<close>: requests with checked redirects, limited reading,
  uploads, registration, the payout address and the submission. Writing the worker's own status and token
  files is taken to succeed; what it prints is left out.
\<close>

section \<open>Programs\<close>

datatype agent_call =
    ApiCall string string "json option" bool           \<comment> \<open>method, path with query, body, with the worker's token\<close>
  | ApiQuery string "(string \<times> string) list"        \<comment> \<open>GET with search parameters and the worker's token\<close>
  | WebGet string                                      \<comment> \<open>a page or API outside\<close>
  | UploadPut string "(string \<times> json) list" bool string  \<comment> \<open>url, headers, with the worker's token, bytes\<close>
  | ArtifactGet string                                 \<comment> \<open>with the worker's token\<close>
  | SubmitCall string string json                      \<comment> \<open>url, idempotency key, body\<close>
  | Command string "string list"                       \<comment> \<open>a program and its arguments\<close>
  | ReadFile string
  | WriteStatus "(string \<times> json) list"
  | StoreToken string json                             \<comment> \<open>the token file\<close>
  | LogLine string
  | BrowserReady
  | Pause int

record agent_reply =
  rp_status :: nat
  rp_location :: "string option"
  rp_content_type :: "string option"
  rp_chunks :: "string list"
  rp_text :: string

record agent_world =
  aw_send :: "agent_call list \<Rightarrow> agent_call \<Rightarrow> string + agent_reply"
  aw_command :: "agent_call list \<Rightarrow> string \<Rightarrow> string list \<Rightarrow> int \<times> string \<times> string"  \<comment> \<open>exit code, stdout, stderr\<close>
  aw_ffmpeg :: "agent_call list \<Rightarrow> string list \<Rightarrow> string + int \<times> string"  \<comment> \<open>timeout or spawn error; exit code, stderr\<close>
  aw_file :: "agent_call list \<Rightarrow> string \<Rightarrow> string + string"
  aw_is_file :: "agent_call list \<Rightarrow> string \<Rightarrow> bool"
  aw_now :: "agent_call list \<Rightarrow> int"
  aw_resolve :: "string \<Rightarrow> string \<Rightarrow> string option"  \<comment> \<open>\<open>new URL(location, base)\<close>\<close>
  aw_rebase :: "string \<Rightarrow> string \<Rightarrow> string"  \<comment> \<open>a url with the scheme, host and port of the API\<close>
  aw_query :: "string \<Rightarrow> (string \<times> string) list \<Rightarrow> string option"  \<comment> \<open>a url with search parameters\<close>
  aw_iso :: "int \<Rightarrow> string"
  aw_sha_hex :: "string \<Rightarrow> string"
  aw_date_ms :: "json \<Rightarrow> json"  \<comment> \<open>\<open>new Date(x).getTime()\<close>\<close>
  aw_pid :: int
  aw_tmp :: string  \<comment> \<open>a fresh temporary directory\<close>

type_synonym 'a act = "agent_call list \<Rightarrow> (string + 'a) \<times> agent_call list"

definition done_with :: "'a \<Rightarrow> 'a act" where
  "done_with x tr = (Inr x, tr)"

definition fail_with :: "string \<Rightarrow> 'a act" where
  "fail_with m tr = (Inl m, tr)"

definition and_then :: "'a act \<Rightarrow> ('a \<Rightarrow> 'b act) \<Rightarrow> 'b act" where
  "and_then m f tr = (case m tr of (Inl e, tr') \<Rightarrow> (Inl e, tr') | (Inr x, tr') \<Rightarrow> f x tr')"

definition next_act :: "'a act \<Rightarrow> 'b act \<Rightarrow> 'b act" where
  "next_act m n = and_then m (\<lambda>_. n)"

text \<open>\<open>try { m } catch (err) { h(err) }\<close>\<close>

definition catching :: "'a act \<Rightarrow> (string \<Rightarrow> 'a act) \<Rightarrow> 'a act" where
  "catching m h tr = (case m tr of (Inl e, tr') \<Rightarrow> h e tr' | (Inr x, tr') \<Rightarrow> (Inr x, tr'))"

text \<open>\<open>try { m } finally { n.catch(() => undefined) }\<close>\<close>

definition finally_do :: "'a act \<Rightarrow> 'b act \<Rightarrow> 'a act" where
  "finally_do m n tr = (case m tr of (r, tr') \<Rightarrow> (r, snd (n tr')))"

definition lift_result :: "string + 'a \<Rightarrow> 'a act" where
  "lift_result r tr = (r, tr)"

definition clock :: "agent_world \<Rightarrow> int act" where
  "clock w tr = (Inr (aw_now w tr), tr)"

definition guard_that :: "bool \<Rightarrow> string \<Rightarrow> unit act" where
  "guard_that ok m = (if ok then done_with () else fail_with m)"

definition send :: "agent_world \<Rightarrow> agent_call \<Rightarrow> agent_reply act" where
  "send w c tr = (aw_send w tr c, tr @ [c])"

definition read_bytes :: "agent_world \<Rightarrow> string \<Rightarrow> string act" where
  "read_bytes w path tr = (aw_file w tr path, tr @ [ReadFile path])"

definition tell :: "agent_call \<Rightarrow> unit act" where
  "tell c tr = (Inr (), tr @ [c])"

section \<open>Reading a response\<close>

text \<open>The chunks up to the limit; a chunk that crosses it is cut and ends the reading.\<close>

fun read_limited :: "nat \<Rightarrow> nat \<Rightarrow> string list \<Rightarrow> string \<times> bool" where
  "read_limited maxBytes got [] = ([], False)"
| "read_limited maxBytes got (c # cs) =
     (if got + length c > maxBytes then (take (maxBytes - got) c, True)
      else case read_limited maxBytes (got + length c) cs of (bytes, truncated) \<Rightarrow> (c @ bytes, truncated))"

definition readWebStreamLimited :: "nat \<Rightarrow> string list \<Rightarrow> string \<times> bool" where
  "readWebStreamLimited maxBytes chunks = read_limited maxBytes 0 chunks"

definition http_ok :: "agent_reply \<Rightarrow> bool" where
  "http_ok r \<longleftrightarrow> 200 \<le> rp_status r \<and> rp_status r < 300"

definition is_redirect :: "agent_reply \<Rightarrow> bool" where
  "is_redirect r \<longleftrightarrow> 300 \<le> rp_status r \<and> rp_status r < 400"

section \<open>Requests with checked redirects\<close>

text \<open>Four requests at most. In strict mode a redirect is checked before it becomes the next url, and
  again, with the login words, before it is requested.\<close>

fun follow :: "agent_env \<Rightarrow> agent_world \<Rightarrow> string list \<Rightarrow> int option \<Rightarrow> nat \<Rightarrow> nat \<Rightarrow> string \<Rightarrow> agent_reply option \<Rightarrow>
    (string \<times> agent_reply option) act" where
  "follow env w allowed deadline i 0 url resp = done_with (url, resp)"
| "follow env w allowed deadline i (Suc n) url resp =
     and_then (clock w) (\<lambda>now.
     next_act (guard_that (case deadline of None \<Rightarrow> True | Some d \<Rightarrow> now \<le> d) ''job_time_budget_exceeded'')
    (next_act (lift_result (check_url env allowed url (''http_url_'' @ show_nat i)))
    (and_then (send w (WebGet url)) (\<lambda>got.
       if \<not> is_redirect got then done_with (url, Some got)
       else if \<not> truthy (rp_location got) then done_with (url, Some got)
       else case aw_resolve w (the (rp_location got)) url of
           None \<Rightarrow> fail_with ''Invalid URL''
         | Some nxt \<Rightarrow>
             next_act (lift_result (if agent_strict env then assertUrlAllowed env allowed nxt (''http_redirect_'' @ show_nat i) else Inr []))
               (follow env w allowed deadline (Suc i) n nxt (Some got))))))"

definition fetchWithManualRedirects ::
    "agent_env \<Rightarrow> agent_world \<Rightarrow> string list \<Rightarrow> int option \<Rightarrow> string \<Rightarrow> (string \<times> agent_reply option) act" where
  "fetchWithManualRedirects env w allowed deadline url = follow env w allowed deadline 0 4 url None"

record fetched =
  fe_url :: string
  fe_status :: nat
  fe_ok :: bool
  fe_truncated :: bool
  fe_content_type :: string
  fe_json :: "json option"
  fe_text :: string

definition fetchJsonLimited :: "agent_env \<Rightarrow> agent_world \<Rightarrow> string list \<Rightarrow> int option \<Rightarrow> string \<Rightarrow> fetched act" where
  "fetchJsonLimited env w allowed deadline url =
     and_then (fetchWithManualRedirects env w allowed deadline url) (\<lambda>(finalUrl, r).
       case r of
         None \<Rightarrow> fail_with ''http_missing_response''
       | Some resp \<Rightarrow>
           let (bytes, truncated) = readWebStreamLimited (nat (ac_http_max_bytes (ae_config env))) (rp_chunks resp)
           in done_with \<lparr> fe_url = finalUrl, fe_status = rp_status resp, fe_ok = http_ok resp, fe_truncated = truncated,
                fe_content_type = or_blank (rp_content_type resp),
                fe_json = (if bytes = [] then None else ae_parse_json env bytes), fe_text = bytes \<rparr>)"

section \<open>The API\<close>

text \<open>\<open>apiFetch\<close>: status and body; a body that is not JSON becomes \<open>{ raw }\<close>.\<close>

definition api_body :: "agent_env \<Rightarrow> agent_reply \<Rightarrow> json option" where
  "api_body env r =
     (if rp_text r = [] then Some JNull
      else case ae_parse_json env (rp_text r) of
          Some j \<Rightarrow> Some j | None \<Rightarrow> Some (JObj [(''raw'', JStr (take 10000 (rp_text r)))]))"

definition apiFetch :: "agent_env \<Rightarrow> agent_world \<Rightarrow> string \<Rightarrow> string \<Rightarrow> json option \<Rightarrow> bool \<Rightarrow> (agent_reply \<times> json option) act" where
  "apiFetch env w method path body auth =
     and_then (send w (ApiCall method path body auth)) (\<lambda>r. done_with (r, api_body env r))"

definition text_of :: "agent_env \<Rightarrow> json option \<Rightarrow> string" where
  "text_of env x = text_or_blank (ae_frac_text env) x"

text \<open>The token from the environment, from the token file, or of a new registration.\<close>

definition token_file :: "agent_env \<Rightarrow> string option" where
  "token_file env = set_text (ae_env env ''PROOFWORK_WORKER_TOKEN_FILE'')"

definition stored_token :: "agent_env \<Rightarrow> string \<Rightarrow> (string \<times> string) option" where
  "stored_token env raw =
     (let j = (if raw = [] then None else ae_parse_json env raw);
          token = trim (or_blank (jstr (jget ''token'' j))); worker = trim (or_blank (jstr (jget ''workerId'' j)))
      in if token = [] then None else Some (token, if worker = [] then ''unknown'' else worker))"

definition registration_body :: "process_env \<Rightarrow> json" where
  "registration_body env =
     (let name = trim (case env ''PROOFWORK_WORKER_DISPLAY_NAME'' of Some n \<Rightarrow> n | None \<Rightarrow> or_blank (env ''WORKER_DISPLAY_NAME''))
      in JObj [(''displayName'', JStr (if name = [] then ''openclaw-universal'' else name)),
               (''capabilities'', JObj [(''openclaw'', JBool True)])])"

definition register_worker :: "agent_env \<Rightarrow> agent_world \<Rightarrow> (string \<times> string) act" where
  "register_worker env w =
     and_then (apiFetch env w ''POST'' ''/api/workers/register'' (Some (registration_body (ae_env env))) False) (\<lambda>(r, j).
       if \<not> http_ok r then fail_with (''worker_register_failed:'' @ show_nat (rp_status r))
       else let token = text_of env (jget ''token'' j) in
         if token = [] then fail_with ''worker_register_missing_token''
         else let worker = text_of env (jget ''workerId'' j) in
           case token_file env of
             None \<Rightarrow> done_with (token, worker)
           | Some path \<Rightarrow> and_then (clock w) (\<lambda>now.
               next_act (tell (StoreToken path (JObj [(''workerId'', JStr worker), (''token'', JStr token),
                      (''createdAt'', JNum (Fin (of_int now)))])))
                 (done_with (token, worker))))"

definition ensureWorkerToken :: "agent_env \<Rightarrow> agent_world \<Rightarrow> (string \<times> string) act" where
  "ensureWorkerToken env w =
     (let existing = (let a = trim (or_blank (ae_env env ''PROOFWORK_WORKER_TOKEN''))
                      in if a \<noteq> [] then a else trim (or_blank (ae_env env ''WORKER_TOKEN'')))
      in if existing \<noteq> [] then done_with (existing, ''unknown'')
         else and_then
           (case token_file env of
              None \<Rightarrow> done_with None
            | Some path \<Rightarrow> catching (and_then (read_bytes w path) (\<lambda>raw. done_with (stored_token env raw))) (\<lambda>_. done_with None))
           (\<lambda>found. case found of Some t \<Rightarrow> done_with t | None \<Rightarrow> register_worker env w))"

section \<open>Uploads\<close>

text \<open>The url of an artifact is taken to the API's host, when its path says it is one.\<close>

definition rewriteArtifactFinalUrlToApiBase :: "agent_env \<Rightarrow> agent_world \<Rightarrow> string \<Rightarrow> string" where
  "rewriteArtifactFinalUrlToApiBase env w url =
     (case ae_parse_url env url of
        Some u \<Rightarrow>
          if startsWith (u_pathname u) ''/api/artifacts/'' \<and> ae_parse_url env (ac_api_base (ae_config env)) \<noteq> None
          then aw_rebase w (ac_api_base (ae_config env)) url else url
      | None \<Rightarrow> if startsWith url ''/api/artifacts/'' then ac_api_base (ae_config env) @ url else url)"

definition scan_wait_limit :: "process_env \<Rightarrow> nat" where
  "scan_wait_limit env =
     nat (clamp_floor 30 1800 300
       (case env ''PROOFWORK_ARTIFACT_SCAN_MAX_WAIT_SEC'' of
          Some s \<Rightarrow> js_number s
        | None \<Rightarrow> (case env ''ARTIFACT_SCAN_MAX_WAIT_SEC'' of Some s \<Rightarrow> js_number s | None \<Rightarrow> Fin 300)))"

definition scan_refusal :: "agent_env \<Rightarrow> string \<Rightarrow> string" where
  "scan_refusal env text =
     (let err = jget ''error'' (if text = [] then None else ae_parse_json env text);
          reason = text_of env (coalesce (jget ''scanReason'' err) (jget ''reason'' err))
      in ''artifact_blocked'' @ (if reason = [] then [] else '':'' @ reason))"

text \<open>One request a second until the scan has decided; \<open>n\<close> counts the requests left.\<close>

fun await_scan :: "agent_env \<Rightarrow> agent_world \<Rightarrow> nat \<Rightarrow> string \<Rightarrow> unit act" where
  "await_scan env w 0 url = fail_with ''artifact_scan_timeout''"
| "await_scan env w (Suc n) url =
     and_then (send w (ArtifactGet url)) (\<lambda>r.
       let st = rp_status r in
       if st = 401 \<or> st = 403 then fail_with (''artifact_download_unauthorized:'' @ show_nat st)
       else if st = 422 then fail_with (scan_refusal env (rp_text r))
       else if st = 409 then next_act (tell (Pause 1000)) (await_scan env w n url)
       else if http_ok r \<or> is_redirect r then done_with ()
       else if st = 404 then fail_with ''artifact_not_found''
       else if st = 429 then next_act (tell (Pause 2000)) (await_scan env w n url)
       else next_act (tell (Pause 1000)) (await_scan env w n url))"

definition waitForArtifactScanned :: "agent_env \<Rightarrow> agent_world \<Rightarrow> string \<Rightarrow> unit act" where
  "waitForArtifactScanned env w finalUrl =
     await_scan env w (scan_wait_limit (ae_env env)) (rewriteArtifactFinalUrlToApiBase env w finalUrl)"

record upload_input =
  ui_jobId :: "json option"
  ui_filename :: string
  ui_contentType :: string
  ui_bytes :: string
  ui_kind :: string
  ui_label :: string

definition presign_body :: "upload_input \<Rightarrow> json" where
  "presign_body x =
     JObj (optional_field ''jobId'' (ui_jobId x) @
          [(''files'', JArr [JObj [(''filename'', JStr (ui_filename x)), (''contentType'', JStr (ui_contentType x)),
                                   (''sizeBytes'', JNum (Fin (of_nat (length (ui_bytes x)))))]])])"

definition local_upload_path :: "string \<Rightarrow> bool" where
  "local_upload_path p \<longleftrightarrow> startsWith p ''/api/uploads/local/'' \<or> startsWith p ''/api/verifier/uploads/local/''"

definition put_url :: "agent_env \<Rightarrow> agent_world \<Rightarrow> string \<Rightarrow> string" where
  "put_url env w url =
     (case ae_parse_url env url of
        Some u \<Rightarrow>
          if local_upload_path (u_pathname u) \<and> ae_parse_url env (ac_api_base (ae_config env)) \<noteq> None
          then aw_rebase w (ac_api_base (ae_config env)) url else url
      | None \<Rightarrow> url)"

definition put_with_token :: "agent_env \<Rightarrow> string \<Rightarrow> bool" where
  "put_with_token env url \<longleftrightarrow>
     str_includes url ''/api/uploads/local/'' \<or> str_includes url ''/api/verifier/uploads/local/'' \<or>
     startsWith url (ac_api_base (ae_config env) @ ''/'')"

definition first_upload :: "json option \<Rightarrow> json option" where
  "first_upload j = (case jarray (jget ''uploads'' j) of Some (u # _) \<Rightarrow> Some u | _ \<Rightarrow> None)"

definition uploaded_ref :: "agent_world \<Rightarrow> json option \<Rightarrow> upload_input \<Rightarrow> json" where
  "uploaded_ref w up x =
     JObj [(''kind'', JStr (ui_kind x)), (''label'', JStr (ui_label x)), (''sha256'', JStr (aw_sha_hex w (ui_bytes x))),
           (''url'', the (jget ''finalUrl'' up)), (''sizeBytes'', JNum (Fin (of_nat (length (ui_bytes x))))),
           (''contentType'', JStr (ui_contentType x))]"

definition uploadArtifact :: "agent_env \<Rightarrow> agent_world \<Rightarrow> upload_input \<Rightarrow> json act" where
  "uploadArtifact env w x =
     next_act (guard_that (case ac_artifact_max_bytes (ae_config env) of None \<Rightarrow> True | Some m \<Rightarrow> int (length (ui_bytes x)) \<le> m)
        (''artifact_too_large:'' @ show_nat (length (ui_bytes x))))
    (and_then (apiFetch env w ''POST'' ''/api/uploads/presign'' (Some (presign_body x)) True) (\<lambda>(r, j).
       if \<not> http_ok r then fail_with (''presign_failed:'' @ show_nat (rp_status r) @ '':'' @ text_of env (jget ''code'' (jget ''error'' j)))
       else let up = first_upload j in
         if \<not> (json_truthy (jget ''url'' up) \<and> json_truthy (jget ''artifactId'' up) \<and> json_truthy (jget ''finalUrl'' up))
         then fail_with ''presign_missing_fields''
         else let url = put_url env w (json_text (ae_frac_text env) (the (jget ''url'' up))) in
           and_then (send w (UploadPut url (obj_fields (jget ''headers'' up)) (put_with_token env url) (ui_bytes x))) (\<lambda>put.
             if \<not> http_ok put then fail_with (''upload_put_failed:'' @ show_nat (rp_status put))
             else and_then (apiFetch env w ''POST'' ''/api/uploads/complete''
                 (Some (JObj [(''artifactId'', the (jget ''artifactId'' up)), (''sha256'', JStr (aw_sha_hex w (ui_bytes x))),
                              (''sizeBytes'', JNum (Fin (of_nat (length (ui_bytes x)))))])) True) (\<lambda>(c, _).
               if \<not> http_ok c then fail_with (''upload_complete_failed:'' @ show_nat (rp_status c))
               else next_act (waitForArtifactScanned env w (json_text (ae_frac_text env) (the (jget ''finalUrl'' up))))
                      (done_with (uploaded_ref w up x))))))"

section \<open>HTTP tasks\<close>

definition newline :: string where
  "newline = [char_of (10 :: nat)]"

definition http_report :: "string \<Rightarrow> string \<Rightarrow> agent_reply \<Rightarrow> string \<Rightarrow> bool \<Rightarrow> string" where
  "http_report url finalUrl resp bytes truncated =
     ''url: '' @ url @ newline @ ''final_url: '' @ finalUrl @ newline @ ''status: '' @ show_nat (rp_status resp) @ newline @
     ''content_type: '' @ or_blank (rp_content_type resp) @ newline @ ''bytes: '' @ show_nat (length bytes) @ newline @
     ''truncated: '' @ (if truncated then ''true'' else ''false'') @ newline @ newline @ take 20000 bytes @ newline"

definition runHttpModule :: "agent_env \<Rightarrow> agent_world \<Rightarrow> string list \<Rightarrow> int option \<Rightarrow> json option \<Rightarrow> json option act" where
  "runHttpModule env w allowed deadline job =
     (if \<not> truthy (jstr (jget ''url'' (job_input job))) then done_with None
      else let url = the (jstr (jget ''url'' (job_input job))) in
        and_then (fetchWithManualRedirects env w allowed deadline url) (\<lambda>(finalUrl, r).
          case r of
            None \<Rightarrow> fail_with ''http_missing_response''
          | Some resp \<Rightarrow>
              let (bytes, truncated) = readWebStreamLimited (nat (ac_http_max_bytes (ae_config env))) (rp_chunks resp) in
              and_then (uploadArtifact env w \<lparr> ui_jobId = jget ''jobId'' job, ui_filename = ''http_response.log'',
                  ui_contentType = ''text/plain'', ui_bytes = http_report url finalUrl resp bytes truncated, ui_kind = ''log'',
                  ui_label = ''report_http'' \<rparr>) (\<lambda>a. done_with (Some a))))"

section \<open>Submitting\<close>

text \<open>The manifest is the same for every task, whatever was done.\<close>

definition agent_manifest :: "string \<Rightarrow> json option \<Rightarrow> json list \<Rightarrow> json" where
  "agent_manifest workerId job arts =
     JObj ([(''manifestVersion'', JStr ''1.0'')] @ optional_field ''jobId'' (jget ''jobId'' job) @
       optional_field ''bountyId'' (jget ''bountyId'' job) @
       (if getStartUrlFromJob job = [] then [] else [(''finalUrl'', JStr (getStartUrlFromJob job))]) @
       [(''worker'', JObj [(''workerId'', JStr workerId), (''skillVersion'', JStr ''openclaw-proofwork-universal-worker/0.1''),
           (''fingerprint'', JObj (optional_field ''fingerprintClass'' (jget ''fingerprintClass'' (jget ''environment'' job))))]),
        (''result'', JObj [(''outcome'', JStr ''failure''), (''failureType'', JStr ''other''), (''severity'', JStr ''low''),
           (''expected'', JStr ''task completed and artifacts uploaded''),
           (''observed'', JStr ''task completed and artifacts uploaded''), (''reproConfidence'', JStr ''high'')]),
        (''reproSteps'', JArr (map JStr [''execute universal worker modules'', ''upload artifacts'', ''submit proof pack''])),
        (''artifacts'', JArr arts)])"

text \<open>\<open>${job.jobId}\<close>\<close>

definition job_id_text :: "agent_env \<Rightarrow> json option \<Rightarrow> string" where
  "job_id_text env job = (case jget ''jobId'' job of None \<Rightarrow> ''undefined'' | Some j \<Rightarrow> json_text (ae_frac_text env) j)"

definition submitJob :: "agent_env \<Rightarrow> agent_world \<Rightarrow> string \<Rightarrow> json option \<Rightarrow> json list \<Rightarrow> json option act" where
  "submitJob env w workerId job arts =
     and_then (clock w) (\<lambda>now.
       let jobId = job_id_text env job;
           url = ac_api_base (ae_config env) @ ''/api/jobs/'' @ encodeURIComponent jobId @ ''/submit''
       in and_then (send w (SubmitCall url (''submit:'' @ jobId @ '':'' @ show_int now)
              (JObj [(''manifest'', agent_manifest workerId job arts), (''artifactIndex'', JArr arts)]))) (\<lambda>r.
            case (if rp_text r = [] then Some JNull else ae_parse_json env (rp_text r)) of
              None \<Rightarrow> fail_with ''Unexpected token''
            | Some j \<Rightarrow>
                if http_ok r then done_with (Some j)
                else fail_with (''submit_failed:'' @ show_nat (rp_status r) @ '':'' @
                  text_of env (jget ''code'' (jget ''error'' (Some j))) @ '':'' @
                  take 200 (text_of env (jget ''message'' (jget ''error'' (Some j)))))))"

fun pollUntilDone :: "agent_env \<Rightarrow> agent_world \<Rightarrow> nat \<Rightarrow> string \<Rightarrow> unit act" where
  "pollUntilDone env w 0 jobId = done_with ()"
| "pollUntilDone env w (Suc n) jobId =
     and_then (apiFetch env w ''GET'' (''/api/jobs/'' @ encodeURIComponent jobId) None True) (\<lambda>(r, j).
       if \<not> http_ok r then done_with ()
       else if jget ''status'' j = Some (JStr ''done'') then done_with ()
       else next_act (tell (Pause 1000)) (pollUntilDone env w n jobId))"

text \<open>Errors of the release are ignored.\<close>

definition releaseLeaseEarly :: "agent_env \<Rightarrow> agent_world \<Rightarrow> string \<Rightarrow> string \<Rightarrow> string \<Rightarrow> unit act" where
  "releaseLeaseEarly env w jobId leaseNonce reason =
     (if jobId = [] \<or> leaseNonce = [] then done_with ()
      else catching (and_then (apiFetch env w ''POST'' (''/api/jobs/'' @ encodeURIComponent jobId @ ''/release'')
             (Some (JObj [(''leaseNonce'', JStr leaseNonce), (''reason'', JStr reason)])) True) (\<lambda>_. done_with ()))
           (\<lambda>_. done_with ()))"

section \<open>The payout address\<close>

definition payout_status_json :: "(string \<times> json) list \<Rightarrow> agent_call" where
  "payout_status_json fs = WriteStatus [(''payout'', JObj fs)]"

definition payout_configured :: "agent_env \<Rightarrow> agent_reply \<Rightarrow> json option \<Rightarrow> bool" where
  "payout_configured env r j \<longleftrightarrow>
     http_ok r \<and> trim (text_of env (jget ''address'' (jget ''payout'' j))) \<noteq> [] \<and> json_truthy (jget ''verifiedAt'' (jget ''payout'' j))"

definition maybeConfigurePayoutAddress :: "agent_env \<Rightarrow> agent_world \<Rightarrow> unit act" where
  "maybeConfigurePayoutAddress env w =
     (let address = trim (or_blank (ae_env env ''PROOFWORK_PAYOUT_ADDRESS''));
          chain0 = trim (case ae_env env ''PROOFWORK_PAYOUT_CHAIN'' of None \<Rightarrow> ''base'' | Some c \<Rightarrow> c);
          chain = (if chain0 = [] then ''base'' else chain0);
          signature = trim (or_blank (ae_env env ''PROOFWORK_PAYOUT_SIGNATURE''));
          given = [(''configured'', JBool False), (''chain'', JStr chain), (''address'', JStr address)];
          set_address =
            catching
              (and_then (apiFetch env w ''POST'' ''/api/worker/payout-address''
                 (Some (JObj [(''chain'', JStr chain), (''address'', JStr address), (''signature'', JStr signature)])) True) (\<lambda>(r, j).
                 if \<not> http_ok r
                 then tell (payout_status_json (given @ [(''lastError'', JStr (''set_failed:'' @ show_nat (rp_status r)))]))
                 else tell (payout_status_json [(''configured'', JBool True), (''chain'', the (coalesce (jget ''chain'' j) (Some (JStr chain)))),
                        (''address'', the (coalesce (jget ''address'' j) (Some (JStr address))))])))
              (\<lambda>m. tell (payout_status_json (given @ [(''lastError'', JStr m)])));
          ask_signature =
            next_act (catching (and_then (apiFetch env w ''POST'' ''/api/worker/payout-address/message''
                (Some (JObj [(''chain'', JStr chain), (''address'', JStr address)])) True) (\<lambda>_. done_with ())) (\<lambda>_. done_with ()))
              (tell (payout_status_json (given @ [(''missingSignature'', JBool True)])))
      in if address = [] then done_with ()
         else and_then
           (catching (and_then (apiFetch env w ''GET'' ''/api/worker/me'' None True) (\<lambda>(r, j).
               if payout_configured env r j
               then next_act (tell (payout_status_json [(''configured'', JBool True),
                      (''chain'', the (coalesce (jget ''chain'' (jget ''payout'' j)) (Some JNull))),
                      (''address'', JStr (trim (text_of env (jget ''address'' (jget ''payout'' j))))),
                      (''verifiedAt'', the (jget ''verifiedAt'' (jget ''payout'' j)))])) (done_with True)
               else done_with False)) (\<lambda>_. done_with False))
           (\<lambda>configured. if configured then done_with () else if signature = [] then ask_signature else set_address))"

end
