(* ===== verification/AgentBrowser.thy ===== *)
theory AgentBrowser
  imports AgentNet
begin

text \<open>
  The browser part of \<open>proofwork_worker.mjs\<close>: the command line of the browser, the snapshot it takes to
  find elements, and the modules that run a task in it: the browser script of a descriptor step by step,
  the screenshot, the snapshot and the marketplace page. The marks \<open>LogLine\<close> and \<open>BrowserReady\<close> of the
  history stand for the module's own variables.
\<close>

section \<open>The command line\<close>

definition openclaw_bin :: "process_env \<Rightarrow> string" where
  "openclaw_bin env = (case set_text (env ''OPENCLAW_BIN'') of None \<Rightarrow> ''openclaw'' | Some b \<Rightarrow> b)"

definition flag_option :: "string list \<Rightarrow> string \<Rightarrow> string option \<Rightarrow> string list" where
  "flag_option rest flag v = (case v of None \<Rightarrow> [] | Some x \<Rightarrow> if flag \<in> set rest then [] else [flag, x])"

definition openclaw_args :: "process_env \<Rightarrow> string list \<Rightarrow> string list" where
  "openclaw_args env args =
     (case args of
        a # rest \<Rightarrow>
          if a \<noteq> ''browser'' then args
          else let url = set_text (env ''OPENCLAW_GATEWAY_URL'') in
            [''browser''] @ flag_option rest ''--url'' url @
            (if url = None then [] else flag_option rest ''--token'' (set_text (env ''OPENCLAW_GATEWAY_TOKEN''))) @
            flag_option rest ''--browser-profile'' (set_text (env ''OPENCLAW_BROWSER_PROFILE'')) @ rest
      | [] \<Rightarrow> [])"

definition run_command :: "agent_world \<Rightarrow> string \<Rightarrow> string list \<Rightarrow> (int \<times> string \<times> string) act" where
  "run_command w bin args tr = (Inr (aw_command w tr bin args), tr @ [Command bin args])"

definition runOpenClaw :: "agent_env \<Rightarrow> agent_world \<Rightarrow> string list \<Rightarrow> string act" where
  "runOpenClaw env w args =
     and_then (run_command w (openclaw_bin (ae_env env)) (openclaw_args (ae_env env) args)) (\<lambda>(code, out, err).
       if code \<noteq> 0 then fail_with (''openclaw_failed:'' @ show_int code @ '':'' @ take 300 err) else done_with out)"

text \<open>The answer as JSON, or its part between the first opening and the last closing bracket.\<close>

definition parseJsonFromStdout :: "agent_env \<Rightarrow> string \<Rightarrow> string + json" where
  "parseJsonFromStdout env stdout =
     (let s = trim stdout in
      if s = [] then Inr JNull
      else case ae_parse_json env s of
          Some j \<Rightarrow> Inr j
        | None \<Rightarrow>
            let open = (\<lambda>c. c = CHR ''{'' \<or> c = CHR ''[''); shut = (\<lambda>c. c = CHR ''}'' \<or> c = CHR '']'');
                start = length (takeWhile (\<lambda>c. \<not> open c) s);
                slice = rev (dropWhile (\<lambda>c. \<not> shut c) (rev (drop start s)))
            in if start = length s \<or> length slice < 2 then Inl ''json_parse_failed''
               else (case ae_parse_json env slice of None \<Rightarrow> Inl ''Unexpected token'' | Some j \<Rightarrow> Inr j))"

definition openclaw_json :: "agent_env \<Rightarrow> agent_world \<Rightarrow> string list \<Rightarrow> json act" where
  "openclaw_json env w args = and_then (runOpenClaw env w args) (\<lambda>out. lift_result (parseJsonFromStdout env out))"

definition ensureOpenClawBrowserReady :: "agent_env \<Rightarrow> agent_world \<Rightarrow> unit act" where
  "ensureOpenClawBrowserReady env w tr =
     (case ac_browser_profile (ae_config env) of
        None \<Rightarrow> (Inr (), tr)
      | Some profile \<Rightarrow>
          if BrowserReady \<in> set tr then (Inr (), tr)
          else (next_act (catching (and_then (runOpenClaw env w [''browser'', ''create-profile'', ''--name'', profile, ''--json'']) (\<lambda>_. done_with ()))
                  (\<lambda>_. done_with ()))
               (next_act (catching (and_then (runOpenClaw env w [''browser'', ''start'', ''--json'']) (\<lambda>_. done_with ()))
                  (\<lambda>m. fail_with (''openclaw_browser_start_failed:'' @ take 300 m)))
               (tell BrowserReady))) tr)"

section \<open>Finding an element\<close>

definition strip_cr :: "string \<Rightarrow> string" where
  "strip_cr s = (if endsWith s [CHR 0x0D] then butlast s else s)"

definition text_lines :: "string \<Rightarrow> string list" where
  "text_lines s = (let ls = split_on CHR 0x0A s in map strip_cr (butlast ls) @ [last ls])"

text \<open>\<open>/\[ref=([^\]]+)\]/i\<close>\<close>

fun ref_of :: "string \<Rightarrow> string option" where
  "ref_of [] = None"
| "ref_of (c # s) =
     (let r = takeWhile (\<lambda>d. d \<noteq> CHR '']'') (drop 4 s)
      in if toLowerCase (c # take 4 s) = ''[ref='' \<and> r \<noteq> [] \<and> drop (4 + length r) s \<noteq> [] then Some r else ref_of s)"

definition trimmed_field :: "string \<Rightarrow> json option \<Rightarrow> string" where
  "trimmed_field k x = trim (or_blank (jstr (jget k x)))"

definition line_matches :: "json option \<Rightarrow> string \<Rightarrow> bool" where
  "line_matches step line \<longleftrightarrow>
     (let role = toLowerCase (trimmed_field ''role'' step); name = trimmed_field ''name'' step; text = trimmed_field ''text'' step
      in str_includes line ''[ref='' \<and>
         (role \<noteq> [] \<longrightarrow> str_includes (toLowerCase line) (''- '' @ role)) \<and>
         (name \<noteq> [] \<longrightarrow> str_includes line ([CHR 0x22] @ name @ [CHR 0x22])) \<and>
         (text \<noteq> [] \<longrightarrow> str_includes (toLowerCase line) (toLowerCase text)))"

definition findRefInRoleSnapshot :: "string \<Rightarrow> json option \<Rightarrow> string option" where
  "findRefInRoleSnapshot snapshot step =
     (case List.map_filter (\<lambda>l. if line_matches step l then ref_of l else None) (text_lines snapshot) of
        [] \<Rightarrow> None | r # _ \<Rightarrow> Some (trim r))"

definition resolveRefViaSnapshot :: "agent_env \<Rightarrow> agent_world \<Rightarrow> string \<Rightarrow> json option \<Rightarrow> string option act" where
  "resolveRefViaSnapshot env w target step =
     (let outPath = aw_tmp w @ ''/snapshot.role.txt'' in
      and_then (openclaw_json env w [''browser'', ''snapshot'', ''--interactive'', ''--compact'', ''--depth'', ''6'',
          ''--target-id'', target, ''--out'', outPath, ''--json'']) (\<lambda>j.
        let out = trim (text_of env (coalesce (jget ''out'' (Some j)) (Some (JStr outPath)))) in
        and_then (read_bytes w (if out = [] then outPath else out)) (\<lambda>text.
          done_with (findRefInRoleSnapshot text step))))"

definition step_ref :: "agent_env \<Rightarrow> agent_world \<Rightarrow> string \<Rightarrow> json option \<Rightarrow> string act" where
  "step_ref env w target step =
     (let explicit = trimmed_field ''ref'' step in
      and_then (if explicit \<noteq> [] then done_with (Some explicit) else resolveRefViaSnapshot env w target step) (\<lambda>r.
        if truthy r then done_with (the r) else fail_with ''ref_not_found''))"

section \<open>The page stays where it may be\<close>

definition enforcePagePolicy :: "agent_env \<Rightarrow> agent_world \<Rightarrow> string list \<Rightarrow> string \<Rightarrow> string \<Rightarrow> unit act" where
  "enforcePagePolicy env w allowed target what =
     and_then (openclaw_json env w [''browser'', ''evaluate'', ''--fn'', ''() => location.href'', ''--target-id'', target, ''--json'']) (\<lambda>j.
       let href = or_blank (jstr (jget ''result'' (Some j))) in
       if href = [] then done_with ()
       else next_act (lift_result (assertUrlAllowed env allowed href what))
              (guard_that (\<not> (agent_no_login env \<and> looksLikeLoginText href)) (''no_login_blocked_url:'' @ href)))"

definition module_start_url :: "agent_env \<Rightarrow> json option \<Rightarrow> string" where
  "module_start_url env job =
     (case jstr (jget ''url'' (job_input job)) of
        Some u \<Rightarrow> if u \<noteq> [] then u else text_of env (start_journey job)
      | None \<Rightarrow> text_of env (start_journey job))"

definition in_time :: "agent_world \<Rightarrow> int \<Rightarrow> unit act" where
  "in_time w deadline = and_then (clock w) (\<lambda>now. guard_that (now \<le> deadline) ''job_time_budget_exceeded'')"

definition open_page :: "agent_env \<Rightarrow> agent_world \<Rightarrow> string list \<Rightarrow> int \<Rightarrow> string \<Rightarrow> string act" where
  "open_page env w allowed deadline startUrl =
     next_act (in_time w deadline)
    (next_act (lift_result (check_url env allowed startUrl ''start_url''))
    (and_then (openclaw_json env w [''browser'', ''open'', startUrl, ''--json'']) (\<lambda>j.
       let target = trim (text_of env (jget ''targetId'' (Some j))) in
       if target = [] then fail_with ''openclaw_browser_open_missing_target_id'' else done_with target)))"

definition close_page :: "agent_env \<Rightarrow> agent_world \<Rightarrow> string \<Rightarrow> string act" where
  "close_page env w target = runOpenClaw env w [''browser'', ''close'', target]"

section \<open>Screenshots\<close>

definition detectPngOrJpeg :: "string \<Rightarrow> (string \<times> string) option" where
  "detectPngOrJpeg bytes =
     (if take 8 bytes = map char_of [0x89, 0x50, 0x4E, 0x47, 0x0D, 0x0A, 0x1A, 0x0A :: nat] then Some (''image/png'', ''png'')
      else if take 3 bytes = map char_of [0xFF, 0xD8, 0xFF :: nat] then Some (''image/jpeg'', ''jpg'')
      else None)"

text \<open>\<open>/\bMEDIA:([^\s]+)\s*$/m\<close>; \<open>before\<close> is whether a word ends before the text.\<close>

definition word_char :: "char \<Rightarrow> bool" where
  "word_char c \<longleftrightarrow> is_lower c \<or> is_upper c \<or> is_digit c \<or> c = CHR ''_''"

definition rest_of_line_blank :: "string \<Rightarrow> bool" where
  "rest_of_line_blank s \<longleftrightarrow> list_all is_space (takeWhile (\<lambda>c. c \<noteq> CHR 0x0A \<and> c \<noteq> CHR 0x0D) s)"

fun media_path :: "bool \<Rightarrow> string \<Rightarrow> string option" where
  "media_path before [] = None"
| "media_path before (c # s) =
     (let run = takeWhile (\<lambda>d. \<not> is_space d) (drop 5 s)
      in if \<not> before \<and> c # take 5 s = ''MEDIA:'' \<and> run \<noteq> [] \<and> rest_of_line_blank (drop (5 + length run) s)
         then Some run else media_path (word_char c) s)"

definition upload_screenshot :: "agent_env \<Rightarrow> agent_world \<Rightarrow> json option \<Rightarrow> string \<Rightarrow> string \<Rightarrow> string \<Rightarrow> json act" where
  "upload_screenshot env w job path stem label =
     (if path = [] then fail_with ''openclaw_browser_screenshot_missing_path''
      else and_then (read_bytes w path) (\<lambda>bytes.
        case detectPngOrJpeg bytes of
          None \<Rightarrow> fail_with ''screenshot_unknown_format''
        | Some (contentType, ext) \<Rightarrow>
            uploadArtifact env w \<lparr> ui_jobId = jget ''jobId'' job, ui_filename = stem @ ''.'' @ ext,
              ui_contentType = contentType, ui_bytes = bytes, ui_kind = ''screenshot'', ui_label = label \<rparr>))"

definition flow_screenshot :: "agent_env \<Rightarrow> agent_world \<Rightarrow> json option \<Rightarrow> string \<Rightarrow> bool \<Rightarrow> string \<Rightarrow> string \<Rightarrow> json act" where
  "flow_screenshot env w job target fullPage stem label =
     and_then (runOpenClaw env w ([''browser'', ''screenshot''] @ (if fullPage then [''--full-page''] else []) @
         [''--type'', ''png'', target, ''--json''])) (\<lambda>out.
       let fromJson = (case parseJsonFromStdout env out of Inl _ \<Rightarrow> [] | Inr j \<Rightarrow> or_blank (jstr (jget ''path'' (Some j))));
           path = trim (if fromJson \<noteq> [] then fromJson else or_blank (media_path False out))
       in upload_screenshot env w job path stem label)"

definition page_screenshot :: "agent_env \<Rightarrow> agent_world \<Rightarrow> json option \<Rightarrow> string \<Rightarrow> json act" where
  "page_screenshot env w job target =
     and_then (openclaw_json env w [''browser'', ''screenshot'', target, ''--full-page'', ''--type'', ''png'', ''--json'']) (\<lambda>j.
       upload_screenshot env w job (trim (text_of env (jget ''path'' (Some j)))) ''screenshot'' ''openclaw_screenshot'')"

definition runOpenClawScreenshotModule :: "agent_env \<Rightarrow> agent_world \<Rightarrow> string list \<Rightarrow> int \<Rightarrow> json option \<Rightarrow> json act" where
  "runOpenClawScreenshotModule env w allowed deadline job =
     (let startUrl = module_start_url env job in
      if startUrl = [] then fail_with ''missing_start_url''
      else next_act (ensureOpenClawBrowserReady env w)
        (and_then (open_page env w allowed deadline startUrl) (\<lambda>target.
          finally_do (next_act (enforcePagePolicy env w allowed target ''after_open'') (page_screenshot env w job target))
            (close_page env w target))))"

definition runOpenClawSnapshotModule :: "agent_env \<Rightarrow> agent_world \<Rightarrow> string list \<Rightarrow> int \<Rightarrow> json option \<Rightarrow> json option act" where
  "runOpenClawSnapshotModule env w allowed deadline job =
     (let startUrl = module_start_url env job; outPath = aw_tmp w @ ''/snapshot.ai.txt'' in
      if startUrl = [] then done_with None
      else next_act (ensureOpenClawBrowserReady env w)
        (next_act (in_time w deadline)
        (next_act (lift_result (check_url env allowed startUrl ''start_url''))
        (and_then (openclaw_json env w [''browser'', ''open'', startUrl, ''--json'']) (\<lambda>j.
          let target = trim (text_of env (jget ''targetId'' (Some j))) in
          if target = [] then done_with None
          else finally_do
            (next_act (enforcePagePolicy env w allowed target ''after_open'')
              (and_then (openclaw_json env w [''browser'', ''snapshot'', ''--format'', ''ai'', ''--target-id'', target, ''--out'', outPath, ''--json'']) (\<lambda>k.
                let out = trim (text_of env (coalesce (jget ''out'' (Some k)) (Some (JStr outPath)))) in
                and_then (read_bytes w (if out = [] then outPath else out)) (\<lambda>bytes.
                and_then (uploadArtifact env w \<lparr> ui_jobId = jget ''jobId'' job, ui_filename = ''snapshot.ai.txt'',
                    ui_contentType = ''text/plain'', ui_bytes = bytes, ui_kind = ''snapshot'', ui_label = ''openclaw_snapshot_ai'' \<rparr>)
                  (\<lambda>a. done_with (Some a))))))
            (close_page env w target))))))"

end
