(* ===== verification/AgentFlow.thy ===== *)
theory AgentFlow
  imports AgentBrowser
begin

text \<open>
  The browser script of a task descriptor, run step by step (\<open>runOpenClawBrowserFlowModule\<close> of
  \<open>proofwork_worker.mjs\<close>). The script is not trusted: every url a step names is checked before it is
  opened, and the page is checked after every step that can move it. Violations end the script even when
  it asks to continue after errors.
\<close>

section \<open>Text of values with indentation\<close>

text \<open>\<open>JSON.stringify(x, null, 2)\<close>; \<open>d\<close> is the indentation so far.\<close>

definition spaces :: "nat \<Rightarrow> string" where
  "spaces n = replicate n CHR '' ''"

fun json_pretty :: "(rat \<Rightarrow> string) \<Rightarrow> nat \<Rightarrow> json \<Rightarrow> string" where
  "json_pretty ft d (JArr xs) =
     (if xs = [] then ''[]''
      else ''['' @ newline @ join ('','' @ newline) (map (\<lambda>x. spaces (d + 2) @ json_pretty ft (d + 2) x) xs) @ newline @ spaces d @ '']'')"
| "json_pretty ft d (JObj fs) =
     (if fs = [] then ''{}''
      else ''{'' @ newline @
        join ('','' @ newline) (map (\<lambda>kv. spaces (d + 2) @ json_quote (fst kv) @ '': '' @ json_pretty ft (d + 2) (snd kv)) fs) @
        newline @ spaces d @ ''}'')"
| "json_pretty ft d x = json_stringify ft x"

section \<open>One step\<close>

type_synonym flow_result = "(string \<times> json) list \<times> json list"  \<comment> \<open>what was extracted, and the artifacts\<close>

definition normalizeTimeoutMs :: "agent_env \<Rightarrow> json option \<Rightarrow> int \<Rightarrow> int" where
  "normalizeTimeoutMs env step fallback =
     clamp_floor 250 60000 fallback
       (json_number (ae_frac_text env) (coalesce (jget ''timeout_ms'' step)
          (coalesce (jget ''timeoutMs'' step) (Some (JNum (Fin (of_int fallback)))))))"

text \<open>\<open>Math.max(0, Math.min(60_000, Number(step.ms)))\<close>\<close>

definition wait_ms :: "agent_env \<Rightarrow> json option \<Rightarrow> jsnum" where
  "wait_ms env ms =
     (case json_number (ae_frac_text env) ms of
        NaN \<Rightarrow> NaN | Infinity pos \<Rightarrow> Fin (if pos then 60000 else 0) | Fin q \<Rightarrow> Fin (max 0 (min 60000 q)))"

definition is_number_or_string :: "json option \<Rightarrow> bool" where
  "is_number_or_string x = (case x of Some (JNum _) \<Rightarrow> True | Some (JStr _) \<Rightarrow> True | _ \<Rightarrow> False)"

text \<open>The log line of a wait and the arguments it hands to the browser, after the check of a url.\<close>

definition wait_args :: "agent_env \<Rightarrow> string list \<Rightarrow> nat \<Rightarrow> json option \<Rightarrow> string + string \<times> string list" where
  "wait_args env allowed i step =
     (let t = [''--timeout-ms'', show_int (normalizeTimeoutMs env step 20000)];
          ms = number_text (ae_frac_text env) (wait_ms env (jget ''ms'' step));
          field = (\<lambda>k. or_blank (jstr (jget k step)))
      in if is_number_or_string (jget ''ms'' step) then Inr (''wait ms='' @ ms, [''--time'', ms] @ t)
         else if field ''selector'' \<noteq> [] then Inr (''wait selector='' @ field ''selector'', field ''selector'' # t)
         else if field ''text'' \<noteq> [] then Inr (''wait text='' @ field ''text'', [''--text'', field ''text''] @ t)
         else if field ''url'' \<noteq> []
         then (case check_url env allowed (field ''url'') (''step_'' @ show_nat i @ ''_wait_url'') of
                 Inl e \<Rightarrow> Inl e | Inr _ \<Rightarrow> Inr (''wait url='' @ field ''url'', [''--url'', field ''url''] @ t))
         else Inr (''wait default'', [''--time'', ''250''] @ t))"

definition extract_fn :: "string \<Rightarrow> json option \<Rightarrow> string + string" where
  "extract_fn kind step =
     (let attr = trimmed_field ''attribute'' step in
      if kind = ''value'' then Inr ''(el) => (typeof el?.value === \"string\" ? el.value : null)''
      else if kind = ''html'' then Inr ''(el) => el?.innerHTML ?? \"\"''
      else if kind = ''attribute''
      then (if extract_attribute attr then Inr (''(el) => el?.getAttribute?.('' @ json_quote attr @ '') ?? null'')
            else Inl ''invalid_extract_attribute'')
      else Inr ''(el) => el?.textContent ?? \"\"'')"

definition cut_result :: "json option \<Rightarrow> json" where
  "cut_result r = (case r of None \<Rightarrow> JNull | Some (JStr s) \<Rightarrow> JStr (take 20000 s) | Some j \<Rightarrow> j)"

abbreviation log_step :: "nat \<Rightarrow> string \<Rightarrow> unit act" where
  "log_step i m \<equiv> tell (LogLine (''step '' @ show_nat i @ '': '' @ m))"

definition browser_do :: "agent_env \<Rightarrow> agent_world \<Rightarrow> string list \<Rightarrow> unit act" where
  "browser_do env w args = and_then (runOpenClaw env w args) (\<lambda>_. done_with ())"

definition run_step ::
    "agent_env \<Rightarrow> agent_world \<Rightarrow> string list \<Rightarrow> int \<Rightarrow> json option \<Rightarrow> string \<Rightarrow> string \<Rightarrow> nat \<Rightarrow> string \<Rightarrow> json option \<Rightarrow> flow_result \<Rightarrow>
     flow_result act" where
  "run_step env w allowed deadline job startUrl target i op step acc =
     (let field = (\<lambda>k. or_blank (jstr (jget k step)));
          page = (\<lambda>what. enforcePagePolicy env w allowed target (what @ show_nat i));
          unchanged = (\<lambda>m. next_act m (done_with acc))
      in next_act (in_time w deadline)
       (if op = ''goto'' \<or> op = ''navigate'' then
          let url = (if field ''url'' \<noteq> [] then field ''url'' else startUrl) in
          unchanged (next_act (lift_result (check_url env allowed url (''step_'' @ show_nat i @ ''_url'')))
            (next_act (log_step i (op @ '' url='' @ url))
            (next_act (browser_do env w [''browser'', ''navigate'', url, ''--target-id'', target, ''--json''])
              (page (''after_'' @ op @ ''_'')))))
        else if op = ''wait'' then
          unchanged (and_then (lift_result (wait_args env allowed i step)) (\<lambda>(line, args).
            next_act (log_step i line)
            (next_act (browser_do env w ([''browser'', ''wait''] @ args @ [''--target-id'', target, ''--json'']))
              (page ''after_wait_''))))
        else if op = ''click'' then
          unchanged (and_then (step_ref env w target step) (\<lambda>ref.
            next_act (log_step i (''click ref='' @ ref))
            (next_act (browser_do env w [''browser'', ''click'', ref, ''--target-id'', target, ''--json''])
              (page ''after_click_''))))
        else if op = ''fill'' \<or> op = ''type'' then
          unchanged (and_then (step_ref env w target step) (\<lambda>ref.
            and_then (lift_result (pickFillValue env step)) (\<lambda>val.
            next_act (log_step i (op @ '' ref='' @ ref @ '' value='' @ redactStepValue step))
              (browser_do env w [''browser'', ''type'', ref, val, ''--target-id'', target, ''--json'']))))
        else if op = ''press'' then
          let key = (if field ''key'' \<noteq> [] then field ''key'' else ''Enter'') in
          unchanged (next_act (log_step i (''press key='' @ key))
            (next_act (browser_do env w [''browser'', ''press'', key, ''--target-id'', target, ''--json'']) (page ''after_press_'')))
        else if op = ''screenshot'' then
          let fullPage = (jget ''full_page'' step = Some (JBool True) \<or> jget ''fullPage'' step = Some (JBool True));
              label = (if field ''label'' \<noteq> [] then field ''label'' else ''flow_screenshot_'' @ show_nat i) in
          next_act (log_step i (''screenshot label='' @ label @ '' fullPage='' @ (if fullPage then ''true'' else ''false'')))
            (and_then (flow_screenshot env w job target fullPage label label) (\<lambda>a. done_with (fst acc, snd acc @ [a])))
        else if op = ''extract'' then
          let key = (if field ''key'' \<noteq> [] then field ''key'' else ''extract_'' @ show_nat i) in
          and_then (step_ref env w target step) (\<lambda>ref.
          next_act (guard_that (trim (field ''fn'') = []) ''extract_fn_forbidden'')
         (and_then (lift_result (extract_fn (step_kind (ae_frac_text env) step) step)) (\<lambda>fn.
          next_act (log_step i (''extract key='' @ key @ '' ref='' @ ref))
         (and_then (openclaw_json env w [''browser'', ''evaluate'', ''--fn'', fn, ''--ref'', ref, ''--target-id'', target, ''--json'']) (\<lambda>j.
          done_with (set_field key (cut_result (jget ''result'' (Some j))) (fst acc), snd acc))))))
        else unchanged (log_step i (''unknown op='' @ op @ '' (ignored)''))))"

section \<open>The script\<close>

definition fatal_error :: "string \<Rightarrow> bool" where
  "fatal_error m \<longleftrightarrow>
     m = ''job_time_budget_exceeded'' \<or> startsWith m ''origin_'' \<or> startsWith m ''no_login_'' \<or>
     startsWith m ''value_env_not_allowed'' \<or> m = ''extract_fn_forbidden'' \<or> m = ''unsupported_url_scheme'' \<or>
     m = ''url_contains_credentials''"

text \<open>A step that fails otherwise is logged, and ends the script unless it continues after errors.\<close>

fun run_steps ::
    "agent_env \<Rightarrow> agent_world \<Rightarrow> string list \<Rightarrow> int \<Rightarrow> json option \<Rightarrow> string \<Rightarrow> string \<Rightarrow> bool \<Rightarrow> nat \<Rightarrow> json list \<Rightarrow> flow_result \<Rightarrow>
     flow_result act" where
  "run_steps env w allowed deadline job startUrl target continueOnError i [] acc = done_with acc"
| "run_steps env w allowed deadline job startUrl target continueOnError i (s # ss) acc =
     (let op = step_op (ae_frac_text env) s;
          go_on = run_steps env w allowed deadline job startUrl target continueOnError (Suc i) ss
      in if op = [] then go_on acc
         else and_then
           (catching (and_then (run_step env w allowed deadline job startUrl target i op (Some s) acc) (\<lambda>r. done_with (r, True)))
              (\<lambda>m. next_act (log_step i (''ERROR op='' @ op @ '' err='' @ take 500 m))
                (if fatal_error m then fail_with m else done_with (acc, continueOnError))))
           (\<lambda>(r, more). if more then go_on r else done_with r))"

definition has_final_screenshot :: "json list \<Rightarrow> bool" where
  "has_final_screenshot arts \<longleftrightarrow>
     list_ex (\<lambda>a. jget ''kind'' (Some a) = Some (JStr ''screenshot'') \<and> jget ''label'' (Some a) = Some (JStr ''universal_screenshot'')) arts"

definition flow_log_lines :: "nat \<Rightarrow> agent_call list \<Rightarrow> string list" where
  "flow_log_lines n tr = List.map_filter (\<lambda>c. case c of LogLine l \<Rightarrow> Some l | _ \<Rightarrow> None) (drop n tr)"

definition flow_log :: "agent_env \<Rightarrow> agent_world \<Rightarrow> json option \<Rightarrow> nat \<Rightarrow> (string \<times> json) list \<Rightarrow> string act" where
  "flow_log env w job n extracted tr =
     (Inr (join newline ([''# browser_flow'', ''job_id: '' @ text_of env (jget ''jobId'' job),
        ''generated_at: '' @ aw_iso w (aw_now w tr), []] @ flow_log_lines n tr @
        [[], ''extracted:'', json_pretty (ae_frac_text env) 0 (JObj extracted), []])), tr)"

definition history_length :: "nat act" where
  "history_length tr = (Inr (length tr), tr)"

definition flow_continues :: "json option \<Rightarrow> bool" where
  "flow_continues flow \<longleftrightarrow> jget ''continue_on_error'' flow \<noteq> Some (JBool False)"

text \<open>The steps and the final screenshot on the opened page.\<close>

definition flow_on_page ::
    "agent_env \<Rightarrow> agent_world \<Rightarrow> string list \<Rightarrow> int \<Rightarrow> json option \<Rightarrow> json option \<Rightarrow> string \<Rightarrow> string \<Rightarrow> flow_result act" where
  "flow_on_page env w allowed deadline job flow startUrl target =
     next_act (enforcePagePolicy env w allowed target ''after_open'')
    (and_then (run_steps env w allowed deadline job startUrl target (flow_continues flow) 0
        (normalizeBrowserFlowSteps (ae_frac_text env) flow) ([], [])) (\<lambda>(extracted, arts).
       if has_final_screenshot arts then done_with (extracted, arts)
       else next_act (in_time w deadline)
         (and_then (flow_screenshot env w job target True ''screenshot'' ''universal_screenshot'') (\<lambda>a.
           done_with (extracted, arts @ [a])))))"

definition runOpenClawBrowserFlowModule ::
    "agent_env \<Rightarrow> agent_world \<Rightarrow> string list \<Rightarrow> int \<Rightarrow> json option \<Rightarrow> json option \<Rightarrow> flow_result act" where
  "runOpenClawBrowserFlowModule env w allowed deadline job flow =
     (let startUrl = module_start_url env job in
      if startUrl = [] then fail_with ''missing_start_url''
      else next_act (ensureOpenClawBrowserReady env w)
       (and_then history_length (\<lambda>n.
        next_act (next_act (in_time w deadline) (lift_result (check_url env allowed startUrl ''start_url'')))
       (next_act (tell (LogLine (''start_url: '' @ startUrl)))
       (and_then (openclaw_json env w [''browser'', ''open'', startUrl, ''--json'']) (\<lambda>j.
        let target = trim (text_of env (jget ''targetId'' (Some j))) in
        if target = [] then fail_with ''openclaw_browser_open_missing_target_id''
        else and_then (finally_do (flow_on_page env w allowed deadline job flow startUrl target) (close_page env w target)) (\<lambda>(extracted, arts).
          and_then (flow_log env w job n extracted) (\<lambda>log.
          and_then (uploadArtifact env w \<lparr> ui_jobId = jget ''jobId'' job, ui_filename = ''browser_flow.log'',
              ui_contentType = ''text/plain'', ui_bytes = log, ui_kind = ''log'', ui_label = ''browser_flow'' \<rparr>) (\<lambda>a.
          done_with (extracted, arts @ [a]))))))))))"

section \<open>The marketplace page\<close>

definition normalizeCssSelector :: "agent_env \<Rightarrow> json option \<Rightarrow> string + string" where
  "normalizeCssSelector env raw =
     (let s = trim (text_of env raw) in if length s > 400 then Inl ''selector_too_long'' else Inr s)"

record market_selectors =
  ms_items :: string
  ms_title :: string
  ms_price :: string
  ms_availability :: string
  ms_url :: string
  ms_wait :: string

fun coalesce_all :: "json option list \<Rightarrow> json option" where
  "coalesce_all [] = None"
| "coalesce_all (x # xs) = coalesce x (coalesce_all xs)"

definition getMarketplaceSelectorConfig :: "agent_env \<Rightarrow> json option \<Rightarrow> string + market_selectors option" where
  "getMarketplaceSelectorConfig env job =
     (let sp = jget ''site_profile'' (job_td job);
          sel = (if is_object (jget ''selectors'' sp) then jget ''selectors'' sp else Some (JObj []));
          pick = (\<lambda>xs. normalizeCssSelector env (coalesce_all xs))
      in if \<not> is_object sp then Inr None
         else case (pick [jget ''items'' sel, jget ''item'' sel, jget ''items_selector'' sp, jget ''itemsSelector'' sp],
                    pick [jget ''title'' sel, jget ''title_selector'' sp, jget ''titleSelector'' sp],
                    pick [jget ''price'' sel, jget ''price_selector'' sp, jget ''priceSelector'' sp],
                    pick [jget ''availability'' sel, jget ''stock'' sel, jget ''stock_selector'' sp, jget ''stockSelector'' sp],
                    pick [jget ''url'' sel, jget ''url_selector'' sp, jget ''urlSelector'' sp],
                    pick [jget ''wait_selector'' sel, jget ''marketplace_wait_selector'' sp, jget ''marketplaceWaitSelector'' sp,
                          jget ''wait_selector'' sp, jget ''waitSelector'' sp]) of
             (Inr a, Inr b, Inr c, Inr d, Inr e, Inr f) \<Rightarrow>
               Inr (if a @ b @ c @ d @ e @ f = [] then None
                    else Some \<lparr> ms_items = a, ms_title = b, ms_price = c, ms_availability = d, ms_url = e, ms_wait = f \<rparr>)
           | _ \<Rightarrow> Inl ''selector_too_long'')"

definition currencyFromText :: "string \<Rightarrow> string option" where
  "currencyFromText s =
     (if str_includes s ''$'' then Some ''USD''
      else if str_includes s (map char_of [0xE2, 0x82, 0xAC :: nat]) then Some ''EUR''
      else if str_includes s (map char_of [0xC2, 0xA3 :: nat]) then Some ''GBP''
      else None)"

text \<open>\<open>/(\d+(?:\.\d{1,2})?)/\<close> after commas have become spaces.\<close>

definition parsePriceNumber :: "string \<Rightarrow> rat option" where
  "parsePriceNumber raw =
     (let s = dropWhile (\<lambda>c. \<not> is_digit c) (map (\<lambda>c. if c = CHR '','' then CHR '' '' else c) raw);
          i = takeWhile is_digit s; r = drop (length i) s;
          f = (case r of d # t \<Rightarrow> if d = CHR ''.'' then take 2 (takeWhile is_digit t) else [] | [] \<Rightarrow> [])
      in if i = [] then None else Some (of_nat (digits_value 10 (i @ f)) / 10 ^ length f))"

definition market_item ::
    "agent_env \<Rightarrow> agent_world \<Rightarrow> int \<Rightarrow> string list \<Rightarrow> string \<Rightarrow> json \<Rightarrow> json option" where
  "market_item env w now allowed pageUrl it =
     (let tx = (\<lambda>n k k'. take n (trim (text_of env (coalesce (jget k (Some it)) (jget k' (Some it))))));
          title = tx 400 ''title'' ''title''; price = tx 200 ''price_text'' ''priceText'';
          availability = tx 200 ''availability_text'' ''availabilityText'';
          raw = trim (text_of env (jget ''url'' (Some it)));
          url = (if raw = [] then pageUrl else case aw_resolve w raw pageUrl of None \<Rightarrow> pageUrl | Some u \<Rightarrow> u)
      in if \<not> is_object (Some it) then None
         else case check_url env allowed url ''marketplace_item_url'' of
             Inl _ \<Rightarrow> None
           | Inr _ \<Rightarrow>
               Some (JObj ([(''title'', JStr (if title = [] then ''item'' else title))] @
                 optional_field ''price'' (map_option (\<lambda>q. JNum (Fin q)) (parsePriceNumber price)) @
                 optional_field ''currency'' (map_option JStr (currencyFromText price)) @
                 [(''url'', JStr url)] @
                 (if availability = [] then [] else [(''availability_text'', JStr availability)]) @
                 [(''observed_at'', JStr (aw_iso w now))])))"

definition sanitizeMarketplaceItems ::
    "agent_env \<Rightarrow> agent_world \<Rightarrow> int \<Rightarrow> string list \<Rightarrow> string \<Rightarrow> json option \<Rightarrow> json list" where
  "sanitizeMarketplaceItems env w now allowed pageUrl raw =
     take 20 (List.map_filter (market_item env w now allowed pageUrl) (case jarray raw of None \<Rightarrow> [] | Some xs \<Rightarrow> xs))"

definition parseSitesList :: "agent_env \<Rightarrow> json option \<Rightarrow> string list" where
  "parseSitesList env raw =
     take 25 (case raw of
        Some (JArr xs) \<Rightarrow> trimmed_nonblank (map (\<lambda>x. text_of env (Some x)) xs)
      | Some (JStr s) \<Rightarrow> trimmed_nonblank (text_lines s)
      | _ \<Rightarrow> [])"

definition within_price :: "agent_env \<Rightarrow> json option \<Rightarrow> json list \<Rightarrow> json list" where
  "within_price env spec items =
     (case json_number (ae_frac_text env) (coalesce (coalesce_all [jget ''max_price_usd'' spec, jget ''maxPriceUsd'' spec,
            jget ''max_price'' spec, jget ''maxPrice'' spec]) (Some JNull)) of
        Fin m \<Rightarrow>
          if m > 0 then filter (\<lambda>it. case json_number (ae_frac_text env) (jget ''price'' (Some it)) of Fin q \<Rightarrow> q \<le> m | _ \<Rightarrow> True) items
          else items
      | _ \<Rightarrow> items)"

text \<open>\<open>script\<close> is the text of the extraction function the page evaluates.\<close>

definition runOpenClawMarketplacePageModule ::
    "(market_selectors \<Rightarrow> string) \<Rightarrow> agent_env \<Rightarrow> agent_world \<Rightarrow> string list \<Rightarrow> int \<Rightarrow> json option \<Rightarrow> (json \<times> json list) act" where
  "runOpenClawMarketplacePageModule script env w allowed deadline job =
     and_then (lift_result (getMarketplaceSelectorConfig env job)) (\<lambda>cfg.
       let spec = job_input job; url = or_blank (jstr (jget ''url'' spec));
           startUrl = (if url \<noteq> [] then url else case parseSitesList env (jget ''sites'' spec) of
                         s # _ \<Rightarrow> s | [] \<Rightarrow> text_of env (start_journey job)) in
       if startUrl = [] then fail_with ''missing_start_url''
       else next_act (ensureOpenClawBrowserReady env w)
         (and_then (open_page env w allowed deadline startUrl) (\<lambda>target.
           finally_do
            (next_act (enforcePagePolicy env w allowed target ''after_open'')
            (next_act (case cfg of
                Some c \<Rightarrow> if ms_wait c = [] then done_with ()
                  else next_act (catching (browser_do env w [''browser'', ''wait'', ms_wait c, ''--timeout-ms'', ''20000'', ''--target-id'', target, ''--json''])
                          (\<lambda>_. done_with ())) (enforcePagePolicy env w allowed target ''after_wait_selector'')
              | None \<Rightarrow> done_with ())
            (and_then (case cfg of
                None \<Rightarrow> done_with []
              | Some c \<Rightarrow> catching (and_then (openclaw_json env w [''browser'', ''evaluate'', ''--fn'', script c, ''--target-id'', target, ''--json'']) (\<lambda>j.
                    and_then (clock w) (\<lambda>now. done_with (sanitizeMarketplaceItems env w now allowed startUrl (jget ''result'' (Some j))))))
                  (\<lambda>_. done_with [])) (\<lambda>items.
            and_then (page_screenshot env w job target) (\<lambda>shot.
            done_with (shot, within_price env spec items))))))
            (close_page env w target))))"

end
