(* ===== verification/AgentSources.thy ===== *)
theory AgentSources
  imports AgentFlow
begin

text \<open>
  Where the data modules of \<open>proofwork_worker.mjs\<close> get their data when a browser script extracted none:
  the arXiv feed and the \<open>llm arxiv-search\<close> command, the Remotive job list, and the GitHub search and
  events. Regular expressions are written out as scanning functions. \<open>aw_query\<close> is a url with search
  parameters set.
\<close>

section \<open>Settings\<close>

definition set_text_or :: "string \<Rightarrow> string option \<Rightarrow> string" where
  "set_text_or d v = (case set_text v of None \<Rightarrow> d | Some s \<Rightarrow> s)"

definition LLM_BIN :: "process_env \<Rightarrow> string" where
  "LLM_BIN env = set_text_or ''llm'' (env ''LLM_BIN'')"

definition LLM_ARXIV_ENABLED :: "process_env \<Rightarrow> bool" where
  "LLM_ARXIV_ENABLED env \<longleftrightarrow>
     (let v = trim (or_blank (env ''LLM_ARXIV_ENABLED'')) in toLowerCase v = ''true'' \<or> v = ''1'')"

definition LLM_ARXIV_MAX_RESULTS :: "process_env \<Rightarrow> int" where
  "LLM_ARXIV_MAX_RESULTS env = parseIntClamped (env ''LLM_ARXIV_MAX_RESULTS'') 5 1 10"

definition ARXIV_API_BASE_URL :: "process_env \<Rightarrow> string" where
  "ARXIV_API_BASE_URL env = set_text_or ''https://export.arxiv.org/api/query'' (env ''ARXIV_API_BASE_URL'')"

definition ARXIV_MAX_RESULTS :: "process_env \<Rightarrow> int" where
  "ARXIV_MAX_RESULTS env = parseIntClamped (env ''ARXIV_MAX_RESULTS'') 5 1 10"

definition REMOTIVE_API_URL :: "agent_world \<Rightarrow> process_env \<Rightarrow> string" where
  "REMOTIVE_API_URL w env =
     (let std = ''https://remotive.com/api/remote-jobs''
      in case set_text (env ''REMOTIVE_API_URL'') of
           Some u \<Rightarrow> u
         | None \<Rightarrow> (case set_text (env ''REMOTIVE_API_BASE_URL'') of
               None \<Rightarrow> std
             | Some b \<Rightarrow> (case aw_resolve w ''/api/remote-jobs'' b of Some u \<Rightarrow> u | None \<Rightarrow> std)))"

definition GITHUB_API_BASE_URL :: "process_env \<Rightarrow> string" where
  "GITHUB_API_BASE_URL env =
     (case set_text (env ''GITHUB_API_BASE_URL'') of None \<Rightarrow> ''https://api.github.com'' | Some b \<Rightarrow> strip_slash b)"

section \<open>Scanning\<close>

definition ci_prefix :: "string \<Rightarrow> string \<Rightarrow> bool" where
  "ci_prefix p s \<longleftrightarrow> toLowerCase (take (length p) s) = p"

text \<open>The text before and after the first occurrence, in any case, of a lower-case pattern.\<close>

fun find_ci :: "string \<Rightarrow> string \<Rightarrow> (string \<times> string) option" where
  "find_ci p [] = None"
| "find_ci p (c # s) =
     (if ci_prefix p (c # s) then Some ([], drop (length p) (c # s))
      else map_option (\<lambda>(a, b). (c # a, b)) (find_ci p s))"

text \<open>What follows the first place, at the start or after a character that is not of a word, where a pattern
  stands with something \<open>P\<close> accepts behind it.\<close>

fun after_word :: "(string \<Rightarrow> bool) \<Rightarrow> string \<Rightarrow> bool \<Rightarrow> string \<Rightarrow> string option" where
  "after_word P p before [] = None"
| "after_word P p before (c # s) =
     (if \<not> before \<and> ci_prefix p (c # s) \<and> P (drop (length p) (c # s)) then Some (drop (length p) (c # s))
      else after_word P p (word_char c) s)"

text \<open>\<open>/\u001b]52;c;[^\u0007]*\u0007/g\<close>\<close>

function strip_osc52 :: "string \<Rightarrow> string" where
  "strip_osc52 [] = []"
| "strip_osc52 (c # s) =
     (let r = dropWhile (\<lambda>d. d \<noteq> CHR 0x07) (drop 6 s)
      in if c = CHR 0x1B \<and> take 6 s = '']52;c;'' \<and> r \<noteq> [] then strip_osc52 (drop 1 r) else c # strip_osc52 s)"
  by pat_completeness auto
termination
  by (relation "measure length")
    (auto simp: less_Suc_eq_le intro: le_trans [OF diff_le_self le_trans [OF length_dropWhile_le]])

text \<open>\<open>/\u001b\[[0-9;]*[A-Za-z]/g\<close>\<close>

function strip_ansi :: "string \<Rightarrow> string" where
  "strip_ansi [] = []"
| "strip_ansi (c # s) =
     (let r = dropWhile (\<lambda>d. is_digit d \<or> d = CHR '';'') (drop 1 s)
      in if c = CHR 0x1B \<and> take 1 s = ''['' \<and> r \<noteq> [] \<and> (is_lower (hd r) \<or> is_upper (hd r))
         then strip_ansi (drop 1 r) else c # strip_ansi s)"
  by pat_completeness auto
termination
  by (relation "measure length")
    (auto simp: less_Suc_eq_le intro: le_trans [OF diff_le_self le_trans [OF length_dropWhile_le]])

definition stripOsc52AndAnsi :: "string \<Rightarrow> string" where
  "stripOsc52AndAnsi s = strip_ansi (strip_osc52 s)"

definition trimEnd :: "string \<Rightarrow> string" where
  "trimEnd s = rev (dropWhile is_space (rev s))"

section \<open>arXiv through the command line\<close>

text \<open>\<open>/\bID:\s*([^\s]+)/i\<close>\<close>

definition llm_id :: "string \<Rightarrow> string option" where
  "llm_id line =
     map_option (\<lambda>r. takeWhile (\<lambda>d. \<not> is_space d) (dropWhile is_space r))
       (after_word (\<lambda>r. dropWhile is_space r \<noteq> []) ''id:'' False line)"

text \<open>\<open>/\bTitle:\s*(.+)\s*$/i\<close> on a line without spaces at its end\<close>

definition llm_title :: "string \<Rightarrow> string option" where
  "llm_title line =
     map_option trim (after_word (\<lambda>r. r \<noteq> [] \<and> CHR 0x0D \<notin> set (dropWhile is_space r)) ''title:'' False line)"

fun llm_entries :: "string list \<Rightarrow> (string \<times> string option) list" where
  "llm_entries [] = []"
| "llm_entries (l # ls) =
     (case llm_id l of
        None \<Rightarrow> llm_entries ls
      | Some i \<Rightarrow> (i, (case ls of [] \<Rightarrow> None | m # _ \<Rightarrow> llm_title m)) # llm_entries ls)"

definition parseLlmArxivSearchOutput :: "string \<Rightarrow> (string \<times> string option) list" where
  "parseLlmArxivSearchOutput stdout = llm_entries (map trimEnd (text_lines (stripOsc52AndAnsi stdout)))"

definition without_arxiv :: "string \<Rightarrow> string" where
  "without_arxiv s = (if ci_prefix ''arxiv:'' s then drop 6 s else s)"

definition arxiv_reference :: "string \<Rightarrow> string option \<Rightarrow> json" where
  "arxiv_reference i title =
     JObj ([(''id'', JStr (''arxiv:'' @ i))] @ optional_field ''title'' (map_option JStr title) @
       [(''url'', JStr (''https://arxiv.org/abs/'' @ i))])"

definition maybeGetArxivReferencesFromLlm :: "agent_env \<Rightarrow> agent_world \<Rightarrow> string \<Rightarrow> json list act" where
  "maybeGetArxivReferencesFromLlm env w idea =
     (let n = LLM_ARXIV_MAX_RESULTS (ae_env env) in
      if \<not> LLM_ARXIV_ENABLED (ae_env env) \<or> trim idea = [] then done_with []
      else and_then (run_command w (LLM_BIN (ae_env env)) [''arxiv-search'', ''-n'', show_int n, trim idea]) (\<lambda>(code, out, err).
        done_with (if code \<noteq> 0 then []
          else map (\<lambda>(i, t). arxiv_reference (without_arxiv i) t) (take (nat n) (parseLlmArxivSearchOutput out)))))"

section \<open>The arXiv feed\<close>

definition decodeXmlEntities :: "string \<Rightarrow> string" where
  "decodeXmlEntities s =
     replace_all ''&apos;'' [CHR 0x27] (replace_all ''&quot;'' [CHR 0x22] (replace_all ''&gt;'' ''>''
       (replace_all ''&lt;'' ''<'' (replace_all ''&amp;'' ''&'' s))))"

definition words_of :: "string \<Rightarrow> string list" where
  "words_of s = filter (\<lambda>x. x \<noteq> []) (split_on CHR '' '' (map (\<lambda>c. if is_space c then CHR '' '' else c) s))"

definition normalizeWs :: "string \<Rightarrow> string" where
  "normalizeWs s = join '' '' (words_of s)"

text \<open>\<open>/\/abs\/([^?#]+)$/i\<close>\<close>

fun last_path :: "string \<Rightarrow> string \<Rightarrow> string option" where
  "last_path p [] = None"
| "last_path p (c # s) =
     (let r = drop (length p) (c # s)
      in if ci_prefix p (c # s) \<and> r \<noteq> [] \<and> list_all (\<lambda>d. d \<noteq> CHR ''?'' \<and> d \<noteq> CHR ''#'') r then Some r
         else last_path p s)"

definition strip_pdf :: "string \<Rightarrow> string" where
  "strip_pdf s = (if toLowerCase (drop (length s - 4) s) = ''.pdf'' then take (length s - 4) s else s)"

text \<open>\<open>/v\d+$/i\<close>\<close>

definition strip_version :: "string \<Rightarrow> string" where
  "strip_version s =
     (let ds = takeWhile is_digit (rev s)
      in case drop (length ds) (rev s) of
           [] \<Rightarrow> s
         | c # r \<Rightarrow> if ds \<noteq> [] \<and> lower_char c = CHR ''v'' then rev r else s)"

text \<open>\<open>/^\d{4}\.\d{4,5}$/\<close> and \<open>/^[a-z-]+(\/[a-z-]+)*\/\d{7}$/i\<close>\<close>

definition new_arxiv_id :: "string \<Rightarrow> bool" where
  "new_arxiv_id s \<longleftrightarrow>
     length s \<in> {9, 10} \<and> list_all is_digit (take 4 s) \<and> take 1 (drop 4 s) = ''.'' \<and> list_all is_digit (drop 5 s)"

definition old_arxiv_id :: "string \<Rightarrow> bool" where
  "old_arxiv_id s \<longleftrightarrow>
     (let parts = split_on CHR ''/'' s; n = parts ! (length parts - 1)
      in 2 \<le> length parts \<and> length n = 7 \<and> list_all is_digit n \<and>
         list_all (\<lambda>p. p \<noteq> [] \<and> list_all (\<lambda>c. is_lower c \<or> is_upper c \<or> c = CHR ''-'') p) (butlast parts))"

definition extractArxivId :: "string \<Rightarrow> string option" where
  "extractArxivId raw =
     (let s1 = without_arxiv (trim raw);
          s2 = (case last_path ''/abs/'' s1 of
                  Some r \<Rightarrow> r
                | None \<Rightarrow> (case last_path ''/pdf/'' s1 of Some r \<Rightarrow> r | None \<Rightarrow> s1));
          s = trim (strip_version (strip_pdf s2))
      in if trim raw = [] \<or> s = [] then None
         else if new_arxiv_id s \<or> old_arxiv_id s then Some s else None)"

text \<open>\<open>/<id>\s*([^<]+)\s*<\/id>/i\<close>\<close>

fun feed_id :: "string \<Rightarrow> string" where
  "feed_id [] = []"
| "feed_id (c # s) =
     (let r = drop 3 s; t = takeWhile (\<lambda>d. d \<noteq> CHR ''<'') r
      in if ci_prefix ''<id>'' (c # s) \<and> t \<noteq> [] \<and> ci_prefix ''</id>'' (drop (length t) r) then t else feed_id s)"

text \<open>\<open>/<title>\s*([\s\S]*?)\s*<\/title>/i\<close>\<close>

definition feed_title :: "string \<Rightarrow> string option" where
  "feed_title s =
     (case find_ci ''<title>'' s of
        None \<Rightarrow> None
      | Some (_, r) \<Rightarrow> (case find_ci ''</title>'' r of None \<Rightarrow> None | Some (t, _) \<Rightarrow> Some (trim t)))"

fun open_entry :: "string \<Rightarrow> string option" where
  "open_entry [] = None"
| "open_entry (c # s) =
     (let r = drop 5 s
      in if ci_prefix ''<entry'' (c # s) \<and> r \<noteq> [] \<and> (is_space (hd r) \<or> hd r = CHR ''>'') then Some (drop 1 r)
         else open_entry s)"

lemma open_entry_shorter: "open_entry s = Some r \<Longrightarrow> length r < length s"
  by (induction s) (auto simp: Let_def split: if_splits)

lemma find_ci_shorter: "find_ci p s = Some (a, b) \<Longrightarrow> length b \<le> length s"
  by (induction s arbitrary: a b) (auto split: if_splits)

text \<open>The contents of \<open>/<entry[\s>][\s\S]*?<\/entry>/gi\<close>\<close>

function feed_entries :: "string \<Rightarrow> string list" where
  "feed_entries s =
     (case open_entry s of
        None \<Rightarrow> []
      | Some r \<Rightarrow> (case find_ci ''</entry>'' r of None \<Rightarrow> [] | Some (body, rest) \<Rightarrow> body # feed_entries rest))"
  by pat_completeness auto
termination
  by (relation "measure length") (auto dest!: open_entry_shorter find_ci_shorter)

declare feed_entries.simps [simp del]

definition feed_entry :: "string \<Rightarrow> (string \<times> string option) option" where
  "feed_entry e =
     map_option (\<lambda>i. (i, let t = decodeXmlEntities (or_blank (feed_title e))
                        in if t = [] then None else Some (normalizeWs t))) (extractArxivId (feed_id e))"

definition parseArxivAtomFeed :: "string \<Rightarrow> (string \<times> string option) list" where
  "parseArxivAtomFeed xml = List.map_filter feed_entry (feed_entries xml)"

definition pickArxivApiBaseUrl :: "agent_env \<Rightarrow> string list \<Rightarrow> string" where
  "pickArxivApiBaseUrl env allowed =
     (let preferred = ARXIV_API_BASE_URL (ae_env env)
      in if \<not> agent_strict env then preferred
         else if (case urlOriginStrict (ae_parse_url env) preferred of Inl _ \<Rightarrow> False | Inr o' \<Rightarrow> o' \<in> set allowed) then preferred
         else if ''https://arxiv.org'' \<in> set allowed then ''https://arxiv.org/api/query''
         else if ''http://arxiv.org'' \<in> set allowed then ''http://arxiv.org/api/query''
         else if ''https://export.arxiv.org'' \<in> set allowed then ''https://export.arxiv.org/api/query''
         else if ''http://export.arxiv.org'' \<in> set allowed then ''http://export.arxiv.org/api/query''
         else preferred)"

definition url_passes :: "agent_env \<Rightarrow> string list \<Rightarrow> string \<Rightarrow> string \<Rightarrow> bool" where
  "url_passes env allowed url what = (case assertUrlAllowed env allowed url what of Inl _ \<Rightarrow> False | Inr _ \<Rightarrow> True)"

definition reference_url :: "json \<Rightarrow> string" where
  "reference_url r = or_blank (jstr (jget ''url'' (Some r)))"

definition getArxivReferencesFromApi :: "agent_env \<Rightarrow> agent_world \<Rightarrow> string list \<Rightarrow> int \<Rightarrow> string \<Rightarrow> json list act" where
  "getArxivReferencesFromApi env w allowed deadline query =
     (let q = trim query; n = ARXIV_MAX_RESULTS (ae_env env) in
      if q = [] then done_with []
      else catching
        (case aw_query w (pickArxivApiBaseUrl env allowed)
                [(''search_query'', ''all:'' @ q), (''start'', ''0''), (''max_results'', show_int n)] of
           None \<Rightarrow> fail_with ''Invalid URL''
         | Some url \<Rightarrow>
             and_then (fetchWithManualRedirects env w allowed (Some deadline) url) (\<lambda>(_, r).
               case r of
                 None \<Rightarrow> done_with []
               | Some resp \<Rightarrow>
                   if \<not> http_ok resp then done_with []
                   else let xml = fst (readWebStreamLimited (nat (ac_http_max_bytes (ae_config env))) (rp_chunks resp));
                            refs = map (\<lambda>(i, t). arxiv_reference i t) (take (nat n) (parseArxivAtomFeed xml))
                        in if agent_strict env
                              \<and> \<not> list_all (\<lambda>r. url_passes env allowed (reference_url r) ''arxiv_reference_url'') refs
                           then fail_with ''arxiv_reference_url'' else done_with refs))
        (\<lambda>_. done_with []))"

section \<open>Remotive\<close>

definition splitKeywordQuery :: "agent_env \<Rightarrow> json option \<Rightarrow> string list" where
  "splitKeywordQuery env s =
     take 20 (trimmed_nonblank (split_on CHR '','' (map (\<lambda>c. if c = CHR ''|'' then CHR '','' else c) (trim (text_of env s)))))"

definition includesAny :: "string \<Rightarrow> string list \<Rightarrow> bool" where
  "includesAny haystack needles \<longleftrightarrow>
     haystack \<noteq> [] \<and>
     list_ex (\<lambda>n. toLowerCase (trim n) \<noteq> [] \<and> str_includes (toLowerCase haystack) (toLowerCase (trim n))) needles"

definition text_list :: "agent_env \<Rightarrow> json option \<Rightarrow> string list" where
  "text_list env x = (case jarray x of None \<Rightarrow> [] | Some xs \<Rightarrow> filter (\<lambda>s. s \<noteq> []) (map (json_text (ae_frac_text env)) xs))"

definition remotive_wanted :: "agent_env \<Rightarrow> string list \<Rightarrow> json option \<Rightarrow> string \<Rightarrow> string \<Rightarrow> string \<Rightarrow> string \<Rightarrow> bool" where
  "remotive_wanted env allowed spec title loc txt url \<longleftrightarrow>
     (let titles = take 10 (text_list env (jget ''titles'' spec)); location = trimmed_field ''location'' spec;
          inc = splitKeywordQuery env (jget ''include_keywords'' spec); exc = splitKeywordQuery env (jget ''exclude_keywords'' spec)
      in \<not> (titles \<noteq> [] \<and> \<not> includesAny title titles \<and> \<not> includesAny txt titles) \<and>
         \<not> (location \<noteq> [] \<and> toLowerCase location \<noteq> ''remote'' \<and> \<not> includesAny loc [location] \<and> \<not> includesAny txt [location]) \<and>
         \<not> (inc \<noteq> [] \<and> \<not> includesAny txt inc) \<and> \<not> (exc \<noteq> [] \<and> includesAny txt exc) \<and>
         \<not> (url \<noteq> [] \<and> agent_strict env \<and> \<not> url_passes env allowed url ''remotive_job_url''))"

definition defined_field :: "string \<Rightarrow> json option \<Rightarrow> (string \<times> json) list" where
  "defined_field k x = (if nullish x then [] else [(k, the x)])"

definition text_else :: "string \<Rightarrow> string \<Rightarrow> string" where
  "text_else s d = (if s = [] then d else s)"

definition remotive_row :: "agent_env \<Rightarrow> agent_world \<Rightarrow> int \<Rightarrow> string list \<Rightarrow> json option \<Rightarrow> json \<Rightarrow> json option" where
  "remotive_row env w now allowed spec j =
     (let tx = (\<lambda>k k'. text_of env (coalesce (jget k (Some j)) (jget k' (Some j))));
          title = tx ''title'' ''title''; company = tx ''company_name'' ''company''; url = tx ''url'' ''url'';
          posted = tx ''publication_date'' ''posted_at''; loc = tx ''candidate_required_location'' ''location'';
          txt = trim (title @ '' '' @ company @ '' '' @ loc @ '' '' @ tx ''category'' ''category'' @ '' '' @ tx ''job_type'' ''job_type'')
      in if \<not> remotive_wanted env allowed spec title loc txt url then None
         else Some (JObj ([(''title'', JStr (text_else title ''unknown'')), (''company'', JStr (text_else company ''unknown'')),
           (''location'', JStr (text_else loc (text_else (trimmed_field ''location'' spec) ''remote''))),
           (''url'', JStr (text_else url ''https://remotive.com'')), (''posted_at'', JStr (text_else posted (aw_iso w now))),
           (''source'', JStr ''remotive'')] @
           defined_field ''category'' (jget ''category'' (Some j)) @ defined_field ''job_type'' (jget ''job_type'' (Some j)))))"

definition json_list :: "json option \<Rightarrow> json list" where
  "json_list x = (case jarray x of None \<Rightarrow> [] | Some xs \<Rightarrow> xs)"

definition getRemotiveJobsRowsFromApi ::
    "agent_env \<Rightarrow> agent_world \<Rightarrow> string list \<Rightarrow> int \<Rightarrow> json option \<Rightarrow> json list act" where
  "getRemotiveJobsRowsFromApi env w allowed deadline spec =
     and_then (fetchJsonLimited env w allowed (Some deadline) (REMOTIVE_API_URL w (ae_env env))) (\<lambda>res.
     and_then (clock w) (\<lambda>now.
       done_with (if \<not> fe_ok res \<or> \<not> json_truthy (fe_json res) then []
         else take 25 (List.map_filter (remotive_row env w now allowed spec) (json_list (jget ''jobs'' (fe_json res)))))))"

section \<open>GitHub\<close>

definition sanitizeGithubQueryTokens :: "string \<Rightarrow> string list" where
  "sanitizeGithubQueryTokens idea =
     take 10 (words_of (map (\<lambda>c. if word_char c \<or> is_space c \<or> c = CHR ''-'' then c else CHR '' '') (trim idea)))"

definition min_stars_of :: "agent_env \<Rightarrow> json option \<Rightarrow> int" where
  "min_stars_of env spec = (case json_number (ae_frac_text env) (jget ''min_stars'' spec) of Fin q \<Rightarrow> max 0 \<lfloor>q\<rfloor> | _ \<Rightarrow> 0)"

definition github_query :: "agent_env \<Rightarrow> json option \<Rightarrow> string list \<Rightarrow> string" where
  "github_query env spec tokens =
     (let languages = take 3 (text_list env (jget ''languages'' spec)); licenses = take 1 (text_list env (jget ''license_allow'' spec));
          minStars = min_stars_of env spec
      in trim (join '' '' ([join '' '' tokens, ''fork:false''] @
           (if minStars > 0 then [''stars:>='' @ number_text (ae_frac_text env) (Fin (of_int minStars))] else []) @
           map (\<lambda>l. ''language:'' @ l) languages @ map (\<lambda>l. ''license:'' @ l) licenses)))"

definition github_base :: "process_env \<Rightarrow> string" where
  "github_base env = (let b = GITHUB_API_BASE_URL env in if endsWith b ''/'' then b else b @ ''/'')"

definition github_url :: "agent_world \<Rightarrow> process_env \<Rightarrow> string \<Rightarrow> (string \<times> string) list \<Rightarrow> string act" where
  "github_url w env path params =
     (case aw_resolve w path (github_base env) of
        None \<Rightarrow> fail_with ''Invalid URL''
      | Some u \<Rightarrow> (case aw_query w u params of None \<Rightarrow> fail_with ''Invalid URL'' | Some v \<Rightarrow> done_with v))"

definition repo_license :: "agent_env \<Rightarrow> json option \<Rightarrow> json" where
  "repo_license env l =
     (if json_truthy (jget ''spdx_id'' l) then JStr (text_of env (jget ''spdx_id'' l))
      else if json_truthy (jget ''key'' l) then JStr (text_of env (jget ''key'' l))
      else JNull)"

definition repo_row :: "agent_env \<Rightarrow> json \<Rightarrow> json" where
  "repo_row env it =
     (let f = (\<lambda>k. jget k (Some it));
          stars = json_number (ae_frac_text env) (coalesce (f ''stargazers_count'') (Some (JNum (Fin 0))))
      in JObj ([(''name'', JStr (text_else (trim (text_of env (coalesce (f ''full_name'') (f ''name'')))) ''unknown'')),
           (''url'', JStr (text_else (trim (text_of env (f ''html_url''))) ''https://github.com'')),
           (''license'', repo_license env (f ''license'')), (''stars'', JNum (if is_finite stars then stars else Fin 0))] @
           defined_field ''description'' (f ''description'')))"

definition getGithubReposFromApi ::
    "agent_env \<Rightarrow> agent_world \<Rightarrow> string list \<Rightarrow> int \<Rightarrow> json option \<Rightarrow> json list act" where
  "getGithubReposFromApi env w allowed deadline spec =
     (let tokens = sanitizeGithubQueryTokens (trimmed_field ''idea'' spec) in
      if tokens = [] then done_with []
      else and_then (github_url w (ae_env env) ''search/repositories''
          [(''q'', github_query env spec tokens), (''sort'', ''stars''), (''order'', ''desc''), (''per_page'', ''10'')]) (\<lambda>url.
        and_then (fetchJsonLimited env w allowed (Some deadline) url) (\<lambda>res.
          done_with (if \<not> fe_ok res then [] else map (repo_row env) (take 10 (json_list (jget ''items'' (fe_json res))))))))"

definition max_events_of :: "agent_env \<Rightarrow> json option \<Rightarrow> int" where
  "max_events_of env spec = clamp_floor 1 200 100 (json_number (ae_frac_text env) (jget ''max_events'' spec))"

definition getGithubEventsFromApi ::
    "agent_env \<Rightarrow> agent_world \<Rightarrow> string list \<Rightarrow> int \<Rightarrow> json option \<Rightarrow> json list act" where
  "getGithubEventsFromApi env w allowed deadline spec =
     (let n = max_events_of env spec in
      and_then (github_url w (ae_env env) ''events'' [(''per_page'', show_int (min 100 n))]) (\<lambda>url.
      and_then (fetchJsonLimited env w allowed (Some deadline) url) (\<lambda>res.
        done_with (if \<not> fe_ok res then [] else take (nat n) (json_list (fe_json res))))))"

end
