(* ===== verification/AgentOutputs.thy ===== *)
theory AgentOutputs
  imports AgentSources
begin

text \<open>
  The modules of \<open>proofwork_worker.mjs\<close> that make artifacts without a page: the video clip and its
  timeline, the data files a descriptor asks for, and the report. A data file whose data could not be had
  is filled with a placeholder, as the code does.
\<close>

section \<open>Clips\<close>

definition vod_url :: "json option \<Rightarrow> string" where
  "vod_url job = or_blank (jstr (jget ''vod_url'' (job_input job)))"

definition run_ffmpeg :: "agent_world \<Rightarrow> string list \<Rightarrow> (int \<times> string) act" where
  "run_ffmpeg w args tr = (aw_ffmpeg w tr args, tr @ [Command ''ffmpeg'' args])"

definition file_size :: "agent_world \<Rightarrow> string \<Rightarrow> nat act" where
  "file_size w path tr = ((case aw_file w tr path of Inl e \<Rightarrow> Inl e | Inr bytes \<Rightarrow> Inr (length bytes)), tr)"

definition ffmpeg_args :: "(rat \<Rightarrow> string) \<Rightarrow> json option \<Rightarrow> string \<Rightarrow> string list" where
  "ffmpeg_args ft job outPath =
     [''-y'', ''-ss'', number_text ft (clip_start ft job), ''-i'', vod_url job, ''-t'', number_text ft (clip_duration ft job),
      ''-c'', ''copy'', outPath]"

definition runFfmpegClipModule ::
    "agent_env \<Rightarrow> agent_world \<Rightarrow> string list \<Rightarrow> int \<Rightarrow> json option \<Rightarrow> json option act" where
  "runFfmpegClipModule env w allowed deadline job =
     (let outPath = aw_tmp w @ ''/clip.mp4'' in
      if vod_url job = [] then done_with None
      else next_act (lift_result (check_clip env job))
       (next_act (in_time w deadline)
       (next_act (lift_result (check_url env allowed (vod_url job) ''vod_url''))
       (and_then (run_ffmpeg w (ffmpeg_args (ae_frac_text env) job outPath)) (\<lambda>(code, err).
          next_act (guard_that (code = 0) (''ffmpeg_failed:'' @ show_int code @ '':'' @ take 500 err))
         (next_act (case ac_artifact_max_bytes (ae_config env) of
              None \<Rightarrow> done_with ()
            | Some m \<Rightarrow> and_then (file_size w outPath) (\<lambda>n. guard_that (int n \<le> m) (''artifact_too_large:'' @ show_nat n)))
         (and_then (read_bytes w outPath) (\<lambda>bytes.
            and_then (uploadArtifact env w \<lparr> ui_jobId = jget ''jobId'' job, ui_filename = ''clip.mp4'',
                ui_contentType = ''video/mp4'', ui_bytes = bytes, ui_kind = ''video'', ui_label = ''clip_main'' \<rparr>)
              (\<lambda>a. done_with (Some a))))))))))"

text \<open>The end of a clip; the two numbers are finite when they have passed the test before.\<close>

definition js_plus :: "jsnum \<Rightarrow> jsnum \<Rightarrow> jsnum" where
  "js_plus a b = (case (a, b) of (Fin x, Fin y) \<Rightarrow> Fin (x + y) | _ \<Rightarrow> NaN)"

definition upload_json :: "agent_env \<Rightarrow> agent_world \<Rightarrow> json option \<Rightarrow> string \<Rightarrow> json \<Rightarrow> json act" where
  "upload_json env w job name x =
     uploadArtifact env w \<lparr> ui_jobId = jget ''jobId'' job, ui_filename = name @ ''.json'',
       ui_contentType = ''application/json'', ui_bytes = json_pretty (ae_frac_text env) 0 x @ newline,
       ui_kind = ''other'', ui_label = name @ ''_main'' \<rparr>"

definition timeline_json :: "agent_env \<Rightarrow> agent_world \<Rightarrow> int \<Rightarrow> json option \<Rightarrow> json" where
  "timeline_json env w now job =
     (let a = clip_start (ae_frac_text env) job; d = clip_duration (ae_frac_text env) job
      in JObj [(''schema'', JStr ''timeline.v1''), (''vod_url'', JStr (vod_url job)), (''generated_at'', JStr (aw_iso w now)),
           (''clips'', JArr [JObj [(''start_sec'', JNum a), (''end_sec'', JNum (js_plus a d)), (''label'', JStr ''clip_1'')]])])"

definition runClipTimelineModule :: "agent_env \<Rightarrow> agent_world \<Rightarrow> json option \<Rightarrow> json option act" where
  "runClipTimelineModule env w job =
     (if vod_url job = [] \<or> \<not> (case clip_start (ae_frac_text env) job of Fin q \<Rightarrow> 0 \<le> q | _ \<Rightarrow> False) \<or>
         \<not> (case clip_duration (ae_frac_text env) job of Fin q \<Rightarrow> 0 < q \<and> q \<le> 600 | _ \<Rightarrow> False)
      then done_with None
      else and_then (clock w) (\<lambda>now.
        and_then (upload_json env w job ''timeline'' (timeline_json env w now job)) (\<lambda>a. done_with (Some a))))"

section \<open>Data files\<close>

definition job_type :: "agent_env \<Rightarrow> json option \<Rightarrow> string" where
  "job_type env job = json_text (ae_frac_text env) (the (coalesce (jget ''type'' (job_td job)) (Some (JStr ''unknown''))))"

definition type_has :: "agent_env \<Rightarrow> json option \<Rightarrow> string \<Rightarrow> bool" where
  "type_has env job word = str_includes (job_type env job) word"

definition required_prefixes :: "agent_env \<Rightarrow> json option \<Rightarrow> string list" where
  "required_prefixes env job =
     List.map_filter (\<lambda>r. if is_object (Some r) \<and> text_of env (jget ''kind'' (Some r)) = ''other'' then jstr (jget ''label_prefix'' (Some r)) else None)
       (job_required job)"

definition wants_output :: "agent_env \<Rightarrow> json option \<Rightarrow> string \<Rightarrow> string \<Rightarrow> bool \<Rightarrow> bool" where
  "wants_output env job pre flag by_type \<longleftrightarrow>
     pre \<in> set (required_prefixes env job) \<or> jget flag (job_output job) = Some (JBool True) \<or> by_type"

definition extracted_list :: "(string \<times> json) list \<Rightarrow> string \<Rightarrow> json list" where
  "extracted_list extracted k = json_list (map_of extracted k)"

text \<open>A non-empty list, or the placeholder.\<close>

definition or_placeholder :: "json list \<Rightarrow> json \<Rightarrow> json" where
  "or_placeholder xs p = JArr (if xs = [] then [p] else xs)"

definition input_text :: "string \<Rightarrow> json option \<Rightarrow> string" where
  "input_text k job = or_blank (jstr (jget k (job_input job)))"

definition start_or :: "agent_env \<Rightarrow> string \<Rightarrow> json option \<Rightarrow> string" where
  "start_or env d job = json_text (ae_frac_text env) (the (coalesce (start_journey job) (Some (JStr d))))"

definition results_json :: "agent_env \<Rightarrow> agent_world \<Rightarrow> int \<Rightarrow> json option \<Rightarrow> json list \<Rightarrow> json" where
  "results_json env w now job items =
     (let query = input_text ''query'' job; stamp = JStr (aw_iso w now);
          url = (case jstr (jget ''url'' (job_input job)) of Some u \<Rightarrow> u | None \<Rightarrow> text_of env (start_journey job))
      in JObj [(''schema'', JStr ''results.v1''), (''generated_at'', stamp), (''query'', JStr query), (''source_url'', JStr url),
           (''items'', or_placeholder items (JObj [(''title'', JStr (text_else query ''example item'')), (''price'', JNum (Fin 99)),
              (''currency'', JStr ''USD''), (''url'', JStr url), (''observed_at'', stamp)]))])"

definition deals_json :: "agent_env \<Rightarrow> agent_world \<Rightarrow> int \<Rightarrow> json option \<Rightarrow> json list \<Rightarrow> json" where
  "deals_json env w now job deals =
     (let stamp = JStr (aw_iso w now)
      in JObj [(''schema'', JStr ''deals.v1''), (''generated_at'', stamp), (''origin'', JStr (input_text ''origin'' job)),
           (''dest'', JStr (input_text ''dest'' job)),
           (''deals'', or_placeholder deals (JObj [(''price'', JNum (Fin 199)), (''currency'', JStr ''USD''), (''vendor'', JStr ''example''),
              (''url'', JStr (start_or env ''https://example.com'' job)), (''observed_at'', stamp)]))])"

definition rows_json :: "agent_env \<Rightarrow> agent_world \<Rightarrow> int \<Rightarrow> json option \<Rightarrow> json list \<Rightarrow> json" where
  "rows_json env w now job rows =
     (let stamp = JStr (aw_iso w now); location = JStr (input_text ''location'' job);
          titles = take 5 (map (json_text (ae_frac_text env)) (json_list (jget ''titles'' (job_input job))))
      in JObj [(''schema'', JStr ''rows.v1''), (''generated_at'', stamp), (''titles'', JArr (map JStr titles)), (''location'', location),
           (''rows'', or_placeholder rows (JObj [(''title'', JStr (case titles of [] \<Rightarrow> ''engineer'' | t # _ \<Rightarrow> t)),
              (''company'', JStr ''example''), (''location'', location), (''url'', JStr (start_or env ''https://example.com'' job)),
              (''posted_at'', stamp)]))])"

definition repos_json :: "agent_env \<Rightarrow> agent_world \<Rightarrow> int \<Rightarrow> json option \<Rightarrow> json list \<Rightarrow> json" where
  "repos_json env w now job repos =
     JObj [(''schema'', JStr ''repos.v1''), (''generated_at'', JStr (aw_iso w now)), (''query'', JStr (input_text ''idea'' job)),
       (''repos'', or_placeholder repos (JObj [(''name'', JStr ''example/repo''), (''url'', JStr ''https://github.com/example/repo''),
          (''license'', JStr (json_text (ae_frac_text env)
             (the (coalesce (jget ''license_constraints'' (job_input job)) (Some (JStr ''unknown''))))))
          , (''stars'', JNum (Fin 0))]))]"

definition ingest_json :: "agent_world \<Rightarrow> int \<Rightarrow> json list \<Rightarrow> json option \<Rightarrow> json" where
  "ingest_json w now events res =
     JObj [(''schema'', JStr ''github_ingest.v1''), (''generated_at'', JStr (aw_iso w now)),
       (''fetched_events'', JNum (Fin (of_nat (length events)))),
       (''ingest'', the (coalesce res (Some (JObj [(''ok'', JBool False), (''error'', JStr ''no_events'')]))))]"

definition references_json :: "agent_world \<Rightarrow> int \<Rightarrow> json option \<Rightarrow> json list \<Rightarrow> json" where
  "references_json w now job refs =
     JObj [(''schema'', JStr ''references.v1''), (''generated_at'', JStr (aw_iso w now)), (''idea'', JStr (input_text ''idea'' job)),
       (''references'', JArr refs)]"

text \<open>What the script extracted, or what a source gives; a source that throws gives nothing.\<close>

definition list_or_fetch :: "json list \<Rightarrow> bool \<Rightarrow> json list act \<Rightarrow> json list act" where
  "list_or_fetch xs fetch source = (if xs = [] \<and> fetch then catching source (\<lambda>_. done_with []) else done_with xs)"

definition emit_output ::
    "agent_env \<Rightarrow> agent_world \<Rightarrow> json option \<Rightarrow> string \<Rightarrow> (int \<Rightarrow> json) \<Rightarrow> json list act" where
  "emit_output env w job pre obj =
     and_then (clock w) (\<lambda>now. and_then (upload_json env w job pre (obj now)) (\<lambda>a. done_with [a]))"

definition when_wanted :: "bool \<Rightarrow> 'a list act \<Rightarrow> 'a list act" where
  "when_wanted b m = (if b then m else done_with [])"

definition ingest_events :: "agent_env \<Rightarrow> agent_world \<Rightarrow> json option \<Rightarrow> json list \<Rightarrow> json option act" where
  "ingest_events env w job events =
     (let sourceId = text_else (trimmed_field ''source_id'' (job_input job)) ''github_ingest_events'' in
      if events = [] then done_with None
      else and_then (apiFetch env w ''POST'' ''/api/worker/intel/github/events''
          (Some (JObj [(''sourceId'', JStr sourceId), (''events'', JArr events)])) True) (\<lambda>(r, j).
        done_with (if http_ok r then j
          else Some (JObj [(''ok'', JBool False), (''status'', JNum (Fin (of_nat (rp_status r)))),
                 (''error'', the (coalesce (jget ''error'' j) (Some JNull)))]))))"

definition emit_results where
  "emit_results env w job extracted =
     when_wanted (wants_output env job ''results'' ''results_json'' (type_has env job ''marketplace''))
       (emit_output env w job ''results'' (\<lambda>now. results_json env w now job (extracted_list extracted ''items'')))"

definition emit_deals where
  "emit_deals env w job extracted =
     when_wanted (wants_output env job ''deals'' ''deals'' (type_has env job ''travel''))
       (emit_output env w job ''deals'' (\<lambda>now. deals_json env w now job (extracted_list extracted ''deals'')))"

definition emit_rows where
  "emit_rows env w allowed deadline job extracted =
     when_wanted (wants_output env job ''rows'' ''rows'' (type_has env job ''jobs''))
       (and_then (list_or_fetch (extracted_list extracted ''rows'') (type_has env job ''jobs'')
            (getRemotiveJobsRowsFromApi env w allowed deadline (job_input job))) (\<lambda>rows.
          emit_output env w job ''rows'' (\<lambda>now. rows_json env w now job rows)))"

definition emit_repos where
  "emit_repos env w allowed deadline job extracted =
     when_wanted (wants_output env job ''repos'' ''repos'' (type_has env job ''github'' \<and> \<not> type_has env job ''github_ingest''))
       (and_then (list_or_fetch (extracted_list extracted ''repos'') (type_has env job ''github'')
            (getGithubReposFromApi env w allowed deadline (job_input job))) (\<lambda>repos.
          emit_output env w job ''repos'' (\<lambda>now. repos_json env w now job repos)))"

definition emit_ingest where
  "emit_ingest env w allowed deadline job extracted =
     when_wanted (wants_output env job ''ingest'' ''ingest'' (type_has env job ''github_ingest''))
       (and_then (list_or_fetch (extracted_list extracted ''events'') (type_has env job ''github_ingest'')
            (getGithubEventsFromApi env w allowed deadline (job_input job))) (\<lambda>events.
        and_then (ingest_events env w job events) (\<lambda>res.
          emit_output env w job ''ingest'' (\<lambda>now. ingest_json w now events res))))"

definition emit_references where
  "emit_references env w allowed deadline job extracted =
     (let idea = input_text ''idea'' job in
      when_wanted (wants_output env job ''references'' ''references'' (type_has env job ''arxiv''))
       (and_then (if type_has env job ''arxiv'' then maybeGetArxivReferencesFromLlm env w idea else done_with []) (\<lambda>llm.
        and_then (if llm = [] \<and> idea \<noteq> [] then getArxivReferencesFromApi env w allowed deadline idea else done_with []) (\<lambda>api.
          emit_output env w job ''references'' (\<lambda>now. references_json w now job
            (if llm \<noteq> [] then llm else if api \<noteq> [] then api else extracted_list extracted ''references''))))))"

text \<open>One module after the other, their artifacts in order.\<close>

fun in_order :: "'a list act list \<Rightarrow> 'a list act" where
  "in_order [] = done_with []"
| "in_order (m # ms) = and_then m (\<lambda>xs. and_then (in_order ms) (\<lambda>ys. done_with (xs @ ys)))"

definition runStructuredJsonOutputsModule ::
    "agent_env \<Rightarrow> agent_world \<Rightarrow> string list \<Rightarrow> int \<Rightarrow> json option \<Rightarrow> (string \<times> json) list \<Rightarrow> json list act" where
  "runStructuredJsonOutputsModule env w allowed deadline job extracted =
     in_order [emit_results env w job extracted, emit_deals env w job extracted,
       emit_rows env w allowed deadline job extracted, emit_repos env w allowed deadline job extracted,
       emit_ingest env w allowed deadline job extracted, emit_references env w allowed deadline job extracted]"

section \<open>The report\<close>

definition OPENCLAW_AGENT_ID :: "process_env \<Rightarrow> string option" where
  "OPENCLAW_AGENT_ID env =
     (if parseBool (env ''PROOFWORK_DANGEROUS_ENABLE_OPENCLAW_AGENT_SUMMARIZE'') False then set_text (env ''OPENCLAW_AGENT_ID'') else None)"

definition or_object :: "json option \<Rightarrow> json" where
  "or_object x = the (coalesce x (Some (JObj [])))"

definition job_caps :: "agent_env \<Rightarrow> json option \<Rightarrow> string" where
  "job_caps env job = json_stringify (ae_frac_text env) (JArr (json_list (jget ''capability_tags'' (job_td job))))"

definition pretty_lines :: "agent_env \<Rightarrow> json \<Rightarrow> string" where
  "pretty_lines env x = json_pretty (ae_frac_text env) 0 x"

definition site_profile_of :: "json option \<Rightarrow> json option" where
  "site_profile_of job = (let s = jget ''site_profile'' (job_td job) in if json_truthy s then s else None)"

definition prompt_text :: "agent_env \<Rightarrow> json option \<Rightarrow> string" where
  "prompt_text env job =
     join newline ([''You are a Proofwork worker.'',
       ''Write a concise report of what you would do for this job, and what artifacts you produced.'',
       ''Do not include any secrets. Do not fabricate external verification.'', [],
       ''job_id: '' @ text_of env (jget ''jobId'' job), ''task_type: '' @ job_type env job, ''capability_tags: '' @ job_caps env job, [],
       ''input_spec:'', pretty_lines env (or_object (job_input job)), [],
       ''output_spec:'', pretty_lines env (or_object (job_output job))] @
       (case site_profile_of job of None \<Rightarrow> [] | Some s \<Rightarrow> [[], ''site_profile:'', pretty_lines env s]))"

definition artifact_summary :: "json \<Rightarrow> json" where
  "artifact_summary a =
     JObj (concat (map (\<lambda>k. optional_field k (jget k (Some a))) [''kind'', ''label'', ''contentType'', ''sizeBytes'']))"

definition fenced :: "string \<Rightarrow> string \<Rightarrow> string list" where
  "fenced title body = [title, ''```json'', body, ''```'']"

definition fallback_report :: "agent_env \<Rightarrow> agent_world \<Rightarrow> int \<Rightarrow> json option \<Rightarrow> json list \<Rightarrow> string" where
  "fallback_report env w now job arts =
     join newline ([''# Universal Worker Report'', [],
       ''- job_id: '' @ text_of env (jget ''jobId'' job), ''- task_type: '' @ job_type env job,
       ''- capability_tags: '' @ job_caps env job, ''- generated_at: '' @ aw_iso w now, []] @
       fenced ''## input_spec'' (pretty_lines env (or_object (job_input job))) @ [[]] @
       fenced ''## output_spec'' (pretty_lines env (or_object (job_output job))) @
       (case site_profile_of job of None \<Rightarrow> [] | Some s \<Rightarrow> [[]] @ fenced ''## site_profile'' (pretty_lines env s)) @ [[]] @
       fenced ''## artifacts_produced'' (pretty_lines env (JArr (map artifact_summary arts)))) @ newline"

definition agent_report :: "agent_env \<Rightarrow> agent_world \<Rightarrow> json option \<Rightarrow> string act" where
  "agent_report env w job =
     (case OPENCLAW_AGENT_ID (ae_env env) of
        None \<Rightarrow> done_with []
      | Some agent \<Rightarrow>
          and_then (openclaw_json env w [''agent'', ''--agent'', agent, ''--message'', prompt_text env job,
              ''--thinking'', set_text_or ''low'' (ae_env env ''OPENCLAW_THINKING''), ''--json'']) (\<lambda>j.
            case coalesce (jget ''payloads'' (jget ''result'' (Some j))) (Some (JArr [])) of
              Some (JArr ps) \<Rightarrow>
                done_with (join (newline @ newline) (trimmed_nonblank (map (\<lambda>p. text_of env (jget ''text'' (Some p))) ps)))
            | _ \<Rightarrow> fail_with ''payloads.map is not a function''))"

definition runLlmSummarizeModule :: "agent_env \<Rightarrow> agent_world \<Rightarrow> json option \<Rightarrow> json list \<Rightarrow> json act" where
  "runLlmSummarizeModule env w job arts =
     and_then (agent_report env w job) (\<lambda>report.
     and_then (clock w) (\<lambda>now.
       let text = (if report = [] then fallback_report env w now job arts
                   else if endsWith report newline then report else report @ newline)
       in uploadArtifact env w \<lparr> ui_jobId = jget ''jobId'' job, ui_filename = ''report.md'',
            ui_contentType = ''text/plain'', ui_bytes = text, ui_kind = ''log'', ui_label = ''report_summary'' \<rparr>))"

end
