(* ===== verification/AgentLoop.thy ===== *)
theory AgentLoop
  imports AgentOutputs
begin

text \<open>
  The life of the universal worker (\<open>loop\<close> of \<open>proofwork_worker.mjs\<close>): the health of its browser and of
  ffmpeg, the cache of refused jobs, and one turn of the loop from asking for a job to its submission or
  its release. The loop has no end of its own; it is the relation \<open>agent_run\<close> of its turns.
\<close>

section \<open>State\<close>

text \<open>The refusals are a map in the order of its first insertions, with the time each entry ends.\<close>

record agent_state =
  as_refusals :: "(string \<times> int) list"
  as_browser :: "bool option"
  as_browser_at :: int
  as_ffmpeg :: "bool option"
  as_ffmpeg_at :: int
  as_effective :: "string list option"

definition fresh_agent :: agent_state where
  "fresh_agent = \<lparr> as_refusals = [], as_browser = None, as_browser_at = 0, as_ffmpeg = None, as_ffmpeg_at = 0, as_effective = None \<rparr>"

section \<open>Refused jobs\<close>

definition live_refusals :: "int \<Rightarrow> (string \<times> int) list \<Rightarrow> (string \<times> int) list" where
  "live_refusals now cache = filter (\<lambda>e. now < snd e) cache"

definition pruneRefuseCache :: "int \<Rightarrow> (string \<times> int) list \<Rightarrow> (string \<times> int) list" where
  "pruneRefuseCache now cache = (let live = live_refusals now cache in drop (length live - 200) live)"

fun set_refusal :: "string \<Rightarrow> int \<Rightarrow> (string \<times> int) list \<Rightarrow> (string \<times> int) list" where
  "set_refusal j t [] = [(j, t)]"
| "set_refusal j t (e # es) = (if fst e = j then (j, t) # es else e # set_refusal j t es)"

definition addRefusal :: "int \<Rightarrow> string \<Rightarrow> int \<Rightarrow> (string \<times> int) list \<Rightarrow> (string \<times> int) list" where
  "addRefusal now jobId ttl cache =
     (if jobId = [] then cache else pruneRefuseCache now (set_refusal jobId (now + max 5000 ttl) cache))"

definition excludeJobIds :: "int \<Rightarrow> (string \<times> int) list \<Rightarrow> string list" where
  "excludeJobIds now cache = take 50 (map fst (pruneRefuseCache now cache))"

definition refuse :: "agent_world \<Rightarrow> agent_state \<Rightarrow> string \<Rightarrow> int \<Rightarrow> agent_state act" where
  "refuse w s jobId ttl = and_then (clock w) (\<lambda>now. done_with (s\<lparr>as_refusals := addRefusal now jobId ttl (as_refusals s)\<rparr>))"

section \<open>Health\<close>

definition browser_tags :: "string list" where
  "browser_tags = [''browser'', ''screenshot'']"

definition needs_browser :: "string list \<Rightarrow> bool" where
  "needs_browser base \<longleftrightarrow> ''browser'' \<in> set base \<or> ''screenshot'' \<in> set base"

definition computeEffectiveCapabilityTags :: "agent_env \<Rightarrow> agent_state \<Rightarrow> string list \<Rightarrow> string list" where
  "computeEffectiveCapabilityTags env s base =
     (let base1 = (if ''ffmpeg'' \<in> set base \<and> as_ffmpeg s = Some False then filter (\<lambda>t. t \<noteq> ''ffmpeg'') base else base)
      in if needs_browser base1 \<and> (ac_browser_profile (ae_config env) = None \<or> as_browser s = Some False)
         then filter (\<lambda>t. t \<notin> set browser_tags) base1 else base1)"

definition with_effective :: "agent_env \<Rightarrow> string list \<Rightarrow> agent_state \<Rightarrow> agent_state" where
  "with_effective env base s = s\<lparr>as_effective := Some (computeEffectiveCapabilityTags env s base)\<rparr>"

definition effective_tags :: "agent_env \<Rightarrow> string list \<Rightarrow> agent_state \<Rightarrow> string list" where
  "effective_tags env base s =
     (case as_effective s of Some ts \<Rightarrow> ts | None \<Rightarrow> computeEffectiveCapabilityTags env s base)"

definition tags_json :: "string list \<Rightarrow> json" where
  "tags_json ts = JArr (map JStr ts)"

definition target_of :: "agent_env \<Rightarrow> json \<Rightarrow> string" where
  "target_of env j = trim (text_of env (coalesce (jget ''targetId'' (jget ''tab'' (Some j))) (jget ''targetId'' (Some j))))"

definition blank_tab :: "agent_env \<Rightarrow> agent_world \<Rightarrow> string act" where
  "blank_tab env w =
     and_then (catching (and_then (openclaw_json env w [''browser'', ''tab'', ''new'', ''--json'']) (\<lambda>j. done_with (target_of env j)))
                (\<lambda>_. done_with [])) (\<lambda>target.
       if target \<noteq> [] then done_with target
       else catching (and_then (openclaw_json env w [''browser'', ''open'', ''about:blank'', ''--json''])
                (\<lambda>j. done_with (trim (text_of env (jget ''targetId'' (Some j))))))
              (\<lambda>m. fail_with (''openclaw_browser_open_failed:'' @ take 200 m)))"

definition health_snapshot :: "agent_env \<Rightarrow> agent_world \<Rightarrow> string \<Rightarrow> unit act" where
  "health_snapshot env w target =
     finally_do
       (catching (browser_do env w [''browser'', ''snapshot'', ''--interactive'', ''--compact'', ''--depth'', ''2'',
           ''--target-id'', target, ''--out'', aw_tmp w @ ''/snapshot.role.txt'', ''--json''])
          (\<lambda>m. fail_with (''openclaw_browser_snapshot_failed:'' @ take 200 m)))
       (runOpenClaw env w [''browser'', ''close'', target, ''--json''])"

text \<open>The reason why the browser is not usable, if it is not.\<close>

definition probeOpenClawBrowserHealth :: "agent_env \<Rightarrow> agent_world \<Rightarrow> string option act" where
  "probeOpenClawBrowserHealth env w =
     (if ac_browser_profile (ae_config env) = None then done_with (Some ''missing_openclaw_browser_profile'')
      else catching
        (next_act (catching (ensureOpenClawBrowserReady env w) (\<lambda>m. fail_with (''openclaw_browser_start_failed:'' @ take 200 m)))
          (and_then (blank_tab env w) (\<lambda>target. next_act (health_snapshot env w target) (done_with None))))
        (\<lambda>m. done_with (Some m)))"

definition opt_json :: "string option \<Rightarrow> json" where
  "opt_json x = (case x of None \<Rightarrow> JNull | Some s \<Rightarrow> JStr s)"

definition maybeUpdateBrowserHealth :: "agent_env \<Rightarrow> agent_world \<Rightarrow> string list \<Rightarrow> agent_state \<Rightarrow> agent_state act" where
  "maybeUpdateBrowserHealth env w base s =
     (if \<not> needs_browser base
      then let s' = with_effective env base (s\<lparr>as_browser := None\<rparr>)
           in next_act (tell (WriteStatus [(''effectiveCapabilityTags'', tags_json (the (as_effective s'))), (''browserReady'', JNull),
                (''lastBrowserHealthAt'', JNull), (''lastBrowserError'', JNull)])) (done_with s')
      else and_then (clock w) (\<lambda>now.
        if as_browser s \<noteq> None \<and> now - as_browser_at s < ac_browser_health_ms (ae_config env)
        then done_with (with_effective env base s)
        else and_then (probeOpenClawBrowserHealth env w) (\<lambda>bad.
          let s' = with_effective env base (s\<lparr>as_browser_at := now, as_browser := Some (bad = None)\<rparr>)
          in next_act (tell (WriteStatus [(''browserReady'', JBool (bad = None)), (''lastBrowserHealthAt'', JNum (Fin (of_int now))),
               (''lastBrowserError'', opt_json bad), (''effectiveCapabilityTags'', tags_json (the (as_effective s')))])) (done_with s'))))"

definition probeFfmpegHealth :: "agent_world \<Rightarrow> string option act" where
  "probeFfmpegHealth w =
     and_then (run_command w ''ffmpeg'' [''-version'']) (\<lambda>(code, out, err).
       let msg = take 200 (trim (if err \<noteq> [] then err else out))
       in done_with (if code = 0 then None else Some (''ffmpeg_failed:'' @ (if msg = [] then show_int code else msg))))"

definition maybeUpdateFfmpegHealth :: "agent_env \<Rightarrow> agent_world \<Rightarrow> string list \<Rightarrow> agent_state \<Rightarrow> agent_state act" where
  "maybeUpdateFfmpegHealth env w base s =
     (if ''ffmpeg'' \<notin> set base
      then let s' = with_effective env base (s\<lparr>as_ffmpeg := None\<rparr>)
           in next_act (tell (WriteStatus [(''effectiveCapabilityTags'', tags_json (the (as_effective s'))), (''ffmpegReady'', JNull),
                (''lastFfmpegHealthAt'', JNull), (''lastFfmpegError'', JNull)])) (done_with s')
      else and_then (clock w) (\<lambda>now.
        if as_ffmpeg s \<noteq> None \<and> now - as_ffmpeg_at s < ac_ffmpeg_health_ms (ae_config env)
        then done_with (with_effective env base s)
        else and_then (probeFfmpegHealth w) (\<lambda>bad.
          let s' = with_effective env base (s\<lparr>as_ffmpeg_at := now, as_ffmpeg := Some (bad = None)\<rparr>)
          in next_act (tell (WriteStatus [(''ffmpegReady'', JBool (bad = None)), (''lastFfmpegHealthAt'', JNum (Fin (of_int now))),
               (''lastFfmpegError'', opt_json bad), (''effectiveCapabilityTags'', tags_json (the (as_effective s')))])) (done_with s'))))"

definition update_health :: "agent_env \<Rightarrow> agent_world \<Rightarrow> string list \<Rightarrow> agent_state \<Rightarrow> agent_state act" where
  "update_health env w base s = and_then (maybeUpdateBrowserHealth env w base s) (maybeUpdateFfmpegHealth env w base)"

section \<open>Doing a job\<close>

definition env_true :: "process_env \<Rightarrow> string \<Rightarrow> bool" where
  "env_true env k \<longleftrightarrow> toLowerCase (or_blank (env k)) = ''true''"

definition wants_http :: "agent_env \<Rightarrow> json option \<Rightarrow> bool" where
  "wants_http env job \<longleftrightarrow>
     ''http'' \<in> set (parseCapabilityTags job) \<and>
     (jget ''http_response'' (job_output job) = Some (JBool True) \<or>
      list_ex (\<lambda>r. is_object (Some r) \<and> text_of env (jget ''kind'' (Some r)) = ''log'' \<and> text_of env (jget ''label'' (Some r)) = ''report_http'')
        (job_required job))"

definition is_marketplace :: "json option \<Rightarrow> bool" where
  "is_marketplace job \<longleftrightarrow> str_includes (toLowerCase (or_blank (jstr (jget ''type'' (job_td job))))) ''marketplace''"

definition wants_screenshot :: "json option \<Rightarrow> bool" where
  "wants_screenshot job \<longleftrightarrow>
     (let tags = parseCapabilityTags job in ''browser'' \<in> set tags \<or> ''screenshot'' \<in> set tags \<or> tags = [])"

definition optional_artifact :: "json option act \<Rightarrow> json list act" where
  "optional_artifact m = and_then m (\<lambda>a. done_with (case a of None \<Rightarrow> [] | Some x \<Rightarrow> [x]))"

text \<open>The page of the job: a script, or a screenshot and a snapshot. What it extracts goes to the data files.\<close>

definition browse ::
    "(market_selectors \<Rightarrow> string) \<Rightarrow> agent_env \<Rightarrow> agent_world \<Rightarrow> string list \<Rightarrow> int \<Rightarrow> json option \<Rightarrow> flow_result act" where
  "browse script env w allowed deadline job =
     (if wants_screenshot job \<and> getBrowserFlowSpec job \<noteq> None
      then runOpenClawBrowserFlowModule env w allowed deadline job (getBrowserFlowSpec job)
      else and_then
        (if \<not> wants_screenshot job then done_with ([], [])
         else if is_marketplace job
         then and_then (runOpenClawMarketplacePageModule script env w allowed deadline job) (\<lambda>(shot, items).
                done_with (if items = [] then [] else [(''items'', JArr items)], [shot]))
         else and_then (runOpenClawScreenshotModule env w allowed deadline job) (\<lambda>shot. done_with ([], [shot]))) (\<lambda>(extracted, arts).
        and_then (when_wanted (''snapshot'' \<in> set (parseCapabilityTags job))
             (optional_artifact (runOpenClawSnapshotModule env w allowed deadline job))) (\<lambda>snaps.
          done_with (extracted, arts @ snaps))))"

definition make_clip :: "agent_env \<Rightarrow> agent_world \<Rightarrow> bool option \<Rightarrow> string list \<Rightarrow> int \<Rightarrow> json option \<Rightarrow> json list act" where
  "make_clip env w ffmpegHealthy allowed deadline job =
     next_act (guard_that (ffmpegHealthy \<noteq> Some False) ''ffmpeg_unavailable'')
       (in_order [optional_artifact (runFfmpegClipModule env w allowed deadline job), optional_artifact (runClipTimelineModule env w job)])"

definition make_artifacts ::
    "(market_selectors \<Rightarrow> string) \<Rightarrow> agent_env \<Rightarrow> agent_world \<Rightarrow> bool option \<Rightarrow> string list \<Rightarrow> int \<Rightarrow> json option \<Rightarrow> json list act" where
  "make_artifacts script env w ffmpegHealthy allowed deadline job =
     and_then (browse script env w allowed deadline job) (\<lambda>(extracted, arts).
     and_then (in_order
        [when_wanted (wants_http env job) (optional_artifact (runHttpModule env w allowed (Some deadline) job)),
         when_wanted (requires_video (ae_frac_text env) job) (make_clip env w ffmpegHealthy allowed deadline job),
         runStructuredJsonOutputsModule env w allowed deadline job extracted]) (\<lambda>more.
     and_then (when_wanted (''llm_summarize'' \<in> set (parseCapabilityTags job))
         (and_then (runLlmSummarizeModule env w job (arts @ more)) (\<lambda>a. done_with [a]))) (\<lambda>report.
       done_with (arts @ more @ report))))"

section \<open>One turn\<close>

datatype turn_result = Again agent_state | Finished agent_state

definition num_at :: "agent_world \<Rightarrow> json act" where
  "num_at w = and_then (clock w) (\<lambda>now. done_with (JNum (Fin (of_int now))))"

definition status_at :: "agent_world \<Rightarrow> (json \<Rightarrow> (string \<times> json) list) \<Rightarrow> unit act" where
  "status_at w f = and_then (num_at w) (\<lambda>now. tell (WriteStatus (f now)))"

definition again_after :: "int \<Rightarrow> agent_state \<Rightarrow> turn_result act" where
  "again_after ms s = next_act (tell (Pause ms)) (done_with (Again s))"

definition refusal_status :: "string \<Rightarrow> string \<Rightarrow> json \<Rightarrow> (string \<times> json) list" where
  "refusal_status jobId m now =
     [(''lastRefuseAt'', now), (''lastJobId'', JStr jobId), (''lastErrorAt'', now), (''lastError'', JStr m)]"

definition error_status :: "string \<Rightarrow> json \<Rightarrow> (string \<times> json) list" where
  "error_status m now = [(''lastErrorAt'', now), (''lastError'', JStr m)]"

definition isPaused :: "agent_env \<Rightarrow> agent_world \<Rightarrow> bool act" where
  "isPaused env w tr =
     (Inr (case set_text (ae_env env ''PROOFWORK_PAUSE_FILE'') of None \<Rightarrow> False | Some p \<Rightarrow> aw_is_file w tr p), tr)"

definition min_payout_param :: "agent_env \<Rightarrow> (string \<times> string) list" where
  "min_payout_param env =
     (case ae_env env ''PROOFWORK_MIN_PAYOUT_CENTS'' of
        None \<Rightarrow> []
      | Some s \<Rightarrow> if s = [] \<or> js_number s = NaN \<or> js_number s = Fin 0 then []
                  else [(''min_payout_cents'', number_text (ae_frac_text env) (js_number s))])"

definition text_param :: "string \<Rightarrow> string option \<Rightarrow> (string \<times> string) list" where
  "text_param k v = (case v of None \<Rightarrow> [] | Some x \<Rightarrow> [(k, x)])"

definition require_task_type :: "process_env \<Rightarrow> string option" where
  "require_task_type env =
     set_text (case env ''PROOFWORK_REQUIRE_TASK_TYPE'' of None \<Rightarrow> env ''REQUIRE_TASK_TYPE'' | v \<Rightarrow> v)"

definition next_params :: "agent_env \<Rightarrow> string list \<Rightarrow> string list \<Rightarrow> (string \<times> string) list" where
  "next_params env supported exclude =
     [(''capability_tags'', join '','' supported)] @
     text_param ''capability_tag'' (set_text (ae_env env ''PROOFWORK_PREFER_CAPABILITY_TAG'')) @
     text_param ''task_type'' (require_task_type (ae_env env)) @
     text_param ''require_job_id'' (ac_require_job (ae_config env)) @
     text_param ''require_bounty_id'' (ac_require_bounty (ae_config env)) @
     min_payout_param env @
     (if exclude = [] then [] else [(''exclude_job_ids'', join '','' exclude)])"

definition apiQuery :: "agent_env \<Rightarrow> agent_world \<Rightarrow> string \<Rightarrow> (string \<times> string) list \<Rightarrow> (agent_reply \<times> json option) act" where
  "apiQuery env w path params = and_then (send w (ApiQuery path params)) (\<lambda>r. done_with (r, api_body env r))"

text \<open>What the worker refuses of an offer before it claims it: the reason and how long it is remembered.\<close>

definition offer_refusal :: "agent_env \<Rightarrow> agent_state \<Rightarrow> json option \<Rightarrow> (string \<times> int) option" where
  "offer_refusal env s job =
     (let jobId = text_of env (jget ''jobId'' job);
          bountyId = text_of env (coalesce (jget ''bountyId'' job) (jget ''bounty_id'' job));
          cfg = ae_config env
      in if ac_require_job cfg \<noteq> None \<and> ac_require_job cfg \<noteq> Some jobId then Some (''require_job_id_mismatch'', 120000)
         else if ac_require_bounty cfg \<noteq> None \<and> ac_require_bounty cfg \<noteq> Some bountyId then Some (''require_bounty_id_mismatch'', 120000)
         else if \<not> withinCanary env jobId then Some ([], 300000)
         else case preflightJobOrThrow env (as_ffmpeg s) (compileAllowedOrigins env job) job of
             Inl m \<Rightarrow> Some (''preflight_refused:'' @ m, 600000)
           | Inr _ \<Rightarrow> None)"

definition refuse_offer :: "agent_world \<Rightarrow> agent_state \<Rightarrow> string \<Rightarrow> string \<Rightarrow> int \<Rightarrow> turn_result act" where
  "refuse_offer w s jobId why ttl =
     and_then (refuse w s jobId ttl) (\<lambda>s'.
       next_act (if why = [] then done_with () else status_at w (refusal_status jobId why)) (again_after 250 s'))"

definition claimed_status :: "agent_env \<Rightarrow> agent_world \<Rightarrow> json option \<Rightarrow> string \<Rightarrow> string \<Rightarrow> int \<Rightarrow> json option \<Rightarrow> json \<Rightarrow> (string \<times> json) list" where
  "claimed_status env w job jobId nonce deadline answer now =
     [(''lastClaimAt'', now), (''lastJobId'', JStr (json_text (ae_frac_text env) (the (coalesce (jget ''jobId'' job) (Some (JStr jobId))))))] @
     (if nonce = [] then [] else [(''leaseNonce'', JStr nonce)]) @
     (let x = jget ''leaseExpiresAt'' (jget ''data'' answer) in if json_truthy x then [(''leaseExpiresAt'', aw_date_ms w (the x))] else []) @
     [(''jobDeadlineMs'', JNum (Fin (of_int deadline)))]"

text \<open>The \<open>try\<close> block of a claimed job.\<close>

definition do_job ::
    "(market_selectors \<Rightarrow> string) \<Rightarrow> agent_env \<Rightarrow> agent_world \<Rightarrow> string \<Rightarrow> agent_state \<Rightarrow> int \<Rightarrow> string \<Rightarrow> json option \<Rightarrow> turn_result act" where
  "do_job script env w workerId s deadline jobId job =
     and_then (make_artifacts script env w (as_ffmpeg s) (compileAllowedOrigins env job) deadline job) (\<lambda>arts.
     next_act (submitJob env w workerId job arts)
    (next_act (status_at w (\<lambda>now. [(''lastSubmitAt'', now),
        (''lastJobId'', JStr (json_text (ae_frac_text env) (the (coalesce (jget ''jobId'' job) (Some (JStr jobId)))))), (''lastError'', JNull)]))
    (next_act (if env_true (ae_env env) ''WAIT_FOR_DONE'' then pollUntilDone env w 120 (job_id_text env job) else done_with ())
    (if env_true (ae_env env) ''ONCE'' then done_with (Finished s) else again_after 500 s))))"

definition job_failed :: "agent_env \<Rightarrow> agent_world \<Rightarrow> agent_state \<Rightarrow> string \<Rightarrow> string \<Rightarrow> string \<Rightarrow> turn_result act" where
  "job_failed env w s jobId nonce m =
     next_act (status_at w (\<lambda>now. error_status m now @ [(''lastJobId'', JStr jobId)]))
    (next_act (releaseLeaseEarly env w jobId nonce (take 200 m))
    (and_then (refuse w s jobId 600000) (again_after (ac_backoff_ms (ae_config env)))))"

definition work_on ::
    "(market_selectors \<Rightarrow> string) \<Rightarrow> agent_env \<Rightarrow> agent_world \<Rightarrow> string \<Rightarrow> agent_state \<Rightarrow> string \<Rightarrow> json option \<Rightarrow> json option \<Rightarrow> turn_result act" where
  "work_on script env w workerId s jobId offered answer =
     (let job = coalesce (jget ''job'' (jget ''data'' answer)) offered;
          nonce = text_of env (jget ''leaseNonce'' (jget ''data'' answer))
      in and_then (clock w) (\<lambda>now.
         let deadline = computeJobDeadlineMs env now job in
         next_act (status_at w (claimed_status env w job jobId nonce deadline answer))
           (catching (do_job script env w workerId s deadline jobId job) (job_failed env w s jobId nonce))))"

definition claim_offer ::
    "(market_selectors \<Rightarrow> string) \<Rightarrow> agent_env \<Rightarrow> agent_world \<Rightarrow> string \<Rightarrow> agent_state \<Rightarrow> string \<Rightarrow> json option \<Rightarrow> turn_result act" where
  "claim_offer script env w workerId s jobId job =
     and_then (apiFetch env w ''POST'' (''/api/jobs/'' @ encodeURIComponent jobId @ ''/claim'') None True) (\<lambda>(r, answer).
       if \<not> http_ok r
       then and_then (refuse w s jobId 10000) (\<lambda>s'.
              next_act (status_at w (error_status (''claim_failed:'' @ show_nat (rp_status r)))) (again_after (ac_poll_ms (ae_config env)) s'))
       else work_on script env w workerId s jobId job answer)"

definition handle_offer ::
    "(market_selectors \<Rightarrow> string) \<Rightarrow> agent_env \<Rightarrow> agent_world \<Rightarrow> string \<Rightarrow> agent_state \<Rightarrow> json option \<Rightarrow> turn_result act" where
  "handle_offer script env w workerId s job =
     (let jobId = text_of env (jget ''jobId'' job);
          offered = status_at w (\<lambda>now. [(''lastJobId'', JStr jobId), (''lastOfferAt'', now)])
      in if jobId = []
         then next_act (status_at w (error_status ''jobs_next_missing_job_id'')) (again_after (ac_backoff_ms (ae_config env)) s)
         else case offer_refusal env s job of
             Some (why, ttl) \<Rightarrow>
               next_act (if startsWith why ''require_'' then done_with () else offered) (refuse_offer w s jobId why ttl)
           | None \<Rightarrow> next_act offered (claim_offer script env w workerId s jobId job))"

definition ask_and_work ::
    "(market_selectors \<Rightarrow> string) \<Rightarrow> agent_env \<Rightarrow> agent_world \<Rightarrow> string list \<Rightarrow> string \<Rightarrow> agent_state \<Rightarrow> turn_result act" where
  "ask_and_work script env w base workerId s =
     and_then (update_health env w base s) (\<lambda>s1.
     and_then (clock w) (\<lambda>now.
       let exclude = excludeJobIds now (as_refusals s1);
           s2 = s1\<lparr>as_refusals := pruneRefuseCache now (as_refusals s1)\<rparr> in
     next_act (status_at w (\<lambda>t. [(''paused'', JBool False), (''lastPollAt'', t),
         (''excludeJobIdsCount'', JNum (Fin (of_nat (length exclude))))]))
    (and_then (apiQuery env w ''/api/jobs/next'' (next_params env (effective_tags env base s2) exclude)) (\<lambda>(r, j).
       if \<not> http_ok r
       then next_act (status_at w (error_status (''jobs_next_failed:'' @ show_nat (rp_status r)))) (again_after (ac_backoff_ms (ae_config env)) s2)
       else if jget ''state'' j \<noteq> Some (JStr ''claimable'')
       then (if env_true (ae_env env) ''ONCE'' then done_with (Finished s2) else again_after (ac_poll_ms (ae_config env)) s2)
       else if nullish (jget ''data'' j) then fail_with ''Cannot read properties of undefined''
       else handle_offer script env w workerId s2 (jget ''job'' (jget ''data'' j))))))"

definition turn ::
    "(market_selectors \<Rightarrow> string) \<Rightarrow> agent_env \<Rightarrow> agent_world \<Rightarrow> string list \<Rightarrow> string \<Rightarrow> agent_state \<Rightarrow> turn_result act" where
  "turn script env w base workerId s =
     and_then (isPaused env w) (\<lambda>paused.
       if paused
       then next_act (status_at w (\<lambda>now. [(''paused'', JBool True), (''lastPollAt'', now)]))
              (again_after (max 250 (ac_poll_ms (ae_config env))) s)
       else ask_and_work script env w base workerId s)"

section \<open>The loop\<close>

definition report_version :: "agent_env \<Rightarrow> agent_world \<Rightarrow> unit act" where
  "report_version env w =
     catching (and_then (apiFetch env w ''GET'' ''/api/version'' None True) (\<lambda>(r, j).
         if http_ok r \<and> json_truthy (jget ''apiVersion'' j)
         then tell (WriteStatus [(''api'', JObj [(''version'', the (jget ''apiVersion'' j)),
                (''serverVersion'', the (coalesce (jget ''serverVersion'' j) (Some JNull)))])])
         else done_with ())) (\<lambda>_. done_with ())"

text \<open>Everything before the first turn: the worker's id and the state.\<close>

definition start_loop :: "agent_env \<Rightarrow> agent_world \<Rightarrow> (string \<times> agent_state) act" where
  "start_loop env w =
     (let base = supportedCapabilityTags (ae_env env) in
      and_then (ensureWorkerToken env w) (\<lambda>(token, workerId).
      next_act (report_version env w)
     (next_act (maybeConfigurePayoutAddress env w)
     (and_then (update_health env w base fresh_agent) (\<lambda>s.
      next_act (status_at w (\<lambda>now. [(''startedAt'', now), (''pid'', JNum (Fin (of_int (aw_pid w)))), (''workerId'', JStr workerId),
          (''supportedCapabilityTags'', tags_json base), (''effectiveCapabilityTags'', tags_json (effective_tags env base s))]))
        (done_with (workerId, s)))))))"

text \<open>The turns that follow a state; one that throws ends the process.\<close>

inductive agent_run ::
    "(market_selectors \<Rightarrow> string) \<Rightarrow> agent_env \<Rightarrow> agent_world \<Rightarrow> string list \<Rightarrow> string \<Rightarrow>
     agent_state \<times> agent_call list \<Rightarrow> agent_state \<times> agent_call list \<Rightarrow> bool"
  for script env w base workerId where
  agent_idle: "agent_run script env w base workerId c c"
| agent_turn: "agent_run script env w base workerId c (s, tr) \<Longrightarrow>
    turn script env w base workerId s tr = (Inr (Again s'), tr') \<Longrightarrow> agent_run script env w base workerId c (s', tr')"

end
