(* ===== verification/AgentSafety.thy ===== *)
theory AgentSafety
  imports AgentLoop Judge
begin

text \<open>
  What the universal worker does with an untrusted job. A small calculus says which calls a program can
  make (\<open>stays\<close>, one rule per construct); the locale \<open>worker_policy\<close> proves once, for every module, that
  its calls respect any policy that admits checked urls and authorised values, and is interpreted on the
  two policies that matter.
\<close>

section \<open>Calls of a program\<close>

named_theorems stays_rules

definition stays :: "(agent_call \<Rightarrow> bool) \<Rightarrow> 'a act \<Rightarrow> bool" where
  "stays ok m \<longleftrightarrow> (\<forall>tr. \<exists>cs. snd (m tr) = tr @ cs \<and> list_all ok cs)"

lemma staysI: "(\<And>tr. \<exists>cs. snd (m tr) = tr @ cs \<and> list_all ok cs) \<Longrightarrow> stays ok m"
  by (simp add: stays_def)

lemma stays_one: "(\<And>tr. snd (m tr) = tr @ [c]) \<Longrightarrow> ok c \<Longrightarrow> stays ok m"
  by (rule staysI) simp

lemma stays_none: "(\<And>tr. snd (m tr) = tr) \<Longrightarrow> stays ok m"
  by (rule staysI) simp

lemma stays_done [stays_rules]: "stays ok (done_with x)"
  by (rule stays_none) (simp add: done_with_def)

lemma stays_fail [stays_rules]: "stays ok (fail_with m)"
  by (rule stays_none) (simp add: fail_with_def)

lemma stays_lift [stays_rules]: "stays ok (lift_result r)"
  by (rule stays_none) (simp add: lift_result_def)

lemma stays_clock [stays_rules]: "stays ok (clock w)"
  by (rule stays_none) (simp add: clock_def)

lemma stays_guard [stays_rules]: "stays ok (guard_that b m)"
  by (simp add: guard_that_def stays_done stays_fail)

lemma stays_size [stays_rules]: "stays ok (file_size w p)"
  by (rule stays_none) (simp add: file_size_def)

lemma stays_send [stays_rules]: "ok c \<Longrightarrow> stays ok (send w c)"
  by (rule stays_one [of _ c]) (simp_all add: send_def)

lemma stays_tell [stays_rules]: "ok c \<Longrightarrow> stays ok (tell c)"
  by (rule stays_one [of _ c]) (simp_all add: tell_def)

lemma stays_read [stays_rules]: "ok (ReadFile p) \<Longrightarrow> stays ok (read_bytes w p)"
  by (rule stays_one [of _ "ReadFile p"]) (simp_all add: read_bytes_def)

lemma stays_command [stays_rules]: "ok (Command b args) \<Longrightarrow> stays ok (run_command w b args)"
  by (rule stays_one [of _ "Command b args"]) (simp_all add: run_command_def)

lemma stays_ffmpeg [stays_rules]: "ok (Command ''ffmpeg'' args) \<Longrightarrow> stays ok (run_ffmpeg w args)"
  by (rule stays_one [of _ "Command ''ffmpeg'' args"]) (simp_all add: run_ffmpeg_def)

text \<open>Sequences: what follows runs only with the value of a success.\<close>

lemma stays_seq:
  assumes "stays ok m" and "\<And>x tr tr'. m tr = (Inr x, tr') \<Longrightarrow> stays ok (f x)"
  shows "stays ok (and_then m f)"
proof (rule staysI)
  fix tr
  obtain cs where cs: "snd (m tr) = tr @ cs" "list_all ok cs" using assms(1) by (auto simp: stays_def)
  show "\<exists>cs. snd (and_then m f tr) = tr @ cs \<and> list_all ok cs"
  proof (cases "m tr")
    case (Pair r tr')
    show ?thesis
    proof (cases r)
      case (Inl e)
      with Pair cs show ?thesis by (auto simp: and_then_def)
    next
      case (Inr x)
      from assms(2) [of tr x tr'] Pair Inr obtain ds where "snd (f x tr') = tr' @ ds" "list_all ok ds"
        by (auto simp: stays_def)
      with Pair Inr cs show ?thesis by (intro exI [of _ "cs @ ds"]) (simp add: and_then_def)
    qed
  qed
qed

lemma stays_next_of: "stays ok m \<Longrightarrow> (\<And>x tr tr'. m tr = (Inr x, tr') \<Longrightarrow> stays ok n) \<Longrightarrow> stays ok (next_act m n)"
  by (simp add: next_act_def stays_seq)

lemma stays_and_then [stays_rules]: "stays ok m \<Longrightarrow> (\<And>x. stays ok (f x)) \<Longrightarrow> stays ok (and_then m f)"
  by (rule stays_seq)

lemma stays_next [stays_rules]: "stays ok m \<Longrightarrow> stays ok n \<Longrightarrow> stays ok (next_act m n)"
  by (rule stays_next_of)

lemma stays_lift_then: "(\<And>x. r = Inr x \<Longrightarrow> stays ok (f x)) \<Longrightarrow> stays ok (and_then (lift_result r) f)"
  by (rule stays_seq [OF stays_lift]) (simp add: lift_result_def)

lemma stays_lift_next: "(\<And>x. r = Inr x \<Longrightarrow> stays ok n) \<Longrightarrow> stays ok (next_act (lift_result r) n)"
  by (simp add: next_act_def stays_lift_then)

lemma stays_catching [stays_rules]:
  assumes "stays ok m" and "\<And>e. stays ok (h e)"
  shows "stays ok (catching m h)"
proof (rule staysI)
  fix tr
  obtain cs where cs: "snd (m tr) = tr @ cs" "list_all ok cs" using assms(1) by (auto simp: stays_def)
  show "\<exists>cs. snd (catching m h tr) = tr @ cs \<and> list_all ok cs"
  proof (cases "m tr")
    case (Pair r tr')
    show ?thesis
    proof (cases r)
      case (Inl e)
      from assms(2) [of e] obtain ds where "snd (h e tr') = tr' @ ds" "list_all ok ds" by (auto simp: stays_def)
      with Pair Inl cs show ?thesis by (intro exI [of _ "cs @ ds"]) (simp add: catching_def)
    next
      case (Inr x)
      with Pair cs show ?thesis by (auto simp: catching_def)
    qed
  qed
qed

lemma stays_finally [stays_rules]:
  assumes "stays ok m" and "stays ok n"
  shows "stays ok (finally_do m n)"
proof (rule staysI)
  fix tr
  obtain cs where cs: "snd (m tr) = tr @ cs" "list_all ok cs" using assms(1) by (auto simp: stays_def)
  moreover obtain ds where "snd (n (tr @ cs)) = (tr @ cs) @ ds" "list_all ok ds" using assms(2) unfolding stays_def by blast
  ultimately show "\<exists>cs. snd (finally_do m n tr) = tr @ cs \<and> list_all ok cs"
    by (intro exI [of _ "cs @ ds"]) (auto simp: finally_do_def split: prod.split)
qed

text \<open>Case distinctions.\<close>

lemma stays_if [stays_rules]: "(b \<Longrightarrow> stays ok m) \<Longrightarrow> (\<not> b \<Longrightarrow> stays ok n) \<Longrightarrow> stays ok (if b then m else n)"
  by simp

lemma stays_let [stays_rules]: "(\<And>x. x = a \<Longrightarrow> stays ok (f x)) \<Longrightarrow> stays ok (Let a f)"
  by simp

lemma stays_option [stays_rules]:
  "(x = None \<Longrightarrow> stays ok m) \<Longrightarrow> (\<And>y. x = Some y \<Longrightarrow> stays ok (f y)) \<Longrightarrow> stays ok (case x of None \<Rightarrow> m | Some y \<Rightarrow> f y)"
  by (simp split: option.split)

lemma stays_sum [stays_rules]:
  "(\<And>y. x = Inl y \<Longrightarrow> stays ok (f y)) \<Longrightarrow> (\<And>y. x = Inr y \<Longrightarrow> stays ok (g y)) \<Longrightarrow> stays ok (case x of Inl y \<Rightarrow> f y | Inr y \<Rightarrow> g y)"
  by (simp split: sum.split)

lemma stays_prod [stays_rules]: "(\<And>a b. x = (a, b) \<Longrightarrow> stays ok (f a b)) \<Longrightarrow> stays ok (case x of (a, b) \<Rightarrow> f a b)"
  by (simp split: prod.split)

lemma stays_list [stays_rules]:
  "(x = [] \<Longrightarrow> stays ok m) \<Longrightarrow> (\<And>a b. x = a # b \<Longrightarrow> stays ok (f a b)) \<Longrightarrow> stays ok (case x of [] \<Rightarrow> m | a # b \<Rightarrow> f a b)"
  by (simp split: list.split)

lemma stays_json [stays_rules]:
  "stays ok n \<Longrightarrow> (\<And>b. stays ok (fb b)) \<Longrightarrow> (\<And>x. stays ok (fn x)) \<Longrightarrow> (\<And>s. stays ok (fs s)) \<Longrightarrow>
   (\<And>xs. stays ok (fa xs)) \<Longrightarrow> (\<And>xs. stays ok (fo xs)) \<Longrightarrow> stays ok (case_json n fb fn fs fa fo j)"
  by (cases j) auto

section \<open>What a call visits and types\<close>

text \<open>The words of a browser command after the options the worker adds.\<close>

definition added_option :: "string \<Rightarrow> bool" where
  "added_option s \<longleftrightarrow> s \<in> {''--url'', ''--token'', ''--browser-profile''}"

fun skip_options :: "string list \<Rightarrow> string list" where
  "skip_options (f # v # r) = (if added_option f then skip_options r else f # v # r)"
| "skip_options r = r"

definition visited :: "agent_call \<Rightarrow> string option" where
  "visited c =
     (case c of
        WebGet u \<Rightarrow> Some u
      | Command b args \<Rightarrow>
          (case args of
             [] \<Rightarrow> None
           | a # r \<Rightarrow>
               if a = ''browser''
               then (case skip_options r of p # u # _ \<Rightarrow> if p = ''open'' \<or> p = ''navigate'' then Some u else None | _ \<Rightarrow> None)
               else if a = ''-y'' then (case r of _ # _ # _ # u # _ \<Rightarrow> Some u | _ \<Rightarrow> None) else None)
      | _ \<Rightarrow> None)"

definition typed :: "agent_call \<Rightarrow> string option" where
  "typed c =
     (case c of
        Command b args \<Rightarrow>
          (case args of
             [] \<Rightarrow> None
           | a # r \<Rightarrow>
               if a = ''browser'' then (case skip_options r of p # _ # v # _ \<Rightarrow> if p = ''type'' then Some v else None | _ \<Rightarrow> None)
               else None)
      | _ \<Rightarrow> None)"

lemma skip_flag_option: "\<not> added_option p \<Longrightarrow> added_option flag \<Longrightarrow>
    skip_options (flag_option rest flag v @ r) = skip_options r"
  by (auto simp: flag_option_def split: option.split)

lemma skip_openclaw_args:
  assumes "\<not> added_option p"
  shows "\<exists>r. openclaw_args pe (''browser'' # p # rest) = ''browser'' # r \<and> skip_options r = p # rest"
proof -
  let ?rest = "p # rest" and ?url = "set_text (pe ''OPENCLAW_GATEWAY_URL'')"
  let ?t = "if ?url = None then [] else flag_option ?rest ''--token'' (set_text (pe ''OPENCLAW_GATEWAY_TOKEN''))"
  have flags: "added_option ''--url''" "added_option ''--token''" "added_option ''--browser-profile''"
    by (simp_all add: added_option_def)
  have last: "skip_options ?rest = ?rest" using assms by (cases rest) simp_all
  have "skip_options (?t @ r) = skip_options r" for r
    using skip_flag_option [OF assms flags(2)] by simp
  with last show ?thesis
    by (simp add: openclaw_args_def Let_def skip_flag_option [OF assms flags(1)] skip_flag_option [OF assms flags(3)])
qed

lemma browser_command:
  assumes "\<not> added_option p"
  shows "visited (Command b (openclaw_args pe (''browser'' # p # rest))) =
      (if p = ''open'' \<or> p = ''navigate'' then (case rest of u # _ \<Rightarrow> Some u | [] \<Rightarrow> None) else None)"
    and "typed (Command b (openclaw_args pe (''browser'' # p # rest))) =
      (if p = ''type'' then (case rest of _ # v # _ \<Rightarrow> Some v | _ \<Rightarrow> None) else None)"
proof -
  obtain r where r: "openclaw_args pe (''browser'' # p # rest) = ''browser'' # r" "skip_options r = p # rest"
    using skip_openclaw_args [OF assms] by blast
  show "visited (Command b (openclaw_args pe (''browser'' # p # rest))) =
      (if p = ''open'' \<or> p = ''navigate'' then (case rest of u # _ \<Rightarrow> Some u | [] \<Rightarrow> None) else None)"
    by (subst r(1)) (simp add: visited_def r(2) split: list.split)
  show "typed (Command b (openclaw_args pe (''browser'' # p # rest))) =
      (if p = ''type'' then (case rest of _ # v # _ \<Rightarrow> Some v | _ \<Rightarrow> None) else None)"
    by (subst r(1)) (simp add: typed_def r(2) split: list.split)
qed

lemma other_command:
  "openclaw_args pe (''agent'' # rest) = ''agent'' # rest" by (simp add: openclaw_args_def)

lemma quiet_calls:
  "visited (ApiCall m p b a) = None" "typed (ApiCall m p b a) = None"
  "visited (ApiQuery p q) = None" "typed (ApiQuery p q) = None"
  "visited (UploadPut u h t x) = None" "typed (UploadPut u h t x) = None"
  "visited (ArtifactGet u) = None" "typed (ArtifactGet u) = None"
  "visited (SubmitCall u k j) = None" "typed (SubmitCall u k j) = None"
  "visited (ReadFile p) = None" "typed (ReadFile p) = None"
  "visited (WriteStatus h) = None" "typed (WriteStatus h) = None"
  "visited (StoreToken p j) = None" "typed (StoreToken p j) = None"
  "visited (LogLine l) = None" "typed (LogLine l) = None"
  "visited BrowserReady = None" "typed BrowserReady = None"
  "visited (Pause n) = None" "typed (Pause n) = None"
  "visited (WebGet u) = Some u" "typed (WebGet u) = None"
  by (simp_all add: visited_def typed_def)

section \<open>Every module respects a policy\<close>

text \<open>A policy on calls: it admits what neither visits nor types, visits of urls that have passed the worker's
  checks, and values of fill steps the worker may type.\<close>

locale worker_policy =
  fixes env :: agent_env and allowed :: "string list" and steps :: "json list" and ok :: "agent_call \<Rightarrow> bool"
  assumes quiet: "visited c = None \<Longrightarrow> typed c = None \<Longrightarrow> ok c"
    and visit: "check_url env allowed u what = Inr () \<Longrightarrow> visited c = Some u \<Longrightarrow> typed c = None \<Longrightarrow> ok c"
    and typing: "s \<in> set steps \<Longrightarrow> pickFillValue env (Some s) = Inr v \<Longrightarrow> typed c = Some v \<Longrightarrow> visited c = None \<Longrightarrow> ok c"
begin

lemma quiet_ok [simp]:
  "ok (ApiCall m p b a)" "ok (ApiQuery p q)" "ok (UploadPut u h t x)" "ok (ArtifactGet u)" "ok (SubmitCall u k j)"
  "ok (ReadFile p)" "ok (WriteStatus h)" "ok (StoreToken p j)" "ok (LogLine l)" "ok BrowserReady" "ok (Pause n)"
  by (rule quiet; simp add: quiet_calls)+

lemma browser_ok [simp]:
  "\<not> added_option p \<Longrightarrow> p \<noteq> ''open'' \<Longrightarrow> p \<noteq> ''navigate'' \<Longrightarrow> p \<noteq> ''type'' \<Longrightarrow>
   ok (Command b (openclaw_args pe (''browser'' # p # rest)))"
  by (rule quiet) (simp_all add: browser_command)

lemma visit_ok:
  "check_url env allowed u what = Inr () \<Longrightarrow> p = ''open'' \<or> p = ''navigate'' \<Longrightarrow>
   ok (Command b (openclaw_args pe (''browser'' # p # u # rest)))"
  by (erule visit) (auto simp: browser_command added_option_def)

lemma type_ok:
  "s \<in> set steps \<Longrightarrow> pickFillValue env (Some s) = Inr v \<Longrightarrow>
   ok (Command b (openclaw_args pe (''browser'' # ''type'' # r # v # rest)))"
  by (erule typing) (auto simp: browser_command added_option_def)

lemma other_ok [simp]: "a \<noteq> ''browser'' \<Longrightarrow> a \<noteq> ''-y'' \<Longrightarrow> ok (Command b (a # rest))"
  by (rule quiet) (simp_all add: visited_def typed_def)

lemma stays_openclaw [stays_rules]:
  "ok (Command (openclaw_bin (ae_env env)) (openclaw_args (ae_env env) args)) \<Longrightarrow> stays ok (runOpenClaw env w args)"
  unfolding runOpenClaw_def by (intro stays_rules)

lemma stays_openclaw_json [stays_rules]:
  "ok (Command (openclaw_bin (ae_env env)) (openclaw_args (ae_env env) args)) \<Longrightarrow> stays ok (openclaw_json env w args)"
  unfolding openclaw_json_def by (intro stays_rules)

lemma stays_browser_do [stays_rules]:
  "ok (Command (openclaw_bin (ae_env env)) (openclaw_args (ae_env env) args)) \<Longrightarrow> stays ok (browser_do env w args)"
  unfolding browser_do_def by (intro stays_rules)

lemma stays_apiFetch [stays_rules]: "stays ok (apiFetch env w m p b a)"
  unfolding apiFetch_def by (intro stays_rules) simp

lemma stays_await_scan [stays_rules]: "stays ok (await_scan env w n url)"
  by (induction n) (auto simp: Let_def intro!: stays_rules)

lemma stays_upload [stays_rules]: "stays ok (uploadArtifact env w x)"
  unfolding uploadArtifact_def waitForArtifactScanned_def by (intro stays_rules; simp)

lemma stays_follow [stays_rules]: "stays ok (follow env w allowed deadline i n url resp)"
proof (induction n arbitrary: i url resp)
  case (Suc n)
  have get: "ok (WebGet u)" if "check_url env allowed u what = Inr x" for u what x
    using that by (intro visit [of u what]) (simp_all add: quiet_calls)
  show ?case unfolding follow.simps
    by (intro stays_and_then stays_next stays_clock stays_guard stays_lift_next stays_send stays_if stays_done stays_option
        stays_fail Suc) (auto intro: get)
qed (simp add: stays_done)

lemma stays_redirects [stays_rules]: "stays ok (fetchWithManualRedirects env w allowed deadline url)"
  unfolding fetchWithManualRedirects_def by (rule stays_follow)

lemma stays_fetch_json [stays_rules]: "stays ok (fetchJsonLimited env w allowed deadline url)"
  unfolding fetchJsonLimited_def by (intro stays_rules)

lemma stays_ready [stays_rules]: "stays ok (ensureOpenClawBrowserReady env w)"
proof -
  have go: "stays ok (next_act (catching (and_then (runOpenClaw env w [''browser'', ''create-profile'', ''--name'', p, ''--json'']) (\<lambda>_. done_with ())) (\<lambda>_. done_with ()))
      (next_act (catching (and_then (runOpenClaw env w [''browser'', ''start'', ''--json'']) (\<lambda>_. done_with ()))
        (\<lambda>m. fail_with (''openclaw_browser_start_failed:'' @ take 300 m))) (tell BrowserReady)))" for p
    by (intro stays_rules; simp add: added_option_def)
  show ?thesis
  proof (rule staysI)
    fix tr
    show "\<exists>cs. snd (ensureOpenClawBrowserReady env w tr) = tr @ cs \<and> list_all ok cs"
      using go unfolding stays_def ensureOpenClawBrowserReady_def by (auto split: option.split)
  qed
qed

lemma stays_snapshot_ref [stays_rules]: "stays ok (step_ref env w target step)"
  unfolding step_ref_def resolveRefViaSnapshot_def by (intro stays_rules; simp add: added_option_def)

lemma stays_page_policy [stays_rules]: "stays ok (enforcePagePolicy env w allowed target what)"
  unfolding enforcePagePolicy_def by (intro stays_rules; simp add: added_option_def)

lemma stays_in_time [stays_rules]: "stays ok (in_time w deadline)"
  unfolding in_time_def by (intro stays_rules)

lemma stays_close [stays_rules]: "stays ok (close_page env w target)"
  unfolding close_page_def by (intro stays_rules; simp add: added_option_def)

lemma stays_open [stays_rules]: "stays ok (open_page env w allowed deadline startUrl)"
  unfolding open_page_def
  by (intro stays_next stays_lift_next stays_and_then stays_openclaw_json stays_in_time stays_let stays_if stays_fail stays_done)
    (auto intro: visit_ok)

lemma stays_upload_screenshot [stays_rules]: "stays ok (upload_screenshot env w job path stem label)"
  unfolding upload_screenshot_def by (intro stays_rules; simp)

lemma stays_flow_screenshot [stays_rules]: "stays ok (flow_screenshot env w job target full stem label)"
  unfolding flow_screenshot_def by (intro stays_rules; simp add: added_option_def)

lemma stays_page_screenshot [stays_rules]: "stays ok (page_screenshot env w job target)"
  unfolding page_screenshot_def by (intro stays_rules; simp add: added_option_def)

lemma stays_screenshot_module [stays_rules]: "stays ok (runOpenClawScreenshotModule env w allowed deadline job)"
  unfolding runOpenClawScreenshotModule_def by (intro stays_rules)

lemma stays_snapshot_module [stays_rules]: "stays ok (runOpenClawSnapshotModule env w allowed deadline job)"
  unfolding runOpenClawSnapshotModule_def
  by (intro stays_let stays_if stays_done stays_lift_next stays_next stays_ready stays_in_time stays_and_then stays_openclaw_json
      stays_finally stays_page_policy stays_read stays_upload stays_close)
    (auto intro: visit_ok simp: added_option_def)

lemma stays_marketplace [stays_rules]:
  "stays ok (runOpenClawMarketplacePageModule script env w allowed deadline job)"
  unfolding runOpenClawMarketplacePageModule_def by (intro stays_rules; simp add: added_option_def)

lemma stays_run_step:
  assumes "st \<in> set steps"
  shows "stays ok (run_step env w allowed deadline job startUrl target i op (Some st) acc)"
proof -
  have nav: "stays ok (next_act (lift_result (check_url env allowed url what))
      (next_act (log_step i l) (next_act (browser_do env w [''browser'', ''navigate'', url, ''--target-id'', target, ''--json'']) m)))"
    if "stays ok m" for url what l and m :: "unit act"
    using that by (intro stays_lift_next stays_next stays_tell stays_browser_do) (auto intro: visit_ok)
  have fill: "stays ok (and_then (lift_result (pickFillValue env (Some st))) (\<lambda>val. next_act (log_step i (l val))
      (browser_do env w [''browser'', ''type'', r, val, ''--target-id'', target, ''--json''])))" for l r
    by (intro stays_lift_then stays_next stays_tell stays_browser_do) (auto intro: type_ok [OF assms])
  show ?thesis unfolding run_step_def Let_def
    by (intro nav fill stays_rules; simp add: added_option_def)
qed

lemma stays_run_steps:
  "set ss \<subseteq> set steps \<Longrightarrow> stays ok (run_steps env w allowed deadline job startUrl target cont i ss acc)"
proof (induction ss arbitrary: i acc)
  case (Cons s ss)
  then have "s \<in> set steps" "\<And>i acc. stays ok (run_steps env w allowed deadline job startUrl target cont i ss acc)" by simp_all
  then show ?case unfolding run_steps.simps Let_def
    by (intro stays_rules stays_run_step; simp)
qed (simp add: stays_done)

lemma stays_flow [stays_rules]:
  assumes "set (flow_steps flow) \<subseteq> set steps"
  shows "stays ok (runOpenClawBrowserFlowModule env w allowed deadline job flow)"
proof -
  have sub: "set (normalizeBrowserFlowSteps (ae_frac_text env) flow) \<subseteq> set steps"
    using assms set_take_subset by (fastforce simp: normalizeBrowserFlowSteps_def)
  have page: "stays ok (flow_on_page env w allowed deadline job flow startUrl target)" for startUrl target
    unfolding flow_on_page_def by (intro stays_rules stays_run_steps sub)
  have len: "stays ok history_length" by (rule stays_none) (simp add: history_length_def)
  have log: "stays ok (flow_log env w job n x)" for n x by (rule stays_none) (simp add: flow_log_def)
  have open_ok: "stays ok (next_act (next_act (in_time w deadline) (lift_result (check_url env allowed u what)))
      (next_act (tell (LogLine l)) (and_then (openclaw_json env w [''browser'', ''open'', u, ''--json'']) f)))"
    if "\<And>x. stays ok (f x)" for u what l and f :: "json \<Rightarrow> flow_result act"
  proof (rule stays_next_of)
    show "stays ok (next_act (in_time w deadline) (lift_result (check_url env allowed u what)))" by (intro stays_rules)
  next
    fix x tr tr'
    assume "next_act (in_time w deadline) (lift_result (check_url env allowed u what)) tr = (Inr x, tr')"
    then have "check_url env allowed u what = Inr ()"
      by (auto simp: next_act_def and_then_def lift_result_def split: prod.split_asm sum.split_asm)
    with that show "stays ok (next_act (tell (LogLine l)) (and_then (openclaw_json env w [''browser'', ''open'', u, ''--json'']) f))"
      by (intro stays_next stays_tell stays_and_then stays_openclaw_json) (auto intro: visit_ok)
  qed
  show ?thesis unfolding runOpenClawBrowserFlowModule_def Let_def
    by (intro stays_if stays_fail stays_next [OF stays_ready] stays_and_then [OF len] open_ok stays_rules page log)
qed

lemma stays_llm_references [stays_rules]: "stays ok (maybeGetArxivReferencesFromLlm env w idea)"
  unfolding maybeGetArxivReferencesFromLlm_def by (intro stays_rules; simp)

lemma stays_arxiv [stays_rules]: "stays ok (getArxivReferencesFromApi env w allowed deadline q)"
  unfolding getArxivReferencesFromApi_def by (intro stays_rules)

lemma stays_remotive [stays_rules]: "stays ok (getRemotiveJobsRowsFromApi env w allowed deadline spec)"
  unfolding getRemotiveJobsRowsFromApi_def by (intro stays_rules)

lemma stays_github_url [stays_rules]: "stays ok (github_url w pe path params)"
  unfolding github_url_def by (intro stays_rules)

lemma stays_github [stays_rules]:
  "stays ok (getGithubReposFromApi env w allowed deadline spec)"
  "stays ok (getGithubEventsFromApi env w allowed deadline spec)"
  unfolding getGithubReposFromApi_def getGithubEventsFromApi_def by (intro stays_rules)+

lemma stays_emit_output [stays_rules]: "stays ok (emit_output env w job pre obj)"
  unfolding emit_output_def upload_json_def by (intro stays_rules)

lemma stays_when [stays_rules]: "stays ok m \<Longrightarrow> stays ok (when_wanted b m)"
  unfolding when_wanted_def by (intro stays_rules)

lemma stays_fetch_or [stays_rules]: "stays ok m \<Longrightarrow> stays ok (list_or_fetch xs b m)"
  unfolding list_or_fetch_def by (intro stays_rules)

lemma stays_in_order: "list_all (stays ok) ms \<Longrightarrow> stays ok (in_order ms)"
  by (induction ms) (auto intro!: stays_rules)

lemma stays_outputs [stays_rules]:
  "stays ok (runStructuredJsonOutputsModule env w allowed deadline job extracted)"
proof -
  have "stays ok (ingest_events env w job events)" for events
    unfolding ingest_events_def by (intro stays_rules)
  then have "list_all (stays ok) [emit_results env w job extracted, emit_deals env w job extracted,
      emit_rows env w allowed deadline job extracted, emit_repos env w allowed deadline job extracted,
      emit_ingest env w allowed deadline job extracted, emit_references env w allowed deadline job extracted]"
    unfolding emit_results_def emit_deals_def emit_rows_def emit_repos_def emit_ingest_def emit_references_def list.pred_inject
    by (intro conjI list.pred_inject(1) stays_rules)
  then show ?thesis unfolding runStructuredJsonOutputsModule_def by (rule stays_in_order)
qed

lemma stays_clip [stays_rules]: "stays ok (runFfmpegClipModule env w allowed deadline job)"
proof -
  have "ok (Command ''ffmpeg'' (ffmpeg_args (ae_frac_text env) job out))"
    if "check_url env allowed (vod_url job) ''vod_url'' = Inr x" for out x
    using that by (intro visit [of "vod_url job" "''vod_url''"]) (simp_all add: visited_def typed_def ffmpeg_args_def)
  then show ?thesis unfolding runFfmpegClipModule_def Let_def
    by (intro stays_if stays_done stays_lift_next stays_next [OF stays_in_time] stays_and_then stays_ffmpeg stays_prod
        stays_next [OF stays_guard] stays_next stays_option stays_size stays_guard stays_read stays_upload) auto
qed

lemma stays_timeline [stays_rules]: "stays ok (runClipTimelineModule env w job)"
  unfolding runClipTimelineModule_def upload_json_def by (intro stays_rules)

lemma stays_http [stays_rules]: "stays ok (runHttpModule env w allowed d job)"
  unfolding runHttpModule_def by (intro stays_rules)

lemma stays_report [stays_rules]: "stays ok (runLlmSummarizeModule env w job arts)"
proof -
  have "stays ok (agent_report env w job)"
    unfolding agent_report_def
    by (intro stays_rules; simp add: other_command)
  then show ?thesis unfolding runLlmSummarizeModule_def by (intro stays_rules)
qed

lemma stays_optional [stays_rules]: "stays ok m \<Longrightarrow> stays ok (optional_artifact m)"
  unfolding optional_artifact_def by (intro stays_rules)

lemma stays_make_clip [stays_rules]: "stays ok (make_clip env w h allowed deadline job)"
  unfolding make_clip_def by (intro stays_rules stays_in_order) (simp add: stays_optional stays_clip stays_timeline)

lemma make_artifacts_stays:
  assumes "set (flow_steps (getBrowserFlowSpec job)) \<subseteq> set steps"
  shows "stays ok (make_artifacts script env w h allowed deadline job)"
proof -
  have "stays ok (browse script env w allowed deadline job)"
    unfolding browse_def by (intro stays_rules assms)
  moreover have "stays ok (in_order [when_wanted (wants_http env job) (optional_artifact (runHttpModule env w allowed (Some deadline) job)),
      when_wanted (requires_video (ae_frac_text env) job) (make_clip env w h allowed deadline job),
      runStructuredJsonOutputsModule env w allowed deadline job x])" for x
    by (rule stays_in_order) (simp add: stays_when stays_optional stays_http stays_make_clip stays_outputs)
  ultimately show ?thesis unfolding make_artifacts_def
    by (intro stays_and_then stays_prod stays_when stays_report stays_done)
qed

lemma stays_api_query [stays_rules]: "stays ok (apiQuery env w p q)"
  unfolding apiQuery_def by (intro stays_rules; simp)

lemma stays_status [stays_rules]: "stays ok (status_at w f)"
  unfolding status_at_def num_at_def by (intro stays_rules; simp)

lemma stays_again [stays_rules]: "stays ok (again_after ms s)"
  unfolding again_after_def by (intro stays_rules; simp)

lemma stays_refuse [stays_rules]: "stays ok (refuse w s j t)"
  unfolding refuse_def by (intro stays_rules)

lemma stays_submit [stays_rules]: "stays ok (submitJob env w workerId job arts)"
  unfolding submitJob_def by (intro stays_rules; simp)

lemma stays_poll [stays_rules]: "stays ok (pollUntilDone env w n j)"
  by (induction n) (auto intro!: stays_rules)

lemma stays_release [stays_rules]: "stays ok (releaseLeaseEarly env w j nonce why)"
  unfolding releaseLeaseEarly_def by (intro stays_rules)

text \<open>The whole of a claimed job: its artifacts, its submission, and its release when something throws.\<close>

lemma work_on_stays:
  assumes "allowed = compileAllowedOrigins env (coalesce (jget ''job'' (jget ''data'' answer)) offered)"
    and "set (flow_steps (getBrowserFlowSpec (coalesce (jget ''job'' (jget ''data'' answer)) offered))) \<subseteq> set steps"
  shows "stays ok (work_on script env w workerId s jobId offered answer)"
proof -
  have "stays ok (make_artifacts script env w h (compileAllowedOrigins env job) d job)"
    if "job = coalesce (jget ''job'' (jget ''data'' answer)) offered" for h d job
    using make_artifacts_stays [OF assms(2)] that by (simp add: assms(1))
  then show ?thesis unfolding work_on_def do_job_def job_failed_def by (intro stays_rules)
qed

end

section \<open>The two policies\<close>

definition cleared :: "agent_env \<Rightarrow> string list \<Rightarrow> string \<Rightarrow> bool" where
  "cleared env allowed u \<longleftrightarrow>
     (\<exists>o'. urlOriginStrict (ae_parse_url env) u = Inr o' \<and> o' \<in> set allowed \<and> originAllowedByWorkerPolicy env o') \<and>
     \<not> (agent_no_login env \<and> looksLikeLoginText u)"

lemma checked_url_cleared: "agent_strict env \<Longrightarrow> check_url env allowed u what = Inr () \<Longrightarrow> cleared env allowed u"
  by (auto simp: check_url_def assertUrlAllowed_def cleared_def split: sum.split_asm if_split_asm)

definition visit_policy :: "agent_env \<Rightarrow> string list \<Rightarrow> agent_call \<Rightarrow> bool" where
  "visit_policy env allowed c \<longleftrightarrow> (agent_strict env \<longrightarrow> (\<forall>u. visited c = Some u \<longrightarrow> cleared env allowed u))"

text \<open>A value the worker may type for a step: the one written in the step, or that of a variable which the
  operator listed and whose name does not look like a secret's.\<close>

definition fill_authorised :: "agent_env \<Rightarrow> json \<Rightarrow> string \<Rightarrow> bool" where
  "fill_authorised env s v \<longleftrightarrow>
     (if truthy (jstr (jget ''value_env'' (Some s)))
      then let name = trim (the (jstr (jget ''value_env'' (Some s))))
           in name \<in> set (ac_value_env_allowlist (ae_config env)) \<and> \<not> env_sensitive name \<and> length v \<le> 1024 \<and>
              v = take 1024 (trim (newlines_to_spaces (or_blank (ae_env env name))))
      else v = or_blank (jstr (jget ''value'' (Some s))))"

lemma trim_idem [simp]: "trim (trim s) = trim s"
proof -
  define a where "a = dropWhile is_space s"
  define b where "b = dropWhile is_space (rev a)"
  have a: "dropWhile is_space a = a" by (simp add: a_def)
  have split: "a = rev b @ rev (takeWhile is_space (rev a))" unfolding b_def by (metis rev_append rev_rev_ident takeWhile_dropWhile_id)
  then have "rev b \<noteq> [] \<Longrightarrow> hd (rev b) = hd a" by (metis hd_append2)
  moreover have "a \<noteq> [] \<Longrightarrow> \<not> is_space (hd a)" using a by (simp add: dropWhile_eq_self_iff)
  ultimately have "dropWhile is_space (rev b) = rev b"
    using split by (metis append_is_Nil_conv dropWhile_eq_self_iff)
  then show ?thesis by (simp add: trim_def flip: a_def b_def) (simp add: b_def)
qed

lemma picked_value_authorised: "pickFillValue env (Some s) = Inr v \<Longrightarrow> fill_authorised env s v"
  by (auto simp: pickFillValue_def fill_authorised_def isAllowedValueEnv_def Let_def split: if_split_asm)

definition type_policy :: "agent_env \<Rightarrow> json list \<Rightarrow> agent_call \<Rightarrow> bool" where
  "type_policy env steps c \<longleftrightarrow> (\<forall>v. typed c = Some v \<longrightarrow> (\<exists>s\<in>set steps. fill_authorised env s v))"

interpretation visits: worker_policy env allowed steps "visit_policy env allowed" for env allowed steps
  by unfold_locales (auto simp: visit_policy_def intro: checked_url_cleared)

interpretation types: worker_policy env allowed steps "type_policy env steps" for env allowed steps
  by unfold_locales (auto simp: type_policy_def intro: picked_value_authorised)

lemma stays_call: "stays ok m \<Longrightarrow> m tr = (r, tr @ cs) \<Longrightarrow> c \<in> set cs \<Longrightarrow> ok c"
  unfolding stays_def by (metis append_eq_append_conv list_all_iff snd_conv same_append_eq)

text \<open>A worker with the default configuration, and a job whose script fills one field.\<close>

definition toy_agent :: agent_env where
  "toy_agent = \<lparr> ae_config = agent_config_of (\<lambda>_. None), ae_env = (\<lambda>_. None), ae_parse_url = (\<lambda>_. Some example_url),
     ae_frac_text = (\<lambda>_. []), ae_sha = (\<lambda>_. []), ae_parse_json = (\<lambda>_. Some (JObj [(''targetId'', JStr ''t'')])) \<rparr>"

definition toy_world :: agent_world where
  "toy_world = \<lparr> aw_send = (\<lambda>_ _. Inl ''offline''), aw_command = (\<lambda>_ _ _. (0, ''x'', [])), aw_ffmpeg = (\<lambda>_ _. Inl []),
     aw_file = (\<lambda>_ _. Inl []), aw_is_file = (\<lambda>_ _. False), aw_now = (\<lambda>_. 0), aw_resolve = (\<lambda>_ _. None), aw_rebase = (\<lambda>_ u. u),
     aw_query = (\<lambda>_ _. None), aw_iso = (\<lambda>_. []), aw_sha_hex = (\<lambda>_. []), aw_date_ms = (\<lambda>x. x), aw_pid = 1, aw_tmp = [] \<rparr>"

definition toy_step :: json where
  "toy_step = JObj [(''op'', JStr ''fill''), (''ref'', JStr ''e1''), (''value'', JStr ''hi'')]"

definition toy_flow_job :: json where
  "toy_flow_job = JObj [(''jobId'', JStr ''j1''), (''constraints'', JObj [(''allowedOrigins'', JArr [JStr ''o''])]),
     (''taskDescriptor'', JObj [(''input_spec'', JObj [(''url'', JStr ''u'')]),
        (''site_profile'', JObj [(''browser_flow'', JObj [(''steps'', JArr [toy_step])])])])]"


lemma toy_config: "ac_strict (agent_config_of (\<lambda>_. None))" "ac_no_login (agent_config_of (\<lambda>_. None))"
  "ac_browser_profile (agent_config_of (\<lambda>_. None)) = None" "ac_extra_origins (agent_config_of (\<lambda>_. None)) = []"
  "ac_deny_origins (agent_config_of (\<lambda>_. None)) = []" "ac_allow_origins (agent_config_of (\<lambda>_. None)) = []"
  by (simp_all add: agent_config_of_def or_blank_def trim_def toLowerCase_def parseBool_def set_text_def parseCsv_def trimmed_nonblank_def)

lemma toy_openclaw: "runOpenClaw toy_agent toy_world args tr = (Inr ''x'', tr @ [Command ''openclaw'' args])"
proof -
  have "openclaw_args (\<lambda>_. None) args = args" by (auto simp: openclaw_args_def set_text_def or_blank_def trim_def flag_option_def split: list.split)
  then show ?thesis
    by (simp add: runOpenClaw_def toy_agent_def toy_world_def run_command_def and_then_def done_with_def openclaw_bin_def set_text_def or_blank_def trim_def)
qed

lemma toy_openclaw_json: "openclaw_json toy_agent toy_world args tr = (Inr (JObj [(''targetId'', JStr ''t'')]), tr @ [Command ''openclaw'' args])"
  by (simp add: openclaw_json_def and_then_def toy_openclaw lift_result_def parseJsonFromStdout_def trim_def is_space_def Let_def)
    (simp add: toy_agent_def)

lemma toy_page: "enforcePagePolicy toy_agent toy_world allowed target what tr =
   (Inr (), tr @ [Command ''openclaw'' [''browser'', ''evaluate'', ''--fn'', ''() => location.href'', ''--target-id'', target, ''--json'']])"
  by (simp add: enforcePagePolicy_def and_then_def toy_openclaw_json jget_def jstr_def or_blank_def done_with_def)

lemma toy_in_time: "0 \<le> d \<Longrightarrow> in_time toy_world d tr = (Inr (), tr)"
  by (simp add: in_time_def and_then_def clock_def toy_world_def guard_that_def done_with_def)

lemma toy_check: "check_url toy_agent (compileAllowedOrigins toy_agent (Some toy_flow_job)) ''u'' what = Inr ()"
  by (simp add: check_url_def toy_agent_def toy_config assertUrlAllowed_def urlOriginStrict_def example_url_def compileAllowedOrigins_def
     toy_flow_job_def jget_def jarray_def valid_origins_def List.map_filter_simps originAllowedByWorkerPolicy_def policy_allows_def
     looksLikeLoginText_def login_words_def toLowerCase_def lower_char_def)

lemma toy_fill:
  "0 \<le> d \<Longrightarrow> \<exists>l. run_step toy_agent toy_world allowed d job su ''t'' i ''fill'' (Some toy_step) acc tr =
     (Inr acc, tr @ [LogLine l, Command ''openclaw'' [''browser'', ''type'', ''e1'', ''hi'', ''--target-id'', ''t'', ''--json'']])"
  by (simp add: run_step_def Let_def next_act_def and_then_def toy_in_time step_ref_def trimmed_field_def toy_step_def jget_def jstr_def
      trim_def is_space_def or_blank_def done_with_def truthy_def pickFillValue_def lift_result_def tell_def browser_do_def toy_openclaw)

lemma toy_parse: "parseJsonFromStdout toy_agent ''x'' = Inr (JObj [(''targetId'', JStr ''t'')])"
  by (simp add: parseJsonFromStdout_def trim_def is_space_def Let_def) (simp add: toy_agent_def)

lemma toy_shot: "\<exists>m cs. flow_screenshot toy_agent toy_world job ''t'' full stem label tr = (Inl m, tr @ cs)"
  by (simp add: flow_screenshot_def and_then_def toy_openclaw toy_parse trim_def is_space_def Let_def jget_def jstr_def
      or_blank_def upload_screenshot_def fail_with_def)

lemma toy_flow_spec: "getBrowserFlowSpec (Some toy_flow_job) = Some (JObj [(''steps'', JArr [toy_step])])"
  by (simp add: getBrowserFlowSpec_def toy_flow_job_def job_td_def jget_def coalesce_def nullish_def is_object_def)

lemma toy_on_page:
  "0 \<le> d \<Longrightarrow> \<exists>m cs. flow_on_page toy_agent toy_world allowed d job (Some (JObj [(''steps'', JArr [toy_step])])) su ''t'' tr = (Inl m, tr @ cs) \<and>
     Command ''openclaw'' [''browser'', ''type'', ''e1'', ''hi'', ''--target-id'', ''t'', ''--json''] \<in> set cs"
proof -
  assume d: "0 \<le> d"
  have one: "normalizeBrowserFlowSteps (ae_frac_text toy_agent) (Some (JObj [(''steps'', JArr [toy_step])])) = [toy_step]"
    by (simp add: normalizeBrowserFlowSteps_def flow_steps_def jget_def jarray_def flow_max_steps_def json_number_def)
  have op: "step_op f toy_step = ''fill''" for f
    by (simp add: step_op_def toy_step_def jget_def coalesce_def nullish_def text_or_blank_def trim_def is_space_def toLowerCase_def lower_char_def)
  let ?t1 = "tr @ [Command ''openclaw'' [''browser'', ''evaluate'', ''--fn'', ''() => location.href'', ''--target-id'', ''t'', ''--json'']]"
  obtain l where l: "run_step toy_agent toy_world allowed d job su ''t'' 0 ''fill'' (Some toy_step) ([], []) ?t1 =
     (Inr ([], []), ?t1 @ [LogLine l, Command ''openclaw'' [''browser'', ''type'', ''e1'', ''hi'', ''--target-id'', ''t'', ''--json'']])"
    using toy_fill [OF d] by blast
  obtain m cs where m: "flow_screenshot toy_agent toy_world job ''t'' True ''screenshot'' ''universal_screenshot''
      (?t1 @ [LogLine l, Command ''openclaw'' [''browser'', ''type'', ''e1'', ''hi'', ''--target-id'', ''t'', ''--json'']]) =
      (Inl m, (?t1 @ [LogLine l, Command ''openclaw'' [''browser'', ''type'', ''e1'', ''hi'', ''--target-id'', ''t'', ''--json'']]) @ cs)"
    using toy_shot by blast
  show ?thesis
    by (simp add: flow_on_page_def next_act_def and_then_def toy_page one op Let_def catching_def l [simplified] done_with_def has_final_screenshot_def
       toy_in_time d m [simplified])
qed

lemma toy_artifacts:
  assumes "0 \<le> d"
  shows "\<exists>m cs. make_artifacts sc toy_agent toy_world h (compileAllowedOrigins toy_agent (Some toy_flow_job)) d (Some toy_flow_job) tr = (Inl m, tr @ cs) \<and>
     Command ''openclaw'' [''browser'', ''open'', ''u'', ''--json''] \<in> set cs \<and>
     Command ''openclaw'' [''browser'', ''type'', ''e1'', ''hi'', ''--target-id'', ''t'', ''--json''] \<in> set cs"
proof -
  have shot: "wants_screenshot (Some toy_flow_job)"
    by (simp add: wants_screenshot_def parseCapabilityTags_def job_td_def toy_flow_job_def jget_def jarray_def trimmed_nonblank_def List.map_filter_simps)
  have start: "module_start_url toy_agent (Some toy_flow_job) = ''u''"
    by (simp add: module_start_url_def job_input_def job_td_def toy_flow_job_def jget_def jstr_def)
  have ready: "ensureOpenClawBrowserReady toy_agent toy_world tr = (Inr (), tr)" for tr
    by (simp add: ensureOpenClawBrowserReady_def toy_agent_def toy_config)
  have target: "trim (text_of toy_agent (Some (JStr ''t''))) = ''t''"
    by (simp add: text_of_def text_or_blank_def nullish_def trim_def is_space_def)
  let ?t1 = "(tr @ [LogLine ''start_url: u'']) @ [Command ''openclaw'' [''browser'', ''open'', ''u'', ''--json'']]"
  obtain m cs where m: "flow_on_page toy_agent toy_world (compileAllowedOrigins toy_agent (Some toy_flow_job)) d (Some toy_flow_job)
       (Some (JObj [(''steps'', JArr [toy_step])])) ''u'' ''t'' ?t1 = (Inl m, ?t1 @ cs)"
    "Command ''openclaw'' [''browser'', ''type'', ''e1'', ''hi'', ''--target-id'', ''t'', ''--json''] \<in> set cs"
    using toy_on_page [OF assms] by blast
  have "make_artifacts sc toy_agent toy_world h (compileAllowedOrigins toy_agent (Some toy_flow_job)) d (Some toy_flow_job) tr =
     (Inl m, (?t1 @ cs) @ [Command ''openclaw'' [''browser'', ''close'', ''t'']])"
    by (simp add: make_artifacts_def browse_def shot toy_flow_spec runOpenClawBrowserFlowModule_def Let_def start next_act_def and_then_def
       ready history_length_def toy_in_time assms lift_result_def toy_check tell_def toy_openclaw_json target finally_do_def m [simplified]
       close_page_def toy_openclaw)
  with m(2) show ?thesis by simp
qed

lemma toy_run:
  "\<exists>r cs. work_on (\<lambda>_. []) toy_agent toy_world ''w'' fresh_agent ''j1'' (Some toy_flow_job) None [] = (r, [] @ cs) \<and>
     Command ''openclaw'' [''browser'', ''open'', ''u'', ''--json''] \<in> set cs \<and>
     Command ''openclaw'' [''browser'', ''type'', ''e1'', ''hi'', ''--target-id'', ''t'', ''--json''] \<in> set cs"
proof -
  have same: "coalesce (jget ''job'' (jget ''data'' None)) (Some toy_flow_job) = Some toy_flow_job"
    by (simp add: jget_def coalesce_def nullish_def)
  have nonce: "text_of toy_agent (jget ''leaseNonce'' (jget ''data'' None)) = []"
    by (simp add: text_of_def text_or_blank_def nullish_def jget_def)
  define d where "d = computeJobDeadlineMs toy_agent 0 (Some toy_flow_job)"
  have d: "0 \<le> d" by (simp add: d_def computeJobDeadlineMs_def Let_def)
  define st where "st = WriteStatus (claimed_status toy_agent toy_world (Some toy_flow_job) ''j1'' [] d None (JNum (Fin 0)))"
  obtain m cs where m: "make_artifacts (\<lambda>_. []) toy_agent toy_world (as_ffmpeg fresh_agent) (compileAllowedOrigins toy_agent (Some toy_flow_job)) d (Some toy_flow_job) [st] =
     (Inl m, [st] @ cs)" and calls: "Command ''openclaw'' [''browser'', ''open'', ''u'', ''--json''] \<in> set cs"
     "Command ''openclaw'' [''browser'', ''type'', ''e1'', ''hi'', ''--target-id'', ''t'', ''--json''] \<in> set cs"
    using toy_artifacts [OF d] by blast
  have now: "clock toy_world tr = (Inr 0, tr)" for tr by (simp add: clock_def toy_world_def)
  have "\<exists>r ds. job_failed toy_agent toy_world fresh_agent ''j1'' [] m ([st] @ cs) = (r, ([st] @ cs) @ ds)"
    by (simp add: job_failed_def next_act_def and_then_def status_at_def num_at_def now done_with_def tell_def releaseLeaseEarly_def refuse_def again_after_def)
  then obtain r ds where "job_failed toy_agent toy_world fresh_agent ''j1'' [] m ([st] @ cs) = (r, ([st] @ cs) @ ds)" by blast
  with m have "work_on (\<lambda>_. []) toy_agent toy_world ''w'' fresh_agent ''j1'' (Some toy_flow_job) None [] = (r, ([st] @ cs) @ ds)"
    by (simp add: work_on_def same [simplified] nonce [simplified] Let_def next_act_def and_then_def now status_at_def num_at_def done_with_def tell_def catching_def do_job_def
       d_def [symmetric] st_def [symmetric])
  with calls show ?thesis by auto
qed

text \<open>C13. The worker stays on the origins of its job: in strict mode, whatever the job's descriptor, the
  pages and the API answer, every url the worker opens, navigates to, fetches, is redirected to or hands
  to ffmpeg while it works on a claimed job has an origin that the job or the operator lists and the
  operator does not deny, and, unless logins are permitted, does not look like a login.\<close>

theorem worker_stays_on_allowed_origins:
  assumes "work_on script env w workerId s jobId offered answer tr = (r, tr @ cs)"
    and "agent_strict env" and "c \<in> set cs" and "visited c = Some u"
    and "job = coalesce (jget ''job'' (jget ''data'' answer)) offered"
  shows "(\<exists>o'. urlOriginStrict (ae_parse_url env) u = Inr o' \<and> o' \<in> set (compileAllowedOrigins env job) \<and>
      o' \<notin> set (ac_deny_origins (ae_config env))) \<and> (agent_no_login env \<longrightarrow> \<not> looksLikeLoginText u)"
proof -
  have "visit_policy env (compileAllowedOrigins env job) c"
    using visits.work_on_stays [OF refl subset_refl] assms(1,3) unfolding assms(5) by (rule stays_call)
  with assms(2,4) show ?thesis
    by (auto simp: visit_policy_def cleared_def originAllowedByWorkerPolicy_def policy_allows_def split: if_split_asm)
qed

theorem worker_stays_on_allowed_origins_witness:
  "\<exists>o'. urlOriginStrict (ae_parse_url toy_agent) ''u'' = Inr o' \<and> o' \<in> set (compileAllowedOrigins toy_agent (Some toy_flow_job))"
proof -
  obtain r cs where run: "work_on (\<lambda>_. []) toy_agent toy_world ''w'' fresh_agent ''j1'' (Some toy_flow_job) None [] = (r, [] @ cs)"
    and c: "Command ''openclaw'' [''browser'', ''open'', ''u'', ''--json''] \<in> set cs"
    using toy_run by blast
  have "visited (Command ''openclaw'' [''browser'', ''open'', ''u'', ''--json'']) = Some ''u''"
    by (simp add: visited_def added_option_def)
  moreover have "agent_strict toy_agent" by (simp add: toy_agent_def toy_config)
  ultimately show ?thesis
    using worker_stays_on_allowed_origins [OF run _ c _ refl] by (auto simp: coalesce_def nullish_def)
qed

text \<open>C14. The worker types no secret of its own: every value it types into a page while it works on a
  claimed job is the text of a step of the job's script, or the value of an environment variable that the
  step names, that the operator listed, and whose name does not look like that of a token, secret, password
  or key.\<close>

theorem typed_values_authorised:
  assumes "work_on script env w workerId s jobId offered answer tr = (r, tr @ cs)"
    and "c \<in> set cs" and "typed c = Some v"
    and "job = coalesce (jget ''job'' (jget ''data'' answer)) offered"
  shows "\<exists>step\<in>set (flow_steps (getBrowserFlowSpec job)). fill_authorised env step v"
proof -
  have "type_policy env (flow_steps (getBrowserFlowSpec job)) c"
    using types.work_on_stays [OF refl subset_refl] assms(1,2) unfolding assms(4) by (rule stays_call)
  with assms(3) show ?thesis by (simp add: type_policy_def)
qed

theorem typed_values_authorised_witness:
  "\<exists>step\<in>set (flow_steps (getBrowserFlowSpec (Some toy_flow_job))). fill_authorised toy_agent step ''hi''"
proof -
  obtain r cs where run: "work_on (\<lambda>_. []) toy_agent toy_world ''w'' fresh_agent ''j1'' (Some toy_flow_job) None [] = (r, [] @ cs)"
    and c: "Command ''openclaw'' [''browser'', ''type'', ''e1'', ''hi'', ''--target-id'', ''t'', ''--json''] \<in> set cs"
    using toy_run by blast
  have "typed (Command ''openclaw'' [''browser'', ''type'', ''e1'', ''hi'', ''--target-id'', ''t'', ''--json'']) = Some ''hi''"
    by (simp add: typed_def added_option_def)
  then show ?thesis using typed_values_authorised [OF run c _ refl] by (simp add: coalesce_def nullish_def)
qed

section \<open>Reading, refusing, and data that was never found\<close>

text \<open>The limited reader returns a prefix of the stream, and says whether it cut something off.\<close>

lemma read_limited_prefix:
  "got \<le> n \<Longrightarrow> read_limited n got cs = (take (n - got) (concat cs), n - got < length (concat cs))"
  by (induction cs arbitrary: got) (auto simp: not_less)

lemma limited_reading: "readWebStreamLimited n cs = (take n (concat cs), n < length (concat cs))"
  by (simp add: readWebStreamLimited_def read_limited_prefix)

text \<open>A step that waits for a url loses the gateway the operator configured: the step's own \<open>--url\<close> is taken
  for it.\<close>

lemma wait_url_leaves_gateway:
  assumes "set_text (pe ''OPENCLAW_GATEWAY_URL'') = Some g" and "g \<noteq> u"
    and "set_text (pe ''OPENCLAW_GATEWAY_TOKEN'') = None" and "set_text (pe ''OPENCLAW_BROWSER_PROFILE'') = None"
  shows "openclaw_args pe [''browser'', ''wait'', ''--url'', u, ''--json''] = [''browser'', ''wait'', ''--url'', u, ''--json'']"
    and "openclaw_args pe [''browser'', ''wait'', ''--json''] = [''browser'', ''--url'', g, ''wait'', ''--json'']"
  using assms by (simp_all add: openclaw_args_def flag_option_def Let_def)

text \<open>A page whose location the browser does not tell is not a violation, so the script goes on.\<close>

lemma unread_page_not_fatal:
  "\<not> fatal_error ''json_parse_failed''" "\<not> fatal_error (''openclaw_failed:'' @ s)"
  by (simp_all add: fatal_error_def)

lemma status_run: "status_at w f tr = (Inr (), tr @ [WriteStatus (f (JNum (Fin (of_int (aw_now w tr)))))])"
  by (simp add: status_at_def num_at_def and_then_def clock_def done_with_def tell_def)

lemma refuse_offer_run:
  "\<exists>tr'. refuse_offer w s j why ttl tr = (Inr (Again (s\<lparr>as_refusals := addRefusal (aw_now w tr) j ttl (as_refusals s)\<rparr>)), tr')"
  by (simp add: refuse_offer_def refuse_def and_then_def clock_def done_with_def next_act_def status_run again_after_def tell_def)

lemma set_refusal_keys: "j \<in> fst ` set es \<Longrightarrow> map fst (set_refusal j t es) = map fst es"
  by (induction es) auto

lemma set_refusal_live: "(\<forall>e\<in>set es. now < snd e) \<Longrightarrow> now < t \<Longrightarrow> \<forall>e\<in>set (set_refusal j t es). now < snd e"
  by (induction es) auto

lemma prune_live: "(\<forall>e\<in>set es. now < snd e) \<Longrightarrow> length es \<le> 200 \<Longrightarrow> pruneRefuseCache now es = es"
  by (simp add: pruneRefuseCache_def live_refusals_def)

text \<open>What a program returns, by the same kind of rules.\<close>

named_theorems returns_rules

definition returns :: "('a \<Rightarrow> bool) \<Rightarrow> 'a act \<Rightarrow> bool" where
  "returns P m \<longleftrightarrow> (\<forall>tr x tr'. m tr = (Inr x, tr') \<longrightarrow> P x)"

lemma returns_done [returns_rules]: "P x \<Longrightarrow> returns P (done_with x)"
  by (simp add: returns_def done_with_def)

lemma returns_fail [returns_rules]: "returns P (fail_with m)"
  by (simp add: returns_def fail_with_def)

lemma returns_via: "returns Q m \<Longrightarrow> (\<And>x. Q x \<Longrightarrow> returns P (f x)) \<Longrightarrow> returns P (and_then m f)"
  by (fastforce simp: returns_def and_then_def split: prod.split_asm sum.split_asm)

lemma returns_and_then [returns_rules]: "(\<And>x. returns P (f x)) \<Longrightarrow> returns P (and_then m f)"
  by (rule returns_via [of "\<lambda>_. True"]) (simp_all add: returns_def)

lemma returns_next [returns_rules]: "returns P n \<Longrightarrow> returns P (next_act m n)"
  by (simp add: next_act_def returns_and_then)

lemma returns_catching [returns_rules]: "returns P m \<Longrightarrow> (\<And>e. returns P (h e)) \<Longrightarrow> returns P (catching m h)"
  by (fastforce simp: returns_def catching_def split: prod.split_asm sum.split_asm)

lemma returns_if [returns_rules]: "(b \<Longrightarrow> returns P m) \<Longrightarrow> (\<not> b \<Longrightarrow> returns P n) \<Longrightarrow> returns P (if b then m else n)"
  by simp

lemma returns_let [returns_rules]: "(\<And>x. x = a \<Longrightarrow> returns P (f x)) \<Longrightarrow> returns P (Let a f)"
  by simp

lemma returns_prod [returns_rules]: "(\<And>a b. x = (a, b) \<Longrightarrow> returns P (f a b)) \<Longrightarrow> returns P (case x of (a, b) \<Rightarrow> f a b)"
  by (simp split: prod.split)

lemma returns_option [returns_rules]:
  "(x = None \<Longrightarrow> returns P m) \<Longrightarrow> (\<And>y. x = Some y \<Longrightarrow> returns P (f y)) \<Longrightarrow> returns P (case x of None \<Rightarrow> m | Some y \<Rightarrow> f y)"
  by (simp split: option.split)

text \<open>The cache holds a job at most once, and at most 200 of them.\<close>

definition tidy :: "agent_state \<Rightarrow> bool" where
  "tidy s \<longleftrightarrow> distinct (map fst (as_refusals s)) \<and> length (as_refusals s) \<le> 200"

definition tidy_result :: "turn_result \<Rightarrow> bool" where
  "tidy_result r = (case r of Again s \<Rightarrow> tidy s | Finished s \<Rightarrow> tidy s)"

lemma set_refusal_distinct: "distinct (map fst es) \<Longrightarrow> distinct (map fst (set_refusal j t es))"
proof (induction es)
  case (Cons e es)
  have "fst ` set (set_refusal j t es) \<subseteq> insert j (fst ` set es)" by (induction es) auto
  with Cons show ?case by auto
qed simp

lemma prune_tidy: "distinct (map fst es) \<Longrightarrow> distinct (map fst (pruneRefuseCache now es)) \<and> length (pruneRefuseCache now es) \<le> 200"
  by (simp add: pruneRefuseCache_def live_refusals_def Let_def drop_map [symmetric] distinct_drop distinct_map_filter)

lemma tidy_refuse: "tidy s \<Longrightarrow> returns tidy (refuse w s j t)"
  by (auto simp: refuse_def tidy_def returns_def and_then_def clock_def done_with_def addRefusal_def prune_tidy set_refusal_distinct)

lemma tidy_again [returns_rules]: "tidy s \<Longrightarrow> returns tidy_result (again_after ms s)"
  unfolding again_after_def by (intro returns_rules) (simp add: tidy_result_def)

lemma tidy_health: "tidy s \<Longrightarrow> returns tidy (update_health env w base s)"
  unfolding update_health_def maybeUpdateBrowserHealth_def maybeUpdateFfmpegHealth_def Let_def
  by (rule returns_via [of tidy]; intro returns_rules; simp add: tidy_def with_effective_def)

lemma tidy_turn:
  assumes "tidy s"
  shows "returns tidy_result (turn script env w base workerId s)"
proof -
  have work: "returns tidy_result (work_on script env w workerId s jobId offered answer)" if "tidy s" for s jobId offered answer
    unfolding work_on_def do_job_def job_failed_def using that
    by (intro returns_let returns_and_then returns_next returns_catching returns_if returns_done tidy_again
        returns_via [OF tidy_refuse]) (simp_all add: tidy_result_def)
  have offer: "returns tidy_result (handle_offer script env w workerId s job)" if "tidy s" for s job
    unfolding handle_offer_def refuse_offer_def claim_offer_def using that
    by (intro returns_let returns_if returns_next tidy_again returns_option returns_prod returns_via [OF tidy_refuse]
        returns_and_then work) simp_all
  have ask: "returns tidy_result (ask_and_work script env w base workerId s)"
    unfolding ask_and_work_def
  proof (rule returns_via [OF tidy_health [OF assms]])
    fix s1 assume "tidy s1"
    then have "tidy (s1\<lparr>as_refusals := pruneRefuseCache now (as_refusals s1)\<rparr>)" for now
      by (simp add: tidy_def prune_tidy)
    then show "returns tidy_result (and_then (clock w) (\<lambda>now.
       let exclude = excludeJobIds now (as_refusals s1); s2 = s1\<lparr>as_refusals := pruneRefuseCache now (as_refusals s1)\<rparr> in
       next_act (status_at w (\<lambda>t. [(''paused'', JBool False), (''lastPollAt'', t),
         (''excludeJobIdsCount'', JNum (Fin (of_nat (length exclude))))]))
       (and_then (apiQuery env w ''/api/jobs/next'' (next_params env (effective_tags env base s2) exclude)) (\<lambda>(r, j).
       if \<not> http_ok r
       then next_act (status_at w (error_status (''jobs_next_failed:'' @ show_nat (rp_status r)))) (again_after (ac_backoff_ms (ae_config env)) s2)
       else if jget ''state'' j \<noteq> Some (JStr ''claimable'')
       then (if env_true (ae_env env) ''ONCE'' then done_with (Finished s2) else again_after (ac_poll_ms (ae_config env)) s2)
       else if nullish (jget ''data'' j) then fail_with ''Cannot read properties of undefined''
       else handle_offer script env w workerId s2 (jget ''job'' (jget ''data'' j))))))"
      by (intro returns_rules offer) (simp_all add: tidy_result_def)
  qed
  show ?thesis unfolding turn_def by (intro returns_rules ask assms)
qed

text \<open>In every state the loop can reach the cache of refusals is tidy.\<close>

lemma refusals_stay_tidy:
  assumes "agent_run script env w base workerId (s, tr) (s', tr')" and "tidy s"
  shows "tidy s'"
  using assms
proof (induction "(s, tr)" "(s', tr')" arbitrary: s' tr' rule: agent_run.induct)
  case (agent_turn s1 tr1 s' tr')
  then have "tidy s1" by simp
  with tidy_turn [of s1 script env w base workerId] agent_turn.hyps(3) show ?case
    by (fastforce simp: returns_def tidy_result_def)
qed simp

lemma refused_again:
  assumes "j \<in> fst ` set es" and "j \<noteq> []" and "\<forall>e\<in>set es. now < snd e" and "length es \<le> 200"
  shows "map fst (addRefusal now j ttl es) = map fst es"
proof -
  have keys: "map fst (set_refusal j (now + max 5000 ttl) es) = map fst es" by (rule set_refusal_keys [OF assms(1)])
  then have "length (set_refusal j (now + max 5000 ttl) es) \<le> 200" using assms(4) by (metis length_map)
  with keys show ?thesis
    using set_refusal_live [OF assms(3), of "now + max 5000 ttl" j] assms(2) by (simp add: addRefusal_def prune_live)
qed

text \<open>A worker that has refused more than fifty jobs is offered refused jobs again and again: it sends
  the first fifty refused ids only, nothing else keeps it from the others, and when the fifty-first is
  offered it is refused once more, which leaves the ids it remembers, and so the list it sends, as they
  were.\<close>

theorem refused_job_offered_again:
  assumes "50 < length (as_refusals s)" and "length (as_refusals s) \<le> 200" and "distinct (map fst (as_refusals s))"
    and "\<And>tr e. e \<in> set (as_refusals s) \<Longrightarrow> aw_now w tr < snd e"
    and "text_of env (jget ''jobId'' job) = fst (as_refusals s ! 50)" and "fst (as_refusals s ! 50) \<noteq> []"
    and "offer_refusal env s job = Some (why, ttl)"
  shows "\<exists>s' tr'. handle_offer script env w workerId s job tr = (Inr (Again s'), tr') \<and>
      map fst (as_refusals s') = map fst (as_refusals s) \<and>
      fst (as_refusals s ! 50) \<notin> set (excludeJobIds (aw_now w tr) (as_refusals s)) \<and>
      (\<forall>t. (\<forall>e\<in>set (as_refusals s'). t < snd e) \<longrightarrow> excludeJobIds t (as_refusals s') = excludeJobIds (aw_now w tr) (as_refusals s))"
proof -
  let ?j = "fst (as_refusals s ! 50)"
  have sent: "excludeJobIds t es = take 50 (map fst es)" if "\<forall>e\<in>set es. t < snd e" "length es \<le> 200" for t es
    using that by (simp add: excludeJobIds_def prune_live)
  have mem: "?j \<in> fst ` set (as_refusals s)" using assms(1) by (meson image_eqI nth_mem)
  have "map fst (as_refusals s) ! 50 \<notin> set (take 50 (map fst (as_refusals s)))"
    using distinct_take [OF assms(3), of "Suc 50"] assms(1) by (subst (asm) take_Suc_conv_app_nth) simp_all
  then have out: "?j \<notin> set (excludeJobIds (aw_now w tr) (as_refusals s))"
    using assms(1,2,4) by (simp add: sent)
  have "\<exists>tr1. (if startsWith why ''require_'' then done_with () else status_at w (\<lambda>now. [(''lastJobId'', JStr ?j), (''lastOfferAt'', now)])) tr =
      (Inr (), tr1)"
    by (simp add: done_with_def status_run)
  then obtain tr1 where "(if startsWith why ''require_'' then done_with () else status_at w (\<lambda>now. [(''lastJobId'', JStr ?j), (''lastOfferAt'', now)])) tr =
      (Inr (), tr1)" by blast
  then obtain s' tr' where run: "handle_offer script env w workerId s job tr = (Inr (Again s'), tr')"
    and s': "as_refusals s' = addRefusal (aw_now w tr1) ?j ttl (as_refusals s)"
    using refuse_offer_run [of w s ?j why ttl tr1] assms(5-7) by (auto simp: handle_offer_def next_act_def and_then_def Let_def)
  have keys: "map fst (as_refusals s') = map fst (as_refusals s)"
    using s' refused_again [OF mem assms(6) _ assms(2)] assms(4) by auto
  then have "length (as_refusals s') \<le> 200" using assms(2) by (metis length_map)
  with keys run out show ?thesis using assms(2,4) by (auto simp: sent)
qed

definition busy_agent :: agent_state where
  "busy_agent = fresh_agent\<lparr>as_refusals := map (\<lambda>i. (replicate i CHR ''a'', 1)) [1..<52]\<rparr>"

definition refused_job :: json where
  "refused_job = JObj [(''jobId'', JStr (replicate 51 CHR ''a''))]"

theorem refused_job_offered_again_witness:
  "\<exists>s' tr'. handle_offer (\<lambda>_. []) toy_agent toy_world ''w'' busy_agent (Some refused_job) [] = (Inr (Again s'), tr') \<and>
     map fst (as_refusals s') = map fst (as_refusals busy_agent)"
proof -
  have refs: "as_refusals busy_agent = map (\<lambda>i. (replicate i CHR ''a'', 1)) [1..<52]" by (simp add: busy_agent_def)
  have at50: "as_refusals busy_agent ! 50 = (replicate 51 CHR ''a'', 1)" unfolding refs by (subst nth_map) simp_all
  have dist: "distinct (map fst (as_refusals busy_agent))"
    unfolding refs by (simp add: comp_def distinct_map inj_on_def)
  have refusal: "offer_refusal toy_agent busy_agent (Some refused_job) = Some (''preflight_refused:missing_start_url'', 600000)"
    by (simp add: offer_refusal_def Let_def toy_agent_def agent_config_of_def set_text_def or_blank_def trim_def withinCanary_def canaryPercent_def
        preflightJobOrThrow_def refused_job_def jget_def job_td_def jstr_def getStartUrlFromJob_def job_input_def start_journey_def
        first_error_def refuse_if_def)
  have clock: "aw_now toy_world tr < snd e" if "e \<in> set (as_refusals busy_agent)" for tr e
    using that unfolding refs by (auto simp: toy_world_def)
  have len: "length (as_refusals busy_agent) = 51" unfolding refs by simp
  have jid: "text_of toy_agent (jget ''jobId'' (Some refused_job)) = replicate 51 CHR ''a''"
    by (simp add: refused_job_def jget_def text_of_def text_or_blank_def nullish_def)
  from refused_job_offered_again [of busy_agent toy_world toy_agent "Some refused_job", OF _ _ dist clock _ _ refusal]
  show ?thesis by (simp add: len at50 jid) blast
qed

text \<open>C15. Data that was never found passes for data: when neither the page nor a source gave the worker
  anything, the placeholders it writes (an "example item", an "example" deal or company, the repository
  "example/repo") pass the content checks of the verifier gateway, whereas a repository it did find and
  that has no licence makes the same file fail.\<close>

theorem placeholders_pass_gateway:
  assumes "start_journey job = Some (JStr u)" and "u \<noteq> []" and "jstr (jget ''url'' (job_input job)) \<noteq> Some []"
    and "[] \<notin> set (map (json_text (ae_frac_text env)) (json_list (jget ''titles'' (job_input job))))"
    and "nullish (jget ''license_constraints'' (job_input job))"
    and "\<not> json_truthy (jget ''spdx_id'' (jget ''license'' (Some it)))" and "\<not> json_truthy (jget ''key'' (jget ''license'' (Some it)))"
  shows "structured_error (ae_frac_text env) ''results'' (results_json env w now job []) = None \<and>
    structured_error (ae_frac_text env) ''deals'' (deals_json env w now job []) = None \<and>
    structured_error (ae_frac_text env) ''rows'' (rows_json env w now job []) = None \<and>
    structured_error (ae_frac_text env) ''repos'' (repos_json env w now job []) = None \<and>
    structured_error (ae_frac_text env) ''repos'' (repos_json env w now job [repo_row env it]) =
      Some ''repos_artifact_json_repos_item_missing_license''"
proof -
  note check = structured_error_def structured_keys_def ensureJsonArray_def or_placeholder_def jget_def jarray_def item_error_def
    is_object_def text_or_blank_def nullish_def Let_def
  have url: "(case jstr (jget ''url'' (job_input job)) of Some v \<Rightarrow> v | None \<Rightarrow> text_of env (start_journey job)) \<noteq> []"
    using assms(1-3) by (auto simp: text_of_def text_or_blank_def nullish_def split: option.split)
  have start: "start_or env d job = u" for d using assms(1) by (simp add: start_or_def coalesce_def nullish_def)
  have title: "(case take 5 (map (json_text (ae_frac_text env)) (json_list (jget ''titles'' (job_input job)))) of
      [] \<Rightarrow> ''engineer'' | x # _ \<Rightarrow> x) \<noteq> []"
  proof -
    have "[] \<notin> set (take 5 (map (json_text (ae_frac_text env)) (json_list (jget ''titles'' (job_input job)))))"
      using assms(4) by (meson in_set_takeD)
    then show ?thesis by (auto split: list.split simp del: take_map)
  qed
  have license: "repo_license env (jget ''license'' (Some it)) = JNull" using assms(6,7) by (simp add: repo_license_def)
  obtain n v st ds where row: "repo_row env it = JObj ([(''name'', JStr (text_else n ''unknown'')),
      (''url'', JStr (text_else v ''https://github.com'')), (''license'', JNull), (''stars'', st)] @ ds)"
    unfolding repo_row_def Let_def license by blast
  have none: "text_else x ''unknown'' \<noteq> []" "text_else y ''https://github.com'' \<noteq> []" for x y by (simp_all add: text_else_def)
  have "structured_error (ae_frac_text env) ''results'' (results_json env w now job []) = None"
    using url by (simp add: results_json_def check)
  moreover have "structured_error (ae_frac_text env) ''deals'' (deals_json env w now job []) = None"
    using assms(2) by (simp add: deals_json_def start check)
  moreover have "structured_error (ae_frac_text env) ''rows'' (rows_json env w now job []) = None"
    using assms(2) title by (simp add: rows_json_def start check)
  moreover have "structured_error (ae_frac_text env) ''repos'' (repos_json env w now job []) = None"
    using assms(5) by (simp add: repos_json_def check coalesce_def)
  moreover have "structured_error (ae_frac_text env) ''repos'' (repos_json env w now job [repo_row env it]) =
      Some ''repos_artifact_json_repos_item_missing_license''"
    using none by (simp add: repos_json_def row check)
  ultimately show ?thesis by blast
qed

definition data_job :: json where
  "data_job = JObj [(''journey'', JObj [(''startUrl'', JStr ''u'')])]"

theorem placeholders_pass_gateway_witness:
  "structured_error (\<lambda>_. []) ''repos'' (repos_json toy_agent toy_world 0 (Some data_job) []) = None \<and>
   structured_error (\<lambda>_. []) ''repos'' (repos_json toy_agent toy_world 0 (Some data_job) [repo_row toy_agent (JObj [])]) \<noteq> None"
proof -
  have "ae_frac_text toy_agent = (\<lambda>_. [])" by (simp add: toy_agent_def)
  moreover have "start_journey (Some data_job) = Some (JStr ''u'')" "job_input (Some data_job) = None"
    by (simp_all add: data_job_def start_journey_def job_input_def job_td_def jget_def)
  ultimately show ?thesis
    using placeholders_pass_gateway [of "Some data_job" "''u''" toy_agent "JObj []" toy_world 0]
    by (simp add: jget_def jstr_def json_list_def jarray_def nullish_def)
qed

end
