(* ===== verification/Ops.thy ===== *)
theory Ops
  imports Settings Outbox
begin

text \<open>
  What the operators see: the in-process counters and the Prometheus text of \<open>src/src/metrics.ts\<close>, the
  gauges of \<open>src/workers/ops-metrics-runner.ts\<close>, and the inbox of CloudWatch alarms
  (\<open>src/src/alerting/sns.ts\<close>, \<open>src/workers/alarm-inbox-runner.ts\<close> and its table in \<open>src/src/store.ts\<close>).
  A report is made of several queries outside any transaction: \<open>view i\<close> is the instant and the store
  the i-th query sees. Groups of a query come in the order of their first row, which Postgres leaves
  open. The queue of Amazon is a list of deliveries, each with the answers the services give for it.
\<close>

section \<open>Counters\<close>

type_synonym counters = "string \<Rightarrow> int option"

definition counter :: "counters \<Rightarrow> string \<Rightarrow> int" where
  "counter c k = (case c k of None \<Rightarrow> 0 | Some n \<Rightarrow> n)"

definition inc :: "string \<Rightarrow> int \<Rightarrow> counters \<Rightarrow> counters" where
  "inc k by c = c(k \<mapsto> counter c k + by)"

lemma counter_inc [simp]: "counter (inc k by c) k' = (if k' = k then counter c k + by else counter c k')"
  by (simp add: inc_def counter_def)

definition label_value :: "string \<Rightarrow> string" where
  "label_value v = concat (map (\<lambda>c. if c = CHR 0x22 then [CHR 0x5C, CHR 0x22] else [c]) v)"

definition promLine :: "(rat \<Rightarrow> string) \<Rightarrow> string \<Rightarrow> rat \<Rightarrow> (string \<times> string) list \<Rightarrow> string" where
  "promLine ft k v labels =
     k @ (if labels = [] then []
          else ''{'' @ join '','' (map (\<lambda>(l, x). l @ ''='' @ [CHR 0x22] @ label_value x @ [CHR 0x22]) labels) @ ''}'')
       @ '' '' @ number_text ft (Fin v) @ [CHR 0x0A]"

section \<open>Queries\<close>

type_synonym view = "nat \<Rightarrow> int \<times> db"

text \<open>\<open>SELECT key, count(*) .. GROUP BY key\<close> and \<open>SELECT key, now() - min(created) .. GROUP BY key\<close>\<close>

definition group_count :: "('r \<Rightarrow> string) \<Rightarrow> 'r list \<Rightarrow> (string \<times> nat) list" where
  "group_count key t = map (\<lambda>k. (k, count_where (\<lambda>r. key r = k) t)) (remdups (map key t))"

text \<open>\<open>extract(epoch from (now() - min(created)))\<close>, in seconds; NULL of no row.\<close>

definition oldest_age :: "int \<Rightarrow> ('r \<Rightarrow> int) \<Rightarrow> 'r list \<Rightarrow> rat option" where
  "oldest_age now created t =
     (if t = [] then None else Some (of_int (now - Min (created ` set t)) / 1000))"

definition group_age :: "int \<Rightarrow> ('r \<Rightarrow> string) \<Rightarrow> ('r \<Rightarrow> int) \<Rightarrow> 'r list \<Rightarrow> (string \<times> rat option) list" where
  "group_age now key created t =
     map (\<lambda>k. (k, oldest_age now created (filter (\<lambda>r. key r = k) t))) (remdups (map key t))"

definition or_zero :: "rat option \<Rightarrow> rat" where
  "or_zero x = (case x of None \<Rightarrow> 0 | Some q \<Rightarrow> q)"

definition in_review :: "verifications_row \<Rightarrow> bool" where
  "in_review v \<longleftrightarrow> v_status v \<in> {VerQueued, VerInProgress}"

definition verifier_backlog :: "int \<times> db \<Rightarrow> nat" where
  "verifier_backlog q = count_where in_review (verifications (snd q))"

definition verifier_backlog_age :: "int \<times> db \<Rightarrow> rat" where
  "verifier_backlog_age q = or_zero (oldest_age (fst q) v_created_at (filter in_review (verifications (snd q))))"

definition scan_backlog_age :: "int \<times> db \<Rightarrow> rat" where
  "scan_backlog_age q =
     or_zero (oldest_age (fst q) a_created_at
       (filter (\<lambda>a. a_status a \<in> {ArtUploaded, ArtScanFailed}) (artifacts (snd q))))"

definition stale_open_job :: "int \<Rightarrow> jobs_row \<Rightarrow> bool" where
  "stale_open_job now j \<longleftrightarrow> j_status j = JobOpen \<and>
     (case Option.bind (j_task_descriptor j) td_freshness_sla_sec of
        None \<Rightarrow> False
      | Some n \<Rightarrow> j_created_at j < now - n * 1000)"

definition jobs_stale :: "int \<times> db \<Rightarrow> nat" where
  "jobs_stale q = count_where (stale_open_job (fst q)) (jobs (snd q))"

definition workers_rate_limited :: "int \<times> db \<Rightarrow> nat" where
  "workers_rate_limited q =
     count_where (\<lambda>w. case wk_rate_limited_until w of None \<Rightarrow> False | Some t \<Rightarrow> t > fst q) (workers (snd q))"

definition workers_active_5m :: "int \<times> db \<Rightarrow> nat" where
  "workers_active_5m q =
     count_where (\<lambda>w. case wk_last_seen_at w of None \<Rightarrow> False | Some t \<Rightarrow> t > fst q - 300000) (workers (snd q))"

definition events_in :: "outbox_status \<Rightarrow> int \<times> db \<Rightarrow> outbox_row list" where
  "events_in st q = filter (\<lambda>r. ob_status r = st) (outbox_events (snd q))"

definition payouts_by_status :: "int \<times> db \<Rightarrow> (string \<times> nat) list" where
  "payouts_by_status q = group_count (\<lambda>p. payout_status_text (p_status p)) (payouts (snd q))"

definition payout_pending_age :: "int \<times> db \<Rightarrow> rat" where
  "payout_pending_age q =
     or_zero (oldest_age (fst q) p_created_at (filter (\<lambda>p. p_status p = PayoutPending) (payouts (snd q))))"

text \<open>\<open>max(last_success_at)\<close> of the sources that have one.\<close>

definition github_success_age :: "int \<times> db \<Rightarrow> rat" where
  "github_success_age q =
     (let ts = concat (map (\<lambda>r. case gs_last_success_at r of None \<Rightarrow> [] | Some t \<Rightarrow> [t]) (github_sources (snd q)))
      in if ts = [] then 0 else of_int (fst q - Max (set ts)) / 1000)"

section \<open>The Prometheus text\<close>

definition type_line :: "string \<Rightarrow> string \<Rightarrow> string" where
  "type_line k kind = ''# TYPE '' @ k @ '' '' @ kind @ [CHR 0x0A]"

text \<open>The exported counters, by the names they have in the process.\<close>

definition exported_counters :: "(string \<times> string) list" where
  "exported_counters =
     [(''proofwork_requests_total'', ''requests_total''), (''proofwork_claim_total'', ''claim_total''),
      (''proofwork_submit_total'', ''submit_total''), (''proofwork_duplicate_total'', ''duplicate_total''),
      (''proofwork_verdict_total'', ''verdict_total''),
      (''proofwork_payout_requested_total'', ''payout_requested_total''),
      (''proofwork_payout_paid_total'', ''payout_paid_total''),
      (''proofwork_payout_failed_total'', ''payout_failed_total''),
      (''proofwork_artifact_scanned_total'', ''artifact_scanned_total''),
      (''proofwork_artifact_blocked_total'', ''artifact_blocked_total''),
      (''proofwork_alarm_notifications_ingested_total'', ''alarm_notifications_ingested_total''),
      (''proofwork_platform_fee_cents_total'', ''platform_fee_cents_total''),
      (''proofwork_fee_cents_total'', ''proofwork_fee_cents_total''),
      (''proofwork_worker_heartbeat_total'', ''worker_heartbeat_total'')]"

definition gauge :: "(rat \<Rightarrow> string) \<Rightarrow> string \<Rightarrow> rat \<Rightarrow> string" where
  "gauge ft k v = type_line k ''gauge'' @ promLine ft k v []"

definition gauge_by :: "(rat \<Rightarrow> string) \<Rightarrow> string \<Rightarrow> string \<Rightarrow> (string \<times> rat) list \<Rightarrow> string" where
  "gauge_by ft k label rows =
     type_line k ''gauge'' @ concat (map (\<lambda>(x, v). promLine ft k v [(label, x)]) rows)"

definition counts :: "(string \<times> nat) list \<Rightarrow> (string \<times> rat) list" where
  "counts = map (\<lambda>(k, n). (k, of_nat n))"

text \<open>Groups without an age are left out.\<close>

definition known_ages :: "(string \<times> rat option) list \<Rightarrow> (string \<times> rat) list" where
  "known_ages rows = concat (map (\<lambda>(k, a). case a of None \<Rightarrow> [] | Some q \<Rightarrow> [(k, q)]) rows)"

definition renderPrometheusMetrics :: "(rat \<Rightarrow> string) \<Rightarrow> counters \<Rightarrow> view \<Rightarrow> string" where
  "renderPrometheusMetrics ft c view =
     concat (map (\<lambda>(k, k'). type_line k ''counter'' @ promLine ft k (of_int (counter c k')) []) exported_counters) @
     gauge ft ''proofwork_verifier_backlog'' (of_nat (verifier_backlog (view 0))) @
     gauge_by ft ''proofwork_outbox_pending'' ''topic'' (counts (group_count ob_topic (events_in ObPending (view 1)))) @
     gauge_by ft ''proofwork_outbox_pending_age_seconds'' ''topic''
       (known_ages (group_age (fst (view 2)) ob_topic ob_created_at (events_in ObPending (view 2)))) @
     gauge_by ft ''proofwork_outbox_deadletter'' ''topic'' (counts (group_count ob_topic (events_in ObDeadletter (view 3)))) @
     gauge ft ''proofwork_verifier_backlog_age_seconds'' (verifier_backlog_age (view 4)) @
     gauge_by ft ''proofwork_payouts'' ''status'' (counts (payouts_by_status (view 5))) @
     gauge_by ft ''proofwork_artifacts'' ''status''
       (counts (group_count (\<lambda>a. artifact_status_text (a_status a)) (artifacts (snd (view 6))))) @
     gauge ft ''proofwork_workers_rate_limited'' (of_nat (workers_rate_limited (view 7))) @
     gauge ft ''proofwork_workers_active_5m'' (of_nat (workers_active_5m (view 8))) @
     gauge ft ''proofwork_jobs_stale'' (of_nat (jobs_stale (view 9))) @
     gauge ft ''proofwork_artifact_scan_backlog_age_seconds'' (scan_backlog_age (view 10)) @
     gauge_by ft ''proofwork_github_sources'' ''status'' (counts (group_count gs_status (github_sources (snd (view 11))))) @
     gauge ft ''proofwork_github_last_success_age_seconds'' (github_success_age (view 12))"

section \<open>The gauges of CloudWatch\<close>

record gauge_snapshot =
  gv_verifierBacklog :: nat
  gv_verifierBacklogAgeSeconds :: rat
  gv_artifactScanBacklogAgeSeconds :: rat
  gv_jobsStale :: nat
  gv_workersActive5m :: nat
  gv_workersRateLimited :: nat
  gv_outboxPendingTotal :: nat
  gv_outboxPendingMaxAgeSeconds :: rat
  gv_outboxDeadletterTotal :: nat
  gv_payoutsPending :: nat
  gv_payoutsBlocked :: nat
  gv_payoutsFailed :: nat
  gv_payoutPendingAgeSeconds :: rat

record topic_gauges =
  tg_topic :: string
  tg_pending :: nat
  tg_pendingAgeSeconds :: rat
  tg_deadletter :: nat

definition count_of :: "(string \<times> nat) list \<Rightarrow> string \<Rightarrow> nat" where
  "count_of m k = (case map_of m k of None \<Rightarrow> 0 | Some n \<Rightarrow> n)"

definition age_of :: "(string \<times> rat option) list \<Rightarrow> string \<Rightarrow> rat" where
  "age_of m k = or_zero (case map_of m k of None \<Rightarrow> None | Some a \<Rightarrow> a)"

text \<open>The union of the three groupings, in the order of the topics.\<close>

definition topic_rows ::
    "(string \<times> nat) list \<Rightarrow> (string \<times> rat option) list \<Rightarrow> (string \<times> nat) list \<Rightarrow> topic_gauges list" where
  "topic_rows pending ages dead =
     map (\<lambda>k. \<lparr> tg_topic = k, tg_pending = count_of pending k, tg_pendingAgeSeconds = age_of ages k,
                tg_deadletter = count_of dead k \<rparr>)
       (sort (remdups (map fst pending @ map fst ages @ map fst dead)))"

definition collectSnapshot :: "view \<Rightarrow> gauge_snapshot \<times> topic_gauges list" where
  "collectSnapshot view =
     (let byTopic = topic_rows (group_count ob_topic (events_in ObPending (view 6)))
            (group_age (fst (view 7)) ob_topic ob_created_at (events_in ObPending (view 7)))
            (group_count ob_topic (events_in ObDeadletter (view 8)));
          byStatus = payouts_by_status (view 9)
      in (\<lparr> gv_verifierBacklog = verifier_backlog (view 0),
            gv_verifierBacklogAgeSeconds = verifier_backlog_age (view 1),
            gv_artifactScanBacklogAgeSeconds = scan_backlog_age (view 2),
            gv_jobsStale = jobs_stale (view 3),
            gv_workersActive5m = workers_active_5m (view 5),
            gv_workersRateLimited = workers_rate_limited (view 4),
            gv_outboxPendingTotal = sum_list (map tg_pending byTopic),
            gv_outboxPendingMaxAgeSeconds = fold (\<lambda>r m. max m (tg_pendingAgeSeconds r)) byTopic 0,
            gv_outboxDeadletterTotal = sum_list (map tg_deadletter byTopic),
            gv_payoutsPending = count_of byStatus ''pending'',
            gv_payoutsBlocked = count_of byStatus ''blocked'',
            gv_payoutsFailed = count_of byStatus ''failed'',
            gv_payoutPendingAgeSeconds = payout_pending_age (view 10) \<rparr>, byTopic))"

definition envLabel :: "(string \<Rightarrow> string option) \<Rightarrow> string" where
  "envLabel env =
     (let raw = toLowerCase (trim (case env ''ENVIRONMENT'' of Some x \<Rightarrow> x | None \<Rightarrow> or_blank (env ''APP_ENV'')))
      in if raw = ''production'' then ''prod'' else if raw \<noteq> [] then raw else ''unknown'')"

text \<open>\<open>clampInt(envInt(k, fallback), lo, hi)\<close>; the fallbacks lie between the bounds.\<close>

definition env_clamped :: "(string \<Rightarrow> string option) \<Rightarrow> string \<Rightarrow> int \<Rightarrow> int \<Rightarrow> int \<Rightarrow> int" where
  "env_clamped env k fallback lo hi =
     clamp_floor lo hi fallback (case env k of None \<Rightarrow> Fin (of_int fallback) | Some x \<Rightarrow> js_number x)"

definition poll_ms :: "(string \<Rightarrow> string option) \<Rightarrow> int" where
  "poll_ms env = env_clamped env ''OPS_METRICS_POLL_MS'' 60000 5000 600000"

definition spread :: "(string \<times> json) list \<Rightarrow> (string \<times> json) list \<Rightarrow> (string \<times> json) list" where
  "spread fs gs = fold (\<lambda>(k, v). set_field k v) gs fs"

definition emfRecord ::
    "int \<Rightarrow> string \<Rightarrow> (string \<times> string) list \<Rightarrow> (string \<times> string option) list \<Rightarrow> (string \<times> rat) list \<Rightarrow> json" where
  "emfRecord now namespace dims metrics values =
     JObj (spread (spread
       [(''_aws'', JObj [(''Timestamp'', JNum (Fin (of_int now))),
          (''CloudWatchMetrics'', JArr [JObj [(''Namespace'', JStr namespace),
             (''Dimensions'', JArr [JArr (map (\<lambda>(k, _). JStr k) dims)]),
             (''Metrics'', JArr (map (\<lambda>(k, u). JObj [(''Name'', JStr k),
                (''Unit'', JStr (case u of None \<Rightarrow> ''None'' | Some x \<Rightarrow> x))]) metrics))]])])]
       (map (\<lambda>(k, v). (k, JStr v)) dims))
       (map (\<lambda>(k, v). (k, JNum (Fin v))) values))"

definition gauge_fields :: "gauge_snapshot \<Rightarrow> (string \<times> string \<times> rat) list" where
  "gauge_fields g =
     [(''VerifierBacklog'', ''Count'', of_nat (gv_verifierBacklog g)),
      (''VerifierBacklogAgeSeconds'', ''Seconds'', gv_verifierBacklogAgeSeconds g),
      (''ArtifactScanBacklogAgeSeconds'', ''Seconds'', gv_artifactScanBacklogAgeSeconds g),
      (''JobsStale'', ''Count'', of_nat (gv_jobsStale g)),
      (''WorkersActive5m'', ''Count'', of_nat (gv_workersActive5m g)),
      (''WorkersRateLimited'', ''Count'', of_nat (gv_workersRateLimited g)),
      (''OutboxPendingTotal'', ''Count'', of_nat (gv_outboxPendingTotal g)),
      (''OutboxPendingMaxAgeSeconds'', ''Seconds'', gv_outboxPendingMaxAgeSeconds g),
      (''OutboxDeadletterTotal'', ''Count'', of_nat (gv_outboxDeadletterTotal g)),
      (''PayoutsPending'', ''Count'', of_nat (gv_payoutsPending g)),
      (''PayoutsBlocked'', ''Count'', of_nat (gv_payoutsBlocked g)),
      (''PayoutsFailed'', ''Count'', of_nat (gv_payoutsFailed g)),
      (''PayoutPendingAgeSeconds'', ''Seconds'', gv_payoutPendingAgeSeconds g)]"

definition topic_fields :: "topic_gauges \<Rightarrow> (string \<times> string \<times> rat) list" where
  "topic_fields r =
     [(''OutboxPending'', ''Count'', of_nat (tg_pending r)),
      (''OutboxPendingAgeSeconds'', ''Seconds'', tg_pendingAgeSeconds r),
      (''OutboxDeadletter'', ''Count'', of_nat (tg_deadletter r))]"

definition emf_of :: "int \<Rightarrow> (string \<times> string) list \<Rightarrow> (string \<times> string \<times> rat) list \<Rightarrow> json" where
  "emf_of now dims cells =
     emfRecord now ''Proofwork'' dims (map (\<lambda>(k, u, _). (k, Some u)) cells) (map (\<lambda>(k, _, v). (k, v)) cells)"

record ops_status =
  lastRunAt :: "string option"
  lastError :: "string option"
  lastGauges :: "gauge_snapshot option"

text \<open>One turn of the runner: what it prints, and the status it shows. A query that fails is \<open>Inl\<close>; the last
  gauges are kept then.\<close>

definition ops_turn ::
    "(rat \<Rightarrow> string) \<Rightarrow> (int \<Rightarrow> string) \<Rightarrow> string \<Rightarrow> int \<Rightarrow> string + view \<Rightarrow> ops_status \<Rightarrow> string list \<times> ops_status" where
  "ops_turn ft isoText label now seen st =
     (case seen of
        Inl e \<Rightarrow> ([''[ops_metrics] failed err='' @ e], st\<lparr>lastError := Some e\<rparr>)
      | Inr view \<Rightarrow>
          let (g, byTopic) = collectSnapshot view
          in (json_stringify ft (emf_of now [(''Environment'', label)] (gauge_fields g)) #
              map (\<lambda>r. json_stringify ft
                (emf_of now [(''Environment'', label), (''Topic'', tg_topic r)] (topic_fields r))) byTopic,
              \<lparr> lastRunAt = Some (isoText now), lastError = None, lastGauges = Some g \<rparr>))"

text \<open>\<open>GET /health/status\<close> of a worker (\<open>src/workers/health.ts\<close>), with what the worker adds to it.\<close>

definition health_status :: "string \<Rightarrow> int \<Rightarrow> (string \<times> json) list \<Rightarrow> json" where
  "health_status name pid extra =
     JObj (spread [(''ok'', JBool True), (''name'', JStr name), (''pid'', JNum (Fin (of_int pid)))] extra)"

section \<open>Alarms\<close>

record alarm =
  al_snsMessageId :: "string option"
  al_topicArn :: string
  al_alarmName :: "string option"
  al_oldStateValue :: "string option"
  al_newStateValue :: "string option"
  al_stateReason :: "string option"
  al_stateChangeTime :: "int option"
  al_raw :: json

text \<open>The runtime's number text, \<open>JSON.parse\<close> and \<open>new Date(..)\<close>, which are \<open>None\<close> when they fail.\<close>

record alarm_env =
  ln_frac_text :: "rat \<Rightarrow> string"
  ln_parse :: "string \<Rightarrow> json option"
  ln_date :: "string \<Rightarrow> int option"

text \<open>\<open>x.k ? String(x.k) : null\<close>\<close>

definition text_if_truthy :: "(rat \<Rightarrow> string) \<Rightarrow> string \<Rightarrow> json option \<Rightarrow> string option" where
  "text_if_truthy ft k x = (if json_truthy (jget k x) then Some (json_text ft (the (jget k x))) else None)"

text \<open>\<open>safeJsonParse\<close> answers \<open>null\<close> for a text that is no JSON, as for the text \<open>null\<close>.\<close>

definition safeJsonParse :: "alarm_env \<Rightarrow> string \<Rightarrow> json" where
  "safeJsonParse ai t = (case ln_parse ai t of None \<Rightarrow> JNull | Some j \<Rightarrow> j)"

definition parseAlarmFromSns :: "alarm_env \<Rightarrow> json \<Rightarrow> alarm" where
  "parseAlarmFromSns ai envelope =
     (let ft = ln_frac_text ai;
          inner = (case text_if_truthy ft ''Message'' (Some envelope) of
                     None \<Rightarrow> JNull
                   | Some m \<Rightarrow> safeJsonParse ai m);
          cell = (\<lambda>k. text_if_truthy ft k (Some inner))
      in \<lparr> al_snsMessageId = text_if_truthy ft ''MessageId'' (Some envelope),
           al_topicArn = text_or_blank ft (jget ''TopicArn'' (Some envelope)),
           al_alarmName = cell ''AlarmName'',
           al_oldStateValue = cell ''OldStateValue'',
           al_newStateValue = cell ''NewStateValue'',
           al_stateReason = cell ''NewStateReason'',
           al_stateChangeTime = Option.bind (cell ''StateChangeTime'') (ln_date ai),
           al_raw = JObj [(''sns'', envelope), (''message'', inner)] \<rparr>)"

text \<open>The unique index on \<open>(topic_arn, sns_message_id)\<close>: NULLs are distinct.\<close>

definition same_message :: "string \<Rightarrow> string option \<Rightarrow> alarms_row \<Rightarrow> bool" where
  "same_message topic mid r \<longleftrightarrow> mid \<noteq> None \<and> an_topic_arn r = topic \<and> an_sns_message_id r = mid"

definition alarm_row :: "string \<Rightarrow> int \<Rightarrow> string \<Rightarrow> alarm \<Rightarrow> alarms_row" where
  "alarm_row rid now environment a =
     \<lparr> an_id = rid, an_environment = environment, an_topic_arn = al_topicArn a,
       an_sns_message_id = al_snsMessageId a, an_alarm_name = al_alarmName a,
       an_old_state_value = al_oldStateValue a, an_new_state_value = al_newStateValue a,
       an_state_reason = al_stateReason a, an_state_change_time = al_stateChangeTime a,
       an_raw = al_raw a, an_received_at = now \<rparr>"

definition insertAlarmNotification :: "string \<Rightarrow> int \<Rightarrow> string \<Rightarrow> alarm \<Rightarrow> db \<Rightarrow> db" where
  "insertAlarmNotification rid now environment a s =
     s\<lparr>alarm_notifications := insert_do_nothing (same_message (al_topicArn a) (al_snsMessageId a))
         (alarm_row rid now environment a) (alarm_notifications s)\<rparr>"

text \<open>\<open>listAlarmNotificationsAdmin\<close>; a blank filter is none.\<close>

definition listAlarmNotificationsAdmin ::
    "nat option \<Rightarrow> nat option \<Rightarrow> string option \<Rightarrow> string option \<Rightarrow> db \<Rightarrow> alarms_row list \<times> nat" where
  "listAlarmNotificationsAdmin page limit environment alarmName s =
     paginate page limit (order_desc an_received_at
       (filter (\<lambda>r. (truthy environment \<longrightarrow> Some (an_environment r) = environment) \<and>
                    (truthy alarmName \<longrightarrow> an_alarm_name r = alarmName)) (alarm_notifications s)))"

definition pruneAlarmNotifications :: "int \<Rightarrow> jsnum \<Rightarrow> db \<Rightarrow> nat \<times> db" where
  "pruneAlarmNotifications now maxAgeDays s =
     (case maxAgeDays of
        Fin d \<Rightarrow>
          if d \<le> 0 then (0, s)
          else let old = (\<lambda>r. an_received_at r < now - \<lfloor>d\<rfloor> * 86400000)
               in (count_where old (alarm_notifications s),
                   s\<lparr>alarm_notifications := delete_where old (alarm_notifications s)\<rparr>)
      | _ \<Rightarrow> (0, s))"

section \<open>The alarm inbox\<close>

text \<open>A delivery of the queue: its receipt and body, the id and the instant of the row it would be, and
  the errors of the database and of the deletion from the queue, if they fail.\<close>

record delivery =
  dl_receipt :: "string option"
  dl_body :: "string option"
  dl_id :: string
  dl_at :: int
  dl_insert_error :: "string option"
  dl_delete_error :: "string option"

record inbox =
  ib_db :: db
  ib_counters :: counters
  ib_deleted :: "string list"
  ib_errors :: "string list"

definition delete_message :: "delivery \<Rightarrow> string \<Rightarrow> inbox \<Rightarrow> (string + unit) \<times> inbox" where
  "delete_message d receipt b =
     (case dl_delete_error d of
        Some e \<Rightarrow> (Inl e, b)
      | None \<Rightarrow> (Inr (), b\<lparr>ib_deleted := ib_deleted b @ [receipt]\<rparr>))"

definition store_alarm :: "alarm_env \<Rightarrow> string \<Rightarrow> delivery \<Rightarrow> json \<Rightarrow> inbox \<Rightarrow> inbox" where
  "store_alarm ai environment d e b =
     (case dl_insert_error d of
        Some m \<Rightarrow> b\<lparr>ib_errors := ib_errors b @ [m]\<rparr>
      | None \<Rightarrow>
          b\<lparr>ib_db := insertAlarmNotification (dl_id d) (dl_at d) environment (parseAlarmFromSns ai e) (ib_db b),
            ib_counters := inc ''alarm_notifications_ingested_total'' 1 (ib_counters b)\<rparr>)"

definition ingest_message :: "alarm_env \<Rightarrow> string \<Rightarrow> delivery \<Rightarrow> inbox \<Rightarrow> (string + unit) \<times> inbox" where
  "ingest_message ai environment d b =
     (let e = safeJsonParse ai (or_blank (dl_body d))
      in case dl_receipt d of
           None \<Rightarrow> (Inr (), b)
         | Some receipt \<Rightarrow>
             if receipt = [] then (Inr (), b)
             else if \<not> json_truthy (Some e) \<or> \<not> json_truthy (jget ''TopicArn'' (Some e))
             then delete_message d receipt b
             else delete_message d receipt (store_alarm ai environment d e b))"

text \<open>The messages of one answer of the queue, in order; a deletion that fails ends the process.\<close>

fun ingest_messages :: "alarm_env \<Rightarrow> string \<Rightarrow> delivery list \<Rightarrow> inbox \<Rightarrow> (string + unit) \<times> inbox" where
  "ingest_messages ai environment [] b = (Inr (), b)"
| "ingest_messages ai environment (d # ds) b =
     (case ingest_message ai environment d b of
        (Inl e, b') \<Rightarrow> (Inl e, b')
      | (Inr _, b') \<Rightarrow> ingest_messages ai environment ds b')"

text \<open>The loop of the runner over the answers of the queue; an error of the queue ends it.\<close>

fun alarm_inbox_runner ::
    "alarm_env \<Rightarrow> string \<Rightarrow> (string + delivery list) list \<Rightarrow> inbox \<Rightarrow> (string + unit) \<times> inbox" where
  "alarm_inbox_runner ai environment [] b = (Inr (), b)"
| "alarm_inbox_runner ai environment (Inl e # rs) b = (Inl e, b)"
| "alarm_inbox_runner ai environment (Inr ds # rs) b =
     (case ingest_messages ai environment ds b of
        (Inl e, b') \<Rightarrow> (Inl e, b')
      | (Inr _, b') \<Rightarrow> alarm_inbox_runner ai environment rs b')"

record inbox_config =
  xc_maxMessages :: int
  xc_waitSeconds :: int
  xc_visibilityTimeout :: int
  xc_pollSleepMs :: int
  xc_pruneDays :: int

definition alarm_environment :: "(string \<Rightarrow> string option) \<Rightarrow> string" where
  "alarm_environment env =
     (let e = trim (case env ''ENVIRONMENT'' of Some x \<Rightarrow> x | None \<Rightarrow> or_blank (env ''APP_ENV''))
      in if e = [] then ''unknown'' else e)"

text \<open>\<open>Inl\<close>: the url of the queue is missing.\<close>

definition inbox_config_of :: "(string \<Rightarrow> string option) \<Rightarrow> string + inbox_config" where
  "inbox_config_of env =
     (if trim (or_blank (env ''ALARM_INBOX_QUEUE_URL'')) = [] then Inl ''missing_ALARM_INBOX_QUEUE_URL''
      else Inr
        \<lparr> xc_maxMessages = env_clamped env ''ALARM_INBOX_MAX_MESSAGES'' 5 1 10,
          xc_waitSeconds = env_clamped env ''ALARM_INBOX_WAIT_SECONDS'' 10 0 20,
          xc_visibilityTimeout = env_clamped env ''ALARM_INBOX_VISIBILITY_TIMEOUT'' 60 10 300,
          xc_pollSleepMs = env_clamped env ''ALARM_INBOX_POLL_SLEEP_MS'' 250 0 5000,
          xc_pruneDays = env_clamped env ''ALARM_INBOX_TTL_DAYS'' 30 1 365 \<rparr>)"

section \<open>Grouping loses nothing\<close>

lemma count_where_disj:
  "(\<And>r. \<not> (P r \<and> Q r)) \<Longrightarrow> count_where (\<lambda>r. P r \<or> Q r) t = count_where P t + count_where Q t"
  by (induction t) auto

lemma sum_count_groups:
  assumes "distinct ks"
  shows "sum_list (map (\<lambda>k. count_where (\<lambda>r. key r = k) t) ks) = count_where (\<lambda>r. key r \<in> set ks) t"
  using assms
proof (induction ks)
  case Nil
  have "count_where (\<lambda>r. False) t = 0" by (simp add: count_where_0)
  then show ?case by simp
next
  case (Cons k ks)
  then have "count_where (\<lambda>r. key r = k \<or> key r \<in> set ks) t
      = count_where (\<lambda>r. key r = k) t + count_where (\<lambda>r. key r \<in> set ks) t"
    by (intro count_where_disj) auto
  with Cons show ?case by simp
qed

lemma map_of_tabulate: "map_of (map (\<lambda>k. (k, f k)) ks) x = (if x \<in> set ks then Some (f x) else None)"
  by (induction ks) auto

lemma count_of_groups [simp]: "count_of (group_count key t) k = count_where (\<lambda>r. key r = k) t"
proof (cases "k \<in> set (map key t)")
  case True
  then show ?thesis by (simp add: count_of_def group_count_def map_of_tabulate)
next
  case False
  then have "count_where (\<lambda>r. key r = k) t = 0" by (auto simp: count_where_0)
  with False show ?thesis by (simp add: count_of_def group_count_def map_of_tabulate)
qed

lemma age_of_groups [simp]: "age_of (group_age now key created t) k = or_zero (oldest_age now created (filter (\<lambda>r. key r = k) t))"
proof (cases "k \<in> set (map key t)")
  case True
  then show ?thesis by (simp add: age_of_def group_age_def map_of_tabulate)
next
  case False
  then have "filter (\<lambda>r. key r = k) t = []" by (auto simp: filter_empty_conv)
  with False show ?thesis by (simp add: age_of_def group_age_def map_of_tabulate oldest_age_def or_zero_def)
qed

lemma fst_groups [simp]:
  "map fst (group_count key t) = remdups (map key t)"
  "map fst (group_age now key created t) = remdups (map key t)"
  by (simp_all add: group_count_def group_age_def comp_def)

lemma count_where_all: "(\<And>r. r \<in> set t \<Longrightarrow> P r) \<Longrightarrow> count_where P t = length t"
  by (induction t) auto

lemma group_total:
  "distinct ks \<Longrightarrow> key ` set t \<subseteq> set ks \<Longrightarrow>
     sum_list (map (\<lambda>k. count_where (\<lambda>r. key r = k) t) ks) = length t"
  by (subst sum_count_groups) (auto intro: count_where_all)

lemma fold_max_le:
  "fold (\<lambda>r m. max m (f r)) rs z \<le> (u :: rat) \<longleftrightarrow> z \<le> u \<and> (\<forall>r\<in>set rs. f r \<le> u)"
  by (induction rs arbitrary: z) auto

lemma oldest_age_le:
  assumes "0 \<le> u"
  shows "or_zero (oldest_age now created t) \<le> u \<longleftrightarrow> (\<forall>r\<in>set t. of_int (now - created r) / 1000 \<le> u)"
proof (cases "t = []")
  case True
  with assms show ?thesis by (simp add: oldest_age_def or_zero_def)
next
  case False
  let ?m = "Min (created ` set t)"
  have "?m \<in> created ` set t" using False by simp
  then obtain q where q: "q \<in> set t" "created q = ?m" by auto
  have le: "of_int (now - created r) / 1000 \<le> (of_int (now - ?m) / 1000 :: rat)" if "r \<in> set t" for r
    using that by (simp add: divide_right_mono)
  have "of_int (now - ?m) / 1000 \<le> u \<longleftrightarrow> (\<forall>r\<in>set t. of_int (now - created r) / 1000 \<le> u)"
  proof
    assume "of_int (now - ?m) / 1000 \<le> u"
    with le show "\<forall>r\<in>set t. of_int (now - created r) / 1000 \<le> u" by (meson order_trans)
  next
    assume "\<forall>r\<in>set t. of_int (now - created r) / 1000 \<le> u"
    with q show "of_int (now - ?m) / 1000 \<le> u" by metis
  qed
  with False show ?thesis by (simp add: oldest_age_def or_zero_def)
qed

text \<open>The totals of a snapshot are those of the whole table, although they are added up from the groups.\<close>

lemma snapshot_totals:
  fixes view :: view
  defines "g \<equiv> fst (collectSnapshot view)"
  shows "gv_outboxPendingTotal g = length (events_in ObPending (view 6))"
    and "gv_outboxDeadletterTotal g = length (events_in ObDeadletter (view 8))"
    and "gv_outboxPendingMaxAgeSeconds g =
      max 0 (or_zero (oldest_age (fst (view 7)) ob_created_at (events_in ObPending (view 7))))"
    and "gv_payoutsPending g = count_where (\<lambda>p. p_status p = PayoutPending) (payouts (snd (view 9)))"
    and "gv_payoutsFailed g = count_where (\<lambda>p. p_status p = PayoutFailed) (payouts (snd (view 9)))"
    and "gv_payoutsBlocked g = 0"
proof -
  let ?p = "events_in ObPending (view 6)" and ?a = "events_in ObPending (view 7)" and ?d = "events_in ObDeadletter (view 8)"
  let ?ks = "sort (remdups (remdups (map ob_topic ?p) @ remdups (map ob_topic ?a) @ remdups (map ob_topic ?d)))"
  have ks: "distinct ?ks" "ob_topic ` set ?p \<subseteq> set ?ks" "ob_topic ` set ?a \<subseteq> set ?ks" "ob_topic ` set ?d \<subseteq> set ?ks"
    by auto
  show "gv_outboxPendingTotal g = length ?p"
    using group_total [OF ks(1,2)] by (simp add: g_def collectSnapshot_def Let_def topic_rows_def comp_def)
  show "gv_outboxDeadletterTotal g = length ?d"
    using group_total [OF ks(1,4)] by (simp add: g_def collectSnapshot_def Let_def topic_rows_def comp_def)
  let ?age = "or_zero (oldest_age (fst (view 7)) ob_created_at ?a)"
  have "gv_outboxPendingMaxAgeSeconds g \<le> u \<longleftrightarrow> max 0 ?age \<le> u" for u
  proof (cases "0 \<le> u")
    case True
    then show ?thesis
      by (auto simp: g_def collectSnapshot_def Let_def topic_rows_def fold_max_le oldest_age_le)
  next
    case False
    then show ?thesis by (simp add: g_def collectSnapshot_def Let_def fold_max_le)
  qed
  then show "gv_outboxPendingMaxAgeSeconds g = max 0 ?age" by (metis order.antisym order.refl)
  have st: "(payout_status_text st = ''pending'') = (st = PayoutPending)"
    "(payout_status_text st = ''failed'') = (st = PayoutFailed)" "payout_status_text st \<noteq> ''blocked''" for st
    by (cases st; simp)+
  show "gv_payoutsPending g = count_where (\<lambda>p. p_status p = PayoutPending) (payouts (snd (view 9)))"
    "gv_payoutsFailed g = count_where (\<lambda>p. p_status p = PayoutFailed) (payouts (snd (view 9)))"
    "gv_payoutsBlocked g = 0"
    by (simp_all add: g_def collectSnapshot_def Let_def payouts_by_status_def st count_where_0)
qed

section \<open>At least once on the queue, exactly once in the table\<close>

definition alarms_unique :: "alarms_row list \<Rightarrow> bool" where
  "alarms_unique t \<longleftrightarrow>
     distinct (map (\<lambda>r. (an_topic_arn r, an_sns_message_id r)) (filter (\<lambda>r. an_sns_message_id r \<noteq> None) t))"

abbreviation alarms_of :: "inbox \<Rightarrow> alarms_row list" where
  "alarms_of b \<equiv> alarm_notifications (ib_db b)"

text \<open>What one message may do to the inbox: rows stay, uniqueness is kept, deletions are only added.\<close>

definition inbox_grows :: "inbox \<Rightarrow> inbox \<Rightarrow> bool" where
  "inbox_grows b b' \<longleftrightarrow> (\<exists>new. alarms_of b' = alarms_of b @ new) \<and> (alarms_unique (alarms_of b) \<longrightarrow> alarms_unique (alarms_of b')) \<and>
     (\<exists>del. ib_deleted b' = ib_deleted b @ del)"

lemma inbox_grows_refl [simp]: "inbox_grows b b"
  by (simp add: inbox_grows_def)

lemma inbox_grows_trans: "inbox_grows a b \<Longrightarrow> inbox_grows b c \<Longrightarrow> inbox_grows a c"
  unfolding inbox_grows_def by (metis append.assoc)

lemma alarms_unique_insert:
  "alarms_unique t \<Longrightarrow> alarms_unique (insert_do_nothing (same_message (al_topicArn a) (al_snsMessageId a))
      (alarm_row rid now environment a) t)"
  by (force simp: alarms_unique_def insert_do_nothing_def list_ex_iff same_message_def alarm_row_def)

lemma alarms_unique_new:
  "alarms_unique t \<Longrightarrow> \<not> list_ex (same_message (al_topicArn a) (al_snsMessageId a)) t \<Longrightarrow>
     alarms_unique (t @ [alarm_row rid now environment a])"
  using alarms_unique_insert [of t a rid now environment] by (simp add: insert_do_nothing_def)

lemma store_alarm_grows: "inbox_grows b (store_alarm ai environment d e b)"
  by (auto simp: inbox_grows_def store_alarm_def insertAlarmNotification_def alarms_unique_new
      insert_do_nothing_def split: option.splits)

lemma delete_message_grows: "inbox_grows b (snd (delete_message d receipt b))"
  by (auto simp: inbox_grows_def delete_message_def split: option.splits)

lemma ingest_message_grows: "inbox_grows b (snd (ingest_message ai environment d b))"
  using inbox_grows_trans [OF store_alarm_grows delete_message_grows]
  by (auto simp: ingest_message_def Let_def delete_message_grows split: option.splits)

lemma ingest_messages_grows: "inbox_grows b (snd (ingest_messages ai environment ds b))"
proof (induction ds arbitrary: b)
  case (Cons d ds)
  show ?case
    using ingest_message_grows [of b ai environment d] Cons.IH
    by (cases "ingest_message ai environment d b")
      (auto intro: inbox_grows_trans split: sum.splits)
qed simp

lemma inbox_runner_grows: "inbox_grows b (snd (alarm_inbox_runner ai environment rs b))"
proof (induction ai environment rs b rule: alarm_inbox_runner.induct)
  case (3 ai environment ds rs b)
  then show ?case
    using ingest_messages_grows [of b ai environment ds]
    by (cases "ingest_messages ai environment ds b")
      (auto intro: inbox_grows_trans split: sum.splits)
qed simp_all

text \<open>A message that can be read, and its row.\<close>

definition readable_alarm :: "alarm_env \<Rightarrow> delivery \<Rightarrow> bool" where
  "readable_alarm ai d \<longleftrightarrow> truthy (dl_receipt d) \<and>
     json_truthy (Some (safeJsonParse ai (or_blank (dl_body d)))) \<and>
     json_truthy (jget ''TopicArn'' (Some (safeJsonParse ai (or_blank (dl_body d)))))"

definition alarm_in :: "alarm_env \<Rightarrow> delivery \<Rightarrow> alarm" where
  "alarm_in ai d = parseAlarmFromSns ai (safeJsonParse ai (or_blank (dl_body d)))"

lemma ingest_message_records:
  assumes "readable_alarm ai d" and "al_snsMessageId (alarm_in ai d) = Some mid" and "dl_insert_error d = None"
    and "ingest_message ai environment d b = (Inr (), b')"
  shows "list_ex (same_message (al_topicArn (alarm_in ai d)) (Some mid)) (alarms_of b')"
    and "the (dl_receipt d) \<in> set (ib_deleted b')"
  using assms
  by (auto simp: readable_alarm_def alarm_in_def ingest_message_def Let_def store_alarm_def
      insertAlarmNotification_def insert_do_nothing_def delete_message_def same_message_def alarm_row_def
      split: option.splits)

lemma inbox_grows_keeps:
  "inbox_grows b b' \<Longrightarrow> list_ex P (alarms_of b) \<Longrightarrow> list_ex P (alarms_of b')"
  "inbox_grows b b' \<Longrightarrow> x \<in> set (ib_deleted b) \<Longrightarrow> x \<in> set (ib_deleted b')"
  by (auto simp: inbox_grows_def)

lemma ingest_messages_records:
  assumes "ingest_messages ai environment ds b = (Inr (), b')" and "d \<in> set ds"
    and d: "readable_alarm ai d" "al_snsMessageId (alarm_in ai d) = Some mid" "dl_insert_error d = None"
  shows "list_ex (same_message (al_topicArn (alarm_in ai d)) (Some mid)) (alarms_of b') \<and>
    the (dl_receipt d) \<in> set (ib_deleted b')"
  using assms(1,2)
proof (induction ds arbitrary: b)
  case (Cons c ds)
  then obtain b1 where b1: "ingest_message ai environment c b = (Inr (), b1)"
    "ingest_messages ai environment ds b1 = (Inr (), b')"
    by (auto split: prod.splits sum.splits)
  show ?case
  proof (cases "d = c")
    case True
    with ingest_message_records [OF d, of environment b b1] b1(1)
      inbox_grows_keeps [of b1 b'] ingest_messages_grows [of b1 ai environment ds] b1(2)
    show ?thesis by auto
  next
    case False
    with Cons.prems(2) Cons.IH [OF b1(2)] show ?thesis by auto
  qed
qed simp

lemma inbox_runner_records:
  assumes "alarm_inbox_runner ai environment rs b = (Inr (), b')" and "Inr ds \<in> set rs" and "d \<in> set ds"
    and d: "readable_alarm ai d" "al_snsMessageId (alarm_in ai d) = Some mid" "dl_insert_error d = None"
  shows "list_ex (same_message (al_topicArn (alarm_in ai d)) (Some mid)) (alarms_of b') \<and>
    the (dl_receipt d) \<in> set (ib_deleted b')"
  using assms(1,2)
proof (induction rs arbitrary: b)
  case (Cons x rs)
  then obtain es b1 where b1: "x = Inr es" "ingest_messages ai environment es b = (Inr (), b1)"
    "alarm_inbox_runner ai environment rs b1 = (Inr (), b')"
    by (cases x) (auto split: prod.splits sum.splits)
  show ?case
  proof (cases "x = Inr ds")
    case True
    with b1(1,2) assms(3) ingest_messages_records [OF _ _ d, of environment ds b b1]
      inbox_grows_keeps [of b1 b'] inbox_runner_grows [of b1 ai environment rs] b1(3)
    show ?thesis by auto
  next
    case False
    with Cons.prems(2) Cons.IH [OF b1(3)] show ?thesis by auto
  qed
qed simp

lemma unique_count:
  assumes "alarms_unique t" and "list_ex (same_message topic (Some mid)) t"
  shows "count_where (same_message topic (Some mid)) t = 1"
  using assms
proof (induction t)
  case (Cons r t)
  show ?case
  proof (cases "same_message topic (Some mid) r")
    case True
    with Cons.prems(1) have "(topic, Some mid) \<notin> (\<lambda>q. (an_topic_arn q, an_sns_message_id q)) `
        set (filter (\<lambda>q. an_sns_message_id q \<noteq> None) t)"
      by (auto simp: alarms_unique_def same_message_def simp del: set_filter)
    then have "\<not> same_message topic (Some mid) q" if "q \<in> set t" for q
      using that by (force simp: same_message_def)
    with True show ?thesis by (simp add: count_where_0)
  next
    case False
    with Cons show ?thesis by (auto simp: alarms_unique_def split: if_splits)
  qed
qed simp

text \<open>A message whose row the database refuses is deleted all the same: the alarm is in no table and never
  delivered again.\<close>

lemma refused_alarm_lost:
  assumes "readable_alarm ai d" and "dl_insert_error d = Some m" and "dl_delete_error d = None"
  shows "ingest_message ai environment d b =
    (Inr (), b\<lparr>ib_errors := ib_errors b @ [m], ib_deleted := ib_deleted b @ [the (dl_receipt d)]\<rparr>)"
  using assms
  by (auto simp: readable_alarm_def ingest_message_def Let_def store_alarm_def delete_message_def split: option.splits)

text \<open>Pruning keeps what is younger than the age, and the uniqueness.\<close>

lemma prune_keeps_recent:
  assumes "pruneAlarmNotifications now (Fin d) s = (n, s')" and "r \<in> set (alarm_notifications s)"
    and "now - \<lfloor>d\<rfloor> * 86400000 \<le> an_received_at r"
  shows "r \<in> set (alarm_notifications s')"
  using assms by (auto simp: pruneAlarmNotifications_def Let_def delete_where_def split: if_splits)

lemma alarms_unique_filter: "alarms_unique t \<Longrightarrow> alarms_unique (filter P t)"
  using distinct_map_filter [of "\<lambda>r. (an_topic_arn r, an_sns_message_id r)" "filter (\<lambda>r. an_sns_message_id r \<noteq> None) t" P]
  by (simp add: alarms_unique_def filter_filter conj_commute)

lemma prune_unique:
  "alarms_unique (alarm_notifications s) \<Longrightarrow> alarms_unique (alarm_notifications (snd (pruneAlarmNotifications now x s)))"
  by (simp add: pruneAlarmNotifications_def Let_def delete_where_def alarms_unique_filter split: jsnum.splits)

lemma env_clamped_bounds:
  "lo \<le> fallback \<Longrightarrow> fallback \<le> hi \<Longrightarrow> lo \<le> env_clamped env k fallback lo hi \<and> env_clamped env k fallback lo hi \<le> hi"
  by (simp add: env_clamped_def clamp_floor_bounds)

text \<open>The age of the runner is at least a day, so a run of the pruner leaves the alarms of the last day.\<close>

lemma runner_prunes_days:
  "inbox_config_of env = Inr c \<Longrightarrow> 1 \<le> xc_pruneDays c \<and> xc_pruneDays c \<le> 365"
  using env_clamped_bounds [of 1 30 365 env "''ALARM_INBOX_TTL_DAYS''"]
  by (auto simp: inbox_config_of_def split: if_splits)

text \<open>The queue delivers at least once; the table has every alarm exactly once. When the runner has worked
  through a sequence of answers of the queue without being stopped, each message in them that names its
  topic and has an id, and whose row the database took, has exactly one row under its topic and id, however
  often and in whatever order it was delivered, and its receipt has been deleted from the queue.\<close>

theorem alarm_recorded_exactly_once:
  assumes "alarms_unique (alarms_of b)"
    and "alarm_inbox_runner ai environment answers b = (Inr (), b')" and "Inr ds \<in> set answers" and "d \<in> set ds"
    and "readable_alarm ai d" and "al_snsMessageId (alarm_in ai d) = Some mid" and "dl_insert_error d = None"
  shows "count_where (same_message (al_topicArn (alarm_in ai d)) (Some mid)) (alarms_of b') = 1 \<and>
    the (dl_receipt d) \<in> set (ib_deleted b')"
proof -
  have "alarms_unique (alarms_of b')"
    using inbox_runner_grows [of b ai environment answers] assms(1,2) by (simp add: inbox_grows_def)
  with inbox_runner_records [OF assms(2-7)] unique_count show ?thesis by blast
qed

definition example_alarm_env :: alarm_env where
  "example_alarm_env =
     \<lparr> ln_frac_text = (\<lambda>_. []),
       ln_parse = (\<lambda>t. if t = ''m'' then Some (JObj [(''TopicArn'', JStr ''arn''), (''MessageId'', JStr ''m1'')]) else None),
       ln_date = (\<lambda>_. None) \<rparr>"

definition example_delivery :: "string \<Rightarrow> string \<Rightarrow> int \<Rightarrow> delivery" where
  "example_delivery receipt i t =
     \<lparr> dl_receipt = Some receipt, dl_body = Some ''m'', dl_id = i, dl_at = t, dl_insert_error = None,
       dl_delete_error = None \<rparr>"

definition empty_inbox :: inbox where
  "empty_inbox = \<lparr> ib_db = empty_db, ib_counters = (\<lambda>_. None), ib_deleted = [], ib_errors = [] \<rparr>"

theorem alarm_recorded_exactly_once_witness:
  "\<exists>b'. alarm_inbox_runner example_alarm_env ''prod''
      [Inr [example_delivery ''r1'' ''i1'' 10, example_delivery ''r2'' ''i2'' 11], Inr [example_delivery ''r3'' ''i3'' 12]]
      empty_inbox = (Inr (), b') \<and>
    count_where (same_message ''arn'' (Some ''m1'')) (alarms_of b') = 1 \<and> ''r2'' \<in> set (ib_deleted b')"
proof -
  let ?d = "example_delivery ''r2'' ''i2'' 11"
  let ?answers = "[Inr [example_delivery ''r1'' ''i1'' 10, ?d], Inr [example_delivery ''r3'' ''i3'' 12]]
      :: (string + delivery list) list"
  have run: "\<exists>b'. alarm_inbox_runner example_alarm_env ''prod'' ?answers empty_inbox = (Inr (), b')"
    by (simp add: example_alarm_env_def example_delivery_def ingest_message_def safeJsonParse_def
        or_blank_def jget_def delete_message_def store_alarm_def Let_def)
  have d: "readable_alarm example_alarm_env ?d" "al_snsMessageId (alarm_in example_alarm_env ?d) = Some ''m1''"
    "dl_insert_error ?d = None" "al_topicArn (alarm_in example_alarm_env ?d) = ''arn''" "the (dl_receipt ?d) = ''r2''"
    by (simp_all add: readable_alarm_def alarm_in_def parseAlarmFromSns_def example_alarm_env_def example_delivery_def
        safeJsonParse_def or_blank_def jget_def Let_def text_if_truthy_def text_or_blank_def nullish_def)
  have u: "alarms_unique (alarms_of empty_inbox)"
    by (simp add: alarms_unique_def empty_inbox_def empty_db_def)
  from run obtain b' where b': "alarm_inbox_runner example_alarm_env ''prod'' ?answers empty_inbox = (Inr (), b')" ..
  from alarm_recorded_exactly_once [OF u b' _ _ d(1-3), of "[example_delivery ''r1'' ''i1'' 10, ?d]"] b' d(4,5)
  show ?thesis by auto
qed

end
