(* ===== verification/Preflight.thy ===== *)
theory Preflight
  imports Settings Fees
begin

text \<open>
  The gate a payout configuration passes before a release: \<open>src/src/ops/payoutPreflight.ts\<close> and the script
  \<open>src/scripts/ops/payout_base_preflight.ts\<close> around it. The environment is a partial function. Checksummed
  addresses (\<open>getAddress\<close> of ethers, \<open>None\<close> when it throws), the formatting of amounts, the API under
  test, the chain and the key service are parameters, with their errors as \<open>Inl\<close>.
\<close>

type_synonym environment = "string \<Rightarrow> string option"

definition DEFAULT_BASE_RPC_URL :: string where
  "DEFAULT_BASE_RPC_URL = ''https://mainnet.base.org''"

definition DEFAULT_BASE_USDC_ADDRESS :: string where
  "DEFAULT_BASE_USDC_ADDRESS = ''0x833589fCD6eDb6E08f4c7C32D4f71b54bdA02913''"

definition DEFAULT_PROOFWORK_FEE_WALLET_BASE :: string where
  "DEFAULT_PROOFWORK_FEE_WALLET_BASE = ''0xC9862D6326E93b818d7C735Dc8af6eBddD066bDF''"

datatype check_status = CheckOk | CheckWarn | CheckFail

record check =
  ck_key :: string
  ck_status :: check_status
  ck_message :: string

record preflight_config =
  pf_paymentsProvider :: string
  pf_baseRpcUrl :: string
  pf_splitter :: string
  pf_feeBps :: jsnum
  pf_feeWallet :: string
  pf_kmsKeyId :: string
  pf_usdc :: string
  pf_expectedProvider :: string
  pf_expectedRpcUrl :: string
  pf_expectedFeeBps :: jsnum
  pf_expectedFeeWallet :: string
  pf_expectedChainId :: int
  pf_minEthWei :: int
  pf_minUsdc :: int
  pf_minAllowance :: int

section \<open>Reading the environment\<close>

text \<open>\<open>BigInt(text)\<close> of a trimmed text: decimal digits with a sign, or unsigned hexadecimal, octal or binary.\<close>

definition bigint_literal :: "string \<Rightarrow> int option" where
  "bigint_literal s =
     (let p = toLowerCase (take 2 s);
          based = (\<lambda>base. if drop 2 s \<noteq> [] \<and> all_digits base (drop 2 s)
                          then Some (int (digits_value base (drop 2 s))) else None);
          (neg, d) = strip_sign s
      in if p = ''0x'' then based 16
         else if p = ''0o'' then based 8
         else if p = ''0b'' then based 2
         else if d = [] \<or> \<not> all_digits 10 d then None
         else Some (if neg then - int (digits_value 10 d) else int (digits_value 10 d)))"

definition readBigInt :: "string option \<Rightarrow> int \<Rightarrow> err + int" where
  "readBigInt v fallback =
     (if trim (or_blank v) = [] then Inr fallback
      else case bigint_literal (trim (or_blank v)) of
             None \<Rightarrow> Inl (OtherError (''Cannot convert '' @ trim (or_blank v) @ '' to a BigInt''))
           | Some n \<Rightarrow> Inr n)"

definition truncate_rat :: "rat \<Rightarrow> int" where
  "truncate_rat q = (if 0 \<le> q then \<lfloor>q\<rfloor> else \<lceil>q\<rceil>)"

definition readInt :: "string option \<Rightarrow> int \<Rightarrow> int" where
  "readInt v fallback =
     (case (case v of None \<Rightarrow> Fin (of_int fallback) | Some t \<Rightarrow> js_number t) of
        Fin q \<Rightarrow> truncate_rat q
      | _ \<Rightarrow> fallback)"

text \<open>\<open>String(env[k] ?? fallback).trim()\<close>\<close>

definition setting :: "environment \<Rightarrow> string \<Rightarrow> string \<Rightarrow> string" where
  "setting env k fallback = trim (case env k of None \<Rightarrow> fallback | Some t \<Rightarrow> t)"

definition readPayoutPreflightConfig :: "environment \<Rightarrow> err + preflight_config" where
  "readPayoutPreflightConfig env =
     (case readBigInt (env ''MIN_SIGNER_ETH_WEI'') 1 of Inl e \<Rightarrow> Inl e | Inr eth \<Rightarrow>
      case readBigInt (env ''MIN_SIGNER_USDC_BASE_UNITS'') 1 of Inl e \<Rightarrow> Inl e | Inr usdc \<Rightarrow>
      case readBigInt (env ''MIN_ALLOWANCE_BASE_UNITS'') 1 of Inl e \<Rightarrow> Inl e | Inr allowance \<Rightarrow>
      Inr \<lparr> pf_paymentsProvider = setting env ''PAYMENTS_PROVIDER'' [],
            pf_baseRpcUrl = setting env ''BASE_RPC_URL'' [],
            pf_splitter = setting env ''BASE_PAYOUT_SPLITTER_ADDRESS'' [],
            pf_feeBps = Fin (of_int (readInt (env ''PROOFWORK_FEE_BPS'') 100)),
            pf_feeWallet = setting env ''PROOFWORK_FEE_WALLET_BASE'' [],
            pf_kmsKeyId = setting env ''KMS_PAYOUT_KEY_ID'' [],
            pf_usdc = setting env ''BASE_USDC_ADDRESS'' DEFAULT_BASE_USDC_ADDRESS,
            pf_expectedProvider = setting env ''EXPECTED_PAYMENTS_PROVIDER'' ''crypto_base_usdc'',
            pf_expectedRpcUrl = setting env ''EXPECTED_BASE_RPC_URL'' DEFAULT_BASE_RPC_URL,
            pf_expectedFeeBps = Fin (of_int (readInt (env ''EXPECTED_PROOFWORK_FEE_BPS'') 100)),
            pf_expectedFeeWallet = setting env ''EXPECTED_PROOFWORK_FEE_WALLET_BASE'' DEFAULT_PROOFWORK_FEE_WALLET_BASE,
            pf_expectedChainId = readInt (env ''EXPECTED_BASE_CHAIN_ID'') 8453,
            pf_minEthWei = eth, pf_minUsdc = usdc, pf_minAllowance = allowance \<rparr>)"

section \<open>The static checks\<close>

definition ok_check :: "string \<Rightarrow> string \<Rightarrow> check" where
  "ok_check k m = \<lparr> ck_key = k, ck_status = CheckOk, ck_message = m \<rparr>"

definition fail_check :: "string \<Rightarrow> string \<Rightarrow> check" where
  "fail_check k m = \<lparr> ck_key = k, ck_status = CheckFail, ck_message = m \<rparr>"

definition expected_got :: "string \<Rightarrow> string \<Rightarrow> string" where
  "expected_got e g = ''expected '' @ e @ '', got '' @ g"

definition missing :: "string \<Rightarrow> string \<Rightarrow> check list" where
  "missing k v = (if v = [] then [fail_check (k @ ''.present'') (k @ '' is missing'')] else [])"

definition expected_check :: "string \<Rightarrow> string \<Rightarrow> string \<Rightarrow> check list" where
  "expected_check k v e =
     (if v = [] then []
      else [if v = e then ok_check (k @ ''.expected'') v else fail_check (k @ ''.expected'') (expected_got e v)])"

definition fee_check :: "(rat \<Rightarrow> string) \<Rightarrow> jsnum \<Rightarrow> jsnum \<Rightarrow> check" where
  "fee_check ft v e =
     (if \<not> is_finite v
      then fail_check ''PROOFWORK_FEE_BPS.expected'' (''invalid PROOFWORK_FEE_BPS value: '' @ number_text ft v)
      else if v = e then ok_check ''PROOFWORK_FEE_BPS.expected'' (number_text ft v)
      else fail_check ''PROOFWORK_FEE_BPS.expected'' (expected_got (number_text ft e) (number_text ft v)))"

definition address_check :: "(string \<Rightarrow> string option) \<Rightarrow> string \<Rightarrow> string \<Rightarrow> check list" where
  "address_check getAddress k v =
     (if v = [] then []
      else [case getAddress v of
              None \<Rightarrow> fail_check (k @ ''.address'') (''invalid address: '' @ v)
            | Some a \<Rightarrow> ok_check (k @ ''.address'') a])"

text \<open>An expected wallet that is no address throws. The values are trimmed when they are read, so the trim
  of \<open>normalizeAddress\<close> leaves them as they are.\<close>

definition wallet_check :: "(string \<Rightarrow> string option) \<Rightarrow> string \<Rightarrow> string \<Rightarrow> err + check list" where
  "wallet_check getAddress v e =
     (if v = [] then Inr []
      else case getAddress v of
             None \<Rightarrow> Inr [fail_check ''PROOFWORK_FEE_WALLET_BASE.address'' (''invalid address: '' @ v)]
           | Some actual \<Rightarrow>
               (case getAddress e of
                  None \<Rightarrow> Inl (OtherError ''invalid address'')
                | Some expected \<Rightarrow>
                    Inr [if actual = expected then ok_check ''PROOFWORK_FEE_WALLET_BASE.expected'' actual
                         else fail_check ''PROOFWORK_FEE_WALLET_BASE.expected'' (expected_got expected actual)]))"

definition nonneg_check :: "string \<Rightarrow> int \<Rightarrow> check list" where
  "nonneg_check k n = (if n < 0 then [fail_check (k @ ''.value'') ''must be >= 0''] else [])"

definition chain_check :: "(rat \<Rightarrow> string) \<Rightarrow> int \<Rightarrow> check" where
  "chain_check ft n =
     (if n \<le> 0 then fail_check ''EXPECTED_BASE_CHAIN_ID.value''
        (''invalid expected chain id: '' @ number_text ft (Fin (of_int n)))
      else ok_check ''EXPECTED_BASE_CHAIN_ID.value'' (number_text ft (Fin (of_int n))))"

definition validatePayoutPreflightConfig ::
    "(rat \<Rightarrow> string) \<Rightarrow> (string \<Rightarrow> string option) \<Rightarrow> preflight_config \<Rightarrow> err + check list" where
  "validatePayoutPreflightConfig ft getAddress c =
     (case wallet_check getAddress (pf_feeWallet c) (pf_expectedFeeWallet c) of
        Inl e \<Rightarrow> Inl e
      | Inr wallet \<Rightarrow> Inr
          (missing ''PAYMENTS_PROVIDER'' (pf_paymentsProvider c) @ missing ''BASE_RPC_URL'' (pf_baseRpcUrl c) @
           missing ''BASE_PAYOUT_SPLITTER_ADDRESS'' (pf_splitter c) @
           missing ''PROOFWORK_FEE_WALLET_BASE'' (pf_feeWallet c) @ missing ''KMS_PAYOUT_KEY_ID'' (pf_kmsKeyId c) @
           expected_check ''PAYMENTS_PROVIDER'' (pf_paymentsProvider c) (pf_expectedProvider c) @
           expected_check ''BASE_RPC_URL'' (pf_baseRpcUrl c) (pf_expectedRpcUrl c) @
           [fee_check ft (pf_feeBps c) (pf_expectedFeeBps c)] @ wallet @
           address_check getAddress ''BASE_PAYOUT_SPLITTER_ADDRESS'' (pf_splitter c) @
           address_check getAddress ''BASE_USDC_ADDRESS'' (pf_usdc c) @
           [chain_check ft (pf_expectedChainId c)] @
           nonneg_check ''MIN_SIGNER_ETH_WEI'' (pf_minEthWei c) @
           nonneg_check ''MIN_SIGNER_USDC_BASE_UNITS'' (pf_minUsdc c) @
           nonneg_check ''MIN_ALLOWANCE_BASE_UNITS'' (pf_minAllowance c)))"

record outcome =
  oc_ok :: bool
  oc_failures :: "check list"
  oc_warnings :: "check list"
  oc_oks :: "check list"

definition summarizeCheckOutcome :: "check list \<Rightarrow> outcome" where
  "summarizeCheckOutcome cs =
     (let with_status = (\<lambda>st. filter (\<lambda>c. ck_status c = st) cs)
      in \<lparr> oc_ok = (with_status CheckFail = []), oc_failures = with_status CheckFail,
           oc_warnings = with_status CheckWarn, oc_oks = with_status CheckOk \<rparr>)"

section \<open>The script\<close>

text \<open>What the script asks for: \<open>fetch\<close> of the health url (the status), the chain id, the bytecode at an
  address, the address of the key, and of the token contract its symbol and decimals, the ETH and token
  balances of the signer and the allowance of the splitter.\<close>

record token_answers =
  tk_symbol :: string
  tk_decimals :: int
  tk_eth :: int
  tk_usdc :: int
  tk_allowance :: int

record preflight_io =
  io_frac_text :: "rat \<Rightarrow> string"
  io_getAddress :: "string \<Rightarrow> string option"
  io_fetch :: "string \<Rightarrow> string + nat"
  io_chain_id :: "string \<Rightarrow> string + int"
  io_code :: "string \<Rightarrow> string \<Rightarrow> string + string"
  io_signer :: "string \<Rightarrow> string + string"
  io_token :: "string \<Rightarrow> string \<Rightarrow> string \<Rightarrow> string \<Rightarrow> string + token_answers"
  io_formatEther :: "int \<Rightarrow> string"
  io_formatUnits :: "int \<Rightarrow> int \<Rightarrow> string"

fun argValue :: "string \<Rightarrow> string list \<Rightarrow> string option" where
  "argValue k [] = None"
| "argValue k (a # as) = (if a = k then (case as of [] \<Rightarrow> None | v # _ \<Rightarrow> Some v) else argValue k as)"

definition checkApiHealth :: "preflight_io \<Rightarrow> string \<Rightarrow> check" where
  "checkApiHealth io baseUrl =
     (let url = strip_slash baseUrl @ ''/health''
      in case io_fetch io url of
           Inl e \<Rightarrow> fail_check ''api.health'' (''GET '' @ url @ '' failed: '' @ e)
         | Inr st \<Rightarrow> if 200 \<le> st \<and> st < 300 then ok_check ''api.health'' url
                    else fail_check ''api.health'' (''GET '' @ url @ '' -> '' @ show_nat st))"

definition base_url :: "string list \<Rightarrow> environment \<Rightarrow> string" where
  "base_url argv env =
     trim (case argValue ''--base-url'' argv of Some u \<Rightarrow> u | None \<Rightarrow> or_blank (env ''BASE_URL''))"

definition health_check :: "preflight_io \<Rightarrow> string \<Rightarrow> check" where
  "health_check io u =
     (if u \<noteq> [] then checkApiHealth io u
      else \<lparr> ck_key = ''api.health'', ck_status = CheckWarn,
             ck_message = ''BASE_URL/--base-url not provided, skipping API health check'' \<rparr>)"

definition skip_kms :: "string list \<Rightarrow> environment \<Rightarrow> bool" where
  "skip_kms argv env \<longleftrightarrow> ''--skip-kms'' \<in> set argv \<or> trim (or_blank (env ''SKIP_KMS_CHECK'')) = ''1''"

definition amount_check :: "string \<Rightarrow> int \<Rightarrow> int \<Rightarrow> string \<Rightarrow> string \<Rightarrow> string \<Rightarrow> check" where
  "amount_check k amount lowest shown ok_text low_text =
     (if amount \<ge> lowest then ok_check k (shown @ ok_text) else fail_check k (shown @ low_text))"

definition token_checks :: "preflight_io \<Rightarrow> preflight_config \<Rightarrow> token_answers \<Rightarrow> check list" where
  "token_checks io c t =
     (let eth = show_int (pf_minEthWei c); usdc = show_int (pf_minUsdc c); allow = show_int (pf_minAllowance c);
          units = io_formatUnits io (tk_usdc t) (tk_decimals t) @ '' '' @ tk_symbol t
      in [amount_check ''signer.eth_balance'' (tk_eth t) (pf_minEthWei c) (io_formatEther io (tk_eth t))
            ('' ETH (min='' @ eth @ '' wei)'') ('' ETH is below min '' @ eth @ '' wei''),
          amount_check ''signer.usdc_balance'' (tk_usdc t) (pf_minUsdc c) units
            ('' (min='' @ usdc @ '' units)'') ('' is below min '' @ usdc @ '' units''),
          if tk_allowance t \<ge> pf_minAllowance c
          then ok_check ''signer.usdc_allowance'' (show_int (tk_allowance t) @ '' units (min='' @ allow @ '')'')
          else fail_check ''signer.usdc_allowance''
                 (''allowance '' @ show_int (tk_allowance t) @ '' is below min '' @ allow @ '' units'')])"

definition lift_address :: "preflight_io \<Rightarrow> string \<Rightarrow> string + string" where
  "lift_address io a = (case io_getAddress io a of None \<Rightarrow> Inl ''invalid address'' | Some x \<Rightarrow> Inr x)"

definition signer_checks :: "preflight_io \<Rightarrow> preflight_config \<Rightarrow> bool \<Rightarrow> string \<Rightarrow> string + check list" where
  "signer_checks io c skip splitter =
     (if skip
      then Inr [\<lparr> ck_key = ''kms.signer'', ck_status = CheckWarn,
                  ck_message = ''skipped (--skip-kms or SKIP_KMS_CHECK=1)'' \<rparr>]
      else case io_signer io (pf_kmsKeyId c) of Inl e \<Rightarrow> Inl e | Inr signer \<Rightarrow>
           case lift_address io (pf_usdc c) of Inl e \<Rightarrow> Inl e | Inr token \<Rightarrow>
           case io_token io (pf_baseRpcUrl c) token signer splitter of Inl e \<Rightarrow> Inl e | Inr t \<Rightarrow>
           Inr (ok_check ''kms.signer'' signer # token_checks io c t))"

definition chain_checks :: "preflight_io \<Rightarrow> preflight_config \<Rightarrow> bool \<Rightarrow> string + check list" where
  "chain_checks io c skip =
     (case io_chain_id io (pf_baseRpcUrl c) of Inl e \<Rightarrow> Inl e | Inr chain \<Rightarrow>
      case lift_address io (pf_splitter c) of Inl e \<Rightarrow> Inl e | Inr splitter \<Rightarrow>
      case io_code io (pf_baseRpcUrl c) splitter of Inl e \<Rightarrow> Inl e | Inr bytecode \<Rightarrow>
      case signer_checks io c skip splitter of Inl e \<Rightarrow> Inl e | Inr signed \<Rightarrow>
      Inr ((if chain = pf_expectedChainId c then ok_check ''chain.id'' (show_int chain)
            else fail_check ''chain.id'' (expected_got (show_int (pf_expectedChainId c)) (show_int chain))) #
           (if bytecode \<noteq> [] \<and> bytecode \<noteq> ''0x'' then ok_check ''splitter.code'' splitter
            else fail_check ''splitter.code'' (''no bytecode at '' @ splitter)) # signed))"

datatype report = ReportJson json | ReportLines "string list" | Crashed string

definition check_json :: "check \<Rightarrow> json" where
  "check_json c = JObj [(''key'', JStr (ck_key c)),
     (''status'', JStr (case ck_status c of CheckOk \<Rightarrow> ''ok'' | CheckWarn \<Rightarrow> ''warn'' | CheckFail \<Rightarrow> ''fail'')),
     (''message'', JStr (ck_message c))]"

definition check_line :: "check \<Rightarrow> string" where
  "check_line c = (case ck_status c of CheckOk \<Rightarrow> ''[ok]'' | CheckWarn \<Rightarrow> ''[warn]'' | CheckFail \<Rightarrow> ''[fail]'')
     @ '' '' @ ck_key c @ '' :: '' @ ck_message c"

definition emit :: "bool \<Rightarrow> check list \<Rightarrow> report" where
  "emit jsonMode cs =
     (let r = summarizeCheckOutcome cs
      in if jsonMode then ReportJson (JObj [(''ok'', JBool (oc_ok r)), (''checks'', JArr (map check_json cs))])
         else ReportLines (map check_line cs @
           [''[summary] ok='' @ (if oc_ok r then ''true'' else ''false'') @ '' checks='' @ show_nat (length cs) @
            '' failures='' @ show_nat (length (oc_failures r)) @ '' warnings='' @ show_nat (length (oc_warnings r))]))"

text \<open>The report and the exit code. The chain is asked only when nothing has failed before.\<close>

definition payout_preflight :: "preflight_io \<Rightarrow> string list \<Rightarrow> environment \<Rightarrow> report \<times> nat" where
  "payout_preflight io argv env =
     (let jsonMode = ''--json'' \<in> set argv
      in case readPayoutPreflightConfig env of Inl e \<Rightarrow> (Crashed (err_message e), 1) | Inr c \<Rightarrow>
         case validatePayoutPreflightConfig (io_frac_text io) (io_getAddress io) c of
           Inl e \<Rightarrow> (Crashed (err_message e), 1)
         | Inr static \<Rightarrow>
             let cs = static @ [health_check io (base_url argv env)]
             in if \<not> oc_ok (summarizeCheckOutcome cs) then (emit jsonMode cs, 1)
                else case chain_checks io c (skip_kms argv env) of
                       Inl e \<Rightarrow> (Crashed e, 1)
                     | Inr online \<Rightarrow>
                         (emit jsonMode (cs @ online),
                          if oc_ok (summarizeCheckOutcome (cs @ online)) then 0 else 1))"

section \<open>What a passed preflight means\<close>

definition no_failure :: "check list \<Rightarrow> bool" where
  "no_failure cs \<longleftrightarrow> (\<forall>c\<in>set cs. ck_status c \<noteq> CheckFail)"

lemma no_failure_simps [simp]:
  "no_failure []" "no_failure (c # cs) \<longleftrightarrow> ck_status c \<noteq> CheckFail \<and> no_failure cs"
  "no_failure (cs @ ds) \<longleftrightarrow> no_failure cs \<and> no_failure ds"
  by (auto simp: no_failure_def)

lemma oc_ok_iff [simp]: "oc_ok (summarizeCheckOutcome cs) = no_failure cs"
  by (auto simp: summarizeCheckOutcome_def no_failure_def filter_empty_conv)

lemma check_simps [simp]: "ck_status (ok_check k m) = CheckOk" "ck_status (fail_check k m) = CheckFail"
  by (simp_all add: ok_check_def fail_check_def)

lemma no_failure_checks [simp]:
  "no_failure (missing k v) \<longleftrightarrow> v \<noteq> []"
  "no_failure (expected_check k v e) \<longleftrightarrow> (v \<noteq> [] \<longrightarrow> v = e)"
  "no_failure (address_check getAddress k v) \<longleftrightarrow> (v \<noteq> [] \<longrightarrow> getAddress v \<noteq> None)"
  "no_failure (nonneg_check k n) \<longleftrightarrow> 0 \<le> n"
  by (auto simp: missing_def expected_check_def address_check_def nonneg_check_def split: option.splits)

lemma status_checks [simp]:
  "ck_status (chain_check ft n) \<noteq> CheckFail \<longleftrightarrow> 0 < n"
  "ck_status (fee_check ft v e) \<noteq> CheckFail \<longleftrightarrow> is_finite v \<and> v = e"
  "ck_status (amount_check k h m sh a b) \<noteq> CheckFail \<longleftrightarrow> m \<le> h"
  by (auto simp: chain_check_def fee_check_def amount_check_def)

text \<open>The static conditions.\<close>

definition config_ready :: "(string \<Rightarrow> string option) \<Rightarrow> preflight_config \<Rightarrow> bool" where
  "config_ready getAddress c \<longleftrightarrow>
     pf_paymentsProvider c \<noteq> [] \<and> pf_paymentsProvider c = pf_expectedProvider c \<and>
     pf_baseRpcUrl c \<noteq> [] \<and> pf_baseRpcUrl c = pf_expectedRpcUrl c \<and>
     is_finite (pf_feeBps c) \<and> pf_feeBps c = pf_expectedFeeBps c \<and>
     pf_feeWallet c \<noteq> [] \<and> getAddress (pf_feeWallet c) \<noteq> None \<and>
     getAddress (pf_feeWallet c) = getAddress (pf_expectedFeeWallet c) \<and>
     pf_splitter c \<noteq> [] \<and> getAddress (pf_splitter c) \<noteq> None \<and>
     (pf_usdc c = [] \<or> getAddress (pf_usdc c) \<noteq> None) \<and> pf_kmsKeyId c \<noteq> [] \<and>
     0 < pf_expectedChainId c \<and> 0 \<le> pf_minEthWei c \<and> 0 \<le> pf_minUsdc c \<and> 0 \<le> pf_minAllowance c"

lemma validate_ready:
  "(\<exists>cs. validatePayoutPreflightConfig ft getAddress c = Inr cs \<and> no_failure cs) \<longleftrightarrow> config_ready getAddress c"
  by (auto simp: validatePayoutPreflightConfig_def wallet_check_def config_ready_def split: sum.splits option.splits)

definition health_ready :: "preflight_io \<Rightarrow> string \<Rightarrow> bool" where
  "health_ready io u \<longleftrightarrow> u = [] \<or> (\<exists>st. io_fetch io (strip_slash u @ ''/health'') = Inr st \<and> 200 \<le> st \<and> st < 300)"

lemma health_check_ready [simp]: "ck_status (health_check io u) \<noteq> CheckFail \<longleftrightarrow> health_ready io u"
  by (auto simp: health_check_def health_ready_def checkApiHealth_def Let_def split: sum.splits)

definition signer_ready :: "preflight_io \<Rightarrow> preflight_config \<Rightarrow> string \<Rightarrow> bool" where
  "signer_ready io c splitter \<longleftrightarrow>
     (\<exists>signer token t. io_signer io (pf_kmsKeyId c) = Inr signer \<and> io_getAddress io (pf_usdc c) = Some token \<and>
        io_token io (pf_baseRpcUrl c) token signer splitter = Inr t \<and>
        pf_minEthWei c \<le> tk_eth t \<and> pf_minUsdc c \<le> tk_usdc t \<and> pf_minAllowance c \<le> tk_allowance t)"

definition chain_ready :: "preflight_io \<Rightarrow> preflight_config \<Rightarrow> bool \<Rightarrow> bool" where
  "chain_ready io c skip \<longleftrightarrow>
     io_chain_id io (pf_baseRpcUrl c) = Inr (pf_expectedChainId c) \<and>
     (\<exists>splitter bytecode. io_getAddress io (pf_splitter c) = Some splitter \<and>
        io_code io (pf_baseRpcUrl c) splitter = Inr bytecode \<and> bytecode \<noteq> [] \<and> bytecode \<noteq> ''0x'' \<and>
        (skip \<or> signer_ready io c splitter))"

lemma token_checks_ready [simp]:
  "no_failure (token_checks io c t) \<longleftrightarrow>
     pf_minEthWei c \<le> tk_eth t \<and> pf_minUsdc c \<le> tk_usdc t \<and> pf_minAllowance c \<le> tk_allowance t"
  by (auto simp: token_checks_def Let_def)

lemma signer_checks_ready:
  "(\<exists>cs. signer_checks io c skip splitter = Inr cs \<and> no_failure cs) \<longleftrightarrow> skip \<or> signer_ready io c splitter"
  by (auto simp: signer_checks_def signer_ready_def lift_address_def split: sum.splits option.splits)

lemma chain_checks_ready:
  "(\<exists>cs. chain_checks io c skip = Inr cs \<and> no_failure cs) \<longleftrightarrow> chain_ready io c skip"
proof -
  have "(\<exists>cs. chain_checks io c skip = Inr cs \<and> no_failure cs) \<longleftrightarrow>
    (\<exists>splitter bytecode signed. io_chain_id io (pf_baseRpcUrl c) = Inr (pf_expectedChainId c) \<and>
       io_getAddress io (pf_splitter c) = Some splitter \<and> io_code io (pf_baseRpcUrl c) splitter = Inr bytecode \<and>
       bytecode \<noteq> [] \<and> bytecode \<noteq> ''0x'' \<and> signer_checks io c skip splitter = Inr signed \<and> no_failure signed)"
    by (auto simp: chain_checks_def lift_address_def split: sum.splits option.splits)
  then show ?thesis unfolding chain_ready_def signer_checks_ready [symmetric] by auto
qed

text \<open>The script exits with 0 exactly if the configuration can be read and is the expected one with valid
  addresses, the API answers its health check or was not asked, the chain has the expected id and bytecode
  at the splitter, and, unless the key service is skipped, the balances and the allowance of the signer
  reach their minima. So every failed, crashed or missing check is an exit with 1.\<close>

theorem preflight_passes_iff:
  "snd (payout_preflight io argv env) = 0 \<longleftrightarrow>
     (\<exists>c. readPayoutPreflightConfig env = Inr c \<and> config_ready (io_getAddress io) c \<and>
        health_ready io (base_url argv env) \<and> chain_ready io c (skip_kms argv env))"
proof (cases "readPayoutPreflightConfig env")
  case (Inr c)
  have "snd (payout_preflight io argv env) = 0 \<longleftrightarrow>
    (\<exists>cs. validatePayoutPreflightConfig (io_frac_text io) (io_getAddress io) c = Inr cs \<and> no_failure cs) \<and>
    health_ready io (base_url argv env) \<and>
    (\<exists>cs. chain_checks io c (skip_kms argv env) = Inr cs \<and> no_failure cs)"
    using Inr by (auto simp: payout_preflight_def Let_def split: sum.splits)
  with Inr show ?thesis by (simp add: validate_ready chain_checks_ready)
qed (simp add: payout_preflight_def)

section \<open>What it misses\<close>

text \<open>The fee rate as the payouts read it (\<open>proofworkFeeBps\<close> of \<open>baseUsdc.ts\<close>).\<close>

definition first_set :: "environment \<Rightarrow> string \<Rightarrow> string \<Rightarrow> string option" where
  "first_set env k k' = (case env k of None \<Rightarrow> env k' | Some t \<Rightarrow> Some t)"

definition configured_fee :: "environment \<Rightarrow> err + rat" where
  "configured_fee env =
     proofworkFeeBps (map_option js_number (first_set env ''PROOFWORK_FEE_BPS'' ''PLATFORM_FEE_BPS''))
       (map_option js_number (first_set env ''MAX_PROOFWORK_FEE_BPS'' ''MAX_PLATFORM_FEE_BPS''))"

lemma read_other_fee:
  "readPayoutPreflightConfig (env(''PROOFWORK_FEE_BPS'' := v)) =
     map_sum id (\<lambda>c. c\<lparr>pf_feeBps := Fin (of_int (readInt v 100))\<rparr>) (readPayoutPreflightConfig env)"
  by (simp add: readPayoutPreflightConfig_def setting_def cong: sum.case_cong split: sum.split)

lemma read_legacy_fee:
  "readPayoutPreflightConfig (env(''PLATFORM_FEE_BPS'' := v)) = readPayoutPreflightConfig env"
  by (simp add: readPayoutPreflightConfig_def setting_def cong: sum.case_cong)

lemma same_switches [simp]:
  "base_url argv (env(''PROOFWORK_FEE_BPS'' := v)) = base_url argv env"
  "skip_kms argv (env(''PROOFWORK_FEE_BPS'' := v)) = skip_kms argv env"
  "base_url argv (env(''PLATFORM_FEE_BPS'' := v)) = base_url argv env"
  "skip_kms argv (env(''PLATFORM_FEE_BPS'' := v)) = skip_kms argv env"
  by (simp_all add: base_url_def skip_kms_def cong: option.case_cong)

text \<open>C16. The preflight misses the fee rate. A rate that is no number passes where the expected rate is
  the default, but the payouts refuse it, so that no pass can be paid; and the verdict does not depend on
  the legacy variable the payouts fall back to, whatever rate it sets.\<close>

theorem preflight_misses_fee:
  assumes pass: "snd (payout_preflight io argv env) = 0" and expected: "env ''EXPECTED_PROOFWORK_FEE_BPS'' = None"
    and bad: "\<not> is_finite (js_number t)" and unset: "env ''PROOFWORK_FEE_BPS'' = None"
    and legacy: "js_number u = Fin q" "bps_ok q" and no_max: "env ''MAX_PROOFWORK_FEE_BPS'' = None" "env ''MAX_PLATFORM_FEE_BPS'' = None"
  shows "snd (payout_preflight io argv (env(''PROOFWORK_FEE_BPS'' \<mapsto> t))) = 0 \<and>
      configured_fee (env(''PROOFWORK_FEE_BPS'' \<mapsto> t)) = Inl InvalidProofworkFeeBps \<and>
      snd (payout_preflight io argv (env(''PLATFORM_FEE_BPS'' \<mapsto> u))) = 0 \<and>
      configured_fee (env(''PLATFORM_FEE_BPS'' \<mapsto> u)) = Inr q"
proof -
  have i: "readInt (Some t) 100 = 100"
    using bad by (simp add: readInt_def is_finite_def split: jsnum.splits)
  obtain c where c: "readPayoutPreflightConfig env = Inr c" "config_ready (io_getAddress io) c"
    "health_ready io (base_url argv env)" "chain_ready io c (skip_kms argv env)"
    using pass unfolding preflight_passes_iff by blast
  have e: "pf_expectedFeeBps c = Fin 100"
    using c(1) expected by (auto simp: readPayoutPreflightConfig_def readInt_def truncate_rat_def split: sum.splits)
  let ?c = "c\<lparr>pf_feeBps := Fin 100\<rparr>"
  have "config_ready (io_getAddress io) ?c" "chain_ready io ?c (skip_kms argv env)"
    using c(2,4) e by (auto simp: config_ready_def is_finite_def chain_ready_def signer_ready_def)
  then have "snd (payout_preflight io argv (env(''PROOFWORK_FEE_BPS'' \<mapsto> t))) = 0"
    "configured_fee (env(''PROOFWORK_FEE_BPS'' \<mapsto> t)) = Inl InvalidProofworkFeeBps"
    using c(1,3) bad
    by (auto simp: preflight_passes_iff read_other_fee i configured_fee_def first_set_def proofworkFeeBps_def is_finite_def
        split: jsnum.splits)
  moreover have "snd (payout_preflight io argv (env(''PLATFORM_FEE_BPS'' \<mapsto> u))) = 0"
    "configured_fee (env(''PLATFORM_FEE_BPS'' \<mapsto> u)) = Inr q"
    using c unset legacy no_max
    by (auto simp: preflight_passes_iff read_legacy_fee configured_fee_def first_set_def proofworkFeeBps_def bps_ok_def)
  ultimately show ?thesis by blast
qed

text \<open>A release as the tests of the repository configure it, on a chain that answers.\<close>

definition release_env :: environment where
  "release_env = map_of
     [(''PAYMENTS_PROVIDER'', ''crypto_base_usdc''), (''BASE_RPC_URL'', ''https://mainnet.base.org''),
      (''BASE_PAYOUT_SPLITTER_ADDRESS'', ''0x1111111111111111111111111111111111111111''),
      (''PROOFWORK_FEE_WALLET_BASE'', ''0xC9862D6326E93b818d7C735Dc8af6eBddD066bDF''), (''KMS_PAYOUT_KEY_ID'', ''kms-key-id'')]"

definition release_io :: preflight_io where
  "release_io =
     \<lparr> io_frac_text = (\<lambda>_. []), io_getAddress = (\<lambda>a. if length a = 42 then Some a else None),
       io_fetch = (\<lambda>_. Inr 200), io_chain_id = (\<lambda>_. Inr 8453), io_code = (\<lambda>_ _. Inr ''0x60''),
       io_signer = (\<lambda>_. Inr ''0x2''),
       io_token = (\<lambda>_ _ _ _. Inr \<lparr> tk_symbol = ''USDC'', tk_decimals = 6, tk_eth = 5, tk_usdc = 5, tk_allowance = 5 \<rparr>),
       io_formatEther = show_int, io_formatUnits = (\<lambda>n _. show_int n) \<rparr>"

lemma release_passes: "snd (payout_preflight release_io [''--base-url'', ''https://api''] release_env) = 0"
  unfolding preflight_passes_iff
  by (simp add: readPayoutPreflightConfig_def readBigInt_def setting_def release_env_def release_io_def trim_def is_space_def
      or_blank_def readInt_def truncate_rat_def DEFAULT_BASE_RPC_URL_def DEFAULT_BASE_USDC_ADDRESS_def
      DEFAULT_PROOFWORK_FEE_WALLET_BASE_def config_ready_def is_finite_def health_ready_def chain_ready_def
      signer_ready_def base_url_def skip_kms_def)

theorem preflight_misses_fee_witness:
  "snd (payout_preflight release_io [''--base-url'', ''https://api''] (release_env(''PROOFWORK_FEE_BPS'' \<mapsto> ''1%''))) = 0 \<and>
     configured_fee (release_env(''PROOFWORK_FEE_BPS'' \<mapsto> ''1%'')) = Inl InvalidProofworkFeeBps \<and>
     configured_fee (release_env(''PLATFORM_FEE_BPS'' \<mapsto> ''500'')) = Inr 500"
proof -
  have n: "\<not> is_finite (js_number ''1%'')" "js_number ''500'' = Fin 500" "bps_ok 500"
    by (simp_all add: js_number_def trim_def is_space_def toLowerCase_def lower_char_def Let_def decimal_literal_def
        strip_sign_def unsigned_decimal_def all_digits_def digit_val_def digits_value_def is_finite_def bps_ok_def)
  have u: "release_env ''EXPECTED_PROOFWORK_FEE_BPS'' = None" "release_env ''PROOFWORK_FEE_BPS'' = None"
    "release_env ''MAX_PROOFWORK_FEE_BPS'' = None" "release_env ''MAX_PLATFORM_FEE_BPS'' = None"
    by (simp_all add: release_env_def)
  from preflight_misses_fee [OF release_passes u(1) n(1) u(2) n(2,3) u(3,4)] show ?thesis by blast
qed

end
