(* ===== verification/Signer.thy ===== *)
theory Signer
  imports Payouts Encoding
begin

text \<open>
  Signing of payout transactions: the key of the key management service (\<open>src/src/payments/crypto/kmsSigner.ts\<close>),
  the local key (\<open>src/src/payments/crypto/privateKeySigner.ts\<close>) and the broadcast (\<open>signAndBroadcastTx\<close> of
  \<open>src/src/payments/crypto/baseUsdc.ts\<close>). Bytes are \<open>char\<close>. The service, the elliptic curve (recovery of an
  address, signing with a private key), the serialisation of a transaction and the JSON-RPC client are
  parameters. The DER decoder of the code is shown to invert the DER encoding of a signature.
\<close>

section \<open>DER signatures\<close>

definition bad_der :: err where
  "bad_der = OtherError ''kms_signature_bad_der''"

text \<open>\<open>buf[i]\<close>, undefined behind the end.\<close>

definition byte_at :: "string \<Rightarrow> nat \<Rightarrow> nat option" where
  "byte_at b i = (if i < length b then Some (of_char (b ! i)) else None)"

definition slice_bytes :: "string \<Rightarrow> nat \<Rightarrow> nat \<Rightarrow> string" where
  "slice_bytes b i n = take n (drop i b)"

definition bytes_value :: "string \<Rightarrow> nat" where
  "bytes_value b = foldl (\<lambda>n c. n * 256 + of_char c) 0 b"

text \<open>\<open>BigInt('0x' + hex)\<close>; without digits it throws.\<close>

definition hex_bigint :: "string \<Rightarrow> err + nat" where
  "hex_bigint b = (if b = [] then Inl (OtherError ''Cannot convert 0x to a BigInt'') else Inr (bytes_value b))"

text \<open>An integer at an offset: its bytes and the offset behind it. A length behind the end is no number,
  so that no further byte is found.\<close>

definition der_integer :: "string \<Rightarrow> nat \<Rightarrow> err + string \<times> nat option" where
  "der_integer b i =
     (if byte_at b i \<noteq> Some 2 then Inl bad_der
      else case byte_at b (i + 1) of
             None \<Rightarrow> Inr ([], None)
           | Some n \<Rightarrow> Inr (slice_bytes b (i + 2) n, Some (i + 2 + n)))"

definition derToRS :: "string \<Rightarrow> err + nat \<times> nat" where
  "derToRS b =
     (if length b < 8 \<or> byte_at b 0 \<noteq> Some 48 then Inl bad_der
      else
        let len = the (byte_at b 1);
            start = (if len \<ge> 128 then 2 + (len - 128) else 2)
        in case der_integer b start of
             Inl e \<Rightarrow> Inl e
           | Inr (_, None) \<Rightarrow> Inl bad_der
           | Inr (r, Some i) \<Rightarrow>
               (case der_integer b i of
                  Inl e \<Rightarrow> Inl e
                | Inr (s, _) \<Rightarrow>
                    (case (hex_bigint r, hex_bigint s) of
                       (Inl e, _) \<Rightarrow> Inl e
                     | (_, Inl e) \<Rightarrow> Inl e
                     | (Inr x, Inr y) \<Rightarrow> Inr (x, y))))"

section \<open>The key management service\<close>

definition SECP256K1_N :: int where
  "SECP256K1_N = 0xFFFFFFFFFFFFFFFFFFFFFFFFFFFFFFFEBAAEDCE6AF48A03BBFD25E8CD0364141"

definition SECP256K1_HALF_N :: int where
  "SECP256K1_HALF_N = SECP256K1_N div 2"

record ecdsa =
  sig_r :: int
  sig_s :: int
  sig_parity :: nat

text \<open>\<open>ks_public_key\<close> is the address of the public key the service answers with, or the error of asking or
  decoding it; \<open>ks_sign\<close> the signature of a digest, which may be missing; \<open>recoverAddress\<close> the
  address that signed a digest, or the error of an impossible signature.\<close>

record kms =
  ks_public_key :: "err + string"
  ks_sign :: "string \<Rightarrow> err + string option"
  recoverAddress :: "string \<Rightarrow> ecdsa \<Rightarrow> err + string"

text \<open>\<open>KmsEvmSigner.getAddress\<close>; the address is kept.\<close>

definition kms_getAddress :: "kms \<Rightarrow> string option \<Rightarrow> (err + string) \<times> string option" where
  "kms_getAddress k cached =
     (if truthy cached then (Inr (the cached), cached)
      else case ks_public_key k of
             Inl e \<Rightarrow> (Inl e, cached)
           | Inr a \<Rightarrow> (Inr a, Some a))"

text \<open>\<open>toBeHex(v, 32)\<close> fails on a negative number and on one of more than 32 bytes.\<close>

definition to32Bytes :: "int \<Rightarrow> err + int" where
  "to32Bytes v = (if 0 \<le> v \<and> v < 2 ^ 256 then Inr v else Inl (OtherError ''value out of range''))"

text \<open>Both values of the parity bit in order, each flipped when \<open>s\<close> was.\<close>

fun try_parities :: "kms \<Rightarrow> string \<Rightarrow> string \<Rightarrow> int \<Rightarrow> int \<Rightarrow> bool \<Rightarrow> nat list \<Rightarrow> err + ecdsa" where
  "try_parities k digest address r s flipped [] = Inl (OtherError ''kms_signature_recovery_failed'')"
| "try_parities k digest address r s flipped (p # ps) =
     (let sig = \<lparr> sig_r = r, sig_s = s, sig_parity = (if flipped then 1 - p else p) \<rparr>
      in case recoverAddress k digest sig of
           Inl e \<Rightarrow> Inl e
         | Inr a \<Rightarrow> if toLowerCase a = toLowerCase address then Inr sig else try_parities k digest address r s flipped ps)"

text \<open>EIP-2: the lower of the two equivalent values of \<open>s\<close>, and whether it is the other one.\<close>

definition lower_s :: "int \<Rightarrow> bool \<times> int" where
  "lower_s s = (if s > SECP256K1_HALF_N then (True, SECP256K1_N - s) else (False, s))"

definition kms_signDigest :: "kms \<Rightarrow> string \<Rightarrow> string option \<Rightarrow> (err + ecdsa) \<times> string option" where
  "kms_signDigest k digest cached =
     (if length digest \<noteq> 32 then (Inl (OtherError ''digest_must_be_32_bytes''), cached)
      else case ks_sign k digest of
        Inl e \<Rightarrow> (Inl e, cached)
      | Inr None \<Rightarrow> (Inl (OtherError ''kms_signature_missing''), cached)
      | Inr (Some der) \<Rightarrow>
          (case derToRS der of
             Inl e \<Rightarrow> (Inl e, cached)
           | Inr (r0, s0) \<Rightarrow>
               let (flipped, s1) = lower_s (int s0)
               in (case (to32Bytes (int r0), to32Bytes s1) of
                     (Inl e, _) \<Rightarrow> (Inl e, cached)
                   | (_, Inl e) \<Rightarrow> (Inl e, cached)
                   | (Inr r, Inr s) \<Rightarrow>
                       (case kms_getAddress k cached of
                          (Inl e, c) \<Rightarrow> (Inl e, c)
                        | (Inr address, c) \<Rightarrow> (try_parities k digest address r s flipped [0, 1], c)))))"

section \<open>The local key\<close>

text \<open>\<open>address_of\<close> is the address of a private key or the error of an invalid one, \<open>sign_with\<close> its signature.\<close>

definition new_local_signer :: "(string \<Rightarrow> err + string) \<Rightarrow> string \<Rightarrow> err + string" where
  "new_local_signer address_of key =
     (if key = [] \<or> \<not> startsWith key ''0x'' \<or> length key < 66 then Inl (OtherError ''invalid_private_key'')
      else address_of key)"

definition local_signDigest :: "(string \<Rightarrow> string \<Rightarrow> ecdsa) \<Rightarrow> string \<Rightarrow> string \<Rightarrow> err + ecdsa" where
  "local_signDigest sign_with key digest =
     (if length digest \<noteq> 32 then Inl (OtherError ''digest_must_be_32_bytes'') else Inr (sign_with key digest))"

definition requireLocalPrivateKey :: "(string \<Rightarrow> string option) \<Rightarrow> err + string" where
  "requireLocalPrivateKey env =
     (if truthy (env ''LOCAL_EVM_PRIVATE_KEY'') then Inr (the (env ''LOCAL_EVM_PRIVATE_KEY''))
      else Inl (OtherError ''LOCAL_EVM_PRIVATE_KEY not configured''))"

section \<open>Broadcast\<close>

record tx_input =
  tx_chainId :: "int option"
  tx_nonce :: int
  tx_gasLimit :: int
  tx_maxFeePerGas :: int
  tx_maxPriorityFeePerGas :: int
  tx_to :: "string option"
  tx_data :: string
  tx_value :: "int option"

record evm_tx =
  ev_chainId :: int
  ev_nonce :: int
  ev_gasLimit :: int
  ev_maxFee :: int
  ev_maxPriorityFee :: int
  ev_to :: "string option"
  ev_data :: string
  ev_value :: int

text \<open>A signer as the payout worker sees it: its address and its signatures. \<open>unsignedHash\<close>, \<open>serialized\<close> and
  \<open>send_raw\<close> (\<open>eth_sendRawTransaction\<close> through \<open>rpcCall\<close>) are those of ethers and of the chain.\<close>

record signer =
  sn_address :: "err + string"
  sn_sign :: "string \<Rightarrow> err + ecdsa"

record broadcast =
  bc_from :: string
  bc_txHash :: string
  bc_signedTx :: string

definition evm_tx_of :: "int \<Rightarrow> tx_input \<Rightarrow> evm_tx" where
  "evm_tx_of default_chain i =
     \<lparr> ev_chainId = (case tx_chainId i of None \<Rightarrow> default_chain | Some c \<Rightarrow> c),
       ev_nonce = tx_nonce i, ev_gasLimit = tx_gasLimit i, ev_maxFee = tx_maxFeePerGas i,
       ev_maxPriorityFee = tx_maxPriorityFeePerGas i, ev_to = tx_to i, ev_data = tx_data i,
       ev_value = (case tx_value i of None \<Rightarrow> 0 | Some v \<Rightarrow> v) \<rparr>"

definition signAndBroadcastTx ::
    "(evm_tx \<Rightarrow> string) \<Rightarrow> (evm_tx \<Rightarrow> ecdsa \<Rightarrow> string) \<Rightarrow> (string \<Rightarrow> err + string) \<Rightarrow> signer \<Rightarrow> int \<Rightarrow> tx_input \<Rightarrow>
     err + broadcast" where
  "signAndBroadcastTx unsignedHash serialized send_raw sg default_chain i =
     (case sn_address sg of Inl e \<Rightarrow> Inl e | Inr from \<Rightarrow>
      case sn_sign sg (unsignedHash (evm_tx_of default_chain i)) of Inl e \<Rightarrow> Inl e | Inr sig \<Rightarrow>
      let signedTx = serialized (evm_tx_of default_chain i) sig
      in case send_raw signedTx of Inl e \<Rightarrow> Inl e | Inr h \<Rightarrow>
         Inr \<lparr> bc_from = from, bc_txHash = h, bc_signedTx = signedTx \<rparr>)"

definition payoutSplitterAddress :: "(string \<Rightarrow> string option) \<Rightarrow> err + string" where
  "payoutSplitterAddress env =
     (if truthy (env ''BASE_PAYOUT_SPLITTER_ADDRESS'') then Inr (the (env ''BASE_PAYOUT_SPLITTER_ADDRESS''))
      else Inl (OtherError ''BASE_PAYOUT_SPLITTER_ADDRESS not configured''))"

definition signAndBroadcastSplitterTx ::
    "(string \<Rightarrow> string option) \<Rightarrow> (evm_tx \<Rightarrow> string) \<Rightarrow> (evm_tx \<Rightarrow> ecdsa \<Rightarrow> string) \<Rightarrow> (string \<Rightarrow> err + string) \<Rightarrow>
     signer \<Rightarrow> int \<Rightarrow> tx_input \<Rightarrow> err + broadcast" where
  "signAndBroadcastSplitterTx env unsignedHash serialized send_raw sg default_chain i =
     (case payoutSplitterAddress env of
        Inl e \<Rightarrow> Inl e
      | Inr a \<Rightarrow> signAndBroadcastTx unsignedHash serialized send_raw sg default_chain (i\<lparr>tx_to := Some a\<rparr>))"

text \<open>The signer of the payout worker: by provider, with its key from the environment.\<close>

definition payout_signer ::
    "kms \<Rightarrow> (string \<Rightarrow> err + string) \<Rightarrow> (string \<Rightarrow> string \<Rightarrow> ecdsa) \<Rightarrow> (string \<Rightarrow> string option) \<Rightarrow> string \<Rightarrow> err + signer" where
  "payout_signer k address_of sign_with env provider =
     (if provider = ''crypto_base_usdc''
      then if truthy (env ''KMS_PAYOUT_KEY_ID'')
           then Inr \<lparr> sn_address = fst (kms_getAddress k None), sn_sign = (\<lambda>d. fst (kms_signDigest k d None)) \<rparr>
           else Inl (OtherError ''KMS_PAYOUT_KEY_ID not configured'')
      else case requireLocalPrivateKey env of Inl e \<Rightarrow> Inl e | Inr key \<Rightarrow>
           case new_local_signer address_of key of Inl e \<Rightarrow> Inl e | Inr a \<Rightarrow>
           Inr \<lparr> sn_address = Inr a, sn_sign = local_signDigest sign_with key \<rparr>)"

section \<open>The decoder inverts the encoding\<close>

text \<open>DER as X.690 has it, for integers of at most 127 bytes: big-endian without superfluous zeros, with
  a zero in front where the first bit is set.\<close>

fun nat_bytes :: "nat \<Rightarrow> string" where
  "nat_bytes n = (if n = 0 then [] else nat_bytes (n div 256) @ [char_of (n mod 256)])"

declare nat_bytes.simps [simp del]

definition der_positive :: "nat \<Rightarrow> string" where
  "der_positive n =
     (let b = nat_bytes n in if b = [] \<or> (of_char (hd b) :: nat) \<ge> 128 then char_of (0::nat) # b else b)"

definition der_tlv :: "nat \<Rightarrow> string \<Rightarrow> string" where
  "der_tlv t b = char_of t # char_of (length b) # b"

definition der_signature :: "nat \<Rightarrow> nat \<Rightarrow> string" where
  "der_signature r s = der_tlv 48 (der_tlv 2 (der_positive r) @ der_tlv 2 (der_positive s))"

lemma bytes_value_simps [simp]:
  "bytes_value [] = 0" "bytes_value (b @ [c]) = bytes_value b * 256 + of_char c"
  by (simp_all add: bytes_value_def)

lemma bytes_value_zero [simp]: "bytes_value (char_of (0::nat) # b) = bytes_value b"
  by (simp add: bytes_value_def)

lemma bytes_value_nat_bytes [simp]: "bytes_value (nat_bytes n) = n"
proof (induction n rule: nat_bytes.induct)
  case (1 n)
  then show ?case by (subst nat_bytes.simps) simp
qed

lemma length_nat_bytes: "n < 256 ^ k \<Longrightarrow> length (nat_bytes n) \<le> k"
proof (induction k arbitrary: n)
  case (Suc k)
  then have "n div 256 < 256 ^ k" by (simp add: less_mult_imp_div_less mult.commute)
  with Suc.IH show ?case by (subst nat_bytes.simps) simp
qed (simp add: nat_bytes.simps)

lemma der_positive_facts:
  "bytes_value (der_positive n) = n" "der_positive n \<noteq> []" "n < 2 ^ 256 \<Longrightarrow> length (der_positive n) \<le> 33"
proof -
  show "bytes_value (der_positive n) = n" "der_positive n \<noteq> []"
    by (auto simp: der_positive_def Let_def)
  assume "n < 2 ^ 256"
  then have "length (nat_bytes n) \<le> 32" by (intro length_nat_bytes) simp
  then show "length (der_positive n) \<le> 33" by (simp add: der_positive_def Let_def)
qed

lemma der_integer_tlv:
  assumes "length b < 128" and "drop i buf = der_tlv 2 b @ rest"
  shows "der_integer buf i = Inr (b, Some (i + 2 + length b))"
proof -
  have l: "i < length buf" "i + 1 < length buf"
    using arg_cong [OF assms(2), of length] by (simp_all add: der_tlv_def)
  have "buf ! (i + j) = (der_tlv 2 b @ rest) ! j" for j
    using l by (simp flip: assms(2))
  from this [of 0] this [of 1] have "byte_at buf i = Some 2" "byte_at buf (i + 1) = Some (length b)"
    using l assms(1) by (simp_all add: byte_at_def der_tlv_def)
  moreover have "slice_bytes buf (i + 2) (length b) = b"
    using arg_cong [OF assms(2), of "drop 2"] by (simp add: slice_bytes_def der_tlv_def add.commute)
  ultimately show ?thesis by (simp add: der_integer_def)
qed

text \<open>The decoder is right on every signature: from the DER encoding of two numbers below \<open>2^256\<close> it
  reads back these numbers.\<close>

theorem der_roundtrip:
  assumes "r < 2 ^ 256" and "s < 2 ^ 256"
  shows "derToRS (der_signature r s) = Inr (r, s)"
proof -
  let ?r = "der_positive r" and ?s = "der_positive s"
  let ?buf = "der_signature r s"
  note r = der_positive_facts(1,2) [of r] der_positive_facts(3) [OF assms(1)]
  note s = der_positive_facts(1,2) [of s] der_positive_facts(3) [OF assms(2)]
  have "1 \<le> length ?r" "1 \<le> length ?s" using r(2) s(2) by (simp_all add: Suc_le_eq)
  then have len: "8 \<le> length ?buf" by (simp add: der_signature_def der_tlv_def)
  have "length (der_tlv 2 ?r @ der_tlv 2 ?s) < 128" using r(3) s(3) by (simp add: der_tlv_def)
  then have b: "byte_at ?buf 0 = Some 48" "\<exists>n<128. byte_at ?buf 1 = Some n"
    by (auto simp: der_signature_def der_tlv_def byte_at_def)
  have two: "drop 2 ?buf = der_tlv 2 ?r @ der_tlv 2 ?s" by (simp add: der_signature_def der_tlv_def)
  have e: "2 + 2 + length ?r = (2 + length ?r) + 2" by simp
  have "drop (2 + 2 + length ?r) ?buf = drop (2 + length ?r) (drop 2 ?buf)" unfolding e drop_drop ..
  also have "\<dots> = der_tlv 2 ?s @ []" unfolding two by (simp add: der_tlv_def)
  finally have "drop 2 ?buf = der_tlv 2 ?r @ der_tlv 2 ?s" "drop (2 + 2 + length ?r) ?buf = der_tlv 2 ?s @ []"
    using two by simp_all
  from der_integer_tlv [OF _ this(1)] der_integer_tlv [OF _ this(2)] r(3) s(3)
  have "der_integer ?buf 2 = Inr (?r, Some (2 + 2 + length ?r))"
    "\<exists>j. der_integer ?buf (2 + 2 + length ?r) = Inr (?s, j)" by simp_all
  with len b r(1,2) s(1,2) show ?thesis
    by (auto simp: derToRS_def hex_bigint_def Let_def)
qed

section \<open>What a signature of the service is\<close>

lemma to32Bytes_Inr: "to32Bytes v = Inr w \<Longrightarrow> w = v \<and> 0 \<le> v"
  by (simp add: to32Bytes_def split: if_splits)

lemma try_parities_Inr:
  "try_parities k d a r s fl ps = Inr sig \<Longrightarrow>
     sig_r sig = r \<and> sig_s sig = s \<and> (\<exists>b. recoverAddress k d sig = Inr b \<and> toLowerCase b = toLowerCase a)"
  by (induction ps) (auto simp: Let_def split: sum.splits if_splits)

text \<open>Whatever the service answers, a signature that leaves the signer is in the lower half of the curve
  order and recovers to the address of the signer.\<close>

theorem kms_signature_canonical:
  assumes "kms_signDigest k d cached = (Inr sig, c)" and "kms_getAddress k cached = (Inr a, c')"
  shows "length d = 32 \<and> 0 \<le> sig_s sig \<and> sig_s sig \<le> SECP256K1_HALF_N \<and>
    (\<exists>b. recoverAddress k d sig = Inr b \<and> toLowerCase b = toLowerCase a)"
proof -
  from assms obtain s0 fl s1 r s ps where low: "lower_s s0 = (fl, s1)" and s: "to32Bytes s1 = Inr s"
    and tried: "try_parities k d a r s fl ps = Inr sig" and len: "length d = 32"
    by (auto simp: kms_signDigest_def Let_def simp del: try_parities.simps
        split: if_splits sum.splits option.splits prod.splits)
  have "SECP256K1_N - SECP256K1_HALF_N = SECP256K1_HALF_N + 1"
    by (simp add: SECP256K1_N_def SECP256K1_HALF_N_def)
  with low have "s1 \<le> SECP256K1_HALF_N" by (auto simp: lower_s_def split: if_splits)
  with to32Bytes_Inr [OF s] try_parities_Inr [OF tried] len show ?thesis by auto
qed

text \<open>And the signer does sign: when the service answers with the DER encoding of a signature of the digest
  by its key, and the curve is as it is (negating \<open>s\<close> and the parity bit does not change the recovered
  address, and both parities recover some address), the signer returns a signature.\<close>

theorem kms_signs:
  assumes key: "ks_public_key k = Inr a" and len: "length d = 32"
    and sign: "ks_sign k d = Inr (Some (der_signature r s0))" "r < 2 ^ 256" "int s0 < SECP256K1_N"
    and valid: "recoverAddress k d \<lparr> sig_r = int r, sig_s = int s0, sig_parity = q \<rparr> = Inr a" "q \<le> 1"
    and point: "\<And>p. p \<le> 1 \<Longrightarrow> \<exists>b. recoverAddress k d \<lparr> sig_r = int r, sig_s = int s0, sig_parity = p \<rparr> = Inr b"
    and negation: "\<And>p. p \<le> 1 \<Longrightarrow> recoverAddress k d \<lparr> sig_r = int r, sig_s = SECP256K1_N - int s0, sig_parity = 1 - p \<rparr>
      = recoverAddress k d \<lparr> sig_r = int r, sig_s = int s0, sig_parity = p \<rparr>"
  shows "\<exists>sig c. kms_signDigest k d None = (Inr sig, c) \<and> sig_r sig = int r \<and> sig_s sig \<le> SECP256K1_HALF_N"
proof -
  obtain fl s1 where low: "lower_s (int s0) = (fl, s1)" by fastforce
  have n: "SECP256K1_N < 2 ^ 256" "0 < SECP256K1_N" by (simp_all add: SECP256K1_N_def)
  have half: "SECP256K1_N - SECP256K1_HALF_N = SECP256K1_HALF_N + 1"
    by (simp add: SECP256K1_N_def SECP256K1_HALF_N_def)
  have s1: "0 \<le> s1" "s1 < 2 ^ 256" "s1 \<le> SECP256K1_HALF_N"
    using low sign(3) n half by (auto simp: lower_s_def split: if_splits)
  have "int s0 < 2 ^ 256" using sign(3) n(1) by simp
  then have "s0 < 2 ^ 256" by (metis of_nat_less_iff of_nat_numeral of_nat_power)
  have "int r < 2 ^ 256" using sign(2) by (metis of_nat_less_iff of_nat_numeral of_nat_power)
  have rec: "recoverAddress k d \<lparr> sig_r = int r, sig_s = s1, sig_parity = (if fl then 1 - p else p) \<rparr>
      = recoverAddress k d \<lparr> sig_r = int r, sig_s = int s0, sig_parity = p \<rparr>" if "p \<le> 1" for p
    using low negation [OF that] by (auto simp: lower_s_def split: if_splits)
  have "\<exists>sig. try_parities k d a (int r) s1 fl [0, 1] = Inr sig"
    using rec [of 0] rec [of 1] point [of 0] point [of 1] valid
    by (cases "q = 0") (auto simp: Let_def le_Suc_eq)
  then obtain sig where sig: "try_parities k d a (int r) s1 fl [0, 1] = Inr sig" ..
  have "kms_signDigest k d None = (Inr sig, Some a)"
    using len sign(1) der_roundtrip [OF sign(2) \<open>s0 < 2 ^ 256\<close>] low s1 \<open>int r < 2 ^ 256\<close> key sig
    by (simp add: kms_signDigest_def to32Bytes_def kms_getAddress_def del: try_parities.simps)
  with try_parities_Inr [OF sig] s1(3) show ?thesis by auto
qed

text \<open>The hypotheses hold for a service whose curve has one address.\<close>

lemma kms_signs_example:
  "\<exists>sig c. kms_signDigest \<lparr> ks_public_key = Inr ''0xa'', ks_sign = (\<lambda>_. Inr (Some (der_signature 1 1))),
      recoverAddress = (\<lambda>_ _. Inr ''0xa'') \<rparr> (replicate 32 CHR 0x00) None = (Inr sig, c) \<and> sig_s sig \<le> SECP256K1_HALF_N"
proof -
  let ?k = "\<lparr> ks_public_key = Inr ''0xa'', ks_sign = (\<lambda>_. Inr (Some (der_signature 1 1))),
      recoverAddress = (\<lambda>_ _. Inr ''0xa'') \<rparr> :: kms"
  have "\<exists>sig c. kms_signDigest ?k (replicate 32 CHR 0x00) None = (Inr sig, c) \<and> sig_r sig = int 1 \<and> sig_s sig \<le> SECP256K1_HALF_N"
    by (rule kms_signs [where a = "''0xa''" and r = 1 and ?s0.0 = 1 and q = 0]) (simp_all add: SECP256K1_N_def)
  then show ?thesis by blast
qed

end
