(* ===== verification/Views.thy ===== *)
theory Views
  imports Ops Apps
begin

text \<open>
  What the dashboards and the public pages show: the summary of the apps (\<open>getAppSummary\<close> of
  \<open>src/src/store.ts\<close>), the page of an app of the registry and the smoke page that repeats its query
  (\<open>src/src/server.ts\<close>). The template on disk and the frame of the smoke pages are parameters. Groups
  of the summary query with equally many rows come in the order of their first row.
\<close>

section \<open>The summary of the apps\<close>

record app_summary =
  as_taskType :: string
  as_jobsTotal :: nat
  as_jobsOpen :: nat
  as_jobsClaimed :: nat
  as_jobsVerifying :: nat
  as_jobsDone :: nat
  as_pass :: nat
  as_fail :: nat
  as_inconclusive :: nat
  as_avgPayoutCents :: rat
  as_avgCompletionSec :: "rat option"
  as_totalPaidCents :: int
  as_distinctWorkersPaid :: nat
  as_avgPaidPerWorkerCents :: int

text \<open>A row of the query: a job with its bounty, and a payout of one of its submissions, if there is any.\<close>

type_synonym summary_row = "jobs_row \<times> bounties_row \<times> payouts_row option"

text \<open>\<open>paid\<close>: the payouts with the job of their submission.\<close>

definition paid_rows :: "db \<Rightarrow> (string \<times> payouts_row) list" where
  "paid_rows s =
     concat (map (\<lambda>p. map (\<lambda>x. (s_job_id x, p)) (filter (\<lambda>x. s_id x = p_submission_id p) (submissions s))) (payouts s))"

definition payouts_of_job :: "db \<Rightarrow> string \<Rightarrow> payouts_row option list" where
  "payouts_of_job s jid =
     (case filter (\<lambda>(i, _). i = jid) (paid_rows s) of
        [] \<Rightarrow> [None]
      | rows \<Rightarrow> map (\<lambda>(_, p). Some p) rows)"

definition job_bounty_rows :: "db \<Rightarrow> (jobs_row \<times> bounties_row) list" where
  "job_bounty_rows s =
     concat (map (\<lambda>j. map (\<lambda>b. (j, b)) (filter (\<lambda>b. b_id b = j_bounty_id j) (bounties s))) (jobs s))"

definition summary_rows :: "db \<Rightarrow> summary_row list" where
  "summary_rows s =
     concat (map (\<lambda>(j, b). map (\<lambda>p. (j, b, p)) (payouts_of_job s (j_id j))) (job_bounty_rows s))"

definition task_type_of :: "summary_row \<Rightarrow> string" where
  "task_type_of = (\<lambda>(j, b, _).
     case j_task_descriptor j of Some d \<Rightarrow> td_type d
     | None \<Rightarrow> (case b_task_descriptor b of Some d \<Rightarrow> td_type d | None \<Rightarrow> ''unknown''))"

definition average :: "rat list \<Rightarrow> rat option" where
  "average xs = (if xs = [] then None else Some (sum_list xs / of_nat (length xs)))"

definition math_round :: "rat \<Rightarrow> int" where
  "math_round q = \<lfloor>q + 1 / 2\<rfloor>"

definition paid_of :: "summary_row list \<Rightarrow> payouts_row list" where
  "paid_of g = concat (map (\<lambda>(_, _, p). case p of None \<Rightarrow> [] | Some p \<Rightarrow> if p_status p = PayoutPaid then [p] else []) g)"

definition completion_secs :: "summary_row list \<Rightarrow> rat list" where
  "completion_secs g =
     concat (map (\<lambda>(j, _, _). case j_done_at j of None \<Rightarrow> [] | Some t \<Rightarrow> [of_int (t - j_created_at j) / 1000]) g)"

definition summary_of :: "string \<Rightarrow> summary_row list \<Rightarrow> app_summary" where
  "summary_of k g =
     (let with_status = (\<lambda>st. count_where (\<lambda>(j, _, _). j_status j = st) g);
          with_verdict = (\<lambda>v. count_where (\<lambda>(j, _, _). j_final_verdict j = Some v) g);
          total_paid = sum_list (map p_amount_cents (paid_of g));
          paid_workers = length (remdups (map p_worker_id (paid_of g)))
      in \<lparr> as_taskType = k, as_jobsTotal = length g, as_jobsOpen = with_status JobOpen,
           as_jobsClaimed = with_status JobClaimed, as_jobsVerifying = with_status JobVerifying,
           as_jobsDone = with_status JobDone, as_pass = with_verdict Pass, as_fail = with_verdict Fail,
           as_inconclusive = with_verdict Inconclusive,
           as_avgPayoutCents = or_zero (average (map (\<lambda>(_, b, _). of_int (b_payout_cents b)) g)),
           as_avgCompletionSec = average (completion_secs g),
           as_totalPaidCents = total_paid, as_distinctWorkersPaid = paid_workers,
           as_avgPaidPerWorkerCents =
             (if paid_workers = 0 then 0 else math_round (of_int total_paid / of_nat paid_workers)) \<rparr>)"

definition getAppSummary :: "db \<Rightarrow> app_summary list" where
  "getAppSummary s =
     (let rows = summary_rows s
      in order_desc (\<lambda>a. int (as_jobsTotal a))
           (map (\<lambda>k. summary_of k (filter (\<lambda>r. task_type_of r = k) rows)) (remdups (map task_type_of rows))))"

section \<open>What the totals count\<close>

lemma count_where_length: "count_where P t = length (filter P t)"
  by (simp add: count_where_def)

lemma sum_list_insort: "sum_list (map f (insort_key k x xs)) = f x + (sum_list (map f xs) :: nat)"
  by (induction xs) auto

lemma sum_list_order_desc: "sum_list (map f (order_desc k xs)) = (sum_list (map f xs) :: nat)"
  unfolding order_desc_def by (induction xs) (simp_all add: sum_list_insort)

text \<open>The totals of the apps add up to the rows of the join.\<close>

lemma summary_total: "sum_list (map as_jobsTotal (getAppSummary s)) = length (summary_rows s)"
proof -
  have "sum_list (map as_jobsTotal (getAppSummary s))
      = sum_list (map (\<lambda>k. count_where (\<lambda>r. task_type_of r = k) (summary_rows s)) (remdups (map task_type_of (summary_rows s))))"
    by (simp add: getAppSummary_def Let_def sum_list_order_desc comp_def summary_of_def count_where_length)
  also have "\<dots> = length (summary_rows s)" by (rule group_total) auto
  finally show ?thesis .
qed

text \<open>So they count each job once where no job has more than one payout, and a job with several payouts as
  often as it has payouts.\<close>

lemma summary_rows_length:
  "length (summary_rows s) = sum_list (map (\<lambda>r. length (payouts_of_job s (j_id (fst r)))) (job_bounty_rows s))"
  by (simp add: summary_rows_def length_concat comp_def case_prod_beta)

lemma summary_counts_jobs:
  assumes "\<And>j. j \<in> set (jobs s) \<Longrightarrow> length (filter (\<lambda>(i, _). i = j_id j) (paid_rows s)) \<le> 1"
  shows "sum_list (map as_jobsTotal (getAppSummary s)) = length (job_bounty_rows s)"
proof -
  have "length (payouts_of_job s (j_id j)) = 1" if "(j, b) \<in> set (job_bounty_rows s)" for j b
  proof -
    have "j \<in> set (jobs s)" using that by (auto simp: job_bounty_rows_def)
    from assms [OF this] show ?thesis
      by (cases "filter (\<lambda>(i, _). i = j_id j) (paid_rows s)") (auto simp: payouts_of_job_def)
  qed
  then have "map (\<lambda>r. length (payouts_of_job s (j_id (fst r)))) (job_bounty_rows s) = map (\<lambda>_. 1) (job_bounty_rows s)"
    by (intro map_cong) auto
  then show ?thesis by (simp only: summary_total summary_rows_length sum_list_triv) simp
qed

section \<open>The page of an app\<close>

text \<open>The replacement of \<open>String.replace\<close> by a text: \<open>$$\<close>, \<open>$&\<close>, \<open>$`\<close> and \<open>$'\<close> are patterns.\<close>

fun expand_dollar :: "string \<Rightarrow> string \<Rightarrow> string \<Rightarrow> string \<Rightarrow> string" where
  "expand_dollar m before after (a # c # t) =
     (if a = CHR ''$'' \<and> c = CHR ''$'' then CHR ''$'' # expand_dollar m before after t
      else if a = CHR ''$'' \<and> c = CHR ''&'' then m @ expand_dollar m before after t
      else if a = CHR ''$'' \<and> c = CHR 0x60 then before @ expand_dollar m before after t
      else if a = CHR ''$'' \<and> c = CHR 0x27 then after @ expand_dollar m before after t
      else a # expand_dollar m before after (c # t))"
| "expand_dollar m before after t = t"

text \<open>\<open>text.replace(m, r)\<close>: the first occurrence; \<open>seen\<close> is what stands before the rest, reversed.\<close>

fun replace_first :: "string \<Rightarrow> string \<Rightarrow> string \<Rightarrow> string \<Rightarrow> string" where
  "replace_first m r seen [] = (if m = [] then expand_dollar m (rev seen) [] r else [])"
| "replace_first m r seen (c # t) =
     (if startsWith (c # t) m
      then expand_dollar m (rev seen) (drop (length m) (c # t)) r @ drop (length m) (c # t)
      else c # replace_first m r (c # seen) t)"

definition config_open :: string where
  "config_open = ''<script id='' @ [CHR 0x22] @ ''appConfig'' @ [CHR 0x22] @ '' type='' @ [CHR 0x22] @ ''application/json''
     @ [CHR 0x22] @ ''>''"

definition config_close :: string where
  "config_close = ''</script>''"

definition app_config :: "app_obj \<Rightarrow> json" where
  "app_config a =
     (let d = coalesce (Some (aj_defaultDescriptor a)) (Some (JObj []))
      in JObj ([(''title'', JStr (aj_name a)), (''titlePrefix'', JStr (aj_name a)),
                (''description'', JStr (or_blank (aj_description a))), (''taskType'', JStr (aj_taskType a)),
                (''defaultCaps'', case jget ''capability_tags'' d of Some (JArr xs) \<Rightarrow> JArr xs | _ \<Rightarrow> JArr [])] @
               (case jget ''freshness_sla_sec'' d of Some (JNum n) \<Rightarrow> [(''defaultFreshnessSlaSec'', JNum n)] | _ \<Rightarrow> []) @
               [(''defaultInputSpec'', the (coalesce (jget ''input_spec'' d) (Some (JObj [])))),
                (''defaultOutputSpec'', the (coalesce (jget ''output_spec'' d) (Some (JObj []))))]))"

text \<open>\<open>None\<close> is the 404.\<close>

definition renderRegistryAppPage :: "(rat \<Rightarrow> string) \<Rightarrow> string \<Rightarrow> string \<Rightarrow> db \<Rightarrow> string option" where
  "renderRegistryAppPage ft template slug s =
     (case getPublicAppBySlug slug s of
        None \<Rightarrow> None
      | Some a \<Rightarrow> Some (replace_first (config_open @ ''{}'' @ config_close)
          (config_open @ json_stringify ft (app_config a) @ config_close) [] template))"

text \<open>The smoke page of a finished form repeats the first 120 characters of its query; \<open>frame\<close> puts a
  body into the page.\<close>

definition smoke_done :: "(string \<Rightarrow> string) \<Rightarrow> string \<Rightarrow> string \<Rightarrow> json option \<Rightarrow> string" where
  "smoke_done frame before after q = frame (before @ take 120 (or_blank (jstr q)) @ after)"

section \<open>Names end the configuration element\<close>

lemma expand_dollar_none: "CHR ''$'' \<notin> set r \<Longrightarrow> expand_dollar m before after r = r"
  by (induction m before after r rule: expand_dollar.induct) auto

lemma replace_first_at:
  assumes "CHR ''$'' \<notin> set r" and "m \<noteq> []" and "\<And>u v. pre = u @ v \<Longrightarrow> v \<noteq> [] \<Longrightarrow> \<not> startsWith (v @ m @ post) m"
  shows "replace_first m r seen (pre @ m @ post) = pre @ r @ post"
  using assms(3)
proof (induction pre arbitrary: seen)
  case Nil
  obtain c t where m: "m = c # t" using assms(2) by (cases m) auto
  then show ?case using expand_dollar_none [OF assms(1)] by simp
next
  case (Cons c pre)
  have "\<not> startsWith ((c # pre) @ m @ post) m" using Cons.prems [of "[]"] by simp
  moreover have "replace_first m r (c # seen) (pre @ m @ post) = pre @ r @ post"
    by (rule Cons.IH) (use Cons.prems in fastforce)
  ultimately show ?case by simp
qed

text \<open>Characters that \<open>JSON.stringify\<close> leaves alone.\<close>

definition json_plain :: "char \<Rightarrow> bool" where
  "json_plain c \<longleftrightarrow> json_escape c = [c]"

lemma json_quote_infix: "list_all json_plain t \<Longrightarrow> \<exists>u v. json_quote (a @ t @ b) = u @ t @ v"
proof -
  assume "list_all json_plain t"
  then have "concat (map json_escape t) = t" by (induction t) (auto simp: json_plain_def)
  then have "json_quote (a @ t @ b) = ([CHR 0x22] @ concat (map json_escape a)) @ t @ concat (map json_escape b) @ [CHR 0x22]"
    by (simp add: json_quote_def)
  then show ?thesis by blast
qed

text \<open>The configuration is not escaped for HTML: if the name of an app contains \<open></script>\<close>, the element ends
  inside of it, and the rest of the name is markup of the page.\<close>

lemma app_name_is_markup:
  assumes a: "getPublicAppBySlug slug s = Some a" and nm: "aj_name a = x @ config_close @ y"
    and tpl: "template = pre @ (config_open @ ''{}'' @ config_close) @ post"
      "\<And>u v. pre = u @ v \<Longrightarrow> v \<noteq> [] \<Longrightarrow> \<not> startsWith (v @ (config_open @ ''{}'' @ config_close) @ post) (config_open @ ''{}'' @ config_close)"
    and dollar: "CHR ''$'' \<notin> set (json_stringify ft (app_config a))"
  shows "\<exists>u v. renderRegistryAppPage ft template slug s = Some (pre @ config_open @ u @ config_close @ v)"
proof -
  let ?json = "json_stringify ft (app_config a)"
  have "list_all json_plain config_close"
    by (simp add: config_close_def json_plain_def json_escape_def Let_def)
  from json_quote_infix [OF this, of x y] obtain u v where q: "json_quote (aj_name a) = u @ config_close @ v"
    unfolding nm by blast
  obtain fs where c: "app_config a = JObj ((''title'', JStr (aj_name a)) # fs)"
    by (simp add: app_config_def Let_def)
  have "\<exists>w. ?json = (''{'' @ json_quote ''title'' @ '':'' @ u) @ config_close @ w"
    unfolding c by (simp add: join_def q)
  then obtain u' w where j: "?json = u' @ config_close @ w" by blast
  have "CHR ''$'' \<notin> set (config_open @ ?json @ config_close)"
    using dollar by (simp add: config_open_def config_close_def)
  from replace_first_at [OF this _ tpl(2)] have
    "renderRegistryAppPage ft template slug s = Some (pre @ config_open @ u' @ config_close @ w @ config_close @ post)"
    by (simp add: renderRegistryAppPage_def a tpl(1) j config_open_def)
  then show ?thesis by blast
qed

end
