(* ===== verification/Spec2Isabelle.thy ===== *)
theory Spec2Isabelle
  imports Prelude Schema Fees Outbox Billing Origins Objects Apps Bounties Payouts Disputes Jobs RateLimit Auth
    ArtifactSafety Pipeline Json Descriptors Intake BuyerRoutes Settings Gate Corpus Similar Ingest
    Judge JudgeSafety AgentSafety Ops Preflight Signer Views
begin

text \<open>
  A verification development of the Proofwork server (openunion): organisations publish paid bounties
  for browser tasks, workers lease jobs and submit evidence, verifiers judge it, and accepted work is
  paid out after a dispute window. The server (\<open>src/src/server.ts\<close>) and its workers
  (\<open>src/workers\<close>) share one PostgreSQL database through \<open>src/src/store.ts\<close>, and pass work to each
  other through an outbox table.

  The model is one store (record \<open>db\<close> of theory \<open>Schema\<close>), with a list of row records per table, and a
  definition per operation, from the arguments of the TypeScript function and the store to its answer
  and the store it leaves. Errors are values: \<open>err + 'a\<close> where the code throws, \<open>Reject code name\<close>
  where a route answers with an error. What runs in a database transaction leaves the store unchanged
  when it fails; what does not keeps the statements done before the failure. Clocks (\<open>now\<close>, in
  milliseconds), generated ids (\<open>gen i\<close> is the i-th id an operation draws), environment variables and
  every external service are arguments. Cents are unbounded integers, with the \<open>INTEGER\<close> range
  checked where a column is written; rates are exact rationals, and \<open>jsnum\<close> is a JavaScript number with
  its infinities and NaN.

  Theories, in the order of their dependencies:
  \<^item> \<open>Prelude\<close>: the operations on tables (find, update, insert with conflict clause, sort, paginate),
    results, JavaScript strings and numbers. \<open>Schema\<close>: statuses, rows, the store
    (\<open>src/src/types.ts\<close>, \<open>src/src/db/types.ts\<close>).
  \<^item> \<open>Fees\<close>: fee split, unit conversion, calldata, JSON-RPC retries (\<open>src/src/payments/crypto/baseUsdc.ts\<close>).
  \<^item> \<open>Outbox\<close>: the queue of \<open>src/workers/outbox-lib.ts\<close>; its locale \<open>outbox_consumer\<close> states what an
    invariant needs to survive a worker's turns.
  \<^item> \<open>Billing\<close>: accounts, entries, top-ups, the Stripe webhook. Its locale \<open>ledger_state\<close> is the interface
    through which every other component moves money; the components add their lemmas to it.
  \<^item> \<open>Origins\<close>, \<open>Apps\<close>: verified origins, blocked domains, the app registry. \<open>Objects\<close>: the API objects
    and their rows. \<open>Bounties\<close>, \<open>Jobs\<close>, \<open>Payouts\<close>, \<open>Disputes\<close>: the life of a bounty, its jobs and leases,
    its payouts and the disputes on them, with their routes and handlers.
  \<^item> \<open>RateLimit\<close>, \<open>Auth\<close>: token buckets; passwords, API keys, sessions and the authentication hooks.
  \<^item> \<open>Encoding\<close>, \<open>Scanner\<close>, \<open>Artifacts\<close>: decodings of the runtime, the upload scanner, and uploads,
    downloads, scanning, quarantine and retention as programs over the store and the stored bytes.
    \<open>ArtifactSafety\<close> holds what they guarantee.
  \<^item> \<open>Json\<close>, \<open>Descriptors\<close>: JSON values and their conversions; the task-descriptor schema
    (\<open>src/src/schemas.ts\<close>) and the gates on descriptors. \<open>Intake\<close>: the route that creates a bounty, and
    the descriptors of the system apps. \<open>BuyerRoutes\<close>: the app registry, moderation, origin requests,
    API keys, disputes and worker registration as routes.
  \<^item> \<open>Settings\<close>: an organisation's platform fee, browser origins and quotas, and the searches by id.
    \<open>Gate\<close>: the fail-fast checks of the configuration, the hook that decides about foreign browser
    origins and plain HTTP, with its caches, and the security headers.
  \<^item> \<open>Corpus\<close>, \<open>Similar\<close>, \<open>Ingest\<close>: the GitHub corpus. Its tables, reuse policy and search
    (\<open>src/src/intel\<close>); the similarity, reuse-plan and provenance routes; the event batches of workers
    and the ingestion runner (\<open>src/workers/github-ingest-runner.ts\<close>).
  \<^item> \<open>Verification\<close>: submit, claim and verdict routes, admin overrides, the verification runner;
    \<open>VerificationSafety\<close> holds what they guarantee.
  \<^item> \<open>Judge\<close>: the verifier gateway (\<open>src/services/verifier-gateway/server.ts\<close>), its client
    (\<open>src/src/verification/gateway.ts\<close>) and the runner that judges with it; \<open>JudgeSafety\<close> holds what a pass
    and a payment of this composition mean.
  \<^item> \<open>Agent\<close>, \<open>AgentNet\<close>, \<open>AgentBrowser\<close>, \<open>AgentFlow\<close>, \<open>AgentSources\<close>, \<open>AgentOutputs\<close>, \<open>AgentLoop\<close>: the
    universal worker (\<open>src/integrations/openclaw/extensions/proofwork-worker/assets/proofwork_worker.mjs\<close>), a
    program that makes calls and may throw, over a history of its calls: policy and the test of offers;
    requests, uploads, submission; the browser and its command line; the script of a descriptor; data
    sources; data files, clips and reports; health, refusals and the turns of its loop. \<open>AgentSafety\<close> proves
    in the locale \<open>worker_policy\<close>, module by module, which calls it can make, and interprets the locale on the
    policy for urls and on that for typed values.
  \<^item> \<open>Ops\<close>: counters and gauges (\<open>src/src/metrics.ts\<close>, \<open>src/workers/ops-metrics-runner.ts\<close>), whose totals
    are shown to be those of the tables, and the alarm inbox (\<open>src/workers/alarm-inbox-runner.ts\<close>), which
    records a redelivered alarm exactly once. \<open>Preflight\<close>: the check of a payout configuration before a
    release (\<open>src/src/ops/payoutPreflight.ts\<close> and its script), with the exact condition under which it passes.
  \<^item> \<open>Signer\<close>: the signatures of payout transactions (\<open>src/src/payments/crypto/kmsSigner.ts\<close> and the
    local key): the DER decoder inverts the encoding, and what is signed is canonical and recovers to
    the address of the signer. \<open>Views\<close>: the summary of the apps and the page of an app.
  \<^item> \<open>System\<close>: one step relation over the requests and worker turns of the components, the laws that
    every run keeps (locale \<open>system_law\<close>, of which \<open>ledger_state\<close> is a sublocale), and the abstract bank.
    \<open>Pipeline\<close>: from an accepted verdict to the payment. This theory: the properties of the system.

  What the lemmas show: the ledger balances and refines a bank in every reachable state; budgets are
  reserved and released once and spend limits hold; leases are exclusive and the scheduler offers the
  best eligible job; a submission is recorded once, judged a bounded number of times, and paid once,
  only after a valid pass, in amounts that add up; a dispute freezes its payout and a refund happens
  once; the outbox hands an event to one worker at a time and retries a bounded number of times;
  origins are verified only with proof, and a bounty is created only with origins, a task type and a
  descriptor that pass the gates; uploads are served only when scanned and authorised; requests
  are authentic, and a foreign browser origin passes only while its organisation lists it; a similarity
  search offers the best admissible repositories; paid work has the evidence its descriptor requires; the
  worker stays on the origins of its job and types no secret. Properties of kind \<open>error\<close> state, with a
  concrete run as witness, behaviour that the surrounding code or its comments do not intend.

  Bounds: no fuel is used. The loops of the code are recursion over the finite lists they iterate
  (batches, jobs, urls, retries) or over the number of tries the code allows itself (four requests per
  fetch, one request a second for a scan); the outbox loop is one turn per step of the system, and the loop
  of the worker one turn per step of \<open>agent_run\<close>.

  Not modelled: the fixed pages and the static files of the server, migrations and seeds,
  the browser interfaces, the plugin that starts the universal worker and the older client-side agents,
  the other scripts, the Solidity contract and the infrastructure. Concurrency is modelled at the
  granularity of a request or a worker's turn, except where the code itself guards it (leases, outbox
  claims, rate limits), which are single transactions in the code.
\<close>

section \<open>The system keeps its books\<close>

text \<open>C1. The ledger always balances: in every state the system can reach, whatever requests and worker
  turns led there, each organisation has at most one account and its balance is its opening balance
  plus the sum of its ledger entries.\<close>

theorem ledger_always_balances:
  assumes "reachable s t" and "ledger_ok seed s" and "a \<in> set (billing_accounts t)"
  shows "ba_balance_cents a = seed (ba_id a) + ledger_sum (ba_id a) (billing_events t) \<and>
    (\<forall>b\<in>set (billing_accounts t). ba_org_id b = ba_org_id a \<longrightarrow> b = a)"
proof -
  have ok: "ledger_ok seed t" using assms(1,2) by (rule ledger.reachable_law)
  then have "b = a" if "b \<in> set (billing_accounts t)" "ba_org_id b = ba_org_id a" for b
    using assms(3) that by (auto simp: ledger_ok_def accounts_ok_def distinct_map dest: inj_onD)
  with ok assms(3) show ?thesis by (simp add: ledger_ok_def balanced_def)
qed

definition topped_up :: db where
  "topped_up = snd (admin_topup example_gen 5 ''o1'' (Fin 100) empty_db)"

lemma topped_up_reachable: "reachable empty_db topped_up"
  unfolding topped_up_def by (rule reachable_step [OF system_step.topup reachable_refl])

lemma topped_up_tables:
  "billing_accounts topped_up = [(new_account ''o1'' 5)\<lparr>ba_balance_cents := 100\<rparr>]"
  "map be_amount_cents (billing_events topped_up) = [100]"
  "disputes topped_up = []"
  by (simp_all add: topped_up_def admin_topup_def ensureAccount_def insert_do_nothing_def account_of_def empty_db_def
      new_account_def int_of_num_def post_entry_def change_balance_def add_event_def new_event_def int4_def
      writeAuditEvent_def Let_def)

theorem ledger_always_balances_witness:
  "\<exists>a. billing_accounts topped_up = [a] \<and> ba_balance_cents a = ledger_sum (ba_id a) (billing_events topped_up)"
proof -
  have "ledger_ok (\<lambda>_. 0) empty_db" by (simp add: ledger_ok_def accounts_ok_def balanced_def empty_db_def)
  from ledger_always_balances [OF topped_up_reachable this, of "(new_account ''o1'' 5)\<lparr>ba_balance_cents := 100\<rparr>"]
  show ?thesis by (simp add: topped_up_tables)
qed

text \<open>C7. The ledger stays well-typed: in every reachable state accounts have their derived ids,
  balances are non-negative and fit the \<open>INTEGER\<close> column, and every entry fits it and belongs to an
  account.\<close>

theorem ledger_stays_typed:
  assumes "reachable s t" and "ledger_typed s"
  shows "ledger_typed t"
  using assms by (rule typed.reachable_law)

theorem ledger_stays_typed_witness: "ledger_typed topped_up \<and> int4 100"
proof -
  have "ledger_typed empty_db" by (simp add: ledger_typed_def accounts_ok_def empty_db_def)
  from ledger_stays_typed [OF topped_up_reachable this] show ?thesis by (simp add: int4_def)
qed

text \<open>C2. The system refines an abstract bank: whatever the system does, its accounts and entries
  change as those of a bank that opens accounts empty, credits them, and debits them only when the
  balance covers it, entering each movement in an append-only journal.\<close>

theorem system_refines_bank:
  assumes "reachable s t" and "accounts_ok (billing_accounts s)"
  shows "bank_step\<^sup>*\<^sup>* (books_of s) (books_of t)"
proof -
  have "accounts_ok (billing_accounts s) \<and> bank_step\<^sup>*\<^sup>* (books_of s) (books_of s)" using assms(2) by simp
  with assms(1) show ?thesis using bank.reachable_law [of s t "books_of s"] by blast
qed

theorem system_refines_bank_witness:
  "bank_step\<^sup>*\<^sup>* \<lparr> bk_balance = Map.empty, bk_journal = [] \<rparr> (books_of topped_up) \<and>
   bk_balance (books_of topped_up) (acct_id ''o1'') = Some 100 \<and> map snd (bk_journal (books_of topped_up)) = [100]"
proof -
  have "books_of empty_db = \<lparr> bk_balance = Map.empty, bk_journal = [] \<rparr>" by (simp add: books_of_def empty_db_def)
  moreover have "bk_balance (books_of topped_up) (acct_id ''o1'') = Some 100" "map snd (bk_journal (books_of topped_up)) = [100]"
    using topped_up_tables(2) by (simp_all add: books_of_def topped_up_tables(1) new_account_def comp_def)
  moreover have "accounts_ok (billing_accounts empty_db)" by (simp add: accounts_ok_def empty_db_def)
  ultimately show ?thesis using system_refines_bank [OF topped_up_reachable] by simp
qed

text \<open>C6. A payout never has two open disputes: opening, cancelling, resolving, the automatic refund
  of the payout runner and every other request and worker turn keep it so.\<close>

theorem disputes_stay_unique:
  assumes "reachable s t" and "one_open s"
  shows "count_where (open_dispute_on pid) (disputes t) \<le> 1"
  using open_disputes.reachable_law [OF assms] by (simp add: one_open_def)

theorem disputes_stay_unique_witness:
  "\<exists>d t. createDispute example_gen 5 ''o1'' (Some ''p1'') None ''bad'' (''org'', None) example_dispute_store = Inr (d, t) \<and>
     count_where (open_dispute_on ''p1'') (disputes t) \<le> 1"
proof -
  have "one_open example_dispute_store" by (simp add: one_open_def dispute_eval)
  moreover obtain d t where
    "createDispute example_gen 5 ''o1'' (Some ''p1'') None ''bad'' (''org'', None) example_dispute_store = Inr (d, t)"
    using example_dispute_opened by metis
  moreover from this have "reachable example_dispute_store t"
    by (rule reachable_step [OF system_step.open_dispute reachable_refl])
  ultimately show ?thesis using disputes_stay_unique by blast
qed

end
